(* ===== verification/Prelude.thy ===== *)
theory Prelude
  imports Main "HOL-Library.Signed_Division"
begin

section \<open>Shared vocabulary: Go integers, tables as lists of rows, proof collections\<close>

text \<open>
  What every component theory uses.  Go's fixed-width integers are kept as \<open>int\<close> values that
  are wrapped back into range after every operation that can leave it (\<open>i64\<close>, \<open>i32\<close>);
  Go's division and remainder truncate towards zero (\<open>sdiv\<close>, \<open>smod\<close>).  A database table is
  the list of its rows in insertion order: a SELECT is \<open>filter\<close> or \<open>List.find\<close>, an UPDATE is
  \<open>upd_rows\<close>, an INSERT appends after its key check.
\<close>

named_theorems store_defs \<open>definitions of the operations of a store, unfolded together\<close>
named_theorems inv_intros \<open>preservation lemmas of a component invariant\<close>

subsection \<open>Fixed-width integers\<close>

type_synonym int64 = int
type_synonym int32 = int

definition i64 :: "int \<Rightarrow> int" where
  "i64 x = signed_take_bit 63 x"

definition i32 :: "int \<Rightarrow> int" where
  "i32 x = signed_take_bit 31 x"

definition in_i64 :: "int \<Rightarrow> bool" where
  "in_i64 x \<longleftrightarrow> - 9223372036854775808 \<le> x \<and> x \<le> 9223372036854775807"

definition in_i32 :: "int \<Rightarrow> bool" where
  "in_i32 x \<longleftrightarrow> - 2147483648 \<le> x \<and> x \<le> 2147483647"

lemma i64_id [simp]: "in_i64 x \<Longrightarrow> i64 x = x"
  unfolding i64_def in_i64_def by (rule signed_take_bit_int_eq_self) auto

lemma i32_id [simp]: "in_i32 x \<Longrightarrow> i32 x = x"
  unfolding i32_def in_i32_def by (rule signed_take_bit_int_eq_self) auto

lemma i64_add: "i64 (i64 a + b) = i64 (a + b)" "i64 (a + i64 b) = i64 (a + b)"
  unfolding i64_def by (metis signed_take_bit_add signed_take_bit_signed_take_bit min.idem)+

lemma i64_of_i64: "i64 (i64 a) = i64 a"
  using i64_add(1) [of a 0] by simp

lemma in_i64_i64 [simp]: "in_i64 (i64 x)"
  using signed_take_bit_int_greater_eq_minus_exp [of 63 x] signed_take_bit_int_less_exp [of 63 x]
  by (simp add: i64_def in_i64_def)

lemma in_i32_i32 [simp]: "in_i32 (i32 x)"
  using signed_take_bit_int_greater_eq_minus_exp [of 31 x] signed_take_bit_int_less_exp [of 31 x]
  by (simp add: i32_def in_i32_def)

lemma in_i32_in_i64: "in_i32 x \<Longrightarrow> in_i64 x"
  by (simp add: in_i32_def in_i64_def)

lemma i64_between: "in_i64 x \<Longrightarrow> 0 \<le> y \<Longrightarrow> y \<le> x \<Longrightarrow> i64 y = y"
  by (rule i64_id) (auto simp: in_i64_def)

subsection \<open>Truncating division\<close>

lemma sdiv_nonneg: "0 \<le> a \<Longrightarrow> 0 < b \<Longrightarrow> (a::int) sdiv b = a div b"
  by (cases "a = 0") (simp_all add: signed_divide_int_def)

lemma smod_abs_less: "0 < b \<Longrightarrow> \<bar>(a::int) smod b\<bar> < b"
  using smod_int_range [where a = a and b = b] by auto

subsection \<open>Tables\<close>

definition upd_rows :: "('r \<Rightarrow> bool) \<Rightarrow> ('r \<Rightarrow> 'r) \<Rightarrow> 'r list \<Rightarrow> 'r list" where
  "upd_rows P f t = map (\<lambda>r. if P r then f r else r) t"

lemma upd_rows_Nil [simp]: "upd_rows P f [] = []"
  by (simp add: upd_rows_def)

lemma upd_rows_Cons [simp]:
  "upd_rows P f (r # t) = (if P r then f r else r) # upd_rows P f t"
  by (simp add: upd_rows_def)

lemma upd_rows_append [simp]: "upd_rows P f (s @ t) = upd_rows P f s @ upd_rows P f t"
  by (simp add: upd_rows_def)

lemma length_upd_rows [simp]: "length (upd_rows P f t) = length t"
  by (simp add: upd_rows_def)

lemma in_upd_rows: "r \<in> set (upd_rows P f t) \<longleftrightarrow> (\<exists>s\<in>set t. r = (if P s then f s else s))"
  by (auto simp: upd_rows_def)

lemma upd_rows_none: "(\<And>r. r \<in> set t \<Longrightarrow> \<not> P r) \<Longrightarrow> upd_rows P f t = t"
  by (induction t) auto

lemma map_upd_rows: "(\<And>r. P r \<Longrightarrow> g (f r) = g r) \<Longrightarrow> map g (upd_rows P f t) = map g t"
  by (induction t) auto

lemma image_upd_rows: "(\<And>r. P r \<Longrightarrow> g (f r) = g r) \<Longrightarrow> g ` set (upd_rows P f t) = g ` set t"
  using arg_cong [OF map_upd_rows [of P g f t], of set] by simp

lemma find_in_set: "List.find P t = Some r \<Longrightarrow> r \<in> set t \<and> P r"
  by (auto simp: find_Some_iff)

lemma find_upd_rows_same:
  assumes "\<And>r. P r \<Longrightarrow> P (f r)"
  shows "List.find P (upd_rows P f t) = map_option f (List.find P t)"
  using assms by (induction t) auto

lemma find_upd_rows_other:
  assumes "\<And>r. P r \<Longrightarrow> \<not> Q r" "\<And>r. P r \<Longrightarrow> \<not> Q (f r)"
  shows "List.find Q (upd_rows P f t) = List.find Q t"
  using assms by (induction t) auto

lemma find_append:
  "List.find P (s @ t) = (case List.find P s of None \<Rightarrow> List.find P t | Some r \<Rightarrow> Some r)"
  by (induction s) auto

lemma find_key_unique:
  assumes "distinct (map key t)" "r \<in> set t" "key r = k"
  shows "List.find (\<lambda>r. key r = k) t = Some r"
  using assms by (induction t) force+

lemma find_key_None: "List.find (\<lambda>r. key r = k) t = None \<longleftrightarrow> k \<notin> key ` set t"
  by (auto simp: find_None_iff)

lemma distinct_map_inj: "distinct (map key t) \<Longrightarrow> r \<in> set t \<Longrightarrow> s \<in> set t \<Longrightarrow> key r = key s \<Longrightarrow> r = s"
  by (auto simp: distinct_map inj_on_def)

lemma filter_key_unique:
  assumes "distinct (map key t)" "r \<in> set t"
  shows "filter (\<lambda>x. key x = key r) t = [r]"
proof -
  obtain l m where t: "t = l @ r # m" using split_list [OF assms(2)] by blast
  then have "filter (\<lambda>x. key x = key r) l = []" "filter (\<lambda>x. key x = key r) m = []"
    using assms(1) by (auto simp: filter_empty_conv image_iff)
  then show ?thesis by (simp add: t)
qed

subsection \<open>Sums over rows\<close>

lemma sum_list_upd_one:
  fixes g :: "'r \<Rightarrow> int"
  assumes "distinct (map key t)" "r \<in> set t"
  shows "sum_list (map g (upd_rows (\<lambda>s. key s = key r) f t)) = sum_list (map g t) - g r + g (f r)"
  using assms
proof (induction t)
  case Nil
  then show ?case by simp
next
  case (Cons s t)
  show ?case
  proof (cases "s = r")
    case True
    with Cons.prems have "upd_rows (\<lambda>s. key s = key r) f t = t"
      by (intro upd_rows_none) (auto simp: image_iff)
    with True show ?thesis by simp
  next
    case False
    with Cons show ?thesis by force
  qed
qed

lemma sum_list_nonneg_int: "(\<And>x. x \<in> set xs \<Longrightarrow> (0::int) \<le> g x) \<Longrightarrow> 0 \<le> sum_list (map g xs)"
  by (induction xs) force+

lemma sum_list_member_le:
  fixes g :: "'r \<Rightarrow> int"
  assumes "\<And>x. x \<in> set xs \<Longrightarrow> 0 \<le> g x" "y \<in> set xs"
  shows "g y \<le> sum_list (map g xs)"
  using assms
proof (induction xs)
  case Nil
  then show ?case by simp
next
  case (Cons x xs)
  have "0 \<le> g x" "0 \<le> sum_list (map g xs)"
    using Cons.prems(1) by (auto intro!: sum_list_nonneg_int)
  moreover have "y \<in> set xs \<Longrightarrow> g y \<le> sum_list (map g xs)"
    using Cons.IH Cons.prems(1) by simp
  ultimately show ?case using Cons.prems(2) by auto
qed

end
