(* ===== verification/Errs.thy ===== *)
theory Errs
  imports Prelude
begin

section \<open>The error taxonomy (pkg/errs)\<close>

text \<open>
  \<open>errs.Kind\<close> and its two tables (gRPC code, HTTP status), the error values the services build,
  and the two conversions at the boundaries: \<open>ToStatus\<close> where a gRPC handler returns
  and \<open>FromGRPC\<close> where the BFF answers.  Of an \<open>errs.Error\<close> the model keeps the kind, the reason
  and the wrapped cause; the message and the metadata are written to logs only and never compared.
  The other constructors are the errors of the Go libraries the code tests for: \<open>pgx.ErrNoRows\<close>,
  a \<open>PgError\<close> with its SQLSTATE code, a broken connection, a gRPC status received from a peer, an
  answer of OpenFGA with its HTTP status and message (pkg/fga's \<open>*Error\<close>),
  and a plain \<open>errors.New\<close> value.
\<close>

datatype err_kind =
    KindInternal | KindInvalidArgument | KindNotFound | KindAlreadyExists | KindPermissionDenied
  | KindUnauthenticated | KindFailedPrecondition | KindConflict | KindResourceExhausted
  | KindUnavailable | KindDeadlineExceeded

datatype grpc_code =
    OK | Canceled | Unknown | InvalidArgument | DeadlineExceeded | NotFound | AlreadyExists
  | PermissionDenied | ResourceExhausted | FailedPrecondition | Aborted | OutOfRange
  | Unimplemented | Internal | Unavailable | DataLoss | Unauthenticated

datatype go_err =
    DomErr err_kind string "go_err option"
  | NoRows
  | PgError string
  | ConnErr
  | StatusErr grpc_code string
  | FgaErr int string
  | PlainErr string

type_synonym 'a res = "go_err + 'a"

definition errs_New :: "err_kind \<Rightarrow> string \<Rightarrow> go_err" where
  "errs_New k reason = DomErr k reason None"

definition errs_Wrap :: "go_err \<Rightarrow> err_kind \<Rightarrow> string \<Rightarrow> go_err" where
  "errs_Wrap cause k reason = DomErr k reason (Some cause)"

fun GRPCCode :: "err_kind \<Rightarrow> grpc_code" where
  "GRPCCode KindInvalidArgument = InvalidArgument"
| "GRPCCode KindNotFound = NotFound"
| "GRPCCode KindAlreadyExists = AlreadyExists"
| "GRPCCode KindPermissionDenied = PermissionDenied"
| "GRPCCode KindUnauthenticated = Unauthenticated"
| "GRPCCode KindFailedPrecondition = FailedPrecondition"
| "GRPCCode KindConflict = Aborted"
| "GRPCCode KindResourceExhausted = ResourceExhausted"
| "GRPCCode KindUnavailable = Unavailable"
| "GRPCCode KindDeadlineExceeded = DeadlineExceeded"
| "GRPCCode KindInternal = Internal"

fun HTTPStatus :: "err_kind \<Rightarrow> int" where
  "HTTPStatus KindInvalidArgument = 400"
| "HTTPStatus KindUnauthenticated = 401"
| "HTTPStatus KindPermissionDenied = 403"
| "HTTPStatus KindNotFound = 404"
| "HTTPStatus KindAlreadyExists = 409"
| "HTTPStatus KindConflict = 409"
| "HTTPStatus KindFailedPrecondition = 412"
| "HTTPStatus KindResourceExhausted = 429"
| "HTTPStatus KindUnavailable = 503"
| "HTTPStatus KindDeadlineExceeded = 504"
| "HTTPStatus KindInternal = 500"

text \<open>\<open>errors.As\<close> finds the outermost \<open>*Error\<close> of the chain; only \<open>*Error\<close> values wrap a cause.\<close>

fun errs_Is :: "go_err \<Rightarrow> err_kind \<Rightarrow> bool" where
  "errs_Is (DomErr k _ _) kind = (k = kind)"
| "errs_Is _ kind = False"

fun ToStatus :: "go_err option \<Rightarrow> grpc_code \<times> string" where
  "ToStatus None = (OK, '''')"
| "ToStatus (Some (DomErr k reason _)) = (GRPCCode k, reason)"
| "ToStatus (Some (StatusErr c m)) = (c, m)"
| "ToStatus (Some _) = (Internal, ''INTERNAL'')"

fun httpForCode :: "grpc_code \<Rightarrow> int" where
  "httpForCode OK = 200"
| "httpForCode InvalidArgument = 400"
| "httpForCode OutOfRange = 400"
| "httpForCode Unauthenticated = 401"
| "httpForCode PermissionDenied = 403"
| "httpForCode NotFound = 404"
| "httpForCode AlreadyExists = 409"
| "httpForCode Aborted = 409"
| "httpForCode FailedPrecondition = 412"
| "httpForCode ResourceExhausted = 429"
| "httpForCode Unavailable = 503"
| "httpForCode DeadlineExceeded = 504"
| "httpForCode Unimplemented = 501"
| "httpForCode _ = 500"

record http_error =
  he_status :: int
  he_code :: "grpc_code option"
  he_reason :: string

text \<open>\<open>FromGRPC\<close> on what a gRPC client call returned; the JSON code is the name of the gRPC code,
  kept as the code itself (\<open>None\<close> is the literal INTERNAL of the branch for a non-status error).\<close>

fun FromGRPC :: "go_err \<Rightarrow> http_error" where
  "FromGRPC (StatusErr c m) =
     \<lparr>he_status = httpForCode c, he_code = Some c,
      he_reason = (if c = Internal \<or> c = Unknown \<or> c = DataLoss then ''INTERNAL'' else m)\<rparr>"
| "FromGRPC _ = \<lparr>he_status = 500, he_code = None, he_reason = ''INTERNAL''\<rparr>"

text \<open>What a client of a gRPC service receives for an error its handler returned
  (\<open>loggingUnary\<close> turns it into the error of \<open>ToStatus\<close>).\<close>

definition over_wire :: "go_err \<Rightarrow> go_err" where
  "over_wire err = (case ToStatus (Some err) of (c, m) \<Rightarrow> StatusErr c m)"

lemma over_wire_simps [simp]:
  "over_wire (DomErr k r c) = StatusErr (GRPCCode k) r"
  "over_wire (StatusErr g m) = StatusErr g m"
  "over_wire NoRows = StatusErr Internal ''INTERNAL''"
  "over_wire (PgError s) = StatusErr Internal ''INTERNAL''"
  "over_wire ConnErr = StatusErr Internal ''INTERNAL''"
  "over_wire (PlainErr s) = StatusErr Internal ''INTERNAL''"
  "over_wire (FgaErr n s) = StatusErr Internal ''INTERNAL''"
  by (simp_all add: over_wire_def)

lemma errs_Is_simps [simp]:
  "errs_Is (errs_New k r) kind = (k = kind)"
  "errs_Is (errs_Wrap c k r) kind = (k = kind)"
  by (simp_all add: errs_New_def errs_Wrap_def)

lemma GRPCCode_not_OK [simp]: "GRPCCode k \<noteq> OK"
  by (cases k) auto

end
