(* ===== verification/Prog.thy ===== *)
theory Prog
  imports Errs
begin

section \<open>Effects: statements, transactions and remote calls that can fail\<close>

text \<open>
  A step of a service is a program over the state it reads and writes and an environment.  The
  environment holds what the code takes from outside: the clock, the identifiers the database or
  \<open>uuid.NewString\<close> draws, the library functions the code relies on (\<open>uuid.Parse\<close>, SHA-256, the
  RFC 3339 printer and parser of page tokens), and the faults the run meets.  Every database statement and every remote call draws one fault: \<open>Fine\<close> lets it through,
  \<open>Lost\<close> fails it before it takes effect, \<open>AckLost\<close> lets it take effect and loses the answer.  An
  empty fault list means no further fault.  A theorem about a program holds for every fault list
  unless it says otherwise.

  \<open>in_tx\<close> is the pattern \<open>tx := pool.Begin; defer tx.Rollback; ...; tx.Commit\<close>: the body says with
  \<open>Commit\<close> or \<open>Abort\<close> whether it reached \<open>tx.Commit\<close> or returned before it, and an error or an
  \<open>Abort\<close> leaves the state of the start.  A transaction runs at one point of an interleaving.
\<close>

datatype fault = Fine | Lost | AckLost

record env =
  now :: int
  faults :: "fault list"
  fresh :: "nat \<Rightarrow> string"
  drawn :: nat
  uuid_ok :: "string \<Rightarrow> bool"
  sha256_hex :: "string \<Rightarrow> string"
  parse_time :: "string \<Rightarrow> int option"
  fmt_time :: "int \<Rightarrow> string"

type_synonym ('d, 'a) prog = "'d \<Rightarrow> env \<Rightarrow> 'a res \<times> 'd \<times> env"

definition ret :: "'a \<Rightarrow> ('d, 'a) prog" where
  "ret a = (\<lambda>d e. (Inr a, d, e))"

definition fail :: "go_err \<Rightarrow> ('d, 'a) prog" where
  "fail x = (\<lambda>d e. (Inl x, d, e))"

definition bnd :: "('d, 'a) prog \<Rightarrow> ('a \<Rightarrow> ('d, 'b) prog) \<Rightarrow> ('d, 'b) prog" where
  "bnd m k = (\<lambda>d e. case m d e of (Inl x, d', e') \<Rightarrow> (Inl x, d', e') | (Inr a, d', e') \<Rightarrow> k a d' e')"

text \<open>The result of a call as a value, for code that inspects the error, and a call whose error is wrapped.\<close>

definition attempt :: "('d, 'a) prog \<Rightarrow> ('d, 'a res) prog" where
  "attempt m = (\<lambda>d e. case m d e of (r, d', e') \<Rightarrow> (Inr r, d', e'))"

definition map_err :: "(go_err \<Rightarrow> go_err) \<Rightarrow> ('d, 'a) prog \<Rightarrow> ('d, 'a) prog" where
  "map_err f m = (\<lambda>d e. case m d e of (Inl x, d', e') \<Rightarrow> (Inl (f x), d', e') | (Inr a, d', e') \<Rightarrow> (Inr a, d', e'))"

definition lift_res :: "'a res \<Rightarrow> ('d, 'a) prog" where
  "lift_res r = (\<lambda>d e. (r, d, e))"

definition asks :: "(env \<Rightarrow> 'a) \<Rightarrow> ('d, 'a) prog" where
  "asks f = (\<lambda>d e. (Inr (f e), d, e))"

definition new_uuid :: "('d, string) prog" where
  "new_uuid = (\<lambda>d e. (Inr (fresh e (drawn e)), d, e\<lparr>drawn := Suc (drawn e)\<rparr>))"

fun foreach :: "('a \<Rightarrow> ('d, unit) prog) \<Rightarrow> 'a list \<Rightarrow> ('d, unit) prog" where
  "foreach f [] = ret ()"
| "foreach f (x # xs) = bnd (f x) (\<lambda>_. foreach f xs)"

fun mapM :: "('a \<Rightarrow> ('d, 'b) prog) \<Rightarrow> 'a list \<Rightarrow> ('d, 'b list) prog" where
  "mapM f [] = ret []"
| "mapM f (x # xs) = bnd (f x) (\<lambda>y. bnd (mapM f xs) (\<lambda>ys. ret (y # ys)))"

subsection \<open>Faults\<close>

definition next_fault :: "env \<Rightarrow> fault \<times> env" where
  "next_fault e = (case faults e of [] \<Rightarrow> (Fine, e) | f # fs \<Rightarrow> (f, e\<lparr>faults := fs\<rparr>))"

definition stmt :: "('d, 'a) prog \<Rightarrow> ('d, 'a) prog" where
  "stmt p = (\<lambda>d e. case next_fault e of
       (Fine, e') \<Rightarrow> p d e'
     | (Lost, e') \<Rightarrow> (Inl ConnErr, d, e')
     | (AckLost, e') \<Rightarrow> (case p d e' of (_, d', e'') \<Rightarrow> (Inl ConnErr, d', e'')))"

definition query :: "(int \<Rightarrow> 'd \<Rightarrow> 'a) \<Rightarrow> ('d, 'a) prog" where
  "query f = stmt (\<lambda>d e. (Inr (f (now e) d), d, e))"

definition query_row :: "('d \<Rightarrow> 'a option) \<Rightarrow> ('d, 'a) prog" where
  "query_row f = stmt (\<lambda>d e. (case f d of None \<Rightarrow> Inl NoRows | Some a \<Rightarrow> Inr a, d, e))"

definition exec :: "(int \<Rightarrow> 'd \<Rightarrow> 'd) \<Rightarrow> ('d, unit) prog" where
  "exec f = stmt (\<lambda>d e. (Inr (), f (now e) d, e))"

text \<open>The first argument of the function is the time of the statement (\<open>now()\<close>).
  A statement the database may refuse: \<open>Inl\<close> is the error, with the state untouched.\<close>

definition exec_chk :: "(int \<Rightarrow> 'd \<Rightarrow> go_err + ('a \<times> 'd)) \<Rightarrow> ('d, 'a) prog" where
  "exec_chk f = stmt (\<lambda>d e. case f (now e) d of Inl x \<Rightarrow> (Inl x, d, e) | Inr (a, d') \<Rightarrow> (Inr a, d', e))"

text \<open>\<open>wrap\<close> of every Postgres store: a database error becomes an internal DB_ERROR.\<close>

definition wrap :: "go_err \<Rightarrow> go_err" where
  "wrap err = errs_Wrap err KindInternal ''DB_ERROR''"

definition uniqueViolation :: go_err where "uniqueViolation = PgError ''23505''"
definition checkViolation :: go_err where "checkViolation = PgError ''23514''"
definition outOfRange :: go_err where "outOfRange = PgError ''22003''"

subsection \<open>Transactions\<close>

datatype 'a fin = Commit 'a | Abort 'a

definition in_tx :: "('d, 'a fin) prog \<Rightarrow> ('d, 'a) prog" where
  "in_tx body = (\<lambda>d e. case next_fault e of
       (Fine, e1) \<Rightarrow>
         (case body d e1 of
            (Inl x, _, e2) \<Rightarrow> (Inl x, d, e2)
          | (Inr (Abort a), _, e2) \<Rightarrow> (Inr a, d, e2)
          | (Inr (Commit a), d2, e2) \<Rightarrow>
              (case next_fault e2 of
                 (Fine, e3) \<Rightarrow> (Inr a, d2, e3)
               | (Lost, e3) \<Rightarrow> (Inl (wrap ConnErr), d, e3)
               | (AckLost, e3) \<Rightarrow> (Inl (wrap ConnErr), d2, e3)))
     | (_, e1) \<Rightarrow> (Inl (wrap ConnErr), d, e1))"

subsection \<open>Remote calls\<close>

text \<open>A gRPC call: the handler runs on the callee's part of the state, its error comes back as a
  status, and the transport may lose the request or the reply.\<close>

definition unavailable :: go_err where
  "unavailable = StatusErr Unavailable ''TRANSPORT''"

definition zoom :: "('d \<Rightarrow> 'c) \<Rightarrow> (('c \<Rightarrow> 'c) \<Rightarrow> 'd \<Rightarrow> 'd) \<Rightarrow> ('c, 'a) prog \<Rightarrow> ('d, 'a) prog" where
  "zoom get upd m = (\<lambda>d e. case m (get d) e of (r, c, e') \<Rightarrow> (r, upd (\<lambda>_. c) d, e'))"

definition rpc :: "('d, 'a) prog \<Rightarrow> ('d, 'a) prog" where
  "rpc h = (\<lambda>d e. case next_fault e of
       (Fine, e') \<Rightarrow> map_err over_wire h d e'
     | (Lost, e') \<Rightarrow> (Inl unavailable, d, e')
     | (AckLost, e') \<Rightarrow> (case h d e' of (_, d', e'') \<Rightarrow> (Inl unavailable, d', e'')))"

subsection \<open>Reasoning about programs\<close>

text \<open>\<open>wp m Q d e\<close>: the run of \<open>m\<close> from \<open>d\<close> and \<open>e\<close> ends in a result, state and environment that
  satisfy \<open>Q\<close>.  Programs always return, so this is total correctness.\<close>

definition wp :: "('d, 'a) prog \<Rightarrow> ('a res \<Rightarrow> 'd \<Rightarrow> env \<Rightarrow> bool) \<Rightarrow> 'd \<Rightarrow> env \<Rightarrow> bool" where
  "wp m Q d e = (case m d e of (r, d', e') \<Rightarrow> Q r d' e')"

lemma wp_iff: "wp m Q d e \<longleftrightarrow> (\<forall>r d' e'. m d e = (r, d', e') \<longrightarrow> Q r d' e')"
  by (cases "m d e") (auto simp: wp_def)

lemma wpD: "wp m Q d e \<Longrightarrow> m d e = (r, d', e') \<Longrightarrow> Q r d' e'"
  by (simp add: wp_def)

lemma wp_mono: "wp m Q d e \<Longrightarrow> (\<And>r d' e'. Q r d' e' \<Longrightarrow> R r d' e') \<Longrightarrow> wp m R d e"
  by (simp add: wp_def split: prod.splits)

lemma wp_conj: "wp m Q d e \<Longrightarrow> wp m R d e \<Longrightarrow> wp m (\<lambda>r d' e'. Q r d' e' \<and> R r d' e') d e"
  by (simp add: wp_iff)

lemma wp_always: "(\<And>r d e. Q r d e) \<Longrightarrow> wp m Q d e"
  by (simp add: wp_def split: prod.splits)

lemma wp_ret [simp]: "wp (ret a) Q d e = Q (Inr a) d e"
  by (simp add: wp_def ret_def)

lemma wp_fail [simp]: "wp (fail x) Q d e = Q (Inl x) d e"
  by (simp add: wp_def fail_def)

lemma wp_bnd [simp]:
  "wp (bnd m k) Q d e =
     wp m (\<lambda>r d' e'. case r of Inl x \<Rightarrow> Q (Inl x) d' e' | Inr a \<Rightarrow> wp (k a) Q d' e') d e"
  by (simp add: wp_def bnd_def split: prod.splits sum.splits)

lemma wp_attempt [simp]: "wp (attempt m) Q d e = wp m (\<lambda>r. Q (Inr r)) d e"
  by (simp add: wp_def attempt_def split: prod.splits)

lemma wp_map_err [simp]:
  "wp (map_err f m) Q d e = wp m (\<lambda>r. Q (case r of Inl x \<Rightarrow> Inl (f x) | Inr a \<Rightarrow> Inr a)) d e"
  by (simp add: wp_def map_err_def split: prod.splits sum.splits)

lemma wp_lift_res [simp]: "wp (lift_res r) Q d e = Q r d e"
  by (simp add: wp_def lift_res_def)

lemma wp_asks [simp]: "wp (asks f) Q d e = Q (Inr (f e)) d e"
  by (simp add: wp_def asks_def)

lemma wp_new_uuid [simp]:
  "wp new_uuid Q d e = Q (Inr (fresh e (drawn e))) d (e\<lparr>drawn := Suc (drawn e)\<rparr>)"
  by (simp add: wp_def new_uuid_def)

lemma next_fault_cases:
  obtains (none) "faults e = []" "next_fault e = (Fine, e)"
  | (some) f fs where "faults e = f # fs" "next_fault e = (f, e\<lparr>faults := fs\<rparr>)"
  by (cases "faults e") (auto simp: next_fault_def)

lemma next_fault_env: "next_fault e = (f, e') \<Longrightarrow> \<exists>fs. e' = e\<lparr>faults := fs\<rparr>"
  by (cases e rule: next_fault_cases) (auto intro: exI [where x = "faults e"])

lemma next_fault_none [simp]: "faults e = [] \<Longrightarrow> next_fault e = (Fine, e)"
  by (simp add: next_fault_def)

text \<open>The introduction rules for statements: a lost statement, a lost answer, and the normal run.\<close>

lemma wp_stmtI:
  assumes "\<And>fs. Q (Inl ConnErr) d (e\<lparr>faults := fs\<rparr>)"
    and "\<And>fs. wp p (\<lambda>_. Q (Inl ConnErr)) d (e\<lparr>faults := fs\<rparr>)"
    and "\<And>fs. wp p Q d (e\<lparr>faults := fs\<rparr>)"
  shows "wp (stmt p) Q d e"
proof -
  obtain f e' where n: "next_fault e = (f, e')" by force
  then obtain fs where e': "e' = e\<lparr>faults := fs\<rparr>" using next_fault_env by blast
  show ?thesis
    using n assms [of fs] e'
    by (cases f) (auto simp: wp_def stmt_def split: prod.splits)
qed

lemma wp_queryI [intro]:
  assumes "\<And>fs. Q (Inl ConnErr) d (e\<lparr>faults := fs\<rparr>)" "\<And>fs. Q (Inr (f (now e) d)) d (e\<lparr>faults := fs\<rparr>)"
  shows "wp (query f) Q d e"
  unfolding query_def by (rule wp_stmtI) (use assms in \<open>auto simp: wp_def\<close>)

lemma wp_query_rowI [intro]:
  assumes "\<And>fs. Q (Inl ConnErr) d (e\<lparr>faults := fs\<rparr>)"
    and "\<And>fs. f d = None \<Longrightarrow> Q (Inl NoRows) d (e\<lparr>faults := fs\<rparr>)"
    and "\<And>a fs. f d = Some a \<Longrightarrow> Q (Inr a) d (e\<lparr>faults := fs\<rparr>)"
  shows "wp (query_row f) Q d e"
  unfolding query_row_def by (rule wp_stmtI) (use assms in \<open>auto simp: wp_def split: option.splits\<close>)

lemma wp_execI [intro]:
  assumes "\<And>fs. Q (Inl ConnErr) d (e\<lparr>faults := fs\<rparr>)" "\<And>fs. Q (Inl ConnErr) (f (now e) d) (e\<lparr>faults := fs\<rparr>)"
    and "\<And>fs. Q (Inr ()) (f (now e) d) (e\<lparr>faults := fs\<rparr>)"
  shows "wp (exec f) Q d e"
  unfolding exec_def by (rule wp_stmtI) (use assms in \<open>auto simp: wp_def\<close>)

lemma wp_exec_chkI [intro]:
  assumes "\<And>fs. Q (Inl ConnErr) d (e\<lparr>faults := fs\<rparr>)"
    and "\<And>x fs. f (now e) d = Inl x \<Longrightarrow> Q (Inl x) d (e\<lparr>faults := fs\<rparr>)"
    and "\<And>a d' fs. f (now e) d = Inr (a, d') \<Longrightarrow> Q (Inl ConnErr) d' (e\<lparr>faults := fs\<rparr>)"
    and "\<And>a d' fs. f (now e) d = Inr (a, d') \<Longrightarrow> Q (Inr a) d' (e\<lparr>faults := fs\<rparr>)"
  shows "wp (exec_chk f) Q d e"
  unfolding exec_chk_def by (rule wp_stmtI) (use assms in \<open>auto simp: wp_def split: sum.splits\<close>)

lemma wp_in_txI:
  assumes start: "\<And>fs. Q (Inl (wrap ConnErr)) d (e\<lparr>faults := fs\<rparr>)"
    and body: "\<And>fs. wp body (\<lambda>r d' e'. case r of
         Inl x \<Rightarrow> Q (Inl x) d e'
       | Inr (Abort a) \<Rightarrow> Q (Inr a) d e'
       | Inr (Commit a) \<Rightarrow> (\<forall>fs. Q (Inr a) d' (e'\<lparr>faults := fs\<rparr>)
            \<and> Q (Inl (wrap ConnErr)) d (e'\<lparr>faults := fs\<rparr>) \<and> Q (Inl (wrap ConnErr)) d' (e'\<lparr>faults := fs\<rparr>)))
         d (e\<lparr>faults := fs\<rparr>)"
  shows "wp (in_tx body) Q d e"
proof -
  obtain f e1 where n: "next_fault e = (f, e1)" by force
  then obtain fs where e1: "e1 = e\<lparr>faults := fs\<rparr>" using next_fault_env by blast
  obtain r d2 e2 where b: "body d e1 = (r, d2, e2)" by (cases "body d e1") auto
  obtain g e3 where n2: "next_fault e2 = (g, e3)" by force
  then obtain gs where e3: "e3 = e2\<lparr>faults := gs\<rparr>" using next_fault_env by blast
  show ?thesis
    using n start [of fs] body [of fs] e1 b n2 e3
    by (cases f; cases g) (auto simp: wp_def in_tx_def split: sum.splits fin.splits)
qed

text \<open>Invariants of a transaction: what the body establishes where it commits.\<close>

lemma wp_in_tx_invI:
  assumes "I d"
    and "\<And>fs. wp body (\<lambda>r d' e'. case r of Inr (Commit a) \<Rightarrow> I d' | _ \<Rightarrow> True) d (e\<lparr>faults := fs\<rparr>)"
  shows "wp (in_tx body) (\<lambda>_ d' _. I d') d e"
proof (rule wp_in_txI)
  show "I d" by (rule assms(1))
  show "wp body (\<lambda>r d' e'. case r of
         Inl x \<Rightarrow> I d
       | Inr (Abort a) \<Rightarrow> I d
       | Inr (Commit a) \<Rightarrow> (\<forall>fs. I d' \<and> I d \<and> I d')) d (e\<lparr>faults := fs\<rparr>)" for fs
    by (rule wp_mono [OF assms(2)]) (auto simp: assms(1) split: sum.splits fin.splits)
qed

lemmas wp_rules = wp_stmtI wp_queryI wp_query_rowI wp_execI wp_exec_chkI

subsection \<open>Machines: the operations of a store, in any order and under any faults\<close>

text \<open>\<open>reach step d0 d\<close>: some sequence of operations, each under its own environment, leads from
  \<open>d0\<close> to \<open>d\<close>.  A transaction is one step, so a sequence of steps is an interleaving of the
  transactions of any number of clients.\<close>

inductive reach :: "('op \<Rightarrow> env \<Rightarrow> 'd \<Rightarrow> 'd) \<Rightarrow> 'd \<Rightarrow> 'd \<Rightarrow> bool" for step d0 where
  init: "reach step d0 d0"
| step: "reach step d0 d \<Longrightarrow> reach step d0 (step op e d)"

fun run_ops :: "('op \<Rightarrow> env \<Rightarrow> 'd \<Rightarrow> 'd) \<Rightarrow> ('op \<times> env) list \<Rightarrow> 'd \<Rightarrow> 'd" where
  "run_ops step [] d = d"
| "run_ops step (x # ops) d = run_ops step ops (step (fst x) (snd x) d)"

definition after :: "('d, 'a) prog \<Rightarrow> env \<Rightarrow> 'd \<Rightarrow> 'd" where
  "after m e d = fst (snd (m d e))"

lemma after_wp: "wp m (\<lambda>_ d' _. I d') d e \<Longrightarrow> I (after m e d)"
  by (simp add: wp_def after_def split: prod.splits)

lemma reach_run_ops: "reach step d0 d \<Longrightarrow> reach step d0 (run_ops step ops d)"
  by (induction step ops d rule: run_ops.induct) (auto intro: reach.step)

locale inv_machine =
  fixes step :: "'op \<Rightarrow> env \<Rightarrow> 'd \<Rightarrow> 'd"
    and start :: 'd
    and inv :: "'d \<Rightarrow> bool"
  assumes inv_start: "inv start"
    and inv_step: "inv d \<Longrightarrow> inv (step op e d)"
begin

lemma reach_inv: "reach step start d \<Longrightarrow> inv d"
  by (induction rule: reach.induct) (auto intro: inv_start inv_step)

lemma run_inv: "inv d \<Longrightarrow> inv (run_ops step ops d)"
  by (induction ops arbitrary: d) (auto intro: inv_step)

end

subsection \<open>All or nothing\<close>

text \<open>Every outcome of a transaction leaves the old state or the state its body committed.\<close>

lemma in_tx_all_or_nothing:
  assumes "in_tx body d e = (r, d', e')"
  shows "d' = d \<or> (\<exists>a e1 e2. body d e1 = (Inr (Commit a), d', e2))"
  using assms by (auto simp: in_tx_def split: prod.splits fault.splits sum.splits fin.splits)

lemma in_tx_nofault:
  assumes "faults e = []"
  shows "in_tx body d e = (case body d e of
      (Inl x, _, e2) \<Rightarrow> (Inl x, d, e2)
    | (Inr (Abort a), _, e2) \<Rightarrow> (Inr a, d, e2)
    | (Inr (Commit a), d2, e2) \<Rightarrow>
        (case next_fault e2 of (Fine, e3) \<Rightarrow> (Inr a, d2, e3)
          | (Lost, e3) \<Rightarrow> (Inl (wrap ConnErr), d, e3)
          | (AckLost, e3) \<Rightarrow> (Inl (wrap ConnErr), d2, e3)))"
  using assms by (simp add: in_tx_def)

lemma bnd_Inr: "m d e = (Inr a, d', e') \<Longrightarrow> bnd m k d e = k a d' e'"
  by (simp add: bnd_def)

lemma bnd_Inl: "m d e = (Inl x, d', e') \<Longrightarrow> bnd m k d e = (Inl x, d', e')"
  by (simp add: bnd_def)

text \<open>A run that answered: every step of it answered.\<close>

lemma bnd_InrE:
  assumes "bnd m k d e = (Inr b, d', e')"
  obtains a d1 e1 where "m d e = (Inr a, d1, e1)" "k a d1 e1 = (Inr b, d', e')"
  using assms by (auto simp: bnd_def split: prod.splits sum.splits)

lemma ret_run [simp]: "ret a d e = (r, d', e') \<longleftrightarrow> r = Inr a \<and> d' = d \<and> e' = e"
  by (auto simp: ret_def)

lemma fail_run [simp]: "fail x d e = (r, d', e') \<longleftrightarrow> r = Inl x \<and> d' = d \<and> e' = e"
  by (auto simp: fail_def)

lemma lift_res_run [simp]: "lift_res a d e = (r, d', e') \<longleftrightarrow> r = a \<and> d' = d \<and> e' = e"
  by (auto simp: lift_res_def)

lemma asks_run [simp]: "asks f d e = (r, d', e') \<longleftrightarrow> r = Inr (f e) \<and> d' = d \<and> e' = e"
  by (auto simp: asks_def)

lemma new_uuid_run [simp]:
  "new_uuid d e = (r, d', e') \<longleftrightarrow> r = Inr (fresh e (drawn e)) \<and> d' = d \<and> e' = e\<lparr>drawn := Suc (drawn e)\<rparr>"
  by (auto simp: new_uuid_def)

lemma zoom_run: "zoom g u m d e = (r, d', e') \<longleftrightarrow> (\<exists>c. m (g d) e = (r, c, e') \<and> d' = u (\<lambda>_. c) d)"
  by (auto simp: zoom_def split: prod.splits)

lemma attempt_run [simp]: "attempt m d e = (r, d', e') \<longleftrightarrow> (\<exists>x. r = Inr x \<and> m d e = (x, d', e'))"
  by (auto simp: attempt_def split: prod.splits)

lemma run_simps:
  "bnd (lift_res (Inr a)) k d e = k a d e"
  "bnd (lift_res (Inl x)) k d e = (Inl x, d, e)"
  "bnd (asks f) k d e = k (f e) d e"
  "bnd (ret a) k d e = k a d e"
  by (simp_all add: bnd_def lift_res_def asks_def ret_def)

lemma bnd_new_uuid: "bnd new_uuid k d e = k (fresh e (drawn e)) d (e\<lparr>drawn := Suc (drawn e)\<rparr>)"
  by (simp add: bnd_def new_uuid_def)

lemma map_err_Inr: "map_err f m d e = (Inr a, d', e') \<longleftrightarrow> m d e = (Inr a, d', e')"
  by (auto simp: map_err_def split: prod.splits sum.splits)

lemma stmt_nofault: "faults e = [] \<Longrightarrow> stmt p d e = p d e"
  by (simp add: stmt_def)

lemmas prog_defs = ret_def fail_def bnd_def attempt_def map_err_def lift_res_def asks_def new_uuid_def
  query_def query_row_def exec_def exec_chk_def stmt_def in_tx_def zoom_def rpc_def next_fault_def

lemma wp_foreach_inv:
  assumes step: "\<And>x s t. x \<in> set xs \<Longrightarrow> I s \<Longrightarrow> wp (f x) (\<lambda>_ s' _. I s') s t" and "I d"
  shows "wp (foreach f xs) (\<lambda>_ d' _. I d') d e"
  using assms
proof (induction xs arbitrary: d e)
  case Nil
  then show ?case by simp
next
  case (Cons y ys d e)
  have "wp (f y) (\<lambda>r d' e'. case r of Inl x \<Rightarrow> I d' | Inr a \<Rightarrow> wp (foreach f ys) (\<lambda>_ d'' _. I d'') d' e') d e"
  proof (rule wp_mono)
    show "wp (f y) (\<lambda>_ d' _. I d') d e" using Cons.prems by simp
  next
    fix r :: "unit res" and d' and e' :: env
    assume "I d'"
    then show "case r of Inl x \<Rightarrow> I d' | Inr a \<Rightarrow> wp (foreach f ys) (\<lambda>_ d'' _. I d'') d' e'"
      using Cons.IH [of d' e'] Cons.prems(1) by (auto split: sum.splits)
  qed
  then show ?case by simp
qed

subsection \<open>Loops whose body acts as a function\<close>

text \<open>\<open>acts f C g\<close>: a run of \<open>f x\<close> fails, or finds \<open>C x\<close> and changes the state by \<open>g\<close> at the
  time of the run.  A loop over such bodies fails or acts as the fold.\<close>

definition acts :: "('a \<Rightarrow> ('d, unit) prog) \<Rightarrow> ('a \<Rightarrow> 'd \<Rightarrow> bool) \<Rightarrow> (int \<Rightarrow> 'a \<Rightarrow> 'd \<Rightarrow> 'd) \<Rightarrow> bool" where
  "acts f C g \<longleftrightarrow> (\<forall>x Q d e. (\<forall>err d' fs. Q (Inl err) d' (e\<lparr>faults := fs\<rparr>)) \<longrightarrow>
     (\<forall>fs. C x d \<longrightarrow> Q (Inr ()) (g (now e) x d) (e\<lparr>faults := fs\<rparr>)) \<longrightarrow> wp (f x) Q d e)"

fun all_ok :: "('a \<Rightarrow> 'd \<Rightarrow> bool) \<Rightarrow> ('a \<Rightarrow> 'd \<Rightarrow> 'd) \<Rightarrow> 'a list \<Rightarrow> 'd \<Rightarrow> bool" where
  "all_ok C g [] d = True"
| "all_ok C g (x # xs) d = (C x d \<and> all_ok C g xs (g x d))"

lemma wp_foreach_acts:
  assumes acts: "acts f C g"
    and err: "\<And>err d' fs. Q (Inl err) d' (e\<lparr>faults := fs\<rparr>)"
    and ok: "\<And>fs. all_ok C (g (now e)) xs d \<Longrightarrow> Q (Inr ()) (fold (g (now e)) xs d) (e\<lparr>faults := fs\<rparr>)"
  shows "wp (foreach f xs) Q d e"
  using err ok
proof (induction xs arbitrary: d e)
  case Nil
  have "Q (Inr ()) d (e\<lparr>faults := faults e\<rparr>)" using Nil.prems(2) [of "faults e"] by simp
  then show ?case by simp
next
  case (Cons x xs d e)
  have run: "(\<forall>err d' fs. P (Inl err) d' (e\<lparr>faults := fs\<rparr>)) \<Longrightarrow>
      (\<forall>fs. C x d \<longrightarrow> P (Inr ()) (g (now e) x d) (e\<lparr>faults := fs\<rparr>)) \<Longrightarrow> wp (f x) P d e" for P
    using acts unfolding acts_def by blast
  have rest: "wp (foreach f xs) Q (g (now e) x d) (e\<lparr>faults := fs\<rparr>)" if "C x d" for fs
    using Cons.prems that by (intro Cons.IH) auto
  have "wp (f x) (\<lambda>r d' e'. case r of Inl y \<Rightarrow> Q (Inl y) d' e' | Inr a \<Rightarrow> wp (foreach f xs) Q d' e') d e"
    by (rule run) (use Cons.prems(1) rest in auto)
  then show ?case by simp
qed

lemma actsI:
  assumes "\<And>x Q d e. (\<And>err d' fs. Q (Inl err) d' (e\<lparr>faults := fs\<rparr>)) \<Longrightarrow>
     (\<And>fs. C x d \<Longrightarrow> Q (Inr ()) (g (now e) x d) (e\<lparr>faults := fs\<rparr>)) \<Longrightarrow> wp (f x) Q d e"
  shows "acts f C g"
  using assms unfolding acts_def by blast

lemma fold_inv:
  assumes "all_ok C g xs d" "I d" "\<And>x d. x \<in> set xs \<Longrightarrow> C x d \<Longrightarrow> I d \<Longrightarrow> I (g x d)"
  shows "I (fold g xs d)"
  using assms by (induction xs arbitrary: d) auto

lemma fold_list_inv:
  assumes "all_ok C g xs d" "I xs d" "\<And>x xs d. C x d \<Longrightarrow> I (x # xs) d \<Longrightarrow> I xs (g x d)"
  shows "I [] (fold g xs d)"
  using assms by (induction xs arbitrary: d) auto

text \<open>A call whose answer is dropped.\<close>

definition discard :: "('d, 'a) prog \<Rightarrow> ('d, unit) prog" where
  "discard p = bnd p (\<lambda>_. ret ())"

lemma wp_discard [simp]:
  "wp (discard p) Q d e = wp p (\<lambda>r. Q (case r of Inl x \<Rightarrow> Inl x | Inr _ \<Rightarrow> Inr ())) d e"
  by (auto simp: discard_def bnd_def ret_def wp_def split: prod.splits sum.splits)

end
