(* ===== verification/Outbox.thy ===== *)
theory Outbox
  imports Prog
begin

section \<open>The outbox table and its relay (pkg/kafka/outbox.go)\<close>

text \<open>
  Every service writes its events to an \<open>outbox\<close> table in the transaction of the change they
  report; \<open>OutboxRelay\<close> publishes the rows to Kafka in id order and marks them.  The payload, a
  marshalled protobuf message, is the message itself here (type \<open>'p\<close>).
\<close>

record 'p outbox_row =
  ob_id :: nat
  ob_topic :: string
  ob_key :: string
  ob_payload :: 'p
  ob_created :: int
  ob_published :: "int option"

text \<open>The table and its identity column: the next id the database hands out.\<close>

record 'p outbox =
  ob_rows :: "'p outbox_row list"
  ob_next :: nat

definition empty_outbox :: "'p outbox" where
  "empty_outbox = \<lparr>ob_rows = [], ob_next = 1\<rparr>"

definition outbox_add :: "string \<Rightarrow> string \<Rightarrow> 'p \<Rightarrow> int \<Rightarrow> 'p outbox \<Rightarrow> 'p outbox" where
  "outbox_add topic key payload t ob =
     ob\<lparr>ob_rows := ob_rows ob @ [\<lparr>ob_id = ob_next ob, ob_topic = topic, ob_key = key,
           ob_payload = payload, ob_created = t, ob_published = None\<rparr>],
        ob_next := Suc (ob_next ob)\<rparr>"

definition events :: "'p outbox \<Rightarrow> 'p list" where
  "events ob = map ob_payload (ob_rows ob)"

lemma events_add [simp]: "events (outbox_add t k p n ob) = events ob @ [p]"
  by (simp add: events_def outbox_add_def)

lemma events_empty [simp]: "events empty_outbox = []"
  by (simp add: events_def empty_outbox_def)

text \<open>Rows are in id order, below the next id.\<close>

definition outbox_wf :: "'p outbox \<Rightarrow> bool" where
  "outbox_wf ob \<longleftrightarrow> sorted_wrt (<) (map ob_id (ob_rows ob)) \<and> (\<forall>r\<in>set (ob_rows ob). ob_id r < ob_next ob)"

lemma outbox_wf_empty [simp]: "outbox_wf empty_outbox"
  by (simp add: outbox_wf_def empty_outbox_def)

lemma outbox_wf_add [simp]: "outbox_wf ob \<Longrightarrow> outbox_wf (outbox_add t k p n ob)"
  by (auto simp: outbox_wf_def outbox_add_def sorted_wrt_append)

subsection \<open>The relay\<close>

text \<open>What the relay sees: the table and the records the broker has, in publication order.\<close>

record 'p relay =
  rl_outbox :: "'p outbox"
  rl_log :: "(string \<times> string \<times> 'p) list"

definition relay_batch :: "int \<Rightarrow> int" where
  "relay_batch batch = (if batch \<le> 0 then 100 else batch)"

definition unpublished :: "'p outbox \<Rightarrow> 'p outbox_row list" where
  "unpublished ob = filter (\<lambda>r. ob_published r = None) (ob_rows ob)"

text \<open>The publishing loop: in order, stopping at the first failure; the ids that were acknowledged,
  and the error.  A \<open>Publish\<close> whose acknowledgement is lost has reached the broker.\<close>

definition publish :: "'p outbox_row \<Rightarrow> ('p relay, unit) prog" where
  "publish x = exec (\<lambda>t s. s\<lparr>rl_log := rl_log s @ [(ob_topic x, ob_key x, ob_payload x)]\<rparr>)"

fun publish_loop :: "'p outbox_row list \<Rightarrow> ('p relay, nat list \<times> go_err option) prog" where
  "publish_loop [] = ret ([], None)"
| "publish_loop (x # xs) = bnd (attempt (publish x)) (\<lambda>r. case r of
       Inl err \<Rightarrow> ret ([], Some err)
     | Inr _ \<Rightarrow> bnd (publish_loop xs) (\<lambda>(ids, err). ret (ob_id x # ids, err)))"

definition mark_published :: "nat list \<Rightarrow> ('p relay, unit) prog" where
  "mark_published ids = exec (\<lambda>t s. s\<lparr>rl_outbox := (rl_outbox s)\<lparr>ob_rows :=
     upd_rows (\<lambda>r. ob_id r \<in> set ids) (\<lambda>r. r\<lparr>ob_published := Some t\<rparr>) (ob_rows (rl_outbox s))\<rparr>\<rparr>)"

text \<open>\<open>drainOnce\<close> returns the number of rows it published and an error; both are set when it
  stopped half way.\<close>

definition drainOnce :: "nat \<Rightarrow> ('p relay, nat \<times> go_err option) prog" where
  "drainOnce batch =
     bnd (attempt (query (\<lambda>_ s. take batch (unpublished (rl_outbox s))))) (\<lambda>q. case q of
       Inl err \<Rightarrow> ret (0, Some err)
     | Inr pending \<Rightarrow>
         bnd (publish_loop pending) (\<lambda>(published, pubErr).
           if published = [] then ret (0, pubErr)
           else bnd (attempt (mark_published published)) (\<lambda>m. case m of
             Inl err \<Rightarrow> ret (length published, Some err)
           | Inr _ \<Rightarrow> ret (length published, pubErr))))"

text \<open>\<open>drainUntilEmpty\<close>: \<open>done k\<close> is whether the context is cancelled before pass \<open>k\<close>.  The result
  says whether the loop came back within the fuel.\<close>

fun drainUntilEmpty :: "nat \<Rightarrow> (nat \<Rightarrow> bool) \<Rightarrow> nat \<Rightarrow> nat \<Rightarrow> ('p relay, bool) prog" where
  "drainUntilEmpty 0 cancelled batch passes = ret False"
| "drainUntilEmpty (Suc fuel) cancelled batch passes =
     (if cancelled passes then ret True
      else bnd (drainOnce batch) (\<lambda>(n, err). case err of
             Some _ \<Rightarrow> ret True
           | None \<Rightarrow> if n < batch then ret True
                     else drainUntilEmpty fuel cancelled batch (Suc passes)))"

definition relay_Pending :: "('p relay, nat \<times> int option) prog" where
  "relay_Pending = query (\<lambda>t s. let w = unpublished (rl_outbox s) in
     (length w, if w = [] then None else Some (t - Min (set (map ob_created w)))))"

end
