(* ===== verification/Quiet.thy ===== *)
theory Quiet
  imports Prog
begin

section \<open>What a program does to its environment, and runs without faults\<close>

text \<open>
  Every program of the model only draws identifiers and uses up faults: \<open>tame\<close>.  On an environment
  without faults (\<open>quiet\<close>) the weakest precondition of a statement or a transaction is the one of its
  body, so the outcome of such a run can be computed.
\<close>

named_theorems tame_intros \<open>programs that only draw identifiers and use up faults\<close>

definition later_env :: "env \<Rightarrow> env \<Rightarrow> bool" where
  "later_env e e' \<longleftrightarrow> (\<exists>n k. e' = e\<lparr>drawn := n, faults := drop k (faults e)\<rparr>)"

definition tame :: "('d, 'a) prog \<Rightarrow> bool" where
  "tame m \<longleftrightarrow> (\<forall>d e. later_env e (snd (snd (m d e))))"

lemma later_env_refl [simp]: "later_env e e"
  unfolding later_env_def by (rule exI [where x = "drawn e"], rule exI [where x = 0]) simp

lemma later_env_trans: "later_env e e' \<Longrightarrow> later_env e' e'' \<Longrightarrow> later_env e e''"
proof -
  assume "later_env e e'" "later_env e' e''"
  then obtain n k m j where "e' = e\<lparr>drawn := n, faults := drop k (faults e)\<rparr>"
    "e'' = e'\<lparr>drawn := m, faults := drop j (faults e')\<rparr>" unfolding later_env_def by blast
  then have "e'' = e\<lparr>drawn := m, faults := drop (j + k) (faults e)\<rparr>" by simp
  then show "later_env e e''" unfolding later_env_def by blast
qed

lemma tameD: "tame m \<Longrightarrow> m d e = (r, d', e') \<Longrightarrow> later_env e e'"
  unfolding tame_def by (metis snd_conv)

lemma tameI: "(\<And>d e r d' e'. m d e = (r, d', e') \<Longrightarrow> later_env e e') \<Longrightarrow> tame m"
  unfolding tame_def by (metis prod.collapse)

lemma later_env_next: "next_fault e = (f, e') \<Longrightarrow> later_env e e'"
proof (cases e rule: next_fault_cases)
  case none
  then show "next_fault e = (f, e') \<Longrightarrow> later_env e e'" by simp
next
  case (some g fs)
  then have "later_env e (e\<lparr>faults := fs\<rparr>)"
    unfolding later_env_def by (intro exI [where x = "drawn e"] exI [where x = 1]) simp
  then show "next_fault e = (f, e') \<Longrightarrow> later_env e e'" using some by simp
qed

lemma later_env_simps:
  assumes "later_env e e'"
  shows "now e' = now e" "fresh e' = fresh e" "uuid_ok e' = uuid_ok e" "sha256_hex e' = sha256_hex e"
    "parse_time e' = parse_time e" "fmt_time e' = fmt_time e" "faults e = [] \<Longrightarrow> faults e' = []"
  using assms by (auto simp: later_env_def)

lemma tame_ret [tame_intros]: "tame (ret a)"
  by (simp add: tame_def ret_def)

lemma tame_fail [tame_intros]: "tame (fail x)"
  by (simp add: tame_def fail_def)

lemma tame_lift_res [tame_intros]: "tame (lift_res r)"
  by (simp add: tame_def lift_res_def)

lemma tame_asks [tame_intros]: "tame (asks f)"
  by (simp add: tame_def asks_def)

lemma tame_new_uuid [tame_intros]: "tame new_uuid"
proof (rule tameI)
  fix d e r d' and e' :: env
  assume "new_uuid d e = (r, d', e')"
  then have "e' = e\<lparr>drawn := Suc (drawn e), faults := drop 0 (faults e)\<rparr>" by (auto simp: new_uuid_def)
  then show "later_env e e'" unfolding later_env_def by blast
qed

lemma tame_bnd [tame_intros]:
  assumes "tame m" "\<And>a. tame (k a)"
  shows "tame (bnd m k)"
proof (rule tameI)
  fix d e r d' e'
  assume run: "bnd m k d e = (r, d', e')"
  obtain r1 d1 e1 where m: "m d e = (r1, d1, e1)" by (metis prod.collapse)
  have 1: "later_env e e1" using tameD [OF assms(1) m] .
  show "later_env e e'"
  proof (cases r1)
    case (Inl x)
    then show ?thesis using run m 1 by (simp add: bnd_def)
  next
    case (Inr a)
    then have "k a d1 e1 = (r, d', e')" using run m by (simp add: bnd_def)
    from later_env_trans [OF 1 tameD [OF assms(2) this]] show ?thesis .
  qed
qed

lemma tame_attempt [tame_intros]: "tame m \<Longrightarrow> tame (attempt m)"
  by (simp add: tame_def attempt_def split: prod.splits) (metis snd_conv)

lemma tame_map_err [tame_intros]: "tame m \<Longrightarrow> tame (map_err f m)"
  by (simp add: tame_def map_err_def split: prod.splits sum.splits) (metis snd_conv)

lemma tame_stmt [tame_intros]:
  assumes "tame p"
  shows "tame (stmt p)"
proof (rule tameI)
  fix d e r d' e'
  assume run: "stmt p d e = (r, d', e')"
  obtain f e1 where n: "next_fault e = (f, e1)" by force
  note 1 = later_env_next [OF n]
  obtain r2 d2 e2 where p: "p d e1 = (r2, d2, e2)" by (metis prod.collapse)
  have 2: "later_env e e2" using later_env_trans [OF 1 tameD [OF assms p]] .
  show "later_env e e'"
    using run n p 1 2 by (cases f) (auto simp: stmt_def)
qed

lemma tame_query [tame_intros]: "tame (query f)"
  unfolding query_def by (rule tame_stmt) (simp add: tame_def)

lemma tame_query_row [tame_intros]: "tame (query_row f)"
  unfolding query_row_def by (rule tame_stmt) (simp add: tame_def)

lemma tame_exec [tame_intros]: "tame (exec f)"
  unfolding exec_def by (rule tame_stmt) (simp add: tame_def)

lemma tame_exec_chk [tame_intros]: "tame (exec_chk f)"
  unfolding exec_chk_def by (rule tame_stmt) (simp add: tame_def split: sum.split prod.split)

lemma tame_foreach [tame_intros]: "(\<And>x. tame (f x)) \<Longrightarrow> tame (foreach f xs)"
  by (induction xs) (auto intro!: tame_intros)

lemma tame_mapM [tame_intros]: "(\<And>x. tame (f x)) \<Longrightarrow> tame (mapM f xs)"
  by (induction xs) (auto intro!: tame_intros)

lemma tame_discard [tame_intros]: "tame m \<Longrightarrow> tame (discard m)"
  unfolding discard_def by (auto intro!: tame_intros)

lemma tame_in_tx [tame_intros]:
  assumes "tame body"
  shows "tame (in_tx body)"
proof (rule tameI)
  fix d e r d' e'
  assume run: "in_tx body d e = (r, d', e')"
  obtain f e1 where n: "next_fault e = (f, e1)" by force
  note 1 = later_env_next [OF n]
  obtain r2 d2 e2 where b: "body d e1 = (r2, d2, e2)" by (metis prod.collapse)
  have 2: "later_env e e2" using later_env_trans [OF 1 tameD [OF assms b]] .
  obtain g e3 where n2: "next_fault e2 = (g, e3)" by force
  have 3: "later_env e e3" using later_env_trans [OF 2 later_env_next [OF n2]] .
  show "later_env e e'"
    using run n b n2 1 2 3
    by (cases f; cases g) (auto simp: in_tx_def split: sum.splits fin.splits)
qed

lemma tame_zoom [tame_intros]: "tame m \<Longrightarrow> tame (zoom g u m)"
  by (simp add: tame_def zoom_def split: prod.splits) (metis snd_conv)

lemma tame_rpc [tame_intros]:
  assumes "tame h"
  shows "tame (rpc h)"
proof (rule tameI)
  fix d e r d' e'
  assume run: "rpc h d e = (r, d', e')"
  obtain f e1 where n: "next_fault e = (f, e1)" by force
  note 1 = later_env_next [OF n]
  obtain r2 d2 e2 where p: "h d e1 = (r2, d2, e2)" by (metis prod.collapse)
  have 2: "later_env e e2" using later_env_trans [OF 1 tameD [OF assms p]] .
  show "later_env e e'"
    using run n p 1 2 by (cases f) (auto simp: rpc_def map_err_def split: sum.splits)
qed

lemma tame_if [tame_intros]: "(b \<Longrightarrow> tame m) \<Longrightarrow> (\<not> b \<Longrightarrow> tame m') \<Longrightarrow> tame (if b then m else m')"
  by simp

lemma tame_sum [tame_intros]: "(\<And>x. tame (f x)) \<Longrightarrow> (\<And>x. tame (g x)) \<Longrightarrow> tame (case s of Inl x \<Rightarrow> f x | Inr x \<Rightarrow> g x)"
  by (simp split: sum.split)

lemma tame_option [tame_intros]: "tame m \<Longrightarrow> (\<And>x. tame (g x)) \<Longrightarrow> tame (case s of None \<Rightarrow> m | Some x \<Rightarrow> g x)"
  by (simp split: option.split)

lemma tame_prod [tame_intros]: "(\<And>x y. tame (f x y)) \<Longrightarrow> tame (case p of (x, y) \<Rightarrow> f x y)"
  by (simp split: prod.split)

lemma tame_let [tame_intros]: "(\<And>x. tame (f x)) \<Longrightarrow> tame (let x = a in f x)"
  by (simp add: Let_def)

text \<open>A tame program adds what is known of its environment to its postcondition.\<close>

lemma wp_tame: "tame m \<Longrightarrow> wp m Q d e \<Longrightarrow> wp m (\<lambda>r d' e'. Q r d' e' \<and> later_env e e') d e"
  unfolding wp_iff using tameD by metis

lemma wp_True [simp]: "wp m (\<lambda>_ _ _. True) d e"
  by (simp add: wp_iff)

subsection \<open>Remote calls and parts of the state\<close>

lemma wp_zoom [simp]: "wp (zoom g u m) Q d e = wp m (\<lambda>r c. Q r (u (\<lambda>_. c) d)) (g d) e"
  by (simp add: wp_def zoom_def split: prod.splits)

lemma wp_rpcI:
  assumes "\<And>fs. Q (Inl unavailable) d (e\<lparr>faults := fs\<rparr>)"
    and "\<And>fs. wp h (\<lambda>_. Q (Inl unavailable)) d (e\<lparr>faults := fs\<rparr>)"
    and "\<And>fs. wp h (\<lambda>r. Q (case r of Inl x \<Rightarrow> Inl (over_wire x) | Inr a \<Rightarrow> Inr a)) d (e\<lparr>faults := fs\<rparr>)"
  shows "wp (rpc h) Q d e"
proof -
  obtain f e' where n: "next_fault e = (f, e')" by force
  then obtain fs where e': "e' = e\<lparr>faults := fs\<rparr>" using next_fault_env by blast
  show ?thesis
    using n assms [of fs] e'
    by (cases f) (auto simp: wp_def rpc_def map_err_def split: prod.splits sum.splits)
qed

subsection \<open>Quiet runs\<close>

text \<open>\<open>V\<close> are the strings the environment takes for UUIDs; what it draws is one.\<close>

definition quiet :: "(string \<Rightarrow> bool) \<Rightarrow> env \<Rightarrow> bool" where
  "quiet V e \<longleftrightarrow> faults e = [] \<and> uuid_ok e = V \<and> \<not> V '''' \<and> (\<forall>n. V (fresh e n))"

lemma quiet_later: "quiet V e \<Longrightarrow> later_env e e' \<Longrightarrow> quiet V e'"
  by (auto simp: quiet_def later_env_def)

lemma quiet_fresh: "quiet V e \<Longrightarrow> V (fresh e n) \<and> fresh e n \<noteq> ''''"
  unfolding quiet_def by metis

lemma quiet_faults: "quiet V e \<Longrightarrow> faults e = []"
  by (simp add: quiet_def)

lemma quiet_drawn [simp]: "quiet V (e\<lparr>drawn := n\<rparr>) = quiet V e"
  by (simp add: quiet_def)

lemma wp_quiet_stmt: "faults e = [] \<Longrightarrow> wp (stmt p) Q d e = wp p Q d e"
  by (simp add: wp_def stmt_nofault)

lemma wp_quiet_query: "faults e = [] \<Longrightarrow> wp (query f) Q d e = Q (Inr (f (now e) d)) d e"
  by (simp add: query_def wp_quiet_stmt) (simp add: wp_def)

lemma wp_quiet_query_row:
  "faults e = [] \<Longrightarrow> wp (query_row f) Q d e = Q (case f d of None \<Rightarrow> Inl NoRows | Some a \<Rightarrow> Inr a) d e"
  by (simp add: query_row_def wp_quiet_stmt) (simp add: wp_def)

lemma wp_quiet_exec: "faults e = [] \<Longrightarrow> wp (exec f) Q d e = Q (Inr ()) (f (now e) d) e"
  by (simp add: exec_def wp_quiet_stmt) (simp add: wp_def)

lemma wp_quiet_exec_chk:
  "faults e = [] \<Longrightarrow> wp (exec_chk f) Q d e =
     (case f (now e) d of Inl x \<Rightarrow> Q (Inl x) d e | Inr (a, d') \<Rightarrow> Q (Inr a) d' e)"
  by (simp add: exec_chk_def wp_quiet_stmt) (simp add: wp_def split: sum.split prod.split)

lemma wp_quiet_rpc:
  "faults e = [] \<Longrightarrow> wp (rpc h) Q d e = wp h (\<lambda>r. Q (case r of Inl x \<Rightarrow> Inl (over_wire x) | Inr a \<Rightarrow> Inr a)) d e"
  by (simp add: wp_def rpc_def map_err_def split: prod.splits sum.splits)

lemma wp_quiet_in_tx:
  assumes "faults e = []"
    and "wp body (\<lambda>r d' e'. faults e' = [] \<and> (case r of Inl x \<Rightarrow> Q (Inl x) d e' | Inr (Abort a) \<Rightarrow> Q (Inr a) d e'
       | Inr (Commit a) \<Rightarrow> Q (Inr a) d' e')) d e"
  shows "wp (in_tx body) Q d e"
  using assms by (auto simp: wp_def in_tx_def split: prod.splits sum.splits fin.splits)

lemmas wp_quiet = wp_quiet_query wp_quiet_query_row wp_quiet_exec wp_quiet_exec_chk wp_quiet_rpc

subsection \<open>Triples for quiet runs\<close>

text \<open>\<open>quietly V P m Q\<close>: from a state in \<open>P\<close>, without faults, the run of \<open>m\<close> ends as \<open>Q\<close> says, and what follows
  it is without faults again.\<close>

named_theorems quiet_intros \<open>triples that hold whatever the postcondition\<close>

definition quietly :: "(string \<Rightarrow> bool) \<Rightarrow> ('d \<Rightarrow> bool) \<Rightarrow> ('d, 'a) prog \<Rightarrow> ('a res \<Rightarrow> 'd \<Rightarrow> bool) \<Rightarrow> bool" where
  "quietly V P m Q \<longleftrightarrow> (\<forall>d e. quiet V e \<longrightarrow> P d \<longrightarrow> wp m (\<lambda>r d' e'. quiet V e' \<and> Q r d') d e)"

lemma quietlyD: "quietly V P m Q \<Longrightarrow> quiet V e \<Longrightarrow> P d \<Longrightarrow> m d e = (r, d', e') \<Longrightarrow> Q r d'"
  unfolding quietly_def wp_iff by blast

lemma wp_quietly:
  assumes "quietly V P m R" "quiet V e" "P d" "\<And>r d' e'. quiet V e' \<Longrightarrow> R r d' \<Longrightarrow> Q r d' e'"
  shows "wp m Q d e"
proof -
  have "wp m (\<lambda>r d' e'. quiet V e' \<and> R r d') d e" using assms(1-3) by (simp add: quietly_def)
  then show ?thesis by (rule wp_mono) (use assms(4) in blast)
qed

lemma quietlyI:
  assumes "tame m" "\<And>d e. quiet V e \<Longrightarrow> P d \<Longrightarrow> wp m (\<lambda>r d' _. Q r d') d e"
  shows "quietly V P m Q"
  unfolding quietly_def
proof (intro allI impI)
  fix d e
  assume q: "quiet V e" and p: "P d"
  show "wp m (\<lambda>r d' e'. quiet V e' \<and> Q r d') d e"
    by (rule wp_mono [OF wp_tame [OF assms(1) assms(2) [OF q p]]]) (use q quiet_later in blast)
qed

lemma quietly_conseq:
  "quietly V P' m Q' \<Longrightarrow> (\<And>d. P d \<Longrightarrow> P' d) \<Longrightarrow> (\<And>r d. Q' r d \<Longrightarrow> Q r d) \<Longrightarrow> quietly V P m Q"
  unfolding quietly_def wp_iff by blast

lemma quietly_bnd:
  assumes "quietly V P m R" "\<And>x d. R (Inl x) d \<Longrightarrow> Q (Inl x) d" "\<And>a. quietly V (R (Inr a)) (k a) Q"
  shows "quietly V P (bnd m k) Q"
  unfolding quietly_def
proof (intro allI impI)
  fix d e
  assume "quiet V e" "P d"
  then have "wp m (\<lambda>r d' e'. quiet V e' \<and> R r d') d e" using assms(1) by (simp add: quietly_def)
  then have "wp m (\<lambda>r d' e'. case r of Inl x \<Rightarrow> quiet V e' \<and> Q (Inl x) d'
      | Inr a \<Rightarrow> wp (k a) (\<lambda>r d' e'. quiet V e' \<and> Q r d') d' e') d e"
    by (rule wp_mono) (use assms(2,3) in \<open>auto simp: quietly_def split: sum.split\<close>)
  then show "wp (bnd m k) (\<lambda>r d' e'. quiet V e' \<and> Q r d') d e" by (simp only: wp_bnd)
qed

lemma quietly_ret [quiet_intros]: "(\<And>d. P d \<Longrightarrow> Q (Inr a) d) \<Longrightarrow> quietly V P (ret a) Q"
  by (simp add: quietly_def)

lemma quietly_fail [quiet_intros]: "(\<And>d. P d \<Longrightarrow> Q (Inl x) d) \<Longrightarrow> quietly V P (fail x) Q"
  by (simp add: quietly_def)

lemma quietly_asks [quiet_intros]: "(\<And>d e. P d \<Longrightarrow> Q (Inr (f e)) d) \<Longrightarrow> quietly V P (asks f) Q"
  by (simp add: quietly_def)

lemma quietly_new_uuid [quiet_intros]: "(\<And>d a. P d \<Longrightarrow> Q (Inr a) d) \<Longrightarrow> quietly V P new_uuid Q"
  by (simp add: quietly_def)

lemma quietly_attempt [quiet_intros]: "quietly V P m (\<lambda>r. Q (Inr r)) \<Longrightarrow> quietly V P (attempt m) Q"
  by (simp add: quietly_def)

lemma quietly_attempted: "quietly V P m Q \<Longrightarrow> quietly V P (attempt m) (\<lambda>r d. case r of Inl x \<Rightarrow> False | Inr y \<Rightarrow> Q y d)"
  by (simp add: quietly_def)

lemma quietly_map_err [quiet_intros]:
  "quietly V P m (\<lambda>r. Q (case r of Inl x \<Rightarrow> Inl (f x) | Inr a \<Rightarrow> Inr a)) \<Longrightarrow> quietly V P (map_err f m) Q"
  by (simp add: quietly_def)

lemma quietly_if [quiet_intros]:
  "(b \<Longrightarrow> quietly V P m Q) \<Longrightarrow> (\<not> b \<Longrightarrow> quietly V P m' Q) \<Longrightarrow> quietly V P (if b then m else m') Q"
  by simp

lemma quietly_ex: "(\<And>x. quietly V (\<lambda>d. P d \<and> f d = x) m Q) \<Longrightarrow> quietly V P m Q"
  unfolding quietly_def by blast

lemma quietly_pre: "(\<And>d. P d \<Longrightarrow> F) \<Longrightarrow> (F \<Longrightarrow> quietly V P m Q) \<Longrightarrow> quietly V P m Q"
  unfolding quietly_def by blast

lemma quietly_false: "(\<And>d. \<not> P d) \<Longrightarrow> quietly V P m Q"
  by (simp add: quietly_def)

text \<open>Without faults a transaction that answers with an error has changed nothing.\<close>

lemma quiet_in_tx_err:
  assumes "tame body" "faults e = []" "in_tx body d e = (Inl x, d', e')"
  shows "d' = d"
proof -
  obtain r d2 e2 where b: "body d e = (r, d2, e2)" by (metis prod.collapse)
  then have "faults e2 = []" using later_env_simps(7) [OF tameD [OF assms(1)]] assms(2) by blast
  then show ?thesis using assms(2,3) b by (auto simp: in_tx_def split: sum.splits fin.splits)
qed

lemma wp_quiet_tx:
  assumes "tame body" "faults e = []" "wp (in_tx body) (\<lambda>r d' e'. \<forall>x. r = Inl x \<longrightarrow> d' = d \<longrightarrow> Q r d' e') d e"
    "wp (in_tx body) (\<lambda>r d' e'. \<forall>a. r = Inr a \<longrightarrow> Q r d' e') d e"
  shows "wp (in_tx body) Q d e"
  using assms quiet_in_tx_err unfolding wp_iff by (metis old.sum.exhaust)

lemma foreach_acts_quiet:
  assumes "\<And>x d e. faults e = [] \<Longrightarrow> C x d \<Longrightarrow> f x d e = (Inr (), g (now e) x d, e)" "faults e = []"
    and "all_ok C (g (now e)) xs d"
  shows "foreach f xs d e = (Inr (), fold (g (now e)) xs d, e)"
  using assms(3) by (induction xs arbitrary: d) (simp_all add: assms(1,2) bnd_def ret_def)

end
