(* ===== verification/Strs.thy ===== *)
theory Strs
  imports Prelude
begin

section \<open>Strings: decimal integers and ASCII text\<close>

text \<open>
  The parts of Go's \<open>strconv\<close> and \<open>strings\<close> the services use: \<open>strconv.FormatInt(x, 10)\<close> (also
  \<open>fmt\<close>'s \<open>%d\<close>), \<open>strings.TrimSpace\<close>, lower casing of ASCII letters, and joining parts with a
  separator.  The lemmas say that a decimal integer determines its value and that fields without the
  separator can be read back.
\<close>

subsection \<open>Decimal integers\<close>

definition digit :: "nat \<Rightarrow> char" where
  "digit n = char_of (48 + n mod 10)"

fun nat_str :: "nat \<Rightarrow> string" where
  "nat_str n = (if n < 10 then [digit n] else nat_str (n div 10) @ [digit n])"

declare nat_str.simps [simp del]

definition FormatInt :: "int \<Rightarrow> string" where
  "FormatInt x = (if x < 0 then CHR 0x2D # nat_str (nat (- x)) else nat_str (nat x))"

definition digit_val :: "char \<Rightarrow> nat" where
  "digit_val c = of_char c - 48"

definition nat_val :: "string \<Rightarrow> nat" where
  "nat_val s = foldl (\<lambda>a c. 10 * a + digit_val c) 0 s"

lemma of_char_digit: "(of_char (digit n) :: nat) = 48 + n mod 10"
proof -
  have "n mod 10 < 10" by simp
  then have "48 + n mod 10 < 256" by linarith
  then show ?thesis by (simp add: digit_def of_char_of take_bit_nat_def)
qed

lemma digit_val_digit: "digit_val (digit n) = n mod 10"
  by (simp add: digit_val_def of_char_digit)

lemma nat_val_nat_str: "nat_val (nat_str n) = n"
proof (induction n rule: nat_str.induct)
  case (1 n)
  then show ?case
    by (subst nat_str.simps) (auto simp: nat_val_def digit_val_digit)
qed

lemma nat_str_inj: "nat_str m = nat_str n \<Longrightarrow> m = n"
  using nat_val_nat_str by metis

lemma nat_str_chars: "c \<in> set (nat_str n) \<Longrightarrow> 48 \<le> (of_char c :: nat) \<and> (of_char c :: nat) \<le> 57"
proof (induction n rule: nat_str.induct)
  case (1 n)
  have "n mod 10 \<le> 9" by simp
  moreover have "c = digit n \<or> n \<ge> 10 \<and> c \<in> set (nat_str (n div 10))"
    using 1(2) by (subst (asm) nat_str.simps) (auto split: if_splits)
  ultimately show ?case using 1(1) by (auto simp: of_char_digit)
qed

lemma nat_str_ne [simp]: "nat_str n \<noteq> []"
  by (subst nat_str.simps) simp

definition int_char :: "char \<Rightarrow> bool" where
  "int_char c \<longleftrightarrow> c = CHR 0x2D \<or> 48 \<le> (of_char c :: nat) \<and> (of_char c :: nat) \<le> 57"

lemma FormatInt_chars: "c \<in> set (FormatInt x) \<Longrightarrow> int_char c"
  using nat_str_chars by (auto simp: FormatInt_def int_char_def split: if_splits)

lemma FormatInt_no: "\<not> int_char c \<Longrightarrow> c \<notin> set (FormatInt x)"
  using FormatInt_chars by blast

lemma FormatInt_inj: "FormatInt x = FormatInt y \<longleftrightarrow> x = y"
proof -
  have sign: "nat_str m \<noteq> CHR 0x2D # s" for m s
    using nat_str_chars [of "CHR 0x2D" m] by auto
  show ?thesis
    using sign sign [symmetric] by (auto simp: FormatInt_def dest: nat_str_inj)
qed

text \<open>The same digits computed on integers, for evaluation.\<close>

function digits :: "int \<Rightarrow> string" where
  "digits x = (if x < 10 then [char_of (48 + x mod 10)] else digits (x div 10) @ [char_of (48 + x mod 10)])"
  by pat_completeness auto
termination by (relation "measure nat") auto

declare digits.simps [simp del]

lemma digit_int: "0 \<le> x \<Longrightarrow> digit (nat x) = char_of (48 + x mod 10)"
proof -
  assume "0 \<le> x"
  then have "(48 + x mod 10) = int (48 + nat x mod 10)" by (simp add: zmod_int)
  then show ?thesis by (simp only: digit_def char_of_nat)
qed

lemma nat_str_digits: "0 \<le> x \<Longrightarrow> nat_str (nat x) = digits x"
proof (induction x rule: digits.induct)
  case (1 x)
  show ?case
  proof (cases "x < 10")
    case True
    then show ?thesis using 1(2) by (subst nat_str.simps, subst digits.simps) (simp add: digit_int)
  next
    case False
    then have "nat_str (nat x div 10) = digits (x div 10)" using 1 by (simp add: nat_div_distrib)
    moreover have "\<not> nat x < 10" using False by simp
    ultimately show ?thesis using False nat_str.simps [of "nat x"] digits.simps [of x] digit_int [OF 1(2)] by simp
  qed
qed

lemma FormatInt_code [code]:
  "FormatInt x = (if x < 0 then CHR 0x2D # digits (- x) else digits x)"
  by (simp add: FormatInt_def nat_str_digits)

subsection \<open>Fields with separators\<close>

text \<open>A field without the separator is found again in front of it.\<close>

lemma field_inj:
  assumes "c \<notin> set a" "c \<notin> set b" "a @ c # s = b @ c # t"
  shows "a = b \<and> s = t"
  using assms
proof (induction a arbitrary: b)
  case Nil
  then show ?case by (cases b) auto
next
  case (Cons x a)
  then show ?case by (cases b) auto
qed

subsection \<open>ASCII text\<close>

definition lower :: "char \<Rightarrow> char" where
  "lower c = (let n = of_char c :: nat in if 65 \<le> n \<and> n \<le> 90 then char_of (n + 32) else c)"

definition is_space :: "char \<Rightarrow> bool" where
  "is_space c \<longleftrightarrow> (let n = of_char c :: nat in n = 32 \<or> 9 \<le> n \<and> n \<le> 13)"

definition TrimSpace :: "string \<Rightarrow> string" where
  "TrimSpace s = rev (dropWhile is_space (rev (dropWhile is_space s)))"

lemma dropWhile_ends: "dropWhile P (xs @ [x]) = (if \<forall>y\<in>set xs. P y then dropWhile P [x] else dropWhile P xs @ [x])"
  by (induction xs) auto

lemma TrimSpace_idem: "TrimSpace (TrimSpace s) = TrimSpace s"
proof -
  have keep: "dropWhile P (rev (dropWhile P (rev t))) = rev (dropWhile P (rev t))"
    if "t = [] \<or> \<not> P (hd t)" for t :: string and P
  proof (cases t)
    case Nil
    then show ?thesis by simp
  next
    case (Cons x u)
    have ends: "dropWhile P (rev u @ [x]) = (if \<forall>y\<in>set (rev u). P y then dropWhile P [x] else dropWhile P (rev u) @ [x])"
      by (rule dropWhile_ends)
    show ?thesis using that Cons by (simp add: ends)
  qed
  let ?t = "dropWhile is_space s"
  have "?t = [] \<or> \<not> is_space (hd ?t)" using hd_dropWhile by blast
  then have "dropWhile is_space (TrimSpace s) = TrimSpace s"
    unfolding TrimSpace_def by (rule keep)
  then show ?thesis by (simp add: TrimSpace_def)
qed

end
