(* ===== verification/StoreKit.thy ===== *)
theory StoreKit
  imports Outbox Quiet Strs
begin

section \<open>Patterns the stores share\<close>

text \<open>
  Every store writes the same three things by hand: a transaction that records the Kafka event that
  caused it, a keyset-paginated list, and a lookup of a row by a UUID key.  Here they are programs over the
  state of any store, with the rules the store theories use.
\<close>

subsection \<open>Transactions that record their event\<close>

text \<open>\<open>mark\<close> is \<open>INSERT INTO processed_events\<close>; a duplicate rolls back and answers \<open>skip\<close>.\<close>

definition dedup_tx :: "(string \<Rightarrow> ('d, unit) prog) \<Rightarrow> 'a \<Rightarrow> string \<Rightarrow> ('d, 'a fin) prog \<Rightarrow> ('d, 'a) prog" where
  "dedup_tx mark skip eventID body = in_tx (
     if eventID = '''' then body
     else bnd (attempt (mark eventID)) (\<lambda>r. case r of
            Inl err \<Rightarrow> if err = uniqueViolation then ret (Abort skip) else fail (wrap err)
          | Inr _ \<Rightarrow> body))"

text \<open>The insert on a table of event ids, given as a field of the state.\<close>

definition ins_event :: "('d \<Rightarrow> string list) \<Rightarrow> ((string list \<Rightarrow> string list) \<Rightarrow> 'd \<Rightarrow> 'd) \<Rightarrow> string \<Rightarrow> ('d, unit) prog" where
  "ins_event get upd eventID = exec_chk (\<lambda>_ d.
     if eventID \<in> set (get d) then Inl uniqueViolation else Inr ((), upd (\<lambda>t. t @ [eventID]) d))"

definition seen_event :: "('d \<Rightarrow> string list) \<Rightarrow> string \<Rightarrow> 'd \<Rightarrow> bool" where
  "seen_event get eventID d \<longleftrightarrow> eventID \<noteq> '''' \<and> eventID \<in> set (get d)"

definition note_event :: "((string list \<Rightarrow> string list) \<Rightarrow> 'd \<Rightarrow> 'd) \<Rightarrow> string \<Rightarrow> 'd \<Rightarrow> 'd" where
  "note_event upd eventID d = (if eventID = '''' then d else upd (\<lambda>t. t @ [eventID]) d)"

lemma ConnErr_not_unique [simp]: "ConnErr \<noteq> uniqueViolation"
  by (simp add: uniqueViolation_def)

lemma wp_dedup_txI:
  assumes fault: "\<And>fs. Q (Inl (wrap ConnErr)) d (e\<lparr>faults := fs\<rparr>)"
    and dup: "\<And>fs. seen_event get ev d \<Longrightarrow> Q (Inr skip) d (e\<lparr>faults := fs\<rparr>)"
    and body: "\<And>fs. \<not> seen_event get ev d \<Longrightarrow> wp body (\<lambda>r d' e'. case r of
         Inl x \<Rightarrow> Q (Inl x) d e'
       | Inr (Abort a) \<Rightarrow> Q (Inr a) d e'
       | Inr (Commit a) \<Rightarrow> (\<forall>fs. Q (Inr a) d' (e'\<lparr>faults := fs\<rparr>)
            \<and> Q (Inl (wrap ConnErr)) d (e'\<lparr>faults := fs\<rparr>) \<and> Q (Inl (wrap ConnErr)) d' (e'\<lparr>faults := fs\<rparr>)))
         (note_event upd ev d) (e\<lparr>faults := fs\<rparr>)"
  shows "wp (dedup_tx (ins_event get upd) skip ev body) Q d e"
  unfolding dedup_tx_def
proof (rule wp_in_txI)
  show "Q (Inl (wrap ConnErr)) d (e\<lparr>faults := fs\<rparr>)" for fs by (rule fault)
  show "wp (if ev = '''' then body
      else bnd (attempt (ins_event get upd ev)) (\<lambda>r. case r of
            Inl err \<Rightarrow> if err = uniqueViolation then ret (Abort skip) else fail (wrap err)
          | Inr _ \<Rightarrow> body))
     (\<lambda>r d' e'. case r of Inl x \<Rightarrow> Q (Inl x) d e' | Inr (Abort a) \<Rightarrow> Q (Inr a) d e'
       | Inr (Commit a) \<Rightarrow> (\<forall>fs. Q (Inr a) d' (e'\<lparr>faults := fs\<rparr>)
            \<and> Q (Inl (wrap ConnErr)) d (e'\<lparr>faults := fs\<rparr>) \<and> Q (Inl (wrap ConnErr)) d' (e'\<lparr>faults := fs\<rparr>)))
     d (e\<lparr>faults := fs\<rparr>)" for fs
  proof (cases "ev = ''''")
    case True
    then show ?thesis using body [of fs] by (simp add: note_event_def seen_event_def)
  next
    case False
    then show ?thesis
      using dup body fault
      by (auto simp: ins_event_def seen_event_def note_event_def intro!: wp_exec_chkI split: if_splits)
  qed
qed

text \<open>A transaction whose body is a program that, when it answers \<open>a\<close>, relates the two states by \<open>R\<close>.\<close>

lemma wp_dedup_resultI:
  assumes tm: "tame m" and run: "\<And>d e. wp m (\<lambda>r d' _. \<forall>a. r = Inr a \<longrightarrow> R d a d') d e"
    and err: "\<And>x n fs. Q (Inl x) d (e\<lparr>drawn := n, faults := fs\<rparr>)"
    and dup: "\<And>fs. seen_event get ev d \<Longrightarrow> Q (Inr skip) d (e\<lparr>faults := fs\<rparr>)"
    and lost: "\<And>x a d' n fs. \<not> seen_event get ev d \<Longrightarrow> R (note_event upd ev d) a d' \<Longrightarrow> Q (Inl x) d' (e\<lparr>drawn := n, faults := fs\<rparr>)"
    and made: "\<And>a d' n fs. \<not> seen_event get ev d \<Longrightarrow> R (note_event upd ev d) a d' \<Longrightarrow> Q (Inr a) d' (e\<lparr>drawn := n, faults := fs\<rparr>)"
  shows "wp (dedup_tx (ins_event get upd) skip ev (bnd m (\<lambda>a. ret (Commit a)))) Q d e"
proof -
  have err0: "Q (Inl x) d (e\<lparr>faults := fs\<rparr>)" for x fs using err [of x fs "drawn e"] by simp
  have later: "\<exists>n gs. e' = e\<lparr>drawn := n, faults := gs\<rparr>" if "later_env (e\<lparr>faults := fs\<rparr>) e'" for fs e'
    using that unfolding later_env_def by auto
  have body: "wp m (\<lambda>r d' e'. case r of Inl x \<Rightarrow> Q (Inl x) d e'
       | Inr a \<Rightarrow> (\<forall>fs. Q (Inr a) d' (e'\<lparr>faults := fs\<rparr>)
            \<and> Q (Inl (wrap ConnErr)) d (e'\<lparr>faults := fs\<rparr>) \<and> Q (Inl (wrap ConnErr)) d' (e'\<lparr>faults := fs\<rparr>)))
      (note_event upd ev d) (e\<lparr>faults := fs\<rparr>)" if unseen: "\<not> seen_event get ev d" for fs
  proof (rule wp_mono [OF wp_tame [OF tm run]], erule conjE, goal_cases)
    case (1 r d' e')
    then obtain n gs' where e': "e' = e\<lparr>drawn := n, faults := gs'\<rparr>" using later by blast
    show ?case
    proof (cases r)
      case (Inl x)
      then show ?thesis using err e' by simp
    next
      case (Inr a)
      then have "R (note_event upd ev d) a d'" using 1(1) by blast
      then show ?thesis using err lost made unseen e' Inr by simp
    qed
  qed
  show ?thesis
    by (rule wp_dedup_txI) (use err0 dup in \<open>auto intro!: wp_mono [OF body] split: sum.splits\<close>)
qed

subsection \<open>Lookup by a UUID key\<close>

definition invalid_uuid :: go_err where "invalid_uuid = PgError ''22P02''"

text \<open>A key that is not a UUID is refused by the database, not answered with no row.\<close>

definition by_uuid :: "string \<Rightarrow> ('d \<Rightarrow> 'r option) \<Rightarrow> ('d, 'r) prog" where
  "by_uuid k f = bnd (asks uuid_ok) (\<lambda>ok. if ok k then query_row f else stmt (fail invalid_uuid))"

definition or_not_found :: "go_err \<Rightarrow> ('d, 'a) prog \<Rightarrow> ('d, 'a) prog" where
  "or_not_found nf p = map_err (\<lambda>err. if err = NoRows then nf else wrap err) p"

lemma invalid_uuid_not_NoRows [simp]: "invalid_uuid \<noteq> NoRows"
  by (simp add: invalid_uuid_def)

lemma wp_by_uuidI:
  assumes "\<And>x fs. Q (Inl x) d (e\<lparr>faults := fs\<rparr>)"
    and "\<And>a fs. f d = Some a \<Longrightarrow> Q (Inr a) d (e\<lparr>faults := fs\<rparr>)"
  shows "wp (by_uuid k f) Q d e"
  using assms by (auto simp: by_uuid_def intro!: wp_query_rowI wp_stmtI)

lemma wp_or_not_foundI:
  assumes "wp p (\<lambda>r. Q (case r of Inl x \<Rightarrow> Inl (if x = NoRows then nf else wrap x) | Inr a \<Rightarrow> Inr a)) d e"
  shows "wp (or_not_found nf p) Q d e"
  using assms by (simp add: or_not_found_def)

subsection \<open>Keyset pagination\<close>

definition hour :: int where "hour = 3600000000000"

definition limit_or :: "int \<Rightarrow> int \<Rightarrow> nat" where
  "limit_or def n = nat (if n \<le> 0 \<or> n > 100 then def else n)"

text \<open>The cursor of a request: an hour ahead for the first page or for a token that does not parse.\<close>

definition cursor_of :: "env \<Rightarrow> string \<Rightarrow> int" where
  "cursor_of e before = (if before = '''' then now e + hour
     else case parse_time e before of None \<Rightarrow> now e + hour | Some t \<Rightarrow> t)"

definition newest_first :: "('r \<Rightarrow> int) \<Rightarrow> 'r list \<Rightarrow> 'r list" where
  "newest_first created rs = sort_key (\<lambda>r. - created r) rs"

text \<open>From at most \<open>limit + 1\<close> rows, the page and the token of the next one.\<close>

definition page_of :: "nat \<Rightarrow> ('r \<Rightarrow> int) \<Rightarrow> (int \<Rightarrow> string) \<Rightarrow> 'r list \<Rightarrow> 'r list \<times> string" where
  "page_of limit created fmt rs =
     (if limit < length rs then (take limit rs, fmt (created (rs ! (limit - 1)))) else (rs, ''''))"

subsection \<open>Records of a topic\<close>

text \<open>A Kafka record and the event id the consumers build from its coordinates.  The value is what its payload decodes
  to, \<open>None\<close> where it does not.\<close>

record 'v krecord =
  kr_topic :: string
  kr_key :: string
  kr_value :: 'v
  kr_partition :: int
  kr_offset :: int

definition event_id :: "'v krecord \<Rightarrow> string" where
  "event_id r = kr_topic r @ '':'' @ FormatInt (kr_partition r) @ '':'' @ FormatInt (kr_offset r)"

lemma event_id_nonempty [simp]: "event_id r \<noteq> ''''" "[] \<noteq> event_id r"
  by (simp_all add: event_id_def)

end
