(* ===== verification/Money.thy ===== *)
theory Money
  imports Prelude
begin

section \<open>Amounts in minor units and their wire form\<close>

text \<open>
  \<open>domain.Money\<close> of the order service (services/order/internal/domain/order.go), the type every
  amount of an order, a return and a refund has, and \<open>commerce.common.v1.Money\<close>, the wire form
  with whole units and nanos.  The payment and payout services convert with the same two
  expressions.  \<open>cents\<close> is an int64; the conversions wrap where Go's do.
\<close>

record money =
  currency :: string
  cents :: int64

record wire_money =
  w_currency :: string
  w_units :: int64
  w_nanos :: int32

definition FromUnitsNanos :: "string \<Rightarrow> int64 \<Rightarrow> int32 \<Rightarrow> money" where
  "FromUnitsNanos cur units nanos =
     \<lparr>currency = cur, cents = i64 (i64 (units * 100) + nanos sdiv 10000000)\<rparr>"

definition UnitsNanos :: "money \<Rightarrow> int64 \<times> int32" where
  "UnitsNanos m = (cents m sdiv 100, i32 (i32 (cents m smod 100) * 10000000))"

text \<open>\<open>moneyFrom\<close> of the saga: a missing message is the zero amount.\<close>

definition moneyFrom :: "wire_money option \<Rightarrow> money" where
  "moneyFrom m = (case m of
       None \<Rightarrow> \<lparr>currency = '''', cents = 0\<rparr>
     | Some w \<Rightarrow> FromUnitsNanos (w_currency w) (w_units w) (w_nanos w))"

text \<open>The message a service builds from an amount (\<open>toProto\<close>, \<open>money\<close>, \<open>linesProto\<close> all do this).\<close>

definition wire_of :: "money \<Rightarrow> wire_money" where
  "wire_of m = (case UnitsNanos m of (u, n) \<Rightarrow> \<lparr>w_currency = currency m, w_units = u, w_nanos = n\<rparr>)"

lemma smod100_bounds: "- 99 \<le> (c::int) smod 100 \<and> c smod 100 \<le> 99"
  using smod_abs_less [of 100 c] by linarith

lemma sdiv100_scaled: "in_i64 c \<Longrightarrow> in_i64 (c sdiv 100 * 100)"
proof -
  assume c: "in_i64 c"
  have "c sdiv 100 * 100 = c - c smod 100"
    by (simp add: minus_smod_eq_sdiv_mult)
  moreover have "0 \<le> c \<Longrightarrow> 0 \<le> c smod 100 \<and> c smod 100 \<le> c"
    by (cases "c = 0") (simp_all add: smod_mod_positive zmod_le_nonneg_dividend)
  moreover have "c \<le> 0 \<Longrightarrow> c smod 100 \<le> 0 \<and> c \<le> c smod 100"
  proof -
    assume neg: "c \<le> 0"
    have "c smod 100 = - ((- c) mod 100)"
      using neg by (cases "c = 0") (simp_all add: smod_int_alt_def)
    moreover have "(- c) mod 100 \<le> - c" using neg by (intro zmod_le_nonneg_dividend) simp
    ultimately show ?thesis by simp
  qed
  ultimately show ?thesis using c by (cases "0 \<le> c") (auto simp: in_i64_def)
qed

lemma nanos_in_range: "i32 (i32 (c smod 100) * 10000000) = c smod 100 * 10000000"
proof -
  have a: "in_i32 (c smod 100)" "in_i32 (c smod 100 * 10000000)"
    using smod100_bounds [of c] by (auto simp: in_i32_def)
  show ?thesis using a by simp
qed

lemma nanos_back: "(c smod 100 * 10000000) sdiv 10000000 = (c::int) smod 100"
  by (simp add: signed_divide_int_def abs_mult sgn_mult mult_sgn_abs)

lemma FromUnitsNanos_UnitsNanos:
  assumes "in_i64 (cents m)"
  shows "FromUnitsNanos (currency m) (fst (UnitsNanos m)) (snd (UnitsNanos m)) = m"
proof -
  have "cents m sdiv 100 * 100 + cents m smod 100 = cents m"
    by (rule sdiv_mult_smod_eq)
  then show ?thesis
    using assms sdiv100_scaled [OF assms]
    by (simp add: FromUnitsNanos_def UnitsNanos_def nanos_in_range nanos_back)
qed

lemma moneyFrom_wire_of [simp]: "in_i64 (cents m) \<Longrightarrow> moneyFrom (Some (wire_of m)) = m"
  using FromUnitsNanos_UnitsNanos [of m]
  by (cases "UnitsNanos m") (simp add: moneyFrom_def wire_of_def)

lemma UnitsNanos_nonneg:
  "0 \<le> cents m \<Longrightarrow> 0 \<le> fst (UnitsNanos m) \<and> 0 \<le> snd (UnitsNanos m) \<and> snd (UnitsNanos m) < 1000000000"
  using smod100_bounds [of "cents m"] smod_int_compares(2) [of "cents m" 100]
  by (simp add: UnitsNanos_def nanos_in_range sdiv_nonneg)

end
