(* ===== verification/OrderDomain.thy ===== *)
theory OrderDomain
  imports Errs Money "HOL-Library.List_Lexorder" "HOL-Library.Char_ord"
begin

section \<open>The order aggregate and its state machine (services/order/internal/domain)\<close>

text \<open>
  Records and methods of order.go and return.go.  A method with a pointer receiver that returns an
  error becomes a function from the aggregate to an error or the changed aggregate.  Times are
  integers (instants); strings compare bytewise, as Go's \<open>sort.Strings\<close> does.
\<close>

subsection \<open>Orders\<close>

datatype status = PENDING_PAYMENT | CONFIRMED | CANCELLED | FULFILLED

definition status_str :: "status \<Rightarrow> string" where
  "status_str s = (case s of PENDING_PAYMENT \<Rightarrow> ''PENDING_PAYMENT'' | CONFIRMED \<Rightarrow> ''CONFIRMED''
     | CANCELLED \<Rightarrow> ''CANCELLED'' | FULFILLED \<Rightarrow> ''FULFILLED'')"

record line =
  l_ProductID :: string
  l_Title :: string
  l_Quantity :: int32
  l_UnitPrice :: money
  l_LineTotal :: money
  l_ShopID :: string

record address =
  FullName :: string
  Line1 :: string
  Line2 :: string
  City :: string
  Region :: string
  PostalCode :: string
  CountryCode :: string
  Phone :: string

record order =
  ID :: string
  OwnerID :: string
  Status :: status
  Lines :: "line list"
  Subtotal :: money
  Discount :: money
  Tax :: money
  Total :: money
  ShipTo :: address
  CartID :: string
  CouponCode :: string
  PaymentID :: string
  ReservationID :: string
  PricingSignature :: string
  CancelReason :: string
  CreatedAt :: int
  UpdatedAt :: int

text \<open>The loop of \<open>ShopGroups\<close>: \<open>seen\<close> is the map's key set, \<open>groups\<close> the slice built so far.\<close>

fun shop_loop :: "line list \<Rightarrow> string set \<Rightarrow> string list \<Rightarrow> string list" where
  "shop_loop [] seen groups = groups"
| "shop_loop (l # ls) seen groups =
     (if l_ShopID l \<in> seen then shop_loop ls seen groups
      else shop_loop ls (insert (l_ShopID l) seen) (groups @ [l_ShopID l]))"

definition ShopGroups :: "order \<Rightarrow> string list" where
  "ShopGroups ord = sort (shop_loop (Lines ord) {} [])"

definition CanTransitionTo :: "order \<Rightarrow> status \<Rightarrow> bool" where
  "CanTransitionTo ord to = (case Status ord of
       PENDING_PAYMENT \<Rightarrow> to = CONFIRMED \<or> to = CANCELLED
     | CONFIRMED \<Rightarrow> to = FULFILLED \<or> to = CANCELLED
     | _ \<Rightarrow> False)"

definition bad_transition :: go_err where
  "bad_transition = errs_New KindFailedPrecondition ''BAD_TRANSITION''"

definition Confirm :: "order \<Rightarrow> order res" where
  "Confirm ord =
     (if Status ord = CONFIRMED then Inr ord
      else if \<not> CanTransitionTo ord CONFIRMED then Inl bad_transition
      else Inr (ord\<lparr>Status := CONFIRMED\<rparr>))"

definition Cancel :: "string \<Rightarrow> order \<Rightarrow> order res" where
  "Cancel reason ord =
     (if Status ord = CANCELLED then Inr ord
      else if \<not> CanTransitionTo ord CANCELLED then Inl bad_transition
      else Inr (ord\<lparr>Status := CANCELLED, CancelReason := reason\<rparr>))"

definition Fulfill :: "order \<Rightarrow> order res" where
  "Fulfill ord =
     (if Status ord = FULFILLED then Inr ord
      else if \<not> CanTransitionTo ord FULFILLED then Inl bad_transition
      else Inr (ord\<lparr>Status := FULFILLED\<rparr>))"

subsection \<open>Returns\<close>

datatype return_status = REQUESTED | APPROVED | REJECTED

record return_line =
  rl_ProductID :: string
  rl_Quantity :: int32
  rl_RefundAmount :: money

record rma =
  r_ID :: string
  r_OrderID :: string
  r_OwnerID :: string
  r_Status :: return_status
  r_Reason :: string
  r_Lines :: "return_line list"
  r_RefundTotal :: money
  r_DecidedBy :: string
  r_DecisionNote :: string
  r_CreatedAt :: int
  r_UpdatedAt :: int

definition Decide :: "bool \<Rightarrow> string \<Rightarrow> string \<Rightarrow> rma \<Rightarrow> rma res" where
  "Decide approve decidedBy note r =
     (let want = (if approve then APPROVED else REJECTED) in
      if r_Status r = want then Inr r
      else if r_Status r \<noteq> REQUESTED then Inl bad_transition
      else Inr (r\<lparr>r_Status := want, r_DecidedBy := decidedBy, r_DecisionNote := note\<rparr>))"

subsection \<open>The edges of the order state machine\<close>

text \<open>\<open>allowed s t\<close>: the order may move from \<open>s\<close> to \<open>t\<close>; \<open>CanTransitionTo\<close> is this relation.\<close>

inductive allowed :: "status \<Rightarrow> status \<Rightarrow> bool" where
  "allowed PENDING_PAYMENT CONFIRMED"
| "allowed PENDING_PAYMENT CANCELLED"
| "allowed CONFIRMED FULFILLED"
| "allowed CONFIRMED CANCELLED"

code_pred allowed .

inductive_simps allowed_simps:
  "allowed PENDING_PAYMENT t" "allowed CONFIRMED t" "allowed CANCELLED t" "allowed FULFILLED t"
  "allowed s PENDING_PAYMENT"

lemma CanTransitionTo_iff: "CanTransitionTo ord to \<longleftrightarrow> allowed (Status ord) to"
  by (cases "Status ord") (auto simp: allowed_simps CanTransitionTo_def)

lemma terminal_absorbing: "allowed\<^sup>*\<^sup>* s t \<Longrightarrow> s = CANCELLED \<or> s = FULFILLED \<Longrightarrow> t = s"
  by (induction rule: rtranclp_induct) (auto simp: allowed_simps)

lemma never_back_to_pending: "allowed\<^sup>*\<^sup>* s t \<Longrightarrow> t = PENDING_PAYMENT \<Longrightarrow> s = PENDING_PAYMENT"
  by (induction rule: rtranclp_induct) (auto simp: allowed_simps)

text \<open>What a method passed to the store's \<open>Apply\<close> may do to an order.\<close>

definition lifecycle_fn :: "(order \<Rightarrow> order res) \<Rightarrow> bool" where
  "lifecycle_fn f \<longleftrightarrow> (\<forall>ord ord'. f ord = Inr ord' \<longrightarrow>
     ord' = ord \<or>
     allowed (Status ord) (Status ord') \<and>
     (\<exists>reason. ord' = ord\<lparr>Status := Status ord', CancelReason := reason\<rparr>))"

lemma set_status_reason: "ord\<lparr>Status := s\<rparr> = ord\<lparr>Status := s, CancelReason := CancelReason ord\<rparr>"
  by simp

lemma lifecycle_Confirm: "lifecycle_fn Confirm"
  by (auto simp: lifecycle_fn_def Confirm_def CanTransitionTo_iff split: if_splits
      intro: set_status_reason)

lemma lifecycle_Cancel: "lifecycle_fn (Cancel reason)"
  by (auto simp: lifecycle_fn_def Cancel_def CanTransitionTo_iff split: if_splits)

lemma lifecycle_Fulfill: "lifecycle_fn Fulfill"
  by (auto simp: lifecycle_fn_def Fulfill_def CanTransitionTo_iff split: if_splits
      intro: set_status_reason)

lemmas lifecycle_methods = lifecycle_Confirm lifecycle_Cancel lifecycle_Fulfill

subsection \<open>Shop groups\<close>

lemma shop_loop_set: "set (shop_loop ls seen groups) = set groups \<union> (l_ShopID ` set ls - seen)"
  by (induction ls seen groups rule: shop_loop.induct) auto

lemma shop_loop_distinct:
  "distinct groups \<Longrightarrow> set groups \<subseteq> seen \<Longrightarrow> distinct (shop_loop ls seen groups)"
  by (induction ls seen groups rule: shop_loop.induct) auto

lemma ShopGroups_set: "set (ShopGroups ord) = l_ShopID ` set (Lines ord)"
  by (simp add: ShopGroups_def shop_loop_set)

lemma ShopGroups_distinct: "distinct (ShopGroups ord)"
  by (simp add: ShopGroups_def shop_loop_distinct)

lemma ShopGroups_sorted: "sorted (ShopGroups ord)"
  by (simp add: ShopGroups_def)

text \<open>The groups are determined by the set of shops alone.\<close>

lemma ShopGroups_canonical: "ShopGroups ord = sorted_list_of_set (l_ShopID ` set (Lines ord))"
  by (metis ShopGroups_set ShopGroups_distinct ShopGroups_sorted sorted_list_of_set.idem_if_sorted_distinct)

end
