(* ===== verification/OrderStore.thy ===== *)
theory OrderStore
  imports StoreKit OrderDomain "HOL-Library.Product_Lexorder"
begin

section \<open>Persistence of orders (services/order/internal/store/store.go)\<close>

text \<open>
  The tables of the order database and the operations of store.go on them: insert, the reads, and
  the two transactions that move an order through its lifecycle.  A lifecycle change, its
  \<open>order.*\<close> outbox row and the \<open>processed_events\<close> row of the Kafka record that caused it are
  written in one transaction.  The tables of the idempotency keys and of the returns, which the
  other files of the package use, are fields of the same database.
\<close>

subsection \<open>Tables\<close>

record order_row =
  or_id :: string
  or_owner :: string
  or_status :: status
  or_currency :: string
  or_subtotal :: int64
  or_discount :: int64
  or_tax :: int64
  or_total :: int64
  or_ship_to :: address
  or_cart_id :: string
  or_coupon :: string
  or_payment_id :: string
  or_reservation_id :: string
  or_signature :: string
  or_cancel_reason :: string
  or_created :: int
  or_updated :: int
  or_released :: "int option"
  or_voided :: "int option"

record line_row =
  lr_order :: string
  lr_product :: string
  lr_title :: string
  lr_quantity :: int32
  lr_unit :: int64
  lr_total :: int64
  lr_shop :: string

datatype key_status = IN_FLIGHT | COMPLETED

record idem_row =
  ik_key :: string
  ik_owner :: string
  ik_print :: string
  ik_status :: key_status
  ik_order :: "string option"
  ik_created :: int
  ik_updated :: int

record return_row =
  rr_id :: string
  rr_order :: string
  rr_owner :: string
  rr_status :: return_status
  rr_reason :: string
  rr_currency :: string
  rr_total :: int64
  rr_decided_by :: string
  rr_note :: string
  rr_created :: int
  rr_updated :: int

record return_line_row =
  rn_return :: string
  rn_product :: string
  rn_quantity :: int32
  rn_amount :: int64
  rn_restocked :: bool

text \<open>The messages of order.proto that the order service emits.\<close>

record order_line_msg =
  m_product_id :: string
  m_title :: string
  m_quantity :: int32
  m_shop_id :: string
  m_unit_price :: wire_money
  m_line_total :: wire_money

datatype order_event =
    OrderCreated string string string wire_money int
  | OrderConfirmed string string string address "order_line_msg list" int
  | OrderCancelled string string string int
  | OrderFulfilled string string int
  | ReturnRequested string string string int
  | ReturnApproved string string string wire_money int
  | ReturnRejected string string string int

record order_db =
  orders :: "order_row list"
  order_lines :: "line_row list"
  deliveries :: "(string \<times> string) list"
  processed :: "string list"
  oox :: "order_event outbox"
  idem_keys :: "idem_row list"
  returns :: "return_row list"
  return_lines :: "return_line_row list"

definition empty_order_db :: order_db where
  "empty_order_db = \<lparr>orders = [], order_lines = [], deliveries = [], processed = [],
     oox = empty_outbox, idem_keys = [], returns = [], return_lines = []\<rparr>"

subsection \<open>Insert\<close>

definition order_row_of :: "order \<Rightarrow> int \<Rightarrow> order_row" where
  "order_row_of ord t = \<lparr>or_id = ID ord, or_owner = OwnerID ord, or_status = Status ord,
     or_currency = currency (Total ord), or_subtotal = cents (Subtotal ord),
     or_discount = cents (Discount ord), or_tax = cents (Tax ord), or_total = cents (Total ord),
     or_ship_to = ShipTo ord, or_cart_id = CartID ord, or_coupon = CouponCode ord,
     or_payment_id = PaymentID ord, or_reservation_id = ReservationID ord,
     or_signature = PricingSignature ord, or_cancel_reason = '''', or_created = t, or_updated = t,
     or_released = None, or_voided = None\<rparr>"

definition line_row_of :: "string \<Rightarrow> line \<Rightarrow> line_row" where
  "line_row_of oid l = \<lparr>lr_order = oid, lr_product = l_ProductID l, lr_title = l_Title l,
     lr_quantity = l_Quantity l, lr_unit = cents (l_UnitPrice l), lr_total = cents (l_LineTotal l),
     lr_shop = l_ShopID l\<rparr>"

definition emit :: "string \<Rightarrow> string \<Rightarrow> (int \<Rightarrow> order_event) \<Rightarrow> (order_db, unit) prog" where
  "emit topic key ev = map_err wrap (exec (\<lambda>t d. d\<lparr>oox := outbox_add topic key (ev t) t (oox d)\<rparr>))"

definition outboxCreated :: "order \<Rightarrow> (order_db, unit) prog" where
  "outboxCreated ord = emit ''commerce.order.created'' (ID ord)
     (\<lambda>t. OrderCreated (ID ord) (OwnerID ord) (CartID ord) (wire_of (Total ord)) t)"

definition ins_order_row :: "order \<Rightarrow> (order_db, unit) prog" where
  "ins_order_row ord = map_err wrap (exec_chk (\<lambda>t d.
     if ID ord \<in> or_id ` set (orders d) then Inl uniqueViolation
     else Inr ((), d\<lparr>orders := orders d @ [order_row_of ord t]\<rparr>)))"

definition ins_line_row :: "string \<Rightarrow> line \<Rightarrow> (order_db, unit) prog" where
  "ins_line_row oid l = map_err wrap (exec_chk (\<lambda>t d.
     if (oid, l_ProductID l) \<in> (\<lambda>r. (lr_order r, lr_product r)) ` set (order_lines d)
     then Inl uniqueViolation
     else Inr ((), d\<lparr>order_lines := order_lines d @ [line_row_of oid l]\<rparr>)))"

definition insertOrderTx :: "order \<Rightarrow> (order_db, unit) prog" where
  "insertOrderTx ord =
     bnd (ins_order_row ord) (\<lambda>_.
     bnd (foreach (ins_line_row (ID ord)) (Lines ord)) (\<lambda>_.
     outboxCreated ord))"

definition Insert :: "order \<Rightarrow> (order_db, unit) prog" where
  "Insert ord = in_tx (bnd (insertOrderTx ord) (\<lambda>_. ret (Commit ())))"

subsection \<open>Reads\<close>

definition notFoundID :: "string \<Rightarrow> string \<Rightarrow> ('d, unit) prog" where
  "notFoundID oid reason =
     bnd (asks uuid_ok) (\<lambda>ok. if ok oid then ret () else fail (errs_New KindNotFound reason))"

definition order_not_found :: go_err where
  "order_not_found = errs_New KindNotFound ''ORDER_NOT_FOUND''"

definition scanOrder :: "order_row \<Rightarrow> order" where
  "scanOrder r = \<lparr>ID = or_id r, OwnerID = or_owner r, Status = or_status r, Lines = [],
     Subtotal = \<lparr>currency = or_currency r, cents = or_subtotal r\<rparr>,
     Discount = \<lparr>currency = or_currency r, cents = or_discount r\<rparr>,
     Tax = \<lparr>currency = or_currency r, cents = or_tax r\<rparr>,
     Total = \<lparr>currency = or_currency r, cents = or_total r\<rparr>,
     ShipTo = or_ship_to r, CartID = or_cart_id r, CouponCode = or_coupon r,
     PaymentID = or_payment_id r, ReservationID = or_reservation_id r,
     PricingSignature = or_signature r, CancelReason = or_cancel_reason r,
     CreatedAt = or_created r, UpdatedAt = or_updated r\<rparr>"

definition line_of_row :: "string \<Rightarrow> line_row \<Rightarrow> line" where
  "line_of_row cur r = \<lparr>l_ProductID = lr_product r, l_Title = lr_title r, l_Quantity = lr_quantity r,
     l_UnitPrice = \<lparr>currency = cur, cents = lr_unit r\<rparr>,
     l_LineTotal = \<lparr>currency = cur, cents = lr_total r\<rparr>, l_ShopID = lr_shop r\<rparr>"

definition select_lines :: "string list \<Rightarrow> order_db \<Rightarrow> line_row list" where
  "select_lines ids d = sort_key (\<lambda>r. (lr_order r, lr_product r))
     (filter (\<lambda>r. lr_order r \<in> set ids) (order_lines d))"

definition add_lines :: "line_row list \<Rightarrow> order \<Rightarrow> order" where
  "add_lines rows ord = ord\<lparr>Lines := Lines ord @
     map (line_of_row (currency (Total ord))) (filter (\<lambda>r. lr_order r = ID ord) rows)\<rparr>"

definition attachLines :: "order list \<Rightarrow> (order_db, order list) prog" where
  "attachLines os =
     (if os = [] then ret []
      else bnd (map_err wrap (query (\<lambda>_. select_lines (map ID os)))) (\<lambda>rows.
           ret (map (add_lines rows) os)))"

definition store_get :: "string \<Rightarrow> string \<Rightarrow> (order_db, order) prog" where
  "store_get oid owner =
     bnd (notFoundID oid ''ORDER_NOT_FOUND'') (\<lambda>_.
     bnd (attempt (query_row (\<lambda>d. List.find (\<lambda>r. or_id r = oid) (orders d)))) (\<lambda>q. case q of
       Inl err \<Rightarrow> fail (if err = NoRows then order_not_found else wrap err)
     | Inr row \<Rightarrow>
         if owner \<noteq> '''' \<and> OwnerID (scanOrder row) \<noteq> owner then fail order_not_found
         else bnd (attachLines [scanOrder row]) (\<lambda>os. ret (hd os))))"

definition findBy :: "(order_row \<Rightarrow> string) \<Rightarrow> string \<Rightarrow> (order_db, order) prog" where
  "findBy col val =
     bnd (attempt (query_row (\<lambda>d. List.find (\<lambda>r. col r = val) (orders d)))) (\<lambda>q. case q of
       Inl err \<Rightarrow> fail (if err = NoRows then order_not_found else wrap err)
     | Inr row \<Rightarrow> store_get (or_id row) '''')"

definition FindByPaymentID :: "string \<Rightarrow> (order_db, order) prog" where
  "FindByPaymentID pid = findBy or_payment_id pid"

definition FindByReservationID :: "string \<Rightarrow> (order_db, order) prog" where
  "FindByReservationID rid = findBy or_reservation_id rid"

text \<open>\<open>List\<close>: newest first, keyset-paginated by \<open>created_at\<close>.\<close>

definition page_limit :: "int \<Rightarrow> int" where
  "page_limit limit = (if limit \<le> 0 \<or> limit > 100 then 20 else limit)"


definition list_cursor :: "string \<Rightarrow> (order_db, int) prog" where
  "list_cursor before =
     (if before = '''' then asks (\<lambda>e. now e + hour)
      else bnd (asks parse_time) (\<lambda>parse. case parse before of
             None \<Rightarrow> fail (errs_New KindInvalidArgument ''BAD_CURSOR'')
           | Some t \<Rightarrow> ret t))"

definition select_orders :: "int \<Rightarrow> string \<Rightarrow> string \<Rightarrow> nat \<Rightarrow> order_db \<Rightarrow> order_row list" where
  "select_orders cursor owner st n d = take n (sort_key (\<lambda>r. - or_created r)
     (filter (\<lambda>r. or_created r < cursor \<and> (owner = '''' \<or> or_owner r = owner)
        \<and> (st = '''' \<or> status_str (or_status r) = st)) (orders d)))"

definition store_List :: "string \<Rightarrow> string \<Rightarrow> int \<Rightarrow> string \<Rightarrow> (order_db, order list \<times> string) prog" where
  "store_List owner st limit0 before =
     (let limit = nat (page_limit limit0) in
      bnd (list_cursor before) (\<lambda>cursor.
      bnd (map_err wrap (query (\<lambda>_. select_orders cursor owner st (Suc limit)))) (\<lambda>rows.
      bnd (asks fmt_time) (\<lambda>fmt.
      let out = map scanOrder rows;
          page = (if limit < length out then take limit out else out);
          next = (if limit < length out then fmt (CreatedAt (page ! (limit - 1))) else '''')
      in bnd (attachLines page) (\<lambda>os. ret (os, next))))))"

subsection \<open>Lifecycle transactions\<close>

definition mark_processed :: "string \<Rightarrow> order_db \<Rightarrow> order_db" where
  "mark_processed eventID d = d\<lparr>processed := processed d @ [eventID]\<rparr>"

definition ins_processed :: "string \<Rightarrow> (order_db, unit) prog" where
  "ins_processed eventID = exec_chk (\<lambda>_ d.
     if eventID \<in> set (processed d) then Inl uniqueViolation else Inr ((), mark_processed eventID d))"

text \<open>\<open>beginDeduped\<close> and the rest of the transaction of its caller.  An event already processed
  rolls back and answers \<open>None\<close>, Go's \<open>(nil, nil)\<close>.\<close>

definition beginDeduped :: "string \<Rightarrow> (order_db, order option fin) prog \<Rightarrow> (order_db, order option) prog" where
  "beginDeduped eventID body = in_tx (
     if eventID = '''' then body
     else bnd (attempt (ins_processed eventID)) (\<lambda>r. case r of
            Inl err \<Rightarrow> if err = uniqueViolation then ret (Abort None) else fail (wrap err)
          | Inr _ \<Rightarrow> body))"

definition line_msg :: "line \<Rightarrow> order_line_msg" where
  "line_msg l = \<lparr>m_product_id = l_ProductID l, m_title = l_Title l, m_quantity = l_Quantity l,
     m_shop_id = l_ShopID l, m_unit_price = wire_of (l_UnitPrice l),
     m_line_total = wire_of (l_LineTotal l)\<rparr>"

definition linesProto :: "line list \<Rightarrow> order_line_msg list" where
  "linesProto ls = map line_msg ls"

definition outboxTransition :: "order \<Rightarrow> (order_db, unit) prog" where
  "outboxTransition ord = (case Status ord of
       CONFIRMED \<Rightarrow> emit ''commerce.order.confirmed'' (ID ord)
         (\<lambda>t. OrderConfirmed (ID ord) (OwnerID ord) (PaymentID ord) (ShipTo ord) (linesProto (Lines ord)) t)
     | CANCELLED \<Rightarrow> emit ''commerce.order.cancelled'' (ID ord)
         (\<lambda>t. OrderCancelled (ID ord) (OwnerID ord) (CancelReason ord) t)
     | FULFILLED \<Rightarrow> emit ''commerce.order.fulfilled'' (ID ord)
         (\<lambda>t. OrderFulfilled (ID ord) (OwnerID ord) t)
     | PENDING_PAYMENT \<Rightarrow> ret ())"

definition update_order_row :: "order \<Rightarrow> int \<Rightarrow> order_db \<Rightarrow> order_db" where
  "update_order_row ord t d = d\<lparr>orders := upd_rows (\<lambda>r. or_id r = ID ord)
     (\<lambda>r. r\<lparr>or_status := Status ord, or_cancel_reason := CancelReason ord,
            or_payment_id := PaymentID ord, or_reservation_id := ReservationID ord,
            or_updated := t\<rparr>) (orders d)\<rparr>"

definition persistTransition :: "order \<Rightarrow> (order_db, unit) prog" where
  "persistTransition ord =
     bnd (map_err wrap (exec (update_order_row ord))) (\<lambda>_. outboxTransition ord)"

definition Apply :: "string \<Rightarrow> string \<Rightarrow> (order \<Rightarrow> order res) \<Rightarrow> (order_db, order option) prog" where
  "Apply orderID eventID fn = beginDeduped eventID (
     bnd (store_get orderID '''') (\<lambda>ord.
     bnd (lift_res (fn ord)) (\<lambda>ord'.
     bnd (if Status ord' \<noteq> Status ord then persistTransition ord' else ret ()) (\<lambda>_.
     ret (Commit (Some ord'))))))"

definition record_delivery :: "string \<Rightarrow> string \<Rightarrow> order_db \<Rightarrow> order_db" where
  "record_delivery orderID shopID d =
     (if (orderID, shopID) \<in> set (deliveries d) then d
      else d\<lparr>deliveries := deliveries d @ [(orderID, shopID)]\<rparr>)"

definition delivered_count :: "string \<Rightarrow> string list \<Rightarrow> order_db \<Rightarrow> nat" where
  "delivered_count orderID required d =
     length (remdups (map snd (filter (\<lambda>x. fst x = orderID \<and> snd x \<in> set required) (deliveries d))))"

definition ApplyShipmentDelivered :: "string \<Rightarrow> string \<Rightarrow> string \<Rightarrow> (order_db, order option) prog" where
  "ApplyShipmentDelivered orderID shopID eventID = beginDeduped eventID (
     bnd (store_get orderID '''') (\<lambda>ord.
     bnd (map_err wrap (exec (\<lambda>_. record_delivery orderID shopID))) (\<lambda>_.
     if Status ord \<noteq> CONFIRMED then ret (Commit (Some ord))
     else bnd (map_err wrap (query (\<lambda>_. delivered_count orderID (ShopGroups ord)))) (\<lambda>delivered.
       if delivered < length (ShopGroups ord) then ret (Commit (Some ord))
       else bnd (lift_res (Fulfill ord)) (\<lambda>ord'.
            bnd (persistTransition ord') (\<lambda>_.
            ret (Commit (Some ord'))))))))"

end
