(* ===== verification/OrderStoreSpec.thy ===== *)
theory OrderStoreSpec
  imports OrderStore
begin

section \<open>What the transactions of the order store do\<close>

text \<open>
  For each operation of OrderStore one lemma that states, for every fault list, the states it can
  leave and the answers it can give: a read changes nothing, a lifecycle transaction leaves the
  database as it was or applies one transition with its outbox row and its processed event.
\<close>

text \<open>The order a read returns, as a function of the tables.\<close>

definition load :: "order_db \<Rightarrow> string \<Rightarrow> order option" where
  "load d oid = (case List.find (\<lambda>r. or_id r = oid) (orders d) of
       None \<Rightarrow> None
     | Some row \<Rightarrow> Some (add_lines (select_lines [oid] d) (scanOrder row)))"

lemma scanOrder_sel [simp]:
  "ID (scanOrder r) = or_id r" "OwnerID (scanOrder r) = or_owner r" "Status (scanOrder r) = or_status r"
  "PaymentID (scanOrder r) = or_payment_id r" "ReservationID (scanOrder r) = or_reservation_id r"
  "CancelReason (scanOrder r) = or_cancel_reason r" "Lines (scanOrder r) = []"
  by (simp_all add: scanOrder_def)

lemma add_lines_sel [simp]:
  "ID (add_lines rows ord) = ID ord" "OwnerID (add_lines rows ord) = OwnerID ord"
  "Status (add_lines rows ord) = Status ord" "PaymentID (add_lines rows ord) = PaymentID ord"
  "ReservationID (add_lines rows ord) = ReservationID ord"
  "CancelReason (add_lines rows ord) = CancelReason ord"
  "Subtotal (add_lines rows ord) = Subtotal ord" "Total (add_lines rows ord) = Total ord"
  by (simp_all add: add_lines_def)

lemma find_or_id: "List.find (\<lambda>r. or_id r = oid) t = Some row \<Longrightarrow> or_id row = oid"
  by (auto simp: find_Some_iff)

lemma ID_load: "load d oid = Some ord \<Longrightarrow> ID ord = oid"
  by (auto simp: load_def dest: find_or_id split: option.splits)

lemma load_row:
  "load d oid = Some ord \<Longrightarrow> \<exists>row\<in>set (orders d). or_id row = oid \<and>
     List.find (\<lambda>r. or_id r = oid) (orders d) = Some row \<and> Status ord = or_status row \<and>
     OwnerID ord = or_owner row \<and> PaymentID ord = or_payment_id row \<and>
     ReservationID ord = or_reservation_id row \<and> CancelReason ord = or_cancel_reason row"
  by (auto simp: load_def dest: find_in_set split: option.splits)

lemma load_None: "load d oid = None \<longleftrightarrow> oid \<notin> or_id ` set (orders d)"
  unfolding load_def find_key_None [symmetric] by (simp split: option.split)

subsection \<open>Reads\<close>

lemma wp_notFoundID [simp]:
  "wp (notFoundID oid reason) Q d e =
     (if uuid_ok e oid then Q (Inr ()) d e else Q (Inl (errs_New KindNotFound reason)) d e)"
  by (simp add: notFoundID_def)

text \<open>\<open>store_get\<close> reads: the order if it exists and belongs to the owner asked for, an error otherwise.\<close>

lemma store_get_spec:
  assumes err: "\<And>err fs. Q (Inl err) d (e\<lparr>faults := fs\<rparr>)"
    and ok: "\<And>ord fs. uuid_ok e oid \<Longrightarrow> load d oid = Some ord \<Longrightarrow> owner = '''' \<or> OwnerID ord = owner \<Longrightarrow>
          Q (Inr ord) d (e\<lparr>faults := fs\<rparr>)"
  shows "wp (store_get oid owner) Q d e"
proof -
  have err0: "Q (Inl x) d e" for x using err [of x "faults e"] by simp
  have rows: "load d oid = Some (add_lines (select_lines [or_id row] d) (scanOrder row))"
    if "List.find (\<lambda>r. or_id r = oid) (orders d) = Some row" for row
    using that find_or_id [OF that] by (simp add: load_def)
  show ?thesis
    unfolding store_get_def
    by (auto intro!: wp_query_rowI wp_queryI ok simp: err err0 attachLines_def rows split: sum.splits)
qed

lemma wp_store_getI:
  assumes "\<And>err fs. Q (Inl err) d (e\<lparr>faults := fs\<rparr>)"
    and "\<And>ord fs. load d oid = Some ord \<Longrightarrow> Q (Inr ord) d (e\<lparr>faults := fs\<rparr>)"
  shows "wp (store_get oid owner) Q d e"
  by (rule store_get_spec) (use assms in auto)

lemma quiet_store_get:
  assumes "faults e = []" "uuid_ok e oid" "load d oid = Some ord"
  shows "wp (store_get oid owner) Q d e =
    Q (if owner = '''' \<or> OwnerID ord = owner then Inr ord else Inl order_not_found) d e"
proof -
  obtain row where row: "List.find (\<lambda>r. or_id r = oid) (orders d) = Some row"
      "ord = add_lines (select_lines [oid] d) (scanOrder row)"
    using assms(3) by (auto simp: load_def split: option.splits)
  then show ?thesis
    using assms(1,2) find_or_id [OF row(1)] by (simp add: store_get_def attachLines_def notFoundID_def wp_quiet)
qed

subsection \<open>Insert\<close>

lemma wp_ins_line_rowI:
  assumes "\<And>err d' fs. Q (Inl err) d' (e\<lparr>faults := fs\<rparr>)"
    and "\<And>fs. (oid, l_ProductID l) \<notin> (\<lambda>x. (lr_order x, lr_product x)) ` set (order_lines d) \<Longrightarrow>
          Q (Inr ()) (d\<lparr>order_lines := order_lines d @ [line_row_of oid l]\<rparr>) (e\<lparr>faults := fs\<rparr>)"
  shows "wp (ins_line_row oid l) Q d e"
  unfolding ins_line_row_def using assms by (auto intro!: wp_exec_chkI split: if_splits)

lemma line_rows_of_insert:
  "wp (foreach (ins_line_row oid) ls) (\<lambda>r d' e'. (\<exists>fs. e' = e\<lparr>faults := fs\<rparr>) \<and>
      (r = Inr () \<longrightarrow> d' = d\<lparr>order_lines := order_lines d @ map (line_row_of oid) ls\<rparr> \<and>
         distinct (map l_ProductID ls) \<and>
         (\<forall>l\<in>set ls. (oid, l_ProductID l) \<notin> (\<lambda>x. (lr_order x, lr_product x)) ` set (order_lines d)))) d e"
proof (induction ls arbitrary: d e)
  case Nil
  show ?case by (auto intro: exI [where x = "faults e"])
next
  case (Cons l ls d e)
  let ?d = "d\<lparr>order_lines := order_lines d @ [line_row_of oid l]\<rparr>"
  have step: "wp (foreach (ins_line_row oid) ls) (\<lambda>r d' e'. (\<exists>fs. e' = e\<lparr>faults := fs\<rparr>) \<and>
      (r = Inr () \<longrightarrow> d' = d\<lparr>order_lines := order_lines d @ map (line_row_of oid) (l # ls)\<rparr> \<and>
         distinct (map l_ProductID (l # ls)) \<and>
         (\<forall>k\<in>set (l # ls). (oid, l_ProductID k) \<notin> (\<lambda>x. (lr_order x, lr_product x)) ` set (order_lines d))))
      ?d (e\<lparr>faults := fs\<rparr>)"
    if new: "(oid, l_ProductID l) \<notin> (\<lambda>x. (lr_order x, lr_product x)) ` set (order_lines d)" for fs
    by (rule wp_mono [OF Cons.IH]) (use new in \<open>auto simp: line_row_of_def image_iff\<close>)
  show ?case
    unfolding foreach.simps wp_bnd
  proof (rule wp_ins_line_rowI, goal_cases)
    case (1 err d' fs)
    show ?case by auto
  next
    case (2 fs)
    then show ?case using step [of fs] by simp
  qed
qed

definition inserted :: "order \<Rightarrow> int \<Rightarrow> order_db \<Rightarrow> order_db" where
  "inserted ord t d = d\<lparr>orders := orders d @ [order_row_of ord t],
     order_lines := order_lines d @ map (line_row_of (ID ord)) (Lines ord),
     oox := outbox_add ''commerce.order.created'' (ID ord)
       (OrderCreated (ID ord) (OwnerID ord) (CartID ord) (wire_of (Total ord)) t) t (oox d)\<rparr>"

text \<open>What the primary keys of \<open>orders\<close> and \<open>order_lines\<close> demand of an insert.\<close>

definition insertable :: "order \<Rightarrow> order_db \<Rightarrow> bool" where
  "insertable ord d \<longleftrightarrow> ID ord \<notin> or_id ` set (orders d) \<and> distinct (map l_ProductID (Lines ord)) \<and>
     (\<forall>l\<in>set (Lines ord). (ID ord, l_ProductID l) \<notin> (\<lambda>x. (lr_order x, lr_product x)) ` set (order_lines d))"

lemma wp_insertOrderTxI:
  assumes "\<And>err d' fs. Q (Inl err) d' (e\<lparr>faults := fs\<rparr>)"
    and "\<And>fs. insertable ord d \<Longrightarrow> Q (Inr ()) (inserted ord (now e) d) (e\<lparr>faults := fs\<rparr>)"
  shows "wp (insertOrderTx ord) Q d e"
proof -
  have lines: "wp (foreach (ins_line_row (ID ord)) (Lines ord))
      (\<lambda>r d' e'. case r of Inl x \<Rightarrow> Q (Inl x) d' e' | Inr _ \<Rightarrow> wp (outboxCreated ord) Q d' e')
      (d\<lparr>orders := orders d @ [order_row_of ord (now e)]\<rparr>) (e\<lparr>faults := fs\<rparr>)"
    if "ID ord \<notin> or_id ` set (orders d)" for fs
    apply (rule wp_mono [OF line_rows_of_insert])
    using that assms
    by (auto simp: outboxCreated_def emit_def inserted_def insertable_def intro!: wp_execI split: sum.splits)
  show ?thesis
    unfolding insertOrderTx_def ins_order_row_def
    by (auto intro!: wp_exec_chkI lines assms split: if_splits)
qed

lemma wp_InsertI:
  assumes "\<And>x fs. Q (Inl x) d (e\<lparr>faults := fs\<rparr>)"
    and "\<And>r fs. insertable ord d \<Longrightarrow> r = Inr () \<or> r = Inl (wrap ConnErr) \<Longrightarrow>
           Q r (inserted ord (now e) d) (e\<lparr>faults := fs\<rparr>)"
  shows "wp (Insert ord) Q d e"
  unfolding Insert_def using assms by (auto intro!: wp_in_txI wp_insertOrderTxI)

subsection \<open>Lifecycle transactions\<close>

definition with_event :: "string \<Rightarrow> order_db \<Rightarrow> order_db" where
  "with_event eventID d = (if eventID = '''' then d else mark_processed eventID d)"

definition new_event :: "string \<Rightarrow> order_db \<Rightarrow> bool" where
  "new_event eventID d \<longleftrightarrow> eventID = '''' \<or> eventID \<notin> set (processed d)"

lemma with_event_simps [simp]:
  "orders (with_event ev d) = orders d" "order_lines (with_event ev d) = order_lines d"
  "deliveries (with_event ev d) = deliveries d" "oox (with_event ev d) = oox d"
  "idem_keys (with_event ev d) = idem_keys d" "returns (with_event ev d) = returns d"
  "return_lines (with_event ev d) = return_lines d" "load (with_event ev d) oid = load d oid"
  by (simp_all add: with_event_def mark_processed_def load_def select_lines_def split: option.split)

definition transition_event :: "order \<Rightarrow> int \<Rightarrow> order_event" where
  "transition_event ord t = (case Status ord of
       CONFIRMED \<Rightarrow> OrderConfirmed (ID ord) (OwnerID ord) (PaymentID ord) (ShipTo ord) (linesProto (Lines ord)) t
     | CANCELLED \<Rightarrow> OrderCancelled (ID ord) (OwnerID ord) (CancelReason ord) t
     | _ \<Rightarrow> OrderFulfilled (ID ord) (OwnerID ord) t)"

definition transition_topic :: "status \<Rightarrow> string" where
  "transition_topic s = (case s of CONFIRMED \<Rightarrow> ''commerce.order.confirmed''
     | CANCELLED \<Rightarrow> ''commerce.order.cancelled'' | _ \<Rightarrow> ''commerce.order.fulfilled'')"

text \<open>One lifecycle transition: the row and the outbox row.\<close>

definition moved :: "order \<Rightarrow> int \<Rightarrow> order_db \<Rightarrow> order_db" where
  "moved ord t d = (update_order_row ord t d)\<lparr>oox :=
     outbox_add (transition_topic (Status ord)) (ID ord) (transition_event ord t) t (oox d)\<rparr>"

lemma wp_persistTransitionI:
  assumes "\<And>err d' fs. Q (Inl err) d' (e\<lparr>faults := fs\<rparr>)"
    and "\<And>fs. Q (Inr ()) (moved ord (now e) d) (e\<lparr>faults := fs\<rparr>)"
    and "Status ord \<noteq> PENDING_PAYMENT"
  shows "wp (persistTransition ord) Q d e"
  using assms
  by (cases "Status ord")
     (auto simp: persistTransition_def outboxTransition_def emit_def moved_def update_order_row_def
        transition_event_def transition_topic_def intro!: wp_execI)

lemma wp_beginDedupedI:
  assumes fault: "\<And>fs. Q (Inl (wrap ConnErr)) d (e\<lparr>faults := fs\<rparr>)"
    and dup: "\<And>fs. \<not> new_event ev d \<Longrightarrow> Q (Inr None) d (e\<lparr>faults := fs\<rparr>)"
    and body: "\<And>fs. new_event ev d \<Longrightarrow> wp body (\<lambda>r d' e'. case r of
         Inl x \<Rightarrow> Q (Inl x) d e'
       | Inr (Abort a) \<Rightarrow> Q (Inr a) d e'
       | Inr (Commit a) \<Rightarrow> (\<forall>fs. Q (Inr a) d' (e'\<lparr>faults := fs\<rparr>)
            \<and> Q (Inl (wrap ConnErr)) d (e'\<lparr>faults := fs\<rparr>) \<and> Q (Inl (wrap ConnErr)) d' (e'\<lparr>faults := fs\<rparr>)))
         (with_event ev d) (e\<lparr>faults := fs\<rparr>)"
  shows "wp (beginDeduped ev body) Q d e"
  unfolding beginDeduped_def
proof (rule wp_in_txI)
  show "Q (Inl (wrap ConnErr)) d (e\<lparr>faults := fs\<rparr>)" for fs by (rule fault)
  show "wp (if ev = '''' then body
      else bnd (attempt (ins_processed ev)) (\<lambda>r. case r of
            Inl err \<Rightarrow> if err = uniqueViolation then ret (Abort None) else fail (wrap err)
          | Inr _ \<Rightarrow> body))
     (\<lambda>r d' e'. case r of Inl x \<Rightarrow> Q (Inl x) d e' | Inr (Abort a) \<Rightarrow> Q (Inr a) d e'
       | Inr (Commit a) \<Rightarrow> (\<forall>fs. Q (Inr a) d' (e'\<lparr>faults := fs\<rparr>)
            \<and> Q (Inl (wrap ConnErr)) d (e'\<lparr>faults := fs\<rparr>) \<and> Q (Inl (wrap ConnErr)) d' (e'\<lparr>faults := fs\<rparr>)))
     d (e\<lparr>faults := fs\<rparr>)" for fs
  proof (cases "ev = ''''")
    case True
    then show ?thesis using body [of fs] by (simp add: new_event_def with_event_def)
  next
    case False
    then show ?thesis
      using dup body fault
      by (auto simp: ins_processed_def new_event_def with_event_def uniqueViolation_def
          intro!: wp_exec_chkI split: if_splits)
  qed
qed

lemma wp_ApplyI:
  assumes fn: "lifecycle_fn fn"
    and err: "\<And>x fs. Q (Inl x) d (e\<lparr>faults := fs\<rparr>)"
    and dup: "\<And>fs. \<not> new_event ev d \<Longrightarrow> Q (Inr None) d (e\<lparr>faults := fs\<rparr>)"
    and app: "\<And>ord ord' r fs. new_event ev d \<Longrightarrow> load d oid = Some ord \<Longrightarrow> fn ord = Inr ord' \<Longrightarrow>
       r = Inr (Some ord') \<or> r = Inl (wrap ConnErr) \<Longrightarrow>
       Q r (if Status ord' = Status ord then with_event ev d else moved ord' (now e) (with_event ev d))
         (e\<lparr>faults := fs\<rparr>)"
  shows "wp (Apply oid ev fn) Q d e"
proof -
  have pend: "Status ord' \<noteq> PENDING_PAYMENT" if "fn ord = Inr ord'" "Status ord' \<noteq> Status ord" for ord ord'
    using fn that unfolding lifecycle_fn_def by (metis allowed_simps(5))
  have same: "Q r (with_event ev d) (e\<lparr>faults := fs\<rparr>)"
    if "new_event ev d" "load d oid = Some ord" "fn ord = Inr ord'" "Status ord' = Status ord"
       "r = Inr (Some ord') \<or> r = Inl (wrap ConnErr)" for r fs ord ord'
    using app [of ord ord' r fs] that by simp
  have mv: "Q r (moved ord' (now e) (with_event ev d)) (e\<lparr>faults := fs\<rparr>)"
    if "new_event ev d" "load d oid = Some ord" "fn ord = Inr ord'" "Status ord' \<noteq> Status ord"
       "r = Inr (Some ord') \<or> r = Inl (wrap ConnErr)" for r fs ord ord'
    using app [of ord ord' r fs] that by simp
  show ?thesis
    unfolding Apply_def
    apply (rule wp_beginDedupedI)
      apply (rule err)
     apply (erule dup)
    by (auto intro!: wp_store_getI wp_persistTransitionI simp: err dest: pend split: sum.splits intro: same mv)
qed

lemma wp_ApplyShipmentDeliveredI:
  assumes err: "\<And>x fs. Q (Inl x) d (e\<lparr>faults := fs\<rparr>)"
    and dup: "\<And>fs. \<not> new_event ev d \<Longrightarrow> Q (Inr None) d (e\<lparr>faults := fs\<rparr>)"
    and wait: "\<And>ord r fs. new_event ev d \<Longrightarrow> load d oid = Some ord \<Longrightarrow>
       Status ord \<noteq> CONFIRMED \<or>
       delivered_count oid (ShopGroups ord) (record_delivery oid shop (with_event ev d)) < length (ShopGroups ord) \<Longrightarrow>
       r = Inr (Some ord) \<or> r = Inl (wrap ConnErr) \<Longrightarrow>
       Q r (record_delivery oid shop (with_event ev d)) (e\<lparr>faults := fs\<rparr>)"
    and full: "\<And>ord r fs. new_event ev d \<Longrightarrow> load d oid = Some ord \<Longrightarrow> Status ord = CONFIRMED \<Longrightarrow>
       \<not> delivered_count oid (ShopGroups ord) (record_delivery oid shop (with_event ev d)) < length (ShopGroups ord) \<Longrightarrow>
       r = Inr (Some (ord\<lparr>Status := FULFILLED\<rparr>)) \<or> r = Inl (wrap ConnErr) \<Longrightarrow>
       Q r (moved (ord\<lparr>Status := FULFILLED\<rparr>) (now e) (record_delivery oid shop (with_event ev d))) (e\<lparr>faults := fs\<rparr>)"
  shows "wp (ApplyShipmentDelivered oid shop ev) Q d e"
proof -
  have ff: "Fulfill ord = Inr (ord\<lparr>Status := FULFILLED\<rparr>)" if "Status ord = CONFIRMED" for ord
    using that by (simp add: Fulfill_def CanTransitionTo_def)
  show ?thesis
    unfolding ApplyShipmentDelivered_def
    apply (rule wp_beginDedupedI)
      apply (rule err)
     apply (erule dup)
    by (auto intro!: wp_store_getI wp_persistTransitionI wp_execI wp_queryI simp: err ff split: sum.splits
        intro: wait full)
qed

end
