(* ===== verification/OrderKeys.thy ===== *)
theory OrderKeys
  imports OrderStoreSpec Strs
begin

section \<open>Idempotency keys and compensation tracking (idempotency.go, compensation.go)\<close>

text \<open>
  A checkout claims its key before any downstream work and completes it in the transaction that
  inserts the order.  \<open>ClaimIdempotencyKey\<close> is three statements without a transaction, so each is
  an operation of its own here and the claim is composed of them: other clients may run between
  them.  The second half of compensation.go is the set of cancelled orders the reconciler retries.
\<close>

subsection \<open>Fingerprints\<close>

definition fingerprint_input :: "string \<Rightarrow> string \<Rightarrow> string \<Rightarrow> string \<Rightarrow> int64 \<Rightarrow> string" where
  "fingerprint_input ownerID cartID cur coupon totalCents =
     concat (map (\<lambda>part. part @ [CHR 0x00]) [ownerID, cartID, cur, coupon]) @ FormatInt totalCents"

definition Fingerprint :: "env \<Rightarrow> string \<Rightarrow> string \<Rightarrow> string \<Rightarrow> string \<Rightarrow> int64 \<Rightarrow> string" where
  "Fingerprint e ownerID cartID cur coupon totalCents =
     sha256_hex e (fingerprint_input ownerID cartID cur coupon totalCents)"

subsection \<open>Claims\<close>

definition minute :: int where "minute = 60000000000"

definition StaleInFlightAfter :: int where "StaleInFlightAfter = 15 * minute"

record claim =
  c_Claimed :: bool
  c_OrderID :: string
  c_InFlight :: bool

definition claimed :: claim where "claimed = \<lparr>c_Claimed = True, c_OrderID = '''', c_InFlight = False\<rparr>"
definition in_flight :: claim where "in_flight = \<lparr>c_Claimed = False, c_OrderID = '''', c_InFlight = True\<rparr>"
definition claim_of_order :: "string \<Rightarrow> claim" where
  "claim_of_order oid = \<lparr>c_Claimed = False, c_OrderID = oid, c_InFlight = False\<rparr>"

definition ErrIdempotencyKeyReused :: go_err where
  "ErrIdempotencyKeyReused = PlainErr ''idempotency key reused for a different request''"

definition find_key :: "string \<Rightarrow> order_db \<Rightarrow> idem_row option" where
  "find_key key d = List.find (\<lambda>k. ik_key k = key) (idem_keys d)"

text \<open>\<open>INSERT ... ON CONFLICT (key) DO NOTHING RETURNING key\<close>: no row when the key exists.\<close>

definition claim_insert :: "string \<Rightarrow> string \<Rightarrow> string \<Rightarrow> (order_db, unit) prog" where
  "claim_insert key ownerID print = exec_chk (\<lambda>t d.
     if key \<in> ik_key ` set (idem_keys d) then Inl NoRows
     else Inr ((), d\<lparr>idem_keys := idem_keys d @ [\<lparr>ik_key = key, ik_owner = ownerID, ik_print = print,
       ik_status = IN_FLIGHT, ik_order = None, ik_created = t, ik_updated = t\<rparr>]\<rparr>))"

text \<open>The takeover: only a key still in flight whose claim is stale.\<close>

definition stale :: "int \<Rightarrow> string \<Rightarrow> idem_row \<Rightarrow> bool" where
  "stale t key k \<longleftrightarrow> ik_key k = key \<and> ik_status k = IN_FLIGHT \<and> ik_created k < t - StaleInFlightAfter"

definition claim_takeover :: "string \<Rightarrow> (order_db, unit) prog" where
  "claim_takeover key = exec_chk (\<lambda>t d.
     if \<not> (\<exists>k\<in>set (idem_keys d). stale t key k) then Inl NoRows
     else Inr ((), d\<lparr>idem_keys := upd_rows (stale t key)
       (\<lambda>k. k\<lparr>ik_created := t, ik_updated := t\<rparr>) (idem_keys d)\<rparr>))"

definition ClaimIdempotencyKey :: "string \<Rightarrow> string \<Rightarrow> string \<Rightarrow> (order_db, claim) prog" where
  "ClaimIdempotencyKey key ownerID print =
     bnd (attempt (claim_insert key ownerID print)) (\<lambda>r. case r of
       Inr _ \<Rightarrow> ret claimed
     | Inl err \<Rightarrow>
       if err \<noteq> NoRows then fail (wrap err)
       else bnd (attempt (query_row (find_key key))) (\<lambda>q. case q of
         Inl err \<Rightarrow> if err = NoRows then ret in_flight else fail (wrap err)
       | Inr k \<Rightarrow>
         if ik_owner k \<noteq> ownerID \<or> ik_print k \<noteq> print then fail ErrIdempotencyKeyReused
         else case (ik_status k, ik_order k) of
           (COMPLETED, Some oid) \<Rightarrow> ret (claim_of_order oid)
         | _ \<Rightarrow>
           bnd (asks now) (\<lambda>t.
           if t - ik_created k < StaleInFlightAfter then ret in_flight
           else bnd (attempt (claim_takeover key)) (\<lambda>u. case u of
             Inl err \<Rightarrow> if err = NoRows then ret in_flight else fail (wrap err)
           | Inr _ \<Rightarrow> ret claimed))))"

definition ReleaseIdempotencyKey :: "string \<Rightarrow> (order_db, unit) prog" where
  "ReleaseIdempotencyKey key =
     (if key = '''' then ret ()
      else map_err wrap (exec (\<lambda>_ d. d\<lparr>idem_keys :=
             filter (\<lambda>k. \<not> (ik_key k = key \<and> ik_status k = IN_FLIGHT)) (idem_keys d)\<rparr>)))"

definition completed_order :: "string \<Rightarrow> order_db \<Rightarrow> string option" where
  "completed_order key d = (case List.find (\<lambda>k. ik_key k = key \<and> ik_status k = COMPLETED) (idem_keys d) of
       None \<Rightarrow> None | Some k \<Rightarrow> ik_order k)"

definition OrderForKey :: "string \<Rightarrow> (order_db, order) prog" where
  "OrderForKey key =
     bnd (attempt (query_row (completed_order key))) (\<lambda>q. case q of
       Inl err \<Rightarrow> fail (if err = NoRows then order_not_found else wrap err)
     | Inr oid \<Rightarrow> store_get oid '''')"

definition reapable :: "int \<Rightarrow> int \<Rightarrow> idem_row \<Rightarrow> bool" where
  "reapable t retain k \<longleftrightarrow>
     (ik_status k = COMPLETED \<and> ik_created k < t - retain) \<or>
     (ik_status k = IN_FLIGHT \<and> ik_created k < t - StaleInFlightAfter)"

definition ReapIdempotencyKeys :: "int \<Rightarrow> (order_db, nat) prog" where
  "ReapIdempotencyKeys retain = map_err wrap (exec_chk (\<lambda>t d.
     Inr (length (filter (reapable t retain) (idem_keys d)),
          d\<lparr>idem_keys := filter (\<lambda>k. \<not> reapable t retain k) (idem_keys d)\<rparr>)))"

text \<open>The statement that completes the key; the answer is the number of rows it changed.\<close>

definition held :: "string \<Rightarrow> idem_row \<Rightarrow> bool" where
  "held key k \<longleftrightarrow> ik_key k = key \<and> ik_status k = IN_FLIGHT"

definition complete_key :: "string \<Rightarrow> string \<Rightarrow> (order_db, nat) prog" where
  "complete_key key oid = map_err wrap (exec_chk (\<lambda>t d.
     Inr (length (filter (held key) (idem_keys d)),
          d\<lparr>idem_keys := upd_rows (held key)
            (\<lambda>k. k\<lparr>ik_status := COMPLETED, ik_order := Some oid, ik_updated := t\<rparr>) (idem_keys d)\<rparr>)))"

definition claim_lost :: go_err where
  "claim_lost = errs_New KindConflict ''IDEMPOTENCY_CLAIM_LOST''"

definition InsertWithKey :: "order \<Rightarrow> string \<Rightarrow> (order_db, unit) prog" where
  "InsertWithKey ord key =
     (if key = '''' then Insert ord
      else in_tx (bnd (insertOrderTx ord) (\<lambda>_.
                  bnd (complete_key key (ID ord)) (\<lambda>n.
                  if n = 0 then fail claim_lost else ret (Commit ())))))"

subsection \<open>Compensation tracking\<close>

record pending_compensation =
  pc_OrderID :: string
  pc_ReservationID :: string
  pc_PaymentID :: string

definition mark_order :: "(int \<Rightarrow> order_row \<Rightarrow> order_row) \<Rightarrow> string \<Rightarrow> (order_db, unit) prog" where
  "mark_order f orderID =
     bnd (notFoundID orderID ''ORDER_NOT_FOUND'') (\<lambda>_.
     map_err wrap (exec (\<lambda>t d. d\<lparr>orders := upd_rows (\<lambda>r. or_id r = orderID) (f t) (orders d)\<rparr>)))"

definition MarkReservationReleased :: "string \<Rightarrow> (order_db, unit) prog" where
  "MarkReservationReleased orderID = mark_order (\<lambda>t r. r\<lparr>or_released := Some t\<rparr>) orderID"

definition MarkPaymentVoided :: "string \<Rightarrow> (order_db, unit) prog" where
  "MarkPaymentVoided orderID = mark_order (\<lambda>t r. r\<lparr>or_voided := Some t\<rparr>) orderID"

definition owes_release :: "order_row \<Rightarrow> bool" where
  "owes_release r \<longleftrightarrow> or_released r = None \<and> or_reservation_id r \<noteq> ''''"

definition owes_void :: "order_row \<Rightarrow> bool" where
  "owes_void r \<longleftrightarrow> or_voided r = None \<and> or_payment_id r \<noteq> ''''"

definition compensation_limit :: "int \<Rightarrow> int" where
  "compensation_limit limit = (if limit \<le> 0 \<or> limit > 500 then 100 else limit)"

definition pending_row :: "order_row \<Rightarrow> pending_compensation" where
  "pending_row r = \<lparr>pc_OrderID = or_id r,
     pc_ReservationID = (if or_released r = None then or_reservation_id r else ''''),
     pc_PaymentID = (if or_voided r = None then or_payment_id r else '''')\<rparr>"

definition select_pending :: "int \<Rightarrow> nat \<Rightarrow> order_db \<Rightarrow> order_row list" where
  "select_pending before n d = take n (sort_key or_updated
     (filter (\<lambda>r. or_status r = CANCELLED \<and> (owes_release r \<or> owes_void r) \<and> or_updated r < before) (orders d)))"

definition PendingCompensations :: "int \<Rightarrow> int \<Rightarrow> (order_db, pending_compensation list) prog" where
  "PendingCompensations settledFor limit =
     bnd (map_err wrap (query (\<lambda>t. select_pending (t - settledFor) (nat (compensation_limit limit))))) (\<lambda>rows.
     ret (filter (\<lambda>p. \<not> (pc_ReservationID p = '''' \<and> pc_PaymentID p = '''')) (map pending_row rows)))"

subsection \<open>What the transactions do\<close>

definition close_key :: "string \<Rightarrow> string \<Rightarrow> int \<Rightarrow> order_db \<Rightarrow> order_db" where
  "close_key key oid t d = d\<lparr>idem_keys := upd_rows (held key)
     (\<lambda>k. k\<lparr>ik_status := COMPLETED, ik_order := Some oid, ik_updated := t\<rparr>) (idem_keys d)\<rparr>"

definition key_held :: "string \<Rightarrow> order_db \<Rightarrow> bool" where
  "key_held key d \<longleftrightarrow> (\<exists>k\<in>set (idem_keys d). held key k)"

lemma inserted_simps [simp]:
  "idem_keys (inserted ord t d) = idem_keys d" "processed (inserted ord t d) = processed d"
  "returns (inserted ord t d) = returns d" "return_lines (inserted ord t d) = return_lines d"
  "deliveries (inserted ord t d) = deliveries d" "orders (inserted ord t d) = orders d @ [order_row_of ord t]"
  by (simp_all add: inserted_def)

lemma wp_InsertWithKeyI:
  assumes err: "\<And>x fs. Q (Inl x) d (e\<lparr>faults := fs\<rparr>)"
    and plain: "\<And>r fs. key = '''' \<Longrightarrow> insertable ord d \<Longrightarrow> r = Inr () \<or> r = Inl (wrap ConnErr) \<Longrightarrow>
           Q r (inserted ord (now e) d) (e\<lparr>faults := fs\<rparr>)"
    and keyed: "\<And>r fs. key \<noteq> '''' \<Longrightarrow> key_held key d \<Longrightarrow> insertable ord d \<Longrightarrow> r = Inr () \<or> r = Inl (wrap ConnErr) \<Longrightarrow>
           Q r (close_key key (ID ord) (now e) (inserted ord (now e) d)) (e\<lparr>faults := fs\<rparr>)"
  shows "wp (InsertWithKey ord key) Q d e"
proof (cases "key = ''''")
  case True
  then show ?thesis using assms by (auto simp: InsertWithKey_def intro!: wp_InsertI)
next
  case False
  have h: "key_held key d" if "filter (held key) (idem_keys d) \<noteq> []"
    using that by (auto simp: key_held_def filter_empty_conv)
  show ?thesis
    unfolding InsertWithKey_def complete_key_def
    using False
    by (auto intro!: wp_in_txI wp_insertOrderTxI wp_exec_chkI keyed h simp: err close_key_def [symmetric])
qed

lemma wp_mark_orderI:
  assumes "\<And>x fs. Q (Inl x) d (e\<lparr>faults := fs\<rparr>)"
    and "\<And>r fs. r = Inr () \<or> r = Inl (wrap ConnErr) \<Longrightarrow>
       Q r (d\<lparr>orders := upd_rows (\<lambda>r. or_id r = oid) (f (now e)) (orders d)\<rparr>) (e\<lparr>faults := fs\<rparr>)"
  shows "wp (mark_order f oid) Q d e"
proof -
  have "Q (Inl x) d e" for x using assms(1) [of x "faults e"] by simp
  then show ?thesis unfolding mark_order_def using assms by (auto intro!: wp_execI)
qed

end
