(* ===== verification/OrderReturns.thy ===== *)
theory OrderReturns
  imports OrderStoreSpec
begin

section \<open>Persistence of returns (services/order/internal/store/returns.go)\<close>

text \<open>
  The \<open>returns\<close> and \<open>return_lines\<close> tables: the insert of a requested return with its outbox row,
  the operator's decision under a row lock, and the restocked mark of each line.
\<close>

definition foreignKeyViolation :: go_err where "foreignKeyViolation = PgError ''23503''"

definition emitReturnEvent :: "rma \<Rightarrow> (order_db, unit) prog" where
  "emitReturnEvent r = (case r_Status r of
       REQUESTED \<Rightarrow> emit ''commerce.order.return_requested'' (r_OrderID r)
         (ReturnRequested (r_ID r) (r_OrderID r) (r_OwnerID r))
     | APPROVED \<Rightarrow> emit ''commerce.order.return_approved'' (r_OrderID r)
         (ReturnApproved (r_ID r) (r_OrderID r) (r_OwnerID r) (wire_of (r_RefundTotal r)))
     | REJECTED \<Rightarrow> emit ''commerce.order.return_rejected'' (r_OrderID r)
         (ReturnRejected (r_ID r) (r_OrderID r) (r_OwnerID r)))"

definition return_row_of :: "rma \<Rightarrow> int \<Rightarrow> return_row" where
  "return_row_of r t = \<lparr>rr_id = r_ID r, rr_order = r_OrderID r, rr_owner = r_OwnerID r,
     rr_status = r_Status r, rr_reason = r_Reason r, rr_currency = currency (r_RefundTotal r),
     rr_total = cents (r_RefundTotal r), rr_decided_by = '''', rr_note = '''', rr_created = t, rr_updated = t\<rparr>"

definition return_line_row_of :: "string \<Rightarrow> return_line \<Rightarrow> return_line_row" where
  "return_line_row_of rid l = \<lparr>rn_return = rid, rn_product = rl_ProductID l, rn_quantity = rl_Quantity l,
     rn_amount = cents (rl_RefundAmount l), rn_restocked = False\<rparr>"

definition ins_return_row :: "rma \<Rightarrow> (order_db, unit) prog" where
  "ins_return_row r = map_err wrap (exec_chk (\<lambda>t d.
     if r_ID r \<in> rr_id ` set (returns d) then Inl uniqueViolation
     else if r_OrderID r \<notin> or_id ` set (orders d) then Inl foreignKeyViolation
     else Inr ((), d\<lparr>returns := returns d @ [return_row_of r t]\<rparr>)))"

definition ins_return_line :: "string \<Rightarrow> return_line \<Rightarrow> (order_db, unit) prog" where
  "ins_return_line rid l = map_err wrap (exec_chk (\<lambda>_ d.
     if rl_Quantity l \<le> 0 then Inl checkViolation
     else if (rid, rl_ProductID l) \<in> (\<lambda>x. (rn_return x, rn_product x)) ` set (return_lines d)
     then Inl uniqueViolation
     else Inr ((), d\<lparr>return_lines := return_lines d @ [return_line_row_of rid l]\<rparr>)))"

definition InsertReturn :: "rma \<Rightarrow> (order_db, unit) prog" where
  "InsertReturn r = in_tx (
     bnd (ins_return_row r) (\<lambda>_.
     bnd (foreach (ins_return_line (r_ID r)) (r_Lines r)) (\<lambda>_.
     bnd (emitReturnEvent r) (\<lambda>_.
     ret (Commit ())))))"

definition return_not_found :: go_err where
  "return_not_found = errs_New KindNotFound ''RETURN_NOT_FOUND''"

definition scanReturn :: "return_row \<Rightarrow> rma" where
  "scanReturn x = \<lparr>r_ID = rr_id x, r_OrderID = rr_order x, r_OwnerID = rr_owner x, r_Status = rr_status x,
     r_Reason = rr_reason x, r_Lines = [], r_RefundTotal = \<lparr>currency = rr_currency x, cents = rr_total x\<rparr>,
     r_DecidedBy = rr_decided_by x, r_DecisionNote = rr_note x, r_CreatedAt = rr_created x,
     r_UpdatedAt = rr_updated x\<rparr>"

definition return_line_of :: "string \<Rightarrow> return_line_row \<Rightarrow> return_line" where
  "return_line_of cur x = \<lparr>rl_ProductID = rn_product x, rl_Quantity = rn_quantity x,
     rl_RefundAmount = \<lparr>currency = cur, cents = rn_amount x\<rparr>\<rparr>"

definition select_return_lines :: "string list \<Rightarrow> order_db \<Rightarrow> return_line_row list" where
  "select_return_lines ids d = sort_key (\<lambda>x. (rn_return x, rn_product x))
     (filter (\<lambda>x. rn_return x \<in> set ids) (return_lines d))"

definition add_return_lines :: "return_line_row list \<Rightarrow> rma \<Rightarrow> rma" where
  "add_return_lines rows r = r\<lparr>r_Lines := r_Lines r @
     map (return_line_of (currency (r_RefundTotal r))) (filter (\<lambda>x. rn_return x = r_ID r) rows)\<rparr>"

definition attachReturnLines :: "rma list \<Rightarrow> (order_db, rma list) prog" where
  "attachReturnLines rs =
     (if rs = [] then ret []
      else bnd (map_err wrap (query (\<lambda>_. select_return_lines (map r_ID rs)))) (\<lambda>rows.
           ret (map (add_return_lines rows) rs)))"

definition getReturn :: "string \<Rightarrow> string \<Rightarrow> (order_db, rma) prog" where
  "getReturn rid ownerID =
     bnd (notFoundID rid ''RETURN_NOT_FOUND'') (\<lambda>_.
     bnd (attempt (query_row (\<lambda>d. List.find (\<lambda>x. rr_id x = rid) (returns d)))) (\<lambda>q. case q of
       Inl err \<Rightarrow> fail (if err = NoRows then return_not_found else wrap err)
     | Inr row \<Rightarrow>
         if ownerID \<noteq> '''' \<and> r_OwnerID (scanReturn row) \<noteq> ownerID then fail return_not_found
         else bnd (attachReturnLines [scanReturn row]) (\<lambda>rs. ret (hd rs))))"

definition return_status_str :: "return_status \<Rightarrow> string" where
  "return_status_str s = (case s of REQUESTED \<Rightarrow> ''REQUESTED'' | APPROVED \<Rightarrow> ''APPROVED'' | REJECTED \<Rightarrow> ''REJECTED'')"

definition return_cursor :: "string \<Rightarrow> (order_db, int) prog" where
  "return_cursor before = asks (\<lambda>e. if before = '''' then now e + hour
     else case parse_time e before of None \<Rightarrow> now e + hour | Some t \<Rightarrow> t)"

definition select_returns :: "int \<Rightarrow> string \<Rightarrow> string \<Rightarrow> nat \<Rightarrow> order_db \<Rightarrow> return_row list" where
  "select_returns cursor ownerID st n d = take n (sort_key (\<lambda>x. - rr_created x)
     (filter (\<lambda>x. rr_created x < cursor \<and> (ownerID = '''' \<or> rr_owner x = ownerID)
        \<and> (st = '''' \<or> return_status_str (rr_status x) = st)) (returns d)))"

definition ListReturns :: "string \<Rightarrow> string \<Rightarrow> int \<Rightarrow> string \<Rightarrow> (order_db, rma list \<times> string) prog" where
  "ListReturns ownerID st limit0 before =
     (let limit = nat (page_limit limit0) in
      bnd (return_cursor before) (\<lambda>cursor.
      bnd (map_err wrap (query (\<lambda>_. select_returns cursor ownerID st (Suc limit)))) (\<lambda>rows.
      bnd (asks fmt_time) (\<lambda>fmt.
      let out = map scanReturn rows;
          page = (if limit < length out then take limit out else out);
          next = (if limit < length out then fmt (r_CreatedAt (out ! (limit - 1))) else '''')
      in bnd (attachReturnLines page) (\<lambda>rs. ret (rs, next))))))"

text \<open>\<open>SUM\<close> over the join; a sum outside int32 does not scan into the \<open>int32\<close>.\<close>

definition live_returns :: "string \<Rightarrow> order_db \<Rightarrow> string set" where
  "live_returns orderID d = rr_id ` {x \<in> set (returns d). rr_order x = orderID \<and> rr_status x \<noteq> REJECTED}"

definition returned_sum :: "string \<Rightarrow> string \<Rightarrow> order_db \<Rightarrow> int" where
  "returned_sum orderID productID d = sum_list (map rn_quantity
     (filter (\<lambda>x. rn_product x = productID \<and> rn_return x \<in> live_returns orderID d) (return_lines d)))"

definition ReturnedQty :: "string \<Rightarrow> string \<Rightarrow> (order_db, int32) prog" where
  "ReturnedQty orderID productID =
     bnd (map_err wrap (query (\<lambda>_. returned_sum orderID productID))) (\<lambda>n.
     if in_i32 n then ret n else fail (wrap (PlainErr ''scan'')))"

definition update_return_row :: "rma \<Rightarrow> int \<Rightarrow> order_db \<Rightarrow> order_db" where
  "update_return_row r t d = d\<lparr>returns := upd_rows (\<lambda>x. rr_id x = r_ID r)
     (\<lambda>x. x\<lparr>rr_status := r_Status r, rr_decided_by := r_DecidedBy r, rr_note := r_DecisionNote r,
           rr_updated := t\<rparr>) (returns d)\<rparr>"

definition store_DecideReturn :: "string \<Rightarrow> string \<Rightarrow> bool \<Rightarrow> string \<Rightarrow> (order_db, rma) prog" where
  "store_DecideReturn rid decidedBy approve note =
     bnd (notFoundID rid ''RETURN_NOT_FOUND'') (\<lambda>_.
     in_tx (
       bnd (map_err wrap (exec (\<lambda>_ d. d))) (\<lambda>_.
       bnd (getReturn rid '''') (\<lambda>r.
       bnd (lift_res (Decide approve decidedBy note r)) (\<lambda>r'.
       bnd (if r_Status r' \<noteq> r_Status r
            then bnd (map_err wrap (exec (update_return_row r'))) (\<lambda>_. emitReturnEvent r')
            else ret ()) (\<lambda>_.
       ret (Commit r')))))))"

definition UnrestockedLines :: "string \<Rightarrow> (order_db, (string \<times> int32) list) prog" where
  "UnrestockedLines returnID = map_err wrap (query (\<lambda>_ d.
     map (\<lambda>x. (rn_product x, rn_quantity x)) (sort_key rn_product
       (filter (\<lambda>x. rn_return x = returnID \<and> \<not> rn_restocked x) (return_lines d)))))"

definition MarkRestocked :: "string \<Rightarrow> string \<Rightarrow> (order_db, unit) prog" where
  "MarkRestocked returnID productID = map_err wrap (exec (\<lambda>_ d. d\<lparr>return_lines :=
     upd_rows (\<lambda>x. rn_return x = returnID \<and> rn_product x = productID)
       (\<lambda>x. x\<lparr>rn_restocked := True\<rparr>) (return_lines d)\<rparr>))"

subsection \<open>What the transactions do\<close>

definition load_return :: "order_db \<Rightarrow> string \<Rightarrow> rma option" where
  "load_return d rid = (case List.find (\<lambda>x. rr_id x = rid) (returns d) of
       None \<Rightarrow> None
     | Some row \<Rightarrow> Some (add_return_lines (select_return_lines [rid] d) (scanReturn row)))"

lemma scanReturn_sel [simp]:
  "r_ID (scanReturn x) = rr_id x" "r_OrderID (scanReturn x) = rr_order x" "r_OwnerID (scanReturn x) = rr_owner x"
  "r_Status (scanReturn x) = rr_status x" "r_Lines (scanReturn x) = []"
  "r_RefundTotal (scanReturn x) = \<lparr>currency = rr_currency x, cents = rr_total x\<rparr>"
  by (simp_all add: scanReturn_def)

lemma add_return_lines_sel [simp]:
  "r_ID (add_return_lines rows r) = r_ID r" "r_OrderID (add_return_lines rows r) = r_OrderID r"
  "r_OwnerID (add_return_lines rows r) = r_OwnerID r" "r_Status (add_return_lines rows r) = r_Status r"
  "r_RefundTotal (add_return_lines rows r) = r_RefundTotal r"
  by (simp_all add: add_return_lines_def)

lemma find_rr_id: "List.find (\<lambda>x. rr_id x = rid) t = Some row \<Longrightarrow> rr_id row = rid"
  by (auto simp: find_Some_iff)

lemma load_return_row:
  "load_return d rid = Some r \<Longrightarrow> r_ID r = rid \<and> (\<exists>row\<in>set (returns d). rr_id row = rid \<and>
     List.find (\<lambda>x. rr_id x = rid) (returns d) = Some row \<and> r_Status r = rr_status row \<and>
     r_OrderID r = rr_order row \<and> r_OwnerID r = rr_owner row)"
  by (auto simp: load_return_def dest: find_in_set split: option.splits)

lemma wp_getReturnI:
  assumes err: "\<And>err fs. Q (Inl err) d (e\<lparr>faults := fs\<rparr>)"
    and ok: "\<And>r fs. uuid_ok e rid \<Longrightarrow> load_return d rid = Some r \<Longrightarrow> owner = '''' \<or> r_OwnerID r = owner \<Longrightarrow>
          Q (Inr r) d (e\<lparr>faults := fs\<rparr>)"
  shows "wp (getReturn rid owner) Q d e"
proof -
  have err0: "Q (Inl x) d e" for x using err [of x "faults e"] by simp
  have rows: "load_return d rid = Some (add_return_lines (select_return_lines [rr_id row] d) (scanReturn row))"
    if "List.find (\<lambda>x. rr_id x = rid) (returns d) = Some row" for row
    using that find_rr_id [OF that] by (simp add: load_return_def)
  show ?thesis
    unfolding getReturn_def
    by (auto intro!: wp_query_rowI wp_queryI ok simp: err err0 attachReturnLines_def rows split: sum.splits)
qed

text \<open>The outbox row of a return in its current status.\<close>

definition return_topic :: "return_status \<Rightarrow> string" where
  "return_topic s = (case s of REQUESTED \<Rightarrow> ''commerce.order.return_requested''
     | APPROVED \<Rightarrow> ''commerce.order.return_approved'' | REJECTED \<Rightarrow> ''commerce.order.return_rejected'')"

definition return_event :: "rma \<Rightarrow> int \<Rightarrow> order_event" where
  "return_event r = (case r_Status r of
       REQUESTED \<Rightarrow> ReturnRequested (r_ID r) (r_OrderID r) (r_OwnerID r)
     | APPROVED \<Rightarrow> ReturnApproved (r_ID r) (r_OrderID r) (r_OwnerID r) (wire_of (r_RefundTotal r))
     | REJECTED \<Rightarrow> ReturnRejected (r_ID r) (r_OrderID r) (r_OwnerID r))"

definition announce_return :: "rma \<Rightarrow> int \<Rightarrow> order_db \<Rightarrow> order_db" where
  "announce_return r t d = d\<lparr>oox := outbox_add (return_topic (r_Status r)) (r_OrderID r) (return_event r t) t (oox d)\<rparr>"

lemma wp_emitReturnEventI:
  assumes "\<And>err d' fs. Q (Inl err) d' (e\<lparr>faults := fs\<rparr>)"
    and "\<And>fs. Q (Inr ()) (announce_return r (now e) d) (e\<lparr>faults := fs\<rparr>)"
  shows "wp (emitReturnEvent r) Q d e"
  using assms
  by (cases "r_Status r")
     (auto simp: emitReturnEvent_def emit_def announce_return_def return_topic_def return_event_def intro!: wp_execI)

definition return_inserted :: "rma \<Rightarrow> int \<Rightarrow> order_db \<Rightarrow> order_db" where
  "return_inserted r t d = announce_return r t (d\<lparr>returns := returns d @ [return_row_of r t],
     return_lines := return_lines d @ map (return_line_row_of (r_ID r)) (r_Lines r)\<rparr>)"

definition return_insertable :: "rma \<Rightarrow> order_db \<Rightarrow> bool" where
  "return_insertable r d \<longleftrightarrow> r_ID r \<notin> rr_id ` set (returns d) \<and> r_OrderID r \<in> or_id ` set (orders d) \<and>
     distinct (map rl_ProductID (r_Lines r)) \<and> (\<forall>l\<in>set (r_Lines r). 0 < rl_Quantity l)"

lemma wp_ins_return_lineI:
  assumes "\<And>err d' fs. Q (Inl err) d' (e\<lparr>faults := fs\<rparr>)"
    and "\<And>fs. 0 < rl_Quantity l \<Longrightarrow>
          (rid, rl_ProductID l) \<notin> (\<lambda>x. (rn_return x, rn_product x)) ` set (return_lines d) \<Longrightarrow>
          Q (Inr ()) (d\<lparr>return_lines := return_lines d @ [return_line_row_of rid l]\<rparr>) (e\<lparr>faults := fs\<rparr>)"
  shows "wp (ins_return_line rid l) Q d e"
  unfolding ins_return_line_def using assms by (auto intro!: wp_exec_chkI split: if_splits)

lemma return_lines_of_insert:
  "wp (foreach (ins_return_line rid) ls) (\<lambda>r d' e'. (\<exists>fs. e' = e\<lparr>faults := fs\<rparr>) \<and>
      (r = Inr () \<longrightarrow> d' = d\<lparr>return_lines := return_lines d @ map (return_line_row_of rid) ls\<rparr> \<and>
         distinct (map rl_ProductID ls) \<and> (\<forall>l\<in>set ls. 0 < rl_Quantity l \<and>
         (rid, rl_ProductID l) \<notin> (\<lambda>x. (rn_return x, rn_product x)) ` set (return_lines d)))) d e"
proof (induction ls arbitrary: d e)
  case Nil
  show ?case by (auto intro: exI [where x = "faults e"])
next
  case (Cons l ls d e)
  let ?d = "d\<lparr>return_lines := return_lines d @ [return_line_row_of rid l]\<rparr>"
  have step: "wp (foreach (ins_return_line rid) ls) (\<lambda>r d' e'. (\<exists>fs. e' = e\<lparr>faults := fs\<rparr>) \<and>
      (r = Inr () \<longrightarrow> d' = d\<lparr>return_lines := return_lines d @ map (return_line_row_of rid) (l # ls)\<rparr> \<and>
         distinct (map rl_ProductID (l # ls)) \<and> (\<forall>k\<in>set (l # ls). 0 < rl_Quantity k \<and>
         (rid, rl_ProductID k) \<notin> (\<lambda>x. (rn_return x, rn_product x)) ` set (return_lines d))))
      ?d (e\<lparr>faults := fs\<rparr>)"
    if new: "(rid, rl_ProductID l) \<notin> (\<lambda>x. (rn_return x, rn_product x)) ` set (return_lines d)"
      and pos: "0 < rl_Quantity l" for fs
    by (rule wp_mono [OF Cons.IH]) (use new pos in \<open>auto simp: return_line_row_of_def image_iff\<close>)
  show ?case
    unfolding foreach.simps wp_bnd
  proof (rule wp_ins_return_lineI, goal_cases)
    case (1 err d' fs)
    show ?case by auto
  next
    case (2 fs)
    then show ?case using step [of fs] by simp
  qed
qed

lemma wp_return_linesI:
  assumes "\<And>err d' fs. Q (Inl err) d' (e\<lparr>faults := fs\<rparr>)"
    and "\<And>fs. distinct (map rl_ProductID ls) \<Longrightarrow> \<forall>l\<in>set ls. 0 < rl_Quantity l \<Longrightarrow>
       Q (Inr ()) (d\<lparr>return_lines := return_lines d @ map (return_line_row_of rid) ls\<rparr>) (e\<lparr>faults := fs\<rparr>)"
  shows "wp (foreach (ins_return_line rid) ls) Q d e"
  by (rule wp_mono [OF return_lines_of_insert]) (metis assms old.sum.exhaust old.unit.exhaust)

lemma wp_InsertReturnI:
  assumes err: "\<And>x fs. Q (Inl x) d (e\<lparr>faults := fs\<rparr>)"
    and ok: "\<And>res fs. return_insertable r d \<Longrightarrow> res = Inr () \<or> res = Inl (wrap ConnErr) \<Longrightarrow>
          Q res (return_inserted r (now e) d) (e\<lparr>faults := fs\<rparr>)"
  shows "wp (InsertReturn r) Q d e"
proof -
  have ok': "Q res (announce_return r (now e) (d\<lparr>returns := returns d @ [return_row_of r (now e)],
        return_lines := return_lines d @ map (return_line_row_of (r_ID r)) (r_Lines r)\<rparr>)) (e\<lparr>faults := fs\<rparr>)"
    if "r_ID r \<notin> rr_id ` set (returns d)" "r_OrderID r \<in> or_id ` set (orders d)"
       "distinct (map rl_ProductID (r_Lines r))" "\<forall>l\<in>set (r_Lines r). 0 < rl_Quantity l"
       "res = Inr () \<or> res = Inl (wrap ConnErr)" for res fs
    using ok that by (simp add: return_insertable_def return_inserted_def)
  show ?thesis
    unfolding InsertReturn_def ins_return_row_def
    by (auto intro!: wp_in_txI wp_exec_chkI wp_return_linesI wp_emitReturnEventI ok' simp: err split: if_splits)
qed

definition decided :: "rma \<Rightarrow> int \<Rightarrow> order_db \<Rightarrow> order_db" where
  "decided r t d = announce_return r t (update_return_row r t d)"

lemma wp_store_DecideReturnI:
  assumes err: "\<And>x fs. Q (Inl x) d (e\<lparr>faults := fs\<rparr>)"
    and ok: "\<And>r r' res fs. load_return d rid = Some r \<Longrightarrow> Decide approve by_whom note r = Inr r' \<Longrightarrow>
       res = Inr r' \<or> res = Inl (wrap ConnErr) \<Longrightarrow>
       Q res (if r_Status r' = r_Status r then d else decided r' (now e) d) (e\<lparr>faults := fs\<rparr>)"
  shows "wp (store_DecideReturn rid by_whom approve note) Q d e"
proof -
  have err0: "Q (Inl x) d e" for x using err [of x "faults e"] by simp
  have same: "Q (Inr r') d (e\<lparr>faults := fs\<rparr>)"
    if "load_return d rid = Some r" "Decide approve by_whom note r = Inr r'" "r_Status r' = r_Status r" for r r' fs
    using ok [of r r' "Inr r'" fs] that by simp
  have chg: "Q (Inr r') (decided r' (now e) d) (e\<lparr>faults := fs\<rparr>)"
      "Q (Inl (wrap ConnErr)) (decided r' (now e) d) (e\<lparr>faults := fs\<rparr>)"
    if "load_return d rid = Some r" "Decide approve by_whom note r = Inr r'" "r_Status r' \<noteq> r_Status r" for r r' fs
    using ok [of r r' _ fs] that by simp_all
  show ?thesis
    unfolding store_DecideReturn_def
    by (auto intro!: wp_in_txI wp_execI wp_getReturnI wp_emitReturnEventI simp: err err0 decided_def [symmetric]
        split: sum.splits intro!: same chg)
qed

end
