(* ===== verification/OrderMachine.thy ===== *)
theory OrderMachine
  imports OrderKeys OrderReturns
begin

section \<open>The order store as a machine\<close>

text \<open>
  Every operation of the order store that writes, as a step of a machine that any number of clients
  drive in any order and under any faults.  \<open>order_effect\<close> is the abstract specification: the
  changes of the database the store may make.  \<open>order_step_effect\<close> is the refinement: whatever an
  operation does is one of these changes.  The invariants are proved on the changes.
\<close>

subsection \<open>The machine\<close>

text \<open>The methods of the aggregate that callers pass to \<open>Apply\<close>.\<close>

datatype lifecycle = MConfirm | MCancel string

fun lc_fn :: "lifecycle \<Rightarrow> order \<Rightarrow> order res" where
  "lc_fn MConfirm = Confirm"
| "lc_fn (MCancel reason) = Cancel reason"

lemma lifecycle_lc_fn: "lifecycle_fn (lc_fn m)"
  by (cases m) (auto intro: lifecycle_methods)

datatype order_op =
    OpInsert order string
  | OpApply string string lifecycle
  | OpDelivered string string string
  | OpClaim string string string
  | OpTakeover string
  | OpRelease string
  | OpReap int
  | OpReleased string
  | OpVoided string
  | OpInsertReturn rma
  | OpDecide string string bool string
  | OpRestocked string string

text \<open>\<open>CreateOrder\<close> is the only caller of \<open>InsertWithKey\<close>, and it builds the order PENDING_PAYMENT.\<close>

definition pending :: "order \<Rightarrow> order" where
  "pending ord = ord\<lparr>Status := PENDING_PAYMENT\<rparr>"

fun order_prog :: "order_op \<Rightarrow> (order_db, unit) prog" where
  "order_prog (OpInsert ord key) = InsertWithKey (pending ord) key"
| "order_prog (OpApply oid ev m) = discard (Apply oid ev (lc_fn m))"
| "order_prog (OpDelivered oid shop ev) = discard (ApplyShipmentDelivered oid shop ev)"
| "order_prog (OpClaim key owner print) = claim_insert key owner print"
| "order_prog (OpTakeover key) = claim_takeover key"
| "order_prog (OpRelease key) = ReleaseIdempotencyKey key"
| "order_prog (OpReap retain) = discard (ReapIdempotencyKeys retain)"
| "order_prog (OpReleased oid) = MarkReservationReleased oid"
| "order_prog (OpVoided oid) = MarkPaymentVoided oid"
| "order_prog (OpInsertReturn r) = InsertReturn r"
| "order_prog (OpDecide rid who approve note) = discard (store_DecideReturn rid who approve note)"
| "order_prog (OpRestocked rid pid) = MarkRestocked rid pid"

definition order_step :: "order_op \<Rightarrow> env \<Rightarrow> order_db \<Rightarrow> order_db" where
  "order_step op = after (order_prog op)"

definition is_reap :: "order_op \<Rightarrow> bool" where
  "is_reap op \<longleftrightarrow> (\<exists>retain. op = OpReap retain)"

subsection \<open>The changes the store may make\<close>

inductive order_effect :: "bool \<Rightarrow> int \<Rightarrow> order_db \<Rightarrow> order_db \<Rightarrow> bool" for reaping t d where
  nothing: "order_effect reaping t d d"
| insert: "insertable ord d \<Longrightarrow> Status ord = PENDING_PAYMENT \<Longrightarrow> order_effect reaping t d (inserted ord t d)"
| insert_key: "insertable ord d \<Longrightarrow> Status ord = PENDING_PAYMENT \<Longrightarrow> key_held key d \<Longrightarrow>
    order_effect reaping t d (close_key key (ID ord) t (inserted ord t d))"
| event: "new_event ev d \<Longrightarrow> load d oid = Some ord \<Longrightarrow> order_effect reaping t d (with_event ev d)"
| move: "new_event ev d \<Longrightarrow> load d oid = Some ord \<Longrightarrow> allowed (Status ord) s \<Longrightarrow> s \<noteq> FULFILLED \<Longrightarrow>
    order_effect reaping t d (moved (ord\<lparr>Status := s, CancelReason := reason\<rparr>) t (with_event ev d))"
| deliver: "new_event ev d \<Longrightarrow> load d oid = Some ord \<Longrightarrow>
    order_effect reaping t d (record_delivery oid shop (with_event ev d))"
| fulfil: "new_event ev d \<Longrightarrow> load d oid = Some ord \<Longrightarrow> Status ord = CONFIRMED \<Longrightarrow>
    length (ShopGroups ord) \<le> delivered_count oid (ShopGroups ord) (record_delivery oid shop (with_event ev d)) \<Longrightarrow>
    order_effect reaping t d (moved (ord\<lparr>Status := FULFILLED\<rparr>) t (record_delivery oid shop (with_event ev d)))"
| claim: "key \<notin> ik_key ` set (idem_keys d) \<Longrightarrow>
    order_effect reaping t d (d\<lparr>idem_keys := idem_keys d @ [\<lparr>ik_key = key, ik_owner = owner, ik_print = print,
       ik_status = IN_FLIGHT, ik_order = None, ik_created = t, ik_updated = t\<rparr>]\<rparr>)"
| takeover: "order_effect reaping t d (d\<lparr>idem_keys := upd_rows (stale t key)
       (\<lambda>k. k\<lparr>ik_created := t, ik_updated := t\<rparr>) (idem_keys d)\<rparr>)"
| release: "order_effect reaping t d (d\<lparr>idem_keys := filter (\<lambda>k. \<not> (ik_key k = key \<and> ik_status k = IN_FLIGHT)) (idem_keys d)\<rparr>)"
| reap: "reaping \<Longrightarrow> order_effect reaping t d (d\<lparr>idem_keys := filter (\<lambda>k. \<not> reapable t retain k) (idem_keys d)\<rparr>)"
| mark: "order_effect reaping t d (d\<lparr>orders := upd_rows (\<lambda>r. or_id r = oid)
       (\<lambda>r. r\<lparr>or_released := f (or_released r), or_voided := g (or_voided r)\<rparr>) (orders d)\<rparr>)"
| return: "return_insertable r d \<Longrightarrow> order_effect reaping t d (return_inserted r t d)"
| decide: "load_return d rid = Some r \<Longrightarrow> Decide approve who note r = Inr r' \<Longrightarrow> r_Status r' \<noteq> r_Status r \<Longrightarrow>
    order_effect reaping t d (decided r' t d)"
| restock: "order_effect reaping t d (d\<lparr>return_lines :=
     upd_rows (\<lambda>x. rn_return x = rid \<and> rn_product x = pid) (\<lambda>x. x\<lparr>rn_restocked := True\<rparr>) (return_lines d)\<rparr>)"

lemma released_effect: "order_effect reaping t d (d\<lparr>orders := upd_rows (\<lambda>r. or_id r = oid) (\<lambda>r. r\<lparr>or_released := x\<rparr>) (orders d)\<rparr>)"
  using order_effect.mark [where reaping = reaping and t = t and d = d and oid = oid and f = "\<lambda>_. x" and g = "\<lambda>v. v"] by simp

lemma voided_effect: "order_effect reaping t d (d\<lparr>orders := upd_rows (\<lambda>r. or_id r = oid) (\<lambda>r. r\<lparr>or_voided := x\<rparr>) (orders d)\<rparr>)"
  using order_effect.mark [where reaping = reaping and t = t and d = d and oid = oid and f = "\<lambda>v. v" and g = "\<lambda>_. x"] by simp

lemma Status_pending [simp]: "Status (pending ord) = PENDING_PAYMENT" "ID (pending ord) = ID ord"
  by (simp_all add: pending_def)

lemma lc_fn_not_fulfilled:
  "lc_fn m ord = Inr ord' \<Longrightarrow> Status ord' \<noteq> Status ord \<Longrightarrow> Status ord' \<noteq> FULFILLED"
  by (cases m) (auto simp: Confirm_def Cancel_def split: if_splits)

lemma apply_effect:
  assumes "new_event ev d" "load d oid = Some ord" "lc_fn m ord = Inr ord'"
  shows "order_effect reaping t d (if Status ord' = Status ord then with_event ev d else moved ord' t (with_event ev d))"
proof (cases "Status ord' = Status ord")
  case True
  then show ?thesis using assms by (auto intro: order_effect.event)
next
  case False
  then obtain reason where "allowed (Status ord) (Status ord')"
      "ord' = ord\<lparr>Status := Status ord', CancelReason := reason\<rparr>"
    using assms(3) lifecycle_lc_fn [of m] unfolding lifecycle_fn_def by metis
  then show ?thesis
    using False order_effect.move [OF assms(1,2), of "Status ord'" reaping t reason]
      lc_fn_not_fulfilled [OF assms(3)] by simp
qed

text \<open>The refinement, as a statement about every run.\<close>

lemma order_prog_effect: "wp (order_prog op) (\<lambda>_ d' _. order_effect (is_reap op) (now e) d d') d e"
proof (cases op)
  case (OpInsert ord key)
  then show ?thesis
    by (auto intro!: wp_InsertWithKeyI order_effect.nothing order_effect.insert intro: order_effect.insert_key
        [where ord = "pending ord", simplified])
next
  case (OpApply oid ev m)
  then show ?thesis
    by (auto intro!: wp_ApplyI lifecycle_lc_fn apply_effect order_effect.nothing)
next
  case (OpDelivered oid shop ev)
  then show ?thesis
    by (auto intro!: wp_ApplyShipmentDeliveredI order_effect.nothing intro: order_effect.deliver order_effect.fulfil)
next
  case (OpClaim key owner print)
  then show ?thesis
    by (auto simp: claim_insert_def intro!: wp_exec_chkI order_effect.nothing order_effect.claim split: if_splits)
next
  case (OpTakeover key)
  then show ?thesis
    by (auto simp: claim_takeover_def intro!: wp_exec_chkI order_effect.nothing order_effect.takeover split: if_splits)
next
  case (OpRelease key)
  then show ?thesis
    using order_effect.release [of "is_reap op" "now e" d key]
    by (auto simp: ReleaseIdempotencyKey_def intro!: wp_execI order_effect.nothing)
next
  case (OpReap retain)
  then show ?thesis
    by (auto simp: ReapIdempotencyKeys_def is_reap_def intro!: wp_exec_chkI order_effect.nothing order_effect.reap)
next
  case (OpReleased oid)
  then show ?thesis
    by (auto simp: MarkReservationReleased_def intro!: wp_mark_orderI order_effect.nothing released_effect)
next
  case (OpVoided oid)
  then show ?thesis
    by (auto simp: MarkPaymentVoided_def intro!: wp_mark_orderI order_effect.nothing voided_effect)
next
  case (OpInsertReturn r)
  then show ?thesis by (auto intro!: wp_InsertReturnI order_effect.nothing order_effect.return)
next
  case (OpDecide rid who approve msg)
  then show ?thesis
    by (auto intro!: wp_store_DecideReturnI order_effect.nothing intro: order_effect.decide)
next
  case (OpRestocked rid pid)
  then show ?thesis
    by (auto simp: MarkRestocked_def intro!: wp_execI order_effect.nothing order_effect.restock)
qed

lemma order_step_effect: "order_effect (is_reap op) (now e) d (order_step op e d)"
  unfolding order_step_def by (rule after_wp [OF order_prog_effect])

end
