(* ===== verification/History.thy ===== *)
theory History
  imports Prelude
begin

section \<open>Logs that tell the history of every row\<close>

text \<open>
  A service announces each change of a row's status in its outbox.  \<open>log_ok R s0 log st\<close>: the log of announced
  \<open>(key, status)\<close> pairs tells, for each row of the standing table \<open>st\<close>, a walk along the edges \<open>R\<close> of the state machine
  from the initial status \<open>s0\<close> to the row's status, and speaks of no other row.
\<close>

definition history_of :: "'k \<Rightarrow> ('k \<times> 's) list \<Rightarrow> 's list" where
  "history_of k log = map snd (filter (\<lambda>x. fst x = k) log)"

definition walk :: "('s \<Rightarrow> 's \<Rightarrow> bool) \<Rightarrow> 's \<Rightarrow> 's list \<Rightarrow> 's \<Rightarrow> bool" where
  "walk R s0 h s \<longleftrightarrow> h \<noteq> [] \<and> hd h = s0 \<and> successively R h \<and> last h = s"

definition log_ok :: "('s \<Rightarrow> 's \<Rightarrow> bool) \<Rightarrow> 's \<Rightarrow> ('k \<times> 's) list \<Rightarrow> ('k \<times> 's) list \<Rightarrow> bool" where
  "log_ok R s0 log st \<longleftrightarrow> distinct (map fst st) \<and> fst ` set log \<subseteq> fst ` set st \<and>
     (\<forall>x\<in>set st. walk R s0 (history_of (fst x) log) (snd x))"

lemma history_of_append [simp]: "history_of k (l1 @ l2) = history_of k l1 @ history_of k l2"
  by (simp add: history_of_def)

lemma history_of_none: "k \<notin> fst ` set log \<Longrightarrow> history_of k log = []"
  by (auto simp: history_of_def filter_empty_conv)

lemma history_of_one [simp]: "history_of k [(i, s)] = (if i = k then [s] else [])"
  by (simp add: history_of_def)

lemma walk_one [simp]: "walk R s0 [s] t \<longleftrightarrow> s = s0 \<and> t = s"
  by (auto simp: walk_def)

lemma walk_snoc: "walk R s0 h s \<Longrightarrow> R s t \<Longrightarrow> walk R s0 (h @ [t]) t"
  by (auto simp: walk_def successively_append_iff)

lemma log_ok_empty [simp]: "log_ok R s0 [] []"
  by (simp add: log_ok_def)

lemma log_okD: "log_ok R s0 log st \<Longrightarrow> (k, s) \<in> set st \<Longrightarrow> walk R s0 (history_of k log) s"
  by (force simp: log_ok_def)

lemma log_ok_insert:
  assumes "log_ok R s0 log st" "k \<notin> fst ` set st"
  shows "log_ok R s0 (log @ [(k, s0)]) (st @ [(k, s0)])"
proof -
  have none: "history_of k log = []" using assms by (auto simp: log_ok_def intro!: history_of_none)
  have "walk R s0 (history_of (fst x) (log @ [(k, s0)])) (snd x)" if "x \<in> set st" for x
  proof -
    have "fst x \<noteq> k" using that assms(2) by auto
    then show ?thesis using that assms(1) by (simp add: log_ok_def)
  qed
  then show ?thesis using assms none by (auto simp: log_ok_def)
qed

lemma log_ok_move:
  assumes ok: "log_ok R s0 log st" and s: "(k, s) \<in> set st" and "R s t"
  shows "log_ok R s0 (log @ [(k, t)]) (upd_rows (\<lambda>x. fst x = k) (\<lambda>_. (k, t)) st)"
proof -
  have keys: "map fst (upd_rows (\<lambda>x. fst x = k) (\<lambda>_. (k, t)) st) = map fst st"
    by (rule map_upd_rows) simp
  have set_keys: "fst ` set (upd_rows (\<lambda>x. fst x = k) (\<lambda>_. (k, t)) st) = fst ` set st"
    using arg_cong [OF keys, of set] by simp
  have new: "walk R s0 (history_of k log @ [t]) t" using walk_snoc [OF log_okD [OF ok s] assms(3)] .
  have "walk R s0 (history_of (fst x) (log @ [(k, t)])) (snd x)"
    if x: "x \<in> set (upd_rows (\<lambda>x. fst x = k) (\<lambda>_. (k, t)) st)" for x
  proof (cases "fst x = k")
    case True
    then have "snd x = t" using x by (cases x) (auto simp: in_upd_rows split: if_splits)
    then show ?thesis using True new by simp
  next
    case False
    then have "x \<in> set st" using x by (auto simp: in_upd_rows split: if_splits)
    then show ?thesis using False ok by (simp add: log_ok_def)
  qed
  moreover have "k \<in> fst ` set st" using s by force
  ultimately show ?thesis using ok by (auto simp: log_ok_def keys set_keys)
qed

end
