(* ===== verification/OrderInvariants.thy ===== *)
theory OrderInvariants
  imports OrderMachine History
begin

section \<open>Invariants of the order store\<close>

text \<open>
  The outbox tells, for every order, exactly the walk through the state machine that led to its
  status; processed events are never recorded twice; an idempotency key is completed by one order
  and stays with it.  Each invariant is proved on the changes of \<open>order_effect\<close> and holds in every
  state the machine reaches.
\<close>

subsection \<open>The outbox is the history of every order\<close>

fun event_status :: "order_event \<Rightarrow> (string \<times> status) option" where
  "event_status (OrderCreated oid _ _ _ _) = Some (oid, PENDING_PAYMENT)"
| "event_status (OrderConfirmed oid _ _ _ _ _) = Some (oid, CONFIRMED)"
| "event_status (OrderCancelled oid _ _ _) = Some (oid, CANCELLED)"
| "event_status (OrderFulfilled oid _ _) = Some (oid, FULFILLED)"
| "event_status _ = None"

definition lifecycle_log :: "order_db \<Rightarrow> (string \<times> status) list" where
  "lifecycle_log d = List.map_filter event_status (events (oox d))"

definition standing :: "order_db \<Rightarrow> (string \<times> status) list" where
  "standing d = map (\<lambda>r. (or_id r, or_status r)) (orders d)"

lemma lifecycle_log_add [simp]:
  "lifecycle_log (d\<lparr>oox := outbox_add topic key ev t (oox d')\<rparr>) =
     lifecycle_log d' @ (case event_status ev of None \<Rightarrow> [] | Some x \<Rightarrow> [x])"
  by (simp add: lifecycle_log_def List.map_filter_def split: option.split)

lemma lifecycle_log_cong [simp]:
  "lifecycle_log (d\<lparr>orders := x\<rparr>) = lifecycle_log d" "lifecycle_log (d\<lparr>order_lines := y\<rparr>) = lifecycle_log d"
  "lifecycle_log (d\<lparr>idem_keys := z\<rparr>) = lifecycle_log d" "lifecycle_log (d\<lparr>returns := u\<rparr>) = lifecycle_log d"
  "lifecycle_log (d\<lparr>return_lines := v\<rparr>) = lifecycle_log d" "lifecycle_log (with_event ev d) = lifecycle_log d"
  "lifecycle_log (record_delivery oid shop d) = lifecycle_log d"
  by (simp_all add: lifecycle_log_def record_delivery_def)

lemma standing_cong [simp]:
  "standing (d\<lparr>oox := x\<rparr>) = standing d" "standing (d\<lparr>order_lines := y\<rparr>) = standing d"
  "standing (d\<lparr>idem_keys := z\<rparr>) = standing d" "standing (d\<lparr>returns := u\<rparr>) = standing d"
  "standing (d\<lparr>return_lines := v\<rparr>) = standing d" "standing (with_event ev d) = standing d"
  "standing (record_delivery oid shop d) = standing d"
  by (simp_all add: standing_def record_delivery_def)

lemma standing_ids [simp]: "fst ` set (standing d) = or_id ` set (orders d)"
  by (force simp: standing_def)

lemma load_standing: "load d oid = Some ord \<Longrightarrow> (oid, Status ord) \<in> set (standing d)"
  by (auto dest!: load_row simp: standing_def)

lemma inserted_log [simp]:
  "lifecycle_log (inserted ord t d) = lifecycle_log d @ [(ID ord, PENDING_PAYMENT)]"
  "standing (inserted ord t d) = standing d @ [(ID ord, Status ord)]"
  by (simp_all add: inserted_def) (simp_all add: standing_def order_row_of_def)

lemma transition_event_status:
  "Status ord \<noteq> PENDING_PAYMENT \<Longrightarrow> event_status (transition_event ord t) = Some (ID ord, Status ord)"
  by (cases "Status ord") (simp_all add: transition_event_def)

lemma moved_log [simp]:
  "Status ord \<noteq> PENDING_PAYMENT \<Longrightarrow> lifecycle_log (moved ord t d) = lifecycle_log d @ [(ID ord, Status ord)]"
  "standing (moved ord t d) = upd_rows (\<lambda>x. fst x = ID ord) (\<lambda>_. (ID ord, Status ord)) (standing d)"
  by (simp_all add: moved_def transition_event_status update_order_row_def)
     (simp add: standing_def upd_rows_def comp_def if_distrib cong: if_cong)

lemma return_event_status [simp]: "event_status (return_event r t) = None"
  by (cases "r_Status r") (simp_all add: return_event_def)

lemma close_key_log [simp]:
  "lifecycle_log (close_key key oid t d) = lifecycle_log d" "standing (close_key key oid t d) = standing d"
  by (simp_all add: close_key_def)

lemma returns_log [simp]:
  "lifecycle_log (return_inserted r t d) = lifecycle_log d" "standing (return_inserted r t d) = standing d"
  "lifecycle_log (decided r t d) = lifecycle_log d" "standing (decided r t d) = standing d"
  by (simp_all add: return_inserted_def decided_def announce_return_def update_return_row_def)

lemma standing_mark [simp]:
  "(\<And>r. or_id (f r) = or_id r \<and> or_status (f r) = or_status r) \<Longrightarrow>
   standing (d\<lparr>orders := upd_rows P f (orders d)\<rparr>) = standing d"
  by (simp add: standing_def upd_rows_def)

definition history_inv :: "order_db \<Rightarrow> bool" where
  "history_inv d \<longleftrightarrow> log_ok allowed PENDING_PAYMENT (lifecycle_log d) (standing d)"

lemma history_inv_effect:
  assumes "order_effect reaping t d d'" "history_inv d"
  shows "history_inv d'"
  using assms
proof (induction rule: order_effect.induct)
  case (insert ord)
  then show ?case by (simp add: history_inv_def log_ok_insert insertable_def)
next
  case (insert_key ord key)
  then show ?case by (simp add: history_inv_def log_ok_insert insertable_def)
next
  case (move ev oid ord s reason)
  then have s: "s \<noteq> PENDING_PAYMENT" and "ID ord = oid" by (auto simp: allowed_simps ID_load)
  then show ?case
    using move log_ok_move [where R = allowed, OF _ load_standing [OF move(2)] move(3)] by (simp add: history_inv_def)
next
  case (fulfil ev oid ord shop)
  then have "ID ord = oid" "allowed (Status ord) FULFILLED" by (auto simp: allowed_simps ID_load)
  then show ?case
    using fulfil log_ok_move [where R = allowed, OF _ load_standing [OF fulfil(2)]] by (simp add: history_inv_def)
qed (simp_all add: history_inv_def)

subsection \<open>Keys of the tables\<close>

definition tables_inv :: "order_db \<Rightarrow> bool" where
  "tables_inv d \<longleftrightarrow> outbox_wf (oox d) \<and> distinct (processed d) \<and> distinct (map ik_key (idem_keys d)) \<and>
     lr_order ` set (order_lines d) \<subseteq> or_id ` set (orders d)"

lemma distinct_map_filter: "distinct (map f xs) \<Longrightarrow> distinct (map f (filter P xs))"
  by (simp add: distinct_map_filter)

lemma announce_sel [simp]:
  "orders (announce_return r t d) = orders d" "order_lines (announce_return r t d) = order_lines d"
  "processed (announce_return r t d) = processed d" "idem_keys (announce_return r t d) = idem_keys d"
  "deliveries (announce_return r t d) = deliveries d"
  by (simp_all add: announce_return_def)

lemma moved_sel [simp]:
  "order_lines (moved ord t d) = order_lines d" "processed (moved ord t d) = processed d"
  "idem_keys (moved ord t d) = idem_keys d" "deliveries (moved ord t d) = deliveries d"
  "or_id ` set (orders (moved ord t d)) = or_id ` set (orders d)"
  by (simp_all add: moved_def update_order_row_def image_upd_rows)

lemma record_delivery_sel [simp]:
  "orders (record_delivery oid shop d) = orders d" "order_lines (record_delivery oid shop d) = order_lines d"
  "processed (record_delivery oid shop d) = processed d" "idem_keys (record_delivery oid shop d) = idem_keys d"
  "oox (record_delivery oid shop d) = oox d"
  by (simp_all add: record_delivery_def)

lemma close_key_sel [simp]:
  "orders (close_key key oid t d) = orders d" "order_lines (close_key key oid t d) = order_lines d"
  "processed (close_key key oid t d) = processed d" "oox (close_key key oid t d) = oox d"
  "deliveries (close_key key oid t d) = deliveries d"
  "map ik_key (idem_keys (close_key key oid t d)) = map ik_key (idem_keys d)"
  by (simp_all add: close_key_def map_upd_rows)

lemma distinct_with_event: "new_event ev d \<Longrightarrow> distinct (processed d) \<Longrightarrow> distinct (processed (with_event ev d))"
  by (auto simp: with_event_def new_event_def mark_processed_def)

lemma outbox_wf_moved: "outbox_wf (oox d) \<Longrightarrow> outbox_wf (oox (moved ord t d))"
  by (simp add: moved_def)

lemma outbox_wf_inserted: "outbox_wf (oox d) \<Longrightarrow> outbox_wf (oox (inserted ord t d))"
  by (simp add: inserted_def)

lemma outbox_wf_announce: "outbox_wf (oox d) \<Longrightarrow> outbox_wf (oox (announce_return r t d))"
  by (simp add: announce_return_def)

lemma inserted_lines: "lr_order ` set (order_lines d) \<subseteq> or_id ` set (orders d) \<Longrightarrow>
    lr_order ` set (order_lines (inserted ord t d)) \<subseteq> or_id ` set (orders (inserted ord t d))"
  by (auto simp: inserted_def line_row_of_def order_row_of_def)

lemma tables_inv_effect:
  assumes "order_effect reaping t d d'" "tables_inv d"
  shows "tables_inv d'"
  using assms
proof (induction rule: order_effect.induct)
  case (insert ord)
  then show ?case using inserted_lines [of d ord t] by (simp add: tables_inv_def outbox_wf_inserted)
next
  case (insert_key ord key)
  then show ?case using inserted_lines [of d ord t] by (simp add: tables_inv_def outbox_wf_inserted)
next
  case (mark oid f g)
  then show ?case by (simp add: tables_inv_def image_upd_rows)
next
  case (decide rid r approve who msg r')
  then show ?case by (simp add: tables_inv_def decided_def update_return_row_def outbox_wf_announce)
next
  case (return r)
  then show ?case by (simp add: tables_inv_def return_inserted_def outbox_wf_announce)
qed (simp_all add: tables_inv_def distinct_with_event outbox_wf_moved distinct_map_filter map_upd_rows)

subsection \<open>A FULFILLED order has every shop delivered\<close>

lemma delivered_count_all:
  assumes "length (ShopGroups ord) \<le> delivered_count oid (ShopGroups ord) d" "shop \<in> set (ShopGroups ord)"
  shows "(oid, shop) \<in> set (deliveries d)"
proof -
  let ?got = "set (map snd (filter (\<lambda>x. fst x = oid \<and> snd x \<in> set (ShopGroups ord)) (deliveries d)))"
  have "card (set (ShopGroups ord)) \<le> card ?got"
    using assms(1) ShopGroups_distinct [of ord]
    by (simp add: delivered_count_def length_remdups_card_conv distinct_card)
  moreover have "?got \<subseteq> set (ShopGroups ord)" by auto
  ultimately have "?got = set (ShopGroups ord)" by (simp add: card_seteq)
  then show ?thesis using assms(2) by auto
qed

definition delivered_inv :: "order_db \<Rightarrow> bool" where
  "delivered_inv d \<longleftrightarrow> (\<forall>r\<in>set (orders d). or_status r = FULFILLED \<longrightarrow>
     (\<forall>l\<in>set (order_lines d). lr_order l = or_id r \<longrightarrow> (or_id r, lr_shop l) \<in> set (deliveries d)))"

lemma load_shops:
  assumes "load d oid = Some ord"
  shows "set (ShopGroups ord) = lr_shop ` {l \<in> set (order_lines d). lr_order l = oid}"
proof -
  obtain row where "List.find (\<lambda>r. or_id r = oid) (orders d) = Some row" and row: "or_id row = oid"
      and ord: "ord = add_lines (select_lines [oid] d) (scanOrder row)"
    using assms by (auto simp: load_def dest: find_or_id split: option.splits)
  show ?thesis
    unfolding ShopGroups_set ord add_lines_def select_lines_def
    by (simp add: row line_of_row_def image_image)
qed

lemma delivered_inv_cong:
  assumes "delivered_inv d" "map (\<lambda>r. (or_id r, or_status r)) (orders d') = map (\<lambda>r. (or_id r, or_status r)) (orders d)"
    and "order_lines d' = order_lines d" "set (deliveries d) \<subseteq> set (deliveries d')"
  shows "delivered_inv d'"
  unfolding delivered_inv_def
proof (intro ballI impI)
  fix r l assume r: "r \<in> set (orders d')" "or_status r = FULFILLED"
    and l: "l \<in> set (order_lines d')" "lr_order l = or_id r"
  have "(or_id r, or_status r) \<in> set (map (\<lambda>r. (or_id r, or_status r)) (orders d'))" using r by auto
  then obtain r0 where "r0 \<in> set (orders d)" "or_id r0 = or_id r" "or_status r0 = FULFILLED"
    using r unfolding assms(2) by auto
  then have "(or_id r, lr_shop l) \<in> set (deliveries d)"
    using assms(1,3) l unfolding delivered_inv_def by metis
  then show "(or_id r, lr_shop l) \<in> set (deliveries d')" using assms(4) by auto
qed

lemma delivered_inv_inserted:
  assumes "delivered_inv d" "tables_inv d" "insertable ord d" "Status ord = PENDING_PAYMENT"
  shows "delivered_inv (inserted ord t d)"
proof -
  have "l \<in> set (order_lines d)"
    if "l \<in> set (order_lines (inserted ord t d))" "lr_order l = or_id r" "r \<in> set (orders d)" for l r
    using that assms(3) by (auto simp: inserted_def insertable_def line_row_of_def)
  then show ?thesis
    using assms unfolding delivered_inv_def
    by (simp add: order_row_of_def)
qed

lemma delivered_inv_moved:
  assumes inv: "delivered_inv d" and "Status ord' = FULFILLED \<longrightarrow>
      (\<forall>l\<in>set (order_lines d). lr_order l = ID ord' \<longrightarrow> (ID ord', lr_shop l) \<in> set (deliveries d))"
  shows "delivered_inv (moved ord' t d)"
  using assms by (auto simp: delivered_inv_def moved_def update_order_row_def in_upd_rows split: if_splits)

lemma delivered_inv_event: "delivered_inv d \<Longrightarrow> delivered_inv (with_event ev d)"
  by (erule delivered_inv_cong) simp_all

lemma delivered_inv_delivery: "delivered_inv d \<Longrightarrow> delivered_inv (record_delivery oid shop (with_event ev d))"
  by (erule delivered_inv_cong) (auto simp: record_delivery_def)

lemma delivered_inv_effect:
  assumes "order_effect reaping t d d'" "delivered_inv d" "tables_inv d"
  shows "delivered_inv d'"
  using assms(1)
proof cases
  case (insert ord)
  then show ?thesis using assms delivered_inv_inserted by simp
next
  case (insert_key ord key)
  have "delivered_inv (inserted ord t d)" using insert_key assms delivered_inv_inserted by simp
  then show ?thesis using insert_key(1) by (auto intro: delivered_inv_cong)
next
  case (move ev oid ord s reason)
  then show ?thesis using delivered_inv_event [OF assms(2)] by (auto intro: delivered_inv_moved)
next
  case (event ev oid ord)
  then show ?thesis using delivered_inv_event [OF assms(2)] by simp
next
  case (deliver ev oid ord shop)
  then show ?thesis using delivered_inv_delivery [OF assms(2)] by simp
next
  case (fulfil ev oid ord shop)
  let ?d = "record_delivery oid shop (with_event ev d)"
  have "(oid, lr_shop l) \<in> set (deliveries ?d)" if "l \<in> set (order_lines d)" "lr_order l = oid" for l
    using delivered_count_all [OF fulfil(5)] load_shops [OF fulfil(3)] that by auto
  then show ?thesis
    using fulfil delivered_inv_delivery [OF assms(2)] ID_load [OF fulfil(3)]
    by (auto intro!: delivered_inv_moved)
next
  case (mark oid f g)
  then show ?thesis
    by (auto intro!: delivered_inv_cong [OF assms(2)] map_upd_rows)
next
  case (return r)
  then show ?thesis by (auto intro!: delivered_inv_cong [OF assms(2)] simp: return_inserted_def)
next
  case (decide rid r approve who msg r')
  then show ?thesis by (auto intro!: delivered_inv_cong [OF assms(2)] simp: decided_def update_return_row_def)
qed (use assms(2) in \<open>simp_all add: delivered_inv_cong [OF assms(2)]\<close>)

subsection \<open>The machine keeps the invariants\<close>

definition order_inv :: "order_db \<Rightarrow> bool" where
  "order_inv d \<longleftrightarrow> history_inv d \<and> tables_inv d \<and> delivered_inv d"

lemma order_inv_start: "order_inv empty_order_db"
  by (simp add: order_inv_def history_inv_def tables_inv_def delivered_inv_def empty_order_db_def
      lifecycle_log_def standing_def log_ok_def List.map_filter_def)

lemma order_inv_effect: "order_effect reaping t d d' \<Longrightarrow> order_inv d \<Longrightarrow> order_inv d'"
  by (simp add: order_inv_def history_inv_effect tables_inv_effect delivered_inv_effect)

interpretation order_machine: inv_machine order_step empty_order_db order_inv
  by unfold_locales (auto intro: order_inv_start order_inv_effect [OF order_step_effect])

lemma order_inv_ids: "order_inv d \<Longrightarrow> distinct (map or_id (orders d))"
  by (simp add: order_inv_def history_inv_def log_ok_def standing_def comp_def)

subsection \<open>Orders keep their identity and their money and move along the edges only\<close>

text \<open>What a row of \<open>orders\<close> never changes, and how its status may change.\<close>

definition same_sale :: "order_row \<Rightarrow> order_row \<Rightarrow> bool" where
  "same_sale r r' \<longleftrightarrow> or_id r' = or_id r \<and> or_owner r' = or_owner r \<and> or_currency r' = or_currency r \<and>
     or_subtotal r' = or_subtotal r \<and> or_discount r' = or_discount r \<and> or_tax r' = or_tax r \<and>
     or_total r' = or_total r \<and> or_ship_to r' = or_ship_to r \<and> or_payment_id r' = or_payment_id r \<and>
     or_reservation_id r' = or_reservation_id r \<and> or_created r' = or_created r"

definition advances :: "order_row \<Rightarrow> order_row \<Rightarrow> bool" where
  "advances r r' \<longleftrightarrow> same_sale r r' \<and> (or_status r' = or_status r \<or> allowed (or_status r) (or_status r'))"

lemma advances_refl [simp]: "advances r r"
  by (simp add: advances_def same_sale_def)

lemma upd_rows_advances:
  assumes "r \<in> set t" "P r \<Longrightarrow> advances r (f r)"
  shows "\<exists>r'\<in>set (upd_rows P f t). advances r r'"
  using assms by (intro bexI [where x = "if P r then f r else r"]) (auto simp: in_upd_rows)

lemma moved_advances:
  assumes "load d oid = Some ord" "allowed (Status ord) (Status ord')" "distinct (map or_id (orders d))"
    and "ID ord' = ID ord" "PaymentID ord' = PaymentID ord" "ReservationID ord' = ReservationID ord"
    and "r \<in> set (orders d)" "orders d1 = orders d"
  shows "\<exists>r'\<in>set (orders (moved ord' t d1)). advances r r'"
proof -
  obtain row where row: "row \<in> set (orders d)" "or_id row = oid" "Status ord = or_status row"
      "PaymentID ord = or_payment_id row" "ReservationID ord = or_reservation_id row" "ID ord = oid"
    using load_row [OF assms(1)] ID_load [OF assms(1)] by auto
  have same: "r = row" if "or_id r = oid"
    using distinct_map_inj [OF assms(3) assms(7) row(1)] that row(2) by simp
  have "or_id r = ID ord' \<Longrightarrow> advances r (r\<lparr>or_status := Status ord', or_cancel_reason := CancelReason ord',
      or_payment_id := PaymentID ord', or_reservation_id := ReservationID ord', or_updated := t\<rparr>)"
    using same row assms by (simp add: advances_def same_sale_def)
  then show ?thesis
    unfolding moved_def update_order_row_def
    using assms(7,8) upd_rows_advances by simp
qed

lemma effect_advances:
  assumes "order_effect reaping t d d'" "order_inv d" "r \<in> set (orders d)"
  shows "\<exists>r'\<in>set (orders d'). advances r r'"
  using assms(1)
proof cases
  case (mark oid f g)
  then show ?thesis
    using upd_rows_advances [OF assms(3)] by (simp add: advances_def same_sale_def)
next
  case (move ev oid ord s reason)
  then show ?thesis using assms order_inv_ids by (auto intro!: moved_advances)
next
  case (fulfil ev oid ord shop)
  then show ?thesis using assms order_inv_ids by (auto intro!: moved_advances simp: allowed_simps)
qed (use assms(3) in \<open>auto simp: return_inserted_def decided_def update_return_row_def intro!: bexI [where x = r]\<close>)

subsection \<open>An idempotency key yields at most one order\<close>

definition completed_keys :: "order_db \<Rightarrow> string set" where
  "completed_keys d = ik_key ` {k \<in> set (idem_keys d). ik_status k = COMPLETED}"

definition commits :: "order_op \<Rightarrow> env \<Rightarrow> order_db \<Rightarrow> bool" where
  "commits op e d \<longleftrightarrow> length (orders d) < length (orders (order_step op e d))"

text \<open>The keys and orders of the inserts that committed in a run, first to last.\<close>

fun placed :: "(order_op \<times> env) list \<Rightarrow> order_db \<Rightarrow> (string \<times> string) list" where
  "placed [] d = []"
| "placed (x # ops) d = (case fst x of
       OpInsert ord key \<Rightarrow> if commits (fst x) (snd x) d then [(key, ID ord)] else []
     | _ \<Rightarrow> []) @ placed ops (order_step (fst x) (snd x) d)"

lemma completed_keys_upd:
  assumes "\<And>k. P k \<Longrightarrow> ik_key (f k) = ik_key k \<and> (ik_status k = COMPLETED \<longrightarrow> ik_status (f k) = COMPLETED)"
  shows "completed_keys d \<subseteq> completed_keys (d\<lparr>idem_keys := upd_rows P f (idem_keys d)\<rparr>)"
proof
  fix key assume "key \<in> completed_keys d"
  then obtain k where k: "k \<in> set (idem_keys d)" "ik_key k = key" "ik_status k = COMPLETED"
    by (auto simp: completed_keys_def)
  let ?k = "if P k then f k else k"
  have "?k \<in> set (upd_rows P f (idem_keys d))" using k by (auto simp: in_upd_rows)
  moreover have "ik_key ?k = key" "ik_status ?k = COMPLETED" using k assms by auto
  ultimately show "key \<in> completed_keys (d\<lparr>idem_keys := upd_rows P f (idem_keys d)\<rparr>)"
    unfolding completed_keys_def by (intro image_eqI [where x = ?k]) simp_all
qed

lemma completed_keys_cong: "idem_keys d' = idem_keys d \<Longrightarrow> completed_keys d' = completed_keys d"
  by (simp add: completed_keys_def)

lemma completed_keys_close: "completed_keys d \<subseteq> completed_keys (close_key key oid t d)"
  unfolding close_key_def by (rule completed_keys_upd) (simp add: held_def)

lemma effect_keeps_completed:
  assumes "order_effect False t d d'"
  shows "completed_keys d \<subseteq> completed_keys d'"
  using assms
proof cases
  case (insert_key ord key)
  then show ?thesis
    using completed_keys_close [of "inserted ord t d" key "ID ord" t]
      completed_keys_cong [of "inserted ord t d" d] by simp
next
  case (takeover key)
  then show ?thesis using completed_keys_upd [of "stale t key" _ d] by (simp add: stale_def)
qed (auto simp: completed_keys_def return_inserted_def decided_def update_return_row_def)

lemma wp_commit_closes_key:
  assumes "key \<noteq> ''''" "tables_inv d"
  shows "wp (InsertWithKey ord key) (\<lambda>_ d' _. length (orders d) < length (orders d') \<longrightarrow>
     key \<in> completed_keys d' \<and> key \<notin> completed_keys d) d e"
proof -
  have "key \<in> completed_keys (close_key key oid t (inserted ord t d)) \<and> key \<notin> completed_keys d"
    if h: "key_held key d" for oid t
  proof -
    obtain k where k: "k \<in> set (idem_keys d)" "ik_key k = key" "ik_status k = IN_FLIGHT"
      using h by (auto simp: key_held_def held_def)
    have "key \<notin> completed_keys d"
    proof
      assume "key \<in> completed_keys d"
      then obtain k' where k': "k' \<in> set (idem_keys d)" "ik_key k' = key" "ik_status k' = COMPLETED"
        by (auto simp: completed_keys_def)
      have "k' = k" using distinct_map_inj [of ik_key "idem_keys d" k' k] assms(2) k k' by (simp add: tables_inv_def)
      then show False using k k' by simp
    qed
    moreover have "key \<in> completed_keys (close_key key oid t (inserted ord t d))"
    proof -
      let ?k = "k\<lparr>ik_status := COMPLETED, ik_order := Some oid, ik_updated := t\<rparr>"
      have "?k \<in> set (idem_keys (close_key key oid t (inserted ord t d)))"
        unfolding close_key_def using k by (simp add: in_upd_rows held_def) metis
      then show ?thesis unfolding completed_keys_def using k by (intro image_eqI [where x = ?k]) simp_all
    qed
    ultimately show ?thesis by simp
  qed
  then show ?thesis using assms(1) by (auto intro!: wp_InsertWithKeyI)
qed

lemma commit_closes_key:
  assumes "commits (OpInsert ord key) e d" "key \<noteq> ''''" "tables_inv d"
  shows "key \<in> completed_keys (order_step (OpInsert ord key) e d)" "key \<notin> completed_keys d"
  using after_wp [OF wp_commit_closes_key [OF assms(2,3), of "pending ord" e]] assms(1)
  by (simp_all add: commits_def order_step_def)

lemma placed_fresh:
  assumes "\<forall>x\<in>set ops. \<not> is_reap (fst x)" "order_inv d"
  shows "distinct (filter (\<lambda>k. k \<noteq> '''') (map fst (placed ops d))) \<and>
    (\<forall>k\<in>fst ` set (placed ops d). k \<noteq> '''' \<longrightarrow> k \<notin> completed_keys d)"
  using assms
proof (induction ops arbitrary: d)
  case Nil
  then show ?case by simp
next
  case (Cons x ops d)
  let ?d = "order_step (fst x) (snd x) d"
  have eff: "order_effect False (now (snd x)) d ?d"
    using order_step_effect [of "fst x" "snd x" d] Cons.prems(1) by simp
  have rest: "distinct (filter (\<lambda>k. k \<noteq> '''') (map fst (placed ops ?d)))"
      "\<forall>k\<in>fst ` set (placed ops ?d). k \<noteq> '''' \<longrightarrow> k \<notin> completed_keys ?d"
    using Cons.IH [of ?d] Cons.prems order_inv_effect [OF eff] by auto
  have mono: "completed_keys d \<subseteq> completed_keys ?d" by (rule effect_keeps_completed [OF eff])
  show ?case
  proof (cases "\<exists>ord key. fst x = OpInsert ord key \<and> commits (fst x) (snd x) d")
    case False
    then have "placed (x # ops) d = placed ops ?d" by (auto split: order_op.split)
    then show ?thesis using rest mono by auto
  next
    case True
    then obtain ord key where x: "fst x = OpInsert ord key" "commits (fst x) (snd x) d" by blast
    then have p: "placed (x # ops) d = (key, ID ord) # placed ops ?d" by simp
    have "tables_inv d" using Cons.prems(2) by (simp add: order_inv_def)
    then have "key \<noteq> '''' \<Longrightarrow> key \<in> completed_keys ?d \<and> key \<notin> completed_keys d"
      using commit_closes_key [of ord key "snd x" d] x by simp
    then show ?thesis using rest mono unfolding p by (auto simp: image_iff)
  qed
qed

end
