(* ===== verification/SampleEnv.thy ===== *)
theory SampleEnv
  imports Prog
begin

section \<open>A concrete environment\<close>

text \<open>The environment the witnesses evaluate in: a clock, no faults, identifiers by counting.\<close>

definition env_at :: "int \<Rightarrow> env" where
  "env_at t = \<lparr>now = t, faults = [], fresh = (\<lambda>n. ''id'' @ replicate n (CHR 0x78)), drawn = 0,
     uuid_ok = (\<lambda>s. s \<noteq> ''''), sha256_hex = rev, parse_time = (\<lambda>_. None), fmt_time = (\<lambda>_. ''t'')\<rparr>"

end
