(* ===== verification/Samples.thy ===== *)
theory Samples
  imports OrderMachine SampleEnv
begin

section \<open>Concrete inputs\<close>

text \<open>
  The orders and runs that the witnesses of the properties evaluate.
\<close>

definition usd :: "int \<Rightarrow> money" where "usd c = \<lparr>currency = ''USD'', cents = c\<rparr>"

definition home :: address where
  "home = \<lparr>FullName = ''A'', Line1 = ''1 St'', Line2 = '''', City = ''C'', Region = ''R'',
     PostalCode = ''1'', CountryCode = ''US'', Phone = ''2''\<rparr>"

definition sale_line :: "string \<Rightarrow> string \<Rightarrow> int \<Rightarrow> int \<Rightarrow> line" where
  "sale_line p shop q unit = \<lparr>l_ProductID = p, l_Title = ''t'', l_Quantity = q, l_UnitPrice = usd unit,
     l_LineTotal = usd (q * unit), l_ShopID = shop\<rparr>"

definition sale :: "string \<Rightarrow> string \<Rightarrow> order" where
  "sale oid owner = \<lparr>ID = oid, OwnerID = owner, Status = PENDING_PAYMENT,
     Lines = [sale_line ''p1'' ''s1'' 2 500, sale_line ''p2'' ''s2'' 1 1000],
     Subtotal = usd 2000, Discount = usd 0, Tax = usd 100, Total = usd 2100, ShipTo = home,
     CartID = ''cart'', CouponCode = '''', PaymentID = ''pay'', ReservationID = ''res'',
     PricingSignature = ''sig'', CancelReason = '''', CreatedAt = 0, UpdatedAt = 0\<rparr>"

text \<open>A checkout under an idempotency key, its confirmation, the delivery of its two shops.\<close>

definition sale_ops :: "(order_op \<times> env) list" where
  "sale_ops = [(OpClaim ''k'' ''u'' ''f'', env_at 1), (OpInsert (sale ''o1'' ''u'') ''k'', env_at 2),
     (OpApply ''o1'' ''ev1'' MConfirm, env_at 3), (OpDelivered ''o1'' ''s1'' ''ev2'', env_at 4),
     (OpDelivered ''o1'' ''s2'' ''ev3'', env_at 5)]"

definition sale_done :: order_db where
  "sale_done = run_ops order_step sale_ops empty_order_db"

lemma sale_done_reach: "reach order_step empty_order_db sale_done"
  unfolding sale_done_def by (rule reach_run_ops [OF reach.init])

end
