(* ===== verification/OrderProps.thy ===== *)
theory OrderProps
  imports OrderInvariants Samples
begin

section \<open>Properties of the order store\<close>

text \<open>
  The statements about the order store that the rest of the system relies on, for every reachable
  state, every interleaving of its transactions and every fault.
\<close>

subsection \<open>The outbox\<close>


lemma sale_done_row:
  "hd (orders sale_done) \<in> set (orders sale_done)" "or_status (hd (orders sale_done)) = FULFILLED"
  "or_id (hd (orders sale_done)) = ''o1''"
  by code_simp+




subsection \<open>Deliveries\<close>

text \<open>C8: an order is FULFILLED only when a delivery is recorded for the shop of every one of its lines.\<close>

theorem fulfilled_all_delivered:
  assumes "reach order_step empty_order_db d" "r \<in> set (orders d)" "or_status r = FULFILLED"
    and "l \<in> set (order_lines d)" "lr_order l = or_id r"
  shows "(or_id r, lr_shop l) \<in> set (deliveries d)"
  using order_machine.reach_inv [OF assms(1)] assms(2-) by (simp add: order_inv_def delivered_inv_def)

lemma sale_done_line:
  "hd (order_lines sale_done) \<in> set (order_lines sale_done)"
  "lr_order (hd (order_lines sale_done)) = or_id (hd (orders sale_done))"
  by code_simp+

theorem fulfilled_all_delivered_witness:
  "(or_id (hd (orders sale_done)), lr_shop (hd (order_lines sale_done))) \<in> set (deliveries sale_done)"
  by (rule fulfilled_all_delivered [OF sale_done_reach sale_done_row(1,2) sale_done_line])

subsection \<open>Redelivered events\<close>

lemma effect_processed: "order_effect reaping t d d' \<Longrightarrow> set (processed d) \<subseteq> set (processed d')"
  by (induction rule: order_effect.induct)
     (auto simp: with_event_def mark_processed_def return_inserted_def decided_def update_return_row_def)

lemma reach_processed: "reach order_step d d' \<Longrightarrow> set (processed d) \<subseteq> set (processed d')"
  by (induction rule: reach.induct) (use effect_processed [OF order_step_effect] in blast)+

lemma Apply_marks: "wp (Apply oid ev (lc_fn m)) (\<lambda>r d' _. (\<exists>ord. r = Inr (Some ord)) \<longrightarrow> ev \<noteq> '''' \<longrightarrow> ev \<in> set (processed d')) d e"
  by (rule wp_ApplyI [OF lifecycle_lc_fn]) (auto simp: with_event_def mark_processed_def)

lemma Apply_dup:
  "\<not> new_event ev d \<Longrightarrow> wp (Apply oid ev (lc_fn m)) (\<lambda>r d' _. d' = d \<and> (r = Inr None \<or> (\<exists>x. r = Inl x))) d e"
  by (rule wp_ApplyI [OF lifecycle_lc_fn]) auto

lemma Delivered_dup:
  "\<not> new_event ev d \<Longrightarrow> wp (ApplyShipmentDelivered oid shop ev)
     (\<lambda>r d' _. d' = d \<and> (r = Inr None \<or> (\<exists>x. r = Inl x))) d e"
  by (rule wp_ApplyShipmentDeliveredI) auto

text \<open>C7: an event whose transaction has answered with an order is applied once.  After any further
  operations of any clients, a redelivery of the same event id, for whatever order and method, leaves
  the database as it is and answers \<open>(nil, nil)\<close> or an error.\<close>

theorem event_applied_once:
  assumes "Apply oid ev (lc_fn m) d e = (Inr (Some ord), d1, e1)" "ev \<noteq> ''''"
    and "reach order_step d1 d2" "Apply oid' ev (lc_fn m') d2 e2 = (r, d3, e3)"
  shows "d3 = d2 \<and> (r = Inr None \<or> (\<exists>x. r = Inl x))"
proof -
  have "ev \<in> set (processed d1)" using wpD [OF Apply_marks assms(1)] assms(2) by simp
  then have "\<not> new_event ev d2" using reach_processed [OF assms(3)] assms(2) by (auto simp: new_event_def)
  then show ?thesis using wpD [OF Apply_dup assms(4)] by blast
qed

definition sale_placed :: order_db where
  "sale_placed = run_ops order_step (take 2 sale_ops) empty_order_db"

definition sale_confirmed :: "order option res \<times> order_db \<times> env" where
  "sale_confirmed = Apply ''o1'' ''ev1'' (lc_fn MConfirm) sale_placed (env_at 3)"

lemma sale_confirmed_ok: "\<exists>ord d1 e1. sale_confirmed = (Inr (Some ord), d1, e1)"
proof -
  obtain r d1 e1 where s: "sale_confirmed = (r, d1, e1)" by (cases sale_confirmed) auto
  have "(case fst sale_confirmed of Inr (Some _) \<Rightarrow> True | _ \<Rightarrow> False)" by code_simp
  then show ?thesis unfolding s by (auto split: sum.splits option.splits)
qed

theorem event_applied_once_witness:
  "\<exists>ord d1 e1. sale_confirmed = (Inr (Some ord), d1, e1) \<and>
     order_step (OpApply ''o1'' ''ev1'' (MCancel ''x'')) (env_at 4) d1 = d1"
proof -
  obtain ord d1 e1 where ok: "sale_confirmed = (Inr (Some ord), d1, e1)" using sale_confirmed_ok by blast
  obtain r d3 e3 where again: "Apply ''o1'' ''ev1'' (lc_fn (MCancel ''x'')) d1 (env_at 4) = (r, d3, e3)"
    by (cases "Apply ''o1'' ''ev1'' (lc_fn (MCancel ''x'')) d1 (env_at 4)") auto
  have "d3 = d1"
    using event_applied_once [OF ok [unfolded sale_confirmed_def] _ reach.init again] by simp
  then have "order_step (OpApply ''o1'' ''ev1'' (MCancel ''x'')) (env_at 4) d1 = d1"
    using again by (auto simp: order_step_def after_def discard_def bnd_def ret_def split: sum.splits)
  then show ?thesis using ok by blast
qed

subsection \<open>Idempotency keys\<close>

text \<open>C3: as long as the reaper does not run, at most one order is ever inserted under an idempotency
  key, whatever claims, takeovers, releases, inserts and faults interleave.\<close>

theorem one_order_per_key:
  assumes "\<forall>x\<in>set ops. \<not> is_reap (fst x)"
  shows "distinct (filter (\<lambda>k. k \<noteq> '''') (map fst (placed ops empty_order_db)))"
  using placed_fresh [OF assms order_inv_start] by blast

text \<open>Two checkouts under one key, the first claim taken over when stale: one of them inserts.\<close>

definition race_ops :: "(order_op \<times> env) list" where
  "race_ops = [(OpClaim ''k'' ''u'' ''f'', env_at 1), (OpTakeover ''k'', env_at (2 * StaleInFlightAfter)),
     (OpInsert (sale ''o1'' ''u'') ''k'', env_at (2 * StaleInFlightAfter + 1)),
     (OpInsert (sale ''o2'' ''u'') ''k'', env_at (2 * StaleInFlightAfter + 2))]"

theorem one_order_per_key_witness:
  "map fst (placed race_ops empty_order_db) = [''k''] \<and>
   distinct (filter (\<lambda>k. k \<noteq> '''') (map fst (placed race_ops empty_order_db)))"
proof
  show "map fst (placed race_ops empty_order_db) = [''k'']" by code_simp
  show "distinct (filter (\<lambda>k. k \<noteq> '''') (map fst (placed race_ops empty_order_db)))"
    by (rule one_order_per_key) (simp add: race_ops_def is_reap_def)
qed

text \<open>A key first used by another shopper or for another request never hands out its order and
  never gives the claim: the claim fails with the reuse error, or with a database error.\<close>

theorem claim_of_foreign_key:
  assumes "find_key key d = Some k" "ik_owner k \<noteq> ownerID \<or> ik_print k \<noteq> print"
    and "ClaimIdempotencyKey key ownerID print d e = (r, d', e')"
  shows "d' = d \<and> (r = Inl ErrIdempotencyKeyReused \<or> r = Inl (wrap ConnErr))"
proof -
  have "key \<in> ik_key ` set (idem_keys d)" using assms(1) by (auto simp: find_key_def dest!: find_in_set)
  then have "wp (ClaimIdempotencyKey key ownerID print)
      (\<lambda>r d' _. d' = d \<and> (r = Inl ErrIdempotencyKeyReused \<or> r = Inl (wrap ConnErr))) d e"
    unfolding ClaimIdempotencyKey_def claim_insert_def
    using assms(1,2) by (auto intro!: wp_exec_chkI wp_query_rowI)
  from wpD [OF this assms(3)] show ?thesis .
qed

theorem claim_of_foreign_key_witness:
  "fst (snd (ClaimIdempotencyKey ''k'' ''thief'' ''f'' sale_done (env_at 9))) = sale_done \<and>
   fst (ClaimIdempotencyKey ''k'' ''thief'' ''f'' sale_done (env_at 9)) \<noteq> Inr (claim_of_order ''o1'')"
proof -
  obtain k where k: "find_key ''k'' sale_done = Some k" "ik_owner k = ''u''"
  proof -
    have "map_option ik_owner (find_key ''k'' sale_done) = Some ''u''" by code_simp
    then show thesis using that by auto
  qed
  obtain r d' e' where run: "ClaimIdempotencyKey ''k'' ''thief'' ''f'' sale_done (env_at 9) = (r, d', e')"
    by (cases "ClaimIdempotencyKey ''k'' ''thief'' ''f'' sale_done (env_at 9)") auto
  show ?thesis using claim_of_foreign_key [OF k(1) _ run] k(2) run by auto
qed

end
