(* ===== verification/Auth.thy ===== *)
theory Auth
  imports Prog Strs
begin

section \<open>Callers: tokens, principals and the server interceptors (pkg/auth, pkg/grpcx)\<close>

text \<open>
  \<open>Verifier.Verify\<close> on top of the JWT library (the parameter \<open>parse\<close>: signature, issuer, audience and
  expiry checked, the claims on success), the role checks of the handlers, the \<open>authUnary\<close> and
  \<open>loggingUnary\<close> interceptors that wrap every handler, and the structural check of the ingress.  The
  principal on a context is an option: \<open>None\<close> is an unauthenticated request.
\<close>

datatype json = JNull | JBool bool | JNum int | JStr string | JArr "json list" | JObj "(string \<times> json) list"

type_synonym claims = "(string \<times> json) list"

record principal =
  Subject :: string
  Email :: string
  Roles :: "string list"

type_synonym caller = "principal option"

definition HasRole :: "principal \<Rightarrow> string \<Rightarrow> bool" where
  "HasRole p r \<longleftrightarrow> r \<in> set (Roles p)"

definition HasAnyRole :: "principal \<Rightarrow> string list \<Rightarrow> bool" where
  "HasAnyRole p rs \<longleftrightarrow> (\<exists>r\<in>set rs. HasRole p r)"

definition not_authenticated :: go_err where
  "not_authenticated = errs_New KindUnauthenticated ''NOT_AUTHENTICATED''"

definition missing_role :: go_err where
  "missing_role = errs_New KindPermissionDenied ''MISSING_ROLE''"

definition RequireRole :: "caller \<Rightarrow> string \<Rightarrow> unit res" where
  "RequireRole c r = (case c of
       None \<Rightarrow> Inl not_authenticated
     | Some p \<Rightarrow> if HasRole p r then Inr () else Inl missing_role)"

definition RequireAnyRole :: "caller \<Rightarrow> string list \<Rightarrow> unit res" where
  "RequireAnyRole c rs = (case c of
       None \<Rightarrow> Inl not_authenticated
     | Some p \<Rightarrow> if HasAnyRole p rs then Inr () else Inl missing_role)"

subsection \<open>Tokens\<close>

fun str_of :: "json option \<Rightarrow> string" where
  "str_of (Some (JStr s)) = s"
| "str_of _ = ''''"

fun role_strings :: "json list \<Rightarrow> string list" where
  "role_strings [] = []"
| "role_strings (JStr s # js) = s # role_strings js"
| "role_strings (_ # js) = role_strings js"

definition extractRealmRoles :: "claims \<Rightarrow> string list" where
  "extractRealmRoles cl = (case map_of cl ''realm_access'' of
       Some (JObj ra) \<Rightarrow> (case map_of ra ''roles'' of Some (JArr rs) \<Rightarrow> role_strings rs | _ \<Rightarrow> [])
     | _ \<Rightarrow> [])"

text \<open>\<open>parse\<close> is the library's \<open>ParseWithClaims\<close> with the options of \<open>NewVerifier\<close>.\<close>

definition Verify :: "(string \<Rightarrow> go_err + claims) \<Rightarrow> string \<Rightarrow> principal res" where
  "Verify parse raw = (case parse raw of
       Inl err \<Rightarrow> Inl (errs_Wrap err KindUnauthenticated ''TOKEN_INVALID'')
     | Inr cl \<Rightarrow>
         if str_of (map_of cl ''sub'') = '''' then Inl (errs_New KindUnauthenticated ''TOKEN_NO_SUBJECT'')
         else Inr \<lparr>Subject = str_of (map_of cl ''sub''), Email = str_of (map_of cl ''email''),
                Roles = extractRealmRoles cl\<rparr>)"

definition BearerFromAuthHeader :: "string \<Rightarrow> string option" where
  "BearerFromAuthHeader h =
     (if length h > 7 \<and> map lower (take 7 h) = ''bearer '' then Some (TrimSpace (drop 7 h)) else None)"

fun split_dots :: "string \<Rightarrow> string list" where
  "split_dots [] = ['''']"
| "split_dots (c # s) = (if c = CHR ''.'' then '''' # split_dots s
     else (case split_dots s of [] \<Rightarrow> [[c]] | x # xs \<Rightarrow> (c # x) # xs))"

definition token_malformed :: go_err where
  "token_malformed = errs_New KindUnauthenticated ''TOKEN_MALFORMED''"

text \<open>\<open>decode\<close> is \<open>decodeJWTSegment\<close> into a map: base64url and JSON.  The expiry is in seconds.\<close>

definition ParseInsecure :: "(string \<Rightarrow> go_err + claims) \<Rightarrow> int \<Rightarrow> string \<Rightarrow> claims res" where
  "ParseInsecure decode t raw = (case split_dots raw of
       [header, payload, sig] \<Rightarrow> (case decode header of
           Inl err \<Rightarrow> Inl (errs_Wrap err KindUnauthenticated ''TOKEN_MALFORMED'')
         | Inr _ \<Rightarrow> (case decode payload of
             Inl err \<Rightarrow> Inl (errs_Wrap err KindUnauthenticated ''TOKEN_MALFORMED'')
           | Inr cl \<Rightarrow> (case map_of cl ''exp'' of
               Some (JNum ex) \<Rightarrow>
                 if t - 60 * 1000000000 > ex * 1000000000 then Inl (errs_New KindUnauthenticated ''TOKEN_EXPIRED'')
                 else Inr cl
             | _ \<Rightarrow> Inr cl)))
     | _ \<Rightarrow> Inl token_malformed)"

subsection \<open>Interceptors\<close>

text \<open>\<open>authUnary\<close>: \<open>header\<close> is the first value of the authorization metadata, if any.\<close>

definition authUnary ::
  "(string \<Rightarrow> go_err + claims) \<Rightarrow> string set \<Rightarrow> string set \<Rightarrow> string \<Rightarrow> string option \<Rightarrow>
   (caller \<Rightarrow> ('d, 'a) prog) \<Rightarrow> ('d, 'a) prog" where
  "authUnary parse skip opt fullMethod header handler =
     (if fullMethod \<in> skip then handler None
      else let raw = (case header of None \<Rightarrow> '''' | Some h \<Rightarrow>
                        (case BearerFromAuthHeader h of None \<Rightarrow> '''' | Some b \<Rightarrow> b))
           in if raw = '''' then
                (if fullMethod \<in> opt then handler None
                 else fail (StatusErr Unauthenticated ''NO_BEARER_TOKEN''))
              else (case Verify parse raw of
                  Inl err \<Rightarrow> fail (over_wire err)
                | Inr p \<Rightarrow> handler (Some p)))"

text \<open>\<open>loggingUnary\<close>: what it does to the error of the handler it wraps.\<close>

definition loggingUnary :: "('d, 'a) prog \<Rightarrow> ('d, 'a) prog" where
  "loggingUnary handler = map_err over_wire handler"

lemma RequireRole_ok: "RequireRole c r = Inr () \<longleftrightarrow> (\<exists>p. c = Some p \<and> r \<in> set (Roles p))"
  by (auto simp: RequireRole_def HasRole_def split: option.splits)

lemma RequireAnyRole_ok: "RequireAnyRole c rs = Inr () \<longleftrightarrow> (\<exists>p. c = Some p \<and> set rs \<inter> set (Roles p) \<noteq> {})"
  by (auto simp: RequireAnyRole_def HasAnyRole_def HasRole_def split: option.splits)

end
