(* ===== verification/Inventory.thy ===== *)
theory Inventory
  imports Outbox Auth
begin

section \<open>The inventory service (services/inventory)\<close>

text \<open>
  The tables \<open>stock\<close>, \<open>reservations\<close> and \<open>reservation_items\<close>, the operations of
  internal/store/store.go on them, the gRPC handlers of internal/grpcsvc/server.go and the catalog
  consumer.  \<open>Reserve\<close>, \<open>Commit\<close> and \<open>Release\<close> lock the rows they read (\<open>FOR UPDATE\<close>), so each
  transaction is one step; \<open>ExpireDue\<close> is a sequence of statements and transactions.
  Stock columns are INTEGER: a value outside int32 is refused by the database.
\<close>

subsection \<open>Tables\<close>

record stock_row =
  sk_product :: string
  sk_on_hand :: int
  sk_reserved :: int

datatype res_status = HELD | COMMITTED_RES | RELEASED

record reservation_row =
  rv_id :: string
  rv_order_ref :: string
  rv_status :: res_status
  rv_expires :: int

record item_row =
  it_reservation :: string
  it_product :: string
  it_quantity :: int

datatype inv_event =
    StockChanged string int32 int32 int32 int
  | ReservationExpired string string "(string \<times> int32) list" int

record inv_db =
  stock :: "stock_row list"
  reservations :: "reservation_row list"
  res_items :: "item_row list"
  iox :: "inv_event outbox"

definition empty_inv_db :: inv_db where
  "empty_inv_db = \<lparr>stock = [], reservations = [], res_items = [], iox = empty_outbox\<rparr>"

record level =
  OnHand :: int
  Reserved :: int

definition Available :: "level \<Rightarrow> int" where
  "Available l = OnHand l - Reserved l"

subsection \<open>Store operations\<close>

definition find_stock :: "string \<Rightarrow> inv_db \<Rightarrow> stock_row option" where
  "find_stock p d = List.find (\<lambda>s. sk_product s = p) (stock d)"

definition level_of :: "stock_row \<Rightarrow> level" where
  "level_of s = \<lparr>OnHand = sk_on_hand s, Reserved = sk_reserved s\<rparr>"

text \<open>\<open>Levels\<close>: the map from the ids asked for to their levels, zero where there is no row.\<close>

definition Levels :: "string list \<Rightarrow> (inv_db, string \<Rightarrow> level) prog" where
  "Levels ids = map_err wrap (query (\<lambda>_ d id.
     if id \<in> set ids then (case find_stock id d of None \<Rightarrow> \<lparr>OnHand = 0, Reserved = 0\<rparr> | Some s \<Rightarrow> level_of s)
     else \<lparr>OnHand = 0, Reserved = 0\<rparr>))"

definition EnsureStockRow :: "string \<Rightarrow> int \<Rightarrow> (inv_db, unit) prog" where
  "EnsureStockRow productID defaultOnHand = map_err wrap (exec_chk (\<lambda>_ d.
     if \<not> in_i32 defaultOnHand then Inl outOfRange
     else if defaultOnHand < 0 then Inl checkViolation
     else if productID \<in> sk_product ` set (stock d) then Inr ((), d)
     else Inr ((), d\<lparr>stock := stock d @ [\<lparr>sk_product = productID, sk_on_hand = defaultOnHand, sk_reserved = 0\<rparr>]\<rparr>)))"

definition outboxStock :: "string \<Rightarrow> int \<Rightarrow> int \<Rightarrow> (inv_db, unit) prog" where
  "outboxStock productID onHand reserved = map_err wrap (exec (\<lambda>t d. d\<lparr>iox :=
     outbox_add ''commerce.inventory.stock_changed'' productID
       (StockChanged productID (i32 onHand) (i32 reserved) (i32 (onHand - reserved)) t) t (iox d)\<rparr>))"

text \<open>The database accepts the two columns of a stock row, or says why not.\<close>

definition stock_refused :: "int \<Rightarrow> int \<Rightarrow> go_err option" where
  "stock_refused h r = (if \<not> in_i32 h \<or> \<not> in_i32 r then Some outOfRange
     else if h < 0 \<or> r < 0 then Some checkViolation else None)"

definition set_stock :: "string \<Rightarrow> int \<Rightarrow> int \<Rightarrow> inv_db \<Rightarrow> inv_db" where
  "set_stock p h r d = d\<lparr>stock := upd_rows (\<lambda>s. sk_product s = p)
     (\<lambda>s. s\<lparr>sk_on_hand := h, sk_reserved := r\<rparr>) (stock d)\<rparr>"

text \<open>\<open>INSERT INTO reservations ... RETURNING id\<close>; the database draws the id.\<close>

definition ins_reservation :: "string \<Rightarrow> string \<Rightarrow> int \<Rightarrow> (inv_db, unit) prog" where
  "ins_reservation rid orderRef expires = map_err wrap (exec_chk (\<lambda>_ d.
     if rid \<in> rv_id ` set (reservations d) then Inl uniqueViolation
     else Inr ((), d\<lparr>reservations := reservations d @
       [\<lparr>rv_id = rid, rv_order_ref = orderRef, rv_status = HELD, rv_expires = expires\<rparr>]\<rparr>)))"

definition ins_item :: "string \<Rightarrow> string \<Rightarrow> int \<Rightarrow> (inv_db, unit) prog" where
  "ins_item rid p q = map_err wrap (exec_chk (\<lambda>_ d.
     if \<not> in_i32 q then Inl outOfRange
     else if q \<le> 0 then Inl checkViolation
     else if (rid, p) \<in> (\<lambda>x. (it_reservation x, it_product x)) ` set (res_items d) then Inl uniqueViolation
     else Inr ((), d\<lparr>res_items := res_items d @ [\<lparr>it_reservation = rid, it_product = p, it_quantity = q\<rparr>]\<rparr>)))"

definition insufficient_stock :: go_err where
  "insufficient_stock = errs_New KindFailedPrecondition ''INSUFFICIENT_STOCK''"

text \<open>\<open>UPDATE stock SET reserved = reserved + $2\<close>.\<close>

definition add_reserved :: "string \<Rightarrow> int \<Rightarrow> (inv_db, unit) prog" where
  "add_reserved p q = map_err wrap (exec_chk (\<lambda>_ d. case find_stock p d of
       None \<Rightarrow> Inr ((), d)
     | Some s \<Rightarrow> (case stock_refused (sk_on_hand s) (sk_reserved s + q) of
           Some err \<Rightarrow> Inl err
         | None \<Rightarrow> Inr ((), set_stock p (sk_on_hand s) (sk_reserved s + q) d))))"

text \<open>One turn of the loop of \<open>Reserve\<close>.\<close>

definition reserve_line :: "string \<Rightarrow> string \<times> int \<Rightarrow> (inv_db, unit) prog" where
  "reserve_line rid ln = (case ln of (p, q) \<Rightarrow>
     bnd (attempt (query_row (find_stock p))) (\<lambda>x. case x of
       Inl err \<Rightarrow> fail (if err = NoRows then insufficient_stock else wrap err)
     | Inr s \<Rightarrow>
         if Available (level_of s) < q then fail insufficient_stock
         else bnd (add_reserved p q) (\<lambda>_.
              bnd (ins_item rid p q) (\<lambda>_.
              outboxStock p (sk_on_hand s) (sk_reserved s + q)))))"

definition store_Reserve :: "string \<Rightarrow> (string \<times> int) list \<Rightarrow> int \<Rightarrow> (inv_db, string \<times> int) prog" where
  "store_Reserve orderRef lines ttl =
     bnd (asks now) (\<lambda>t.
     bnd new_uuid (\<lambda>rid.
     in_tx (
       bnd (ins_reservation rid orderRef (t + ttl)) (\<lambda>_.
       bnd (foreach (reserve_line rid) lines) (\<lambda>_.
       ret (Commit (rid, t + ttl)))))))"

definition reservationIsHeld :: "string \<Rightarrow> (inv_db, bool) prog" where
  "reservationIsHeld rid =
     bnd (asks uuid_ok) (\<lambda>ok. if \<not> ok rid then ret False
     else bnd (attempt (query_row (\<lambda>d. List.find (\<lambda>v. rv_id v = rid) (reservations d)))) (\<lambda>x. case x of
            Inl err \<Rightarrow> if err = NoRows then ret False else fail (wrap err)
          | Inr v \<Rightarrow> ret (rv_status v = HELD)))"

definition items_of :: "string \<Rightarrow> inv_db \<Rightarrow> (string \<times> int) list" where
  "items_of rid d = map (\<lambda>x. (it_product x, it_quantity x)) (filter (\<lambda>x. it_reservation x = rid) (res_items d))"

definition loadReservationItems :: "string \<Rightarrow> (inv_db, (string \<times> int) list) prog" where
  "loadReservationItems rid = map_err wrap (query (\<lambda>_. items_of rid))"

definition write_stock :: "string \<Rightarrow> int \<Rightarrow> int \<Rightarrow> (inv_db, unit) prog" where
  "write_stock p h r = map_err wrap (exec_chk (\<lambda>_ d. case stock_refused h r of
       Some err \<Rightarrow> Inl err | None \<Rightarrow> Inr ((), set_stock p h r d)))"

definition applyStockDelta :: "(int \<Rightarrow> int \<Rightarrow> int \<Rightarrow> int \<times> int) \<Rightarrow> string \<times> int \<Rightarrow> (inv_db, unit) prog" where
  "applyStockDelta apply it =
     bnd (map_err wrap (query_row (find_stock (fst it)))) (\<lambda>s.
     let nhr = apply (sk_on_hand s) (sk_reserved s) (snd it);
         nr = (if snd nhr < 0 then 0 else snd nhr);
         nh = (if fst nhr < 0 then 0 else fst nhr)
     in bnd (write_stock (fst it) nh nr) (\<lambda>_. outboxStock (fst it) nh nr))"

definition set_reservation :: "string \<Rightarrow> res_status \<Rightarrow> inv_db \<Rightarrow> inv_db" where
  "set_reservation rid st d = d\<lparr>reservations := upd_rows (\<lambda>v. rv_id v = rid)
     (\<lambda>v. v\<lparr>rv_status := st\<rparr>) (reservations d)\<rparr>"

definition finish :: "string \<Rightarrow> res_status \<Rightarrow> (int \<Rightarrow> int \<Rightarrow> int \<Rightarrow> int \<times> int) \<Rightarrow> (inv_db, unit) prog" where
  "finish rid target apply = in_tx (
     bnd (reservationIsHeld rid) (\<lambda>held.
     if \<not> held then ret (Abort ())
     else bnd (loadReservationItems rid) (\<lambda>items.
          bnd (foreach (applyStockDelta apply) items) (\<lambda>_.
          bnd (map_err wrap (exec (\<lambda>_. set_reservation rid target))) (\<lambda>_.
          ret (Commit ()))))))"

definition commit_fn :: "int \<Rightarrow> int \<Rightarrow> int \<Rightarrow> int \<times> int" where
  "commit_fn onHand reserved qty = (onHand - qty, reserved - qty)"

definition release_fn :: "int \<Rightarrow> int \<Rightarrow> int \<Rightarrow> int \<times> int" where
  "release_fn onHand reserved qty = (onHand, reserved - qty)"

definition store_Commit :: "string \<Rightarrow> (inv_db, unit) prog" where
  "store_Commit rid = finish rid COMMITTED_RES commit_fn"

definition store_Release :: "string \<Rightarrow> (inv_db, unit) prog" where
  "store_Release rid = finish rid RELEASED release_fn"

text \<open>The upsert of \<open>AdjustStock\<close> and the row it returns.\<close>

definition upsert_stock :: "string \<Rightarrow> int \<Rightarrow> (inv_db, level) prog" where
  "upsert_stock p delta = map_err wrap (exec_chk (\<lambda>_ d. case find_stock p d of
       None \<Rightarrow> let h = max delta 0 in
         if \<not> in_i32 delta then Inl outOfRange
         else Inr (\<lparr>OnHand = h, Reserved = 0\<rparr>, d\<lparr>stock := stock d @ [\<lparr>sk_product = p, sk_on_hand = h, sk_reserved = 0\<rparr>]\<rparr>)
     | Some s \<Rightarrow> let h = max (sk_on_hand s + delta) 0 in
         if \<not> in_i32 delta \<or> \<not> in_i32 (sk_on_hand s + delta) then Inl outOfRange
         else Inr (\<lparr>OnHand = h, Reserved = sk_reserved s\<rparr>, set_stock p h (sk_reserved s) d)))"

definition store_AdjustStock :: "string \<Rightarrow> int \<Rightarrow> (inv_db, level) prog" where
  "store_AdjustStock p delta = in_tx (
     bnd (upsert_stock p delta) (\<lambda>l.
     bnd (outboxStock p (OnHand l) (Reserved l)) (\<lambda>_.
     ret (Commit l))))"

subsection \<open>The expiry sweep\<close>

definition due_reservations :: "int \<Rightarrow> nat \<Rightarrow> inv_db \<Rightarrow> reservation_row list" where
  "due_reservations t n d = take n (sort_key rv_expires
     (filter (\<lambda>v. rv_status v = HELD \<and> rv_expires v < t) (reservations d)))"

definition emitReservationExpired :: "string \<Rightarrow> string \<Rightarrow> (string \<times> int) list \<Rightarrow> (inv_db, unit) prog" where
  "emitReservationExpired rid orderRef items = map_err wrap (exec (\<lambda>t d. d\<lparr>iox :=
     outbox_add ''commerce.inventory.reservation_expired'' orderRef
       (ReservationExpired rid orderRef (map (\<lambda>(p, q). (p, i32 q)) items) t) t (iox d)\<rparr>))"

definition expire_one :: "reservation_row \<Rightarrow> (inv_db, unit) prog" where
  "expire_one v =
     bnd (loadReservationItems (rv_id v)) (\<lambda>items.
     bnd (store_Release (rv_id v)) (\<lambda>_.
     emitReservationExpired (rv_id v) (rv_order_ref v) items))"

definition ExpireDue :: "nat \<Rightarrow> (inv_db, nat) prog" where
  "ExpireDue limit =
     bnd (map_err wrap (query (\<lambda>t. due_reservations t limit))) (\<lambda>due.
     bnd (foreach expire_one due) (\<lambda>_.
     ret (length due)))"

subsection \<open>gRPC handlers\<close>

definition second :: int where "second = 1000000000"

definition minTTL :: int where "minTTL = 60 * second"
definition maxTTL :: int where "maxTTL = 60 * 60 * second"
definition defaultTTL :: int where "defaultTTL = 15 * 60 * second"

definition clamp_ttl :: "int32 \<Rightarrow> int" where
  "clamp_ttl ttlSeconds = (let ttl = ttlSeconds * second in
     if ttl = 0 then defaultTTL else if ttl < minTTL then minTTL else if ttl > maxTTL then maxTTL else ttl)"

record stock_level =
  sl_product :: string
  sl_on_hand :: int32
  sl_reserved :: int32
  sl_available :: int32

definition stock_level_of :: "string \<Rightarrow> level \<Rightarrow> stock_level" where
  "stock_level_of p l = \<lparr>sl_product = p, sl_on_hand = i32 (OnHand l), sl_reserved = i32 (Reserved l),
     sl_available = i32 (Available l)\<rparr>"

definition CheckAvailability :: "string list \<Rightarrow> (inv_db, stock_level list) prog" where
  "CheckAvailability ids = bnd (Levels ids) (\<lambda>levels. ret (map (\<lambda>id. stock_level_of id (levels id)) ids))"

text \<open>\<open>Reserve\<close> validates the request before it opens a transaction.\<close>

definition Reserve :: "string \<Rightarrow> (string \<times> int32) list \<Rightarrow> int32 \<Rightarrow> (inv_db, string \<times> int) prog" where
  "Reserve orderRef items ttlSeconds =
     (if orderRef = '''' then fail (errs_New KindInvalidArgument ''ORDER_REF_REQUIRED'')
      else if items = [] then fail (errs_New KindInvalidArgument ''NO_ITEMS'')
      else if \<exists>it\<in>set items. snd it \<le> 0 then fail (errs_New KindInvalidArgument ''BAD_QUANTITY'')
      else store_Reserve orderRef items (clamp_ttl ttlSeconds))"

definition AdjustStock :: "caller \<Rightarrow> string \<Rightarrow> int32 \<Rightarrow> (inv_db, stock_level) prog" where
  "AdjustStock c p delta =
     bnd (lift_res (RequireRole c ''inventory_manager'')) (\<lambda>_.
     if p = '''' then fail (errs_New KindInvalidArgument ''PRODUCT_ID_REQUIRED'')
     else bnd (store_AdjustStock p delta) (\<lambda>l. ret (stock_level_of p l)))"

text \<open>The consumer of \<open>catalog.product_changed\<close>; \<open>None\<close> is a record that does not decode.\<close>

definition inventory_Handler :: "int \<Rightarrow> string option \<Rightarrow> (inv_db, unit) prog" where
  "inventory_Handler defaultOnHand r = (case r of
       None \<Rightarrow> ret ()
     | Some productID \<Rightarrow> if productID = '''' then ret () else EnsureStockRow productID defaultOnHand)"

end
