(* ===== verification/InventorySpec.thy ===== *)
theory InventorySpec
  imports Inventory
begin

section \<open>What the transactions of the inventory store do\<close>

text \<open>
  \<open>Reserve\<close>, \<open>Commit\<close>, \<open>Release\<close> and \<open>AdjustStock\<close> as functions on the tables: a transaction leaves
  the tables as they were or applies its function.  The invariant ties the \<open>reserved\<close> column to the
  items of the HELD reservations.
\<close>

subsection \<open>Transactions as functions\<close>

definition note_stock :: "string \<Rightarrow> int \<Rightarrow> int \<Rightarrow> int \<Rightarrow> inv_db \<Rightarrow> inv_db" where
  "note_stock p h r t d = d\<lparr>iox := outbox_add ''commerce.inventory.stock_changed'' p
     (StockChanged p (i32 h) (i32 r) (i32 (h - r)) t) t (iox d)\<rparr>"

definition add_item :: "string \<Rightarrow> string \<Rightarrow> int \<Rightarrow> inv_db \<Rightarrow> inv_db" where
  "add_item rid p q d = d\<lparr>res_items := res_items d @ [\<lparr>it_reservation = rid, it_product = p, it_quantity = q\<rparr>]\<rparr>"

definition item_keys :: "inv_db \<Rightarrow> (string \<times> string) set" where
  "item_keys d = (\<lambda>x. (it_reservation x, it_product x)) ` set (res_items d)"

definition can_reserve :: "string \<Rightarrow> string \<times> int \<Rightarrow> inv_db \<Rightarrow> bool" where
  "can_reserve rid ln d \<longleftrightarrow> (\<exists>s. find_stock (fst ln) d = Some s \<and> snd ln \<le> sk_on_hand s - sk_reserved s \<and>
     0 < snd ln \<and> (rid, fst ln) \<notin> item_keys d \<and> in_i32 (sk_reserved s + snd ln))"

definition reserve_at :: "string \<Rightarrow> int \<Rightarrow> string \<times> int \<Rightarrow> inv_db \<Rightarrow> inv_db" where
  "reserve_at rid t ln d = (case find_stock (fst ln) d of None \<Rightarrow> d
     | Some s \<Rightarrow> note_stock (fst ln) (sk_on_hand s) (sk_reserved s + snd ln) t
         (add_item rid (fst ln) (snd ln) (set_stock (fst ln) (sk_on_hand s) (sk_reserved s + snd ln) d)))"

lemma wp_outboxStockI:
  assumes "\<And>err d' fs. Q (Inl err) d' (e\<lparr>faults := fs\<rparr>)"
    and "\<And>fs. Q (Inr ()) (note_stock p h r (now e) d) (e\<lparr>faults := fs\<rparr>)"
  shows "wp (outboxStock p h r) Q d e"
  unfolding outboxStock_def using assms by (auto simp: note_stock_def intro!: wp_execI)

lemma set_stock_sel [simp]:
  "res_items (set_stock p h r d) = res_items d" "reservations (set_stock p h r d) = reservations d"
  "iox (set_stock p h r d) = iox d"
  by (simp_all add: set_stock_def)

lemma note_stock_sel [simp]:
  "res_items (note_stock p h r t d) = res_items d" "reservations (note_stock p h r t d) = reservations d"
  "stock (note_stock p h r t d) = stock d"
  by (simp_all add: note_stock_def)

lemma add_item_sel [simp]:
  "stock (add_item rid p q d) = stock d" "reservations (add_item rid p q d) = reservations d"
  "iox (add_item rid p q d) = iox d"
  by (simp_all add: add_item_def)

lemma acts_reserve_line: "acts (reserve_line rid) (can_reserve rid) (reserve_at rid)"
proof (rule actsI)
  fix ln and Q :: "unit res \<Rightarrow> inv_db \<Rightarrow> env \<Rightarrow> bool" and d and e :: env
  assume err: "\<And>err d' fs. Q (Inl err) d' (e\<lparr>faults := fs\<rparr>)"
    and ok: "\<And>fs. can_reserve rid ln d \<Longrightarrow> Q (Inr ()) (reserve_at rid (now e) ln d) (e\<lparr>faults := fs\<rparr>)"
  obtain p q where ln: "ln = (p, q)" by force
  have ok': "Q (Inr ()) (note_stock p (sk_on_hand s) (sk_reserved s + q) (now e)
      (add_item rid p q (set_stock p (sk_on_hand s) (sk_reserved s + q) d))) (e\<lparr>faults := fs\<rparr>)"
    if "find_stock p d = Some s" "\<not> Available (level_of s) < q" "\<not> q \<le> 0"
       "(rid, p) \<notin> (\<lambda>x. (it_reservation x, it_product x)) ` set (res_items d)"
       "stock_refused (sk_on_hand s) (sk_reserved s + q) = None" for s fs
    using ok [of fs] that
    by (auto simp: can_reserve_def ln reserve_at_def item_keys_def Available_def level_of_def stock_refused_def
        split: if_splits)
  show "wp (reserve_line rid ln) Q d e"
    unfolding reserve_line_def ln add_reserved_def ins_item_def
    using err ok' [unfolded add_item_def set_stock_sel]
    by (auto intro!: wp_query_rowI wp_exec_chkI wp_outboxStockI split: if_splits option.splits)
qed

definition hold :: "string \<Rightarrow> string \<Rightarrow> int \<Rightarrow> inv_db \<Rightarrow> inv_db" where
  "hold rid orderRef expires d = d\<lparr>reservations := reservations d @
     [\<lparr>rv_id = rid, rv_order_ref = orderRef, rv_status = HELD, rv_expires = expires\<rparr>]\<rparr>"

definition reserved_db :: "string \<Rightarrow> string \<Rightarrow> int \<Rightarrow> (string \<times> int) list \<Rightarrow> int \<Rightarrow> inv_db \<Rightarrow> inv_db" where
  "reserved_db rid orderRef expires lines t d = fold (reserve_at rid t) lines (hold rid orderRef expires d)"

lemma env_drawn_faults: "e\<lparr>faults := fs\<rparr> = e\<lparr>drawn := drawn e, faults := fs\<rparr>"
  by simp

lemma wp_store_ReserveI:
  assumes err: "\<And>x n fs. Q (Inl x) d (e\<lparr>drawn := n, faults := fs\<rparr>)"
    and ok: "\<And>rid r n fs. rid = fresh e (drawn e) \<Longrightarrow> rid \<notin> rv_id ` set (reservations d) \<Longrightarrow>
       all_ok (can_reserve rid) (reserve_at rid (now e)) lines (hold rid orderRef (now e + ttl) d) \<Longrightarrow>
       r = Inr (rid, now e + ttl) \<or> r = Inl (wrap ConnErr) \<Longrightarrow>
       Q r (reserved_db rid orderRef (now e + ttl) lines (now e) d) (e\<lparr>drawn := n, faults := fs\<rparr>)"
  shows "wp (store_Reserve orderRef lines ttl) Q d e"
proof -
  show ?thesis
    unfolding store_Reserve_def ins_reservation_def
    using ok
    by (auto intro!: wp_in_txI wp_exec_chkI wp_foreach_acts [OF acts_reserve_line] simp: err
        reserved_db_def hold_def [symmetric] split: if_splits)
qed

definition res_held :: "string \<Rightarrow> inv_db \<Rightarrow> bool" where
  "res_held rid d \<longleftrightarrow> (case List.find (\<lambda>v. rv_id v = rid) (reservations d) of
       None \<Rightarrow> False | Some v \<Rightarrow> rv_status v = HELD)"

lemma res_held_ex:
  "res_held rid d \<longleftrightarrow> (\<exists>v. List.find (\<lambda>v. rv_id v = rid) (reservations d) = Some v \<and> rv_status v = HELD)"
  by (auto simp: res_held_def split: option.splits)

definition clamped :: "(int \<Rightarrow> int \<Rightarrow> int \<Rightarrow> int \<times> int) \<Rightarrow> stock_row \<Rightarrow> int \<Rightarrow> int \<times> int" where
  "clamped apply s q = (max 0 (fst (apply (sk_on_hand s) (sk_reserved s) q)),
     max 0 (snd (apply (sk_on_hand s) (sk_reserved s) q)))"

definition can_delta :: "(int \<Rightarrow> int \<Rightarrow> int \<Rightarrow> int \<times> int) \<Rightarrow> string \<times> int \<Rightarrow> inv_db \<Rightarrow> bool" where
  "can_delta apply it d \<longleftrightarrow> (\<exists>s. find_stock (fst it) d = Some s \<and>
     stock_refused (fst (clamped apply s (snd it))) (snd (clamped apply s (snd it))) = None)"

definition delta_at :: "(int \<Rightarrow> int \<Rightarrow> int \<Rightarrow> int \<times> int) \<Rightarrow> int \<Rightarrow> string \<times> int \<Rightarrow> inv_db \<Rightarrow> inv_db" where
  "delta_at apply t it d = (case find_stock (fst it) d of None \<Rightarrow> d
     | Some s \<Rightarrow> (case clamped apply s (snd it) of (h, r) \<Rightarrow>
         note_stock (fst it) h r t (set_stock (fst it) h r d)))"

lemma acts_applyStockDelta: "acts (applyStockDelta f) (can_delta f) (delta_at f)"
proof (rule actsI)
  fix it and Q :: "unit res \<Rightarrow> inv_db \<Rightarrow> env \<Rightarrow> bool" and d and e :: env
  assume err: "\<And>err d' fs. Q (Inl err) d' (e\<lparr>faults := fs\<rparr>)"
    and ok: "\<And>fs. can_delta f it d \<Longrightarrow> Q (Inr ()) (delta_at f (now e) it d) (e\<lparr>faults := fs\<rparr>)"
  have max0: "(if x < 0 then 0 else x) = max 0 x" for x :: int by auto
  have ok': "Q (Inr ()) (note_stock (fst it) (fst (clamped f s (snd it))) (snd (clamped f s (snd it))) (now e)
      (set_stock (fst it) (fst (clamped f s (snd it))) (snd (clamped f s (snd it))) d)) (e\<lparr>faults := fs\<rparr>)"
    if "find_stock (fst it) d = Some s"
      "stock_refused (fst (clamped f s (snd it))) (snd (clamped f s (snd it))) = None" for s fs
    using ok [of fs] that by (auto simp: can_delta_def delta_at_def split: prod.splits)
  show "wp (applyStockDelta f it) Q d e"
    unfolding applyStockDelta_def write_stock_def max0 Let_def
    using err ok' [unfolded clamped_def fst_conv snd_conv]
    by (auto intro!: wp_query_rowI wp_exec_chkI wp_outboxStockI split: option.splits)
qed

definition finished :: "string \<Rightarrow> res_status \<Rightarrow> (int \<Rightarrow> int \<Rightarrow> int \<Rightarrow> int \<times> int) \<Rightarrow> int \<Rightarrow> inv_db \<Rightarrow> inv_db" where
  "finished rid target f t d = set_reservation rid target (fold (delta_at f t) (items_of rid d) d)"

lemma wp_reservationIsHeldI:
  assumes "\<And>err fs. Q (Inl err) d (e\<lparr>faults := fs\<rparr>)"
    and "\<And>fs b. b \<longleftrightarrow> uuid_ok e rid \<and> res_held rid d \<Longrightarrow> Q (Inr b) d (e\<lparr>faults := fs\<rparr>)"
  shows "wp (reservationIsHeld rid) Q d e"
proof -
  have "\<not> uuid_ok e rid \<Longrightarrow> Q (Inr False) d e" using assms(2) [of False "faults e"] by simp
  then show ?thesis
    unfolding reservationIsHeld_def
    by (auto intro!: wp_query_rowI assms simp: res_held_ex)
qed

lemma wp_finishI:
  assumes err: "\<And>x fs. Q (Inl x) d (e\<lparr>faults := fs\<rparr>)"
    and noop: "\<And>fs. \<not> (uuid_ok e rid \<and> res_held rid d) \<Longrightarrow> Q (Inr ()) d (e\<lparr>faults := fs\<rparr>)"
    and ok: "\<And>r fs. uuid_ok e rid \<Longrightarrow> res_held rid d \<Longrightarrow> all_ok (can_delta f) (delta_at f (now e)) (items_of rid d) d \<Longrightarrow>
       r = Inr () \<or> r = Inl (wrap ConnErr) \<Longrightarrow> Q r (finished rid target f (now e) d) (e\<lparr>faults := fs\<rparr>)"
  shows "wp (finish rid target f) Q d e"
  unfolding finish_def loadReservationItems_def
  using noop ok
  by (auto intro!: wp_in_txI wp_reservationIsHeldI wp_queryI wp_foreach_acts [OF acts_applyStockDelta] wp_execI
      simp: err finished_def)

definition adjusted :: "string \<Rightarrow> int \<Rightarrow> int \<Rightarrow> inv_db \<Rightarrow> inv_db" where
  "adjusted p delta t d = (case find_stock p d of
       None \<Rightarrow> note_stock p (max delta 0) 0 t (d\<lparr>stock := stock d @ [\<lparr>sk_product = p, sk_on_hand = max delta 0, sk_reserved = 0\<rparr>]\<rparr>)
     | Some s \<Rightarrow> note_stock p (max (sk_on_hand s + delta) 0) (sk_reserved s) t
         (set_stock p (max (sk_on_hand s + delta) 0) (sk_reserved s) d))"

definition can_adjust :: "string \<Rightarrow> int \<Rightarrow> inv_db \<Rightarrow> bool" where
  "can_adjust p delta d \<longleftrightarrow> in_i32 delta \<and> (\<forall>s. find_stock p d = Some s \<longrightarrow> in_i32 (sk_on_hand s + delta))"

lemma wp_store_AdjustStockI:
  assumes err: "\<And>x fs. Q (Inl x) d (e\<lparr>faults := fs\<rparr>)"
    and ok: "\<And>r fs. can_adjust p delta d \<Longrightarrow> (\<exists>l. r = Inr l) \<or> r = Inl (wrap ConnErr) \<Longrightarrow>
       Q r (adjusted p delta (now e) d) (e\<lparr>faults := fs\<rparr>)"
  shows "wp (store_AdjustStock p delta) Q d e"
proof (cases "find_stock p d")
  case None
  then have ok': "in_i32 delta \<Longrightarrow> r = Inr l \<or> r = Inl (wrap ConnErr) \<Longrightarrow>
      Q r (note_stock p (max delta 0) 0 (now e) (d\<lparr>stock := stock d @ [\<lparr>sk_product = p, sk_on_hand = max delta 0, sk_reserved = 0\<rparr>]\<rparr>))
        (e\<lparr>faults := fs\<rparr>)" for r l fs
    using ok [of r fs] by (auto simp: can_adjust_def adjusted_def)
  show ?thesis
    unfolding store_AdjustStock_def upsert_stock_def
    using None ok' by (auto intro!: wp_in_txI wp_exec_chkI wp_outboxStockI simp: err Let_def split: if_splits)
next
  case (Some s)
  then have ok': "in_i32 delta \<Longrightarrow> in_i32 (sk_on_hand s + delta) \<Longrightarrow> r = Inr l \<or> r = Inl (wrap ConnErr) \<Longrightarrow>
      Q r (note_stock p (max (sk_on_hand s + delta) 0) (sk_reserved s) (now e)
         (set_stock p (max (sk_on_hand s + delta) 0) (sk_reserved s) d)) (e\<lparr>faults := fs\<rparr>)" for r l fs
    using ok [of r fs] by (auto simp: can_adjust_def adjusted_def)
  show ?thesis
    unfolding store_AdjustStock_def upsert_stock_def
    using Some ok' by (auto intro!: wp_in_txI wp_exec_chkI wp_outboxStockI simp: err Let_def split: if_splits)
qed

end
