(* ===== verification/InventoryInvariants.thy ===== *)
theory InventoryInvariants
  imports InventorySpec
begin

section \<open>The inventory machine and its invariant\<close>

text \<open>
  In every state, whatever operations interleave and whatever faults occur, the \<open>reserved\<close> column of
  a product is the sum of its items in HELD reservations, so the clamp to zero of \<open>applyStockDelta\<close>
  never hides a lost unit of \<open>reserved\<close>.
\<close>

subsection \<open>Reserved quantities\<close>

definition held_items :: "string \<Rightarrow> inv_db \<Rightarrow> item_row list" where
  "held_items p d = filter (\<lambda>x. it_product x = p \<and> res_held (it_reservation x) d) (res_items d)"

definition held_qty :: "string \<Rightarrow> inv_db \<Rightarrow> int" where
  "held_qty p d = sum_list (map it_quantity (held_items p d))"

definition other_qty :: "string \<Rightarrow> string \<Rightarrow> inv_db \<Rightarrow> int" where
  "other_qty rid p d = sum_list (map it_quantity
     (filter (\<lambda>x. it_product x = p \<and> it_reservation x \<noteq> rid \<and> res_held (it_reservation x) d) (res_items d)))"

definition items_qty :: "string \<Rightarrow> (string \<times> int) list \<Rightarrow> int" where
  "items_qty p its = sum_list (map snd (filter (\<lambda>it. fst it = p) its))"

definition res_ids :: "inv_db \<Rightarrow> string set" where
  "res_ids d = rv_id ` set (reservations d)"

definition stock_ids :: "inv_db \<Rightarrow> string set" where
  "stock_ids d = sk_product ` set (stock d)"

definition items_ok :: "inv_db \<Rightarrow> bool" where
  "items_ok d \<longleftrightarrow> distinct (map (\<lambda>x. (it_reservation x, it_product x)) (res_items d)) \<and>
     (\<forall>x\<in>set (res_items d). 0 < it_quantity x \<and> it_reservation x \<in> res_ids d \<and> it_product x \<in> stock_ids d)"

definition columns_ok :: "stock_row \<Rightarrow> bool" where
  "columns_ok s \<longleftrightarrow> 0 \<le> sk_on_hand s \<and> in_i32 (sk_on_hand s) \<and> in_i32 (sk_reserved s)"

definition keys_ok :: "inv_db \<Rightarrow> bool" where
  "keys_ok d \<longleftrightarrow> distinct (map sk_product (stock d)) \<and> distinct (map rv_id (reservations d)) \<and> outbox_wf (iox d)"

definition inv_ok :: "inv_db \<Rightarrow> bool" where
  "inv_ok d \<longleftrightarrow> keys_ok d \<and> items_ok d \<and>
     (\<forall>s\<in>set (stock d). columns_ok s \<and> sk_reserved s = held_qty (sk_product s) d)"

lemma res_held_cong: "reservations d' = reservations d \<Longrightarrow> res_held rid d' = res_held rid d"
  by (simp add: res_held_ex)

lemma held_qty_cong:
  "reservations d' = reservations d \<Longrightarrow> res_items d' = res_items d \<Longrightarrow> held_qty p d' = held_qty p d"
  by (simp add: held_qty_def held_items_def res_held_ex)

lemma held_qty_nonneg: "items_ok d \<Longrightarrow> 0 \<le> held_qty p d"
  unfolding held_qty_def by (rule sum_list_nonneg_int) (auto simp: held_items_def items_ok_def order.strict_implies_order)

lemma other_qty_nonneg: "items_ok d \<Longrightarrow> 0 \<le> other_qty rid p d"
  unfolding other_qty_def by (rule sum_list_nonneg_int) (auto simp: items_ok_def order.strict_implies_order)

lemma items_qty_nonneg: "(\<forall>it\<in>set its. 0 < snd it) \<Longrightarrow> 0 \<le> items_qty p its"
  unfolding items_qty_def by (rule sum_list_nonneg_int) (auto simp: order.strict_implies_order)

lemma items_qty_simps [simp]:
  "items_qty p [] = 0" "items_qty p (it # its) = (if fst it = p then snd it else 0) + items_qty p its"
  by (simp_all add: items_qty_def)

lemma held_qty_split:
  "res_held rid d \<Longrightarrow> held_qty p d = other_qty rid p d + items_qty p (items_of rid d)"
proof -
  assume h: "res_held rid d"
  have "sum_list (map it_quantity (filter (\<lambda>x. it_product x = p \<and> res_held (it_reservation x) d) xs)) =
      sum_list (map it_quantity (filter (\<lambda>x. it_product x = p \<and> it_reservation x \<noteq> rid \<and> res_held (it_reservation x) d) xs)) +
      items_qty p (map (\<lambda>x. (it_product x, it_quantity x)) (filter (\<lambda>x. it_reservation x = rid) xs))" for xs
    using h by (induction xs) auto
  then show ?thesis by (simp add: held_qty_def held_items_def other_qty_def items_of_def)
qed

lemma find_stock_upd:
  "find_stock p (set_stock p' h r d) = (if p = p' then map_option (\<lambda>s. s\<lparr>sk_on_hand := h, sk_reserved := r\<rparr>) (find_stock p d)
     else find_stock p d)"
proof (cases "p = p'")
  case True
  then show ?thesis by (simp add: find_stock_def set_stock_def find_upd_rows_same)
next
  case False
  then have "List.find (\<lambda>s. sk_product s = p) (upd_rows (\<lambda>s. sk_product s = p')
      (\<lambda>s. s\<lparr>sk_on_hand := h, sk_reserved := r\<rparr>) (stock d)) = List.find (\<lambda>s. sk_product s = p) (stock d)"
    by (intro find_upd_rows_other) auto
  then show ?thesis using False by (simp add: find_stock_def set_stock_def)
qed

lemma stock_ids_set [simp]: "stock_ids (set_stock p h r d) = stock_ids d"
  by (simp add: stock_ids_def set_stock_def image_upd_rows)

lemma stock_ids_cong: "stock d' = stock d \<Longrightarrow> stock_ids d' = stock_ids d"
  by (simp add: stock_ids_def)

lemma res_ids_cong: "reservations d' = reservations d \<Longrightarrow> res_ids d' = res_ids d"
  by (simp add: res_ids_def)

lemma find_stock_in: "find_stock p d = Some s \<Longrightarrow> s \<in> set (stock d) \<and> sk_product s = p"
  unfolding find_stock_def by (drule find_in_set) simp

text \<open>A row of the updated table is the updated row or a row of another product.\<close>

lemma in_set_stock:
  assumes "x \<in> set (stock (set_stock p h r d))"
  shows "(sk_product x = p \<and> sk_on_hand x = h \<and> sk_reserved x = r) \<or> (x \<in> set (stock d) \<and> sk_product x \<noteq> p)"
proof -
  obtain y where y: "y \<in> set (stock d)"
      "x = (if sk_product y = p then y\<lparr>sk_on_hand := h, sk_reserved := r\<rparr> else y)"
    using assms unfolding set_stock_def by (auto simp: in_upd_rows)
  show ?thesis by (cases "sk_product y = p") (use y in simp_all)
qed

lemma keys_ok_step:
  "keys_ok d \<Longrightarrow> keys_ok (note_stock p h r t d')" if
  "map sk_product (stock d') = map sk_product (stock d)" "map rv_id (reservations d') = map rv_id (reservations d)" "iox d' = iox d"
  using that by (simp add: keys_ok_def) (simp add: note_stock_def)

lemma map_product_set_stock [simp]: "map sk_product (stock (set_stock p h r d)) = map sk_product (stock d)"
  by (simp add: set_stock_def map_upd_rows)

subsection \<open>Reserve\<close>

lemma held_qty_add_item:
  "res_held rid d \<Longrightarrow> held_qty p' (add_item rid p q d) = held_qty p' d + (if p' = p then q else 0)"
  by (simp add: held_qty_def held_items_def add_item_def res_held_ex)

lemma reserve_at_inv:
  assumes ok: "inv_ok d \<and> res_held rid d" and can: "can_reserve rid ln d"
  shows "inv_ok (reserve_at rid t ln d) \<and> res_held rid (reserve_at rid t ln d)"
proof -
  obtain p q where ln: "ln = (p, q)" by force
  obtain s where s: "find_stock p d = Some s" and q: "0 < q" and new: "(rid, p) \<notin> item_keys d"
      and range: "in_i32 (sk_reserved s + q)"
    using can by (auto simp: can_reserve_def ln)
  let ?d1 = "set_stock p (sk_on_hand s) (sk_reserved s + q) d"
  let ?d2 = "add_item rid p q ?d1"
  let ?d = "note_stock p (sk_on_hand s) (sk_reserved s + q) t ?d2"
  have run: "reserve_at rid t ln d = ?d" by (simp add: reserve_at_def ln s)
  have sd: "s \<in> set (stock d)" "sk_product s = p" using find_stock_in [OF s] by auto
  have held: "res_held rid ?d" using ok by (simp add: res_held_ex)
  have qty: "held_qty p' ?d = held_qty p' d + (if p' = p then q else 0)" for p'
  proof -
    have "held_qty p' ?d = held_qty p' (add_item rid p q d)"
      by (rule held_qty_cong) (simp_all add: add_item_def)
    then show ?thesis using ok by (simp add: held_qty_add_item)
  qed
  have keys: "keys_ok ?d" using ok by (intro keys_ok_step [of _ d]) (auto simp: inv_ok_def)
  have rid: "rid \<in> res_ids d" using ok by (force simp: res_held_ex res_ids_def dest: find_in_set)
  have "res_ids ?d = res_ids d" "stock_ids ?d = stock_ids d"
    by (simp_all add: res_ids_def stock_ids_def) (metis stock_ids_def stock_ids_set)
  then have items: "items_ok ?d"
    using ok new q rid sd
    by (auto simp: inv_ok_def items_ok_def item_keys_def add_item_def stock_ids_def)
  have "columns_ok x \<and> sk_reserved x = held_qty (sk_product x) ?d" if "x \<in> set (stock ?d)" for x
  proof -
    have "x \<in> set (stock ?d1)" using that by simp
    from in_set_stock [OF this] show ?thesis
    proof
      assume "sk_product x = p \<and> sk_on_hand x = sk_on_hand s \<and> sk_reserved x = sk_reserved s + q"
      moreover have c: "columns_ok s" and "sk_reserved s = held_qty p d" using ok sd by (auto simp: inv_ok_def)
      then have "sk_reserved s + q = held_qty p ?d" using qty [of p] by presburger
      ultimately show ?thesis using c range by (simp add: columns_ok_def)
    next
      assume "x \<in> set (stock d) \<and> sk_product x \<noteq> p"
      then show ?thesis using ok by (simp add: inv_ok_def qty)
    qed
  qed
  then show ?thesis using keys items held unfolding run inv_ok_def by blast
qed

lemma hold_inv:
  assumes ok: "inv_ok d" and new: "rid \<notin> rv_id ` set (reservations d)"
  shows "inv_ok (hold rid orderRef expires d) \<and> res_held rid (hold rid orderRef expires d)"
proof -
  let ?d = "hold rid orderRef expires d"
  have same: "res_held r ?d = res_held r d" if "r \<in> res_ids d" for r
    using that by (auto simp: res_held_ex hold_def res_ids_def find_append find_None_iff split: option.split)
  have "held_items p ?d = held_items p d" for p
    using ok same by (auto simp: held_items_def inv_ok_def items_ok_def hold_def intro!: filter_cong)
  then have "held_qty p ?d = held_qty p d" for p by (simp add: held_qty_def)
  moreover have "keys_ok ?d" using ok new by (simp add: inv_ok_def keys_ok_def hold_def)
  moreover have "items_ok ?d" using ok by (auto simp: inv_ok_def items_ok_def hold_def res_ids_def stock_ids_def)
  moreover have "res_held rid ?d"
  proof -
    have "List.find (\<lambda>v. rv_id v = rid) (reservations d) = None" using new by (auto simp: find_None_iff)
    then show ?thesis by (simp add: res_held_ex hold_def find_append)
  qed
  ultimately show ?thesis using ok by (simp add: inv_ok_def) (simp add: hold_def)
qed

lemma reserved_db_inv:
  assumes "inv_ok d" "rid \<notin> rv_id ` set (reservations d)"
    and "all_ok (can_reserve rid) (reserve_at rid t) lines (hold rid orderRef expires d)"
  shows "inv_ok (reserved_db rid orderRef expires lines t d)"
proof -
  have "inv_ok (fold (reserve_at rid t) lines (hold rid orderRef expires d)) \<and>
      res_held rid (fold (reserve_at rid t) lines (hold rid orderRef expires d))"
    by (rule fold_inv [OF assms(3), where I = "\<lambda>d. inv_ok d \<and> res_held rid d"])
       (use hold_inv [OF assms(1,2)] reserve_at_inv in blast)+
  then show ?thesis by (simp add: reserved_db_def)
qed

subsection \<open>Commit and Release\<close>

text \<open>What the loop of \<open>finish\<close> keeps: \<open>rest\<close> are the items it has still to apply.\<close>

definition unwinding :: "string \<Rightarrow> inv_db \<Rightarrow> (string \<times> int) list \<Rightarrow> inv_db \<Rightarrow> bool" where
  "unwinding rid d0 rest d \<longleftrightarrow> res_items d = res_items d0 \<and> reservations d = reservations d0 \<and>
     map sk_product (stock d) = map sk_product (stock d0) \<and> keys_ok d \<and> (\<forall>it\<in>set rest. 0 < snd it) \<and>
     (\<forall>s\<in>set (stock d). columns_ok s \<and> sk_reserved s = other_qty rid (sk_product s) d0 + items_qty (sk_product s) rest)"

definition gives_back :: "(int \<Rightarrow> int \<Rightarrow> int \<Rightarrow> int \<times> int) \<Rightarrow> bool" where
  "gives_back f \<longleftrightarrow> (\<forall>h r q. 0 < q \<longrightarrow> fst (f h r q) \<le> h \<and> snd (f h r q) = r - q)"

lemma gives_back_commit [simp]: "gives_back commit_fn" and gives_back_release [simp]: "gives_back release_fn"
  by (simp_all add: gives_back_def commit_fn_def release_fn_def)

lemma delta_at_unwinding:
  assumes can: "can_delta f it d" and loop: "unwinding rid d0 (it # rest) d"
    and f: "gives_back f" and d0: "items_ok d0"
  shows "unwinding rid d0 rest (delta_at f t it d)"
proof -
  obtain p q where it: "it = (p, q)" by force
  obtain s where s: "find_stock p d = Some s" using can by (auto simp: can_delta_def it)
  have sd: "s \<in> set (stock d)" "sk_product s = p" using find_stock_in [OF s] by auto
  have q: "0 < q" and rest: "\<forall>it\<in>set rest. 0 < snd it" using loop by (auto simp: unwinding_def it)
  obtain h r where hr: "clamped f s q = (h, r)" by force
  let ?d = "note_stock p h r t (set_stock p h r d)"
  have run: "delta_at f t it d = ?d" by (simp add: delta_at_def it s hr)
  have col: "columns_ok s" and res: "sk_reserved s = other_qty rid p d0 + q + items_qty p rest"
    using loop sd by (auto simp: unwinding_def it)
  have nonneg: "0 \<le> other_qty rid p d0 + items_qty p rest"
    using other_qty_nonneg [OF d0] items_qty_nonneg [OF rest] by (simp add: add_nonneg_nonneg)
  have r: "r = other_qty rid p d0 + items_qty p rest"
    using f q res nonneg hr by (auto simp: gives_back_def clamped_def)
  have h: "0 \<le> h" "h \<le> sk_on_hand s"
    using f q hr col by (auto simp: gives_back_def clamped_def columns_ok_def)
  have new: "columns_ok x \<and> sk_reserved x = other_qty rid (sk_product x) d0 + items_qty (sk_product x) rest"
    if "x \<in> set (stock ?d)" for x
  proof -
    have "x \<in> set (stock (set_stock p h r d))" using that by simp
    from in_set_stock [OF this] show ?thesis
    proof
      assume x: "sk_product x = p \<and> sk_on_hand x = h \<and> sk_reserved x = r"
      have "in_i32 h" "in_i32 r" using h r res q nonneg col by (auto simp: in_i32_def columns_ok_def)
      then show ?thesis using x h r by (simp add: columns_ok_def)
    next
      assume "x \<in> set (stock d) \<and> sk_product x \<noteq> p"
      then show ?thesis using loop by (auto simp: unwinding_def it)
    qed
  qed
  have "keys_ok ?d" using loop by (intro keys_ok_step [of _ d]) (auto simp: unwinding_def)
  then show ?thesis using loop new rest unfolding run unwinding_def by simp
qed

lemma held_qty_resolved:
  assumes "target \<noteq> HELD"
  shows "held_qty p (set_reservation rid target d) = other_qty rid p d"
proof -
  have "res_held r (set_reservation rid target d) \<longleftrightarrow> r \<noteq> rid \<and> res_held r d" for r
  proof (cases "r = rid")
    case True
    then show ?thesis using assms
      by (auto simp: res_held_ex set_reservation_def find_upd_rows_same)
  next
    case False
    then have "List.find (\<lambda>v. rv_id v = r) (upd_rows (\<lambda>v. rv_id v = rid) (\<lambda>v. v\<lparr>rv_status := target\<rparr>) (reservations d)) =
        List.find (\<lambda>v. rv_id v = r) (reservations d)"
      by (intro find_upd_rows_other) auto
    then show ?thesis using False by (simp add: res_held_ex set_reservation_def)
  qed
  then show ?thesis by (simp add: held_qty_def held_items_def other_qty_def) (simp add: set_reservation_def)
qed

lemma items_of_pos: "items_ok d \<Longrightarrow> \<forall>it\<in>set (items_of rid d). 0 < snd it"
  by (auto simp: items_ok_def items_of_def)

lemma finished_inv:
  assumes ok: "inv_ok d" and held: "res_held rid d" and f: "gives_back f" and target: "target \<noteq> HELD"
    and can: "all_ok (can_delta f) (delta_at f t) (items_of rid d) d"
  shows "inv_ok (finished rid target f t d)"
proof -
  let ?d = "fold (delta_at f t) (items_of rid d) d"
  have items: "items_ok d" using ok by (simp add: inv_ok_def)
  have "unwinding rid d (items_of rid d) d"
    using ok items_of_pos [OF items] held_qty_split [OF held] by (simp add: unwinding_def inv_ok_def)
  then have fin: "unwinding rid d [] ?d"
    by (rule fold_list_inv [OF can]) (use delta_at_unwinding [OF _ _ f items] in blast)
  have other: "other_qty rid p ?d = other_qty rid p d" for p
    using fin by (simp add: other_qty_def unwinding_def res_held_ex)
  have stock: "\<forall>s\<in>set (stock ?d). columns_ok s \<and> sk_reserved s = other_qty rid (sk_product s) d"
    using fin by (simp add: unwinding_def)
  have "keys_ok (set_reservation rid target ?d)"
  proof -
    have "keys_ok ?d" using fin by (simp add: unwinding_def)
    then show ?thesis by (simp add: keys_ok_def set_reservation_def map_upd_rows)
  qed
  moreover have "items_ok (set_reservation rid target ?d)"
  proof -
    have "stock_ids ?d = stock_ids d"
      using fin by (simp add: unwinding_def stock_ids_def) (metis list.set_map)
    then show ?thesis
      using items fin
      by (simp add: items_ok_def unwinding_def) (simp add: set_reservation_def res_ids_def stock_ids_def image_upd_rows)
  qed
  ultimately show ?thesis
    using stock other held_qty_resolved [OF target, of _ rid ?d]
    by (simp add: inv_ok_def finished_def) (simp add: set_reservation_def)
qed

subsection \<open>The machine\<close>

datatype inv_op =
    OpReserve string "(string \<times> int) list" int
  | OpCommit string
  | OpRelease string
  | OpAdjust string int
  | OpEnsure string int
  | OpExpired string string "(string \<times> int) list"

fun inv_prog :: "inv_op \<Rightarrow> (inv_db, unit) prog" where
  "inv_prog (OpReserve orderRef lines ttl) = discard (store_Reserve orderRef lines ttl)"
| "inv_prog (OpCommit rid) = store_Commit rid"
| "inv_prog (OpRelease rid) = store_Release rid"
| "inv_prog (OpAdjust p delta) = discard (store_AdjustStock p delta)"
| "inv_prog (OpEnsure p n) = EnsureStockRow p n"
| "inv_prog (OpExpired rid orderRef items) = emitReservationExpired rid orderRef items"

definition inv_step :: "inv_op \<Rightarrow> env \<Rightarrow> inv_db \<Rightarrow> inv_db" where
  "inv_step op = after (inv_prog op)"

lemma add_stock_inv:
  assumes "inv_ok d" "p \<notin> stock_ids d" "0 \<le> h" "in_i32 h"
  shows "inv_ok (d\<lparr>stock := stock d @ [\<lparr>sk_product = p, sk_on_hand = h, sk_reserved = 0\<rparr>]\<rparr>)" (is "inv_ok ?d")
proof -
  have qty: "held_qty p' ?d = held_qty p' d" for p' by (rule held_qty_cong) simp_all
  have "held_items p d = []"
    using assms(1,2) by (auto simp: held_items_def filter_empty_conv inv_ok_def items_ok_def)
  then have "held_qty p d = 0" by (simp add: held_qty_def)
  moreover have "items_ok ?d" using assms(1) by (auto simp: inv_ok_def items_ok_def stock_ids_def res_ids_def)
  moreover have "keys_ok ?d" using assms(1,2) by (auto simp: inv_ok_def keys_ok_def stock_ids_def)
  ultimately show ?thesis using assms qty by (auto simp: inv_ok_def columns_ok_def in_i32_def)
qed

lemma outbox_inv: "inv_ok d \<Longrightarrow> inv_ok (d\<lparr>iox := outbox_add topic key ev t (iox d)\<rparr>)"
  by (simp add: inv_ok_def keys_ok_def items_ok_def held_qty_def held_items_def res_held_ex stock_ids_def res_ids_def)

lemma note_stock_inv: "inv_ok d \<Longrightarrow> inv_ok (note_stock p h r t d)"
  unfolding note_stock_def by (rule outbox_inv)

lemma adjusted_inv:
  assumes ok: "inv_ok d" and can: "can_adjust p delta d"
  shows "inv_ok (adjusted p delta t d)"
proof (cases "find_stock p d")
  case None
  then have new: "p \<notin> stock_ids d" by (auto simp: find_stock_def stock_ids_def find_None_iff)
  have "in_i32 (max delta 0)" using can by (auto simp: can_adjust_def in_i32_def)
  then show ?thesis
    using note_stock_inv [OF add_stock_inv [OF ok new, of "max delta 0"]] None
    by (simp add: adjusted_def)
next
  case (Some s)
  let ?h = "max (sk_on_hand s + delta) 0"
  let ?d = "set_stock p ?h (sk_reserved s) d"
  have sd: "s \<in> set (stock d)" "sk_product s = p" using find_stock_in [OF Some] by auto
  have qty: "held_qty p' ?d = held_qty p' d" for p' by (rule held_qty_cong) simp_all
  have h: "0 \<le> ?h" "in_i32 ?h" using can Some by (auto simp: can_adjust_def in_i32_def)
  have col: "columns_ok s" "sk_reserved s = held_qty p d" using ok sd by (auto simp: inv_ok_def)
  have row: "columns_ok x \<and> sk_reserved x = held_qty (sk_product x) ?d" if "x \<in> set (stock ?d)" for x
    using in_set_stock [OF that] ok h col unfolding qty by (auto simp: inv_ok_def columns_ok_def)
  have "keys_ok ?d" "items_ok ?d"
    using ok by (simp_all add: inv_ok_def keys_ok_def items_ok_def res_ids_def)
  then have "inv_ok ?d" using row by (simp add: inv_ok_def)
  then show ?thesis using note_stock_inv by (simp add: adjusted_def Some)
qed

lemma inv_prog_inv: "inv_ok d \<Longrightarrow> wp (inv_prog op) (\<lambda>_ d' _. inv_ok d') d e"
proof (cases op)
  case (OpReserve orderRef lines ttl)
  assume "inv_ok d"
  then show ?thesis unfolding OpReserve by (auto intro!: wp_store_ReserveI reserved_db_inv)
next
  case (OpCommit rid)
  assume "inv_ok d"
  then show ?thesis unfolding OpCommit by (auto simp: store_Commit_def intro!: wp_finishI finished_inv)
next
  case (OpRelease rid)
  assume "inv_ok d"
  then show ?thesis unfolding OpRelease by (auto simp: store_Release_def intro!: wp_finishI finished_inv)
next
  case (OpAdjust p delta)
  assume "inv_ok d"
  then show ?thesis unfolding OpAdjust by (auto intro!: wp_store_AdjustStockI adjusted_inv)
next
  case (OpEnsure p n)
  assume "inv_ok d"
  then show ?thesis unfolding OpEnsure
    by (auto simp: EnsureStockRow_def intro!: wp_exec_chkI add_stock_inv split: if_splits simp: stock_ids_def)
next
  case (OpExpired rid orderRef items)
  assume "inv_ok d"
  then show ?thesis unfolding OpExpired
    by (auto simp: emitReservationExpired_def intro!: wp_execI outbox_inv)
qed

lemma inv_ok_start: "inv_ok empty_inv_db"
  by (simp add: inv_ok_def keys_ok_def items_ok_def empty_inv_db_def)

interpretation inventory_machine: inv_machine inv_step empty_inv_db inv_ok
  by unfold_locales (auto simp: inv_step_def intro: inv_ok_start after_wp [OF inv_prog_inv])

end
