(* ===== verification/InventoryProps.thy ===== *)
theory InventoryProps
  imports InventoryInvariants SampleEnv
begin

section \<open>Properties of the inventory service\<close>

text \<open>
  The reserved column, no overselling, one resolution per reservation, the exact effect of Reserve and
  Commit, and what a fault does to the expiry sweep.
\<close>

subsection \<open>Levels\<close>

definition level_at :: "string \<Rightarrow> inv_db \<Rightarrow> level option" where
  "level_at p d = map_option level_of (find_stock p d)"

definition taken :: "int \<Rightarrow> int \<Rightarrow> level \<Rightarrow> level" where
  "taken h r l = \<lparr>OnHand = OnHand l - h, Reserved = Reserved l - r\<rparr>"

lemma taken_taken [simp]: "taken h r (taken h' r' l) = taken (h + h') (r + r') l"
  by (simp add: taken_def)

lemma taken_0 [simp]: "taken 0 0 = id"
  by (simp add: taken_def fun_eq_iff)

lemma level_at_set_stock:
  "level_at p' (set_stock p h r d) = (if p' = p then map_option (\<lambda>_. \<lparr>OnHand = h, Reserved = r\<rparr>) (level_at p d) else level_at p' d)"
  by (simp add: level_at_def find_stock_upd option.map_comp comp_def level_of_def)

lemma level_at_note_stock [simp]: "level_at p' (note_stock p h r t d) = level_at p' d"
  by (simp add: level_at_def find_stock_def)

lemma level_at_add_item [simp]: "level_at p' (add_item rid p q d) = level_at p' d"
  by (simp add: level_at_def find_stock_def)

lemma level_at_set_reservation [simp]: "level_at p (set_reservation rid st d) = level_at p d"
  by (simp add: level_at_def find_stock_def set_reservation_def)

lemma level_at_hold [simp]: "level_at p (hold rid ref ex d) = level_at p d"
  by (simp add: level_at_def find_stock_def hold_def)

subsection \<open>No overselling\<close>

definition avail :: "inv_db \<Rightarrow> bool" where
  "avail d \<longleftrightarrow> (\<forall>s\<in>set (stock d). sk_reserved s \<le> sk_on_hand s)"

lemma avail_set_stock: "avail d \<Longrightarrow> r \<le> h \<Longrightarrow> avail (set_stock p h r d)"
  unfolding avail_def using in_set_stock by fastforce

lemma avail_cong: "stock d' = stock d \<Longrightarrow> avail d' = avail d"
  by (simp add: avail_def)

lemma avail_reserve_at: "avail d \<Longrightarrow> can_reserve rid ln d \<Longrightarrow> avail (reserve_at rid t ln d)"
  by (auto simp: reserve_at_def can_reserve_def avail_set_stock
      avail_cong [of "note_stock p h r t d'" d' for p h r t d'] avail_cong [of "add_item rid p q d'" d' for rid p q d'])

lemma avail_delta_at:
  assumes "avail d" "can_delta f it d" "f = commit_fn \<or> f = release_fn" "\<forall>s\<in>set (stock d). 0 \<le> sk_on_hand s" "0 < snd it"
  shows "avail (delta_at f t it d)"
proof -
  obtain s where s: "find_stock (fst it) d = Some s" using assms(2) by (auto simp: can_delta_def)
  have "sk_reserved s \<le> sk_on_hand s" "0 \<le> sk_on_hand s"
    using find_stock_in [OF s] assms(1,4) by (auto simp: avail_def)
  then have "snd (clamped f s (snd it)) \<le> fst (clamped f s (snd it))"
    using assms(3,5) by (auto simp: clamped_def commit_fn_def release_fn_def)
  then show ?thesis
    using avail_set_stock [OF assms(1)] s
    by (auto simp: delta_at_def avail_cong [of "note_stock p h r t d'" d' for p h r t d'] split: prod.splits)
qed

definition lowers :: "inv_op \<Rightarrow> bool" where
  "lowers op \<longleftrightarrow> (\<exists>p delta. op = OpAdjust p delta \<and> delta < 0)"

lemma avail_finished:
  assumes ok: "inv_ok d" and a: "avail d" and f: "f = commit_fn \<or> f = release_fn" and held: "res_held rid d"
    and can: "all_ok (can_delta f) (delta_at f t) (items_of rid d) d"
  shows "avail (finished rid target f t d)"
proof -
  have items: "items_ok d" using ok by (simp add: inv_ok_def)
  have g: "gives_back f" using f by auto
  have "unwinding rid d (items_of rid d) d"
    using ok items_of_pos [OF items] held_qty_split [OF held] by (simp add: unwinding_def inv_ok_def)
  then have "unwinding rid d (items_of rid d) d \<and> avail d" using a by simp
  then have "unwinding rid d [] (fold (delta_at f t) (items_of rid d) d) \<and> avail (fold (delta_at f t) (items_of rid d) d)"
  proof (rule fold_list_inv [OF can, where I = "\<lambda>rest d'. unwinding rid d rest d' \<and> avail d'"])
    fix it rest d'
    assume c: "can_delta f it d'" and i: "unwinding rid d (it # rest) d' \<and> avail d'"
    then have "\<forall>s\<in>set (stock d'). 0 \<le> sk_on_hand s" "0 < snd it" by (auto simp: unwinding_def columns_ok_def)
    then show "unwinding rid d rest (delta_at f t it d') \<and> avail (delta_at f t it d')"
      using delta_at_unwinding [OF c _ g items] avail_delta_at [OF _ c f] i by blast
  qed
  then show ?thesis by (simp add: finished_def avail_def) (simp add: set_reservation_def)
qed

lemma avail_step: "inv_ok d \<Longrightarrow> avail d \<Longrightarrow> \<not> lowers op \<Longrightarrow> wp (inv_prog op) (\<lambda>_ d' _. avail d') d e"
proof (cases op)
  case (OpReserve orderRef lines ttl)
  assume a: "avail d"
  have "avail (reserved_db rid orderRef (now e + ttl) lines (now e) d)"
    if "all_ok (can_reserve rid) (reserve_at rid (now e)) lines (hold rid orderRef (now e + ttl) d)" for rid
    unfolding reserved_db_def using that
    by (rule fold_inv [where I = avail]) (use a avail_reserve_at in \<open>auto simp: avail_def hold_def\<close>)
  then show ?thesis using a unfolding OpReserve by (auto intro!: wp_store_ReserveI)
next
  case (OpCommit rid)
  assume "inv_ok d" "avail d"
  then show ?thesis unfolding OpCommit by (auto simp: store_Commit_def intro!: wp_finishI avail_finished)
next
  case (OpRelease rid)
  assume "inv_ok d" "avail d"
  then show ?thesis unfolding OpRelease by (auto simp: store_Release_def intro!: wp_finishI avail_finished)
next
  case (OpAdjust p delta)
  assume ok: "inv_ok d" and a: "avail d" and up: "\<not> lowers op"
  have "avail (adjusted p delta t d)" for t
  proof (cases "find_stock p d")
    case None
    then show ?thesis using a by (auto simp: adjusted_def avail_def)
  next
    case (Some s)
    then have "sk_reserved s \<le> sk_on_hand s" "0 \<le> delta"
      using find_stock_in [OF Some] a up by (auto simp: avail_def OpAdjust lowers_def)
    then have "avail (set_stock p (max (sk_on_hand s + delta) 0) (sk_reserved s) d)"
      by (intro avail_set_stock [OF a]) auto
    then show ?thesis by (simp add: adjusted_def Some avail_def)
  qed
  then show ?thesis using a unfolding OpAdjust by (auto intro!: wp_store_AdjustStockI)
next
  case (OpEnsure p n)
  assume "avail d"
  then show ?thesis unfolding OpEnsure
    by (auto simp: EnsureStockRow_def avail_def intro!: wp_exec_chkI split: if_splits)
next
  case (OpExpired rid orderRef items)
  assume "avail d"
  then show ?thesis unfolding OpExpired
    by (auto simp: emitReservationExpired_def avail_def intro!: wp_execI)
qed

lemma avail_run:
  assumes "inv_ok d" "avail d" "\<forall>x\<in>set ops. \<not> lowers (fst x)"
  shows "avail (run_ops inv_step ops d)"
  using assms
proof (induction ops arbitrary: d)
  case Nil
  then show ?case by simp
next
  case (Cons x ops d)
  have "inv_ok (inv_step (fst x) (snd x) d)" "avail (inv_step (fst x) (snd x) d)"
    unfolding inv_step_def using Cons.prems inv_prog_inv avail_step by (auto intro: after_wp)
  then show ?case using Cons by simp
qed

subsection \<open>A reservation is resolved once\<close>

definition resolved :: "string \<Rightarrow> inv_db \<Rightarrow> bool" where
  "resolved rid d \<longleftrightarrow> rid \<in> res_ids d \<and> \<not> res_held rid d"

lemma fold_delta_sel: "reservations (fold (delta_at f t) its d) = reservations d"
  by (induction its arbitrary: d) (auto simp: delta_at_def split: option.splits prod.splits)

lemma resolved_keep:
  assumes "resolved rid d" and "\<And>v. List.find (\<lambda>v. rv_id v = rid) (reservations d) = Some v \<Longrightarrow>
     \<exists>v'. List.find (\<lambda>v. rv_id v = rid) (reservations d') = Some v' \<and> (rv_status v' = HELD \<longrightarrow> rv_status v = HELD)"
  shows "resolved rid d'"
proof -
  obtain v where v: "List.find (\<lambda>v. rv_id v = rid) (reservations d) = Some v"
    using assms(1) find_key_None [of rv_id rid "reservations d"] by (auto simp: resolved_def res_ids_def)
  then have "rv_status v \<noteq> HELD" using assms(1) by (auto simp: resolved_def res_held_ex)
  then show ?thesis
    using assms(2) [OF v] by (auto simp: resolved_def res_held_ex res_ids_def dest: find_in_set)
qed

lemma resolved_cong: "reservations d' = reservations d \<Longrightarrow> resolved rid d' = resolved rid d"
  by (simp add: resolved_def res_ids_def res_held_ex)

lemma resolved_hold: "resolved rid d \<Longrightarrow> resolved rid (hold rid' ref ex d)"
  by (erule resolved_keep) (auto simp: hold_def find_append)

lemma fold_reserve_sel: "reservations (fold (reserve_at rid t) lines d) = reservations d"
  by (induction lines arbitrary: d) (auto simp: reserve_at_def split: option.splits)

lemma resolved_set_reservation:
  assumes "resolved rid d" "target \<noteq> HELD"
  shows "resolved rid (set_reservation rid' target d)"
proof (cases "rid' = rid")
  case True
  then show ?thesis using assms(2)
    by (intro resolved_keep [OF assms(1)]) (auto simp: set_reservation_def find_upd_rows_same)
next
  case False
  then have "List.find (\<lambda>v. rv_id v = rid) (upd_rows (\<lambda>v. rv_id v = rid') (\<lambda>v. v\<lparr>rv_status := target\<rparr>) (reservations d)) =
      List.find (\<lambda>v. rv_id v = rid) (reservations d)"
    by (intro find_upd_rows_other) auto
  then show ?thesis by (intro resolved_keep [OF assms(1)]) (auto simp: set_reservation_def)
qed

lemma resolved_finished: "resolved rid d \<Longrightarrow> target \<noteq> HELD \<Longrightarrow> resolved rid (finished rid' target f t d)"
  unfolding finished_def
  by (intro resolved_set_reservation) (simp_all add: resolved_cong [OF fold_delta_sel])

lemma resolved_step: "resolved rid d \<Longrightarrow> resolved rid (inv_step op e d)"
  unfolding inv_step_def
proof (rule after_wp [where I = "resolved rid"])
  assume r: "resolved rid d"
  have res: "resolved rid (reserved_db rid' ref ex lines t d)" for rid' ref ex lines t
    unfolding reserved_db_def resolved_cong [OF fold_reserve_sel] by (rule resolved_hold [OF r])
  have adj: "resolved rid (adjusted p delta t d)" for p delta t
    using r by (auto simp: adjusted_def resolved_def res_ids_def res_held_ex split: option.splits)
  show "wp (inv_prog op) (\<lambda>_ d' _. resolved rid d') d e"
  proof (cases op)
    case (OpCommit rid')
    then show ?thesis using r by (auto simp: store_Commit_def intro!: wp_finishI resolved_finished)
  next
    case (OpRelease rid')
    then show ?thesis using r by (auto simp: store_Release_def intro!: wp_finishI resolved_finished)
  next
    case (OpReserve ref lines ttl)
    then show ?thesis using r res by (auto intro!: wp_store_ReserveI)
  next
    case (OpAdjust p delta)
    then show ?thesis using r adj by (auto intro!: wp_store_AdjustStockI)
  next
    case (OpEnsure p n)
    then show ?thesis using r resolved_cong
      by (auto simp: EnsureStockRow_def resolved_def res_ids_def res_held_ex intro!: wp_exec_chkI split: if_splits)
  next
    case (OpExpired rid' ref items)
    then show ?thesis using r
      by (auto simp: emitReservationExpired_def resolved_def res_ids_def res_held_ex intro!: wp_execI)
  qed
qed

lemma resolved_reach: "reach inv_step d d' \<Longrightarrow> resolved rid d \<Longrightarrow> resolved rid d'"
  by (induction rule: reach.induct) (auto intro: resolved_step)

lemma finish_resolves:
  "target \<noteq> HELD \<Longrightarrow> inv_ok d \<Longrightarrow> wp (finish rid target f) (\<lambda>r d' _. r = Inr () \<longrightarrow> \<not> res_held rid d' \<or> \<not> uuid_ok e rid) d e"
proof -
  assume t: "target \<noteq> HELD"
  have "\<not> res_held rid (finished rid target f tm d)" for tm
    using t by (auto simp: res_held_ex finished_def set_reservation_def find_upd_rows_same)
  then show ?thesis by (auto intro!: wp_finishI)
qed

lemma finish_noop: "resolved rid d \<Longrightarrow> wp (finish rid target f) (\<lambda>r d' _. d' = d \<and> (r = Inr () \<or> (\<exists>x. r = Inl x))) d e"
  by (auto simp: resolved_def intro!: wp_finishI)

subsection \<open>Exact effects\<close>

text \<open>The loop of \<open>finish\<close> takes every item exactly once; \<open>k\<close> is 1 where \<open>on_hand\<close> falls too.\<close>

lemma delta_at_level:
  assumes can: "can_delta f (p, q) d" and s: "find_stock p d = Some s" and big: "q \<le> sk_reserved s"
    and h: "0 \<le> sk_on_hand s - k * q" and f: "f = (\<lambda>h r q. (h - k * q, r - q))"
  shows "level_at p' (delta_at f t (p, q) d) =
    (if p' = p then map_option (taken (k * q) q) (level_at p d) else level_at p' d)"
proof -
  have "clamped f s q = (sk_on_hand s - k * q, sk_reserved s - q)" using h big by (simp add: clamped_def f)
  then show ?thesis using s by (simp add: delta_at_def level_at_set_stock) (simp add: level_at_def taken_def level_of_def)
qed

definition taking :: "int \<Rightarrow> (string \<times> int) list \<Rightarrow> inv_db \<Rightarrow> (string \<times> int) list \<Rightarrow> inv_db \<Rightarrow> bool" where
  "taking k its d0 rest d \<longleftrightarrow> (\<forall>p. level_at p d =
     map_option (taken (k * (items_qty p its - items_qty p rest)) (items_qty p its - items_qty p rest)) (level_at p d0))"

lemma delta_at_taking:
  assumes can: "can_delta f it d" and u: "unwinding rid d0 (it # rest) d" and tk: "taking k its d0 (it # rest) d"
    and a: "k = 0 \<or> avail d" and k: "k = 0 \<or> k = 1" and f: "f = (\<lambda>h r q. (h - k * q, r - q))" and d0: "items_ok d0"
  shows "taking k its d0 rest (delta_at f t it d)"
proof -
  obtain p q where it: "it = (p, q)" by force
  obtain s where s: "find_stock p d = Some s" using can by (auto simp: can_delta_def it)
  have sd: "s \<in> set (stock d)" "sk_product s = p" using find_stock_in [OF s] by auto
  have rest: "\<forall>it\<in>set rest. 0 < snd it" using u by (auto simp: unwinding_def)
  have "sk_reserved s = other_qty rid p d0 + q + items_qty p rest" "columns_ok s"
    using u sd by (auto simp: unwinding_def it)
  then have big: "q \<le> sk_reserved s" and "0 \<le> sk_on_hand s"
    using other_qty_nonneg [OF d0, of rid p] items_qty_nonneg [OF rest, of p] by (auto simp: columns_ok_def)
  moreover have "k = 0 \<or> sk_reserved s \<le> sk_on_hand s" using a sd by (auto simp: avail_def)
  ultimately have h: "0 \<le> sk_on_hand s - k * q" using k by auto
  have lv: "level_at p' (delta_at f t (p, q) d) =
      (if p' = p then map_option (taken (k * q) q) (level_at p d) else level_at p' d)" for p'
    by (rule delta_at_level [OF can [unfolded it] s big h f])
  have before: "level_at p' d = map_option (taken
      (k * (items_qty p' its - ((if p = p' then q else 0) + items_qty p' rest)))
      (items_qty p' its - ((if p = p' then q else 0) + items_qty p' rest))) (level_at p' d0)" for p'
    using tk unfolding taking_def it items_qty_simps fst_conv snd_conv by blast
  have "level_at p' (delta_at f t (p, q) d) = map_option
      (taken (k * (items_qty p' its - items_qty p' rest)) (items_qty p' its - items_qty p' rest)) (level_at p' d0)" for p'
    unfolding lv using before [of p'] before [of p]
    by (cases "p' = p"; cases "level_at p' d0") (auto simp: algebra_simps)
  then show ?thesis by (simp add: taking_def it)
qed

lemma finished_level:
  assumes ok: "inv_ok d" and a: "k = 0 \<or> avail d" and k: "k = 0 \<or> k = 1" and f: "f = (\<lambda>h r q. (h - k * q, r - q))"
    and fs: "f = commit_fn \<or> f = release_fn"
    and held: "res_held rid d" and can: "all_ok (can_delta f) (delta_at f t) (items_of rid d) d"
  shows "level_at p (finished rid target f t d) =
    map_option (taken (k * items_qty p (items_of rid d)) (items_qty p (items_of rid d))) (level_at p d)"
proof -
  have items: "items_ok d" using ok by (simp add: inv_ok_def)
  have g: "gives_back f" using fs by auto
  let ?I = "\<lambda>rest d'. unwinding rid d rest d' \<and> (k = 0 \<or> avail d') \<and> taking k (items_of rid d) d rest d'"
  have "taking k (items_of rid d) d (items_of rid d) d"
    by (simp add: taking_def option.map_id)
  then have "?I (items_of rid d) d"
    using ok a items_of_pos [OF items] held_qty_split [OF held] by (simp add: unwinding_def inv_ok_def)
  then have "?I [] (fold (delta_at f t) (items_of rid d) d)"
  proof (rule fold_list_inv [OF can, where I = ?I])
    fix it rest d'
    assume c: "can_delta f it d'" and i: "?I (it # rest) d'"
    then have pos: "\<forall>s\<in>set (stock d'). 0 \<le> sk_on_hand s" "0 < snd it" by (auto simp: unwinding_def columns_ok_def)
    show "?I rest (delta_at f t it d')"
      using delta_at_unwinding [OF c _ g items] avail_delta_at [OF _ c fs pos] delta_at_taking [OF c _ _ _ k f items] i
      by blast
  qed
  then show ?thesis by (simp add: finished_def taking_def)
qed

text \<open>The loop of \<open>Reserve\<close>: every line finds its quantity available and adds it once.\<close>

lemma reserve_at_level:
  "level_at p' (reserve_at rid t (p, q) d) =
     (if p' = p then map_option (taken 0 (- q)) (level_at p d) else level_at p' d)"
  by (auto simp: reserve_at_def level_at_set_stock split: option.splits)
     (auto simp: level_at_def taken_def level_of_def)

lemma item_keys_reserve_at: "find_stock p d \<noteq> None \<Longrightarrow> item_keys (reserve_at rid t (p, q) d) = insert (rid, p) (item_keys d)"
  by (auto simp: reserve_at_def item_keys_def add_item_def)

lemma reserved_levels:
  assumes "all_ok (can_reserve rid) (reserve_at rid t) lines d"
  shows "distinct (map fst lines) \<and> (\<forall>(p, q)\<in>set lines. (rid, p) \<notin> item_keys d \<and> 0 < q \<and>
      (\<exists>l. level_at p d = Some l \<and> q \<le> Available l \<and>
         level_at p (fold (reserve_at rid t) lines d) = Some (taken 0 (- q) l))) \<and>
    (\<forall>p. p \<notin> fst ` set lines \<longrightarrow> level_at p (fold (reserve_at rid t) lines d) = level_at p d)"
  using assms
proof (induction lines arbitrary: d)
  case Nil
  then show ?case by simp
next
  case (Cons ln lines d)
  obtain p q where ln: "ln = (p, q)" by force
  let ?d = "reserve_at rid t ln d"
  obtain s where s: "find_stock p d = Some s" "q \<le> sk_on_hand s - sk_reserved s" "0 < q" "(rid, p) \<notin> item_keys d"
    using Cons.prems by (auto simp: can_reserve_def ln)
  have IH: "distinct (map fst lines) \<and> (\<forall>(p, q)\<in>set lines. (rid, p) \<notin> item_keys ?d \<and> 0 < q \<and>
      (\<exists>l. level_at p ?d = Some l \<and> q \<le> Available l \<and>
         level_at p (fold (reserve_at rid t) lines ?d) = Some (taken 0 (- q) l))) \<and>
    (\<forall>p. p \<notin> fst ` set lines \<longrightarrow> level_at p (fold (reserve_at rid t) lines ?d) = level_at p ?d)"
    using Cons.prems by (intro Cons.IH) simp
  have keys: "item_keys ?d = insert (rid, p) (item_keys d)" using s(1) by (simp add: ln item_keys_reserve_at)
  have new: "p \<notin> fst ` set lines" using IH keys by auto
  have lv: "level_at p' ?d = (if p' = p then map_option (taken 0 (- q)) (level_at p d) else level_at p' d)" for p'
    unfolding ln by (rule reserve_at_level)
  have here: "level_at p d = Some (level_of s)" "q \<le> Available (level_of s)"
    using s by (simp_all add: level_at_def Available_def level_of_def)
  have others: "\<forall>(p', q')\<in>set lines. (rid, p') \<notin> item_keys d \<and> 0 < q' \<and>
      (\<exists>l. level_at p' d = Some l \<and> q' \<le> Available l \<and>
         level_at p' (fold (reserve_at rid t) lines ?d) = Some (taken 0 (- q') l))"
    using IH new keys lv by (auto simp: image_iff split: if_splits)
  have unchanged: "p' \<notin> fst ` set (ln # lines) \<longrightarrow> level_at p' (fold (reserve_at rid t) (ln # lines) d) = level_at p' d" for p'
    using IH lv by (auto simp: ln)
  have "level_at p (fold (reserve_at rid t) lines ?d) = Some (taken 0 (- q) (level_of s))"
    using IH new lv here by simp
  then show ?case using IH here s others new unchanged by (auto simp: ln)
qed

subsection \<open>The properties\<close>

text \<open>A run: stock for two products, a checkout that is committed, one that is released.\<close>

definition stock_ops :: "(inv_op \<times> env) list" where
  "stock_ops = [(OpAdjust ''p1'' 10, env_at 1), (OpAdjust ''p2'' 5, env_at 2),
     (OpReserve ''o1'' [(''p1'', 3), (''p2'', 2)] 900, env_at 3),
     (OpReserve ''o2'' [(''p1'', 4)] 900, (env_at 4)\<lparr>drawn := 1\<rparr>)]"

definition stock_held :: inv_db where
  "stock_held = run_ops inv_step stock_ops empty_inv_db"

lemma stock_held_reach: "reach inv_step empty_inv_db stock_held"
  unfolding stock_held_def by (rule reach_run_ops [OF reach.init])

lemma stock_held_rows: "map (\<lambda>s. (sk_product s, sk_on_hand s, sk_reserved s)) (stock stock_held) = [(''p1'', 10, 7), (''p2'', 5, 2)]"
  by code_simp

text \<open>C16: in every state the inventory store reaches, by any interleaving of its transactions and under
  any faults, the reserved column of a product is the sum of its items in HELD reservations, and both
  columns are non-negative int32 values.\<close>

theorem reserved_is_held:
  assumes "reach inv_step empty_inv_db d" "s \<in> set (stock d)"
  shows "sk_reserved s = held_qty (sk_product s) d \<and> 0 \<le> sk_on_hand s \<and> 0 \<le> sk_reserved s \<and>
     in_i32 (sk_on_hand s) \<and> in_i32 (sk_reserved s)"
proof -
  have ok: "inv_ok d" by (rule inventory_machine.reach_inv [OF assms(1)])
  then have "0 \<le> held_qty (sk_product s) d" by (intro held_qty_nonneg) (simp add: inv_ok_def)
  then show ?thesis using ok assms(2) by (auto simp: inv_ok_def columns_ok_def)
qed

theorem reserved_is_held_witness:
  "sk_reserved (hd (stock stock_held)) = held_qty (sk_product (hd (stock stock_held))) stock_held \<and>
   sk_reserved (hd (stock stock_held)) = 7"
proof -
  have "hd (stock stock_held) \<in> set (stock stock_held)" "sk_reserved (hd (stock stock_held)) = 7"
    using stock_held_rows by (cases "stock stock_held"; force)+
  then show ?thesis using reserved_is_held [OF stock_held_reach] by blast
qed

text \<open>C4: as long as no adjustment lowers a stock level, no product is ever oversold: what HELD
  reservations claim never exceeds what is on hand, over any interleaving and under any faults.\<close>

theorem never_oversold:
  assumes "\<forall>x\<in>set ops. \<not> lowers (fst x)" "s \<in> set (stock (run_ops inv_step ops empty_inv_db))"
  shows "held_qty (sk_product s) (run_ops inv_step ops empty_inv_db) \<le> sk_on_hand s"
proof -
  have "avail (run_ops inv_step ops empty_inv_db)"
    by (rule avail_run [OF inv_ok_start _ assms(1)]) (simp add: avail_def empty_inv_db_def)
  moreover have "inv_ok (run_ops inv_step ops empty_inv_db)"
    by (rule inventory_machine.run_inv [OF inv_ok_start])
  ultimately show ?thesis using assms(2) by (auto simp: avail_def inv_ok_def)
qed

theorem never_oversold_witness:
  "held_qty (sk_product (hd (stock stock_held))) stock_held \<le> sk_on_hand (hd (stock stock_held))"
proof -
  have "hd (stock stock_held) \<in> set (stock stock_held)"
    using stock_held_rows by (cases "stock stock_held") force+
  moreover have "\<forall>x\<in>set stock_ops. \<not> lowers (fst x)" by (simp add: stock_ops_def lowers_def)
  ultimately show ?thesis using never_oversold [of stock_ops] unfolding stock_held_def by blast
qed

text \<open>C17: a reservation is resolved once.  After a Commit or a Release that answered without an error,
  and after any further operations of any clients, another Commit or Release of the same reservation
  changes nothing.\<close>

theorem resolved_once:
  assumes "reach inv_step empty_inv_db d" "rid \<in> res_ids d" "uuid_ok e rid"
    and "store_Commit rid d e = (Inr (), d1, e1) \<or> store_Release rid d e = (Inr (), d1, e1)"
    and "reach inv_step d1 d2"
    and "store_Commit rid d2 e2 = (r, d3, e3) \<or> store_Release rid d2 e2 = (r, d3, e3)"
  shows "d3 = d2"
proof -
  have ok: "inv_ok d" by (rule inventory_machine.reach_inv [OF assms(1)])
  have first: "\<not> res_held rid d1 \<and> rid \<in> res_ids d1"
  proof -
    have "rid \<in> res_ids (finished rid target f t d)" if "res_held rid d" for target f t
      using assms(2) by (simp add: finished_def res_ids_def set_reservation_def fold_delta_sel image_upd_rows)
    then have "wp (finish rid target f) (\<lambda>_ d' _. rid \<in> res_ids d') d e" for target f
      using assms(2) by (auto intro!: wp_finishI)
    then show ?thesis
      using assms(3,4) finish_resolves [OF _ ok, of COMMITTED_RES rid commit_fn e]
        finish_resolves [OF _ ok, of RELEASED rid release_fn e]
      unfolding store_Commit_def store_Release_def by (auto dest: wpD)
  qed
  then have "resolved rid d2" by (intro resolved_reach [OF assms(5)]) (simp add: resolved_def)
  then show ?thesis
    using assms(6) wpD [OF finish_noop] unfolding store_Commit_def store_Release_def by metis
qed

definition stock_committed :: "unit res \<times> inv_db \<times> env" where
  "stock_committed = store_Commit ''id'' stock_held (env_at 9)"

lemma stock_committed_run:
  "fst stock_committed = Inr ()" "''id'' \<in> res_ids stock_held" "uuid_ok (env_at 9) ''id''" "res_held ''id'' stock_held"
  by code_simp+

theorem resolved_once_witness:
  "fst (snd (store_Release ''id'' (fst (snd stock_committed)) (env_at 10))) = fst (snd stock_committed)"
proof -
  obtain d1 e1 where run: "store_Commit ''id'' stock_held (env_at 9) = (Inr (), d1, e1)"
    using stock_committed_run(1) unfolding stock_committed_def by (metis prod.collapse)
  obtain r d3 e3 where again: "store_Release ''id'' d1 (env_at 10) = (r, d3, e3)" by (metis prod.collapse)
  have "d3 = d1"
    by (rule resolved_once [OF stock_held_reach stock_committed_run(2,3) disjI1 [OF run] reach.init disjI2 [OF again]])
  then show ?thesis using run again by (simp add: stock_committed_def)
qed

text \<open>A committed reservation takes its quantities from both columns of each of its products (when no
  adjustment has pushed a level below what is reserved), a released one from \<open>reserved\<close> only, every other
  level stays, and an error or a reservation that is not HELD leaves all levels as they were.\<close>

theorem finish_levels:
  assumes "inv_ok d" "target = COMMITTED_RES \<and> f = commit_fn \<and> avail d \<or> target = RELEASED \<and> f = release_fn"
    and "finish rid target f d e = (r, d', e')"
  shows "d' = d \<or> (\<forall>p. level_at p d' = map_option
     (taken (if target = COMMITTED_RES then items_qty p (items_of rid d) else 0) (items_qty p (items_of rid d))) (level_at p d))"
proof -
  define k :: int where "k = (if target = COMMITTED_RES then 1 else 0)"
  have f: "f = (\<lambda>h r q. (h - k * q, r - q))" "f = commit_fn \<or> f = release_fn" "k = 0 \<or> k = 1" "k = 0 \<or> avail d"
    using assms(2) by (auto simp: k_def commit_fn_def release_fn_def fun_eq_iff)
  have "wp (finish rid target f) (\<lambda>r d' _. d' = d \<or> (\<forall>p. level_at p d' = map_option
     (taken (k * items_qty p (items_of rid d)) (items_qty p (items_of rid d))) (level_at p d))) d e"
    by (auto intro!: wp_finishI finished_level [OF assms(1) f(4,3,1,2)])
  from wpD [OF this assms(3)] show ?thesis by (auto simp: k_def)
qed

theorem finish_levels_witness:
  "fst (snd stock_committed) = stock_held \<or> (\<forall>p. level_at p (fst (snd stock_committed)) = map_option
     (taken (items_qty p (items_of ''id'' stock_held)) (items_qty p (items_of ''id'' stock_held))) (level_at p stock_held))"
proof -
  have "avail stock_held" by code_simp
  moreover have "inv_ok stock_held" by (rule inventory_machine.reach_inv [OF stock_held_reach])
  moreover obtain r d' e' where "store_Commit ''id'' stock_held (env_at 9) = (r, d', e')" by (metis prod.collapse)
  ultimately show ?thesis
    using finish_levels [of stock_held COMMITTED_RES commit_fn "''id''" "env_at 9" r d' e']
    by (simp add: stock_committed_def store_Commit_def)
qed

text \<open>C18: \<open>Reserve\<close> is all or nothing.  It leaves every table as it was, or it found every line's
  quantity available, holds exactly that much more of each product and leaves every other product alone.\<close>

theorem reserve_all_or_nothing:
  assumes "store_Reserve orderRef lines ttl d e = (r, d', e')"
  shows "d' = d \<or>
    (distinct (map fst lines) \<and> (\<forall>(p, q)\<in>set lines. 0 < q \<and> (\<exists>l. level_at p d = Some l \<and> q \<le> Available l \<and>
         level_at p d' = Some (l\<lparr>Reserved := Reserved l + q\<rparr>))) \<and>
     (\<forall>p. p \<notin> fst ` set lines \<longrightarrow> level_at p d' = level_at p d))"
proof -
  have up: "taken 0 (- q) l = l\<lparr>Reserved := Reserved l + q\<rparr>" for q l by (simp add: taken_def)
  have "wp (store_Reserve orderRef lines ttl) (\<lambda>_ d' _. d' = d \<or>
    (distinct (map fst lines) \<and> (\<forall>(p, q)\<in>set lines. 0 < q \<and> (\<exists>l. level_at p d = Some l \<and> q \<le> Available l \<and>
         level_at p d' = Some (l\<lparr>Reserved := Reserved l + q\<rparr>))) \<and>
     (\<forall>p. p \<notin> fst ` set lines \<longrightarrow> level_at p d' = level_at p d))) d e"
  proof (rule wp_store_ReserveI)
    fix rid and r :: "(string \<times> int) res" and n fs
    assume ok: "all_ok (can_reserve rid) (reserve_at rid (now e)) lines (hold rid orderRef (now e + ttl) d)"
    from reserved_levels [OF ok]
    show "reserved_db rid orderRef (now e + ttl) lines (now e) d = d \<or>
      (distinct (map fst lines) \<and> (\<forall>(p, q)\<in>set lines. 0 < q \<and> (\<exists>l. level_at p d = Some l \<and> q \<le> Available l \<and>
         level_at p (reserved_db rid orderRef (now e + ttl) lines (now e) d) = Some (l\<lparr>Reserved := Reserved l + q\<rparr>))) \<and>
       (\<forall>p. p \<notin> fst ` set lines \<longrightarrow> level_at p (reserved_db rid orderRef (now e + ttl) lines (now e) d) = level_at p d))"
      unfolding reserved_db_def [symmetric] level_at_hold up by blast
  qed simp
  from wpD [OF this assms] show ?thesis .
qed

theorem reserve_all_or_nothing_witness:
  "fst (snd (store_Reserve ''o3'' [(''p1'', 2), (''p2'', 4)] 60 stock_held (env_at 9))) = stock_held"
proof -
  obtain r d' e' where run: "store_Reserve ''o3'' [(''p1'', 2), (''p2'', 4)] 60 stock_held (env_at 9) = (r, d', e')"
    by (metis prod.collapse)
  have "level_at ''p2'' stock_held = Some \<lparr>OnHand = 5, Reserved = 2\<rparr>" by code_simp
  then show ?thesis using reserve_all_or_nothing [OF run] run by (auto simp: Available_def)
qed

subsection \<open>The sweep can lose the event that cancels the order\<close>

definition expired_events :: "inv_db \<Rightarrow> string list" where
  "expired_events d = List.map_filter (\<lambda>ev. case ev of ReservationExpired rid _ _ _ \<Rightarrow> Some rid | _ \<Rightarrow> None) (events (iox d))"

text \<open>The sweep at a time both reservations are due; the insert of the first event is lost.\<close>

definition sweep_env :: "fault list \<Rightarrow> env" where
  "sweep_env fs = (env_at 1000)\<lparr>faults := fs\<rparr>"

definition swept_lost :: inv_db where
  "swept_lost = fst (snd (ExpireDue 100 stock_held (sweep_env (replicate 13 Fine @ [Lost]))))"

text \<open>The release and the reservation_expired event of \<open>ExpireDue\<close> are not written in one
  transaction, against the promise of the package comment.  When the connection breaks between them the
  reservation is released, no event tells the order service, and no later sweep emits it, because the
  reservation is no longer HELD: of two due reservations only the other one is ever announced.\<close>

theorem expiry_event_lost:
  "\<not> res_held ''id'' swept_lost \<and> expired_events swept_lost = [] \<and>
   expired_events (fst (snd (ExpireDue 100 swept_lost (sweep_env [])))) = [''idx''] \<and>
   expired_events (fst (snd (ExpireDue 100 stock_held (sweep_env [])))) = [''id'', ''idx'']"
  by code_simp

end
