(* ===== verification/Payment.thy ===== *)
theory Payment
  imports Outbox Money
begin

section \<open>The payment service (services/payment)\<close>

text \<open>
  The tables \<open>payments\<close> and \<open>refunds\<close>, the store of internal/store/store.go and the handlers of
  internal/grpcsvc/server.go.  \<open>Transition\<close> and \<open>Refund\<close> lock the payment row, so each transaction is
  one step.  Statuses are the CHECK-constrained strings of the table; a payment id that is not a UUID
  makes PostgreSQL refuse the query.
\<close>

subsection \<open>Tables\<close>

datatype pay_status = REQUIRES_CONFIRMATION | AUTHORIZED | FAILED | REFUNDED | VOIDED

record payment =
  p_ID :: string
  p_OrderID :: string
  p_AmountCents :: int64
  p_Currency :: string
  p_Status :: pay_status
  p_MethodToken :: string
  p_ClientSecret :: string
  p_CreatedAt :: int
  p_RefundedCents :: int64

record refund_row =
  rf_payment :: string
  rf_amount :: int64
  rf_key :: string

datatype pay_event =
    PaymentAuthorized string string wire_money int
  | PaymentFailed string string string int
  | PaymentRefunded string string wire_money int

record pay_db =
  payments :: "payment list"
  refunds :: "refund_row list"
  pox :: "pay_event outbox"

definition empty_pay_db :: pay_db where
  "empty_pay_db = \<lparr>payments = [], refunds = [], pox = empty_outbox\<rparr>"

subsection \<open>Store\<close>

definition errNoPayment :: go_err where
  "errNoPayment = errs_New KindNotFound ''PAYMENT_NOT_FOUND''"

definition invalidUUID :: go_err where "invalidUUID = PgError ''22P02''"

definition find_payment :: "string \<Rightarrow> pay_db \<Rightarrow> payment option" where
  "find_payment pid d = List.find (\<lambda>p. p_ID p = pid) (payments d)"

definition select_payment :: "string \<Rightarrow> (pay_db, payment) prog" where
  "select_payment pid = bnd (asks uuid_ok) (\<lambda>ok.
     if ok pid then query_row (find_payment pid) else stmt (fail invalidUUID))"

definition load_payment :: "string \<Rightarrow> (pay_db, payment) prog" where
  "load_payment pid = map_err (\<lambda>err. if err = NoRows then errNoPayment else wrap err) (select_payment pid)"

definition loadForUpdate :: "string \<Rightarrow> (pay_db, payment) prog" where
  "loadForUpdate pid = load_payment pid"

definition pay_Get :: "string \<Rightarrow> (pay_db, payment) prog" where
  "pay_Get pid = load_payment pid"

definition pay_Create :: "string \<Rightarrow> int64 \<Rightarrow> string \<Rightarrow> string \<Rightarrow> (pay_db, payment) prog" where
  "pay_Create orderID amountCents cur methodToken =
     bnd new_uuid (\<lambda>secret.
     bnd new_uuid (\<lambda>pid.
     map_err wrap (exec_chk (\<lambda>t d.
       if pid \<in> p_ID ` set (payments d) then Inl uniqueViolation
       else let p = \<lparr>p_ID = pid, p_OrderID = orderID, p_AmountCents = amountCents, p_Currency = cur,
              p_Status = REQUIRES_CONFIRMATION, p_MethodToken = methodToken, p_ClientSecret = ''pi_'' @ secret,
              p_CreatedAt = t, p_RefundedCents = 0\<rparr>
            in Inr (p, d\<lparr>payments := payments d @ [p]\<rparr>)))))"

definition canTransition :: "pay_status \<Rightarrow> pay_status \<Rightarrow> bool" where
  "canTransition frm to = (case frm of
       REQUIRES_CONFIRMATION \<Rightarrow> to = AUTHORIZED \<or> to = FAILED \<or> to = VOIDED
     | AUTHORIZED \<Rightarrow> to = VOIDED
     | _ \<Rightarrow> False)"

definition pay_money :: "string \<Rightarrow> int64 \<Rightarrow> wire_money" where
  "pay_money cur c = wire_of \<lparr>currency = cur, cents = c\<rparr>"

definition eventFor :: "payment \<Rightarrow> pay_status \<Rightarrow> string \<Rightarrow> int \<Rightarrow> (string \<times> pay_event) option" where
  "eventFor p to reason t = (case to of
       AUTHORIZED \<Rightarrow> Some (''commerce.payment.authorized'',
         PaymentAuthorized (p_ID p) (p_OrderID p) (pay_money (p_Currency p) (p_AmountCents p)) t)
     | FAILED \<Rightarrow> Some (''commerce.payment.failed'', PaymentFailed (p_ID p) (p_OrderID p) reason t)
     | _ \<Rightarrow> None)"

definition pay_emit :: "string \<Rightarrow> string \<Rightarrow> pay_event \<Rightarrow> (pay_db, unit) prog" where
  "pay_emit topic key ev = map_err wrap (exec (\<lambda>t d. d\<lparr>pox := outbox_add topic key ev t (pox d)\<rparr>))"

definition set_payment :: "string \<Rightarrow> (payment \<Rightarrow> payment) \<Rightarrow> pay_db \<Rightarrow> pay_db" where
  "set_payment pid f d = d\<lparr>payments := upd_rows (\<lambda>p. p_ID p = pid) f (payments d)\<rparr>"

definition bad_pay_transition :: go_err where
  "bad_pay_transition = errs_New KindFailedPrecondition ''BAD_TRANSITION''"

definition Transition :: "string \<Rightarrow> pay_status \<Rightarrow> string \<Rightarrow> (pay_db, payment) prog" where
  "Transition pid to reason = in_tx (
     bnd (loadForUpdate pid) (\<lambda>p.
     if p_Status p = to then ret (Abort p)
     else if \<not> canTransition (p_Status p) to then fail bad_pay_transition
     else bnd (map_err wrap (exec (\<lambda>_. set_payment pid (\<lambda>x. x\<lparr>p_Status := to\<rparr>)))) (\<lambda>_.
          let p' = p\<lparr>p_Status := to\<rparr> in
          bnd (asks now) (\<lambda>t.
          bnd (case eventFor p' to reason t of
                 None \<Rightarrow> ret ()
               | Some (topic, ev) \<Rightarrow> pay_emit topic (p_OrderID p') ev) (\<lambda>_.
          ret (Commit p'))))))"

definition refundAlreadyApplied :: "string \<Rightarrow> string \<Rightarrow> (pay_db, bool) prog" where
  "refundAlreadyApplied paymentID idemKey =
     (if idemKey = '''' then ret False
      else map_err wrap (query (\<lambda>_ d. \<exists>r\<in>set (refunds d). rf_payment r = paymentID \<and> rf_key r = idemKey)))"

text \<open>\<open>resolveRefundAmount\<close>: the amount to refund and whether nothing is left.\<close>

definition resolveRefundAmount :: "payment \<Rightarrow> int64 \<Rightarrow> (int64 \<times> bool) res" where
  "resolveRefundAmount p requested =
     (if p_Status p \<noteq> AUTHORIZED \<and> p_Status p \<noteq> REFUNDED
      then Inl (errs_New KindFailedPrecondition ''NOT_REFUNDABLE'')
      else let remaining = i64 (p_AmountCents p - p_RefundedCents p);
               requested' = (if requested \<le> 0 then remaining else requested)
           in if requested' \<le> 0 then Inr (0, True)
              else if requested' > remaining then Inl (errs_New KindFailedPrecondition ''REFUND_EXCEEDS_BALANCE'')
              else Inr (requested', False))"

definition ins_refund :: "string \<Rightarrow> int64 \<Rightarrow> string \<Rightarrow> (pay_db, unit) prog" where
  "ins_refund pid amount idemKey = map_err wrap (exec_chk (\<lambda>_ d.
     if amount \<le> 0 then Inl checkViolation
     else if idemKey \<noteq> '''' \<and> (\<exists>r\<in>set (refunds d). rf_payment r = pid \<and> rf_key r = idemKey) then Inl uniqueViolation
     else Inr ((), d\<lparr>refunds := refunds d @ [\<lparr>rf_payment = pid, rf_amount = amount, rf_key = idemKey\<rparr>]\<rparr>)))"

definition pay_Refund :: "string \<Rightarrow> int64 \<Rightarrow> string \<Rightarrow> (pay_db, payment) prog" where
  "pay_Refund pid amountCents idemKey = in_tx (
     bnd (loadForUpdate pid) (\<lambda>p.
     bnd (refundAlreadyApplied (p_ID p) idemKey) (\<lambda>applied.
     if applied then ret (Abort p)
     else bnd (lift_res (resolveRefundAmount p amountCents)) (\<lambda>(amount, settled).
       if settled then ret (Abort p)
       else bnd (ins_refund (p_ID p) amount idemKey) (\<lambda>_.
            let refunded = i64 (p_RefundedCents p + amount);
                st = (if refunded \<ge> p_AmountCents p then REFUNDED else p_Status p);
                p' = p\<lparr>p_RefundedCents := refunded, p_Status := st\<rparr> in
            bnd (map_err wrap (exec (\<lambda>_. set_payment (p_ID p)
                   (\<lambda>x. x\<lparr>p_RefundedCents := refunded, p_Status := st\<rparr>)))) (\<lambda>_.
            bnd (asks now) (\<lambda>t.
            bnd (pay_emit ''commerce.payment.refunded'' (p_OrderID p)
                   (PaymentRefunded (p_ID p) (p_OrderID p) (pay_money (p_Currency p) amount) t)) (\<lambda>_.
            ret (Commit p')))))))))"

subsection \<open>Handlers\<close>

record payment_msg =
  pm_payment_id :: string
  pm_order_id :: string
  pm_amount :: wire_money
  pm_status :: pay_status
  pm_refunded :: "wire_money option"
  pm_client_secret :: string

definition pay_toProto :: "payment \<Rightarrow> bool \<Rightarrow> payment_msg" where
  "pay_toProto p withSecret = \<lparr>pm_payment_id = p_ID p, pm_order_id = p_OrderID p,
     pm_amount = pay_money (p_Currency p) (p_AmountCents p), pm_status = p_Status p,
     pm_refunded = (if p_RefundedCents p > 0 then Some (pay_money (p_Currency p) (p_RefundedCents p)) else None),
     pm_client_secret = (if withSecret then p_ClientSecret p else '''')\<rparr>"

text \<open>The amount of a request in cents; a missing message reads as zero.\<close>

definition request_cents :: "wire_money option \<Rightarrow> int64" where
  "request_cents m = (case m of None \<Rightarrow> 0 | Some w \<Rightarrow> i64 (i64 (w_units w * 100) + w_nanos w sdiv 10000000))"

definition request_currency :: "wire_money option \<Rightarrow> string" where
  "request_currency m = (case m of None \<Rightarrow> '''' | Some w \<Rightarrow> w_currency w)"

definition CreatePayment :: "string \<Rightarrow> wire_money option \<Rightarrow> string \<Rightarrow> (pay_db, payment_msg) prog" where
  "CreatePayment orderID amt methodToken =
     (if orderID = '''' then fail (errs_New KindInvalidArgument ''ORDER_ID_REQUIRED'')
      else if request_cents amt \<le> 0 then fail (errs_New KindInvalidArgument ''BAD_AMOUNT'')
      else bnd (pay_Create orderID (request_cents amt) (request_currency amt) methodToken) (\<lambda>p.
           ret (pay_toProto p True)))"

definition declineToken :: string where "declineToken = ''pm_card_declined''"

datatype outcome = OUTCOME_UNSPECIFIED | OUTCOME_AUTHORIZE | OUTCOME_FAIL

definition ConfirmPayment :: "string \<Rightarrow> outcome \<Rightarrow> (pay_db, payment_msg) prog" where
  "ConfirmPayment pid oc =
     bnd (pay_Get pid) (\<lambda>cur.
     bnd (case oc of
            OUTCOME_FAIL \<Rightarrow> ret (FAILED, ''SHOPPER_ABANDONED'')
          | OUTCOME_AUTHORIZE \<Rightarrow> ret (if p_MethodToken cur = declineToken then (FAILED, ''CARD_DECLINED'')
                                       else (AUTHORIZED, ''''))
          | OUTCOME_UNSPECIFIED \<Rightarrow> fail (errs_New KindInvalidArgument ''OUTCOME_REQUIRED'')) (\<lambda>(to, reason).
     bnd (Transition pid to reason) (\<lambda>p.
     ret (pay_toProto p False))))"

definition RefundPayment :: "string \<Rightarrow> wire_money option \<Rightarrow> string \<Rightarrow> (pay_db, payment_msg) prog" where
  "RefundPayment pid amt idemKey =
     (if request_cents amt < 0 then fail (errs_New KindInvalidArgument ''BAD_AMOUNT'')
      else bnd (pay_Refund pid (request_cents amt) idemKey) (\<lambda>p. ret (pay_toProto p False)))"

definition VoidPayment :: "string \<Rightarrow> (pay_db, payment_msg) prog" where
  "VoidPayment pid = bnd (Transition pid VOIDED '''') (\<lambda>p. ret (pay_toProto p False))"

end
