(* ===== verification/PaymentSpec.thy ===== *)
theory PaymentSpec
  imports Payment
begin

section \<open>What the payment transactions do, and the payment invariant\<close>

text \<open>
  The transactions as functions on the tables, and the invariant of a payment row: what is refunded
  is the sum of its refund rows and never more than the amount, REFUNDED means fully refunded, and the
  outbox holds exactly one event per outcome and per refund.
\<close>

subsection \<open>Transactions as functions\<close>

lemma wp_load_paymentI:
  assumes err: "\<And>x fs. Q (Inl x) d (e\<lparr>faults := fs\<rparr>)"
    and ok: "\<And>p fs. uuid_ok e pid \<Longrightarrow> find_payment pid d = Some p \<Longrightarrow> Q (Inr p) d (e\<lparr>faults := fs\<rparr>)"
  shows "wp (load_payment pid) Q d e"
  unfolding load_payment_def select_payment_def using assms
  by (auto intro!: wp_query_rowI wp_stmtI)

lemma find_payment_in: "find_payment pid d = Some p \<Longrightarrow> p \<in> set (payments d) \<and> p_ID p = pid"
  unfolding find_payment_def by (drule find_in_set) simp

definition created :: "payment \<Rightarrow> pay_db \<Rightarrow> pay_db" where
  "created p d = d\<lparr>payments := payments d @ [p]\<rparr>"

definition fresh_payment :: "payment \<Rightarrow> pay_db \<Rightarrow> bool" where
  "fresh_payment p d \<longleftrightarrow> p_ID p \<notin> p_ID ` set (payments d) \<and> p_Status p = REQUIRES_CONFIRMATION \<and> p_RefundedCents p = 0"

lemma wp_pay_CreateI:
  assumes err: "\<And>x n fs. Q (Inl x) d (e\<lparr>drawn := n, faults := fs\<rparr>)"
    and ok: "\<And>p r n fs. fresh_payment p d \<Longrightarrow> p_AmountCents p = amount \<Longrightarrow> p_OrderID p = orderID \<Longrightarrow>
       p_Currency p = cur \<Longrightarrow> p_MethodToken p = tok \<Longrightarrow>
       r = Inr p \<or> r = Inl (wrap ConnErr) \<Longrightarrow> Q r (created p d) (e\<lparr>drawn := n, faults := fs\<rparr>)"
  shows "wp (pay_Create orderID amount cur tok) Q d e"
  unfolding pay_Create_def
  by (auto intro!: wp_exec_chkI simp: err Let_def created_def [symmetric] split: if_splits intro!: ok)
     (auto simp: fresh_payment_def)

definition pay_announce :: "(string \<times> pay_event) option \<Rightarrow> string \<Rightarrow> int \<Rightarrow> pay_db \<Rightarrow> pay_db" where
  "pay_announce x key t d = (case x of None \<Rightarrow> d | Some (topic, ev) \<Rightarrow> d\<lparr>pox := outbox_add topic key ev t (pox d)\<rparr>)"

definition transitioned :: "payment \<Rightarrow> pay_status \<Rightarrow> string \<Rightarrow> int \<Rightarrow> pay_db \<Rightarrow> pay_db" where
  "transitioned p to reason t d = pay_announce (eventFor (p\<lparr>p_Status := to\<rparr>) to reason t) (p_OrderID p) t
     (set_payment (p_ID p) (\<lambda>x. x\<lparr>p_Status := to\<rparr>) d)"

lemma wp_pay_announceI:
  assumes "\<And>err d' fs. Q (Inl err) d' (e\<lparr>faults := fs\<rparr>)"
    and ok: "\<And>fs. Q (Inr ()) (pay_announce x key (now e) d) (e\<lparr>faults := fs\<rparr>)"
  shows "wp (case x of None \<Rightarrow> ret () | Some (topic, ev) \<Rightarrow> pay_emit topic key ev) Q d e"
proof -
  have "x = None \<Longrightarrow> Q (Inr ()) d e" using ok [of "faults e"] by (simp add: pay_announce_def)
  then show ?thesis
    unfolding pay_emit_def using assms
    by (auto simp: pay_announce_def intro!: wp_execI split: option.splits prod.splits)
qed

lemma wp_TransitionI:
  assumes err: "\<And>x fs. Q (Inl x) d (e\<lparr>faults := fs\<rparr>)"
    and same: "\<And>p fs. find_payment pid d = Some p \<Longrightarrow> p_Status p = to \<Longrightarrow> Q (Inr p) d (e\<lparr>faults := fs\<rparr>)"
    and move: "\<And>p r fs. find_payment pid d = Some p \<Longrightarrow> canTransition (p_Status p) to \<Longrightarrow>
       r = Inr (p\<lparr>p_Status := to\<rparr>) \<or> r = Inl (wrap ConnErr) \<Longrightarrow>
       Q r (transitioned p to reason (now e) d) (e\<lparr>faults := fs\<rparr>)"
  shows "wp (Transition pid to reason) Q d e"
proof -
  have go: "Q (Inr (p\<lparr>p_Status := to\<rparr>)) (pay_announce (eventFor (p\<lparr>p_Status := to\<rparr>) to reason (now e)) (p_OrderID p) (now e)
      (set_payment pid (\<lambda>x. x\<lparr>p_Status := to\<rparr>) d)) (e\<lparr>faults := fs\<rparr>)"
    "Q (Inl (wrap ConnErr)) (pay_announce (eventFor (p\<lparr>p_Status := to\<rparr>) to reason (now e)) (p_OrderID p) (now e)
      (set_payment pid (\<lambda>x. x\<lparr>p_Status := to\<rparr>) d)) (e\<lparr>faults := fs\<rparr>)"
    if "find_payment pid d = Some p" "canTransition (p_Status p) to" for p fs
    using move [OF that] find_payment_in [OF that(1)] by (auto simp: transitioned_def)
  show ?thesis
    unfolding Transition_def loadForUpdate_def Let_def
    by (auto intro!: wp_in_txI wp_load_paymentI wp_execI wp_pay_announceI same go simp: err)
qed

definition refund_at :: "payment \<Rightarrow> int64 \<Rightarrow> string \<Rightarrow> int \<Rightarrow> pay_db \<Rightarrow> pay_db" where
  "refund_at p amount idemKey t d =
     (let refunded = i64 (p_RefundedCents p + amount);
          st = (if refunded \<ge> p_AmountCents p then REFUNDED else p_Status p) in
      pay_announce (Some (''commerce.payment.refunded'',
          PaymentRefunded (p_ID p) (p_OrderID p) (pay_money (p_Currency p) amount) t)) (p_OrderID p) t
        (set_payment (p_ID p) (\<lambda>x. x\<lparr>p_RefundedCents := refunded, p_Status := st\<rparr>)
          (d\<lparr>refunds := refunds d @ [\<lparr>rf_payment = p_ID p, rf_amount = amount, rf_key = idemKey\<rparr>]\<rparr>)))"

definition key_used :: "string \<Rightarrow> string \<Rightarrow> pay_db \<Rightarrow> bool" where
  "key_used pid k d \<longleftrightarrow> k \<noteq> '''' \<and> (\<exists>r\<in>set (refunds d). rf_payment r = pid \<and> rf_key r = k)"

lemma wp_pay_emitI:
  assumes "\<And>err d' fs. Q (Inl err) d' (e\<lparr>faults := fs\<rparr>)"
    and "\<And>fs. Q (Inr ()) (pay_announce (Some (topic, ev)) key (now e) d) (e\<lparr>faults := fs\<rparr>)"
  shows "wp (pay_emit topic key ev) Q d e"
  using wp_pay_announceI [of Q e "Some (topic, ev)" key d] assms by simp

lemma wp_ins_refundI:
  assumes "\<And>err d' fs. Q (Inl err) d' (e\<lparr>faults := fs\<rparr>)"
    and "\<And>fs. 0 < a \<Longrightarrow> Q (Inr ()) (d\<lparr>refunds := refunds d @ [\<lparr>rf_payment = pid, rf_amount = a, rf_key = k\<rparr>]\<rparr>)
          (e\<lparr>faults := fs\<rparr>)"
  shows "wp (ins_refund pid a k) Q d e"
  unfolding ins_refund_def using assms by (auto intro!: wp_exec_chkI split: if_splits)

lemma wp_pay_RefundI:
  assumes err: "\<And>x fs. Q (Inl x) d (e\<lparr>faults := fs\<rparr>)"
    and same: "\<And>p fs. find_payment pid d = Some p \<Longrightarrow>
       key_used pid idemKey d \<or> resolveRefundAmount p amount = Inr (0, True) \<Longrightarrow> Q (Inr p) d (e\<lparr>faults := fs\<rparr>)"
    and go: "\<And>p a r fs. find_payment pid d = Some p \<Longrightarrow> \<not> key_used pid idemKey d \<Longrightarrow> 0 < a \<Longrightarrow>
       resolveRefundAmount p amount = Inr (a, False) \<Longrightarrow>
       (\<exists>p'. r = Inr p') \<or> r = Inl (wrap ConnErr) \<Longrightarrow> Q r (refund_at p a idemKey (now e) d) (e\<lparr>faults := fs\<rparr>)"
  shows "wp (pay_Refund pid amount idemKey) Q d e"
proof -
  have settled: "a = 0" if "resolveRefundAmount p amount = Inr (a, True)" for p a
    using that by (auto simp: resolveRefundAmount_def Let_def split: if_splits)
  have used: "wp (refundAlreadyApplied pid idemKey) P d' e'"
    if "\<And>x fs. P (Inl x) d' (e'\<lparr>faults := fs\<rparr>)" "\<And>b fs. b = key_used pid idemKey d' \<Longrightarrow> P (Inr b) d' (e'\<lparr>faults := fs\<rparr>)"
    for P d' and e' :: env
  proof (cases "idemKey = ''''")
    case True
    then show ?thesis using that(2) [of False "faults e'"] by (simp add: refundAlreadyApplied_def key_used_def)
  next
    case False
    then show ?thesis using that by (auto simp: refundAlreadyApplied_def key_used_def intro!: wp_queryI)
  qed
  have go': "Q r (pay_announce (Some (''commerce.payment.refunded'',
          PaymentRefunded pid (p_OrderID p) (pay_money (p_Currency p) a) (now e))) (p_OrderID p) (now e)
        (set_payment pid (\<lambda>x. x\<lparr>p_RefundedCents := i64 (p_RefundedCents p + a),
             p_Status := st\<rparr>)
          (d\<lparr>refunds := refunds d @ [\<lparr>rf_payment = pid, rf_amount = a, rf_key = idemKey\<rparr>]\<rparr>))) (e\<lparr>faults := fs\<rparr>)"
    if "find_payment pid d = Some p" "\<not> key_used pid idemKey d" "0 < a" "resolveRefundAmount p amount = Inr (a, False)"
       "(\<exists>p'. r = Inr p') \<or> r = Inl (wrap ConnErr)"
       "st = (if i64 (p_RefundedCents p + a) \<ge> p_AmountCents p then REFUNDED else p_Status p)" for p a r fs st
    using go [OF that(1-5)] find_payment_in [OF that(1)] that(6) by (auto simp: refund_at_def Let_def)
  have full: "Q (Inr p) d (e\<lparr>faults := fs\<rparr>)"
    if "find_payment pid d = Some p" "key_used pid idemKey d \<or> resolveRefundAmount p amount = Inr (a, True)" for p a fs
    using same [OF that(1)] that(2) settled by blast
  show ?thesis
    unfolding pay_Refund_def loadForUpdate_def
  proof (rule wp_in_txI, rule err, unfold wp_bnd, rule wp_load_paymentI, goal_cases)
    case (1 fs x fs')
    then show ?case by (simp add: err)
  next
    case (2 fs p fs')
    then have id: "p_ID p = pid" by (simp add: find_payment_in)
    show ?case
      unfolding sum.case wp_bnd id
    proof (rule used, goal_cases)
      case (1 x fs)
      show ?case by (simp add: err)
    next
      case (2 b fs)
      show ?case
      proof (cases b)
        case True
        then show ?thesis using 2 \<open>find_payment pid d = Some p\<close> by (auto intro: full)
      next
        case False
        show ?thesis
        proof (cases "resolveRefundAmount p amount")
          case (Inl x)
          then show ?thesis using False by (simp add: err)
        next
          case (Inr as)
          then obtain a s where as: "resolveRefundAmount p amount = Inr (a, s)" by (cases as) auto
          show ?thesis
            using 2 False \<open>find_payment pid d = Some p\<close> as full [of p a]
            by (cases s) (auto simp: Let_def intro!: wp_ins_refundI wp_execI wp_pay_emitI err go')
        qed
      qed
    qed
  qed
qed

end
