(* ===== verification/PaymentProps.thy ===== *)
theory PaymentProps
  imports PaymentSpec SampleEnv
begin

section \<open>The payment machine: its invariant and its properties\<close>

text \<open>
  The invariant of every payment row, for any interleaving of creates, confirmations, refunds and voids
  and under any faults, and the properties that follow from it.
\<close>

subsection \<open>What belongs to one payment\<close>

definition refunds_of :: "string \<Rightarrow> pay_db \<Rightarrow> refund_row list" where
  "refunds_of pid d = filter (\<lambda>r. rf_payment r = pid) (refunds d)"

fun event_pid :: "pay_event \<Rightarrow> string" where
  "event_pid (PaymentAuthorized pid _ _ _) = pid"
| "event_pid (PaymentFailed pid _ _ _) = pid"
| "event_pid (PaymentRefunded pid _ _ _) = pid"

definition events_of :: "string \<Rightarrow> pay_db \<Rightarrow> pay_event list" where
  "events_of pid d = filter (\<lambda>ev. event_pid ev = pid) (events (pox d))"

fun outcome_of :: "pay_event \<Rightarrow> pay_status option" where
  "outcome_of (PaymentAuthorized _ _ _ _) = Some AUTHORIZED"
| "outcome_of (PaymentFailed _ _ _ _) = Some FAILED"
| "outcome_of _ = None"

fun refund_of :: "pay_event \<Rightarrow> wire_money option" where
  "refund_of (PaymentRefunded _ _ m _) = Some m"
| "refund_of _ = None"

definition outcomes_ok :: "pay_status \<Rightarrow> pay_status list \<Rightarrow> bool" where
  "outcomes_ok st os = (case st of
       REQUIRES_CONFIRMATION \<Rightarrow> os = []
     | FAILED \<Rightarrow> os = [FAILED]
     | VOIDED \<Rightarrow> os = [] \<or> os = [AUTHORIZED]
     | _ \<Rightarrow> os = [AUTHORIZED])"

definition refunded_sum :: "refund_row list \<Rightarrow> int" where
  "refunded_sum rs = sum_list (map rf_amount rs)"

definition money_ok :: "payment \<Rightarrow> refund_row list \<Rightarrow> bool" where
  "money_ok p rs \<longleftrightarrow> 0 < p_AmountCents p \<and> in_i64 (p_AmountCents p) \<and> p_RefundedCents p = refunded_sum rs \<and>
     (\<forall>r\<in>set rs. 0 < rf_amount r) \<and> p_RefundedCents p \<le> p_AmountCents p \<and>
     (p_Status p = REFUNDED \<longleftrightarrow> p_RefundedCents p = p_AmountCents p) \<and>
     (p_Status p = REQUIRES_CONFIRMATION \<or> p_Status p = FAILED \<longrightarrow> rs = [])"

definition payment_ok :: "payment \<Rightarrow> refund_row list \<Rightarrow> pay_event list \<Rightarrow> bool" where
  "payment_ok p rs evs \<longleftrightarrow> money_ok p rs \<and> outcomes_ok (p_Status p) (List.map_filter outcome_of evs) \<and>
     List.map_filter refund_of evs = map (\<lambda>r. pay_money (p_Currency p) (rf_amount r)) rs"

definition pay_ok :: "pay_db \<Rightarrow> bool" where
  "pay_ok d \<longleftrightarrow> distinct (map p_ID (payments d)) \<and> outbox_wf (pox d) \<and>
     rf_payment ` set (refunds d) \<subseteq> p_ID ` set (payments d) \<and>
     event_pid ` set (events (pox d)) \<subseteq> p_ID ` set (payments d) \<and>
     distinct (map (\<lambda>r. (rf_payment r, rf_key r)) (filter (\<lambda>r. rf_key r \<noteq> '''') (refunds d))) \<and>
     (\<forall>p\<in>set (payments d). payment_ok p (refunds_of (p_ID p) d) (events_of (p_ID p) d))"

lemma pay_okD: "pay_ok d \<Longrightarrow> p \<in> set (payments d) \<Longrightarrow> payment_ok p (refunds_of (p_ID p) d) (events_of (p_ID p) d)"
  by (simp add: pay_ok_def)

subsection \<open>Preservation\<close>

lemma map_filter_snoc [simp]: "List.map_filter f (xs @ [x]) = List.map_filter f xs @ (case f x of None \<Rightarrow> [] | Some y \<Rightarrow> [y])"
  by (simp add: List.map_filter_def split: option.split)

lemma pay_ok_created:
  assumes ok: "pay_ok d" and new: "fresh_payment p d" and amt: "0 < p_AmountCents p" "in_i64 (p_AmountCents p)"
  shows "pay_ok (created p d)"
proof -
  have "p_ID p \<notin> rf_payment ` set (refunds d)" "p_ID p \<notin> event_pid ` set (events (pox d))"
    using ok new unfolding pay_ok_def fresh_payment_def by blast+
  then have "refunds_of (p_ID p) d = []" "events_of (p_ID p) d = []"
    unfolding refunds_of_def events_of_def filter_empty_conv by (metis image_eqI)+
  then have "payment_ok p (refunds_of (p_ID p) d) (events_of (p_ID p) d)"
    using new amt by (simp add: payment_ok_def money_ok_def outcomes_ok_def fresh_payment_def refunded_sum_def
        List.map_filter_def)
  then show ?thesis
    using ok new by (auto simp: pay_ok_def created_def fresh_payment_def refunds_of_def events_of_def)
qed

text \<open>A change of one payment, its refunds and its events keeps the invariant of all the others.\<close>

lemma pay_ok_update:
  assumes ok: "pay_ok d" and p: "p \<in> set (payments d)"
    and ids: "p_ID (f p) = p_ID p"
    and rows: "payments d' = upd_rows (\<lambda>x. p_ID x = p_ID p) f (payments d)"
    and refunds: "refunds d' = refunds d @ rs" "\<forall>r\<in>set rs. rf_payment r = p_ID p"
    and events: "events (pox d') = events (pox d) @ evs" "\<forall>ev\<in>set evs. event_pid ev = p_ID p"
    and wf: "outbox_wf (pox d')"
    and keys: "distinct (map (\<lambda>r. (rf_payment r, rf_key r)) (filter (\<lambda>r. rf_key r \<noteq> '''') (refunds d')))"
    and new: "payment_ok (f p) (refunds_of (p_ID p) d @ rs) (events_of (p_ID p) d @ evs)"
  shows "pay_ok d'"
proof -
  have one: "x = p" if "x \<in> set (payments d)" "p_ID x = p_ID p" for x
    using distinct_map_inj [of p_ID "payments d" x p] ok p that by (simp add: pay_ok_def)
  have rows': "payments d' = upd_rows (\<lambda>x. p_ID x = p_ID p) (\<lambda>_. f p) (payments d)"
    unfolding rows upd_rows_def using one by (intro map_cong) auto
  have same_ids: "map p_ID (payments d') = map p_ID (payments d)"
    unfolding rows' by (rule map_upd_rows) (simp add: ids)
  then have set_ids: "p_ID ` set (payments d') = p_ID ` set (payments d)" by (metis list.set_map)
  have own: "refunds_of (p_ID p) d' = refunds_of (p_ID p) d @ rs" "events_of (p_ID p) d' = events_of (p_ID p) d @ evs"
    using refunds events by (simp_all add: refunds_of_def events_of_def)
  have other: "refunds_of i d' = refunds_of i d" "events_of i d' = events_of i d" if "i \<noteq> p_ID p" for i
    using refunds events that by (auto simp: refunds_of_def events_of_def filter_empty_conv)
  have "payment_ok x (refunds_of (p_ID x) d') (events_of (p_ID x) d')" if "x \<in> set (payments d')" for x
  proof -
    have "x = f p \<or> x \<in> set (payments d) \<and> p_ID x \<noteq> p_ID p"
      using that unfolding rows' by (auto simp: in_upd_rows split: if_splits)
    then show ?thesis
    proof
      assume "x = f p"
      then show ?thesis using new ids own by simp
    next
      assume "x \<in> set (payments d) \<and> p_ID x \<noteq> p_ID p"
      then show ?thesis using ok other by (simp add: pay_ok_def)
    qed
  qed
  moreover have "rf_payment ` set (refunds d') \<subseteq> p_ID ` set (payments d')"
      "event_pid ` set (events (pox d')) \<subseteq> p_ID ` set (payments d')"
    using ok refunds events p unfolding set_ids by (auto simp: pay_ok_def)
  ultimately show ?thesis using ok wf keys same_ids by (simp add: pay_ok_def)
qed

lemma set_payment_sel [simp]:
  "refunds (set_payment pid f d) = refunds d" "pox (set_payment pid f d) = pox d"
  "payments (set_payment pid f d) = upd_rows (\<lambda>p. p_ID p = pid) f (payments d)"
  by (simp_all add: set_payment_def)

lemma pay_announce_sel [simp]:
  "refunds (pay_announce x key t d) = refunds d" "payments (pay_announce x key t d) = payments d"
  "events (pox (pay_announce x key t d)) = events (pox d) @ (case x of None \<Rightarrow> [] | Some (topic, ev) \<Rightarrow> [ev])"
  "outbox_wf (pox d) \<Longrightarrow> outbox_wf (pox (pay_announce x key t d))"
  by (auto simp: pay_announce_def split: option.split)

lemma pay_ok_transitioned:
  assumes ok: "pay_ok d" and p: "find_payment pid d = Some p" and can: "canTransition (p_Status p) to"
  shows "pay_ok (transitioned p to reason t d)"
proof -
  have pd: "p \<in> set (payments d)" "p_ID p = pid" using find_payment_in [OF p] by auto
  let ?x = "eventFor (p\<lparr>p_Status := to\<rparr>) to reason t"
  have old: "payment_ok p (refunds_of (p_ID p) d) (events_of (p_ID p) d)" by (rule pay_okD [OF ok pd(1)])
  have new: "payment_ok (p\<lparr>p_Status := to\<rparr>) (refunds_of (p_ID p) d @ [])
      (events_of (p_ID p) d @ (case ?x of None \<Rightarrow> [] | Some (topic, ev) \<Rightarrow> [ev]))"
    using old can
    by (cases "p_Status p"; cases to)
       (auto simp: canTransition_def eventFor_def payment_ok_def money_ok_def outcomes_ok_def refunded_sum_def)
  show ?thesis
    unfolding transitioned_def
    by (rule pay_ok_update [where f = "\<lambda>x. x\<lparr>p_Status := to\<rparr>", OF ok pd(1) _ _ _ _ _ _ _ _ new])
       (use ok in \<open>auto simp: pay_ok_def eventFor_def split: pay_status.splits option.splits\<close>)
qed

lemma resolve_range:
  assumes "resolveRefundAmount p amount = Inr (a, False)" "money_ok p rs"
  shows "0 < a" "a \<le> p_AmountCents p - p_RefundedCents p" "p_Status p = AUTHORIZED \<or> p_Status p = REFUNDED"
    "amount > 0 \<longrightarrow> a = amount" "amount \<le> 0 \<longrightarrow> a = p_AmountCents p - p_RefundedCents p"
proof -
  have "0 \<le> refunded_sum rs" unfolding refunded_sum_def
    using assms(2) by (intro sum_list_nonneg_int) (auto simp: money_ok_def order.strict_implies_order)
  then have "i64 (p_AmountCents p - p_RefundedCents p) = p_AmountCents p - p_RefundedCents p"
    using assms(2) by (intro i64_id) (auto simp: money_ok_def in_i64_def)
  then show "0 < a" "a \<le> p_AmountCents p - p_RefundedCents p" "p_Status p = AUTHORIZED \<or> p_Status p = REFUNDED"
    "amount > 0 \<longrightarrow> a = amount" "amount \<le> 0 \<longrightarrow> a = p_AmountCents p - p_RefundedCents p"
    using assms(1) by (auto simp: resolveRefundAmount_def Let_def split: if_splits)
qed

lemma pay_ok_refund_at:
  assumes ok: "pay_ok d" and p: "find_payment pid d = Some p" and key: "\<not> key_used pid k d"
    and a: "resolveRefundAmount p amount = Inr (a, False)"
  shows "pay_ok (refund_at p a k t d)"
proof -
  have pd: "p \<in> set (payments d)" "p_ID p = pid" using find_payment_in [OF p] by auto
  let ?r = "\<lparr>rf_payment = p_ID p, rf_amount = a, rf_key = k\<rparr>"
  let ?ev = "PaymentRefunded (p_ID p) (p_OrderID p) (pay_money (p_Currency p) a) t"
  have old: "payment_ok p (refunds_of (p_ID p) d) (events_of (p_ID p) d)" by (rule pay_okD [OF ok pd(1)])
  then have m: "money_ok p (refunds_of (p_ID p) d)" by (simp add: payment_ok_def)
  note r = resolve_range [OF a m]
  have pos: "0 \<le> p_RefundedCents p"
    using m by (auto simp: money_ok_def refunded_sum_def intro!: sum_list_nonneg_int intro: order.strict_implies_order)
  then have sum: "i64 (p_RefundedCents p + a) = p_RefundedCents p + a"
    using m r by (intro i64_id) (auto simp: money_ok_def in_i64_def)
  let ?st = "if p_RefundedCents p + a \<ge> p_AmountCents p then REFUNDED else p_Status p"
  have new: "payment_ok (p\<lparr>p_RefundedCents := p_RefundedCents p + a, p_Status := ?st\<rparr>)
      (refunds_of (p_ID p) d @ [?r]) (events_of (p_ID p) d @ [?ev])"
    using old r by (auto simp: payment_ok_def money_ok_def outcomes_ok_def refunded_sum_def)
  have keys: "distinct (map (\<lambda>r. (rf_payment r, rf_key r)) (filter (\<lambda>r. rf_key r \<noteq> '''') (refunds d @ [?r])))"
    using ok key pd by (auto simp: pay_ok_def key_used_def)
  show ?thesis
    unfolding refund_at_def Let_def sum
    by (rule pay_ok_update [where f = "\<lambda>x. x\<lparr>p_RefundedCents := p_RefundedCents p + a, p_Status := ?st\<rparr>",
          OF ok pd(1) _ _ _ _ _ _ _ _ new])
       (use ok keys in \<open>auto simp: pay_ok_def\<close>)
qed

subsection \<open>The machine\<close>

datatype pay_op =
    OpCreate string "wire_money option" string
  | OpConfirm string outcome
  | OpRefund string "wire_money option" string
  | OpVoid string

fun pay_prog :: "pay_op \<Rightarrow> (pay_db, unit) prog" where
  "pay_prog (OpCreate orderID amt tok) = discard (CreatePayment orderID amt tok)"
| "pay_prog (OpConfirm pid oc) = discard (ConfirmPayment pid oc)"
| "pay_prog (OpRefund pid amt k) = discard (RefundPayment pid amt k)"
| "pay_prog (OpVoid pid) = discard (VoidPayment pid)"

definition pay_step :: "pay_op \<Rightarrow> env \<Rightarrow> pay_db \<Rightarrow> pay_db" where
  "pay_step op = after (pay_prog op)"

lemma in_i64_request: "in_i64 (request_cents m)"
  by (simp add: request_cents_def in_i64_def split: option.split) (metis in_i64_def in_i64_i64)

lemma pay_prog_ok: "pay_ok d \<Longrightarrow> wp (pay_prog op) (\<lambda>_ d' _. pay_ok d') d e"
proof (cases op)
  case (OpCreate orderID amt tok)
  assume "pay_ok d"
  then show ?thesis unfolding OpCreate
    by (auto simp: CreatePayment_def intro!: wp_pay_CreateI pay_ok_created in_i64_request)
next
  case (OpConfirm pid oc)
  assume "pay_ok d"
  then show ?thesis unfolding OpConfirm
    by (cases oc) (auto simp: ConfirmPayment_def pay_Get_def intro!: wp_load_paymentI wp_TransitionI pay_ok_transitioned)
next
  case (OpRefund pid amt k)
  assume "pay_ok d"
  then show ?thesis unfolding OpRefund
    by (auto simp: RefundPayment_def intro!: wp_pay_RefundI pay_ok_refund_at)
next
  case (OpVoid pid)
  assume "pay_ok d"
  then show ?thesis unfolding OpVoid
    by (auto simp: VoidPayment_def intro!: wp_TransitionI pay_ok_transitioned)
qed

lemma pay_ok_start: "pay_ok empty_pay_db"
  by (simp add: pay_ok_def empty_pay_db_def)

interpretation payment_machine: inv_machine pay_step empty_pay_db pay_ok
  by unfold_locales (auto simp: pay_step_def intro: pay_ok_start after_wp [OF pay_prog_ok])

subsection \<open>Properties\<close>

definition dollars :: "int \<Rightarrow> wire_money option" where
  "dollars n = Some \<lparr>w_currency = ''USD'', w_units = n, w_nanos = 0\<rparr>"

text \<open>A run: a payment authorised and refunded in two parts, a declined one.\<close>

definition pay_ops :: "(pay_op \<times> env) list" where
  "pay_ops = [(OpCreate ''o1'' (dollars 20) ''pm_ok'', env_at 1), (OpConfirm ''idx'' OUTCOME_AUTHORIZE, env_at 2),
     (OpRefund ''idx'' (dollars 5) ''k1'', env_at 3), (OpRefund ''idx'' (dollars 5) ''k1'', env_at 4),
     (OpCreate ''o2'' (dollars 7) declineToken, (env_at 5)\<lparr>drawn := 2\<rparr>), (OpConfirm ''idxxx'' OUTCOME_AUTHORIZE, env_at 6)]"

definition paid :: pay_db where
  "paid = run_ops pay_step pay_ops empty_pay_db"

lemma paid_reach: "reach pay_step empty_pay_db paid"
  unfolding paid_def by (rule reach_run_ops [OF reach.init])

lemma paid_rows: "map (\<lambda>p. (p_ID p, p_Status p, p_RefundedCents p)) (payments paid) =
    [(''idx'', AUTHORIZED, 500), (''idxxx'', FAILED, 0)]"
  by code_simp

lemma paid_first: "hd (payments paid) \<in> set (payments paid)" "p_ID (hd (payments paid)) = ''idx''"
  using paid_rows by (cases "payments paid"; force)+

text \<open>C5: in every state the payment service reaches, what a payment has refunded is the sum of its
  refund rows, each positive, never more than its amount, and it is REFUNDED exactly when the whole
  amount is refunded.\<close>

theorem refunded_within_amount:
  assumes "reach pay_step empty_pay_db d" "p \<in> set (payments d)"
  shows "p_RefundedCents p = refunded_sum (refunds_of (p_ID p) d) \<and> p_RefundedCents p \<le> p_AmountCents p \<and>
     (\<forall>r\<in>set (refunds_of (p_ID p) d). 0 < rf_amount r) \<and>
     (p_Status p = REFUNDED \<longleftrightarrow> p_RefundedCents p = p_AmountCents p)"
  using pay_okD [OF payment_machine.reach_inv [OF assms(1)] assms(2)] by (simp add: payment_ok_def money_ok_def)

theorem refunded_within_amount_witness:
  "p_RefundedCents (hd (payments paid)) = refunded_sum (refunds_of ''idx'' paid)"
  using refunded_within_amount [OF paid_reach paid_first(1)] paid_first(2) by simp

text \<open>C19: the outbox announces every payment exactly: one authorized or failed event that agrees with
  its status, and one refunded event per refund row, of that row's amount and in that order.\<close>

theorem payment_events_exact:
  assumes "reach pay_step empty_pay_db d" "p \<in> set (payments d)"
  shows "outcomes_ok (p_Status p) (List.map_filter outcome_of (events_of (p_ID p) d)) \<and>
     List.map_filter refund_of (events_of (p_ID p) d) =
       map (\<lambda>r. pay_money (p_Currency p) (rf_amount r)) (refunds_of (p_ID p) d)"
  using pay_okD [OF payment_machine.reach_inv [OF assms(1)] assms(2)] by (simp add: payment_ok_def)

theorem payment_events_exact_witness:
  "outcomes_ok (p_Status (hd (payments paid))) (List.map_filter outcome_of (events_of ''idx'' paid))"
  using payment_events_exact [OF paid_reach paid_first(1)] paid_first(2) by simp

text \<open>A key that has a refund, or a payment with nothing left: both stay so, and both make a refund a no-op.\<close>

definition spent :: "string \<Rightarrow> string \<Rightarrow> pay_db \<Rightarrow> bool" where
  "spent pid k d \<longleftrightarrow> key_used pid k d \<or>
     (\<exists>p. find_payment pid d = Some p \<and> p_Status p = REFUNDED \<and> p_RefundedCents p = p_AmountCents p)"

lemma find_created: "find_payment pid d = Some p \<Longrightarrow> find_payment pid (created q d) = Some p"
  by (simp add: find_payment_def created_def find_append)

lemma find_other:
  "pid' \<noteq> pid \<Longrightarrow> (\<And>p. p_ID (f p) = p_ID p) \<Longrightarrow>
   List.find (\<lambda>p. p_ID p = pid) (upd_rows (\<lambda>p. p_ID p = pid') f t) = List.find (\<lambda>p. p_ID p = pid) t"
  by (rule find_upd_rows_other) auto

lemma spent_created: "spent pid k d \<Longrightarrow> spent pid k (created q d)"
proof -
  assume s: "spent pid k d"
  have "key_used pid k (created q d) = key_used pid k d" by (simp add: key_used_def created_def)
  then show ?thesis using s find_created unfolding spent_def by blast
qed

lemma spent_transitioned:
  assumes "spent pid k d" "find_payment pid' d = Some q" "canTransition (p_Status q) to"
  shows "spent pid k (transitioned q to reason t d)"
proof (cases "key_used pid k d")
  case True
  then show ?thesis by (auto simp: spent_def key_used_def transitioned_def)
next
  case False
  then obtain p where p: "find_payment pid d = Some p" "p_Status p = REFUNDED" "p_RefundedCents p = p_AmountCents p"
    using assms(1) by (auto simp: spent_def)
  have "p_ID q = pid'" using find_payment_in [OF assms(2)] by simp
  moreover have "pid' \<noteq> pid" using p assms(2,3) by (auto simp: canTransition_def)
  ultimately show ?thesis
    using p by (auto simp: spent_def transitioned_def find_payment_def find_other)
qed

lemma spent_refund_at:
  assumes "spent pid k d" "find_payment pid' d = Some q" "resolveRefundAmount q am = Inr (a, False)"
  shows "spent pid k (refund_at q a k' t d)"
proof (cases "key_used pid k d")
  case True
  then show ?thesis by (auto simp: spent_def key_used_def refund_at_def Let_def)
next
  case False
  then obtain p where p: "find_payment pid d = Some p" "p_Status p = REFUNDED" "p_RefundedCents p = p_AmountCents p"
    using assms(1) by (auto simp: spent_def)
  have "p_ID q = pid'" using find_payment_in [OF assms(2)] by simp
  moreover have "pid' \<noteq> pid"
    using p assms(2,3) by (auto simp: resolveRefundAmount_def Let_def i64_def split: if_splits)
  ultimately show ?thesis
    using p by (auto simp: spent_def refund_at_def Let_def find_payment_def find_other)
qed

lemma spent_step: "spent pid k d \<Longrightarrow> spent pid k (pay_step op e d)"
  unfolding pay_step_def
proof (rule after_wp [where I = "spent pid k"])
  assume s: "spent pid k d"
  show "wp (pay_prog op) (\<lambda>_ d' _. spent pid k d') d e"
  proof (cases op)
    case (OpCreate orderID amt tok)
    then show ?thesis using s by (auto simp: CreatePayment_def intro!: wp_pay_CreateI spent_created)
  next
    case (OpConfirm pid' oc)
    then show ?thesis using s
      by (cases oc) (auto simp: ConfirmPayment_def pay_Get_def intro!: wp_load_paymentI wp_TransitionI spent_transitioned)
  next
    case (OpRefund pid' amt k')
    then show ?thesis using s
      by (auto simp: RefundPayment_def intro!: wp_pay_RefundI spent_refund_at)
  next
    case (OpVoid pid')
    then show ?thesis using s by (auto simp: VoidPayment_def intro!: wp_TransitionI spent_transitioned)
  qed
qed

lemma spent_reach: "reach pay_step d d' \<Longrightarrow> spent pid k d \<Longrightarrow> spent pid k d'"
  by (induction rule: reach.induct) (auto intro: spent_step)

lemma spent_noop: "spent pid k d \<Longrightarrow> wp (pay_Refund pid a k) (\<lambda>_ d' _. d' = d) d e"
  by (auto simp: spent_def resolveRefundAmount_def Let_def i64_def intro!: wp_pay_RefundI split: if_splits)

lemma refund_spends:
  assumes "pay_ok d" "k \<noteq> ''''"
  shows "wp (pay_Refund pid a k) (\<lambda>r d' _. (\<exists>p. r = Inr p) \<longrightarrow> spent pid k d') d e"
proof (rule wp_pay_RefundI, goal_cases)
  case (1 x fs)
  show ?case by simp
next
  case (2 p fs)
  have "payment_ok p (refunds_of (p_ID p) d) (events_of (p_ID p) d)"
    using pay_okD [OF assms(1)] find_payment_in [OF 2(1)] by blast
  then have m: "money_ok p (refunds_of (p_ID p) d)" by (simp add: payment_ok_def)
  have "0 \<le> p_RefundedCents p"
    using m by (auto simp: money_ok_def refunded_sum_def intro!: sum_list_nonneg_int intro: order.strict_implies_order)
  then have "i64 (p_AmountCents p - p_RefundedCents p) = p_AmountCents p - p_RefundedCents p"
    using m by (intro i64_id) (auto simp: money_ok_def in_i64_def)
  then show ?case
    using 2 m by (auto simp: spent_def resolveRefundAmount_def Let_def money_ok_def split: if_splits)
next
  case (3 p a r fs)
  then have "p_ID p = pid" using find_payment_in by simp
  then show ?case using assms(2) by (auto simp: spent_def key_used_def refund_at_def Let_def)
qed

text \<open>C20: a refund is applied once per idempotency key.  After a refund with a key has answered without
  an error, and after any further operations of any clients, another refund of the payment with that key
  changes nothing, whatever amount it asks for.\<close>

theorem refund_once_per_key:
  assumes "reach pay_step empty_pay_db d" "k \<noteq> ''''" "pay_Refund pid a k d e = (Inr p, d1, e1)"
    and "reach pay_step d1 d2" "pay_Refund pid a' k d2 e2 = (r, d3, e3)"
  shows "d3 = d2"
proof -
  have "spent pid k d1"
    using wpD [OF refund_spends [OF payment_machine.reach_inv [OF assms(1)] assms(2)] assms(3)] by blast
  then have "spent pid k d2" by (rule spent_reach [OF assms(4)])
  from wpD [OF spent_noop [OF this] assms(5)] show ?thesis .
qed

definition refund_run :: "payment res \<times> pay_db \<times> env" where
  "refund_run = pay_Refund ''idx'' 300 ''k2'' paid (env_at 7)"

theorem refund_once_per_key_witness:
  "fst (snd (pay_Refund ''idx'' 900 ''k2'' (fst (snd refund_run)) (env_at 8))) = fst (snd refund_run)"
proof -
  have "(case fst refund_run of Inl _ \<Rightarrow> False | Inr _ \<Rightarrow> True)" by code_simp
  then obtain p d1 e1 where run: "refund_run = (Inr p, d1, e1)"
    by (metis (no_types, lifting) prod.collapse sum.case(1) sum.exhaust)
  obtain r d3 e3 where again: "pay_Refund ''idx'' 900 ''k2'' d1 (env_at 8) = (r, d3, e3)" by (metis prod.collapse)
  have "d3 = d1"
    by (rule refund_once_per_key [OF paid_reach _ run [unfolded refund_run_def] reach.init again]) simp
  then show ?thesis unfolding run fst_conv snd_conv again by simp
qed

subsection \<open>The declined card\<close>

definition decline_inv :: "pay_db \<Rightarrow> bool" where
  "decline_inv d \<longleftrightarrow> (\<forall>p\<in>set (payments d). p_MethodToken p = declineToken \<longrightarrow> p_Status p \<noteq> AUTHORIZED \<and> p_Status p \<noteq> REFUNDED)"

lemma decline_set:
  assumes "decline_inv d" "p \<in> set (payments d)"
    and "\<And>x. x \<in> set (payments d) \<Longrightarrow> p_ID x = pid \<Longrightarrow> p_MethodToken (f x) = p_MethodToken x \<and>
       (p_MethodToken x = declineToken \<longrightarrow> p_Status (f x) \<noteq> AUTHORIZED \<and> p_Status (f x) \<noteq> REFUNDED)"
  shows "decline_inv (set_payment pid f d)"
  using assms by (auto simp: decline_inv_def in_upd_rows split: if_splits)

lemma decline_inv_transitioned:
  assumes "decline_inv d" "pay_ok d" "find_payment pid d = Some p"
    "p_MethodToken p = declineToken \<longrightarrow> to \<noteq> AUTHORIZED" "canTransition (p_Status p) to"
  shows "decline_inv (transitioned p to reason t d)"
proof -
  have pd: "p \<in> set (payments d)" "p_ID p = pid" using find_payment_in [OF assms(3)] by auto
  have one: "x = p" if "x \<in> set (payments d)" "p_ID x = pid" for x
    using distinct_map_inj [of p_ID "payments d" x p] assms(2) pd that by (simp add: pay_ok_def)
  have "to \<noteq> REFUNDED" using assms(5) by (auto simp: canTransition_def split: pay_status.splits)
  then have "decline_inv (set_payment pid (\<lambda>x. x\<lparr>p_Status := to\<rparr>) d)"
    using one assms(4) by (intro decline_set [OF assms(1) pd(1)]) auto
  then show ?thesis by (simp add: transitioned_def decline_inv_def pd)
qed

lemma decline_inv_refund:
  assumes "decline_inv d" "pay_ok d" "find_payment pid d = Some p" "resolveRefundAmount p am = Inr (a, False)"
  shows "decline_inv (refund_at p a k t d)"
proof -
  have pd: "p \<in> set (payments d)" "p_ID p = pid" using find_payment_in [OF assms(3)] by auto
  have one: "x = p" if "x \<in> set (payments d)" "p_ID x = pid" for x
    using distinct_map_inj [of p_ID "payments d" x p] assms(2) pd that by (simp add: pay_ok_def)
  have "p_Status p = AUTHORIZED \<or> p_Status p = REFUNDED"
    using assms(4) by (auto simp: resolveRefundAmount_def split: if_splits)
  then have "p_MethodToken p \<noteq> declineToken" using assms(1) pd by (auto simp: decline_inv_def)
  then have tok: "x \<in> set (payments d) \<Longrightarrow> p_ID x = pid \<Longrightarrow> p_MethodToken x \<noteq> declineToken" for x
    using one by blast
  let ?d = "d\<lparr>refunds := refunds d @ [\<lparr>rf_payment = p_ID p, rf_amount = a, rf_key = k\<rparr>]\<rparr>"
  have "decline_inv ?d" using assms(1) by (simp add: decline_inv_def)
  then have "decline_inv (set_payment pid (\<lambda>x. x\<lparr>p_RefundedCents := c, p_Status := st\<rparr>) ?d)" for c st
    using tok by (intro decline_set [of ?d p]) (use pd(1) in simp_all)
  then show ?thesis by (simp add: refund_at_def Let_def decline_inv_def pd)
qed

lemma decline_prog: "pay_ok d \<and> decline_inv d \<Longrightarrow> wp (pay_prog op) (\<lambda>_ d' _. decline_inv d') d e"
proof (cases op)
  case (OpCreate orderID amt tok)
  assume "pay_ok d \<and> decline_inv d"
  then show ?thesis unfolding OpCreate
    by (auto simp: CreatePayment_def decline_inv_def created_def fresh_payment_def intro!: wp_pay_CreateI)
next
  case (OpConfirm pid oc)
  assume i: "pay_ok d \<and> decline_inv d"
  show ?thesis unfolding OpConfirm
    using i by (cases oc) (auto simp: ConfirmPayment_def pay_Get_def
        intro!: wp_load_paymentI wp_TransitionI decline_inv_transitioned)
next
  case (OpRefund pid amt k)
  assume "pay_ok d \<and> decline_inv d"
  then show ?thesis unfolding OpRefund
    by (auto simp: RefundPayment_def intro!: wp_pay_RefundI decline_inv_refund)
next
  case (OpVoid pid)
  assume "pay_ok d \<and> decline_inv d"
  then show ?thesis unfolding OpVoid
    by (auto simp: VoidPayment_def intro!: wp_TransitionI decline_inv_transitioned)
qed

interpretation decline_machine: inv_machine pay_step empty_pay_db "\<lambda>d. pay_ok d \<and> decline_inv d"
proof unfold_locales
  show "pay_ok empty_pay_db \<and> decline_inv empty_pay_db"
    using pay_ok_start by (simp add: decline_inv_def empty_pay_db_def)
next
  fix d op e
  assume "pay_ok d \<and> decline_inv d"
  then show "pay_ok (pay_step op e d) \<and> decline_inv (pay_step op e d)"
    unfolding pay_step_def using after_wp [OF pay_prog_ok] after_wp [OF decline_prog] by blast
qed

text \<open>A payment with the declined card is never authorised or refunded, whatever confirmations,
  refunds and voids arrive.\<close>

theorem declined_never_authorized:
  assumes "reach pay_step empty_pay_db d" "p \<in> set (payments d)" "p_MethodToken p = declineToken"
  shows "p_Status p \<noteq> AUTHORIZED \<and> p_Status p \<noteq> REFUNDED"
  using decline_machine.reach_inv [OF assms(1)] assms(2,3) by (simp add: decline_inv_def)

lemma paid_declined: "last (payments paid) \<in> set (payments paid)" "p_MethodToken (last (payments paid)) = declineToken"
proof -
  have "payments paid \<noteq> []" using paid_rows by auto
  then show "last (payments paid) \<in> set (payments paid)" by simp
  show "p_MethodToken (last (payments paid)) = declineToken" by code_simp
qed

theorem declined_never_authorized_witness: "p_Status (last (payments paid)) \<noteq> AUTHORIZED"
  using declined_never_authorized [OF paid_reach paid_declined] by simp

end
