(* ===== verification/Cart.thy ===== *)
theory Cart
  imports Prog SampleEnv
begin

section \<open>The cart service (services/cart)\<close>

text \<open>
  The cart aggregate of internal/domain/cart.go, the Redis store of internal/store/redis.go and the
  handlers of internal/grpcsvc/server.go.  Redis holds one blob per key with its expiry; a blob is a
  cart, or bytes that do not decode.  A handler is a sequence of Redis commands, each of which can fail.
  \<open>sort.Slice\<close> leaves the order of equal times open; \<open>touch\<close> keeps the order of the slice for those.
\<close>

subsection \<open>The aggregate\<close>

definition MaxLineQuantity :: int32 where "MaxLineQuantity = 999"

record cart_item =
  ci_ProductID :: string
  ci_Quantity :: int32
  ci_AddedAt :: int

record cart =
  ct_ID :: string
  ct_Items :: "cart_item list"
  ct_UpdatedAt :: int

definition checkProductID :: "(string \<Rightarrow> bool) \<Rightarrow> string \<Rightarrow> unit res" where
  "checkProductID ok productID =
     (if productID = '''' then Inl (errs_New KindInvalidArgument ''PRODUCT_ID_REQUIRED'')
      else if \<not> ok productID then Inl (errs_New KindInvalidArgument ''PRODUCT_ID_INVALID'')
      else Inr ())"

definition NewCart :: "int \<Rightarrow> string \<Rightarrow> cart" where
  "NewCart t cid = \<lparr>ct_ID = cid, ct_Items = [], ct_UpdatedAt = t\<rparr>"

fun total_quantity :: "cart_item list \<Rightarrow> int32 \<Rightarrow> int32" where
  "total_quantity [] n = n"
| "total_quantity (it # its) n = total_quantity its (i32 (n + ci_Quantity it))"

definition TotalQuantity :: "cart \<Rightarrow> int32" where
  "TotalQuantity c = total_quantity (ct_Items c) 0"

definition clampQty :: "int32 \<Rightarrow> int32" where
  "clampQty q = (if q > MaxLineQuantity then MaxLineQuantity else q)"

text \<open>\<open>find\<close> returns a pointer to the first line of the product; writing its quantity is \<open>set_first\<close>.\<close>

definition find_item :: "string \<Rightarrow> cart_item list \<Rightarrow> cart_item option" where
  "find_item p its = List.find (\<lambda>it. ci_ProductID it = p) its"

fun set_first :: "string \<Rightarrow> int32 \<Rightarrow> cart_item list \<Rightarrow> cart_item list" where
  "set_first p q [] = []"
| "set_first p q (it # its) = (if ci_ProductID it = p then it\<lparr>ci_Quantity := q\<rparr> # its else it # set_first p q its)"

definition touch :: "int \<Rightarrow> cart \<Rightarrow> cart" where
  "touch t c = c\<lparr>ct_UpdatedAt := t, ct_Items := sort_key ci_AddedAt (ct_Items c)\<rparr>"

text \<open>Increase the line of a product by \<open>delta\<close>, or append the line \<open>new\<close>.\<close>

definition put_line :: "cart_item \<Rightarrow> (int32 \<Rightarrow> int32) \<Rightarrow> cart \<Rightarrow> cart" where
  "put_line new f c = (case find_item (ci_ProductID new) (ct_Items c) of
       Some it \<Rightarrow> c\<lparr>ct_Items := set_first (ci_ProductID new) (f (ci_Quantity it)) (ct_Items c)\<rparr>
     | None \<Rightarrow> c\<lparr>ct_Items := ct_Items c @ [new]\<rparr>)"

definition cart_Add :: "(string \<Rightarrow> bool) \<Rightarrow> int \<Rightarrow> string \<Rightarrow> int32 \<Rightarrow> cart \<Rightarrow> cart res" where
  "cart_Add ok t productID delta c = (case checkProductID ok productID of
       Inl err \<Rightarrow> Inl err
     | Inr _ \<Rightarrow>
         if delta \<le> 0 then Inl (errs_New KindInvalidArgument ''BAD_QUANTITY'')
         else Inr (touch t (put_line \<lparr>ci_ProductID = productID, ci_Quantity = clampQty delta, ci_AddedAt = t\<rparr>
                (\<lambda>q. clampQty (i32 (q + delta))) c)))"

definition Remove :: "int \<Rightarrow> string \<Rightarrow> cart \<Rightarrow> cart" where
  "Remove t productID c = touch t (c\<lparr>ct_Items := filter (\<lambda>it. ci_ProductID it \<noteq> productID) (ct_Items c)\<rparr>)"

definition SetQuantity :: "(string \<Rightarrow> bool) \<Rightarrow> int \<Rightarrow> string \<Rightarrow> int32 \<Rightarrow> cart \<Rightarrow> cart res" where
  "SetQuantity ok t productID qty c =
     (if qty < 0 then Inl (errs_New KindInvalidArgument ''BAD_QUANTITY'')
      else if qty = 0 then Inr (Remove t productID c)
      else case checkProductID ok productID of
        Inl err \<Rightarrow> Inl err
      | Inr _ \<Rightarrow> Inr (touch t (put_line \<lparr>ci_ProductID = productID, ci_Quantity = clampQty qty, ci_AddedAt = t\<rparr>
                   (\<lambda>_. clampQty qty) c)))"

definition cart_Clear :: "int \<Rightarrow> cart \<Rightarrow> cart" where
  "cart_Clear t c = touch t (c\<lparr>ct_Items := []\<rparr>)"

definition MergeFrom :: "int \<Rightarrow> cart \<Rightarrow> cart \<Rightarrow> cart" where
  "MergeFrom t other c =
     touch t (fold (\<lambda>oi. put_line oi (\<lambda>q. clampQty (i32 (q + ci_Quantity oi)))) (ct_Items other) c)"

subsection \<open>The store\<close>

datatype blob = Json cart | Garbage

type_synonym cart_db = "string \<Rightarrow> (blob \<times> int) option"

definition empty_carts :: cart_db where "empty_carts = (\<lambda>_. None)"

definition cart_ttl :: "int \<Rightarrow> int" where
  "cart_ttl ttl = (if ttl \<le> 0 then 30 * 24 * 3600000000000 else ttl)"

definition redis_key :: "string \<Rightarrow> string" where
  "redis_key cartID = ''cart:'' @ cartID"

text \<open>What a Redis command sees of a key at time \<open>t\<close>: an expired key is gone.\<close>

definition live :: "int \<Rightarrow> string \<Rightarrow> cart_db \<Rightarrow> blob option" where
  "live t k db = (case db k of Some (b, ex) \<Rightarrow> if t < ex then Some b else None | None \<Rightarrow> None)"

definition redis_wrap :: "go_err \<Rightarrow> go_err" where
  "redis_wrap err = errs_Wrap err KindUnavailable ''REDIS_ERROR''"

definition redis_expire :: "int \<Rightarrow> string \<Rightarrow> (cart_db, unit) prog" where
  "redis_expire ttl k = exec (\<lambda>t db. case live t k db of None \<Rightarrow> db | Some b \<Rightarrow> db(k := Some (b, t + ttl)))"

definition cart_Get :: "int \<Rightarrow> string \<Rightarrow> (cart_db, cart) prog" where
  "cart_Get ttl cartID =
     bnd (map_err redis_wrap (query (\<lambda>t. live t (redis_key cartID)))) (\<lambda>b. case b of
       None \<Rightarrow> bnd (asks now) (\<lambda>t. ret (NewCart t cartID))
     | Some Garbage \<Rightarrow> fail (errs_Wrap (PlainErr ''json'') KindInternal ''CART_DECODE'')
     | Some (Json c) \<Rightarrow> bnd (attempt (redis_expire ttl (redis_key cartID))) (\<lambda>_. ret (c\<lparr>ct_ID := cartID\<rparr>)))"

definition cart_Put :: "int \<Rightarrow> cart \<Rightarrow> (cart_db, unit) prog" where
  "cart_Put ttl c = map_err redis_wrap (exec (\<lambda>t db. db(redis_key (ct_ID c) := Some (Json c, t + ttl))))"

definition cart_Delete :: "string \<Rightarrow> (cart_db, unit) prog" where
  "cart_Delete cartID = map_err redis_wrap (exec (\<lambda>_ db. db(redis_key cartID := None)))"

subsection \<open>Handlers\<close>

text \<open>The response holds the cart and its total quantity.\<close>

record cart_msg =
  cm_id :: string
  cm_items :: "cart_item list"
  cm_total_quantity :: int32
  cm_updated_at :: int

definition cart_toProto :: "cart \<Rightarrow> cart_msg" where
  "cart_toProto c = \<lparr>cm_id = ct_ID c, cm_items = ct_Items c, cm_total_quantity = TotalQuantity c,
     cm_updated_at = ct_UpdatedAt c\<rparr>"

definition cart_load :: "int \<Rightarrow> string \<Rightarrow> (cart_db, cart) prog" where
  "cart_load ttl cartID =
     (if cartID = '''' then fail (errs_New KindInvalidArgument ''CART_ID_REQUIRED'') else cart_Get ttl cartID)"

definition cart_save :: "int \<Rightarrow> cart \<Rightarrow> (cart_db, cart_msg) prog" where
  "cart_save ttl c = bnd (cart_Put ttl c) (\<lambda>_. ret (cart_toProto c))"

definition GetCart :: "int \<Rightarrow> string \<Rightarrow> (cart_db, cart_msg) prog" where
  "GetCart ttl cid = bnd (cart_load ttl cid) (\<lambda>c. ret (cart_toProto c))"

text \<open>Load, change, save: the shape of the four handlers that change one cart.\<close>

definition update_cart :: "int \<Rightarrow> string \<Rightarrow> ((string \<Rightarrow> bool) \<Rightarrow> int \<Rightarrow> cart \<Rightarrow> cart res) \<Rightarrow> (cart_db, cart_msg) prog" where
  "update_cart ttl cid f =
     bnd (cart_load ttl cid) (\<lambda>c.
     bnd (asks (\<lambda>e. (uuid_ok e, now e))) (\<lambda>(ok, t).
     bnd (lift_res (f ok t c)) (\<lambda>c'. cart_save ttl c')))"

definition AddItem :: "int \<Rightarrow> string \<Rightarrow> string \<Rightarrow> int32 \<Rightarrow> (cart_db, cart_msg) prog" where
  "AddItem ttl cid p q = update_cart ttl cid (\<lambda>ok t. cart_Add ok t p q)"

definition SetItemQuantity :: "int \<Rightarrow> string \<Rightarrow> string \<Rightarrow> int32 \<Rightarrow> (cart_db, cart_msg) prog" where
  "SetItemQuantity ttl cid p q = update_cart ttl cid (\<lambda>ok t. SetQuantity ok t p q)"

definition RemoveItem :: "int \<Rightarrow> string \<Rightarrow> string \<Rightarrow> (cart_db, cart_msg) prog" where
  "RemoveItem ttl cid p = update_cart ttl cid (\<lambda>ok t c. Inr (Remove t p c))"

definition ClearCart :: "int \<Rightarrow> string \<Rightarrow> (cart_db, cart_msg) prog" where
  "ClearCart ttl cid = update_cart ttl cid (\<lambda>ok t c. Inr (cart_Clear t c))"

definition Merge :: "int \<Rightarrow> string \<Rightarrow> string \<Rightarrow> (cart_db, cart_msg) prog" where
  "Merge ttl frm to =
     (if frm = '''' \<or> to = '''' then fail (errs_New KindInvalidArgument ''CART_IDS_REQUIRED'')
      else bnd (cart_load ttl frm) (\<lambda>c.
           bnd (cart_load ttl to) (\<lambda>c'.
           bnd (asks now) (\<lambda>t.
           let m = MergeFrom t c c' in
           bnd (cart_save ttl m) (\<lambda>_.
           bnd (attempt (cart_Delete frm)) (\<lambda>_.
           ret (cart_toProto m)))))))"

end
