(* ===== verification/CartProps.thy ===== *)
theory CartProps
  imports Cart "HOL-Library.Multiset"
begin

section \<open>The cart as a bag of products, and what the store holds\<close>

text \<open>
  \<open>qty\<close> abstracts a cart to the quantity of each product.  The methods of the aggregate are refinements
  of operations on that function, and every stored cart has one line per product with a quantity from 1
  to 999, as long as no request adds so much that the int32 sum wraps.
\<close>

definition line_ok :: "cart_item \<Rightarrow> bool" where
  "line_ok it \<longleftrightarrow> 1 \<le> ci_Quantity it \<and> ci_Quantity it \<le> MaxLineQuantity"

definition cart_ok :: "cart \<Rightarrow> bool" where
  "cart_ok c \<longleftrightarrow> distinct (map ci_ProductID (ct_Items c)) \<and> (\<forall>it\<in>set (ct_Items c). line_ok it)"

definition qty :: "cart \<Rightarrow> string \<Rightarrow> int" where
  "qty c p = (case find_item p (ct_Items c) of None \<Rightarrow> 0 | Some it \<Rightarrow> ci_Quantity it)"

subsection \<open>Lines\<close>

lemma distinct_sort_key: "distinct (map f (sort_key g xs)) = distinct (map f xs)"
proof -
  have "mset (map f (sort_key g xs)) = mset (map f xs)" by (simp add: mset_map)
  then show ?thesis by (rule mset_eq_imp_distinct_iff)
qed

lemma find_item_unique:
  "distinct (map ci_ProductID its) \<Longrightarrow> it \<in> set its \<Longrightarrow> find_item (ci_ProductID it) its = Some it"
  unfolding find_item_def by (rule find_key_unique) auto

lemma find_item_set:
  assumes "distinct (map ci_ProductID xs)" "distinct (map ci_ProductID ys)" "set xs = set ys"
  shows "find_item p xs = find_item p ys"
proof (cases "find_item p xs")
  case None
  then show ?thesis using assms(3) by (simp add: find_item_def find_key_None) (metis find_key_None)
next
  case (Some it)
  then have "it \<in> set xs" "ci_ProductID it = p" unfolding find_item_def using find_in_set by fastforce+
  then show ?thesis using Some assms find_item_unique by metis
qed

lemma touch_ok [simp]: "cart_ok (touch t c) = cart_ok c"
  by (simp add: cart_ok_def touch_def distinct_sort_key)

lemma qty_touch: "cart_ok c \<Longrightarrow> qty (touch t c) = qty c"
  unfolding cart_ok_def qty_def touch_def
  by (rule ext) (simp add: find_item_set [of "sort_key ci_AddedAt (ct_Items c)" "ct_Items c"] distinct_sort_key)

lemma set_first_ids [simp]: "map ci_ProductID (set_first p q its) = map ci_ProductID its"
  by (induction its) auto

lemma set_first_lines: "it \<in> set (set_first p q its) \<Longrightarrow> it \<in> set its \<or> ci_Quantity it = q"
  by (induction its) (auto split: if_splits)

lemma find_set_first:
  "find_item p' (set_first p q its) =
     (if p' = p then map_option (\<lambda>it. it\<lparr>ci_Quantity := q\<rparr>) (find_item p its) else find_item p' its)"
  by (induction its) (auto simp: find_item_def)

lemma find_item_append:
  "find_item p (its @ [new]) = (case find_item p its of
     None \<Rightarrow> if ci_ProductID new = p then Some new else None | Some it \<Rightarrow> Some it)"
  by (simp add: find_item_def find_append split: option.splits)

lemma find_item_id: "find_item p its = Some it \<Longrightarrow> it \<in> set its \<and> ci_ProductID it = p"
  unfolding find_item_def by (rule find_in_set)

lemma find_item_None: "find_item p its = None \<longleftrightarrow> p \<notin> ci_ProductID ` set its"
  by (simp add: find_item_def find_key_None)

text \<open>\<open>put_line\<close> is an update of the bag at one product.\<close>

lemma put_line_ok:
  assumes "cart_ok c" "line_ok new"
    and "\<And>q. 1 \<le> q \<Longrightarrow> q \<le> MaxLineQuantity \<Longrightarrow> 1 \<le> f q \<and> f q \<le> MaxLineQuantity"
  shows "cart_ok (put_line new f c)"
proof (cases "find_item (ci_ProductID new) (ct_Items c)")
  case None
  then have "put_line new f c = c\<lparr>ct_Items := ct_Items c @ [new]\<rparr>" by (simp add: put_line_def)
  then show ?thesis using None assms(1,2) by (auto simp: cart_ok_def find_item_None)
next
  case (Some it)
  then have "line_ok it" using assms(1) find_item_id by (auto simp: cart_ok_def)
  then have "1 \<le> f (ci_Quantity it) \<and> f (ci_Quantity it) \<le> MaxLineQuantity"
    using assms(3) by (simp add: line_ok_def)
  then show ?thesis using assms(1) Some
    by (auto simp: put_line_def cart_ok_def line_ok_def dest!: set_first_lines)
qed

lemma qty_put_line:
  assumes "cart_ok c"
  shows "qty (put_line new f c) = (qty c)(ci_ProductID new :=
     (if qty c (ci_ProductID new) = 0 then ci_Quantity new else f (qty c (ci_ProductID new))))"
proof (cases "find_item (ci_ProductID new) (ct_Items c)")
  case None
  then show ?thesis by (auto simp: put_line_def qty_def find_item_append split: option.splits)
next
  case (Some it)
  then have "1 \<le> ci_Quantity it" using assms find_item_id by (auto simp: cart_ok_def line_ok_def)
  then show ?thesis using Some by (auto simp: put_line_def qty_def find_set_first)
qed

lemma qty_nonneg: "cart_ok c \<Longrightarrow> 0 \<le> qty c p \<and> qty c p \<le> MaxLineQuantity"
  using find_item_id by (force simp: qty_def cart_ok_def line_ok_def MaxLineQuantity_def split: option.splits)

lemma clampQty_min: "clampQty q = min MaxLineQuantity q"
  by (simp add: clampQty_def min_def)

subsection \<open>The methods of the aggregate\<close>

datatype change = ChAdd string int32 | ChSet string int32 | ChRemove string | ChClear | ChMerge cart

fun apply_change :: "(string \<Rightarrow> bool) \<Rightarrow> int \<Rightarrow> change \<Rightarrow> cart \<Rightarrow> cart res" where
  "apply_change ok t (ChAdd p q) c = cart_Add ok t p q c"
| "apply_change ok t (ChSet p q) c = SetQuantity ok t p q c"
| "apply_change ok t (ChRemove p) c = Inr (Remove t p c)"
| "apply_change ok t ChClear c = Inr (cart_Clear t c)"
| "apply_change ok t (ChMerge other) c = Inr (MergeFrom t other c)"

fun abs_change :: "change \<Rightarrow> (string \<Rightarrow> int) \<Rightarrow> string \<Rightarrow> int" where
  "abs_change (ChAdd p q) b = b(p := min MaxLineQuantity (b p + q))"
| "abs_change (ChSet p q) b = b(p := min MaxLineQuantity q)"
| "abs_change (ChRemove p) b = b(p := 0)"
| "abs_change ChClear b = (\<lambda>_. 0)"
| "abs_change (ChMerge other) b = (\<lambda>p. min MaxLineQuantity (b p + qty other p))"

text \<open>Requests whose int32 sum with a line stays in range, and carts that were read from the store.\<close>

fun sane :: "change \<Rightarrow> bool" where
  "sane (ChAdd p q) = (q \<le> 2147483647 - MaxLineQuantity)"
| "sane (ChMerge other) = cart_ok other"
| "sane _ = True"

lemma sum_in_range:
  "1 \<le> q \<Longrightarrow> q \<le> MaxLineQuantity \<Longrightarrow> 0 < d \<Longrightarrow> d \<le> 2147483647 - MaxLineQuantity \<Longrightarrow> i32 (q + d) = q + d"
  by (simp add: MaxLineQuantity_def in_i32_def)

definition add_line :: "cart_item \<Rightarrow> cart \<Rightarrow> cart" where
  "add_line oi = put_line oi (\<lambda>q. clampQty (i32 (q + ci_Quantity oi)))"

lemma add_line:
  assumes "cart_ok c" "0 < ci_Quantity oi" "ci_Quantity oi \<le> MaxLineQuantity"
  shows "cart_ok (add_line oi c) \<and> qty (add_line oi c) =
     (qty c)(ci_ProductID oi := min MaxLineQuantity (qty c (ci_ProductID oi) + ci_Quantity oi))"
proof -
  have r: "i32 (q + ci_Quantity oi) = q + ci_Quantity oi" if "1 \<le> q" "q \<le> MaxLineQuantity" for q
    using that assms by (intro sum_in_range) (simp_all add: MaxLineQuantity_def)
  have ok: "cart_ok (add_line oi c)"
    unfolding add_line_def using assms
    by (intro put_line_ok) (auto simp: line_ok_def r clampQty_min MaxLineQuantity_def)
  show ?thesis
  proof (cases "qty c (ci_ProductID oi) = 0")
    case True
    then show ?thesis using ok assms by (simp add: add_line_def qty_put_line min_def)
  next
    case False
    then have "1 \<le> qty c (ci_ProductID oi)" "qty c (ci_ProductID oi) \<le> MaxLineQuantity"
      using qty_nonneg [OF assms(1), of "ci_ProductID oi"] by auto
    then show ?thesis using ok False assms by (simp add: add_line_def qty_put_line r clampQty_min)
  qed
qed

lemma merge_fold:
  assumes "distinct (map ci_ProductID its)" "\<forall>it\<in>set its. line_ok it" "cart_ok c"
  shows "cart_ok (fold add_line its c) \<and>
     (\<forall>p. qty (fold add_line its c) p = min MaxLineQuantity
        (qty c p + (case find_item p its of None \<Rightarrow> 0 | Some it \<Rightarrow> ci_Quantity it)))"
  using assms
proof (induction its arbitrary: c)
  case Nil
  then show ?case using qty_nonneg by (auto simp: find_item_def)
next
  case (Cons it its)
  have it: "0 < ci_Quantity it" "ci_Quantity it \<le> MaxLineQuantity" using Cons.prems(2) by (auto simp: line_ok_def)
  note a = add_line [OF Cons.prems(3) it]
  have IH: "cart_ok (fold add_line its (add_line it c)) \<and>
     (\<forall>p. qty (fold add_line its (add_line it c)) p = min MaxLineQuantity
        (qty (add_line it c) p + (case find_item p its of None \<Rightarrow> 0 | Some it \<Rightarrow> ci_Quantity it)))"
    using Cons.prems a by (intro Cons.IH) auto
  have new: "find_item (ci_ProductID it) its = None" using Cons.prems(1) by (simp add: find_item_None)
  have step: "find_item p (it # its) = (if ci_ProductID it = p then Some it else find_item p its)" for p
    by (simp add: find_item_def)
  show ?case using IH a new by (auto simp: step)
qed

lemma MergeFrom_add_line: "MergeFrom t other c = touch t (fold add_line (ct_Items other) c)"
proof -
  have "(\<lambda>oi. put_line oi (\<lambda>q. clampQty (i32 (q + ci_Quantity oi)))) = add_line"
    by (rule ext) (simp add: add_line_def)
  then show ?thesis by (simp add: MergeFrom_def)
qed

lemma Remove_refines:
  assumes "cart_ok c"
  shows "cart_ok (Remove t p c) \<and> qty (Remove t p c) = (qty c)(p := 0)"
proof -
  have ok: "cart_ok (c\<lparr>ct_Items := filter (\<lambda>it. ci_ProductID it \<noteq> p) (ct_Items c)\<rparr>)"
    using assms by (simp add: cart_ok_def distinct_map_filter)
  have "find_item p' (filter (\<lambda>it. ci_ProductID it \<noteq> p) its) = (if p' = p then None else find_item p' its)" for p' its
    by (induction its) (auto simp: find_item_def)
  then show ?thesis using ok by (auto simp: Remove_def qty_touch qty_def)
qed

lemma change_refines:
  assumes "cart_ok c" "sane ch" "apply_change ok t ch c = Inr c'"
  shows "cart_ok c' \<and> qty c' = abs_change ch (qty c)"
proof (cases ch)
  case (ChAdd p d)
  let ?new = "\<lparr>ci_ProductID = p, ci_Quantity = clampQty d, ci_AddedAt = t\<rparr>"
  let ?f = "\<lambda>q. clampQty (i32 (q + d))"
  have d: "0 < d" "d \<le> 2147483647 - MaxLineQuantity" and c': "c' = touch t (put_line ?new ?f c)"
    using assms ChAdd by (auto simp: cart_Add_def split: sum.splits if_splits)
  have r: "i32 (q + d) = q + d" if "1 \<le> q" "q \<le> MaxLineQuantity" for q using that d by (rule sum_in_range)
  have ok: "cart_ok (put_line ?new ?f c)"
    using assms(1) d by (intro put_line_ok) (auto simp: line_ok_def r clampQty_min MaxLineQuantity_def)
  have "qty (put_line ?new ?f c) p = min MaxLineQuantity (qty c p + d)"
  proof (cases "qty c p = 0")
    case True
    then show ?thesis using assms(1) by (simp add: qty_put_line clampQty_min)
  next
    case False
    then have "1 \<le> qty c p" "qty c p \<le> MaxLineQuantity" using qty_nonneg [OF assms(1), of p] by auto
    then show ?thesis using assms(1) False by (simp add: qty_put_line r clampQty_min)
  qed
  then show ?thesis using ok c' ChAdd assms(1) by (auto simp: qty_touch qty_put_line)
next
  case (ChSet p q)
  show ?thesis
  proof (cases "q = 0")
    case True
    then have "c' = Remove t p c" using assms(3) ChSet by (simp add: SetQuantity_def)
    then show ?thesis using Remove_refines [OF assms(1)] ChSet True by (simp add: MaxLineQuantity_def)
  next
    case False
    let ?new = "\<lparr>ci_ProductID = p, ci_Quantity = clampQty q, ci_AddedAt = t\<rparr>"
    have q: "0 < q" and c': "c' = touch t (put_line ?new (\<lambda>_. clampQty q) c)"
      using assms(3) ChSet False by (auto simp: SetQuantity_def split: sum.splits if_splits)
    have ok: "cart_ok (put_line ?new (\<lambda>_. clampQty q) c)"
      using assms(1) q by (intro put_line_ok) (auto simp: line_ok_def clampQty_min MaxLineQuantity_def)
    then show ?thesis using c' ChSet assms(1) by (simp add: qty_touch qty_put_line clampQty_min)
  qed
next
  case (ChRemove p)
  then show ?thesis using Remove_refines [OF assms(1)] assms(3) by auto
next
  case ChClear
  have ok: "cart_ok (c\<lparr>ct_Items := []\<rparr>)" by (simp add: cart_ok_def)
  have "qty (c\<lparr>ct_Items := []\<rparr>) = (\<lambda>_. 0)" by (rule ext) (simp add: qty_def find_item_def)
  then show ?thesis using ChClear assms(3) ok by (auto simp: cart_Clear_def qty_touch)
next
  case (ChMerge other)
  have "distinct (map ci_ProductID (ct_Items other))" "\<forall>it\<in>set (ct_Items other). line_ok it"
    using assms(2) ChMerge by (auto simp: cart_ok_def)
  note m = merge_fold [OF this assms(1)]
  have "c' = touch t (fold add_line (ct_Items other) c)" using assms(3) ChMerge by (simp add: MergeFrom_add_line)
  then show ?thesis using m ChMerge by (simp add: qty_touch qty_def [of other] fun_eq_iff)
qed

subsection \<open>The store: every handler, in any order\<close>

datatype cart_req = ReqGet string | ReqChange string change | ReqMerge string string | ReqDelete string

text \<open>The four changing handlers are \<open>update_cart\<close> with a change (not \<open>ChMerge\<close>, which is no request of
  its own); \<open>ReqDelete\<close> is the key disappearing from Redis at any time, as an eviction does.\<close>

fun cart_prog :: "int \<Rightarrow> cart_req \<Rightarrow> (cart_db, unit) prog" where
  "cart_prog ttl (ReqGet cid) = discard (GetCart ttl cid)"
| "cart_prog ttl (ReqChange cid (ChAdd p q)) = discard (AddItem ttl cid p q)"
| "cart_prog ttl (ReqChange cid (ChSet p q)) = discard (SetItemQuantity ttl cid p q)"
| "cart_prog ttl (ReqChange cid (ChRemove p)) = discard (RemoveItem ttl cid p)"
| "cart_prog ttl (ReqChange cid ChClear) = discard (ClearCart ttl cid)"
| "cart_prog ttl (ReqChange cid (ChMerge _)) = ret ()"
| "cart_prog ttl (ReqMerge frm to) = discard (Merge ttl frm to)"
| "cart_prog ttl (ReqDelete cid) = cart_Delete cid"

definition carts_inv :: "cart_db \<Rightarrow> bool" where
  "carts_inv db \<longleftrightarrow> (\<forall>k b ex. db k = Some (b, ex) \<longrightarrow> (\<exists>c. b = Json c \<and> cart_ok c))"

fun sane_req :: "cart_req \<Rightarrow> bool" where
  "sane_req (ReqChange _ ch) = sane ch"
| "sane_req _ = True"

lemma carts_inv_put: "carts_inv db \<Longrightarrow> cart_ok c \<Longrightarrow> carts_inv (db(k := Some (Json c, ex)))"
  by (auto simp: carts_inv_def)

lemma carts_inv_del: "carts_inv db \<Longrightarrow> carts_inv (db(k := None))"
  by (auto simp: carts_inv_def)

lemma carts_inv_live: "carts_inv db \<Longrightarrow> live t k db = Some b \<Longrightarrow> \<exists>c. b = Json c \<and> cart_ok c"
  by (auto simp: carts_inv_def live_def split: option.splits if_splits prod.splits)

lemma cart_ok_NewCart [simp]: "cart_ok (NewCart t cid)"
  by (simp add: cart_ok_def NewCart_def)

lemma cart_ok_rename [simp]: "cart_ok (c\<lparr>ct_ID := cid\<rparr>) = cart_ok c"
  by (simp add: cart_ok_def)

lemma wp_cart_loadI:
  assumes "carts_inv db" "\<And>err db' fs. carts_inv db' \<Longrightarrow> Q (Inl err) db' (e\<lparr>faults := fs\<rparr>)"
    and "\<And>c db' fs. carts_inv db' \<Longrightarrow> cart_ok c \<Longrightarrow> Q (Inr c) db' (e\<lparr>faults := fs\<rparr>)"
  shows "wp (cart_load ttl cid) Q db e"
proof -
  have ex: "carts_inv (case live t k db of None \<Rightarrow> db | Some b \<Rightarrow> db(k := Some (b, t')))" for t t' k
    using carts_inv_live [OF assms(1), of t k] assms(1) carts_inv_put [OF assms(1)]
    by (auto split: option.splits)
  have got: "wp (case b of
      None \<Rightarrow> bnd (asks now) (\<lambda>t. ret (NewCart t cid))
    | Some Garbage \<Rightarrow> fail (errs_Wrap (PlainErr ''json'') KindInternal ''CART_DECODE'')
    | Some (Json c) \<Rightarrow> bnd (attempt (redis_expire ttl (redis_key cid))) (\<lambda>_. ret (c\<lparr>ct_ID := cid\<rparr>))) Q db (e\<lparr>faults := fs\<rparr>)"
    if b: "b = live (now e) (redis_key cid) db" for b fs
  proof (cases b)
    case None
    then show ?thesis using assms by simp
  next
    case (Some x)
    then obtain c where "x = Json c" "cart_ok c" using carts_inv_live [OF assms(1)] b by metis
    then show ?thesis using Some assms ex by (auto simp: redis_expire_def intro!: wp_execI)
  qed
  have err: "Q (Inl x) db e" for x using assms(2) [OF assms(1), of x "faults e"] by simp
  show ?thesis
  proof (cases "cid = ''''")
    case True
    then show ?thesis using err by (simp add: cart_load_def)
  next
    case False
    then show ?thesis unfolding cart_load_def cart_Get_def
      using got by (auto intro!: wp_queryI assms(2) [OF assms(1)])
  qed
qed

lemma wp_cart_saveI:
  assumes "carts_inv db" "cart_ok c" "\<And>r db' fs. carts_inv db' \<Longrightarrow> Q r db' (e\<lparr>faults := fs\<rparr>)"
  shows "wp (cart_save ttl c) Q db e"
  unfolding cart_save_def cart_Put_def
  using assms carts_inv_put [OF assms(1,2)] by (auto intro!: wp_execI)

lemma wp_update_cartI:
  assumes "carts_inv db" "\<And>ok t c c'. cart_ok c \<Longrightarrow> f ok t c = Inr c' \<Longrightarrow> cart_ok c'"
  shows "wp (update_cart ttl cid f) (\<lambda>_ db' _. carts_inv db') db e"
  unfolding update_cart_def
  using assms by (auto intro!: wp_cart_loadI wp_cart_saveI split: sum.splits)

lemma apply_change_eta:
  "(\<lambda>ok t. apply_change ok t (ChAdd p q)) = (\<lambda>ok t. cart_Add ok t p q)"
  "(\<lambda>ok t. apply_change ok t (ChSet p q)) = (\<lambda>ok t. SetQuantity ok t p q)"
  "(\<lambda>ok t. apply_change ok t (ChRemove p)) = (\<lambda>ok t c. Inr (Remove t p c))"
  "(\<lambda>ok t. apply_change ok t ChClear) = (\<lambda>ok t c. Inr (cart_Clear t c))"
  by (rule ext; rule ext; rule ext; simp)+

lemma cart_prog_inv:
  assumes "carts_inv db" "sane_req q"
  shows "wp (cart_prog ttl q) (\<lambda>_ db' _. carts_inv db') db e"
proof (cases q)
  case (ReqGet cid)
  then show ?thesis using assms by (auto simp: GetCart_def intro!: wp_cart_loadI)
next
  case (ReqChange cid ch)
  have up: "wp (update_cart ttl cid (\<lambda>ok t. apply_change ok t ch)) (\<lambda>_ db' _. carts_inv db') db e"
    using assms ReqChange by (intro wp_update_cartI) (auto dest: change_refines)
  show ?thesis using up ReqChange assms
    by (cases ch) (simp_all add: apply_change_eta AddItem_def SetItemQuantity_def RemoveItem_def ClearCart_def)
next
  case (ReqMerge frm to)
  have fm: "cart_ok (MergeFrom t a b)" if "cart_ok a" "cart_ok b" for a b t
    using change_refines [of b "ChMerge a" _ t] that by simp
  show ?thesis using assms ReqMerge
    by (auto simp: Merge_def cart_Delete_def Let_def intro!: wp_cart_loadI wp_cart_saveI wp_execI carts_inv_del fm split: sum.splits)
next
  case (ReqDelete cid)
  then show ?thesis using assms by (auto simp: cart_Delete_def intro!: wp_execI carts_inv_del)
qed

definition cart_step :: "int \<times> cart_req \<Rightarrow> env \<Rightarrow> cart_db \<Rightarrow> cart_db" where
  "cart_step x e db = (if sane_req (snd x) then after (cart_prog (fst x) (snd x)) e db else db)"

interpretation cart_machine: inv_machine cart_step empty_carts carts_inv
proof
  show "carts_inv empty_carts" by (simp add: carts_inv_def empty_carts_def)
  show "carts_inv db \<Longrightarrow> carts_inv (cart_step op e db)" for db op e
    by (auto simp: cart_step_def intro: after_wp [OF cart_prog_inv])
qed

subsection \<open>What the handlers do to the stored carts\<close>

definition contents :: "int \<Rightarrow> string \<Rightarrow> cart_db \<Rightarrow> string \<Rightarrow> int" where
  "contents t cid db = (case live t (redis_key cid) db of Some (Json c) \<Rightarrow> qty c | _ \<Rightarrow> (\<lambda>_. 0))"

text \<open>Two states that a reader at time \<open>t\<close> cannot tell apart.\<close>

definition same_live :: "int \<Rightarrow> cart_db \<Rightarrow> cart_db \<Rightarrow> bool" where
  "same_live t db db' \<longleftrightarrow> (\<forall>k. live t k db' = live t k db)"

lemma redis_key_inj [simp]: "redis_key a = redis_key b \<longleftrightarrow> a = b"
  by (simp add: redis_key_def)

lemma live_put: "live t k (db(k' := Some (b, ex))) = (if k = k' then if t < ex then Some b else None else live t k db)"
  by (simp add: live_def)

lemma live_del: "live t k (db(k' := None)) = (if k = k' then None else live t k db)"
  by (simp add: live_def)

lemma same_live_refl [simp]: "same_live t db db"
  by (simp add: same_live_def)

lemma same_live_contents: "same_live t db db' \<Longrightarrow> contents t cid db' = contents t cid db"
  by (simp add: same_live_def contents_def)

lemma same_live_refresh:
  "0 < ttl \<Longrightarrow> same_live t db (case live t k db of None \<Rightarrow> db | Some b \<Rightarrow> db(k := Some (b, t + ttl)))"
  by (auto simp: same_live_def live_put split: option.splits)

text \<open>Loading a cart changes expiries at most; the loaded cart has the stored contents.\<close>

lemma wp_cart_load_exactI:
  assumes "carts_inv db" "0 < ttl"
    and "\<And>err db' fs. same_live (now e) db db' \<Longrightarrow> Q (Inl err) db' (e\<lparr>faults := fs\<rparr>)"
    and "\<And>c db' fs. same_live (now e) db db' \<Longrightarrow> carts_inv db' \<Longrightarrow> cart_ok c \<Longrightarrow> ct_ID c = cid \<Longrightarrow>
       qty c = contents (now e) cid db \<Longrightarrow> Q (Inr c) db' (e\<lparr>faults := fs\<rparr>)"
  shows "wp (cart_load ttl cid) Q db e"
proof -
  let ?refreshed = "case live (now e) (redis_key cid) db of None \<Rightarrow> db
      | Some b \<Rightarrow> db(redis_key cid := Some (b, now e + ttl))"
  note sl = same_live_refresh [OF assms(2), of "now e" db "redis_key cid"]
  have rename: "qty (c\<lparr>ct_ID := cid\<rparr>) = qty c" for c by (rule ext) (simp add: qty_def)
  have inv: "carts_inv ?refreshed"
    using carts_inv_live [OF assms(1), of "now e" "redis_key cid"] carts_inv_put [OF assms(1)] assms(1)
    by (auto split: option.splits)
  have new: "qty (NewCart t cid) = (\<lambda>_. 0)" for t by (rule ext) (simp add: qty_def NewCart_def find_item_def)
  have nid: "ct_ID (NewCart t cid) = cid" for t by (simp add: NewCart_def)
  have err: "Q (Inl x) db (e\<lparr>faults := fs\<rparr>)" for x fs by (rule assms(3)) simp
  show ?thesis
  proof (cases "live (now e) (redis_key cid) db")
    case None
    then have "Q (Inr (NewCart (now e) cid)) db (e\<lparr>faults := fs\<rparr>)" for fs
      using assms(1) new nid by (intro assms(4)) (simp_all add: contents_def)
    then show ?thesis using None err err [of _ "faults e"]
      by (auto simp: cart_load_def cart_Get_def intro!: wp_queryI)
  next
    case (Some b)
    then obtain c where c: "b = Json c" "cart_ok c" using carts_inv_live [OF assms(1)] by metis
    have "Q (Inr (c\<lparr>ct_ID := cid\<rparr>)) db (e\<lparr>faults := fs\<rparr>)" "Q (Inr (c\<lparr>ct_ID := cid\<rparr>)) ?refreshed (e\<lparr>faults := fs\<rparr>)" for fs
      using assms(1) c Some sl inv by - (rule assms(4); simp add: contents_def rename)+
    then show ?thesis using Some c err err [of _ "faults e"]
      by (auto simp: cart_load_def cart_Get_def redis_expire_def intro!: wp_queryI wp_execI)
  qed
qed

text \<open>A cart is stored under its id, or the command failed and it may or may not be.\<close>

definition stored :: "int \<Rightarrow> int \<Rightarrow> cart \<Rightarrow> cart_db \<Rightarrow> cart_db" where
  "stored t ttl c db = db(redis_key (ct_ID c) := Some (Json c, t + ttl))"

lemma wp_cart_save_exactI:
  assumes "\<And>err db' fs. db' = db \<or> db' = stored (now e) ttl c db \<Longrightarrow> Q (Inl err) db' (e\<lparr>faults := fs\<rparr>)"
    and "\<And>m fs. Q (Inr m) (stored (now e) ttl c db) (e\<lparr>faults := fs\<rparr>)"
  shows "wp (cart_save ttl c) Q db e"
  unfolding cart_save_def cart_Put_def
  using assms by (auto intro!: wp_execI simp: stored_def [symmetric])

lemma contents_stored:
  assumes "0 < ttl"
  shows "contents t cid (stored t ttl c db) = (if cid = ct_ID c then qty c else contents t cid db)"
  using assms by (simp add: contents_def stored_def live_put)

definition bag_updated :: "int \<Rightarrow> string \<Rightarrow> (string \<Rightarrow> int) \<Rightarrow> cart_db \<Rightarrow> cart_db \<Rightarrow> bool" where
  "bag_updated t cid b db db' \<longleftrightarrow> contents t cid db' = b \<and> (\<forall>other. other \<noteq> cid \<longrightarrow> contents t other db' = contents t other db)"

lemma bag_updated_same: "same_live t db db' \<Longrightarrow> bag_updated t cid (contents t cid db) db db'"
  by (simp add: bag_updated_def same_live_contents)

lemma bag_updated_stored:
  "0 < ttl \<Longrightarrow> same_live t db db1 \<Longrightarrow> bag_updated t (ct_ID c) (qty c) db (stored t ttl c db1)"
  by (auto simp: bag_updated_def contents_stored same_live_contents)

lemma apply_change_id: "apply_change ok t ch c = Inr c' \<Longrightarrow> ct_ID c' = ct_ID c"
proof -
  have put: "ct_ID (put_line new f d) = ct_ID d" for new f d
    by (simp add: put_line_def split: option.split)
  have fold: "ct_ID (fold add_line its d) = ct_ID d" for its d
    by (induction its arbitrary: d) (simp_all add: add_line_def put)
  show "apply_change ok t ch c = Inr c' \<Longrightarrow> ct_ID c' = ct_ID c"
    by (cases ch) (auto simp: cart_Add_def SetQuantity_def Remove_def cart_Clear_def touch_def put fold MergeFrom_add_line
        split: sum.splits if_splits)
qed

lemma wp_update_cart_exact:
  assumes "carts_inv db" "0 < ttl" "sane ch"
  shows "wp (update_cart ttl cid (\<lambda>ok t. apply_change ok t ch)) (\<lambda>r db' _.
     let b = contents (now e) cid db in
     case r of Inr _ \<Rightarrow> bag_updated (now e) cid (abs_change ch b) db db'
     | Inl _ \<Rightarrow> bag_updated (now e) cid b db db' \<or> bag_updated (now e) cid (abs_change ch b) db db') db e"
proof -
  have upd: "bag_updated (now e) cid (abs_change ch (contents (now e) cid db)) db (stored (now e) ttl c' db1)"
    if "apply_change ok t ch c = Inr c'" "cart_ok c" "ct_ID c = cid" "qty c = contents (now e) cid db" "same_live (now e) db db1"
    for ok t c c' db1
    using that change_refines [OF that(2) assms(3) that(1)] apply_change_id [OF that(1)]
      bag_updated_stored [OF assms(2) that(5), of c'] by simp
  have same: "bag_updated (now e) cid (contents (now e) cid db) db db'" if "same_live (now e) db db'" for db'
    using that by (rule bag_updated_same)
  let ?Q = "\<lambda>r db' (_::env). let b = contents (now e) cid db in
     case r of Inr _ \<Rightarrow> bag_updated (now e) cid (abs_change ch b) db db'
     | Inl _ \<Rightarrow> bag_updated (now e) cid b db db' \<or> bag_updated (now e) cid (abs_change ch b) db db'"
  have rest: "wp (bnd (lift_res (apply_change ok t ch c)) (cart_save ttl)) ?Q db1 (e\<lparr>faults := fs\<rparr>)"
    if "same_live (now e) db db1" "cart_ok c" "ct_ID c = cid" "qty c = contents (now e) cid db" for ok t c db1 fs
  proof (cases "apply_change ok t ch c")
    case (Inl err)
    then show ?thesis using same [OF that(1)] by (simp add: Let_def)
  next
    case (Inr c')
    have "wp (cart_save ttl c') ?Q db1 (e\<lparr>faults := fs\<rparr>)"
      by (rule wp_cart_save_exactI) (use upd [OF Inr that(2-4,1)] same [OF that(1)] in \<open>auto simp: Let_def\<close>)
    then show ?thesis using Inr by simp
  qed
  have "wp (bnd (cart_load ttl cid) (\<lambda>c. bnd (asks (\<lambda>e. (uuid_ok e, now e)))
      (\<lambda>(ok, t). bnd (lift_res (apply_change ok t ch c)) (cart_save ttl)))) ?Q db e"
    unfolding wp_bnd [of "cart_load ttl cid"]
    by (rule wp_cart_load_exactI [OF assms(1,2)]; use same rest in \<open>simp add: Let_def\<close>)
  then show ?thesis by (simp add: update_cart_def)
qed


text \<open>A concrete run: a cart with one unit of a product, and a second cart.\<close>

definition sample_carts :: cart_db where
  "sample_carts = run_ops cart_step [((1000, ReqChange ''c'' (ChAdd ''p'' 1)), env_at 1),
     ((1000, ReqChange ''d'' (ChAdd ''p'' 998)), env_at 2), ((1000, ReqChange ''d'' (ChAdd ''q'' 5)), env_at 3)] empty_carts"

lemma sample_carts_reach: "reach cart_step empty_carts sample_carts"
  unfolding sample_carts_def by (rule reach_run_ops [OF reach.init])




subsection \<open>What goes wrong\<close>

text \<open>Merging a cart into itself answers with doubled lines and leaves no cart behind.\<close>

theorem self_merge_loses_cart:
  "live 5 (redis_key ''d'') (fst (snd (Merge 1000 ''d'' ''d'' sample_carts (env_at 5)))) = None \<and>
   (case fst (Merge 1000 ''d'' ''d'' sample_carts (env_at 5)) of
      Inr m \<Rightarrow> map ci_Quantity (cm_items m) = [999, 10] | Inl _ \<Rightarrow> False)"
  by code_simp

text \<open>The int32 sum of a line and a large request wraps below zero, past the cap; pricing then refuses
  the cart.\<close>

theorem add_overflows_line:
  "contents 5 ''c'' (fst (snd (AddItem 1000 ''c'' ''p'' 2147483647 sample_carts (env_at 5)))) ''p'' = - 2147483648"
  by code_simp

end

