(* ===== verification/Pricing.thy ===== *)
theory Pricing
  imports OrderDomain Prog Strs
begin

section \<open>The pricing service (services/pricing)\<close>

text \<open>
  The money arithmetic of internal/domain/money.go, coupons and \<open>Price\<close> of quote.go, the coupon store,
  and \<open>QuotePrice\<close> of internal/grpcsvc/server.go.  The catalog is a client: a program that answers a
  batch of ids.  A Go map is an association list with distinct keys; the order in which a \<open>range\<close> visits
  it is open in Go, so the order is an argument (\<open>iter\<close>, a permutation of the list).
\<close>

subsection \<open>Money\<close>

definition MulQty :: "money \<Rightarrow> int32 \<Rightarrow> money" where
  "MulQty m q = \<lparr>currency = currency m, cents = i64 (cents m * q)\<rparr>"

definition money_Add :: "money \<Rightarrow> money \<Rightarrow> money" where
  "money_Add m o' = \<lparr>currency = currency m, cents = i64 (cents m + cents o')\<rparr>"

definition money_Sub :: "money \<Rightarrow> money \<Rightarrow> money" where
  "money_Sub m o' = (let v = i64 (cents m - cents o') in \<lparr>currency = currency m, cents = (if v < 0 then 0 else v)\<rparr>)"

definition PercentOff :: "money \<Rightarrow> int32 \<Rightarrow> money" where
  "PercentOff m p =
     (if p \<le> 0 then \<lparr>currency = currency m, cents = 0\<rparr>
      else let p' = (if p > 100 then 100 else p) in
           \<lparr>currency = currency m, cents = i64 (i64 (cents m * p') + 50) sdiv 100\<rparr>)"

definition TaxBps :: "money \<Rightarrow> int32 \<Rightarrow> money" where
  "TaxBps m bps =
     (if bps \<le> 0 then \<lparr>currency = currency m, cents = 0\<rparr>
      else \<lparr>currency = currency m, cents = i64 (i64 (cents m * bps) + 5000) sdiv 10000\<rparr>)"

definition money_Min :: "money \<Rightarrow> money \<Rightarrow> money" where
  "money_Min a b = (if cents a < cents b then a else b)"

subsection \<open>Coupons and quotes\<close>

datatype coupon_kind = CouponPercent | CouponAmount

record coupon =
  cp_Code :: string
  cp_Kind :: coupon_kind
  cp_PercentOff :: int32
  cp_AmountOff :: money
  cp_ExpiresAt :: "int option"
  cp_MaxUses :: int64
  cp_UsedCount :: int64

definition Valid :: "coupon \<Rightarrow> int \<Rightarrow> bool \<times> string" where
  "Valid c t =
     (if (case cp_ExpiresAt c of None \<Rightarrow> False | Some x \<Rightarrow> x < t) then (False, ''EXPIRED'')
      else if cp_MaxUses c > 0 \<and> cp_UsedCount c \<ge> cp_MaxUses c then (False, ''EXHAUSTED'')
      else (True, ''''))"

record quote =
  qt_Lines :: "line list"
  qt_Subtotal :: money
  qt_Discount :: money
  qt_Tax :: money
  qt_Total :: money
  qt_Coupon :: string
  qt_Signature :: string

text \<open>The loop of \<open>Price\<close>: every line gets its total, the subtotal adds up.\<close>

fun price_loop :: "money \<Rightarrow> line list \<Rightarrow> (line list \<times> money) res" where
  "price_loop subtotal [] = Inr ([], subtotal)"
| "price_loop subtotal (l # ls) =
     (if l_Quantity l \<le> 0 then Inl (errs_New KindInvalidArgument ''BAD_QUANTITY'')
      else let l' = l\<lparr>l_LineTotal := MulQty (l_UnitPrice l) (l_Quantity l)\<rparr> in
           case price_loop (money_Add subtotal (l_LineTotal l')) ls of
             Inl err \<Rightarrow> Inl err
           | Inr (ls', s) \<Rightarrow> Inr (l' # ls', s))"

definition discount_of :: "string \<Rightarrow> coupon \<Rightarrow> money \<Rightarrow> money" where
  "discount_of cur c subtotal = (case cp_Kind c of
       CouponPercent \<Rightarrow> PercentOff subtotal (cp_PercentOff c)
     | CouponAmount \<Rightarrow> money_Min \<lparr>currency = cur, cents = cents (cp_AmountOff c)\<rparr> subtotal)"

text \<open>\<open>signature\<close>: the text that is hashed, with the lines sorted by product.\<close>

definition signed_line :: "line \<Rightarrow> string" where
  "signed_line l = l_ProductID l @ '':'' @ FormatInt (l_Quantity l) @ ''@'' @ FormatInt (cents (l_UnitPrice l)) @ '';''"

definition signed_text :: "string \<Rightarrow> quote \<Rightarrow> string" where
  "signed_text cur q = ''cur='' @ cur @ '';disc='' @ FormatInt (cents (qt_Discount q)) @
     '';tax='' @ FormatInt (cents (qt_Tax q)) @ '';total='' @ FormatInt (cents (qt_Total q)) @ '';'' @
     concat (map signed_line (sort_key l_ProductID (qt_Lines q)))"

definition signature :: "(string \<Rightarrow> string) \<Rightarrow> string \<Rightarrow> quote \<Rightarrow> string" where
  "signature sha cur q = sha (signed_text cur q)"

definition Price :: "(string \<Rightarrow> string) \<Rightarrow> string \<Rightarrow> line list \<Rightarrow> coupon option \<Rightarrow> int32 \<Rightarrow> int \<Rightarrow> quote res" where
  "Price sha cur ls cpn taxBps t =
     (if ls = [] then Inl (errs_New KindInvalidArgument ''EMPTY_QUOTE'')
      else case price_loop \<lparr>currency = cur, cents = 0\<rparr> ls of
        Inl err \<Rightarrow> Inl err
      | Inr (ls', subtotal) \<Rightarrow>
          (case (case cpn of None \<Rightarrow> Inr (\<lparr>currency = cur, cents = 0\<rparr>, '''')
                 | Some c \<Rightarrow> if \<not> fst (Valid c t) then Inl (errs_New KindFailedPrecondition (''COUPON_'' @ snd (Valid c t)))
                             else Inr (discount_of cur c subtotal, cp_Code c)) of
             Inl err \<Rightarrow> Inl err
           | Inr (discount, code) \<Rightarrow>
               let taxable = money_Sub subtotal discount;
                   tax = TaxBps taxable taxBps;
                   total = money_Add taxable tax;
                   q = \<lparr>qt_Lines = ls', qt_Subtotal = subtotal, qt_Discount = discount, qt_Tax = tax,
                        qt_Total = total, qt_Coupon = code, qt_Signature = ''''\<rparr>
               in Inr (q\<lparr>qt_Signature := signature sha cur q\<rparr>)))"

subsection \<open>The coupon store\<close>

record pricing_db =
  coupons :: "coupon list"

definition coupon_unknown :: go_err where
  "coupon_unknown = errs_New KindNotFound ''COUPON_UNKNOWN''"

definition GetCoupon :: "string \<Rightarrow> (pricing_db, coupon) prog" where
  "GetCoupon code = map_err (\<lambda>err. if err = NoRows then coupon_unknown else wrap err)
     (query_row (\<lambda>d. List.find (\<lambda>c. cp_Code c = code) (coupons d)))"

subsection \<open>Messages\<close>

record quote_line_msg =
  ql_product_id :: string
  ql_title :: string
  ql_quantity :: int32
  ql_shop_id :: string
  ql_unit_price :: "wire_money option"
  ql_line_total :: "wire_money option"

record quote_msg =
  q_lines :: "quote_line_msg list"
  q_subtotal :: "wire_money option"
  q_discount :: "wire_money option"
  q_tax :: "wire_money option"
  q_total :: "wire_money option"
  q_coupon_code :: string
  q_signature :: string

record quote_req =
  qr_items :: "(string \<times> int32) list"
  qr_currency :: string
  qr_coupon :: string
  qr_ship_to :: address

text \<open>What the service reads of a catalog product; a missing price reads as the empty message.\<close>

record priced_product =
  pp_id :: string
  pp_title :: string
  pp_shop_id :: string
  pp_list_price :: "wire_money option"

definition quote_line_of :: "line \<Rightarrow> quote_line_msg" where
  "quote_line_of l = \<lparr>ql_product_id = l_ProductID l, ql_title = l_Title l, ql_quantity = l_Quantity l,
     ql_shop_id = l_ShopID l, ql_unit_price = Some (wire_of (l_UnitPrice l)), ql_line_total = Some (wire_of (l_LineTotal l))\<rparr>"

definition toProtoQuote :: "quote \<Rightarrow> quote_msg" where
  "toProtoQuote q = \<lparr>q_lines = map quote_line_of (qt_Lines q), q_subtotal = Some (wire_of (qt_Subtotal q)),
     q_discount = Some (wire_of (qt_Discount q)), q_tax = Some (wire_of (qt_Tax q)), q_total = Some (wire_of (qt_Total q)),
     q_coupon_code = qt_Coupon q, q_signature = qt_Signature q\<rparr>"

subsection \<open>Handlers\<close>

record tax_rates =
  tr_Default :: int32
  tr_ByCode :: "(string \<times> int32) list"

definition tax_For :: "tax_rates \<Rightarrow> string \<Rightarrow> int32" where
  "tax_For r country = (case map_of (tr_ByCode r) country of Some bps \<Rightarrow> bps | None \<Rightarrow> tr_Default r)"

text \<open>\<open>qty[p] += q\<close> on a map of int32.\<close>

fun bump :: "string \<Rightarrow> int32 \<Rightarrow> (string \<times> int32) list \<Rightarrow> (string \<times> int32) list" where
  "bump p q [] = [(p, q)]"
| "bump p q ((p', n) # m) = (if p' = p then (p', i32 (n + q)) # m else (p', n) # bump p q m)"

fun qty_loop :: "(string \<times> int32) list \<Rightarrow> (string \<times> int32) list \<Rightarrow> (string \<times> int32) list res" where
  "qty_loop m [] = Inr m"
| "qty_loop m ((p, q) # its) =
     (if q \<le> 0 then Inl (errs_New KindInvalidArgument ''BAD_QUANTITY'') else qty_loop (bump p q m) its)"

definition quantitiesByProduct :: "(string \<times> int32) list \<Rightarrow> (string \<times> int32) list res" where
  "quantitiesByProduct its = qty_loop [] its"

type_synonym iteration = "(string \<times> int32) list \<Rightarrow> (string \<times> int32) list"

definition by_id :: "priced_product list \<Rightarrow> string \<Rightarrow> priced_product option" where
  "by_id ps pid = List.find (\<lambda>p. pp_id p = pid) (rev ps)"

definition catalogProductsByID ::
  "(string list \<Rightarrow> ('w, priced_product list) prog) \<Rightarrow> iteration \<Rightarrow> (string \<times> int32) list \<Rightarrow>
   ('w, string \<Rightarrow> priced_product option) prog" where
  "catalogProductsByID batch iter m =
     bnd (map_err (\<lambda>err. errs_Wrap err KindUnavailable ''CATALOG_UNAVAILABLE'') (batch (map fst (iter m)))) (\<lambda>ps.
     ret (by_id ps))"

definition price_of :: "string \<Rightarrow> priced_product \<Rightarrow> money" where
  "price_of cur p = (case pp_list_price p of
       None \<Rightarrow> FromUnitsNanos cur 0 0 | Some w \<Rightarrow> FromUnitsNanos cur (w_units w) (w_nanos w))"

definition price_currency :: "priced_product \<Rightarrow> string" where
  "price_currency p = (case pp_list_price p of None \<Rightarrow> '''' | Some w \<Rightarrow> w_currency w)"

definition catalog_line :: "string \<Rightarrow> priced_product \<Rightarrow> string \<Rightarrow> int32 \<Rightarrow> line" where
  "catalog_line cur p pid q = \<lparr>l_ProductID = pid, l_Title = pp_title p, l_Quantity = q,
     l_UnitPrice = price_of cur p, l_LineTotal = \<lparr>currency = '''', cents = 0\<rparr>, l_ShopID = pp_shop_id p\<rparr>"

fun priceLines :: "(string \<Rightarrow> priced_product option) \<Rightarrow> string \<Rightarrow> (string \<times> int32) list \<Rightarrow> line list res" where
  "priceLines byID cur [] = Inr []"
| "priceLines byID cur ((pid, q) # m) = (case byID pid of
       None \<Rightarrow> Inl (errs_New KindFailedPrecondition ''PRODUCT_UNPRICEABLE'')
     | Some p \<Rightarrow>
         if price_currency p \<noteq> cur then Inl (errs_New KindFailedPrecondition ''CURRENCY_MISMATCH'')
         else case priceLines byID cur m of Inl err \<Rightarrow> Inl err | Inr ls \<Rightarrow> Inr (catalog_line cur p pid q # ls))"

definition resolveCoupon :: "(string \<Rightarrow> ('w, coupon) prog) \<Rightarrow> string \<Rightarrow> ('w, coupon option) prog" where
  "resolveCoupon get code =
     (if code = '''' then ret None
      else bnd (map_err (\<lambda>err. if errs_Is err KindNotFound then errs_New KindFailedPrecondition ''COUPON_UNKNOWN'' else err)
             (get code)) (\<lambda>c. ret (Some c)))"

text \<open>\<open>iter1\<close> orders the ids asked of the catalog, \<open>iter2\<close> the lines of the quote.\<close>

definition QuotePrice ::
  "(string \<Rightarrow> ('w, coupon) prog) \<Rightarrow> (string list \<Rightarrow> ('w, priced_product list) prog) \<Rightarrow> tax_rates \<Rightarrow>
   iteration \<Rightarrow> iteration \<Rightarrow> quote_req \<Rightarrow> ('w, quote_msg) prog" where
  "QuotePrice get batch rates iter1 iter2 req =
     (if length (qr_currency req) \<noteq> 3 then fail (errs_New KindInvalidArgument ''BAD_CURRENCY'')
      else if qr_items req = [] then fail (errs_New KindInvalidArgument ''NO_ITEMS'')
      else bnd (lift_res (quantitiesByProduct (qr_items req))) (\<lambda>m.
           bnd (catalogProductsByID batch iter1 m) (\<lambda>byID.
           bnd (lift_res (priceLines byID (qr_currency req) (iter2 m))) (\<lambda>ls.
           bnd (resolveCoupon get (qr_coupon req)) (\<lambda>cpn.
           bnd (asks (\<lambda>e. (sha256_hex e, now e))) (\<lambda>(sha, t).
           bnd (lift_res (Price sha (qr_currency req) ls cpn (tax_For rates (CountryCode (qr_ship_to req))) t)) (\<lambda>q.
           ret (toProtoQuote q))))))))"

record coupon_info =
  cn_code :: string
  cn_valid :: bool
  cn_kind :: "coupon_kind option"
  cn_percent_off :: int32
  cn_amount_off :: "wire_money option"
  cn_expires_at :: "int option"
  cn_reason :: string

definition ValidateCoupon :: "string \<Rightarrow> (pricing_db, coupon_info) prog" where
  "ValidateCoupon code =
     bnd (attempt (GetCoupon code)) (\<lambda>r. case r of
       Inl err \<Rightarrow>
         if errs_Is err KindNotFound then
           ret \<lparr>cn_code = code, cn_valid = False, cn_kind = None, cn_percent_off = 0, cn_amount_off = None,
                cn_expires_at = None, cn_reason = ''UNKNOWN''\<rparr>
         else fail err
     | Inr c \<Rightarrow> bnd (asks now) (\<lambda>t.
         ret \<lparr>cn_code = cp_Code c, cn_valid = fst (Valid c t), cn_kind = Some (cp_Kind c),
              cn_percent_off = cp_PercentOff c,
              cn_amount_off = (if cp_Kind c = CouponAmount then Some (wire_of (cp_AmountOff c)) else None),
              cn_expires_at = cp_ExpiresAt c, cn_reason = snd (Valid c t)\<rparr>))"

end
