(* ===== verification/PricingSamples.thy ===== *)
theory PricingSamples
  imports Pricing SampleEnv
begin

section \<open>A concrete catalog, coupon and request\<close>

text \<open>The inputs the witnesses of the pricing properties evaluate, and the run of the handler on them.\<close>

definition sample_product :: "string \<Rightarrow> string \<Rightarrow> int \<Rightarrow> priced_product" where
  "sample_product p shop units = \<lparr>pp_id = p, pp_title = ''t'', pp_shop_id = shop,
     pp_list_price = Some \<lparr>w_currency = ''USD'', w_units = units, w_nanos = 0\<rparr>\<rparr>"

definition sample_catalog :: "string \<Rightarrow> priced_product option" where
  "sample_catalog p = (if p = ''p1'' then Some (sample_product ''p1'' ''s1'' 5)
     else if p = ''p2'' then Some (sample_product ''p2'' '''' 10) else None)"

definition sample_batch :: "string list \<Rightarrow> (pricing_db, priced_product list) prog" where
  "sample_batch ids = query (\<lambda>_ _. List.map_filter sample_catalog ids)"

definition ten_off :: coupon where
  "ten_off = \<lparr>cp_Code = ''SAVE10'', cp_Kind = CouponPercent, cp_PercentOff = 10, cp_AmountOff = \<lparr>currency = ''USD'', cents = 0\<rparr>,
     cp_ExpiresAt = None, cp_MaxUses = 0, cp_UsedCount = 0\<rparr>"

definition sample_coupons :: pricing_db where "sample_coupons = \<lparr>coupons = [ten_off]\<rparr>"

definition sample_address :: address where
  "sample_address = \<lparr>FullName = ''A'', Line1 = ''1 St'', Line2 = '''', City = ''C'', Region = ''R'',
     PostalCode = ''1'', CountryCode = ''US'', Phone = ''2''\<rparr>"

definition sample_req :: quote_req where
  "sample_req = \<lparr>qr_items = [(''p1'', 2), (''p2'', 1), (''p1'', 1)], qr_currency = ''USD'', qr_coupon = ''SAVE10'',
     qr_ship_to = sample_address\<rparr>"

definition flat_tax :: tax_rates where "flat_tax = \<lparr>tr_Default = 825, tr_ByCode = []\<rparr>"

definition sample_lines :: "line list" where
  "sample_lines = [catalog_line ''USD'' (sample_product ''p1'' ''s1'' 5) ''p1'' 3,
     catalog_line ''USD'' (sample_product ''p2'' '''' 10) ''p2'' 1]"

definition sample_qty :: "(string \<times> int32) list" where
  "sample_qty = [(''p1'', 3), (''p2'', 1)]"

lemma sample_steps:
  "quantitiesByProduct (qr_items sample_req) = Inr sample_qty"
  "catalogProductsByID sample_batch rev sample_qty sample_coupons (env_at 0) =
     (Inr (by_id [sample_product ''p2'' '''' 10, sample_product ''p1'' ''s1'' 5]), sample_coupons, env_at 0)"
  "priceLines (by_id [sample_product ''p2'' '''' 10, sample_product ''p1'' ''s1'' 5]) ''USD'' sample_qty = Inr sample_lines"
  "resolveCoupon GetCoupon ''SAVE10'' sample_coupons (env_at 0) = (Inr (Some ten_off), sample_coupons, env_at 0)"
proof -
  show "quantitiesByProduct (qr_items sample_req) = Inr sample_qty" by code_simp
  show "catalogProductsByID sample_batch rev sample_qty sample_coupons (env_at 0) =
     (Inr (by_id [sample_product ''p2'' '''' 10, sample_product ''p1'' ''s1'' 5]), sample_coupons, env_at 0)"
    by (simp add: catalogProductsByID_def sample_batch_def sample_qty_def prog_defs env_at_def sample_catalog_def List.map_filter_simps)
  show "priceLines (by_id [sample_product ''p2'' '''' 10, sample_product ''p1'' ''s1'' 5]) ''USD'' sample_qty = Inr sample_lines"
    by (simp add: by_id_def sample_qty_def sample_lines_def price_currency_def sample_product_def)
  show "resolveCoupon GetCoupon ''SAVE10'' sample_coupons (env_at 0) = (Inr (Some ten_off), sample_coupons, env_at 0)"
    by (simp add: resolveCoupon_def GetCoupon_def sample_coupons_def ten_off_def prog_defs env_at_def)
qed

end
