(* ===== verification/PricingProps.thy ===== *)
theory PricingProps
  imports PricingSamples "HOL-Library.Multiset"
begin

section \<open>Quotes: exact amounts, the map order, and the signature\<close>

subsection \<open>The subtotal\<close>

definition line_value :: "line \<Rightarrow> int" where
  "line_value l = cents (l_UnitPrice l) * l_Quantity l"

definition sale_value :: "line list \<Rightarrow> int" where
  "sale_value ls = sum_list (map line_value ls)"

definition totalled :: "line \<Rightarrow> line" where
  "totalled l = l\<lparr>l_LineTotal := MulQty (l_UnitPrice l) (l_Quantity l)\<rparr>"

lemma totalled_simps [simp]:
  "l_ProductID (totalled l) = l_ProductID l" "l_Quantity (totalled l) = l_Quantity l"
  "l_UnitPrice (totalled l) = l_UnitPrice l" "line_value (totalled l) = line_value l"
  "l_LineTotal (totalled l) = MulQty (l_UnitPrice l) (l_Quantity l)"
  by (simp_all add: totalled_def line_value_def)

declare i64_of_i64 [simp]

text \<open>The loop computes the exact sum modulo \<open>2^64\<close>.\<close>

lemma price_loop_eq:
  assumes "i64 (cents s) = cents s"
  shows "price_loop s ls = (if \<forall>l\<in>set ls. 0 < l_Quantity l
     then Inr (map totalled ls, \<lparr>currency = currency s, cents = i64 (cents s + sale_value ls)\<rparr>)
     else Inl (errs_New KindInvalidArgument ''BAD_QUANTITY''))"
  using assms
proof (induction ls arbitrary: s)
  case Nil
  then show ?case by (cases s) (simp add: sale_value_def)
next
  case (Cons l ls)
  let ?s = "money_Add s (MulQty (l_UnitPrice l) (l_Quantity l))"
  have c: "cents ?s = i64 (cents s + line_value l)"
    by (simp add: money_Add_def MulQty_def line_value_def i64_add)
  have next_s: "cents s + sale_value (l # ls) = (cents s + line_value l) + sale_value ls"
    by (simp add: sale_value_def)
  have IH: "price_loop ?s ls = (if \<forall>l\<in>set ls. 0 < l_Quantity l
     then Inr (map totalled ls, \<lparr>currency = currency ?s, cents = i64 (cents ?s + sale_value ls)\<rparr>)
     else Inl (errs_New KindInvalidArgument ''BAD_QUANTITY''))"
    by (rule Cons.IH) (simp add: c)
  have cur: "currency ?s = currency s" by (simp add: money_Add_def)
  show ?case
    by (simp add: IH c cur next_s i64_add totalled_def [symmetric] Let_def)
qed

lemma i64_0 [simp]: "i64 0 = 0"
  by (simp add: i64_def)

text \<open>What \<open>Price\<close> answers, as one equation.\<close>

definition coupon_part :: "string \<Rightarrow> coupon option \<Rightarrow> int \<Rightarrow> money \<Rightarrow> (money \<times> string) res" where
  "coupon_part cur cpn t subtotal = (case cpn of None \<Rightarrow> Inr (\<lparr>currency = cur, cents = 0\<rparr>, '''')
     | Some c \<Rightarrow> if \<not> fst (Valid c t) then Inl (errs_New KindFailedPrecondition (''COUPON_'' @ snd (Valid c t)))
                 else Inr (discount_of cur c subtotal, cp_Code c))"

definition quote_of :: "(string \<Rightarrow> string) \<Rightarrow> string \<Rightarrow> line list \<Rightarrow> money \<Rightarrow> money \<Rightarrow> int32 \<Rightarrow> string \<Rightarrow> quote" where
  "quote_of sha cur ls subtotal discount bps code =
     (let taxable = money_Sub subtotal discount; tax = TaxBps taxable bps;
          q = \<lparr>qt_Lines = map totalled ls, qt_Subtotal = subtotal, qt_Discount = discount, qt_Tax = tax,
               qt_Total = money_Add taxable tax, qt_Coupon = code, qt_Signature = ''''\<rparr>
      in q\<lparr>qt_Signature := signature sha cur q\<rparr>)"

lemma Price_eq:
  "Price sha cur ls cpn bps t =
     (if ls = [] then Inl (errs_New KindInvalidArgument ''EMPTY_QUOTE'')
      else if \<not> (\<forall>l\<in>set ls. 0 < l_Quantity l) then Inl (errs_New KindInvalidArgument ''BAD_QUANTITY'')
      else let subtotal = \<lparr>currency = cur, cents = i64 (sale_value ls)\<rparr> in
        case coupon_part cur cpn t subtotal of
          Inl err \<Rightarrow> Inl err
        | Inr (discount, code) \<Rightarrow> Inr (quote_of sha cur ls subtotal discount bps code))"
proof -
  let ?z = "\<lparr>currency = cur, cents = 0\<rparr>"
  have z: "price_loop ?z ls = (if \<forall>l\<in>set ls. 0 < l_Quantity l
      then Inr (map totalled ls, \<lparr>currency = cur, cents = i64 (sale_value ls)\<rparr>)
      else Inl (errs_New KindInvalidArgument ''BAD_QUANTITY''))"
    using price_loop_eq [of ?z ls] by simp
  show ?thesis
    by (cases "coupon_part cur cpn t \<lparr>currency = cur, cents = i64 (sale_value ls)\<rparr>")
       (auto simp: Price_def z coupon_part_def quote_of_def Let_def split: option.splits if_splits)
qed

lemma Price_Inr:
  assumes "Price sha cur ls cpn bps t = Inr q"
  obtains discount code where "ls \<noteq> []" "\<forall>l\<in>set ls. 0 < l_Quantity l"
    "coupon_part cur cpn t \<lparr>currency = cur, cents = i64 (sale_value ls)\<rparr> = Inr (discount, code)"
    "q = quote_of sha cur ls \<lparr>currency = cur, cents = i64 (sale_value ls)\<rparr> discount bps code"
  using assms by (auto simp: Price_eq Let_def split: if_splits sum.splits)

subsection \<open>Exact amounts\<close>

definition half_up :: "int \<Rightarrow> int \<Rightarrow> int" where
  "half_up a b = (2 * a + b) div (2 * b)"

lemma half_up_nearest: "0 < b \<Longrightarrow> 2 * \<bar>half_up a b * b - a\<bar> \<le> b"
proof -
  assume b: "0 < b"
  have e: "(2 * a + b) = 2 * b * half_up a b + (2 * a + b) mod (2 * b)"
    by (simp add: half_up_def)
  have "0 \<le> (2 * a + b) mod (2 * b)" "(2 * a + b) mod (2 * b) < 2 * b" using b by simp_all
  then show ?thesis using e by (auto simp: abs_if algebra_simps)
qed

lemma half_up_100: "(a + 50) div 100 = half_up a 100"
  unfolding half_up_def using div_mult_mult1 [of 2 "a + 50" 100] by (simp add: algebra_simps)

lemma half_up_10000: "(a + 5000) div 10000 = half_up a 10000"
  unfolding half_up_def using div_mult_mult1 [of 2 "a + 5000" 10000] by (simp add: algebra_simps)


definition affordable :: "line list \<Rightarrow> bool" where
  "affordable ls \<longleftrightarrow> (\<forall>l\<in>set ls. 0 \<le> cents (l_UnitPrice l)) \<and> sale_value ls \<le> 900000000000000"

lemma sale_value_bounds:
  assumes "affordable ls" "\<forall>l\<in>set ls. 0 < l_Quantity l"
  shows "0 \<le> sale_value ls" "sale_value ls \<le> 900000000000000" "l \<in> set ls \<Longrightarrow> 0 \<le> line_value l \<and> line_value l \<le> sale_value ls"
proof -
  have nn: "0 \<le> line_value l" if "l \<in> set ls" for l
    unfolding line_value_def by (rule mult_nonneg_nonneg) (use assms that in \<open>force simp: affordable_def\<close>)+
  show "0 \<le> sale_value ls" unfolding sale_value_def by (rule sum_list_nonneg_int) (rule nn)
  show "sale_value ls \<le> 900000000000000" using assms(1) by (simp add: affordable_def)
  show "l \<in> set ls \<Longrightarrow> 0 \<le> line_value l \<and> line_value l \<le> sale_value ls"
    unfolding sale_value_def using nn sum_list_member_le [of ls line_value l] by auto
qed

text \<open>The discount a coupon gives on a subtotal, in exact arithmetic.\<close>

definition exact_discount :: "coupon option \<Rightarrow> int \<Rightarrow> int" where
  "exact_discount cpn s = (case cpn of None \<Rightarrow> 0 | Some c \<Rightarrow> (case cp_Kind c of
       CouponPercent \<Rightarrow> half_up (s * max 0 (min 100 (cp_PercentOff c))) 100
     | CouponAmount \<Rightarrow> min (cents (cp_AmountOff c)) s))"

lemma percent_exact:
  assumes "0 \<le> cents m" "cents m \<le> 900000000000000"
  shows "cents (PercentOff m p) = half_up (cents m * max 0 (min 100 p)) 100"
proof (cases "p \<le> 0")
  case True
  then show ?thesis by (simp add: PercentOff_def half_up_def)
next
  case False
  define p' where "p' = min 100 p"
  have p': "0 < p'" "p' \<le> 100" "(if p > 100 then 100 else p) = p'" using False by (auto simp: p'_def)
  have "0 \<le> cents m * p'" "cents m * p' \<le> 900000000000000 * 100"
    using mult_mono [of "cents m" 900000000000000 p' 100] assms p' by auto
  then have r: "in_i64 (cents m * p')" "in_i64 (cents m * p' + 50)" by (auto simp: in_i64_def)
  have "cents (PercentOff m p) = (cents m * p' + 50) sdiv 100"
    using False r p' by (simp add: PercentOff_def Let_def)
  also have "\<dots> = (cents m * p' + 50) div 100"
    using \<open>0 \<le> cents m * p'\<close> by (intro sdiv_nonneg) auto
  finally show ?thesis using p' False by (simp add: half_up_100 p'_def max_def)
qed

lemma half_up_mono: "0 < b \<Longrightarrow> a \<le> a' \<Longrightarrow> half_up a b \<le> half_up a' b"
  unfolding half_up_def by (rule zdiv_mono1) auto

lemma half_up_whole: "0 < b \<Longrightarrow> half_up (s * b) b = s"
proof -
  assume b: "0 < b"
  have e: "2 * (s * b) + b = b + s * (2 * b)" by simp
  have "(b + s * (2 * b)) div (2 * b) = s + b div (2 * b)" using b by (intro div_mult_self1) simp
  moreover have "b div (2 * b) = 0" using b by (intro div_pos_pos_trivial) auto
  ultimately show ?thesis by (simp add: half_up_def e)
qed

lemma discount_exact:
  assumes "coupon_part cur cpn t \<lparr>currency = cur, cents = s\<rparr> = Inr (discount, code)" "0 \<le> s" "s \<le> 900000000000000"
    and "\<forall>c. cpn = Some c \<longrightarrow> 0 \<le> cents (cp_AmountOff c)"
  shows "cents discount = exact_discount cpn s" "0 \<le> cents discount" "cents discount \<le> s"
proof -
  show d: "cents discount = exact_discount cpn s"
    using assms(1-3) by (auto simp: coupon_part_def exact_discount_def discount_of_def percent_exact money_Min_def
        split: option.splits coupon_kind.splits if_splits)
  have "0 \<le> exact_discount cpn s \<and> exact_discount cpn s \<le> s"
  proof (cases cpn)
    case None
    then show ?thesis using assms(2) by (simp add: exact_discount_def)
  next
    case (Some c)
    show ?thesis
    proof (cases "cp_Kind c")
      case CouponPercent
      let ?p = "max 0 (min 100 (cp_PercentOff c))"
      have "0 \<le> s * ?p" "s * ?p \<le> s * 100" using assms(2) by (auto intro: mult_left_mono)
      then have "half_up (0 * 100) 100 \<le> half_up (s * ?p) 100" "half_up (s * ?p) 100 \<le> half_up (s * 100) 100"
        by (auto intro!: half_up_mono)
      then show ?thesis using Some CouponPercent by (simp only: half_up_whole exact_discount_def) simp
    next
      case CouponAmount
      then show ?thesis using Some assms(2,4) by (simp add: exact_discount_def)
    qed
  qed
  then show "0 \<le> cents discount" "cents discount \<le> s" using d by simp_all
qed

lemma tax_exact:
  assumes "0 \<le> cents m" "cents m \<le> 900000000000000" "bps \<le> 10000"
  shows "cents (TaxBps m bps) = half_up (cents m * max 0 bps) 10000" "0 \<le> cents (TaxBps m bps)" "cents (TaxBps m bps) \<le> cents m"
proof -
  show t: "cents (TaxBps m bps) = half_up (cents m * max 0 bps) 10000"
  proof (cases "bps \<le> 0")
    case True
    then show ?thesis by (simp add: TaxBps_def half_up_def)
  next
    case False
    then have "0 \<le> cents m * bps" "cents m * bps \<le> 900000000000000 * 10000"
      using mult_mono [of "cents m" 900000000000000 bps 10000] assms by auto
    then have r: "in_i64 (cents m * bps)" "in_i64 (cents m * bps + 5000)" "0 \<le> cents m * bps + 5000" by (auto simp: in_i64_def)
    then have "(cents m * bps + 5000) sdiv 10000 = (cents m * bps + 5000) div 10000" by (intro sdiv_nonneg) auto
    then show ?thesis using False r by (simp add: TaxBps_def half_up_10000 max_def)
  qed
  have "0 \<le> cents m * max 0 bps" "cents m * max 0 bps \<le> cents m * 10000" using assms by (auto intro: mult_left_mono)
  then have "half_up (0 * 10000) 10000 \<le> half_up (cents m * max 0 bps) 10000"
    "half_up (cents m * max 0 bps) 10000 \<le> half_up (cents m * 10000) 10000" by (auto intro!: half_up_mono)
  then show "0 \<le> cents (TaxBps m bps)" "cents (TaxBps m bps) \<le> cents m"
    unfolding t by (simp_all only: half_up_whole)
qed

text \<open>C9: as long as a sale stays below nine trillion currency units, a quote is exact.  The subtotal is
  the sum of unit price times quantity over the lines, the discount is what the coupon promises (a
  percentage rounded to the nearest cent, or an amount capped at the subtotal), the tax is on what is
  left, rounded to the nearest cent, and the total adds up, so it is never negative.\<close>

theorem quote_exact:
  assumes "Price sha cur ls cpn bps t = Inr q" "affordable ls" "bps \<le> 10000"
    and "\<forall>c. cpn = Some c \<longrightarrow> 0 \<le> cents (cp_AmountOff c)"
  shows "map (\<lambda>l. cents (l_LineTotal l)) (qt_Lines q) = map line_value ls \<and>
    cents (qt_Subtotal q) = sale_value ls \<and>
    cents (qt_Discount q) = exact_discount cpn (sale_value ls) \<and> 0 \<le> cents (qt_Discount q) \<and>
    cents (qt_Tax q) = half_up ((cents (qt_Subtotal q) - cents (qt_Discount q)) * max 0 bps) 10000 \<and> 0 \<le> cents (qt_Tax q) \<and>
    cents (qt_Total q) = cents (qt_Subtotal q) - cents (qt_Discount q) + cents (qt_Tax q) \<and> 0 \<le> cents (qt_Total q)"
proof -
  obtain discount code where ls: "\<forall>l\<in>set ls. 0 < l_Quantity l"
    and c: "coupon_part cur cpn t \<lparr>currency = cur, cents = i64 (sale_value ls)\<rparr> = Inr (discount, code)"
    and q: "q = quote_of sha cur ls \<lparr>currency = cur, cents = i64 (sale_value ls)\<rparr> discount bps code"
    using assms(1) by (rule Price_Inr)
  note b = sale_value_bounds [OF assms(2) ls]
  have s: "i64 (sale_value ls) = sale_value ls" using b(1,2) by (intro i64_id) (simp add: in_i64_def)
  note d = discount_exact [OF c [unfolded s] b(1,2) assms(4)]
  let ?sub = "\<lparr>currency = cur, cents = sale_value ls\<rparr>"
  have "i64 (sale_value ls - cents discount) = sale_value ls - cents discount"
    using b(1,2) d(2,3) by (intro i64_id) (simp add: in_i64_def)
  then have tx: "cents (money_Sub ?sub discount) = sale_value ls - cents discount"
    using d(3) by (simp add: money_Sub_def Let_def)
  have txb: "0 \<le> cents (money_Sub ?sub discount)" "cents (money_Sub ?sub discount) \<le> 900000000000000"
    using tx d(2,3) b(2) by simp_all
  note t = tax_exact [OF txb assms(3)]
  have "in_i64 (cents (money_Sub ?sub discount) + cents (TaxBps (money_Sub ?sub discount) bps))"
    using txb t(2,3) by (auto simp: in_i64_def)
  then have tot: "cents (money_Add (money_Sub ?sub discount) (TaxBps (money_Sub ?sub discount) bps)) =
      sale_value ls - cents discount + cents (TaxBps (money_Sub ?sub discount) bps)"
    by (simp add: money_Add_def tx)
  have line: "i64 (line_value l) = line_value l" if "l \<in> set ls" for l
    using b(2) b(3) [OF that] by (intro i64_id) (simp add: in_i64_def)
  have lines: "map (\<lambda>l. cents (l_LineTotal l)) (map totalled ls) = map line_value ls"
    using line by (simp add: totalled_def MulQty_def line_value_def [symmetric] comp_def)
  show ?thesis
    using lines d t tot tx txb by (simp add: q quote_of_def s Let_def)
qed


subsection \<open>The order of a map does not matter\<close>

definition line_in :: "(string \<Rightarrow> priced_product option) \<Rightarrow> string \<Rightarrow> string \<times> int32 \<Rightarrow> line" where
  "line_in byID cur x = catalog_line cur (the (byID (fst x))) (fst x) (snd x)"

lemma priceLines_Inr:
  "priceLines byID cur m = Inr ls \<longleftrightarrow>
     (\<forall>x\<in>set m. \<exists>p. byID (fst x) = Some p \<and> price_currency p = cur) \<and> ls = map (line_in byID cur) m"
proof (induction m arbitrary: ls)
  case Nil
  then show ?case by auto
next
  case (Cons x m)
  obtain pid q where x: "x = (pid, q)" by force
  show ?case
  proof (cases "\<exists>p. byID pid = Some p \<and> price_currency p = cur")
    case False
    then show ?thesis using x by (auto split: option.splits)
  next
    case True
    then obtain p where p: "byID pid = Some p" "price_currency p = cur" by blast
    show ?thesis using Cons.IH p by (cases "priceLines byID cur m") (auto simp: x line_in_def)
  qed
qed

lemma line_in_product [simp]: "l_ProductID (line_in byID cur x) = fst x"
  by (simp add: line_in_def catalog_line_def)

lemma sorted_by_product:
  assumes "mset ls' = mset ls" "distinct (map l_ProductID ls)"
  shows "sort_key l_ProductID ls' = sort_key l_ProductID ls"
proof (rule map_sorted_distinct_set_unique)
  have "mset (map l_ProductID ls') = mset (map l_ProductID ls)" using assms(1) by simp
  then have d: "distinct (map l_ProductID ls')" using assms(2) mset_eq_imp_distinct_iff by blast
  have perm: "distinct (map l_ProductID (sort_key l_ProductID xs)) = distinct (map l_ProductID xs)" for xs
    by (rule mset_eq_imp_distinct_iff) simp
  show "distinct (map l_ProductID (sort_key l_ProductID ls'))" "distinct (map l_ProductID (sort_key l_ProductID ls))"
    using d assms(2) by (simp_all only: perm)
  show "set (sort_key l_ProductID ls') = set (sort_key l_ProductID ls)"
    using mset_eq_setD [OF assms(1)] by simp
  then show "inj_on l_ProductID (set (sort_key l_ProductID ls') \<union> set (sort_key l_ProductID ls))"
    using assms(2) by (simp add: distinct_map)
qed simp_all

lemma sale_value_perm: "mset ls' = mset ls \<Longrightarrow> sale_value ls' = sale_value ls"
  unfolding sale_value_def by (metis mset_map sum_mset_sum_list)

text \<open>C22: the lines of a quote come out of a Go map in an unspecified order, and nothing depends on it:
  for any two orders the quotes have the same lines, amounts, coupon and signature.\<close>

theorem quote_order_irrelevant:
  assumes "mset m' = mset m" "distinct (map fst m)" "priceLines byID cur m = Inr ls"
    and "Price sha cur ls cpn bps t = Inr q"
  shows "\<exists>ls' q'. priceLines byID cur m' = Inr ls' \<and> Price sha cur ls' cpn bps t = Inr q' \<and>
    mset (qt_Lines q') = mset (qt_Lines q) \<and> q' = q\<lparr>qt_Lines := qt_Lines q'\<rparr>"
proof -
  have ls: "ls = map (line_in byID cur) m" and ok: "\<forall>x\<in>set m. \<exists>p. byID (fst x) = Some p \<and> price_currency p = cur"
    using assms(3) by (auto simp: priceLines_Inr)
  define ls' where "ls' = map (line_in byID cur) m'"
  have pl: "priceLines byID cur m' = Inr ls'"
    using ok assms(1) by (simp add: priceLines_Inr ls'_def mset_eq_setD [OF assms(1)])
  have perm: "mset ls' = mset ls" using assms(1) by (simp add: ls ls'_def)
  have d: "distinct (map l_ProductID (map totalled ls))" using assms(2) by (simp add: ls comp_def)
  have sorted: "sort_key l_ProductID (map totalled ls') = sort_key l_ProductID (map totalled ls)"
    by (rule sorted_by_product [OF _ d]) (simp add: perm)
  obtain discount code where 1: "ls \<noteq> []" "\<forall>l\<in>set ls. 0 < l_Quantity l"
    "coupon_part cur cpn t \<lparr>currency = cur, cents = i64 (sale_value ls)\<rparr> = Inr (discount, code)"
    and q: "q = quote_of sha cur ls \<lparr>currency = cur, cents = i64 (sale_value ls)\<rparr> discount bps code"
    using assms(4) by (rule Price_Inr)
  have "Price sha cur ls' cpn bps t = Inr (quote_of sha cur ls' \<lparr>currency = cur, cents = i64 (sale_value ls)\<rparr> discount bps code)"
    using 1 perm by (auto simp: Price_eq sale_value_perm [OF perm] mset_eq_setD [OF perm])
  moreover have "quote_of sha cur ls' s discount bps code = (quote_of sha cur ls s discount bps code)\<lparr>qt_Lines := map totalled ls'\<rparr>" for s
    by (simp add: quote_of_def Let_def signature_def signed_text_def sorted)
  ultimately show ?thesis
    using pl perm by (auto simp: q quote_of_def Let_def)
qed

subsection \<open>The signature\<close>

definition priced :: "line \<Rightarrow> string \<times> int \<times> int" where
  "priced l = (l_ProductID l, l_Quantity l, cents (l_UnitPrice l))"

definition plain :: "char \<Rightarrow> string \<Rightarrow> bool" where
  "plain c s \<longleftrightarrow> c \<notin> set s"

lemma signed_line_inj:
  assumes "CHR '':'' \<notin> set (l_ProductID l)" "CHR '':'' \<notin> set (l_ProductID l')"
    and "signed_line l @ s = signed_line l' @ s'"
  shows "priced l = priced l' \<and> s = s'"
proof -
  have no: "CHR ''@'' \<notin> set (FormatInt x)" "CHR '';'' \<notin> set (FormatInt x)" for x
    by (rule FormatInt_no, simp add: int_char_def)+
  have "l_ProductID l @ CHR '':'' # (FormatInt (l_Quantity l) @ ''@'' @ FormatInt (cents (l_UnitPrice l)) @ '';'' @ s) =
      l_ProductID l' @ CHR '':'' # (FormatInt (l_Quantity l') @ ''@'' @ FormatInt (cents (l_UnitPrice l')) @ '';'' @ s')"
    using assms(3) by (simp add: signed_line_def)
  from field_inj [OF assms(1,2) this]
  have p: "l_ProductID l = l_ProductID l'"
    and r: "FormatInt (l_Quantity l) @ CHR ''@'' # (FormatInt (cents (l_UnitPrice l)) @ '';'' @ s) =
      FormatInt (l_Quantity l') @ CHR ''@'' # (FormatInt (cents (l_UnitPrice l')) @ '';'' @ s')" by auto
  from field_inj [OF no(1) no(1) r]
  have qy: "l_Quantity l = l_Quantity l'"
    and r2: "FormatInt (cents (l_UnitPrice l)) @ CHR '';'' # s = FormatInt (cents (l_UnitPrice l')) @ CHR '';'' # s'"
    by (auto simp: FormatInt_inj)
  from field_inj [OF no(2) no(2) r2] show ?thesis using p qy by (simp add: priced_def FormatInt_inj)
qed

lemma signed_lines_inj:
  assumes "\<forall>l\<in>set ls \<union> set ls'. CHR '':'' \<notin> set (l_ProductID l)"
    and "concat (map signed_line ls) = concat (map signed_line ls')"
  shows "map priced ls = map priced ls'"
  using assms
proof (induction ls arbitrary: ls')
  case Nil
  then show ?case by (cases ls') (auto simp: signed_line_def)
next
  case (Cons l ls)
  show ?case
  proof (cases ls')
    case Nil
    then show ?thesis using Cons.prems(2) by (auto simp: signed_line_def)
  next
    case (Cons l' ls'')
    have "signed_line l @ concat (map signed_line ls) = signed_line l' @ concat (map signed_line ls'')"
      using Cons.prems(2) Cons by simp
    from signed_line_inj [OF _ _ this] Cons.prems(1) Cons
    have "priced l = priced l'" "concat (map signed_line ls) = concat (map signed_line ls'')" by auto
    then show ?thesis using Cons.IH [of ls''] Cons.prems(1) Cons by simp
  qed
qed

text \<open>C23: the signature detects drift.  If two quotes have the same signature and the hash does not
  collide on their two texts, they have the same currency, discount, tax and total, and price the same
  products in the same quantities at the same unit prices.\<close>

theorem signature_detects_drift:
  assumes "signature sha cur q = signature sha cur' q'"
    and "sha (signed_text cur q) = sha (signed_text cur' q') \<longrightarrow> signed_text cur q = signed_text cur' q'"
    and "CHR '';'' \<notin> set cur" "CHR '';'' \<notin> set cur'"
    and "\<forall>l\<in>set (qt_Lines q) \<union> set (qt_Lines q'). CHR '':'' \<notin> set (l_ProductID l)"
  shows "cur = cur' \<and> cents (qt_Discount q) = cents (qt_Discount q') \<and> cents (qt_Tax q) = cents (qt_Tax q') \<and>
    cents (qt_Total q) = cents (qt_Total q') \<and> mset (map priced (qt_Lines q)) = mset (map priced (qt_Lines q'))"
proof -
  have no: "CHR '';'' \<notin> set (FormatInt x)" for x by (rule FormatInt_no) (simp add: int_char_def)
  let ?ls = "\<lambda>q. sort_key l_ProductID (qt_Lines q)"
  let ?body = "\<lambda>q. concat (map signed_line (?ls q))"
  have eq: "signed_text cur q = signed_text cur' q'" using assms(1,2) by (simp add: signature_def)
  have "cur @ CHR '';'' # (''disc='' @ FormatInt (cents (qt_Discount q)) @ '';tax='' @ FormatInt (cents (qt_Tax q)) @
        '';total='' @ FormatInt (cents (qt_Total q)) @ '';'' @ ?body q) =
      cur' @ CHR '';'' # (''disc='' @ FormatInt (cents (qt_Discount q')) @ '';tax='' @ FormatInt (cents (qt_Tax q')) @
        '';total='' @ FormatInt (cents (qt_Total q')) @ '';'' @ ?body q')"
    using eq by (simp add: signed_text_def)
  from field_inj [OF assms(3,4) this]
  have c: "cur = cur'" and
    1: "FormatInt (cents (qt_Discount q)) @ CHR '';'' # (''tax='' @ FormatInt (cents (qt_Tax q)) @
        '';total='' @ FormatInt (cents (qt_Total q)) @ '';'' @ ?body q) =
      FormatInt (cents (qt_Discount q')) @ CHR '';'' # (''tax='' @ FormatInt (cents (qt_Tax q')) @
        '';total='' @ FormatInt (cents (qt_Total q')) @ '';'' @ ?body q')" by auto
  from field_inj [OF no no 1]
  have d: "cents (qt_Discount q) = cents (qt_Discount q')" and
    2: "FormatInt (cents (qt_Tax q)) @ CHR '';'' # (''total='' @ FormatInt (cents (qt_Total q)) @ '';'' @ ?body q) =
      FormatInt (cents (qt_Tax q')) @ CHR '';'' # (''total='' @ FormatInt (cents (qt_Total q')) @ '';'' @ ?body q')"
    by (auto simp: FormatInt_inj)
  from field_inj [OF no no 2]
  have t: "cents (qt_Tax q) = cents (qt_Tax q')" and
    3: "FormatInt (cents (qt_Total q)) @ CHR '';'' # ?body q = FormatInt (cents (qt_Total q')) @ CHR '';'' # ?body q'"
    by (auto simp: FormatInt_inj)
  from field_inj [OF no no 3]
  have tt: "cents (qt_Total q) = cents (qt_Total q')" and b: "?body q = ?body q'" by (auto simp: FormatInt_inj)
  have "map priced (?ls q) = map priced (?ls q')" using assms(5) by (intro signed_lines_inj b) simp
  then have "mset (map priced (?ls q)) = mset (map priced (?ls q'))" by (rule arg_cong)
  then show ?thesis using c d t tt by simp
qed


subsection \<open>The handler\<close>

text \<open>How much of a product a request asks for, over all its lines.\<close>

definition requested :: "string \<Rightarrow> (string \<times> int32) list \<Rightarrow> int" where
  "requested p its = sum_list (map (\<lambda>x. if fst x = p then snd x else 0) its)"

definition bag :: "(string \<times> int32) list \<Rightarrow> string \<Rightarrow> int" where
  "bag m p = (case map_of m p of None \<Rightarrow> 0 | Some n \<Rightarrow> n)"

lemma bump_keys: "fst ` set (bump p q m) = insert p (fst ` set m)"
  by (induction p q m rule: bump.induct) auto

lemma bump_distinct: "distinct (map fst m) \<Longrightarrow> distinct (map fst (bump p q m))"
proof (induction p q m rule: bump.induct)
  case (2 p q p' n m)
  then show ?case using bump_keys [of p q m] by (auto simp: image_iff)
qed simp

lemma bump_bag: "in_i32 (bag m p + q) \<Longrightarrow> in_i32 q \<Longrightarrow> bag (bump p q m) = (bag m)(p := bag m p + q)"
  by (induction p q m rule: bump.induct) (auto simp: bag_def fun_eq_iff)

lemma requested_nonneg: "\<forall>x\<in>set its. 0 < snd x \<Longrightarrow> 0 \<le> requested p its \<and> requested p its \<le> sum_list (map snd its)"
  by (induction its) (auto simp: requested_def)

lemma qty_loop_Inr:
  assumes "qty_loop m its = Inr m'" "distinct (map fst m)" "\<forall>p. 0 \<le> bag m p \<and> bag m p + requested p its \<le> 2147483647"
  shows "distinct (map fst m') \<and> fst ` set m' = fst ` set m \<union> fst ` set its \<and> (\<forall>p. bag m' p = bag m p + requested p its) \<and>
    (\<forall>x\<in>set its. 0 < snd x)"
  using assms
proof (induction its arbitrary: m)
  case Nil
  then show ?case by (simp add: requested_def)
next
  case (Cons x its)
  obtain p q where x: "x = (p, q)" by force
  have q: "0 < q" and run: "qty_loop (bump p q m) its = Inr m'" using Cons.prems(1) x by (auto split: if_splits)
  have pos: "\<forall>y\<in>set its. 0 < snd y" using run
  proof (induction its arbitrary: m p q)
    case (Cons y its)
    then show ?case by (cases y) (auto split: if_splits)
  qed simp
  have r: "requested p' (x # its) = (if p' = p then q else 0) + requested p' its" for p'
    by (simp add: requested_def x)
  have "bag m p + q \<le> 2147483647" "0 \<le> bag m p"
    using Cons.prems(3) r [of p] requested_nonneg [OF pos, of p] by (auto dest: spec [where x = p])
  then have b: "bag (bump p q m) = (bag m)(p := bag m p + q)" using q by (intro bump_bag) (auto simp: in_i32_def)
  have "distinct (map fst m') \<and> fst ` set m' = fst ` set (bump p q m) \<union> fst ` set its \<and>
      (\<forall>p'. bag m' p' = bag (bump p q m) p' + requested p' its) \<and> (\<forall>x\<in>set its. 0 < snd x)"
  proof (rule Cons.IH [OF run bump_distinct [OF Cons.prems(2)]], rule allI)
    fix p'
    show "0 \<le> bag (bump p q m) p' \<and> bag (bump p q m) p' + requested p' its \<le> 2147483647"
      using Cons.prems(3) r [of p'] q by (auto simp: b dest: spec [where x = p'])
  qed
  then show ?case using b r q x by (auto simp: bump_keys)
qed

lemma map_of_bag: "distinct (map fst m) \<Longrightarrow> x \<in> set m \<Longrightarrow> bag m (fst x) = snd x"
  by (cases x) (simp add: bag_def)

text \<open>What an answered quote is made of.\<close>

lemma QuotePrice_lines:
  assumes "QuotePrice get batch rates iter1 iter2 req d e = (Inr m, d', e')"
    and "\<forall>x. mset (iter2 x) = mset x" "\<forall>p. requested p (qr_items req) \<le> 2147483647"
  obtains qm byID ps d1 e1 d2 e2 where "fst ` set qm = fst ` set (qr_items req)" "distinct (map fst (iter2 qm))"
    "\<forall>x\<in>set qm. snd x = requested (fst x) (qr_items req) \<and> (\<exists>p. byID (fst x) = Some p \<and> price_currency p = qr_currency req)"
    "set (iter2 qm) = set qm" "q_lines m = map (\<lambda>x. quote_line_of (totalled (line_in byID (qr_currency req) x))) (iter2 qm)"
    "batch (map fst (iter1 qm)) d1 e1 = (Inr ps, d2, e2)" "byID = by_id ps"
proof -
  let ?cur = "qr_currency req"
  obtain q ls cpn bps t sha byID qm d1 e1 d2 e2
    where m: "m = toProtoQuote q" and price: "Price sha ?cur ls cpn bps t = Inr q"
    and lines: "priceLines byID ?cur (iter2 qm) = Inr ls"
    and cat: "catalogProductsByID batch iter1 qm d1 e1 = (Inr byID, d2, e2)"
    and qm: "quantitiesByProduct (qr_items req) = Inr qm"
    using assms(1) unfolding QuotePrice_def by (auto split: if_splits elim!: bnd_InrE)
  have qty: "distinct (map fst qm)" "fst ` set qm = fst ` set (qr_items req)" "\<And>p. bag qm p = requested p (qr_items req)"
    using qty_loop_Inr [OF qm [unfolded quantitiesByProduct_def]] assms(3) by (auto simp: bag_def)
  have perm: "mset (iter2 qm) = mset qm" using assms(2) by blast
  then have s: "set (iter2 qm) = set qm" by (rule mset_eq_setD)
  have di: "distinct (map fst (iter2 qm))"
  proof -
    have "mset (map fst (iter2 qm)) = mset (map fst qm)" using perm by simp
    then show ?thesis using qty(1) mset_eq_imp_distinct_iff by blast
  qed
  obtain ps d3 e3 where b: "batch (map fst (iter1 qm)) d1 e1 = (Inr ps, d3, e3)" "byID = by_id ps"
    using cat unfolding catalogProductsByID_def by (auto simp: map_err_Inr elim!: bnd_InrE)
  have ls: "ls = map (line_in byID ?cur) (iter2 qm)"
    and known: "\<forall>x\<in>set (iter2 qm). \<exists>p. byID (fst x) = Some p \<and> price_currency p = ?cur"
    using lines by (auto simp: priceLines_Inr)
  have ql: "q_lines m = map (\<lambda>x. quote_line_of (totalled (line_in byID ?cur x))) (iter2 qm)"
    using price by (auto simp: m toProtoQuote_def quote_of_def Let_def ls comp_def elim!: Price_Inr)
  have q: "snd x = requested (fst x) (qr_items req)" if "x \<in> set qm" for x
    using map_of_bag [OF qty(1) that] qty(3) by simp
  show ?thesis by (rule that [OF qty(2) di _ s ql b]) (use q known s in blast)
qed

lemma ql_sel [simp]:
  "ql_product_id (quote_line_of (totalled (line_in byID cur x))) = fst x"
  "ql_quantity (quote_line_of (totalled (line_in byID cur x))) = snd x"
  by (simp_all add: quote_line_of_def line_in_def catalog_line_def totalled_def)

text \<open>The products and quantities of an answered quote are those of the request.\<close>

lemma quote_quantities:
  assumes "QuotePrice get batch rates iter1 iter2 req d e = (Inr m, d', e')"
    and "\<forall>x. mset (iter2 x) = mset x" "\<forall>p. requested p (qr_items req) \<le> 2147483647"
  shows "distinct (map ql_product_id (q_lines m)) \<and> ql_product_id ` set (q_lines m) = fst ` set (qr_items req) \<and>
    (\<forall>l\<in>set (q_lines m). ql_quantity l = requested (ql_product_id l) (qr_items req))"
proof -
  obtain qm byID where qm: "fst ` set qm = fst ` set (qr_items req)" "distinct (map fst (iter2 qm))"
    "\<forall>x\<in>set qm. snd x = requested (fst x) (qr_items req)" "set (iter2 qm) = set qm"
    "q_lines m = map (\<lambda>x. quote_line_of (totalled (line_in byID (qr_currency req) x))) (iter2 qm)"
    using QuotePrice_lines [OF assms] by metis
  then show ?thesis by (auto simp: comp_def image_image)
qed


subsection \<open>Concrete quotes\<close>

definition sample_quote :: quote where
  "sample_quote = quote_of rev ''USD'' sample_lines \<lparr>currency = ''USD'', cents = 2500\<rparr> \<lparr>currency = ''USD'', cents = 250\<rparr> 825 ''SAVE10''"

lemma sample_value: "sale_value sample_lines = 2500" "i64 2500 = 2500"
  by code_simp+

lemma sample_coupon: "coupon_part ''USD'' (Some ten_off) 0 \<lparr>currency = ''USD'', cents = 2500\<rparr> =
    Inr (\<lparr>currency = ''USD'', cents = 250\<rparr>, ''SAVE10'')"
  by code_simp

lemma sample_quantities: "sample_lines \<noteq> []" "\<forall>l\<in>set sample_lines. 0 < l_Quantity l"
  by code_simp+

lemma sample_quote: "Price rev ''USD'' sample_lines (Some ten_off) 825 0 = Inr sample_quote"
  using sample_quantities by (simp add: Price_eq Let_def sample_value sample_coupon sample_quote_def)

lemma sample_quote_lines: "qt_Lines sample_quote = map totalled sample_lines"
  by (simp add: sample_quote_def quote_of_def Let_def)

theorem quote_exact_witness:
  "cents (qt_Subtotal sample_quote) = 2500 \<and> cents (qt_Discount sample_quote) = 250 \<and> cents (qt_Tax sample_quote) = 186 \<and>
   cents (qt_Total sample_quote) = 2436"
proof -
  have a: "affordable sample_lines" by code_simp
  have d: "exact_discount (Some ten_off) 2500 = 250" "half_up 1856250 10000 = 186" by code_simp+
  have c: "\<forall>c. Some ten_off = Some c \<longrightarrow> 0 \<le> cents (cp_AmountOff c)" by (simp add: ten_off_def)
  from quote_exact [OF sample_quote a _ c] show ?thesis by (simp add: sample_value d)
qed

theorem quote_order_irrelevant_witness:
  "\<exists>ls' q'. priceLines sample_catalog ''USD'' [(''p2'', 1), (''p1'', 3)] = Inr ls' \<and>
     Price rev ''USD'' ls' (Some ten_off) 825 0 = Inr q' \<and> qt_Signature q' = qt_Signature sample_quote"
proof -
  have p: "priceLines sample_catalog ''USD'' [(''p1'', 3), (''p2'', 1)] = Inr sample_lines"
    by (simp add: sample_catalog_def sample_lines_def price_currency_def sample_product_def)
  have "mset [(''p2'', 1), (''p1'', 3)] = mset [(''p1'', 3), (''p2'', 1::int)]" by simp
  from quote_order_irrelevant [OF this _ p sample_quote]
  obtain ls' q' where "priceLines sample_catalog ''USD'' [(''p2'', 1), (''p1'', 3)] = Inr ls'"
    "Price rev ''USD'' ls' (Some ten_off) 825 0 = Inr q'" and q': "q' = sample_quote\<lparr>qt_Lines := qt_Lines q'\<rparr>" by auto
  moreover have "qt_Signature q' = qt_Signature sample_quote" by (subst q') simp
  ultimately show ?thesis by blast
qed

theorem signature_detects_drift_witness:
  "cents (qt_Total sample_quote) = cents (qt_Total (sample_quote\<lparr>qt_Lines := rev (qt_Lines sample_quote)\<rparr>)) \<and>
   signature rev ''USD'' sample_quote = signature rev ''USD'' (sample_quote\<lparr>qt_Lines := rev (qt_Lines sample_quote)\<rparr>)"
proof -
  let ?q = "sample_quote\<lparr>qt_Lines := rev (qt_Lines sample_quote)\<rparr>"
  have d: "distinct (map l_ProductID (qt_Lines sample_quote))"
    by (simp add: sample_quote_lines sample_lines_def catalog_line_def)
  have s: "signature rev ''USD'' sample_quote = signature rev ''USD'' ?q"
    by (simp add: signature_def signed_text_def sorted_by_product [OF mset_rev d])
  have l: "\<forall>l\<in>set (qt_Lines sample_quote) \<union> set (qt_Lines ?q). CHR '':'' \<notin> set (l_ProductID l)"
    by (simp add: sample_quote_lines sample_lines_def catalog_line_def)
  from signature_detects_drift [OF s _ _ _ l] show ?thesis using s by simp
qed

lemma sample_answer:
  "QuotePrice GetCoupon sample_batch flat_tax rev id sample_req sample_coupons (env_at 0) =
     (Inr (toProtoQuote sample_quote), sample_coupons, env_at 0)"
proof -
  have tax: "tax_For flat_tax (CountryCode (qr_ship_to sample_req)) = 825" by code_simp
  have req: "qr_currency sample_req = ''USD''" "qr_coupon sample_req = ''SAVE10''" "qr_items sample_req \<noteq> []"
    by (simp_all add: sample_req_def)
  have price: "Price (sha256_hex (env_at 0)) ''USD'' sample_lines (Some ten_off) 825 (now (env_at 0)) = Inr sample_quote"
    using sample_quote by (simp add: env_at_def)
  have c: "bnd (catalogProductsByID sample_batch rev sample_qty) k sample_coupons (env_at 0) =
      k (by_id [sample_product ''p2'' '''' 10, sample_product ''p1'' ''s1'' 5]) sample_coupons (env_at 0)" for k
    by (rule bnd_Inr) (rule sample_steps)
  have r: "bnd (resolveCoupon GetCoupon ''SAVE10'') k sample_coupons (env_at 0) = k (Some ten_off) sample_coupons (env_at 0)" for k
    by (rule bnd_Inr) (rule sample_steps)
  show ?thesis
    unfolding QuotePrice_def using req by (simp add: sample_steps tax price run_simps c r)
qed


subsection \<open>What goes wrong\<close>

text \<open>The currency of an amount coupon is never looked at: five dollars off is five of any currency.\<close>

theorem amount_coupon_currency_ignored:
  "Price sha cur ls (Some (c\<lparr>cp_AmountOff := \<lparr>currency = x, cents = a\<rparr>\<rparr>)) bps t =
   Price sha cur ls (Some (c\<lparr>cp_AmountOff := \<lparr>currency = y, cents = a\<rparr>\<rparr>)) bps t"
  by (simp add: Price_eq Let_def coupon_part_def discount_of_def Valid_def split: coupon_kind.split)

text \<open>The summed quantity of a product is an int32: three lines can add up to one unit.\<close>

theorem summed_quantity_wraps:
  "quantitiesByProduct [(''p'', 2147483647), (''p'', 2147483647), (''p'', 3)] = Inr [(''p'', 1)]"
  by code_simp

end
