(* ===== verification/Saga.thy ===== *)
theory Saga
  imports OrderKeys OrderReturns Auth Pricing
begin

section \<open>The order saga (services/order/internal/saga, reconcile, consumer)\<close>

text \<open>
  The orchestrator drives the cart, pricing, inventory and payment services around the order store.
  The clients are an argument: a record of programs over a system state that holds the order
  database (\<open>sys_orders\<close>) and whatever else the services keep.  A client call is a remote call, so it
  can fail before or after it took effect.  World.thy fills the record with the services modelled here.
\<close>

subsection \<open>Clients and state\<close>

record sys =
  sys_orders :: order_db

record 'w clients =
  cl_GetCart :: "string \<Rightarrow> ('w, (string \<times> int32) list) prog"
  cl_Clear :: "string \<Rightarrow> ('w, unit) prog"
  cl_QuotePrice :: "quote_req \<Rightarrow> ('w, quote_msg) prog"
  cl_Reserve :: "string \<Rightarrow> (string \<times> int32) list \<Rightarrow> int32 \<Rightarrow> ('w, string) prog"
  cl_Commit :: "string \<Rightarrow> ('w, unit) prog"
  cl_Release :: "string \<Rightarrow> ('w, unit) prog"
  cl_AdjustStock :: "string \<Rightarrow> int32 \<Rightarrow> ('w, unit) prog"
  cl_CreatePayment :: "string \<Rightarrow> wire_money option \<Rightarrow> string \<Rightarrow> ('w, string \<times> string) prog"
  cl_Refund :: "string \<Rightarrow> wire_money option \<Rightarrow> string \<Rightarrow> ('w, unit) prog"
  cl_Void :: "string \<Rightarrow> ('w, unit) prog"

definition at_store :: "(order_db, 'a) prog \<Rightarrow> ('x sys_scheme, 'a) prog" where
  "at_store p = zoom sys_orders sys_orders_update p"

subsection \<open>Compensation\<close>

definition ReleaseReservation :: "('x sys_scheme) clients \<Rightarrow> string \<Rightarrow> string \<Rightarrow> ('x sys_scheme, unit) prog" where
  "ReleaseReservation cl orderID resID =
     (if resID = '''' then ret ()
      else bnd (cl_Release cl resID) (\<lambda>_.
           if orderID = '''' then ret () else at_store (MarkReservationReleased orderID)))"

definition saga_VoidPayment :: "('x sys_scheme) clients \<Rightarrow> string \<Rightarrow> string \<Rightarrow> ('x sys_scheme, unit) prog" where
  "saga_VoidPayment cl orderID paymentID =
     (if paymentID = '''' then ret ()
      else bnd (cl_Void cl paymentID) (\<lambda>_.
           if orderID = '''' then ret () else at_store (MarkPaymentVoided orderID)))"

text \<open>Best effort: the error is logged and dropped.\<close>

definition best_effort :: "('w, 'a) prog \<Rightarrow> ('w, unit) prog" where
  "best_effort p = bnd (attempt p) (\<lambda>_. ret ())"

definition compensateRelease :: "('x sys_scheme) clients \<Rightarrow> string \<Rightarrow> string \<Rightarrow> ('x sys_scheme, unit) prog" where
  "compensateRelease cl orderID resID = best_effort (ReleaseReservation cl orderID resID)"

definition compensateVoid :: "('x sys_scheme) clients \<Rightarrow> string \<Rightarrow> string \<Rightarrow> ('x sys_scheme, unit) prog" where
  "compensateVoid cl orderID paymentID = best_effort (saga_VoidPayment cl orderID paymentID)"

definition CompensateCancelled :: "('x sys_scheme) clients \<Rightarrow> order option \<Rightarrow> ('x sys_scheme, unit) prog" where
  "CompensateCancelled cl o' = (case o' of
       None \<Rightarrow> ret ()
     | Some ord \<Rightarrow>
         if Status ord \<noteq> CANCELLED then ret ()
         else bnd (compensateRelease cl (ID ord) (ReservationID ord)) (\<lambda>_.
              compensateVoid cl (ID ord) (PaymentID ord)))"

subsection \<open>Checkout\<close>

record create_input =
  in_OwnerID :: string
  in_CartID :: string
  in_Currency :: string
  in_CouponCode :: string
  in_MethodToken :: string
  in_ShipTo :: address
  in_IdempotencyKey :: string

record create_result =
  res_Order :: order
  res_PaymentSecret :: string
  res_Replayed :: bool

definition lineFromQuote :: "quote_line_msg \<Rightarrow> line" where
  "lineFromQuote l = \<lparr>l_ProductID = ql_product_id l, l_Title = ql_title l, l_Quantity = ql_quantity l,
     l_UnitPrice = moneyFrom (ql_unit_price l), l_LineTotal = moneyFrom (ql_line_total l), l_ShopID = ql_shop_id l\<rparr>"

definition linesFromQuote :: "quote_msg \<Rightarrow> line list" where
  "linesFromQuote q = map lineFromQuote (q_lines q)"

definition order_of_quote :: "create_input \<Rightarrow> string \<Rightarrow> quote_msg \<Rightarrow> string \<Rightarrow> string \<Rightarrow> order" where
  "order_of_quote inp orderID quote payID resID = \<lparr>ID = orderID, OwnerID = in_OwnerID inp,
     Status = PENDING_PAYMENT, Lines = linesFromQuote quote, Subtotal = moneyFrom (q_subtotal quote),
     Discount = moneyFrom (q_discount quote), Tax = moneyFrom (q_tax quote), Total = moneyFrom (q_total quote),
     ShipTo = in_ShipTo inp, CartID = in_CartID inp, CouponCode = q_coupon_code quote, PaymentID = payID,
     ReservationID = resID, PricingSignature = q_signature quote, CancelReason = '''', CreatedAt = 0, UpdatedAt = 0\<rparr>"

text \<open>\<open>errs.Wrap\<close> around a client call.\<close>

definition wrapped :: "err_kind \<Rightarrow> string \<Rightarrow> ('w, 'a) prog \<Rightarrow> ('w, 'a) prog" where
  "wrapped k reason p = map_err (\<lambda>err. errs_Wrap err k reason) p"

text \<open>Steps 1 to 6 of \<open>CreateOrder\<close>, after the claim.\<close>

definition place_order :: "('x sys_scheme) clients \<Rightarrow> create_input \<Rightarrow> ('x sys_scheme, create_result) prog" where
  "place_order cl inp =
     bnd (wrapped KindUnavailable ''CART_UNAVAILABLE'' (cl_GetCart cl (in_CartID inp))) (\<lambda>items.
     if items = [] then fail (errs_New KindFailedPrecondition ''CART_EMPTY'')
     else
     bnd (wrapped KindFailedPrecondition ''QUOTE_FAILED'' (cl_QuotePrice cl
            \<lparr>qr_items = items, qr_currency = in_Currency inp, qr_coupon = in_CouponCode inp, qr_ship_to = in_ShipTo inp\<rparr>)) (\<lambda>quote.
     bnd new_uuid (\<lambda>orderID.
     bnd (wrapped KindFailedPrecondition ''RESERVE_FAILED'' (cl_Reserve cl orderID items 900)) (\<lambda>resID.
     bnd (attempt (cl_CreatePayment cl orderID (q_total quote) (in_MethodToken inp))) (\<lambda>p. case p of
       Inl err \<Rightarrow> bnd (compensateRelease cl '''' resID) (\<lambda>_.
         fail (errs_Wrap err KindUnavailable ''PAYMENT_INIT_FAILED''))
     | Inr pay \<Rightarrow>
       let ord = order_of_quote inp orderID quote (fst pay) resID in
       bnd (attempt (at_store (InsertWithKey ord (in_IdempotencyKey inp)))) (\<lambda>ins. case ins of
         Inl err \<Rightarrow> bnd (compensateRelease cl '''' resID) (\<lambda>_.
                    bnd (compensateVoid cl '''' (fst pay)) (\<lambda>_. fail err))
       | Inr _ \<Rightarrow> bnd (best_effort (cl_Clear cl (in_CartID inp))) (\<lambda>_.
           ret \<lparr>res_Order = ord, res_PaymentSecret = snd pay, res_Replayed = False\<rparr>)))))))"

text \<open>The deferred release of the claim: it runs when the checkout returns an error.\<close>

definition releasing :: "string \<Rightarrow> ('x sys_scheme, 'a) prog \<Rightarrow> ('x sys_scheme, 'a) prog" where
  "releasing key body = bnd (attempt body) (\<lambda>r. case r of
       Inr a \<Rightarrow> ret a
     | Inl err \<Rightarrow> bnd (best_effort (at_store (ReleaseIdempotencyKey key))) (\<lambda>_. fail err))"

definition CreateOrder :: "('x sys_scheme) clients \<Rightarrow> create_input \<Rightarrow> ('x sys_scheme, create_result) prog" where
  "CreateOrder cl inp0 =
     (if in_OwnerID inp0 = '''' then fail (errs_New KindUnauthenticated ''NOT_AUTHENTICATED'')
      else if in_CartID inp0 = '''' then fail (errs_New KindInvalidArgument ''CART_ID_REQUIRED'')
      else let inp = (if length (in_Currency inp0) \<noteq> 3 then inp0\<lparr>in_Currency := ''USD''\<rparr> else inp0);
               key = in_IdempotencyKey inp in
        if key = '''' then place_order cl inp
        else
        bnd (asks (\<lambda>e. Fingerprint e (in_OwnerID inp) (in_CartID inp) (in_Currency inp) (in_CouponCode inp) 0)) (\<lambda>print.
        bnd (attempt (at_store (ClaimIdempotencyKey key (in_OwnerID inp) print))) (\<lambda>c. case c of
          Inl err \<Rightarrow> fail (if err = ErrIdempotencyKeyReused
                          then errs_New KindInvalidArgument ''IDEMPOTENCY_KEY_REUSED'' else err)
        | Inr claim \<Rightarrow>
            if c_OrderID claim \<noteq> '''' then
              bnd (at_store (store_get (c_OrderID claim) (in_OwnerID inp))) (\<lambda>ord.
              ret \<lparr>res_Order = ord, res_PaymentSecret = '''', res_Replayed = True\<rparr>)
            else if c_InFlight claim then fail (errs_New KindConflict ''CHECKOUT_IN_PROGRESS'')
            else releasing key (place_order cl inp))))"

subsection \<open>Event handlers\<close>

definition OnPaymentAuthorized :: "('x sys_scheme) clients \<Rightarrow> string \<Rightarrow> string \<Rightarrow> ('x sys_scheme, unit) prog" where
  "OnPaymentAuthorized cl eventID orderID =
     bnd (at_store (Apply orderID eventID Confirm)) (\<lambda>a. case a of
       None \<Rightarrow> ret ()
     | Some ord \<Rightarrow>
         if Status ord = CONFIRMED \<and> ReservationID ord \<noteq> '''' then
           wrapped KindUnavailable ''COMMIT_FAILED'' (cl_Commit cl (ReservationID ord))
         else ret ())"

definition OnPaymentFailed :: "('x sys_scheme) clients \<Rightarrow> string \<Rightarrow> string \<Rightarrow> string \<Rightarrow> ('x sys_scheme, unit) prog" where
  "OnPaymentFailed cl eventID orderID reason =
     bnd (at_store (Apply orderID eventID (Cancel (''PAYMENT_FAILED:'' @ reason)))) (\<lambda>a. case a of
       None \<Rightarrow> ret ()
     | Some ord \<Rightarrow> compensateRelease cl (ID ord) (ReservationID ord))"

definition OnShipmentDelivered :: "string \<Rightarrow> string \<Rightarrow> string \<Rightarrow> ('x sys_scheme, unit) prog" where
  "OnShipmentDelivered eventID orderID shopID = discard (at_store (ApplyShipmentDelivered orderID shopID eventID))"

text \<open>The function \<open>OnReservationExpired\<close> applies: only a pending order is cancelled.\<close>

definition expire_pending :: "order \<Rightarrow> order res" where
  "expire_pending ord = (if Status ord \<noteq> PENDING_PAYMENT then Inr ord else Cancel ''RESERVATION_EXPIRED'' ord)"

definition OnReservationExpired :: "('x sys_scheme) clients \<Rightarrow> string \<Rightarrow> string \<Rightarrow> ('x sys_scheme, unit) prog" where
  "OnReservationExpired cl eventID orderRef =
     bnd (attempt (at_store (FindByReservationID orderRef))) (\<lambda>f.
     bnd (case f of
            Inl err \<Rightarrow> if errs_Is err KindNotFound then attempt (at_store (store_get orderRef '''')) else ret f
          | Inr _ \<Rightarrow> ret f) (\<lambda>g. case g of
       Inl err \<Rightarrow> if errs_Is err KindNotFound then ret () else fail err
     | Inr ord \<Rightarrow>
       bnd (at_store (Apply (ID ord) eventID expire_pending)) (\<lambda>a. case a of
         None \<Rightarrow> ret ()
       | Some applied \<Rightarrow>
           if Status applied = CANCELLED then
             bnd (best_effort (at_store (MarkReservationReleased (ID applied)))) (\<lambda>_.
             compensateVoid cl (ID applied) (PaymentID applied))
           else ret ())))"

subsection \<open>The consumer (internal/consumer/consumer.go)\<close>

text \<open>The events it decodes.\<close>

datatype saga_event =
    EvAuthorized string
  | EvFailed string string
  | EvExpired string
  | EvDelivered string string

definition order_Handler :: "('x sys_scheme) clients \<Rightarrow> saga_event option krecord \<Rightarrow> ('x sys_scheme, unit) prog" where
  "order_Handler cl r =
     (if kr_topic r = ''commerce.payment.authorized'' then
        (case kr_value r of Some (EvAuthorized oid) \<Rightarrow> OnPaymentAuthorized cl (event_id r) oid | _ \<Rightarrow> ret ())
      else if kr_topic r = ''commerce.payment.failed'' then
        (case kr_value r of Some (EvFailed oid reason) \<Rightarrow> OnPaymentFailed cl (event_id r) oid reason | _ \<Rightarrow> ret ())
      else if kr_topic r = ''commerce.inventory.reservation_expired'' then
        (case kr_value r of Some (EvExpired ref) \<Rightarrow> OnReservationExpired cl (event_id r) ref | _ \<Rightarrow> ret ())
      else if kr_topic r = ''commerce.fulfillment.delivered'' then
        (case kr_value r of Some (EvDelivered oid shop) \<Rightarrow> OnShipmentDelivered (event_id r) oid shop | _ \<Rightarrow> ret ())
      else ret ())"

subsection \<open>The reconciler (internal/reconcile/reconciler.go)\<close>

text \<open>One order of a sweep: both compensations are retried, whatever the first one answers.\<close>

definition sweep_one :: "('x sys_scheme) clients \<Rightarrow> pending_compensation \<Rightarrow> ('x sys_scheme, unit) prog" where
  "sweep_one cl p =
     bnd (if pc_ReservationID p \<noteq> '''' then best_effort (ReleaseReservation cl (pc_OrderID p) (pc_ReservationID p))
          else ret ()) (\<lambda>_.
     if pc_PaymentID p \<noteq> '''' then best_effort (saga_VoidPayment cl (pc_OrderID p) (pc_PaymentID p)) else ret ())"

definition Sweep :: "('x sys_scheme) clients \<Rightarrow> int \<Rightarrow> int \<Rightarrow> ('x sys_scheme, unit) prog" where
  "Sweep cl settledFor batch =
     bnd (attempt (at_store (PendingCompensations settledFor batch))) (\<lambda>q. case q of
       Inl _ \<Rightarrow> ret ()
     | Inr pending \<Rightarrow> foreach (sweep_one cl) pending)"

definition ReapKeys :: "int \<Rightarrow> ('x sys_scheme, unit) prog" where
  "ReapKeys retain = best_effort (at_store (ReapIdempotencyKeys retain))"

text \<open>The defaults of \<open>New\<close> and \<open>WithKeyReaper\<close>, and the body of a tick of \<open>Run\<close>.\<close>

definition sweep_settled :: "int \<Rightarrow> int" where
  "sweep_settled x = (if x \<le> 0 then 5 * minute else x)"

definition sweep_batch :: "int \<Rightarrow> int" where
  "sweep_batch b = (if b \<le> 0 then 100 else b)"

definition key_retain :: "int \<Rightarrow> int" where
  "key_retain r = (if r \<le> 0 then 24 * 60 * minute else r)"

definition sweep_tick :: "('x sys_scheme) clients \<Rightarrow> int \<Rightarrow> int \<Rightarrow> int option \<Rightarrow> ('x sys_scheme, unit) prog" where
  "sweep_tick cl settledFor batch keys =
     bnd (Sweep cl (sweep_settled settledFor) (sweep_batch batch)) (\<lambda>_. case keys of
       None \<Rightarrow> ret ()
     | Some retain \<Rightarrow> ReapKeys (key_retain retain))"

end
