(* ===== verification/SagaReturns.thy ===== *)
theory SagaReturns
  imports Saga
begin

section \<open>Returns (services/order/internal/saga/returns.go)\<close>

text \<open>
  Opening a return for a delivered order, with the refund split over its lines by cumulative rounding,
  and the operator's decision with its refund and restock.
\<close>

record resolved_line =
  rs_productID :: string
  rs_qty :: int32
  rs_value :: int64

text \<open>\<open>byProduct\<close> is filled in line order, so a later line of a product replaces an earlier one.\<close>

definition byProduct :: "line list \<Rightarrow> string \<Rightarrow> line option" where
  "byProduct ls p = List.find (\<lambda>l. l_ProductID l = p) (rev ls)"

text \<open>The loop of \<open>resolveReturnLines\<close>.\<close>

fun resolve_loop :: "order \<Rightarrow> (string \<times> int32) list \<Rightarrow> (order_db, resolved_line list) prog" where
  "resolve_loop ord [] = ret []"
| "resolve_loop ord ((p, q) # reqs) = (case byProduct (Lines ord) p of
       None \<Rightarrow> fail (errs_New KindInvalidArgument ''LINE_NOT_IN_ORDER'')
     | Some ol \<Rightarrow>
       bnd (ReturnedQty (ID ord) p) (\<lambda>already.
       let returnable = i32 (l_Quantity ol - already);
           qty = (if q = 0 then returnable else q) in
       if qty \<le> 0 then resolve_loop ord reqs
       else if qty > returnable then fail (errs_New KindFailedPrecondition ''QTY_EXCEEDS_RETURNABLE'')
       else bnd (resolve_loop ord reqs) (\<lambda>out.
            ret (\<lparr>rs_productID = p, rs_qty = qty, rs_value = i64 (cents (l_UnitPrice ol) * qty)\<rparr> # out))))"

definition resolveReturnLines :: "order \<Rightarrow> (string \<times> int32) list \<Rightarrow> (order_db, resolved_line list) prog" where
  "resolveReturnLines ord reqLines =
     resolve_loop ord (if reqLines = [] then map (\<lambda>l. (l_ProductID l, 0)) (Lines ord) else reqLines)"

text \<open>The allocation loop: the value and the refund accumulated so far; the lines of the return.\<close>

fun allocate :: "order \<Rightarrow> resolved_line list \<Rightarrow> int64 \<Rightarrow> int64 \<Rightarrow> return_line list" where
  "allocate ord [] cumValue cumRefund = []"
| "allocate ord (r # rl) cumValue cumRefund =
     (let cumValue' = i64 (cumValue + rs_value r);
          newCum = i64 (cents (Total ord) * cumValue') sdiv cents (Subtotal ord);
          refund = i64 (newCum - cumRefund)
      in \<lparr>rl_ProductID = rs_productID r, rl_Quantity = rs_qty r,
          rl_RefundAmount = \<lparr>currency = currency (Total ord), cents = refund\<rparr>\<rparr> #
         allocate ord rl cumValue' newCum)"

fun total_cents :: "return_line list \<Rightarrow> int64 \<Rightarrow> int64" where
  "total_cents [] acc = acc"
| "total_cents (l # ls) acc = total_cents ls (i64 (acc + cents (rl_RefundAmount l)))"

definition return_of :: "order \<Rightarrow> string \<Rightarrow> string \<Rightarrow> string \<Rightarrow> return_line list \<Rightarrow> rma" where
  "return_of ord rid ownerID reason ls = \<lparr>r_ID = rid, r_OrderID = ID ord, r_OwnerID = ownerID,
     r_Status = REQUESTED, r_Reason = reason, r_Lines = ls,
     r_RefundTotal = \<lparr>currency = currency (Total ord), cents = total_cents ls 0\<rparr>,
     r_DecidedBy = '''', r_DecisionNote = '''', r_CreatedAt = 0, r_UpdatedAt = 0\<rparr>"

definition RequestReturn :: "string \<Rightarrow> string \<Rightarrow> string \<Rightarrow> (string \<times> int32) list \<Rightarrow> ('x sys_scheme, rma) prog" where
  "RequestReturn ownerID orderID reason reqLines =
     bnd (at_store (store_get orderID ownerID)) (\<lambda>ord.
     if Status ord \<noteq> FULFILLED then fail (errs_New KindFailedPrecondition ''NOT_RETURNABLE'')
     else if cents (Subtotal ord) \<le> 0 then fail (errs_New KindFailedPrecondition ''NOT_RETURNABLE'')
     else bnd (at_store (resolveReturnLines ord reqLines)) (\<lambda>rl.
       if rl = [] then fail (errs_New KindFailedPrecondition ''NOTHING_TO_RETURN'')
       else bnd new_uuid (\<lambda>rid.
            let r = return_of ord rid ownerID reason (allocate ord rl 0 0) in
            bnd (at_store (InsertReturn r)) (\<lambda>_. ret r))))"

text \<open>One pending line of an approved return: back into stock, then marked.\<close>

definition restock_line :: "('x sys_scheme) clients \<Rightarrow> string \<Rightarrow> string \<times> int32 \<Rightarrow> ('x sys_scheme, unit) prog" where
  "restock_line cl rid l =
     bnd (wrapped KindUnavailable ''RESTOCK_FAILED'' (cl_AdjustStock cl (fst l) (snd l))) (\<lambda>_.
     at_store (MarkRestocked rid (fst l)))"

definition DecideReturn :: "('x sys_scheme) clients \<Rightarrow> string \<Rightarrow> string \<Rightarrow> bool \<Rightarrow> string \<Rightarrow> ('x sys_scheme, rma) prog" where
  "DecideReturn cl decidedBy returnID approve msg =
     bnd (at_store (store_DecideReturn returnID decidedBy approve msg)) (\<lambda>r.
     if r_Status r \<noteq> APPROVED then ret r
     else bnd (at_store (store_get (r_OrderID r) '''')) (\<lambda>ord.
          bnd (if PaymentID ord \<noteq> '''' \<and> cents (r_RefundTotal r) > 0 then
                 wrapped KindUnavailable ''REFUND_FAILED''
                   (cl_Refund cl (PaymentID ord) (Some (wire_of (r_RefundTotal r))) (r_ID r))
               else ret ()) (\<lambda>_.
          bnd (at_store (UnrestockedLines (r_ID r))) (\<lambda>pending.
          bnd (foreach (restock_line cl (r_ID r)) pending) (\<lambda>_.
          ret r)))))"

end
