(* ===== verification/Checkout.thy ===== *)
theory Checkout
  imports Saga Quiet OrderStoreSpec
begin

section \<open>A failed checkout is compensated\<close>

text \<open>
  What the checkout relies on of its four downstream services, as a locale: which part of the state a
  call may change, that releasing a reservation gives back what was held before it, and that voiding a
  payment leaves the open payments as they were before it was created.  Inside it, once: without
  faults, a checkout that answers with an error leaves stock, open payments and orders as they were,
  at whichever step it failed.
\<close>

subsection \<open>The order store under a checkout\<close>

definition order_tables :: "order_db \<Rightarrow> order_row list \<times> line_row list \<times> order_event outbox" where
  "order_tables d = (orders d, order_lines d, oox d)"

lemma tame_key_status [tame_intros]: "tame m \<Longrightarrow> tame m' \<Longrightarrow> tame (case s of IN_FLIGHT \<Rightarrow> m | COMPLETED \<Rightarrow> m')"
  by (simp split: key_status.split)

lemma tame_ClaimIdempotencyKey [tame_intros]: "tame (ClaimIdempotencyKey key owner print)"
  by (auto simp: ClaimIdempotencyKey_def claim_insert_def claim_takeover_def intro!: tame_intros)

lemma tame_ReleaseIdempotencyKey [tame_intros]: "tame (ReleaseIdempotencyKey key)"
  by (auto simp: ReleaseIdempotencyKey_def intro!: tame_intros)

lemma tame_store_get [tame_intros]: "tame (store_get oid owner)"
  by (auto simp: store_get_def notFoundID_def attachLines_def intro!: tame_intros)

lemma tame_insertOrderTx [tame_intros]: "tame (insertOrderTx ord)"
  by (auto simp: insertOrderTx_def ins_order_row_def ins_line_row_def outboxCreated_def emit_def intro!: tame_intros)

lemma tame_InsertWithKey [tame_intros]: "tame (InsertWithKey ord k)"
  by (auto simp: InsertWithKey_def Insert_def complete_key_def intro!: tame_intros)

lemma tame_marks [tame_intros]: "tame (MarkReservationReleased oid)" "tame (MarkPaymentVoided oid)"
  by (auto simp: MarkReservationReleased_def MarkPaymentVoided_def mark_order_def notFoundID_def intro!: tame_intros)

lemma tame_at_store [tame_intros]: "tame t \<Longrightarrow> tame (at_store t)"
  by (auto simp: at_store_def intro!: tame_intros)

lemma wp_at_store [simp]:
  "wp (at_store p) Q w e = wp p (\<lambda>r d. Q r (w\<lparr>sys_orders := d\<rparr>)) (sys_orders w) e"
  by (simp add: at_store_def)

lemma claim_keeps_tables: "wp (ClaimIdempotencyKey key owner print) (\<lambda>_ d' _. order_tables d' = order_tables d) d e"
  unfolding ClaimIdempotencyKey_def claim_insert_def claim_takeover_def
  by (auto simp: order_tables_def intro!: wp_exec_chkI wp_query_rowI split: if_splits key_status.split option.split)

lemma release_keeps_tables: "wp (ReleaseIdempotencyKey key) (\<lambda>_ d' _. order_tables d' = order_tables d) d e"
  unfolding ReleaseIdempotencyKey_def by (auto simp: order_tables_def intro!: wp_execI)

lemma quiet_insert_err:
  assumes "quiet V e"
  shows "wp (InsertWithKey ord key) (\<lambda>r d' _. \<forall>x. r = Inl x \<longrightarrow> d' = d) d e"
  unfolding InsertWithKey_def Insert_def complete_key_def wp_iff
  using quiet_faults [OF assms] by (auto intro!: tame_intros dest!: quiet_in_tx_err [rotated 2])

lemma wp_best_effort: "wp (best_effort m) Q d e = wp m (\<lambda>_. Q (Inr ())) d e"
  by (simp add: best_effort_def)

lemma quietly_best_effort: "quietly V P m (\<lambda>_. Q) \<Longrightarrow> quietly V P (best_effort m) (\<lambda>r d. r = Inr () \<and> Q d)"
  by (simp add: best_effort_def quietly_def)

subsection \<open>A checkout that answers\<close>

lemma place_order_InrE:
  assumes "place_order cl inp w e = (Inr res, w', e')"
  obtains items w1 e1 quote w2 e2 oid e3 rid w4 e4 pay w5 e5 w6 e6 e7 where
    "cl_GetCart cl (in_CartID inp) w e = (Inr items, w1, e1)"
    "cl_QuotePrice cl \<lparr>qr_items = items, qr_currency = in_Currency inp, qr_coupon = in_CouponCode inp, qr_ship_to = in_ShipTo inp\<rparr>
       w1 e1 = (Inr quote, w2, e2)"
    "cl_Reserve cl oid items 900 w2 e3 = (Inr rid, w4, e4)"
    "cl_CreatePayment cl oid (q_total quote) (in_MethodToken inp) w4 e4 = (Inr pay, w5, e5)"
    "at_store (InsertWithKey (order_of_quote inp oid quote (fst pay) rid) (in_IdempotencyKey inp)) w5 e5 = (Inr (), w6, e6)"
    "best_effort (cl_Clear cl (in_CartID inp)) w6 e6 = (Inr (), w', e7)"
    "res = \<lparr>res_Order = order_of_quote inp oid quote (fst pay) rid, res_PaymentSecret = snd pay, res_Replayed = False\<rparr>"
  using assms unfolding place_order_def wrapped_def Let_def
  by (auto simp: map_err_Inr elim!: bnd_InrE split: sum.splits if_splits)

subsection \<open>The contract of the services\<close>

locale checkout_services =
  fixes V :: "string \<Rightarrow> bool"
    and cl :: "('x sys_scheme) clients"
    and inv_of :: "'x sys_scheme \<Rightarrow> 'i"
    and pay_of :: "'x sys_scheme \<Rightarrow> 'q"
    and ok :: "'i \<Rightarrow> bool"
    and stock_of :: "'i \<Rightarrow> 's"
    and holds :: "'i \<Rightarrow> string \<Rightarrow> 's \<Rightarrow> bool"
    and pays :: "'q \<Rightarrow> 'p"
    and opened :: "'q \<Rightarrow> string \<Rightarrow> 'p \<Rightarrow> bool"
  assumes cart: "quietly V (\<lambda>w. inv_of w = i \<and> pay_of w = q \<and> sys_orders w = os) (cl_GetCart cl cid)
      (\<lambda>_ w. inv_of w = i \<and> pay_of w = q \<and> sys_orders w = os)"
    and quote: "quietly V (\<lambda>w. inv_of w = i \<and> pay_of w = q \<and> sys_orders w = os) (cl_QuotePrice cl req)
      (\<lambda>_ w. inv_of w = i \<and> pay_of w = q \<and> sys_orders w = os)"
    and clear: "tame (cl_Clear cl cid)"
    and reserve: "ok i \<Longrightarrow> quietly V (\<lambda>w. inv_of w = i \<and> pay_of w = q \<and> sys_orders w = os) (cl_Reserve cl oid its ttl)
      (\<lambda>r w. pay_of w = q \<and> sys_orders w = os \<and> ok (inv_of w) \<and>
         (case r of Inl _ \<Rightarrow> stock_of (inv_of w) = stock_of i | Inr rid \<Rightarrow> holds (inv_of w) rid (stock_of i)))"
    and release: "ok i \<Longrightarrow> holds i rid s \<Longrightarrow>
      quietly V (\<lambda>w. inv_of w = i \<and> pay_of w = q \<and> sys_orders w = os) (cl_Release cl rid)
      (\<lambda>_ w. pay_of w = q \<and> sys_orders w = os \<and> ok (inv_of w) \<and> stock_of (inv_of w) = s)"
    and held_id: "holds i rid s \<Longrightarrow> rid \<noteq> ''''"
    and create: "quietly V (\<lambda>w. inv_of w = i \<and> pay_of w = q \<and> sys_orders w = os) (cl_CreatePayment cl oid amt tok)
      (\<lambda>r w. inv_of w = i \<and> sys_orders w = os \<and>
         (case r of Inl _ \<Rightarrow> pays (pay_of w) = pays q | Inr x \<Rightarrow> opened (pay_of w) (fst x) (pays q)))"
    and void: "opened q pid p \<Longrightarrow> quietly V (\<lambda>w. inv_of w = i \<and> pay_of w = q \<and> sys_orders w = os) (cl_Void cl pid)
      (\<lambda>_ w. inv_of w = i \<and> sys_orders w = os \<and> pays (pay_of w) = p)"
    and opened_id: "opened q pid p \<Longrightarrow> pid \<noteq> ''''"
    and frame: "inv_of (w\<lparr>sys_orders := d\<rparr>) = inv_of w" "pay_of (w\<lparr>sys_orders := d\<rparr>) = pay_of w"
begin

text \<open>Nothing is left of a checkout that started on stock \<open>s\<close>, open payments \<open>p\<close> and tables \<open>os\<close>.\<close>

definition undone :: "'s \<Rightarrow> 'p \<Rightarrow> order_row list \<times> line_row list \<times> order_event outbox \<Rightarrow> 'x sys_scheme \<Rightarrow> bool" where
  "undone s p os w \<longleftrightarrow> stock_of (inv_of w) = s \<and> pays (pay_of w) = p \<and> order_tables (sys_orders w) = os"

lemma wp_cart:
  assumes "quiet V e" "\<And>r w' e'. quiet V e' \<Longrightarrow> inv_of w' = inv_of w \<Longrightarrow> pay_of w' = pay_of w \<Longrightarrow> sys_orders w' = sys_orders w \<Longrightarrow> Q r w' e'"
  shows "wp (cl_GetCart cl cid) Q w e"
  by (rule wp_quietly [OF cart [of "inv_of w" "pay_of w" "sys_orders w"] assms(1)]) (simp_all add: assms(2))

lemma wp_quote:
  assumes "quiet V e" "\<And>r w' e'. quiet V e' \<Longrightarrow> inv_of w' = inv_of w \<Longrightarrow> pay_of w' = pay_of w \<Longrightarrow> sys_orders w' = sys_orders w \<Longrightarrow> Q r w' e'"
  shows "wp (cl_QuotePrice cl req) Q w e"
  by (rule wp_quietly [OF quote [of "inv_of w" "pay_of w" "sys_orders w"] assms(1)]) (simp_all add: assms(2))

lemma wp_reserve:
  assumes "quiet V e" "ok (inv_of w)"
    and "\<And>x w' e'. quiet V e' \<Longrightarrow> stock_of (inv_of w') = stock_of (inv_of w) \<Longrightarrow> pay_of w' = pay_of w \<Longrightarrow>
           sys_orders w' = sys_orders w \<Longrightarrow> Q (Inl x) w' e'"
    and "\<And>rid w' e'. quiet V e' \<Longrightarrow> ok (inv_of w') \<Longrightarrow> holds (inv_of w') rid (stock_of (inv_of w)) \<Longrightarrow> pay_of w' = pay_of w \<Longrightarrow>
           sys_orders w' = sys_orders w \<Longrightarrow> Q (Inr rid) w' e'"
  shows "wp (cl_Reserve cl oid its ttl) Q w e"
  by (rule wp_quietly [OF reserve [OF assms(2), of "pay_of w" "sys_orders w"] assms(1)])
     (auto simp: assms(3,4) split: sum.splits)

lemma wp_create:
  assumes "quiet V e"
    and "\<And>x w' e'. quiet V e' \<Longrightarrow> inv_of w' = inv_of w \<Longrightarrow> sys_orders w' = sys_orders w \<Longrightarrow> pays (pay_of w') = pays (pay_of w) \<Longrightarrow>
           Q (Inl x) w' e'"
    and "\<And>y w' e'. quiet V e' \<Longrightarrow> inv_of w' = inv_of w \<Longrightarrow> sys_orders w' = sys_orders w \<Longrightarrow>
           opened (pay_of w') (fst y) (pays (pay_of w)) \<Longrightarrow> Q (Inr y) w' e'"
  shows "wp (cl_CreatePayment cl oid amt tok) Q w e"
  by (rule wp_quietly [OF create [of "inv_of w" "pay_of w" "sys_orders w"] assms(1)])
     (auto simp: assms(2,3) split: sum.splits)

lemma wp_compensateRelease:
  assumes "quiet V e" "ok (inv_of w)" "holds (inv_of w) rid s"
    and "\<And>w' e'. quiet V e' \<Longrightarrow> pay_of w' = pay_of w \<Longrightarrow> sys_orders w' = sys_orders w \<Longrightarrow> stock_of (inv_of w') = s \<Longrightarrow>
           Q (Inr ()) w' e'"
  shows "wp (compensateRelease cl '''' rid) Q w e"
  using held_id [OF assms(3)]
  by (auto simp: compensateRelease_def ReleaseReservation_def best_effort_def split: sum.splits
      intro!: wp_quietly [OF release [OF assms(2,3), of "pay_of w" "sys_orders w"] assms(1)] assms(4))

lemma wp_compensateVoid:
  assumes "quiet V e" "opened (pay_of w) pid p"
    and "\<And>w' e'. quiet V e' \<Longrightarrow> inv_of w' = inv_of w \<Longrightarrow> sys_orders w' = sys_orders w \<Longrightarrow> pays (pay_of w') = p \<Longrightarrow>
           Q (Inr ()) w' e'"
  shows "wp (compensateVoid cl '''' pid) Q w e"
  using opened_id [OF assms(2)]
  by (auto simp: compensateVoid_def saga_VoidPayment_def best_effort_def split: sum.splits
      intro!: wp_quietly [OF void [OF assms(2), of "inv_of w" "sys_orders w"] assms(1)] assms(3))

lemma wp_compensated_insert:
  assumes "quiet V e"
    and "\<And>x e'. quiet V e' \<Longrightarrow> Q (Inl x) d e'"
    and "\<And>d' e'. quiet V e' \<Longrightarrow> Q (Inr ()) d' e'"
  shows "wp (InsertWithKey ord key) Q d e"
proof -
  have "wp (InsertWithKey ord key) (\<lambda>r d' e'. (\<forall>x. r = Inl x \<longrightarrow> d' = d) \<and> later_env e e') d e"
    by (rule wp_tame [OF _ quiet_insert_err [OF assms(1)]]) (rule tame_intros)
  then show ?thesis
  proof (rule wp_mono, elim conjE)
    fix r :: "unit res" and d' e'
    assume "\<forall>x. r = Inl x \<longrightarrow> d' = d" "later_env e e'"
    then show "Q r d' e'" using assms quiet_later by (cases r) auto
  qed
qed

lemma place_order_undone:
  assumes "quiet V e" "ok (inv_of w)"
  shows "wp (place_order cl inp) (\<lambda>r w' e'. \<forall>x. r = Inl x \<longrightarrow>
     undone (stock_of (inv_of w)) (pays (pay_of w)) (order_tables (sys_orders w)) w' \<and> quiet V e') w e"
  unfolding place_order_def wrapped_def Let_def
  using assms
  by (auto simp: undone_def frame best_effort_def split: sum.splits
      intro!: wp_cart wp_quote wp_reserve wp_create wp_compensateRelease wp_compensateVoid wp_compensated_insert)

lemma wp_place_order:
  assumes "quiet V e" "ok (inv_of w)"
    and "\<And>x w' e'. quiet V e' \<Longrightarrow> undone (stock_of (inv_of w)) (pays (pay_of w)) (order_tables (sys_orders w)) w' \<Longrightarrow> Q (Inl x) w' e'"
    and "\<And>a w' e'. Q (Inr a) w' e'"
  shows "wp (place_order cl inp) Q w e"
proof (rule wp_mono [OF place_order_undone [OF assms(1,2)]])
  fix r :: "create_result res" and w' e'
  assume "\<forall>x. r = Inl x \<longrightarrow> undone (stock_of (inv_of w)) (pays (pay_of w)) (order_tables (sys_orders w)) w' \<and> quiet V e'"
  then show "Q r w' e'" using assms(3,4) by (cases r) auto
qed

lemma create_order_undone:
  assumes "quiet V e" "ok (inv_of w)"
  shows "wp (CreateOrder cl inp) (\<lambda>r w' _. \<forall>x. r = Inl x \<longrightarrow>
     undone (stock_of (inv_of w)) (pays (pay_of w)) (order_tables (sys_orders w)) w') w e"
proof -
  have self: "undone (stock_of (inv_of w)) (pays (pay_of w)) (order_tables (sys_orders w)) w" by (simp add: undone_def)
  have claim: "wp (ClaimIdempotencyKey key owner print) Q d e'"
    if "quiet V e'" "\<And>r d' e'. quiet V e' \<Longrightarrow> order_tables d' = order_tables d \<Longrightarrow> Q r d' e'" for key owner print Q d e'
    by (rule wp_mono [OF wp_tame [OF tame_ClaimIdempotencyKey claim_keeps_tables]]) (use that quiet_later in blast)
  have unclaim: "wp (ReleaseIdempotencyKey key) Q d e'"
    if "\<And>r d' e'. order_tables d' = order_tables d \<Longrightarrow> Q r d' e'" for key Q d e'
    by (rule wp_mono [OF release_keeps_tables]) (use that in blast)
  show ?thesis
    unfolding CreateOrder_def releasing_def best_effort_def Let_def
    using assms self
    by (auto simp: frame undone_def split: sum.splits
        intro!: claim unclaim wp_place_order wp_store_getI)
qed

end

end
