(* ===== verification/World.thy ===== *)
theory World
  imports SagaReturns Checkout Inventory Payment Cart Pricing Quiet
begin

section \<open>The services wired together (services/order/main.go)\<close>

text \<open>
  One state that holds the databases of the order, inventory, payment, cart and pricing services, and
  the clients record of the saga filled with their handlers.  A call goes through the server's
  interceptors: \<open>authUnary\<close> with the methods each main.go marks optional, the handler, and the error
  translation of \<open>loggingUnary\<close> (in \<open>rpc\<close>).  The authorization header is the one the caller's context
  carries, which \<open>ForwardAuth\<close> copies onto every outgoing call; a consumer and the reconciler have none.
  The answers of the catalog, the JWT library and the order of Go's maps stay parameters of the configuration.
\<close>

record world = sys +
  w_inv :: inv_db
  w_pay :: pay_db
  w_carts :: cart_db
  w_pricing :: pricing_db

definition empty_world :: world where
  "empty_world = \<lparr>sys_orders = empty_order_db, w_inv = empty_inv_db, w_pay = empty_pay_db, w_carts = empty_carts,
     w_pricing = \<lparr>coupons = []\<rparr>\<rparr>"

record config =
  wc_header :: "string option"
  wc_parse :: "string \<Rightarrow> go_err + claims"
  wc_cart_ttl :: int
  wc_rates :: tax_rates
  wc_iter1 :: iteration
  wc_iter2 :: iteration
  wc_catalog :: "string list \<Rightarrow> priced_product list res"

definition health_methods :: "string set" where
  "health_methods = {''/grpc.health.v1.Health/Check'', ''/grpc.health.v1.Health/Watch''}"

definition inventory_optional :: "string set" where
  "inventory_optional = {''/commerce.inventory.v1.InventoryService/CheckAvailability'',
     ''/commerce.inventory.v1.InventoryService/Reserve'', ''/commerce.inventory.v1.InventoryService/Commit'',
     ''/commerce.inventory.v1.InventoryService/Release''}"

definition payment_optional :: "string set" where
  "payment_optional = {''/commerce.payment.v1.PaymentService/CreatePayment'',
     ''/commerce.payment.v1.PaymentService/ConfirmPayment'', ''/commerce.payment.v1.PaymentService/Refund'',
     ''/commerce.payment.v1.PaymentService/Void''}"

definition cart_optional :: "string set" where
  "cart_optional = {''/commerce.cart.v1.CartService/GetCart'', ''/commerce.cart.v1.CartService/AddItem'',
     ''/commerce.cart.v1.CartService/SetItemQuantity'', ''/commerce.cart.v1.CartService/RemoveItem'',
     ''/commerce.cart.v1.CartService/Clear'', ''/commerce.cart.v1.CartService/Merge''}"

definition pricing_optional :: "string set" where
  "pricing_optional = {''/commerce.pricing.v1.PricingService/QuotePrice'',
     ''/commerce.pricing.v1.PricingService/ValidateCoupon''}"

definition served :: "config \<Rightarrow> string set \<Rightarrow> string \<Rightarrow> (caller \<Rightarrow> (world, 'a) prog) \<Rightarrow> (world, 'a) prog" where
  "served cf opt m h = rpc (loggingUnary (authUnary (wc_parse cf) health_methods opt m (wc_header cf) h))"

definition at_inv :: "(inv_db, 'a) prog \<Rightarrow> (world, 'a) prog" where "at_inv p = zoom w_inv w_inv_update p"
definition at_pay :: "(pay_db, 'a) prog \<Rightarrow> (world, 'a) prog" where "at_pay p = zoom w_pay w_pay_update p"
definition at_carts :: "(cart_db, 'a) prog \<Rightarrow> (world, 'a) prog" where "at_carts p = zoom w_carts w_carts_update p"
definition at_pricing :: "(pricing_db, 'a) prog \<Rightarrow> (world, 'a) prog" where "at_pricing p = zoom w_pricing w_pricing_update p"

definition call_GetCart :: "config \<Rightarrow> string \<Rightarrow> (world, (string \<times> int32) list) prog" where
  "call_GetCart cf cid = bnd (served cf cart_optional ''/commerce.cart.v1.CartService/GetCart''
     (\<lambda>_. at_carts (GetCart (wc_cart_ttl cf) cid)))
     (\<lambda>m. ret (map (\<lambda>it. (ci_ProductID it, ci_Quantity it)) (cm_items m)))"

definition call_Clear :: "config \<Rightarrow> string \<Rightarrow> (world, unit) prog" where
  "call_Clear cf cid = discard (served cf cart_optional ''/commerce.cart.v1.CartService/Clear''
     (\<lambda>_. at_carts (ClearCart (wc_cart_ttl cf) cid)))"

definition call_QuotePrice :: "config \<Rightarrow> quote_req \<Rightarrow> (world, quote_msg) prog" where
  "call_QuotePrice cf req = served cf pricing_optional ''/commerce.pricing.v1.PricingService/QuotePrice''
     (\<lambda>_. QuotePrice (\<lambda>code. at_pricing (GetCoupon code)) (\<lambda>ids. rpc (lift_res (wc_catalog cf ids)))
        (wc_rates cf) (wc_iter1 cf) (wc_iter2 cf) req)"

definition call_Reserve :: "config \<Rightarrow> string \<Rightarrow> (string \<times> int32) list \<Rightarrow> int32 \<Rightarrow> (world, string) prog" where
  "call_Reserve cf ref its ttl = bnd (served cf inventory_optional ''/commerce.inventory.v1.InventoryService/Reserve''
     (\<lambda>_. at_inv (Reserve ref its ttl))) (\<lambda>x. ret (fst x))"

definition call_Commit :: "config \<Rightarrow> string \<Rightarrow> (world, unit) prog" where
  "call_Commit cf rid = served cf inventory_optional ''/commerce.inventory.v1.InventoryService/Commit''
     (\<lambda>_. at_inv (store_Commit rid))"

definition call_Release :: "config \<Rightarrow> string \<Rightarrow> (world, unit) prog" where
  "call_Release cf rid = served cf inventory_optional ''/commerce.inventory.v1.InventoryService/Release''
     (\<lambda>_. at_inv (store_Release rid))"

definition call_AdjustStock :: "config \<Rightarrow> string \<Rightarrow> int32 \<Rightarrow> (world, unit) prog" where
  "call_AdjustStock cf p delta = discard (served cf inventory_optional ''/commerce.inventory.v1.InventoryService/AdjustStock''
     (\<lambda>c. at_inv (AdjustStock c p delta)))"

definition call_CreatePayment :: "config \<Rightarrow> string \<Rightarrow> wire_money option \<Rightarrow> string \<Rightarrow> (world, string \<times> string) prog" where
  "call_CreatePayment cf oid amt tok = bnd (served cf payment_optional ''/commerce.payment.v1.PaymentService/CreatePayment''
     (\<lambda>_. at_pay (CreatePayment oid amt tok))) (\<lambda>m. ret (pm_payment_id m, pm_client_secret m))"

definition call_Refund :: "config \<Rightarrow> string \<Rightarrow> wire_money option \<Rightarrow> string \<Rightarrow> (world, unit) prog" where
  "call_Refund cf pid amt k = discard (served cf payment_optional ''/commerce.payment.v1.PaymentService/Refund''
     (\<lambda>_. at_pay (RefundPayment pid amt k)))"

definition call_Void :: "config \<Rightarrow> string \<Rightarrow> (world, unit) prog" where
  "call_Void cf pid = discard (served cf payment_optional ''/commerce.payment.v1.PaymentService/Void''
     (\<lambda>_. at_pay (VoidPayment pid)))"

definition world_clients :: "config \<Rightarrow> world clients" where
  "world_clients cf = \<lparr>cl_GetCart = call_GetCart cf, cl_Clear = call_Clear cf, cl_QuotePrice = call_QuotePrice cf,
     cl_Reserve = call_Reserve cf, cl_Commit = call_Commit cf, cl_Release = call_Release cf,
     cl_AdjustStock = call_AdjustStock cf, cl_CreatePayment = call_CreatePayment cf, cl_Refund = call_Refund cf,
     cl_Void = call_Void cf\<rparr>"

lemma world_clients_sel [simp]:
  "cl_GetCart (world_clients cf) = call_GetCart cf" "cl_Clear (world_clients cf) = call_Clear cf"
  "cl_QuotePrice (world_clients cf) = call_QuotePrice cf" "cl_Reserve (world_clients cf) = call_Reserve cf"
  "cl_Commit (world_clients cf) = call_Commit cf" "cl_Release (world_clients cf) = call_Release cf"
  "cl_AdjustStock (world_clients cf) = call_AdjustStock cf" "cl_CreatePayment (world_clients cf) = call_CreatePayment cf"
  "cl_Refund (world_clients cf) = call_Refund cf" "cl_Void (world_clients cf) = call_Void cf"
  by (simp_all add: world_clients_def)

subsection \<open>Programs of the services are tame\<close>

lemma tame_at [tame_intros]:
  "tame p \<Longrightarrow> tame (at_inv p)" "tame q \<Longrightarrow> tame (at_pay q)" "tame r \<Longrightarrow> tame (at_carts r)" "tame s \<Longrightarrow> tame (at_pricing s)"
  by (auto simp: at_inv_def at_pay_def at_carts_def at_pricing_def intro!: tame_intros)

lemma wp_at [simp]:
  "wp (at_inv p) Q w e = wp p (\<lambda>r d. Q r (w\<lparr>w_inv := d\<rparr>)) (w_inv w) e"
  "wp (at_pay q) Q' w e = wp q (\<lambda>r d. Q' r (w\<lparr>w_pay := d\<rparr>)) (w_pay w) e"
  "wp (at_carts r) Q'' w e = wp r (\<lambda>r d. Q'' r (w\<lparr>w_carts := d\<rparr>)) (w_carts w) e"
  "wp (at_pricing s) Q''' w e = wp s (\<lambda>r d. Q''' r (w\<lparr>w_pricing := d\<rparr>)) (w_pricing w) e"
  by (simp_all add: at_inv_def at_pay_def at_carts_def at_pricing_def)

lemma tame_authUnary [tame_intros]: "(\<And>c. tame (h c)) \<Longrightarrow> tame (authUnary parse skip opt m header h)"
  by (auto simp: authUnary_def Let_def intro!: tame_intros)

lemma tame_served [tame_intros]: "(\<And>c. tame (h c)) \<Longrightarrow> tame (served cf opt m h)"
  by (auto simp: served_def loggingUnary_def intro!: tame_intros)

lemma tame_inventory [tame_intros]:
  "tame (Reserve ref its ttl)" "tame (store_Commit rid)" "tame (store_Release rid)" "tame (AdjustStock c p q)"
proof -
  have line: "tame (reserve_line rid ln)" for rid ln
    by (auto simp: reserve_line_def add_reserved_def ins_item_def outboxStock_def intro!: tame_intros split: prod.split)
  show "tame (Reserve ref its ttl)"
    by (auto simp: Reserve_def store_Reserve_def ins_reservation_def intro!: tame_intros line)
  have fin: "tame (finish rid target f)" for target f
    by (auto simp: finish_def reservationIsHeld_def loadReservationItems_def applyStockDelta_def write_stock_def
        outboxStock_def intro!: tame_intros)
  show "tame (store_Commit rid)" "tame (store_Release rid)" by (simp_all add: store_Commit_def store_Release_def fin)
  show "tame (AdjustStock c p q)"
    by (auto simp: AdjustStock_def store_AdjustStock_def upsert_stock_def outboxStock_def intro!: tame_intros)
qed

lemma tame_payment [tame_intros]:
  "tame (CreatePayment oid amt tok)" "tame (RefundPayment pid amt k)" "tame (VoidPayment pid)"
proof -
  have load: "tame (loadForUpdate pid)" for pid
    by (auto simp: loadForUpdate_def load_payment_def select_payment_def intro!: tame_intros)
  have emit: "tame (pay_emit topic key ev)" for topic key ev by (auto simp: pay_emit_def intro!: tame_intros)
  show "tame (CreatePayment oid amt tok)"
    by (auto simp: CreatePayment_def pay_Create_def intro!: tame_intros)
  show "tame (VoidPayment pid)"
    by (auto simp: VoidPayment_def Transition_def intro!: tame_intros load emit)
  show "tame (RefundPayment pid amt k)"
    by (auto simp: RefundPayment_def pay_Refund_def refundAlreadyApplied_def ins_refund_def Let_def
        intro!: tame_intros load emit split: prod.split)
qed

lemma tame_cart [tame_intros]: "tame (GetCart ttl cid)" "tame (ClearCart ttl cid)"
proof -
  have blob: "tame (case x of Json c \<Rightarrow> f c | Garbage \<Rightarrow> g)"
    if "\<And>c. tame (f c)" "tame g" for x and f :: "cart \<Rightarrow> (cart_db, cart) prog" and g
    using that by (simp split: blob.split)
  have load: "tame (cart_load ttl cid)"
    by (auto simp: cart_load_def cart_Get_def redis_expire_def intro!: tame_intros blob)
  show "tame (GetCart ttl cid)" by (auto simp: GetCart_def intro!: tame_intros load)
  show "tame (ClearCart ttl cid)"
    by (auto simp: ClearCart_def update_cart_def cart_save_def cart_Put_def intro!: tame_intros load)
qed

lemma tame_QuotePrice [tame_intros]:
  "(\<And>c. tame (get c)) \<Longrightarrow> (\<And>ids. tame (batch ids)) \<Longrightarrow> tame (QuotePrice get batch rates i1 i2 req)"
  by (auto simp: QuotePrice_def catalogProductsByID_def resolveCoupon_def intro!: tame_intros)

lemma tame_GetCoupon [tame_intros]: "tame (GetCoupon c)"
  by (auto simp: GetCoupon_def intro!: tame_intros)

lemma tame_calls [tame_intros]:
  "tame (call_GetCart cf cid)" "tame (call_Clear cf cid)" "tame (call_Reserve cf ref its ttl)" "tame (call_Commit cf rid)"
  "tame (call_Release cf rid)" "tame (call_AdjustStock cf p q)" "tame (call_CreatePayment cf oid amt tok)"
  "tame (call_Refund cf pid amt k)" "tame (call_Void cf pid)" "tame (call_QuotePrice cf req)"
  by (auto simp: call_GetCart_def call_Clear_def call_Reserve_def call_Commit_def call_Release_def call_AdjustStock_def
      call_CreatePayment_def call_Refund_def call_Void_def call_QuotePrice_def intro!: tame_intros)


end
