(* ===== verification/CheckoutSamples.thy ===== *)
theory CheckoutSamples
  imports World
begin

section \<open>A concrete shop\<close>

text \<open>
  The world and the requests the witnesses of the checkout properties evaluate: five pieces of one
  product in stock, two of them in the shopper's cart.  \<open>shop_config c\<close> has a catalog that sells the
  product at \<open>c\<close> units.
\<close>

definition priced_at :: "int \<Rightarrow> string list \<Rightarrow> priced_product list res" where
  "priced_at c ids = Inr (map (\<lambda>i. \<lparr>pp_id = i, pp_title = ''t'', pp_shop_id = ''s'',
     pp_list_price = Some \<lparr>w_currency = ''USD'', w_units = c, w_nanos = 0\<rparr>\<rparr>) ids)"

definition shop_config :: "int \<Rightarrow> config" where
  "shop_config c = \<lparr>wc_header = None, wc_parse = (\<lambda>_. Inr []), wc_cart_ttl = 1000000,
     wc_rates = \<lparr>tr_Default = 0, tr_ByCode = []\<rparr>, wc_iter1 = id, wc_iter2 = id, wc_catalog = priced_at c\<rparr>"

definition shop_world :: world where
  "shop_world = empty_world\<lparr>w_inv := empty_inv_db\<lparr>stock := [\<lparr>sk_product = ''p1'', sk_on_hand = 5, sk_reserved = 0\<rparr>]\<rparr>,
     w_carts := empty_carts(''cart:c'' \<mapsto>
       (Json \<lparr>ct_ID = ''c'', ct_Items = [\<lparr>ci_ProductID = ''p1'', ci_Quantity = 2, ci_AddedAt = 0\<rparr>], ct_UpdatedAt = 0\<rparr>, 1000))\<rparr>"

definition shop_input :: create_input where
  "shop_input = \<lparr>in_OwnerID = ''u'', in_CartID = ''c'', in_Currency = ''USD'', in_CouponCode = '''', in_MethodToken = ''m'',
     in_ShipTo = \<lparr>FullName = ''A'', Line1 = ''1 St'', Line2 = '''', City = ''C'', Region = ''R'',
     PostalCode = ''1'', CountryCode = ''US'', Phone = ''2''\<rparr>, in_IdempotencyKey = ''''\<rparr>"

text \<open>A cart of free products reaches the payment service, which refuses the amount; a paid one goes through.\<close>

definition free_checkout :: "create_result res \<times> world \<times> env" where
  "free_checkout = CreateOrder (world_clients (shop_config 0)) shop_input shop_world (env_at 1)"

definition paid_checkout :: "create_result res \<times> world \<times> env" where
  "paid_checkout = CreateOrder (world_clients (shop_config 7)) shop_input shop_world (env_at 1)"

lemma free_checkout_fails: "fst free_checkout = Inl (DomErr KindUnavailable ''PAYMENT_INIT_FAILED''
     (Some (StatusErr InvalidArgument ''BAD_AMOUNT'')))"
  by code_simp

lemma paid_checkout_answers: "(case fst paid_checkout of Inl _ \<Rightarrow> False
    | Inr r \<Rightarrow> ID (res_Order r) = ''id'' \<and> cents (Total (res_Order r)) = 1400 \<and> \<not> res_Replayed r)"
  by code_simp

text \<open>The payment is authorized; the order is confirmed, but the call that commits its stock is lost.\<close>

definition placed_world :: world where
  "placed_world = fst (snd paid_checkout)"

definition lost_commit :: "unit res \<times> world \<times> env" where
  "lost_commit = OnPaymentAuthorized (world_clients (shop_config 7)) ''ev'' ''id'' placed_world
     ((env_at 2)\<lparr>faults := replicate 7 Fine @ [Lost]\<rparr>)"

lemma lost_commit_fails:
  "fst lost_commit = Inl (DomErr KindUnavailable ''COMMIT_FAILED'' (Some (StatusErr Unavailable ''TRANSPORT'')))"
  "map or_status (orders (sys_orders (fst (snd lost_commit)))) = [CONFIRMED]"
  "processed (sys_orders (fst (snd lost_commit))) = [''ev'']"
  "map rv_status (reservations (w_inv (fst (snd lost_commit)))) = [HELD]"
  "map sk_reserved (stock (w_inv (fst (snd lost_commit)))) = [2]"
  by code_simp+

text \<open>When the reservation is due, the sweep of the inventory gives the sold pieces back.\<close>

definition sold_and_released :: inv_db where
  "sold_and_released = fst (snd (ExpireDue 100 (w_inv (fst (snd lost_commit))) (env_at 1000000000000)))"

lemma sold_and_released_stock:
  "map (\<lambda>s. (sk_on_hand s, sk_reserved s)) (stock sold_and_released) = [(5, 0)]"
  "map rv_status (reservations sold_and_released) = [RELEASED]"
  by code_simp+

text \<open>The shopper abandons the payment, and the order service hears of it.\<close>

definition abandoned_world :: world where
  "abandoned_world = fst (snd (OnPaymentFailed (world_clients (shop_config 7)) ''ev'' ''id'' ''SHOPPER_ABANDONED''
     (fst (snd (at_pay (ConfirmPayment ''idxxx'' OUTCOME_FAIL) placed_world (env_at 2)))) (env_at 3)))"

lemma abandoned_rows:
  "map (\<lambda>r. (or_id r, or_status r, or_payment_id r, or_released r, or_voided r)) (orders (sys_orders abandoned_world)) =
     [(''id'', CANCELLED, ''idxxx'', Some 3, None)]"
  "map (\<lambda>p. (p_ID p, p_Status p)) (payments (w_pay abandoned_world)) = [(''idxxx'', FAILED)]"
  by code_simp+

text \<open>The shopper cancels, and none of the compensations is made.\<close>

definition cancelled_world :: world where
  "cancelled_world = fst (snd (at_store (Apply ''id'' '''' (Cancel ''CHANGED_MIND'')) placed_world (env_at 4)))"

lemma cancelled_rows:
  "map (\<lambda>r. (or_id r, or_status r, or_payment_id r, or_released r, or_voided r)) (orders (sys_orders cancelled_world)) =
     [(''id'', CANCELLED, ''idxxx'', None, None)]"
  "map (\<lambda>p. (p_ID p, p_Status p)) (payments (w_pay cancelled_world)) = [(''idxxx'', REQUIRES_CONFIRMATION)]"
  "map or_id (select_pending 50 (nat (compensation_limit 10)) (sys_orders cancelled_world)) = [''id'']"
  by code_simp+

end
