(* ===== verification/InventoryQuiet.thy ===== *)
theory InventoryQuiet
  imports InventoryProps Quiet
begin

section \<open>Reserving and releasing without faults\<close>

text \<open>
  A release of a HELD reservation goes through when the tables keep the inventory invariant, and gives
  back exactly what the reservation took; without faults a refused \<open>Reserve\<close> changes nothing.
\<close>

lemma can_delta_unwinding:
  assumes loop: "unwinding rid d0 (it # rest) d" and p: "fst it \<in> stock_ids d"
    and f: "gives_back f" and d0: "items_ok d0"
  shows "can_delta f it d"
proof -
  obtain q where it: "it = (fst it, q)" by (metis prod.collapse)
  obtain s where s: "find_stock (fst it) d = Some s"
    using p find_key_None [of sk_product "fst it" "stock d"] by (auto simp: find_stock_def stock_ids_def)
  have sd: "s \<in> set (stock d)" "sk_product s = fst it" using find_stock_in [OF s] by auto
  have q: "0 < q" "\<forall>x\<in>set rest. 0 < snd x" using loop it by (auto simp: unwinding_def) (metis snd_conv)
  have "columns_ok s" "sk_reserved s = other_qty rid (fst it) d0 + q + items_qty (fst it) rest"
    using loop sd it by (auto simp: unwinding_def) (metis snd_conv)
  moreover have "fst (f (sk_on_hand s) (sk_reserved s) q) \<le> sk_on_hand s" "snd (f (sk_on_hand s) (sk_reserved s) q) = sk_reserved s - q"
    using f q by (auto simp: gives_back_def)
  ultimately have "stock_refused (fst (clamped f s q)) (snd (clamped f s q)) = None"
    using q other_qty_nonneg [OF d0, of rid "fst it"] items_qty_nonneg [OF q(2), of "fst it"]
    by (auto simp: stock_refused_def clamped_def columns_ok_def in_i32_def)
  then show ?thesis using s it by (metis can_delta_def snd_conv)
qed

lemma finish_possible:
  assumes ok: "inv_ok d" and held: "res_held rid d" and f: "gives_back f"
  shows "all_ok (can_delta f) (delta_at f t) (items_of rid d) d"
proof -
  have items: "items_ok d" using ok by (simp add: inv_ok_def)
  have u: "unwinding rid d (items_of rid d) d"
    using ok items_of_pos [OF items] held_qty_split [OF held] by (simp add: unwinding_def inv_ok_def)
  have p: "fst ` set (items_of rid d) \<subseteq> stock_ids d" using items by (auto simp: items_of_def items_ok_def)
  have "unwinding rid d its d' \<Longrightarrow> fst ` set its \<subseteq> stock_ids d' \<Longrightarrow> all_ok (can_delta f) (delta_at f t) its d'" for its d'
  proof (induction its arbitrary: d')
    case Nil
    then show ?case by simp
  next
    case (Cons it its)
    then have can: "can_delta f it d'" by (intro can_delta_unwinding [OF _ _ f items]) auto
    moreover have next': "unwinding rid d its (delta_at f t it d')"
      by (rule delta_at_unwinding [OF can Cons.prems(1) f items])
    moreover have "stock_ids (delta_at f t it d') = stock_ids d'"
      using next' Cons.prems(1) by (simp add: unwinding_def stock_ids_def) (metis list.set_map)
    ultimately show ?case using Cons by auto
  qed
  from this [OF u p] show ?thesis .
qed

lemma wp_quiet_finish:
  assumes q: "quiet V e" and V: "V rid" and ok: "inv_ok d" and held: "res_held rid d" and f: "gives_back f"
    and Q: "\<And>e'. Q (Inr ()) (finished rid target f (now e) d) e'"
  shows "wp (finish rid target f) Q d e"
proof -
  have fl: "faults e = []" and u: "uuid_ok e = V" using q by (simp_all add: quiet_def)
  have row: "\<exists>v. List.find (\<lambda>v. rv_id v = rid) (reservations d) = Some v \<and> rv_status v = HELD"
    using held by (simp add: res_held_ex)
  have step: "applyStockDelta f it d e = (Inr (), delta_at f (now e) it d, e)"
    if z: "faults e = []" and can: "can_delta f it d" for it d and e :: env
  proof -
    obtain s where s: "find_stock (fst it) d = Some s"
        "stock_refused (fst (clamped f s (snd it))) (snd (clamped f s (snd it))) = None"
      using can by (auto simp: can_delta_def)
    have max0: "(if x < 0 then 0 else x) = max 0 x" for x :: int by auto
    show ?thesis
      using s z
      by (simp add: applyStockDelta_def write_stock_def outboxStock_def max0 Let_def clamped_def delta_at_def
          bnd_def map_err_def query_row_def exec_chk_def exec_def stmt_nofault note_stock_def split: prod.split)
  qed
  have loop: "foreach (applyStockDelta f) (items_of rid d) d e = (Inr (), fold (delta_at f (now e)) (items_of rid d) d, e)"
    by (rule foreach_acts_quiet [OF step fl finish_possible [OF ok held f]]) simp_all
  then have "wp (foreach (applyStockDelta f) (items_of rid d)) P d e = P (Inr ()) (fold (delta_at f (now e)) (items_of rid d) d) e" for P
    by (simp add: wp_def)
  then show ?thesis
    unfolding finish_def reservationIsHeld_def loadReservationItems_def
    using row u V fl Q
    by (intro wp_quiet_in_tx) (auto simp: wp_quiet finished_def split: option.splits)
qed

lemma quiet_reserve_err:
  assumes "faults e = []" "store_Reserve ref lines ttl d e = (Inl x, d', e')"
  shows "d' = d"
proof -
  have "tame (reserve_line rid ln)" for rid ln
    by (auto simp: reserve_line_def add_reserved_def ins_item_def outboxStock_def intro!: tame_intros split: prod.split)
  then have "tame (bnd (ins_reservation rid ref x) (\<lambda>_. bnd (foreach (reserve_line rid) lines) (\<lambda>_. ret (Commit (rid, x)))))" for rid x
    by (auto simp: ins_reservation_def intro!: tame_intros)
  from quiet_in_tx_err [OF this, where e = "e\<lparr>drawn := Suc (drawn e)\<rparr>"] show ?thesis
    using assms by (simp add: store_Reserve_def run_simps bnd_new_uuid)
qed

text \<open>What a reservation holds, and that giving it back restores the levels.\<close>

definition given_back :: "string \<Rightarrow> inv_db \<Rightarrow> string \<Rightarrow> level option" where
  "given_back rid d p = map_option (taken 0 (items_qty p (items_of rid d))) (level_at p d)"

lemma released_levels:
  assumes "inv_ok d" "res_held rid d"
  shows "(\<lambda>p. level_at p (finished rid RELEASED release_fn t d)) = given_back rid d"
proof
  fix p
  have "release_fn = (\<lambda>h r q. (h - 0 * q, r - q))" by (simp add: release_fn_def fun_eq_iff)
  then show "level_at p (finished rid RELEASED release_fn t d) = given_back rid d p"
    using finished_level [of d 0 release_fn rid t p RELEASED] assms finish_possible [OF assms gives_back_release]
    by (simp add: given_back_def)
qed

lemma items_of_reserved:
  assumes "all_ok (can_reserve rid) (reserve_at rid t) lines d"
  shows "items_of rid (fold (reserve_at rid t) lines d) = items_of rid d @ lines"
  using assms
proof (induction lines arbitrary: d)
  case Nil
  then show ?case by simp
next
  case (Cons ln lines)
  then have "find_stock (fst ln) d \<noteq> None" by (auto simp: can_reserve_def)
  then have "items_of rid (reserve_at rid t ln d) = items_of rid d @ [ln]"
    by (auto simp: reserve_at_def items_of_def add_item_def)
  then show ?case using Cons by simp
qed

lemma items_qty_member: "distinct (map fst its) \<Longrightarrow> (p, q) \<in> set its \<Longrightarrow> items_qty p its = q"
proof (induction its)
  case (Cons it its)
  have "p \<notin> fst ` set xs \<Longrightarrow> items_qty p xs = 0" for xs by (induction xs) auto
  then show ?case using Cons by (auto simp: image_iff)
qed simp

lemma reserved_given_back:
  assumes ok: "inv_ok d" and new: "rid \<notin> rv_id ` set (reservations d)"
    and all: "all_ok (can_reserve rid) (reserve_at rid t) lines (hold rid ref ex d)"
  shows "given_back rid (reserved_db rid ref ex lines t d) = (\<lambda>p. level_at p d)"
    and "items_of rid (reserved_db rid ref ex lines t d) = lines"
proof -
  let ?d = "reserved_db rid ref ex lines t d"
  have "items_of rid d = []"
    using ok new by (auto simp: items_of_def filter_empty_conv inv_ok_def items_ok_def res_ids_def)
  then have "items_of rid (hold rid ref ex d) = []" by (simp add: items_of_def hold_def)
  then show its: "items_of rid ?d = lines" using items_of_reserved [OF all] by (simp add: reserved_db_def)
  note lv = reserved_levels [OF all]
  show "given_back rid ?d = (\<lambda>p. level_at p d)"
  proof
    fix p
    show "given_back rid ?d p = level_at p d"
    proof (cases "p \<in> fst ` set lines")
      case True
      then obtain q where pq: "(p, q) \<in> set lines" by auto
      then have "items_qty p lines = q"
        using lv by (auto intro: items_qty_member)
      then show ?thesis using lv pq its by (auto simp: given_back_def reserved_db_def)
    next
      case False
      then have "items_qty p lines = 0" by (induction lines) auto
      then show ?thesis using lv False its by (simp add: given_back_def reserved_db_def option.map_id)
    qed
  qed
qed

end
