(* ===== verification/CheckoutProps.thy ===== *)
theory CheckoutProps
  imports CheckoutSamples InventoryQuiet PaymentSpec PricingProps
begin

section \<open>Checkout against the modelled services\<close>

text \<open>
  The services of World.thy keep the contract of Checkout.thy, so a failed checkout leaves nothing
  behind when no message is lost.  An \<open>admitted\<close> caller has no bearer token or one that verifies: the
  order service forwards the token it was called with to every service of the checkout.
\<close>

definition admitted :: "config \<Rightarrow> bool" where
  "admitted cf \<longleftrightarrow> (case wc_header cf of None \<Rightarrow> True | Some h \<Rightarrow>
     (case BearerFromAuthHeader h of None \<Rightarrow> True | Some b \<Rightarrow> b = '''' \<or> (\<exists>p. Verify (wc_parse cf) b = Inr p)))"

definition accepted :: "config \<Rightarrow> config" where
  "accepted cf = (if admitted cf then cf else cf\<lparr>wc_header := None\<rparr>)"

lemma admitted_accepted: "admitted (accepted cf)"
  by (simp add: accepted_def) (simp add: admitted_def)

lemma wp_authUnary:
  assumes "admitted cf" "m \<in> opt" "\<And>c. wp (h c) Q w e"
  shows "wp (authUnary (wc_parse cf) skip opt m (wc_header cf) h) Q w e"
  using assms by (auto simp: authUnary_def admitted_def Let_def split: option.splits sum.splits)

text \<open>A call that reaches an optional method runs its handler; the error comes back translated.\<close>

lemma wp_served_quiet:
  assumes "quiet V e" "admitted cf" "m \<in> opt"
    and "\<And>c. wp (h c) (\<lambda>r w' e'. case r of Inl x \<Rightarrow> \<forall>y. Q (Inl y) w' e' | Inr a \<Rightarrow> Q (Inr a) w' e') w e"
  shows "wp (served cf opt m h) Q w e"
proof -
  have "wp (authUnary (wc_parse cf) health_methods opt m (wc_header cf) h)
      (\<lambda>r w' e'. case r of Inl x \<Rightarrow> \<forall>y. Q (Inl y) w' e' | Inr a \<Rightarrow> Q (Inr a) w' e') w e"
    by (rule wp_authUnary [OF assms(2,3,4)])
  then show ?thesis
    unfolding served_def loggingUnary_def wp_quiet_rpc [OF quiet_faults [OF assms(1)]] wp_map_err
    by (rule wp_mono) (auto split: sum.splits)
qed

text \<open>What holds before a call and after its handler, whatever is lost.\<close>

lemma wp_served_inv:
  assumes "I w" "\<And>c e. wp (h c) (\<lambda>_ w' _. I w') w e"
  shows "wp (served cf opt m h) (\<lambda>_ w' _. I w') w e"
proof -
  have "wp (authUnary (wc_parse cf) health_methods opt m (wc_header cf) h) (\<lambda>_ w' _. I w') w e" for e
    using assms by (auto simp: authUnary_def Let_def split: option.splits sum.splits)
  then show ?thesis
    unfolding served_def loggingUnary_def using assms(1)
    by (auto intro!: wp_rpcI)
qed

text \<open>The general rule: an error may come back in the old or in the new state.\<close>

lemma wp_servedI:
  assumes "\<And>x e'. Q (Inl x) w e'"
    and "\<And>c e'. wp (h c) (\<lambda>r w' e'. (\<forall>x. Q (Inl x) w' e') \<and> (\<forall>a. r = Inr a \<longrightarrow> Q r w' e')) w e'"
  shows "wp (served cf opt m h) Q w e"
proof -
  have "wp (authUnary (wc_parse cf) health_methods opt m (wc_header cf) h)
      (\<lambda>r w' e'. (\<forall>x. Q (Inl x) w' e') \<and> (\<forall>a. r = Inr a \<longrightarrow> Q r w' e')) w e'" for e'
    using assms by (auto simp: authUnary_def Let_def split: option.splits sum.splits)
  note body = wp_mono [OF this]
  show ?thesis
    unfolding served_def loggingUnary_def
    by (intro wp_rpcI) (auto intro!: assms(1) body split: sum.splits)
qed

subsection \<open>The services keep the contract\<close>

definition open_payments :: "pay_db \<Rightarrow> payment list" where
  "open_payments d = filter (\<lambda>p. p_Status p \<noteq> VOIDED) (payments d)"

definition opened_on :: "(string \<Rightarrow> bool) \<Rightarrow> pay_db \<Rightarrow> string \<Rightarrow> payment list \<Rightarrow> bool" where
  "opened_on V d pid ps \<longleftrightarrow> V pid \<and> pid \<noteq> '''' \<and> (\<exists>p. find_payment pid d = Some p \<and> p_Status p = REQUIRES_CONFIRMATION) \<and>
     filter (\<lambda>p. p_Status p \<noteq> VOIDED \<and> p_ID p \<noteq> pid) (payments d) = ps"

definition holds_on :: "(string \<Rightarrow> bool) \<Rightarrow> inv_db \<Rightarrow> string \<Rightarrow> (string \<Rightarrow> level option) \<Rightarrow> bool" where
  "holds_on V d rid s \<longleftrightarrow> V rid \<and> rid \<noteq> '''' \<and> res_held rid d \<and> given_back rid d = s"

definition levels :: "inv_db \<Rightarrow> string \<Rightarrow> level option" where
  "levels d = (\<lambda>p. level_at p d)"

lemma call_GetCart_frame: "wp (call_GetCart cf cid) (\<lambda>_ w' _. w_inv w' = w_inv w \<and> w_pay w' = w_pay w \<and> sys_orders w' = sys_orders w) w e"
  unfolding call_GetCart_def
  by (simp, rule wp_mono [OF wp_served_inv [where I = "\<lambda>w'. w_inv w' = w_inv w \<and> w_pay w' = w_pay w \<and> sys_orders w' = sys_orders w"]])
     (auto split: sum.splits)

lemma call_QuotePrice_frame: "wp (call_QuotePrice cf req) (\<lambda>_ w' _. w_inv w' = w_inv w \<and> w_pay w' = w_pay w \<and> sys_orders w' = sys_orders w) w e"
proof -
  let ?I = "\<lambda>w'. w_inv w' = w_inv w \<and> w_pay w' = w_pay w \<and> sys_orders w' = sys_orders w"
  have "wp (QuotePrice (\<lambda>code. at_pricing (GetCoupon code)) (\<lambda>ids. rpc (lift_res (wc_catalog cf ids)))
      (wc_rates cf) (wc_iter1 cf) (wc_iter2 cf) req) (\<lambda>_ w' _. ?I w') w e" for e
  proof -
    have rpc: "wp (rpc (lift_res r)) (\<lambda>r' w'. Q r' w') w' e'" if "\<And>r e'. Q r w' e'" for Q w' e' and r :: "priced_product list res"
      by (rule wp_rpcI) (simp_all add: that)
    show ?thesis
      unfolding QuotePrice_def catalogProductsByID_def resolveCoupon_def
      by (auto intro!: rpc split: sum.splits)
  qed
  then show ?thesis unfolding call_QuotePrice_def by (intro wp_served_inv) auto
qed

lemma quiet_Reserve:
  assumes q: "quiet V e" and ok: "inv_ok d"
    and err: "\<And>x e'. Q (Inl x) d e'"
    and got: "\<And>rid ex d' e'. inv_ok d' \<Longrightarrow> holds_on V d' rid (levels d) \<Longrightarrow> Q (Inr (rid, ex)) d' e'"
  shows "wp (Reserve ref its ttl) Q d e"
proof -
  have "wp (store_Reserve ref its tl) Q d e" for tl
  proof -
    have "wp (store_Reserve ref its tl) (\<lambda>r d' _. case r of Inl x \<Rightarrow> True
        | Inr (rid, _) \<Rightarrow> inv_ok d' \<and> holds_on V d' rid (levels d)) d e"
    proof (rule wp_store_ReserveI, simp, goal_cases)
      case (1 rid r n fs)
      let ?d = "reserved_db rid ref (now e + tl) its (now e) d"
      have "inv_ok ?d" by (rule reserved_db_inv [OF ok 1(2,3)])
      moreover have "given_back rid ?d = levels d" using reserved_given_back(1) [OF ok 1(2,3)] by (simp add: levels_def)
      moreover have "res_held rid ?d"
        using hold_inv [OF ok 1(2)] by (simp add: reserved_db_def res_held_ex fold_reserve_sel)
      moreover have "V rid" "rid \<noteq> ''''" using quiet_fresh [OF q] 1(1) by simp_all
      ultimately show ?case using 1(4) by (auto simp: holds_on_def)
    qed
    moreover have "wp (store_Reserve ref its tl) (\<lambda>r d' _. \<forall>x. r = Inl x \<longrightarrow> d' = d) d e"
      unfolding wp_iff using quiet_reserve_err [OF quiet_faults [OF q]] by blast
    ultimately show ?thesis
      unfolding wp_iff using err got by (metis (no_types, lifting) case_prod_conv old.sum.exhaust old.sum.simps(6) surj_pair)
  qed
  then show ?thesis using err by (simp add: Reserve_def)
qed

lemma quiet_Release:
  assumes "quiet V e" "inv_ok d" "holds_on V d rid s"
    and Q: "\<And>d' e'. inv_ok d' \<Longrightarrow> levels d' = s \<Longrightarrow> Q (Inr ()) d' e'"
  shows "wp (store_Release rid) Q d e"
  unfolding store_Release_def
proof (rule wp_quiet_finish [OF assms(1) _ assms(2) _ gives_back_release])
  fix e' :: env
  let ?d = "finished rid RELEASED release_fn (now e) d"
  have h: "V rid" "res_held rid d" "given_back rid d = s" using assms(3) by (auto simp: holds_on_def)
  have "inv_ok ?d"
    by (rule finished_inv [OF assms(2) h(2) gives_back_release _ finish_possible [OF assms(2) h(2) gives_back_release]]) simp
  moreover have "levels ?d = s" using released_levels [OF assms(2) h(2)] h(3) by (simp add: levels_def)
  ultimately show "Q (Inr ()) ?d e'" by (rule Q)
qed (use assms(3) in \<open>simp_all add: holds_on_def\<close>)

lemma quiet_CreatePayment:
  assumes "quiet V e"
    and err: "\<And>x e'. Q (Inl x) d e'"
    and got: "\<And>m d' e'. opened_on V d' (pm_payment_id m) (open_payments d) \<Longrightarrow> Q (Inr m) d' e'"
  shows "wp (CreatePayment oid amt tok) Q d e"
proof -
  have new: "opened_on V (d\<lparr>payments := payments d @ [p]\<rparr>) pid (open_payments d)"
    if "pid \<notin> p_ID ` set (payments d)" "p_Status p = REQUIRES_CONFIRMATION" "V pid" "pid \<noteq> ''''" "p_ID p = pid" for p pid
  proof -
    have "List.find (\<lambda>x. p_ID x = pid) (payments d) = None" using that(1) by (simp add: find_key_None)
    moreover have "filter (\<lambda>x. p_Status x \<noteq> VOIDED \<and> p_ID x \<noteq> pid) (payments d) = open_payments d"
      unfolding open_payments_def by (rule filter_cong) (simp, metis that(1) imageI)
    ultimately show ?thesis using that(2-5) by (simp add: opened_on_def find_payment_def find_append)
  qed

  show ?thesis
    unfolding CreatePayment_def pay_Create_def
    using quiet_faults [OF assms(1)] quiet_fresh [OF assms(1)] err
    by (auto simp: wp_quiet Let_def pay_toProto_def split: sum.splits if_splits intro!: got new)
qed

lemma quiet_VoidPayment:
  assumes "quiet V e" "opened_on V d pid ps"
    and Q: "\<And>m d' e'. open_payments d' = ps \<Longrightarrow> Q (Inr m) d' e'"
  shows "wp (VoidPayment pid) Q d e"
proof -
  obtain p where p: "find_payment pid d = Some p" "p_Status p = REQUIRES_CONFIRMATION" and V: "V pid"
    using assms(2) by (auto simp: opened_on_def)
  have "open_payments (set_payment pid (\<lambda>x. x\<lparr>p_Status := VOIDED\<rparr>) d) = ps"
  proof -
    have "filter (\<lambda>p. p_Status p \<noteq> VOIDED) (upd_rows (\<lambda>p. p_ID p = pid) (\<lambda>x. x\<lparr>p_Status := VOIDED\<rparr>) t) =
        filter (\<lambda>p. p_Status p \<noteq> VOIDED \<and> p_ID p \<noteq> pid) t" for t
      by (induction t) auto
    from this [of "payments d"] show ?thesis using assms(2) by (simp add: open_payments_def set_payment_def opened_on_def)
  qed
  then show ?thesis
    unfolding VoidPayment_def Transition_def loadForUpdate_def load_payment_def select_payment_def Let_def
    using assms(1) p V Q
    by (auto simp: quiet_def wp_quiet canTransition_def eventFor_def intro!: wp_quiet_in_tx)
qed

lemma call_Reserve_quiet:
  assumes q: "quiet V e" and cf: "admitted cf" and ok: "inv_ok (w_inv w)"
    and err: "\<And>x e'. Q (Inl x) w e'"
    and got: "\<And>rid d' e'. inv_ok d' \<Longrightarrow> holds_on V d' rid (levels (w_inv w)) \<Longrightarrow> Q (Inr rid) (w\<lparr>w_inv := d'\<rparr>) e'"
  shows "wp (call_Reserve cf ref its ttl) Q w e"
  unfolding call_Reserve_def
  by (simp, rule wp_served_quiet [OF q cf])
     (auto simp: inventory_optional_def intro!: quiet_Reserve [OF q ok] err got)

lemma call_Release_quiet:
  assumes q: "quiet V e" and cf: "admitted cf" and ok: "inv_ok (w_inv w)" and h: "holds_on V (w_inv w) rid s"
    and Q: "\<And>d' e'. inv_ok d' \<Longrightarrow> levels d' = s \<Longrightarrow> Q (Inr ()) (w\<lparr>w_inv := d'\<rparr>) e'"
  shows "wp (call_Release cf rid) Q w e"
  unfolding call_Release_def
  by (rule wp_served_quiet [OF q cf]) (auto simp: inventory_optional_def intro!: quiet_Release [OF q ok h] Q)

lemma call_CreatePayment_quiet:
  assumes q: "quiet V e" and cf: "admitted cf"
    and err: "\<And>x e'. Q (Inl x) w e'"
    and got: "\<And>pid secret d' e'. opened_on V d' pid (open_payments (w_pay w)) \<Longrightarrow> Q (Inr (pid, secret)) (w\<lparr>w_pay := d'\<rparr>) e'"
  shows "wp (call_CreatePayment cf oid amt tok) Q w e"
  unfolding call_CreatePayment_def
  by (simp, rule wp_served_quiet [OF q cf])
     (auto simp: payment_optional_def intro!: quiet_CreatePayment [OF q] err got)

lemma call_Void_quiet:
  assumes q: "quiet V e" and cf: "admitted cf" and o: "opened_on V (w_pay w) pid ps"
    and Q: "\<And>d' e'. open_payments d' = ps \<Longrightarrow> Q (Inr ()) (w\<lparr>w_pay := d'\<rparr>) e'"
  shows "wp (call_Void cf pid) Q w e"
  unfolding call_Void_def
  by (simp, rule wp_served_quiet [OF q cf])
     (auto simp: payment_optional_def intro!: quiet_VoidPayment [OF q o] Q)

interpretation world_checkout: checkout_services V "world_clients (accepted cf)" w_inv w_pay inv_ok levels "holds_on V"
    open_payments "opened_on V" for V cf
proof (unfold_locales, goal_cases)
  case (1 i q os cid)
  show ?case using call_GetCart_frame by (intro quietlyI) (auto simp: tame_calls elim!: wp_mono)
next
  case (2 i q os req)
  show ?case using call_QuotePrice_frame by (intro quietlyI) (auto simp: tame_calls elim!: wp_mono)
next
  case (3 cid)
  show ?case by (simp add: tame_calls)
next
  case (4 i q os oid its ttl)
  then show ?case
    by (intro quietlyI) (auto simp: tame_calls intro!: call_Reserve_quiet [OF _ admitted_accepted])
next
  case (5 i rid s q os)
  then show ?case
    by (intro quietlyI) (auto simp: tame_calls intro!: call_Release_quiet [OF _ admitted_accepted])
next
  case (6 i rid s)
  then show ?case by (simp add: holds_on_def)
next
  case (7 i q os oid amt tok)
  show ?case by (intro quietlyI) (auto simp: tame_calls intro!: call_CreatePayment_quiet [OF _ admitted_accepted])
next
  case (8 q pid p i os)
  then show ?case by (intro quietlyI) (auto simp: tame_calls intro!: call_Void_quiet [OF _ admitted_accepted])
next
  case (9 q pid p)
  then show ?case by (simp add: opened_on_def)
qed simp_all

subsection \<open>The properties\<close>

lemma shop_world_ok: "inv_ok (w_inv shop_world)"
  by (simp add: shop_world_def empty_world_def empty_inv_db_def inv_ok_def keys_ok_def items_ok_def columns_ok_def
      held_qty_def held_items_def in_i32_def)

text \<open>C1: a checkout that answers with an error, when no message is lost, leaves nothing behind.  At
  whatever step it failed, every product's level is what it was, no payment it opened is left open, and the
  order, its lines and its event do not exist.\<close>

theorem failed_checkout_compensated:
  assumes "quiet V e" "admitted cf" "inv_ok (w_inv w)"
    and "CreateOrder (world_clients cf) inp w e = (Inl err, w', e')"
  shows "levels (w_inv w') = levels (w_inv w) \<and> open_payments (w_pay w') = open_payments (w_pay w) \<and>
    order_tables (sys_orders w') = order_tables (sys_orders w)"
proof -
  have "accepted cf = cf" using assms(2) by (simp add: accepted_def)
  then show ?thesis
    using wpD [OF world_checkout.create_order_undone [OF assms(1,3)], of cf inp "Inl err" w' e'] assms(4)
    by (simp add: world_checkout.undone_def)
qed

theorem failed_checkout_compensated_witness:
  "(case free_checkout of (r, w, e) \<Rightarrow> (\<exists>err. r = Inl err) \<and> levels (w_inv w) ''p1'' = Some \<lparr>OnHand = 5, Reserved = 0\<rparr> \<and>
     open_payments (w_pay w) = [] \<and> orders (sys_orders w) = [])"
proof -
  obtain w e where run: "free_checkout = (Inl (DomErr KindUnavailable ''PAYMENT_INIT_FAILED''
      (Some (StatusErr InvalidArgument ''BAD_AMOUNT''))), w, e)"
    using free_checkout_fails by (metis prod.collapse)
  have "quiet (\<lambda>s. s \<noteq> '''') (env_at 1)" by (simp add: quiet_def env_at_def)
  moreover have "admitted (shop_config 0)" by (simp add: admitted_def shop_config_def)
  ultimately have "levels (w_inv w) = levels (w_inv shop_world) \<and> open_payments (w_pay w) = open_payments (w_pay shop_world) \<and>
      order_tables (sys_orders w) = order_tables (sys_orders shop_world)"
    by (rule failed_checkout_compensated [OF _ _ shop_world_ok run [unfolded free_checkout_def]])
  moreover have "levels (w_inv shop_world) ''p1'' = Some \<lparr>OnHand = 5, Reserved = 0\<rparr>"
      "open_payments (w_pay shop_world) = []" "orders (sys_orders shop_world) = []"
    by (simp_all add: shop_world_def empty_world_def empty_inv_db_def empty_pay_db_def empty_order_db_def open_payments_def
        levels_def level_at_def find_stock_def level_of_def)
  ultimately show ?thesis by (simp add: run order_tables_def)
qed

subsection \<open>A checkout that answers\<close>

lemma served_Inr: "served cf opt m h w e = (Inr a, w', e') \<Longrightarrow> \<exists>c e1. h c w e1 = (Inr a, w', e')"
  by (auto simp: served_def loggingUnary_def rpc_def map_err_def authUnary_def Let_def fail_def
      split: prod.splits fault.splits sum.splits if_splits option.splits)

lemma CreateOrder_placed:
  assumes "CreateOrder cl inp w e = (Inr res, w', e')" "\<not> res_Replayed res"
  obtains inp' d e1 where "place_order cl inp' (w\<lparr>sys_orders := d\<rparr>) e1 = (Inr res, w', e')"
proof -
  have "\<exists>inp' d e1. place_order cl inp' (w\<lparr>sys_orders := d\<rparr>) e1 = (Inr res, w', e')"
  proof (cases "\<exists>inp'. place_order cl inp' w e = (Inr res, w', e')")
    case True
    then show ?thesis by (metis sys.surjective sys.update_convs(1))
  next
    case False
    then show ?thesis
      using assms unfolding CreateOrder_def Let_def releasing_def
      by (auto simp: at_store_def zoom_def elim!: bnd_InrE split: if_splits sum.splits prod.splits) blast+
  qed
  then show ?thesis using that by blast
qed

lemma Reserve_Inr:
  assumes ok: "inv_ok d" and run: "Reserve ref its ttl d e = (Inr (rid, ex), d', e')"
  shows "res_held rid d' \<and> items_of rid d' = its \<and> distinct (map fst its) \<and> (\<forall>x\<in>set its. 0 < snd x \<and> snd x \<le> 2147483647)"
proof -
  have "wp (store_Reserve ref its tl) (\<lambda>r d' _. case r of Inl _ \<Rightarrow> True | Inr (rid, _) \<Rightarrow>
      res_held rid d' \<and> items_of rid d' = its \<and> distinct (map fst its) \<and> (\<forall>x\<in>set its. 0 < snd x \<and> snd x \<le> 2147483647)) d e"
    for tl
  proof (rule wp_store_ReserveI, simp, goal_cases)
    case (1 rid r n fs)
    let ?d = "reserved_db rid ref (now e + tl) its (now e) d"
    note lv = reserved_levels [OF 1(3)]
    have held: "res_held rid ?d" using hold_inv [OF ok 1(2)] by (simp add: reserved_db_def res_held_ex fold_reserve_sel)
    have inv: "inv_ok ?d" by (rule reserved_db_inv [OF ok 1(2,3)])
    have its: "items_of rid ?d = its" by (rule reserved_given_back(2) [OF ok 1(2,3)])
    have di: "\<forall>x\<in>set its. 0 < snd x" "distinct (map fst its)" using lv by auto
    have "snd x \<le> 2147483647" if x: "x \<in> set its" for x
    proof -
      have "x \<in> set (items_of rid ?d)" using x its by simp
      then have "fst x \<in> stock_ids ?d" using inv unfolding items_of_def inv_ok_def items_ok_def by auto
      then obtain s where s: "s \<in> set (stock ?d)" "sk_product s = fst x" by (auto simp: stock_ids_def)
      then have "held_qty (fst x) ?d \<le> 2147483647" using inv by (auto simp: inv_ok_def columns_ok_def in_i32_def)
      moreover have "0 \<le> other_qty rid (fst x) ?d" using inv by (intro other_qty_nonneg) (simp add: inv_ok_def)
      moreover have "items_qty (fst x) its = snd x" by (rule items_qty_member [OF di(2)]) (use x in simp)
      ultimately show ?thesis using held_qty_split [OF held, of "fst x"] by (simp add: its)
    qed
    then show ?case using 1(4) held its di by auto
  qed
  from wpD [OF this, of "clamp_ttl ttl" "Inr (rid, ex)" d' e'] show ?thesis
    using run by (simp add: Reserve_def split: if_splits)
qed

lemma call_Reserve_Inr:
  assumes "inv_ok (w_inv w)" "call_Reserve cf ref its ttl w e = (Inr rid, w', e')"
  shows "\<exists>d. w' = w\<lparr>w_inv := d\<rparr> \<and> res_held rid d \<and> items_of rid d = its \<and> distinct (map fst its) \<and>
    (\<forall>x\<in>set its. 0 < snd x \<and> snd x \<le> 2147483647)"
proof -
  obtain x w1 e1 where s: "served cf inventory_optional ''/commerce.inventory.v1.InventoryService/Reserve''
      (\<lambda>_. at_inv (Reserve ref its ttl)) w e = (Inr x, w1, e1)" and r: "rid = fst x" "w' = w1"
    using assms(2) unfolding call_Reserve_def by (auto elim!: bnd_InrE)
  obtain e2 d where "Reserve ref its ttl (w_inv w) e2 = (Inr x, d, e1)" "w1 = w\<lparr>w_inv := d\<rparr>"
    using served_Inr [OF s] by (auto simp: at_inv_def zoom_run)
  then show ?thesis using Reserve_Inr [OF assms(1)] r by (metis prod.collapse)
qed

text \<open>The payment a checkout opened for an order and an amount.\<close>

definition paid_for :: "string \<Rightarrow> money \<Rightarrow> string \<Rightarrow> pay_db \<Rightarrow> bool" where
  "paid_for oid m pid d \<longleftrightarrow> (\<exists>p. find_payment pid d = Some p \<and> p_OrderID p = oid \<and> p_AmountCents p = cents m \<and>
     p_Currency p = currency m \<and> p_Status p = REQUIRES_CONFIRMATION)"

lemma call_CreatePayment_Inr:
  assumes "call_CreatePayment cf oid amt tok w e = (Inr pay, w', e')"
  shows "\<exists>d. w' = w\<lparr>w_pay := d\<rparr> \<and> paid_for oid (moneyFrom amt) (fst pay) d"
proof -
  have amt: "request_cents amt = cents (moneyFrom amt)" "request_currency amt = currency (moneyFrom amt)"
    by (simp_all add: request_cents_def request_currency_def moneyFrom_def FromUnitsNanos_def split: option.split)
  have new: "find_payment (p_ID p) (created p d) = Some p" if "fresh_payment p d" for p d
  proof -
    have "List.find (\<lambda>x. p_ID x = p_ID p) (payments d) = None" using that by (simp add: fresh_payment_def find_key_None)
    then show ?thesis by (simp add: find_payment_def created_def find_append)
  qed
  have c: "wp (CreatePayment oid amt tok) (\<lambda>r d' _. \<forall>m. r = Inr m \<longrightarrow> paid_for oid (moneyFrom amt) (pm_payment_id m) d') d e" for d e
    unfolding CreatePayment_def
    by (auto intro!: wp_pay_CreateI simp: pay_toProto_def paid_for_def amt new fresh_payment_def)
  obtain m w1 e1 where s: "served cf payment_optional ''/commerce.payment.v1.PaymentService/CreatePayment''
      (\<lambda>_. at_pay (CreatePayment oid amt tok)) w e = (Inr m, w1, e1)" and r: "fst pay = pm_payment_id m" "w' = w1"
    using assms unfolding call_CreatePayment_def by (auto elim!: bnd_InrE)
  obtain e2 d where "CreatePayment oid amt tok (w_pay w) e2 = (Inr m, d, e1)" "w1 = w\<lparr>w_pay := d\<rparr>"
    using served_Inr [OF s] by (auto simp: at_pay_def zoom_run)
  then show ?thesis using wpD [OF c] r by auto
qed

lemma call_Clear_frame: "wp (call_Clear cf cid) (\<lambda>_ w' _. w_inv w' = w_inv w \<and> w_pay w' = w_pay w \<and> sys_orders w' = sys_orders w) w e"
  unfolding call_Clear_def
  by (simp, rule wp_mono [OF wp_served_inv [where I = "\<lambda>w'. w_inv w' = w_inv w \<and> w_pay w' = w_pay w \<and> sys_orders w' = sys_orders w"]])
     (auto split: sum.splits)

lemma insert_Inr:
  assumes "at_store (InsertWithKey ord key) w e = (Inr (), w', e')"
  shows "w_inv w' = w_inv w \<and> w_pay w' = w_pay w \<and> (\<exists>t. order_row_of ord t \<in> set (orders (sys_orders w')))"
proof -
  have "wp (InsertWithKey ord key) (\<lambda>r d _. r = Inr () \<longrightarrow> (\<exists>t. order_row_of ord t \<in> set (orders d))) d e" for d
    by (rule wp_InsertWithKeyI) (auto simp: close_key_def)
  from wpD [OF this] show ?thesis using assms by (auto simp: at_store_def zoom_run)
qed

text \<open>How much of a product an order is for.\<close>

definition ordered :: "string \<Rightarrow> order \<Rightarrow> int" where
  "ordered p ord = sum_list (map (\<lambda>l. if l_ProductID l = p then l_Quantity l else 0) (Lines ord))"

lemma ordered_of_quote:
  assumes "distinct (map ql_product_id (q_lines q))" "ql_product_id ` set (q_lines q) = fst ` set its"
    and "\<forall>l\<in>set (q_lines q). ql_quantity l = requested (ql_product_id l) its"
  shows "ordered p (order_of_quote inp oid q pid rid) = requested p its"
proof -
  have sum: "ordered p (order_of_quote inp oid q pid rid) =
      sum_list (map (\<lambda>l. if ql_product_id l = p then ql_quantity l else 0) (q_lines q))"
    by (simp add: ordered_def order_of_quote_def linesFromQuote_def lineFromQuote_def comp_def cong: if_cong)
  have none: "p \<notin> f ` set xs \<Longrightarrow> sum_list (map (\<lambda>l. if f l = p then g l else 0) xs) = (0::int)" for f g and xs :: "'a list"
    by (induction xs) auto
  have one: "distinct (map f xs) \<Longrightarrow> l \<in> set xs \<Longrightarrow> f l = p \<Longrightarrow> sum_list (map (\<lambda>l. if f l = p then g l else 0) xs) = (g l :: int)"
    for f g l and xs :: "'a list"
  proof (induction xs)
    case (Cons x xs)
    then show ?case using none [of f xs g] by (auto simp: image_iff)
  qed simp
  show ?thesis
  proof (cases "p \<in> fst ` set its")
    case True
    then obtain l where l: "l \<in> set (q_lines q)" "ql_product_id l = p" using assms(2) by (metis image_iff)
    then show ?thesis using sum one [OF assms(1) l] assms(3) by simp
  next
    case False
    then have "requested p its = 0" using none [of fst its snd] by (simp add: requested_def)
    then show ?thesis using sum none [of ql_product_id "q_lines q" ql_quantity] False assms(2) by simp
  qed
qed

lemma requested_items: "distinct (map fst its) \<Longrightarrow> requested p its = items_qty p its"
  by (induction its) (auto simp: requested_def)

text \<open>C2: a checkout that answers, whatever messages were lost on the way, is backed by the other services.
  The order is stored and pending; the reservation it names is held for exactly the quantities it sells of
  every product; and the payment it names is unconfirmed, for this order and for exactly its total.\<close>

theorem answered_checkout_backed:
  assumes "CreateOrder (world_clients cf) inp w e = (Inr res, w', e')" "\<not> res_Replayed res"
    and "inv_ok (w_inv w)" "\<forall>x. mset (wc_iter2 cf x) = mset x"
  shows "(\<exists>t. order_row_of (res_Order res) t \<in> set (orders (sys_orders w'))) \<and> Status (res_Order res) = PENDING_PAYMENT \<and>
    res_held (ReservationID (res_Order res)) (w_inv w') \<and>
    (\<forall>p. items_qty p (items_of (ReservationID (res_Order res)) (w_inv w')) = ordered p (res_Order res)) \<and>
    paid_for (ID (res_Order res)) (Total (res_Order res)) (PaymentID (res_Order res)) (w_pay w')"
proof -
  obtain inp' d e0 where "place_order (world_clients cf) inp' (w\<lparr>sys_orders := d\<rparr>) e0 = (Inr res, w', e')"
    using CreateOrder_placed [OF assms(1,2)] .
  then obtain items w1 e1 quote w2 e2 oid e3 rid w4 e4 pay w5 e5 w6 e6 e7 where
    cart: "call_GetCart cf (in_CartID inp') (w\<lparr>sys_orders := d\<rparr>) e0 = (Inr items, w1, e1)"
    and quote: "call_QuotePrice cf \<lparr>qr_items = items, qr_currency = in_Currency inp', qr_coupon = in_CouponCode inp',
       qr_ship_to = in_ShipTo inp'\<rparr> w1 e1 = (Inr quote, w2, e2)"
    and reserve: "call_Reserve cf oid items 900 w2 e3 = (Inr rid, w4, e4)"
    and pay: "call_CreatePayment cf oid (q_total quote) (in_MethodToken inp') w4 e4 = (Inr pay, w5, e5)"
    and ins: "at_store (InsertWithKey (order_of_quote inp' oid quote (fst pay) rid) (in_IdempotencyKey inp')) w5 e5 = (Inr (), w6, e6)"
    and clear: "best_effort (call_Clear cf (in_CartID inp')) w6 e6 = (Inr (), w', e7)"
    and res: "res_Order res = order_of_quote inp' oid quote (fst pay) rid"
    by (elim place_order_InrE) simp
  have "inv_ok (w_inv w2)"
    using wpD [OF call_GetCart_frame cart] wpD [OF call_QuotePrice_frame quote] assms(3) by simp
  from call_Reserve_Inr [OF this reserve] obtain i where
    i: "w4 = w2\<lparr>w_inv := i\<rparr>" "res_held rid i" "items_of rid i = items" "distinct (map fst items)"
       "\<forall>x\<in>set items. 0 < snd x \<and> snd x \<le> 2147483647" by blast
  obtain q where q: "w5 = w4\<lparr>w_pay := q\<rparr>" "paid_for oid (moneyFrom (q_total quote)) (fst pay) q"
    using call_CreatePayment_Inr [OF pay] by blast
  have c: "wp (best_effort (call_Clear cf (in_CartID inp'))) (\<lambda>_ w' _. w_inv w' = w_inv w6 \<and> w_pay w' = w_pay w6 \<and> sys_orders w' = sys_orders w6) w6 e6"
    unfolding best_effort_def using call_Clear_frame by simp
  have fin: "w_inv w' = w_inv w6" "w_pay w' = w_pay w6" "sys_orders w' = sys_orders w6" using wpD [OF c clear] by simp_all
  obtain e8 w8 e9 where "QuotePrice (\<lambda>code. at_pricing (GetCoupon code)) (\<lambda>ids. rpc (lift_res (wc_catalog cf ids)))
      (wc_rates cf) (wc_iter1 cf) (wc_iter2 cf) \<lparr>qr_items = items, qr_currency = in_Currency inp', qr_coupon = in_CouponCode inp',
       qr_ship_to = in_ShipTo inp'\<rparr> w1 e8 = (Inr quote, w8, e9)"
    using served_Inr [OF quote [unfolded call_QuotePrice_def]] by blast
  note lines = quote_quantities [OF this assms(4), simplified]
  have small: "requested p items \<le> 2147483647" for p
  proof (cases "p \<in> fst ` set items")
    case True
    then obtain x where "x \<in> set items" "fst x = p" by auto
    then show ?thesis using i(4,5) items_qty_member [of items p "snd x"] by (auto simp: requested_items)
  next
    case False
    then have "items_qty p items = 0" by (induction items) auto
    then show ?thesis using i(4) by (simp add: requested_items)
  qed
  have "ordered p (res_Order res) = items_qty p items" for p
    unfolding res using ordered_of_quote lines small i(4) by (metis requested_items)
  then show ?thesis
    using insert_Inr [OF ins] fin i(1-3) q by (simp add: res) (simp add: order_of_quote_def)
qed

theorem answered_checkout_backed_witness:
  "(case paid_checkout of (r, w, e) \<Rightarrow> \<exists>res. r = Inr res \<and> cents (Total (res_Order res)) = 1400 \<and>
     res_held (ReservationID (res_Order res)) (w_inv w) \<and>
     (\<exists>p. find_payment (PaymentID (res_Order res)) (w_pay w) = Some p \<and> p_AmountCents p = 1400 \<and> p_OrderID p = ''id''))"
proof -
  obtain r w e where run: "paid_checkout = (r, w, e)" by (metis prod.collapse)
  obtain res where res: "r = Inr res" "ID (res_Order res) = ''id''" "cents (Total (res_Order res)) = 1400" "\<not> res_Replayed res"
    using paid_checkout_answers [unfolded run fst_conv] by (cases r) auto
  have "inv_ok (w_inv shop_world)" by (rule shop_world_ok)
  moreover have "\<forall>x. mset (wc_iter2 (shop_config 7) x) = mset x" by (simp add: shop_config_def)
  ultimately show ?thesis
    unfolding run prod.case
    using answered_checkout_backed [OF run [unfolded paid_checkout_def res(1)] res(4)] res by (auto simp: paid_for_def)
qed

end
