(* ===== verification/SagaProps.thy ===== *)
theory SagaProps
  imports CheckoutProps OrderInvariants
begin

section \<open>Properties of the saga's event handlers and of the reconciler\<close>

text \<open>
  What happens after the order exists: the handler that commits the stock, the sweep that retries
  compensations, and the payments it can never void.
\<close>

subsection \<open>Confirming and committing\<close>

lemma call_frames:
  "wp (call_Commit cf rid) (\<lambda>_ w' _. sys_orders w' = sys_orders w) w e"
  "wp (call_Release cf rid) (\<lambda>_ w' _. sys_orders w' = sys_orders w) w e"
  "wp (call_Void cf pid) (\<lambda>_ w' _. sys_orders w' = sys_orders w) w e"
  unfolding call_Commit_def call_Release_def call_Void_def wp_discard
  by (auto intro!: wp_served_inv [where I = "\<lambda>w'. sys_orders w' = sys_orders w"])

lemma Confirm_marks: "wp (Apply oid ev Confirm) (\<lambda>r d' _. (\<exists>ord. r = Inr (Some ord)) \<longrightarrow> ev \<noteq> '''' \<longrightarrow> ev \<in> set (processed d')) d e"
  by (rule wp_ApplyI [OF lifecycle_Confirm]) (auto simp: with_event_def mark_processed_def)

text \<open>An event the store has seen is ignored, whatever the handler.\<close>

lemma Apply_seen:
  "lifecycle_fn fn \<Longrightarrow> \<not> new_event ev d \<Longrightarrow> (\<And>x fs. Q (Inl x) d (e\<lparr>faults := fs\<rparr>)) \<Longrightarrow> (\<And>fs. Q (Inr None) d (e\<lparr>faults := fs\<rparr>)) \<Longrightarrow>
   wp (Apply oid ev fn) Q d e"
  by (rule wp_ApplyI) auto

lemma OnPaymentAuthorized_seen:
  assumes "ev \<noteq> ''''" "ev \<in> set (processed (sys_orders w))"
  shows "wp (OnPaymentAuthorized cl ev oid) (\<lambda>_ w' _. w' = w) w e"
proof -
  have "\<not> new_event ev (sys_orders w)" using assms by (simp add: new_event_def)
  then show ?thesis
    unfolding OnPaymentAuthorized_def by (auto intro!: Apply_seen lifecycle_Confirm)
qed

text \<open>C25: a commit that fails is not retried, against the comment above the call.  When the order's
  transaction went through and the call to the inventory failed, every redelivery of the event is
  answered from \<open>processed_events\<close>: it changes nothing anywhere, so the stock of the confirmed order is
  never taken, and stays in a reservation that the expiry sweep later gives back.\<close>

theorem commit_never_retried:
  assumes "ev \<noteq> ''''" "at_store (Apply oid ev Confirm) w e = (Inr (Some ord), wa, ea)"
    and "OnPaymentAuthorized (world_clients cf) ev oid w e = (Inl err, w1, e1)"
    and "set (processed (sys_orders w1)) \<subseteq> set (processed (sys_orders w2))"
    and "OnPaymentAuthorized (world_clients cf') ev oid' w2 e2 = (r, w3, e3)"
  shows "w3 = w2"
proof -
  have seen: "ev \<in> set (processed (sys_orders wa))"
    using wpD [OF Confirm_marks] assms(1,2) by (auto simp: at_store_def zoom_run)
  have "wrapped KindUnavailable ''COMMIT_FAILED'' (call_Commit cf (ReservationID ord)) wa ea = (Inl err, w1, e1)"
    using assms(3) by (simp add: OnPaymentAuthorized_def bnd_def assms(2) split: if_splits)
  then have "sys_orders w1 = sys_orders wa"
    unfolding wrapped_def using wpD [OF call_frames(1)] by (auto simp: map_err_def split: prod.splits sum.splits)
  then have "ev \<in> set (processed (sys_orders w2))" using seen assms(4) by auto
  then show ?thesis using wpD [OF OnPaymentAuthorized_seen assms(5)] assms(1) by blast
qed

theorem commit_never_retried_witness:
  "(case lost_commit of (r, w1, e1) \<Rightarrow> (\<exists>err. r = Inl err) \<and> map or_status (orders (sys_orders w1)) = [CONFIRMED] \<and>
     after (OnPaymentAuthorized (world_clients (shop_config 7)) ''ev'' ''id'') (env_at 3) w1 = w1 \<and>
     map rv_status (reservations (w_inv w1)) = [HELD])"
proof -
  let ?e = "(env_at 2)\<lparr>faults := replicate 7 Fine @ [Lost]\<rparr>"
  obtain w1 e1 where run: "lost_commit = (Inl (DomErr KindUnavailable ''COMMIT_FAILED'' (Some (StatusErr Unavailable ''TRANSPORT''))), w1, e1)"
    using lost_commit_fails(1) by (metis prod.collapse)
  have "(case fst (at_store (Apply ''id'' ''ev'' Confirm) placed_world ?e) of Inr (Some _) \<Rightarrow> True | _ \<Rightarrow> False)" by code_simp
  then obtain ord wa ea where confirm: "at_store (Apply ''id'' ''ev'' Confirm) placed_world ?e = (Inr (Some ord), wa, ea)"
    by (cases "at_store (Apply ''id'' ''ev'' Confirm) placed_world ?e") (auto split: sum.splits option.splits)
  obtain r w3 e3 where again: "OnPaymentAuthorized (world_clients (shop_config 7)) ''ev'' ''id'' w1 (env_at 3) = (r, w3, e3)"
    by (metis prod.collapse)
  have "w3 = w1"
    using commit_never_retried [OF _ confirm run [unfolded lost_commit_def] _ again] by simp
  then show ?thesis
    unfolding run prod.case using again lost_commit_fails(2,4) [unfolded run fst_conv snd_conv] by (simp add: after_def)
qed

subsection \<open>Payments the sweep can never void\<close>

text \<open>The order is cancelled and owes a void, but its payment has failed.\<close>

definition failed_payment :: "string \<Rightarrow> pay_db \<Rightarrow> bool" where
  "failed_payment pid d \<longleftrightarrow> (\<exists>p. find_payment pid d = Some p \<and> p_Status p = FAILED)"

definition owing :: "string \<Rightarrow> string \<Rightarrow> order_db \<Rightarrow> bool" where
  "owing oid pid d \<longleftrightarrow> distinct (map or_id (orders d)) \<and>
     (\<exists>r\<in>set (orders d). or_id r = oid \<and> or_status r = CANCELLED \<and> or_payment_id r = pid \<and> pid \<noteq> '''' \<and> or_voided r = None)"

definition void_owed :: "string \<Rightarrow> string \<Rightarrow> world \<Rightarrow> bool" where
  "void_owed oid pid w \<longleftrightarrow> failed_payment pid (w_pay w) \<and> owing oid pid (sys_orders w)"

lemma failed_transitioned:
  "failed_payment pid d \<Longrightarrow> find_payment (p_ID p) d = Some p \<Longrightarrow> canTransition (p_Status p) to \<Longrightarrow>
   failed_payment pid (transitioned p to reason t d)"
proof -
  assume f: "failed_payment pid d" and p: "find_payment (p_ID p) d = Some p" and c: "canTransition (p_Status p) to"
  then have "p_ID p \<noteq> pid" by (auto simp: failed_payment_def canTransition_def)
  then have "List.find (\<lambda>x. p_ID x = pid) (upd_rows (\<lambda>x. p_ID x = p_ID p) g (payments d)) = List.find (\<lambda>x. p_ID x = pid) (payments d)"
    if "\<And>x. p_ID (g x) = p_ID x" for g
    using that by (intro find_upd_rows_other) auto
  then show ?thesis
    using f by (auto simp: failed_payment_def transitioned_def pay_announce_def set_payment_def find_payment_def
        split: option.split prod.split)
qed

lemma Void_failed: "failed_payment pid d \<Longrightarrow>
  wp (VoidPayment pid') (\<lambda>r d' _. failed_payment pid d' \<and> (pid' = pid \<longrightarrow> (\<exists>x. r = Inl x))) d e"
proof -
  assume f: "failed_payment pid d"
  have not: "pid' \<noteq> pid" if "find_payment pid' d = Some p" "p_Status p = VOIDED \<or> canTransition (p_Status p) VOIDED" for p
    using f that by (auto simp: failed_payment_def canTransition_def)
  have move: "failed_payment pid (transitioned p VOIDED '''' t d)"
    if "find_payment pid' d = Some p" "canTransition (p_Status p) VOIDED" for p t
    using failed_transitioned [OF f _ that(2)] that(1) find_payment_in [OF that(1)] by simp
  show ?thesis
    unfolding VoidPayment_def wp_bnd
  proof (rule wp_TransitionI, goal_cases)
    case (2 p fs)
    then show ?case using not f by auto
  next
    case (3 p r fs)
    then show ?case using not move by auto
  qed (simp add: f)
qed

lemma call_Void_failed: "failed_payment pid (w_pay w) \<Longrightarrow>
  wp (call_Void cf pid') (\<lambda>r w' _. sys_orders w' = sys_orders w \<and> failed_payment pid (w_pay w') \<and> (pid' = pid \<longrightarrow> (\<exists>x. r = Inl x))) w e"
  unfolding call_Void_def wp_discard
  by (rule wp_servedI) (auto intro!: wp_mono [OF Void_failed] split: sum.splits)

lemma call_Release_pay: "wp (call_Release cf rid) (\<lambda>_ w' _. sys_orders w' = sys_orders w \<and> w_pay w' = w_pay w) w e"
  unfolding call_Release_def by (rule wp_served_inv) auto

lemma owing_mark:
  assumes "owing oid pid d" "\<And>r. or_id (f r) = or_id r \<and> or_status (f r) = or_status r \<and> or_payment_id (f r) = or_payment_id r"
    and "k = oid \<Longrightarrow> (\<And>r. or_voided (f r) = or_voided r)"
  shows "owing oid pid (d\<lparr>orders := upd_rows (\<lambda>r. or_id r = k) f (orders d)\<rparr>)"
proof -
  obtain r where r: "r \<in> set (orders d)" "or_id r = oid" "or_status r = CANCELLED" "or_payment_id r = pid" "or_voided r = None"
      "pid \<noteq> ''''" "distinct (map or_id (orders d))"
    using assms(1) by (auto simp: owing_def)
  have "(if or_id r = k then f r else r) \<in> set (upd_rows (\<lambda>r. or_id r = k) f (orders d))" using r(1) by (auto simp: in_upd_rows)
  moreover have "distinct (map or_id (upd_rows (\<lambda>r. or_id r = k) f (orders d)))" using r(7) assms(2) by (simp add: map_upd_rows)
  ultimately show ?thesis
    unfolding owing_def using r assms(2,3) by (auto intro!: bexI [where x = "if or_id r = k then f r else r"])
qed

text \<open>One order of a sweep leaves the debt, when it is that order's payment or another order.\<close>

lemma sweep_one_owes:
  assumes "void_owed oid pid w" "pc_OrderID p = oid \<Longrightarrow> pc_PaymentID p = pid \<or> pc_PaymentID p = ''''"
  shows "wp (sweep_one (world_clients cf) p) (\<lambda>_ w' _. void_owed oid pid w') w e"
proof -
  have void: "wp (saga_VoidPayment (world_clients cf) (pc_OrderID p) (pc_PaymentID p)) (\<lambda>_ w' _. void_owed oid pid w') w' e'"
    if "void_owed oid pid w'" "pc_PaymentID p \<noteq> ''''" for w' e'
  proof -
    have call: "wp (call_Void cf (pc_PaymentID p)) (\<lambda>r w'' e''. case r of Inl x \<Rightarrow> void_owed oid pid w''
        | Inr a \<Rightarrow> wp (if pc_OrderID p = '''' then ret () else at_store (MarkPaymentVoided (pc_OrderID p))) (\<lambda>_ w' _. void_owed oid pid w') w'' e'') w' e'"
    proof (rule wp_mono [OF call_Void_failed [where pid = pid]], goal_cases)
      case 1
      show ?case using that(1) by (simp add: void_owed_def)
    next
      case (2 r w'' e'')
      then have o: "void_owed oid pid w''" and other: "\<And>a. r = Inr a \<Longrightarrow> pc_OrderID p \<noteq> oid"
        using that assms(2) by (auto simp: void_owed_def)
      have "void_owed oid pid (w''\<lparr>sys_orders := (sys_orders w'')\<lparr>orders := upd_rows (\<lambda>r. or_id r = pc_OrderID p)
          (\<lambda>r. r\<lparr>or_voided := Some t\<rparr>) (orders (sys_orders w''))\<rparr>\<rparr>)" if "pc_OrderID p \<noteq> oid" for t
        using o that by (auto simp: void_owed_def intro!: owing_mark)
      then show ?case
        using o other by (cases r) (auto simp: MarkPaymentVoided_def intro!: wp_mark_orderI)
    qed
    show ?thesis unfolding saga_VoidPayment_def using that(2) call by simp
  qed
  have release: "wp (ReleaseReservation (world_clients cf) (pc_OrderID p) (pc_ReservationID p)) (\<lambda>_ w' _. void_owed oid pid w') w e"
  proof -
    have "void_owed oid pid (w'\<lparr>sys_orders := (sys_orders w')\<lparr>orders := upd_rows (\<lambda>r. or_id r = pc_OrderID p)
        (\<lambda>r. r\<lparr>or_released := Some t\<rparr>) (orders (sys_orders w'))\<rparr>\<rparr>)"
      if "sys_orders w' = sys_orders w" "w_pay w' = w_pay w" for t and w' :: world
      using assms(1) that by (auto simp: void_owed_def intro!: owing_mark)
    then show ?thesis
      unfolding ReleaseReservation_def
      using assms(1) by (auto simp: MarkReservationReleased_def void_owed_def intro!: wp_mono [OF call_Release_pay] wp_mark_orderI split: sum.splits)
  qed
  show ?thesis
    unfolding sweep_one_def best_effort_def
    using assms(1) by (auto intro!: wp_mono [OF release] void)
qed

lemma Sweep_owes:
  assumes "void_owed oid pid w"
  shows "wp (Sweep (world_clients cf) settledFor batch) (\<lambda>_ w' _. void_owed oid pid w') w e"
proof -
  obtain r0 where r0: "distinct (map or_id (orders (sys_orders w)))" "r0 \<in> set (orders (sys_orders w))" "or_id r0 = oid"
      "or_payment_id r0 = pid"
    using assms unfolding void_owed_def owing_def by blast
  have own: "or_payment_id r = pid" if "r \<in> set (orders (sys_orders w))" "or_id r = oid" for r
    using distinct_map_inj [OF r0(1) that(1) r0(2)] that(2) r0(3,4) by simp
  have sel: "set (select_pending t n d) \<subseteq> set (orders d)" for t n d
    by (auto simp: select_pending_def dest!: in_set_takeD)
  have pend: "pc_PaymentID p = pid \<or> pc_PaymentID p = ''''"
    if p: "p \<in> pending_row ` set (select_pending t n (sys_orders w))" and k: "pc_OrderID p = oid" for t n p
  proof -
    obtain r where r: "p = pending_row r" "r \<in> set (orders (sys_orders w))" using p sel by blast
    then have "or_payment_id r = pid" using own k by (simp add: pending_row_def)
    then show ?thesis by (simp add: r(1) pending_row_def)
  qed
  have loop: "wp (foreach (sweep_one (world_clients cf))
      (filter F (map pending_row (select_pending t n (sys_orders w))))) (\<lambda>_ w' _. void_owed oid pid w') w e'" for F t n e'
  proof (rule wp_foreach_inv [where I = "void_owed oid pid"])
    show "void_owed oid pid w" by (rule assms)
  next
    fix p s and t' :: env
    assume p: "p \<in> set (filter F (map pending_row (select_pending t n (sys_orders w))))" and s: "void_owed oid pid s"
    show "wp (sweep_one (world_clients cf) p) (\<lambda>_ w' _. void_owed oid pid w') s t'"
      by (rule sweep_one_owes [OF s]) (rule pend [of p t n], use p in auto)
  qed
  have same: "w\<lparr>sys_orders := sys_orders w\<rparr> = w" by simp
  show ?thesis
    unfolding Sweep_def PendingCompensations_def wp_bnd wp_attempt wp_at_store wp_map_err sum.case
    by (rule wp_queryI) (simp_all only: sum.case same wp_ret wp_bnd assms loop)
qed

text \<open>C26: an order cancelled because its payment failed owes a void that no sweep can make.  The payment
  service refuses to void a FAILED payment, so however often the reconciler runs, with whatever batch and
  faults, the order stays in the backlog.\<close>

theorem failed_payment_owed_forever:
  assumes "void_owed oid pid w"
  shows "void_owed oid pid (run_ops (\<lambda>(cf, settledFor, batch) e. after (Sweep (world_clients cf) settledFor batch) e) sweeps w)"
  using assms
proof (induction sweeps arbitrary: w)
  case Nil
  then show ?case by simp
next
  case (Cons x sweeps)
  have "void_owed oid pid (after (Sweep (world_clients cf) settledFor batch) e w)" for cf settledFor batch e
    by (rule after_wp [OF Sweep_owes [OF Cons.prems]])
  then show ?case using Cons.IH by (simp split: prod.split)
qed

theorem failed_payment_owed_forever_witness:
  "void_owed ''id'' ''idxxx'' (run_ops (\<lambda>(cf, settledFor, batch) e. after (Sweep (world_clients cf) settledFor batch) e)
     (replicate 1000 ((shop_config 7, 0, 100), env_at 100)) abandoned_world)"
proof (rule failed_payment_owed_forever)
  have "owing ''id'' ''idxxx'' (sys_orders abandoned_world)"
  proof -
    obtain r where r: "orders (sys_orders abandoned_world) = [r]" "or_id r = ''id''" "or_status r = CANCELLED"
        "or_payment_id r = ''idxxx''" "or_voided r = None"
      using abandoned_rows(1) by (auto simp: map_eq_Cons_conv)
    then show ?thesis by (simp add: owing_def)
  qed
  moreover have "failed_payment ''idxxx'' (w_pay abandoned_world)"
    using abandoned_rows(2) by (auto simp: failed_payment_def find_payment_def map_eq_Cons_conv)
  ultimately show "void_owed ''id'' ''idxxx'' abandoned_world" by (simp add: void_owed_def)
qed

subsection \<open>The sweep pays the other debts\<close>

definition voidable :: "(string \<Rightarrow> bool) \<Rightarrow> string \<Rightarrow> pay_db \<Rightarrow> bool" where
  "voidable V pid d \<longleftrightarrow> V pid \<and> (\<exists>p. find_payment pid d = Some p \<and>
     (p_Status p = REQUIRES_CONFIRMATION \<or> p_Status p = AUTHORIZED \<or> p_Status p = VOIDED))"

lemma quiet_call_Release:
  assumes q: "quiet V e" and cf: "admitted cf" and ok: "inv_ok (w_inv w)"
    and Q: "\<And>d' e'. inv_ok d' \<Longrightarrow> quiet V e' \<Longrightarrow> now e' = now e \<Longrightarrow> Q (Inr ()) (w\<lparr>w_inv := d'\<rparr>) e'"
  shows "wp (call_Release cf rid) Q w e"
proof -
  have "wp (store_Release rid) (\<lambda>r d' _. r = Inr () \<and> inv_ok d') (w_inv w) e"
  proof (cases "V rid \<and> res_held rid (w_inv w)")
    case True
    then have "inv_ok (finished rid RELEASED release_fn t (w_inv w))" for t
      using finished_inv [OF ok _ gives_back_release _ finish_possible [OF ok _ gives_back_release]] by auto
    then show ?thesis
      unfolding store_Release_def using True by (auto intro!: wp_quiet_finish [OF q _ ok _ gives_back_release])
  next
    case False
    then have "\<not> V rid \<or> (\<forall>v. List.find (\<lambda>v. rv_id v = rid) (reservations (w_inv w)) = Some v \<longrightarrow> rv_status v \<noteq> HELD)"
      by (auto simp: res_held_ex)
    then show ?thesis
      unfolding store_Release_def finish_def reservationIsHeld_def
      using quiet_faults [OF q] q ok
      by (intro wp_quiet_in_tx) (auto simp: wp_quiet quiet_def split: option.split)
  qed
  then have "wp (call_Release cf rid) (\<lambda>r w' _. r = Inr () \<and> (\<exists>d. inv_ok d \<and> w' = w\<lparr>w_inv := d\<rparr>)) w e"
    unfolding call_Release_def
    by (intro wp_served_quiet [OF q cf]) (auto simp: inventory_optional_def elim!: wp_mono)
  from wp_tame [OF _ this] show ?thesis
    by (rule wp_mono) (use Q q quiet_later later_env_simps(1) tame_calls(5) in \<open>blast+\<close>)
qed

lemma voidable_set:
  "voidable V pid' d \<Longrightarrow> voidable V pid' (set_payment pid (\<lambda>x. x\<lparr>p_Status := VOIDED\<rparr>) d)"
  by (cases "pid' = pid")
     (auto simp: voidable_def find_payment_def set_payment_def find_upd_rows_same find_upd_rows_other)

lemma quiet_call_Void:
  assumes q: "quiet V e" and cf: "admitted cf" and v: "voidable V pid (w_pay w)"
    and Q: "\<And>d' e'. (\<And>pid'. voidable V pid' (w_pay w) \<Longrightarrow> voidable V pid' d') \<Longrightarrow> quiet V e' \<Longrightarrow> now e' = now e \<Longrightarrow>
      Q (Inr ()) (w\<lparr>w_pay := d'\<rparr>) e'"
  shows "wp (call_Void cf pid) Q w e"
proof -
  obtain p where p: "find_payment pid (w_pay w) = Some p"
      "p_Status p = REQUIRES_CONFIRMATION \<or> p_Status p = AUTHORIZED \<or> p_Status p = VOIDED" and V: "V pid"
    using v by (auto simp: voidable_def)
  have "wp (VoidPayment pid) (\<lambda>r d' _. (\<exists>m. r = Inr m) \<and> (\<forall>pid'. voidable V pid' (w_pay w) \<longrightarrow> voidable V pid' d')) (w_pay w) e"
    unfolding VoidPayment_def Transition_def loadForUpdate_def load_payment_def select_payment_def Let_def
    using q p V voidable_set
    by (auto simp: quiet_def wp_quiet canTransition_def eventFor_def intro!: wp_quiet_in_tx)
  then have "wp (call_Void cf pid) (\<lambda>r w' _. r = Inr () \<and> (\<forall>pid'. voidable V pid' (w_pay w) \<longrightarrow> voidable V pid' (w_pay w')) \<and> w' = w\<lparr>w_pay := w_pay w'\<rparr>) w e"
    unfolding call_Void_def wp_discard
    by (intro wp_served_quiet [OF q cf]) (auto simp: payment_optional_def elim!: wp_mono)
  from wp_tame [OF tame_calls(9) this] show ?thesis
  proof (rule wp_mono, elim conjE)
    fix r :: "unit res" and w' e'
    assume "r = Inr ()" "\<forall>pid'. voidable V pid' (w_pay w) \<longrightarrow> voidable V pid' (w_pay w')" "w' = w\<lparr>w_pay := w_pay w'\<rparr>" "later_env e e'"
    then show "Q r w' e'" using Q [of "w_pay w'" e'] quiet_later [OF q] later_env_simps(1) by metis
  qed
qed

definition cleared :: "int \<Rightarrow> pending_compensation \<Rightarrow> order_row \<Rightarrow> order_row" where
  "cleared t p r = r\<lparr>or_released := (if pc_ReservationID p \<noteq> '''' then Some t else or_released r),
     or_voided := (if pc_PaymentID p \<noteq> '''' then Some t else or_voided r)\<rparr>"

definition clear_row :: "int \<Rightarrow> pending_compensation \<Rightarrow> order_row list \<Rightarrow> order_row list" where
  "clear_row t p rs = upd_rows (\<lambda>r. or_id r = pc_OrderID p) (cleared t p) rs"

lemma upd_rows_upd_rows:
  "(\<And>r. P (f r) = P r) \<Longrightarrow> upd_rows P g (upd_rows P f t) = upd_rows P (\<lambda>r. g (f r)) t"
  by (induction t) auto

lemma quiet_mark:
  "quiet V e \<Longrightarrow> V oid \<Longrightarrow> wp (mark_order f oid) Q d e =
     Q (Inr ()) (d\<lparr>orders := upd_rows (\<lambda>r. or_id r = oid) (f (now e)) (orders d)\<rparr>) e"
  by (simp add: mark_order_def quiet_def wp_quiet)

definition sweepable :: "(string \<Rightarrow> bool) \<Rightarrow> pending_compensation \<Rightarrow> world \<Rightarrow> bool" where
  "sweepable V p w \<longleftrightarrow> V (pc_OrderID p) \<and> (pc_PaymentID p = '''' \<or> voidable V (pc_PaymentID p) (w_pay w))"

lemma quiet_sweep_one:
  assumes q: "quiet V e" and cf: "admitted cf" and ok: "inv_ok (w_inv w)" and p: "sweepable V p w"
    and Q: "\<And>w' e'. inv_ok (w_inv w') \<Longrightarrow> quiet V e' \<Longrightarrow> now e' = now e \<Longrightarrow> (\<And>p'. sweepable V p' w \<Longrightarrow> sweepable V p' w') \<Longrightarrow>
      orders (sys_orders w') = clear_row (now e) p (orders (sys_orders w)) \<Longrightarrow> Q (Inr ()) w' e'"
  shows "wp (sweep_one (world_clients cf) p) Q w e"
proof -
  have oid: "pc_OrderID p \<noteq> ''''" "V (pc_OrderID p)" using p q by (auto simp: sweepable_def quiet_def)
  have void: "wp (if pc_PaymentID p \<noteq> '''' then best_effort (saga_VoidPayment (world_clients cf) (pc_OrderID p) (pc_PaymentID p)) else ret ()) Q w' e'"
    if w': "inv_ok (w_inv w')" "quiet V e'" "now e' = now e" "w_pay w' = w_pay w"
      and o': "orders (sys_orders w') = upd_rows (\<lambda>r. or_id r = pc_OrderID p)
          (\<lambda>r. r\<lparr>or_released := (if pc_ReservationID p \<noteq> '''' then Some (now e) else or_released r)\<rparr>) (orders (sys_orders w))"
    for w' :: world and e'
  proof (cases "pc_PaymentID p = ''''")
    case True
    then have "cleared (now e) p = (\<lambda>r. r\<lparr>or_released := (if pc_ReservationID p \<noteq> '''' then Some (now e) else or_released r)\<rparr>)"
      by (simp add: cleared_def fun_eq_iff)
    then show ?thesis using True w' o' by (auto simp: clear_row_def sweepable_def intro!: Q)
  next
    case False
    have "clear_row (now e) p (orders (sys_orders w)) = upd_rows (\<lambda>r. or_id r = pc_OrderID p) (\<lambda>r. r\<lparr>or_voided := Some (now e)\<rparr>) (orders (sys_orders w'))"
      using False by (simp add: o' clear_row_def upd_rows_upd_rows) (simp add: cleared_def upd_rows_def)
    then show ?thesis
      using False oid w' p
      by (auto simp: best_effort_def saga_VoidPayment_def MarkPaymentVoided_def quiet_mark sweepable_def
          intro!: quiet_call_Void [OF w'(2) cf] Q)
  qed
  show ?thesis
  proof (cases "pc_ReservationID p = ''''")
    case True
    then show ?thesis unfolding sweep_one_def using void [OF ok q refl refl] by (simp add: upd_rows_def)
  next
    case False
    have "wp (best_effort (ReleaseReservation (world_clients cf) (pc_OrderID p) (pc_ReservationID p)))
        (\<lambda>r w' e'. r = Inr () \<and> inv_ok (w_inv w') \<and> quiet V e' \<and> now e' = now e \<and> w_pay w' = w_pay w \<and>
           orders (sys_orders w') = upd_rows (\<lambda>r. or_id r = pc_OrderID p)
             (\<lambda>r. r\<lparr>or_released := (if pc_ReservationID p \<noteq> '''' then Some (now e) else or_released r)\<rparr>) (orders (sys_orders w))) w e"
      unfolding ReleaseReservation_def
      using oid False by (auto simp: MarkReservationReleased_def quiet_mark wp_best_effort intro!: quiet_call_Release [OF q cf ok])
    then show ?thesis
      unfolding sweep_one_def using False void by (auto elim!: wp_mono)
  qed
qed

lemma quiet_sweep_all:
  assumes "quiet V e" "admitted cf" "inv_ok (w_inv w)" "\<And>p. p \<in> set ps \<Longrightarrow> sweepable V p w"
  shows "wp (foreach (sweep_one (world_clients cf)) ps) (\<lambda>r w' _. r = Inr () \<and>
     orders (sys_orders w') = fold (clear_row (now e)) ps (orders (sys_orders w))) w e"
  using assms
proof (induction ps arbitrary: w e)
  case Nil
  then show ?case by simp
next
  case (Cons p ps)
  show ?case
    unfolding foreach.simps wp_bnd
  proof (rule quiet_sweep_one [OF Cons.prems(1-3)], goal_cases)
    case 1
    show ?case using Cons.prems(4) by simp
  next
    case (2 w' e')
    then have "wp (foreach (sweep_one (world_clients cf)) ps) (\<lambda>r w'' _. r = Inr () \<and>
        orders (sys_orders w'') = fold (clear_row (now e')) ps (orders (sys_orders w'))) w' e'"
      using Cons.prems by (intro Cons.IH) auto
    then show ?case using 2 by (auto elim!: wp_mono)
  qed
qed

text \<open>A row the loop has passed stays cleared.\<close>

definition settled_row :: "pending_compensation \<Rightarrow> order_row \<Rightarrow> bool" where
  "settled_row p r \<longleftrightarrow> (pc_ReservationID p \<noteq> '''' \<longrightarrow> or_released r \<noteq> None) \<and> (pc_PaymentID p \<noteq> '''' \<longrightarrow> or_voided r \<noteq> None)"

lemma clear_row_settled:
  assumes "r' \<in> set (fold (clear_row t) ps rs)"
  shows "\<exists>r\<in>set rs. or_id r' = or_id r \<and> or_reservation_id r' = or_reservation_id r \<and> or_payment_id r' = or_payment_id r \<and>
    (or_released r \<noteq> None \<longrightarrow> or_released r' \<noteq> None) \<and> (or_voided r \<noteq> None \<longrightarrow> or_voided r' \<noteq> None) \<and>
    (\<forall>p\<in>set ps. pc_OrderID p = or_id r \<longrightarrow> settled_row p r')"
  using assms
proof (induction ps arbitrary: rs)
  case Nil
  then show ?case by auto
next
  case (Cons p ps)
  from Cons.IH [of "clear_row t p rs"] Cons.prems
  obtain r1 where r1: "r1 \<in> set (clear_row t p rs)" "or_id r' = or_id r1" "or_reservation_id r' = or_reservation_id r1"
      "or_payment_id r' = or_payment_id r1" "or_released r1 \<noteq> None \<longrightarrow> or_released r' \<noteq> None"
      "or_voided r1 \<noteq> None \<longrightarrow> or_voided r' \<noteq> None" "\<forall>q\<in>set ps. pc_OrderID q = or_id r1 \<longrightarrow> settled_row q r'"
    by auto
  then obtain r where "r \<in> set rs" "r1 = (if or_id r = pc_OrderID p then cleared t p r else r)"
    by (auto simp: clear_row_def in_upd_rows)
  then show ?case
    using r1(2-7) by (intro bexI [of _ r]) (auto simp: cleared_def settled_row_def split: if_splits)
qed

lemma fold_clear_row_ids: "or_id ` set (fold (clear_row t) ps rs) = or_id ` set rs"
proof (induction ps arbitrary: rs)
  case (Cons p ps)
  have "or_id ` set (clear_row t p rs) = or_id ` set rs"
    unfolding clear_row_def by (rule image_upd_rows) (simp add: cleared_def)
  with Cons show ?case by simp
qed simp


lemma cancelled_world_ok: "inv_ok (w_inv cancelled_world)"
  by code_simp


end
