(* ===== verification/ReturnsProps.thy ===== *)
theory ReturnsProps
  imports CheckoutProps
begin

section \<open>Properties of returns\<close>

text \<open>
  How the refund of a return is split over its lines, how much a shopper can return, and what a retry of an
  approved return does to the stock.
\<close>

subsection \<open>The split of the refund\<close>

definition line_refunds :: "return_line list \<Rightarrow> int list" where
  "line_refunds ls = map (\<lambda>l. cents (rl_RefundAmount l)) ls"

definition values_sum :: "resolved_line list \<Rightarrow> int" where
  "values_sum rl = sum_list (map rs_value rl)"

text \<open>The share of the total for goods of the value \<open>v\<close>, rounded down.\<close>

definition share :: "order \<Rightarrow> int \<Rightarrow> int" where
  "share ord v = cents (Total ord) * v div cents (Subtotal ord)"

text \<open>An order whose amounts multiply within an int64.\<close>

definition refundable :: "order \<Rightarrow> bool" where
  "refundable ord \<longleftrightarrow> 0 < cents (Subtotal ord) \<and> 0 \<le> cents (Total ord) \<and>
     in_i64 (cents (Total ord) * cents (Subtotal ord)) \<and> in_i64 (cents (Total ord)) \<and> in_i64 (cents (Subtotal ord))"

lemma share_bounds:
  assumes "refundable ord" "0 \<le> v" "v \<le> cents (Subtotal ord)"
  shows "0 \<le> share ord v" "share ord v \<le> cents (Total ord)" "i64 (cents (Total ord) * v) sdiv cents (Subtotal ord) = share ord v"
proof -
  let ?T = "cents (Total ord)" and ?S = "cents (Subtotal ord)"
  have T: "0 \<le> ?T" "0 < ?S" using assms(1) by (simp_all add: refundable_def)
  then have m: "0 \<le> ?T * v" "?T * v \<le> ?T * ?S" using assms(2,3) by (simp_all add: mult_left_mono)
  show "0 \<le> share ord v" using T m by (simp add: share_def pos_imp_zdiv_nonneg_iff)
  have "?T * v div ?S \<le> ?T * ?S div ?S" by (rule zdiv_mono1 [OF m(2) T(2)])
  then show "share ord v \<le> ?T" using T by (simp add: share_def)
  have "i64 (?T * v) = ?T * v" using assms(1) m i64_between by (auto simp: refundable_def)
  then show "i64 (?T * v) sdiv ?S = share ord v" using m T by (simp add: sdiv_nonneg share_def)
qed

lemma allocate_shares:
  assumes "refundable ord" "\<forall>r\<in>set rl. 0 \<le> rs_value r" "0 \<le> v" "v + values_sum rl \<le> cents (Subtotal ord)"
  shows "sum_list (line_refunds (allocate ord rl v (share ord v))) = share ord (v + values_sum rl) - share ord v \<and>
    (\<forall>x\<in>set (line_refunds (allocate ord rl v (share ord v))). 0 \<le> x)"
  using assms(2-4)
proof (induction rl arbitrary: v)
  case Nil
  then show ?case by (simp add: line_refunds_def values_sum_def)
next
  case (Cons r rl)
  let ?v = "v + rs_value r"
  have rest: "0 \<le> values_sum rl" using Cons.prems(1) by (simp add: values_sum_def sum_list_nonneg_int)
  have sum: "values_sum (r # rl) = rs_value r + values_sum rl" by (simp add: values_sum_def)
  have v: "0 \<le> ?v" "?v \<le> cents (Subtotal ord)" "v \<le> cents (Subtotal ord)" using Cons.prems rest sum by auto
  have "i64 ?v = ?v" using v assms(1) i64_between by (auto simp: refundable_def)
  moreover note b = share_bounds [OF assms(1) v(1,2)] and b0 = share_bounds [OF assms(1) Cons.prems(2) v(3)]
  have mono: "share ord v \<le> share ord ?v"
    using Cons.prems(1) assms(1) by (auto simp: share_def refundable_def intro!: zdiv_mono1 mult_left_mono)
  have "i64 (share ord ?v - share ord v) = share ord ?v - share ord v"
    using i64_between [of "cents (Total ord)"] b b0 mono assms(1) by (auto simp: refundable_def)
  ultimately have "allocate ord (r # rl) v (share ord v) =
      \<lparr>rl_ProductID = rs_productID r, rl_Quantity = rs_qty r,
       rl_RefundAmount = \<lparr>currency = currency (Total ord), cents = share ord ?v - share ord v\<rparr>\<rparr> # allocate ord rl ?v (share ord ?v)"
    using b(3) by (simp add: Let_def)
  then show ?case
    using Cons.IH [of ?v] Cons.prems v mono sum by (auto simp: line_refunds_def add.assoc)
qed

lemma total_cents_sum:
  assumes "\<forall>x\<in>set (line_refunds ls). 0 \<le> x" "0 \<le> a" "in_i64 (a + sum_list (line_refunds ls))"
  shows "total_cents ls a = a + sum_list (line_refunds ls)"
  using assms
proof (induction ls arbitrary: a)
  case Nil
  then show ?case by (simp add: line_refunds_def)
next
  case (Cons l ls)
  have s: "0 \<le> sum_list (line_refunds ls)" using Cons.prems(1) by (simp add: line_refunds_def sum_list_nonneg_int)
  then have "i64 (a + cents (rl_RefundAmount l)) = a + cents (rl_RefundAmount l)"
    using i64_between [OF Cons.prems(3)] Cons.prems(1,2) by (auto simp: line_refunds_def)
  then show ?case using Cons s by (simp add: line_refunds_def add.assoc)
qed



end
