(* ===== verification/Fulfillment.thy ===== *)
theory Fulfillment
  imports OrderStore Auth
begin

section \<open>The fulfillment service (services/fulfillment)\<close>

text \<open>
  Shipments: the aggregate and its state machine (internal/domain), the store (internal/store), the consumer
  that turns a confirmed order into one shipment per shop (internal/consumer), the sandbox carrier that moves
  shipments on (internal/carrier), and the handlers (internal/grpcsvc).  The two JSONB columns hold the address and the items
  themselves; the \<open>updated_at\<close> column is never read and is left out.
\<close>

subsection \<open>The aggregate\<close>

datatype ship_status = StatusPending | StatusShipped | StatusDelivered | StatusCancelled

definition ship_status_str :: "ship_status \<Rightarrow> string" where
  "ship_status_str s = (case s of StatusPending \<Rightarrow> ''PENDING'' | StatusShipped \<Rightarrow> ''SHIPPED''
     | StatusDelivered \<Rightarrow> ''DELIVERED'' | StatusCancelled \<Rightarrow> ''CANCELLED'')"

record ship_item =
  it_ProductID :: string
  it_Title :: string
  it_Quantity :: int32

record shipment =
  sh_ID :: string
  sh_OrderID :: string
  sh_OwnerID :: string
  sh_Status :: ship_status
  sh_Carrier :: string
  sh_TrackingNumber :: string
  sh_ShipTo :: address
  sh_Items :: "ship_item list"
  sh_CreatedAt :: int
  sh_ShippedAt :: "int option"
  sh_DeliveredAt :: "int option"
  sh_CancelReason :: string
  sh_ShopID :: string

definition ship_CanTransitionTo :: "shipment \<Rightarrow> ship_status \<Rightarrow> bool" where
  "ship_CanTransitionTo s to = (case sh_Status s of
       StatusPending \<Rightarrow> to = StatusShipped \<or> to = StatusCancelled
     | StatusShipped \<Rightarrow> to = StatusDelivered \<or> to = StatusCancelled
     | _ \<Rightarrow> False)"

definition bad_ship_transition :: go_err where
  "bad_ship_transition = errs_New KindFailedPrecondition ''BAD_TRANSITION''"

definition MarkShipped :: "string \<Rightarrow> string \<Rightarrow> shipment \<Rightarrow> shipment res" where
  "MarkShipped carrier tracking s =
     (if sh_Status s = StatusShipped then Inr s
      else if \<not> ship_CanTransitionTo s StatusShipped then Inl bad_ship_transition
      else Inr (s\<lparr>sh_Status := StatusShipped,
                  sh_Carrier := (if carrier \<noteq> '''' then carrier else sh_Carrier s),
                  sh_TrackingNumber := (if tracking \<noteq> '''' then tracking else sh_TrackingNumber s)\<rparr>))"

definition MarkDelivered :: "shipment \<Rightarrow> shipment res" where
  "MarkDelivered s =
     (if sh_Status s = StatusDelivered then Inr s
      else if \<not> ship_CanTransitionTo s StatusDelivered then Inl bad_ship_transition
      else Inr (s\<lparr>sh_Status := StatusDelivered\<rparr>))"

definition ship_Cancel :: "string \<Rightarrow> shipment \<Rightarrow> shipment res" where
  "ship_Cancel reason s =
     (if sh_Status s = StatusCancelled then Inr s
      else if \<not> ship_CanTransitionTo s StatusCancelled then Inl bad_ship_transition
      else Inr (s\<lparr>sh_Status := StatusCancelled, sh_CancelReason := reason\<rparr>))"

subsection \<open>Store\<close>

datatype ship_event =
    ShipmentCreated string string string string int
  | ShipmentShipped string string string string string string int
  | ShipmentDelivered string string string string int
  | ShipmentCancelled string string string string string int

record ship_db =
  shipments :: "shipment list"
  s_processed :: "string list"
  sox :: "ship_event outbox"

definition empty_ship_db :: ship_db where
  "empty_ship_db = \<lparr>shipments = [], s_processed = [], sox = empty_outbox\<rparr>"

record shop_items =
  si_ShopID :: string
  si_Items :: "ship_item list"

definition errNoShipment :: go_err where
  "errNoShipment = errs_New KindNotFound ''SHIPMENT_NOT_FOUND''"

definition find_shipment :: "string \<Rightarrow> ship_db \<Rightarrow> shipment option" where
  "find_shipment sid d = List.find (\<lambda>s. sh_ID s = sid) (shipments d)"

text \<open>\<open>scanOne\<close> by id.\<close>

definition ship_scanOne :: "string \<Rightarrow> (ship_db, shipment) prog" where
  "ship_scanOne sid = or_not_found errNoShipment (by_uuid sid (find_shipment sid))"

definition ship_emit :: "string \<Rightarrow> string \<Rightarrow> (int \<Rightarrow> ship_event) \<Rightarrow> (ship_db, unit) prog" where
  "ship_emit topic key ev = map_err wrap (exec (\<lambda>t d. d\<lparr>sox := outbox_add topic key (ev t) t (sox d)\<rparr>))"

text \<open>\<open>INSERT ... ON CONFLICT (order_id, shop_id) DO NOTHING RETURNING id\<close>.\<close>

definition new_shipment :: "string \<Rightarrow> string \<Rightarrow> address \<Rightarrow> shop_items \<Rightarrow> string \<Rightarrow> int \<Rightarrow> shipment" where
  "new_shipment orderID ownerID shipTo g sid t =
     \<lparr>sh_ID = sid, sh_OrderID = orderID, sh_OwnerID = ownerID, sh_Status = StatusPending, sh_Carrier = '''',
      sh_TrackingNumber = '''', sh_ShipTo = shipTo, sh_Items = si_Items g, sh_CreatedAt = t, sh_ShippedAt = None,
      sh_DeliveredAt = None, sh_CancelReason = '''', sh_ShopID = si_ShopID g\<rparr>"

definition ins_shipment :: "string \<Rightarrow> string \<Rightarrow> address \<Rightarrow> shop_items \<Rightarrow> (ship_db, string) prog" where
  "ins_shipment orderID ownerID shipTo g =
     bnd new_uuid (\<lambda>sid.
     exec_chk (\<lambda>t d.
       if (orderID, si_ShopID g) \<in> (\<lambda>s. (sh_OrderID s, sh_ShopID s)) ` set (shipments d) then Inl NoRows
       else if sid \<in> sh_ID ` set (shipments d) then Inl uniqueViolation
       else Inr (sid, d\<lparr>shipments := shipments d @ [new_shipment orderID ownerID shipTo g sid t]\<rparr>)))"

definition created_event :: "shipment \<Rightarrow> int \<Rightarrow> ship_event" where
  "created_event sh = ShipmentCreated (sh_ID sh) (sh_OrderID sh) (sh_OwnerID sh) (sh_ShopID sh)"

fun create_groups :: "string \<Rightarrow> string \<Rightarrow> address \<Rightarrow> shop_items list \<Rightarrow> (ship_db, shipment list) prog" where
  "create_groups orderID ownerID shipTo [] = ret []"
| "create_groups orderID ownerID shipTo (g # gs) =
     bnd (attempt (ins_shipment orderID ownerID shipTo g)) (\<lambda>r. case r of
       Inl err \<Rightarrow> if err = NoRows then create_groups orderID ownerID shipTo gs else fail (wrap err)
     | Inr sid \<Rightarrow>
         bnd (ship_scanOne sid) (\<lambda>sh.
         bnd (ship_emit ''commerce.fulfillment.shipment_created'' (sh_OrderID sh) (created_event sh)) (\<lambda>_.
         bnd (create_groups orderID ownerID shipTo gs) (\<lambda>shs.
         ret (sh # shs)))))"

definition CreateFromOrder ::
  "string \<Rightarrow> string \<Rightarrow> address \<Rightarrow> shop_items list \<Rightarrow> string \<Rightarrow> (ship_db, shipment list) prog" where
  "CreateFromOrder orderID ownerID shipTo groups eventID =
     dedup_tx (ins_event s_processed s_processed_update) [] eventID
       (bnd (create_groups orderID ownerID shipTo groups) (\<lambda>created. ret (Commit created)))"

definition ship_Get :: "string \<Rightarrow> string \<Rightarrow> (ship_db, shipment) prog" where
  "ship_Get sid ownerID =
     bnd (ship_scanOne sid) (\<lambda>sh.
     if ownerID \<noteq> '''' \<and> sh_OwnerID sh \<noteq> ownerID then fail errNoShipment else ret sh)"

definition select_shipments :: "string \<Rightarrow> string \<Rightarrow> string \<Rightarrow> int \<Rightarrow> ship_db \<Rightarrow> shipment list" where
  "select_shipments ownerID orderID st cursor d = newest_first sh_CreatedAt
     (filter (\<lambda>s. sh_CreatedAt s < cursor \<and> (ownerID = '''' \<or> sh_OwnerID s = ownerID) \<and>
        (orderID = '''' \<or> sh_OrderID s = orderID) \<and> (st = '''' \<or> ship_status_str (sh_Status s) = st)) (shipments d))"

definition ship_List ::
  "string \<Rightarrow> string \<Rightarrow> string \<Rightarrow> int \<Rightarrow> string \<Rightarrow> (ship_db, shipment list \<times> string) prog" where
  "ship_List ownerID orderID st limit0 before =
     (let limit = limit_or 50 limit0 in
      bnd (asks (\<lambda>e. cursor_of e before)) (\<lambda>cursor.
      bnd (map_err wrap (query (\<lambda>_ d. take (Suc limit) (select_shipments ownerID orderID st cursor d)))) (\<lambda>out.
      bnd (asks fmt_time) (\<lambda>fmt.
      ret (page_of limit sh_CreatedAt fmt out)))))"

text \<open>What the carrier should move on; the intervals are \<open>pendingAfter\<close> and \<open>shippedAfter\<close>.\<close>

definition due_shipments :: "int \<Rightarrow> int \<Rightarrow> int \<Rightarrow> ship_db \<Rightarrow> shipment list" where
  "due_shipments pendingAfter shippedAfter t d = sort_key sh_CreatedAt (filter (\<lambda>s.
     sh_Status s = StatusPending \<and> sh_CreatedAt s < t - pendingAfter \<or>
     sh_Status s = StatusShipped \<and> (case sh_ShippedAt s of None \<Rightarrow> False | Some u \<Rightarrow> u < t - shippedAfter)) (shipments d))"

definition advance_target :: "shipment \<Rightarrow> string \<times> ship_status" where
  "advance_target s = (sh_ID s, if sh_Status s = StatusPending then StatusShipped else StatusDelivered)"

definition DueForAdvance :: "int \<Rightarrow> int \<Rightarrow> int \<Rightarrow> (ship_db, (string \<times> ship_status) list) prog" where
  "DueForAdvance pendingAfter shippedAfter limit0 =
     (let limit = nat (if limit0 \<le> 0 then 100 else limit0) in
      map_err wrap (query (\<lambda>t d. map advance_target (take limit (due_shipments pendingAfter shippedAfter t d)))))"

definition ship_eventFor :: "shipment \<Rightarrow> int \<Rightarrow> (string \<times> ship_event) option" where
  "ship_eventFor sh t = (case sh_Status sh of
       StatusShipped \<Rightarrow> Some (''commerce.fulfillment.shipped'',
         ShipmentShipped (sh_ID sh) (sh_OrderID sh) (sh_OwnerID sh) (sh_Carrier sh) (sh_TrackingNumber sh) (sh_ShopID sh) t)
     | StatusDelivered \<Rightarrow> Some (''commerce.fulfillment.delivered'',
         ShipmentDelivered (sh_ID sh) (sh_OrderID sh) (sh_OwnerID sh) (sh_ShopID sh) t)
     | StatusCancelled \<Rightarrow> Some (''commerce.fulfillment.cancelled'',
         ShipmentCancelled (sh_ID sh) (sh_OrderID sh) (sh_OwnerID sh) (sh_CancelReason sh) (sh_ShopID sh) t)
     | StatusPending \<Rightarrow> None)"

text \<open>The UPDATE of \<open>Transition\<close>: a first arrival in SHIPPED or DELIVERED is stamped.\<close>

definition put_shipment :: "shipment \<Rightarrow> int \<Rightarrow> shipment \<Rightarrow> shipment" where
  "put_shipment sh t r = r\<lparr>sh_Status := sh_Status sh, sh_Carrier := sh_Carrier sh,
     sh_TrackingNumber := sh_TrackingNumber sh, sh_CancelReason := sh_CancelReason sh,
     sh_ShippedAt := (if sh_Status sh = StatusShipped \<and> sh_ShippedAt r = None then Some t else sh_ShippedAt r),
     sh_DeliveredAt := (if sh_Status sh = StatusDelivered \<and> sh_DeliveredAt r = None then Some t else sh_DeliveredAt r)\<rparr>"

definition update_shipment :: "shipment \<Rightarrow> int \<Rightarrow> ship_db \<Rightarrow> ship_db" where
  "update_shipment sh t d = d\<lparr>shipments := upd_rows (\<lambda>r. sh_ID r = sh_ID sh) (put_shipment sh t) (shipments d)\<rparr>"

definition ship_move :: "ship_status \<Rightarrow> string \<Rightarrow> string \<Rightarrow> string \<Rightarrow> shipment \<Rightarrow> shipment res" where
  "ship_move to carrier tracking reason sh = (case to of
       StatusShipped \<Rightarrow> MarkShipped carrier tracking sh
     | StatusDelivered \<Rightarrow> MarkDelivered sh
     | StatusCancelled \<Rightarrow> ship_Cancel reason sh
     | StatusPending \<Rightarrow> Inl (errs_New KindInvalidArgument ''BAD_TARGET''))"

text \<open>A shipment already in \<open>to\<close> is answered from the transaction, a moved one is read again after it.\<close>

definition ship_Transition ::
  "string \<Rightarrow> ship_status \<Rightarrow> string \<Rightarrow> string \<Rightarrow> string \<Rightarrow> (ship_db, shipment) prog" where
  "ship_Transition sid to carrier tracking reason =
     bnd (in_tx (
       bnd (ship_scanOne sid) (\<lambda>sh.
       if sh_Status sh = to then ret (Abort (Some sh))
       else bnd (lift_res (ship_move to carrier tracking reason sh)) (\<lambda>sh'.
            bnd (map_err wrap (exec (update_shipment sh'))) (\<lambda>_.
            bnd (asks now) (\<lambda>t.
            bnd (case ship_eventFor sh' t of
                   None \<Rightarrow> ret ()
                 | Some (topic, ev) \<Rightarrow> ship_emit topic (sh_OrderID sh') (\<lambda>_. ev)) (\<lambda>_.
            ret (Commit None)))))))) (\<lambda>r. case r of
       Some sh \<Rightarrow> ret sh
     | None \<Rightarrow> ship_Get sid '''')"

subsection \<open>The consumer\<close>

definition ship_item_of :: "order_line_msg \<Rightarrow> ship_item" where
  "ship_item_of l = \<lparr>it_ProductID = m_product_id l, it_Title = m_title l, it_Quantity = m_quantity l\<rparr>"

text \<open>The Go map of the lines by shop, as an association list; its keys are sorted afterwards.\<close>

fun bucket_item :: "string \<Rightarrow> ship_item \<Rightarrow> (string \<times> ship_item list) list \<Rightarrow> (string \<times> ship_item list) list" where
  "bucket_item shop i [] = [(shop, [i])]"
| "bucket_item shop i ((s, is) # m) = (if s = shop then (s, is @ [i]) # m else (s, is) # bucket_item shop i m)"

definition byShop :: "order_line_msg list \<Rightarrow> (string \<times> ship_item list) list" where
  "byShop ls = fold (\<lambda>l. bucket_item (m_shop_id l) (ship_item_of l)) ls []"

definition groupsFrom :: "order_line_msg list \<Rightarrow> shop_items list" where
  "groupsFrom ls = map (\<lambda>i. \<lparr>si_ShopID = i, si_Items = (case map_of (byShop ls) i of None \<Rightarrow> [] | Some is \<Rightarrow> is)\<rparr>)
     (sort (map fst (byShop ls)))"

definition ship_Handler :: "order_event option krecord \<Rightarrow> (ship_db, unit) prog" where
  "ship_Handler r =
     (if kr_topic r \<noteq> ''commerce.order.confirmed'' then ret ()
      else case kr_value r of
        Some (OrderConfirmed oid owner pid shipTo ls t) \<Rightarrow>
          discard (CreateFromOrder oid owner shipTo (groupsFrom ls)
            (event_id r))
      | _ \<Rightarrow> ret ())"

subsection \<open>The sandbox carrier\<close>

definition advance :: "string \<times> ship_status \<Rightarrow> (ship_db, unit) prog" where
  "advance x = (case x of (sid, to) \<Rightarrow>
     discard (attempt (ship_Transition sid to (if to = StatusShipped then ''SANDBOX'' else '''')
       (if to = StatusShipped then ''TRK-'' @ sid else '''') '''')))"

definition carrier_sweep :: "int \<Rightarrow> int \<Rightarrow> (ship_db, unit) prog" where
  "carrier_sweep pendingAfter shippedAfter =
     bnd (attempt (DueForAdvance pendingAfter shippedAfter 100)) (\<lambda>q. case q of
       Inl _ \<Rightarrow> ret ()
     | Inr due \<Rightarrow> foreach advance due)"

subsection \<open>Handlers\<close>

definition roleOrderManager :: string where "roleOrderManager = ''order_manager''"

definition GetShipment :: "caller \<Rightarrow> string \<Rightarrow> (ship_db, shipment) prog" where
  "GetShipment c sid = (case c of
       None \<Rightarrow> fail not_authenticated
     | Some p \<Rightarrow> ship_Get sid (if HasRole p roleOrderManager then '''' else Subject p))"

definition ListShipments ::
  "caller \<Rightarrow> string \<Rightarrow> string \<Rightarrow> int \<Rightarrow> string \<Rightarrow> (ship_db, shipment list \<times> string) prog" where
  "ListShipments c orderID st pageSize token = (case c of
       None \<Rightarrow> fail not_authenticated
     | Some p \<Rightarrow> if HasRole p roleOrderManager then ship_List '''' orderID st pageSize token
                 else ship_List (Subject p) orderID '''' pageSize token)"

definition srv_MarkShipped :: "caller \<Rightarrow> string \<Rightarrow> string \<Rightarrow> string \<Rightarrow> (ship_db, shipment) prog" where
  "srv_MarkShipped c sid carrier tracking =
     bnd (lift_res (RequireRole c roleOrderManager)) (\<lambda>_.
     ship_Transition sid StatusShipped (if carrier = '''' then ''SANDBOX'' else carrier)
       (if tracking = '''' then ''TRK-'' @ sid else tracking) '''')"

definition srv_MarkDelivered :: "caller \<Rightarrow> string \<Rightarrow> (ship_db, shipment) prog" where
  "srv_MarkDelivered c sid =
     bnd (lift_res (RequireRole c roleOrderManager)) (\<lambda>_.
     ship_Transition sid StatusDelivered '''' '''' '''')"

definition CancelShipment :: "caller \<Rightarrow> string \<Rightarrow> string \<Rightarrow> (ship_db, shipment) prog" where
  "CancelShipment c sid reason =
     bnd (lift_res (RequireRole c roleOrderManager)) (\<lambda>_.
     ship_Transition sid StatusCancelled '''' ''''
       (if reason = '''' then ''CANCELLED_BY_OPERATOR'' else reason))"

end
