(* ===== verification/FulfillmentSpec.thy ===== *)
theory FulfillmentSpec
  imports Fulfillment History Quiet
begin

section \<open>The shipments as a machine\<close>

text \<open>
  The changes the fulfillment store may make (\<open>ship_effect\<close>), that every operation of it is a sequence
  of such changes under any faults, and the invariant they keep: one shipment per order and shop, an outbox that
  tells the history of each shipment, and timestamps that agree with its status.
\<close>

subsection \<open>The state machine of a shipment\<close>

inductive ship_allowed :: "ship_status \<Rightarrow> ship_status \<Rightarrow> bool" where
  "ship_allowed StatusPending StatusShipped"
| "ship_allowed StatusPending StatusCancelled"
| "ship_allowed StatusShipped StatusDelivered"
| "ship_allowed StatusShipped StatusCancelled"

code_pred ship_allowed .

inductive_simps ship_allowed_simps [simp]:
  "ship_allowed StatusPending t" "ship_allowed StatusShipped t" "ship_allowed StatusDelivered t"
  "ship_allowed StatusCancelled t" "ship_allowed s StatusPending"

lemma ship_CanTransitionTo_iff: "ship_CanTransitionTo s to \<longleftrightarrow> ship_allowed (sh_Status s) to"
  by (cases "sh_Status s") (auto simp: ship_CanTransitionTo_def)

lemmas ship_moves = MarkShipped_def MarkDelivered_def ship_Cancel_def ship_CanTransitionTo_iff

text \<open>A successful move follows an edge and touches nothing but the status and its notes.\<close>

lemma ship_move_Inr:
  assumes "ship_move to c tr rs s = Inr s'" "sh_Status s \<noteq> to"
  shows "ship_allowed (sh_Status s) to \<and>
    (\<exists>c tr rs. s' = s\<lparr>sh_Status := to, sh_Carrier := c, sh_TrackingNumber := tr, sh_CancelReason := rs\<rparr>)"
proof (cases s)
  case (fields i oid own st ca tn ad its cr sa da re shop)
  then show ?thesis
    using assms by (cases to) (auto simp: ship_move_def ship_moves split: if_splits)
qed

subsection \<open>Effects\<close>

definition ship_key :: "shipment \<Rightarrow> string \<times> string" where
  "ship_key s = (sh_OrderID s, sh_ShopID s)"

definition with_shipment :: "shipment \<Rightarrow> int \<Rightarrow> ship_db \<Rightarrow> ship_db" where
  "with_shipment s t d = d\<lparr>shipments := shipments d @ [s],
     sox := outbox_add ''commerce.fulfillment.shipment_created'' (sh_OrderID s) (created_event s t) t (sox d)\<rparr>"

definition moved_shipment :: "shipment \<Rightarrow> int \<Rightarrow> ship_db \<Rightarrow> ship_db" where
  "moved_shipment s t d = (case ship_eventFor s t of
       None \<Rightarrow> update_shipment s t d
     | Some (topic, ev) \<Rightarrow> (update_shipment s t d)\<lparr>sox := outbox_add topic (sh_OrderID s) ev t (sox d)\<rparr>)"

inductive ship_effect :: "ship_db \<Rightarrow> ship_db \<Rightarrow> bool" where
  noted: "\<not> seen_event s_processed ev d \<Longrightarrow> ship_effect d (note_event s_processed_update ev d)"
| create: "s = new_shipment oid own addr g sid t \<Longrightarrow> ship_key s \<notin> ship_key ` set (shipments d) \<Longrightarrow>
    sid \<notin> sh_ID ` set (shipments d) \<Longrightarrow> ship_effect d (with_shipment s t d)"
| move: "find_shipment sid d = Some s \<Longrightarrow> ship_allowed (sh_Status s) to \<Longrightarrow>
    s' = s\<lparr>sh_Status := to, sh_Carrier := c, sh_TrackingNumber := tr, sh_CancelReason := rs\<rparr> \<Longrightarrow>
    ship_effect d (moved_shipment s' t d)"

abbreviation ship_effects :: "ship_db \<Rightarrow> ship_db \<Rightarrow> bool" where
  "ship_effects \<equiv> ship_effect\<^sup>*\<^sup>*"

lemma find_shipment_id: "find_shipment sid d = Some s \<Longrightarrow> sh_ID s = sid \<and> s \<in> set (shipments d)"
  by (auto simp: find_shipment_def dest: find_in_set)

lemma wp_ship_scanOneI:
  assumes "\<And>x fs. Q (Inl x) d (e\<lparr>faults := fs\<rparr>)" "\<And>s fs. find_shipment sid d = Some s \<Longrightarrow> Q (Inr s) d (e\<lparr>faults := fs\<rparr>)"
  shows "wp (ship_scanOne sid) Q d e"
  using assms unfolding ship_scanOne_def by (auto intro!: wp_or_not_foundI wp_by_uuidI)

lemma wp_ship_emitI:
  assumes "\<And>x d' fs. Q (Inl x) d' (e\<lparr>faults := fs\<rparr>)"
    and "\<And>fs. Q (Inr ()) (d\<lparr>sox := outbox_add topic key (ev (now e)) (now e) (sox d)\<rparr>) (e\<lparr>faults := fs\<rparr>)"
  shows "wp (ship_emit topic key ev) Q d e"
  using assms by (auto simp: ship_emit_def intro!: wp_execI)

lemma find_new_shipment:
  "sid \<notin> sh_ID ` set (shipments d) \<Longrightarrow> sh_ID s = sid \<Longrightarrow>
   find_shipment sid (d\<lparr>shipments := shipments d @ [s]\<rparr>) = Some s"
  using find_key_None [of sh_ID sid "shipments d"] by (simp add: find_shipment_def find_append)

text \<open>The loop over the groups of one order.\<close>

definition creates :: "string \<Rightarrow> shop_items list \<Rightarrow> ship_db \<Rightarrow> shipment list \<Rightarrow> ship_db \<Rightarrow> bool" where
  "creates oid gs d new d' \<longleftrightarrow> ship_effects d d' \<and> shipments d' = shipments d @ new \<and>
     (\<forall>s\<in>set new. \<exists>g\<in>set gs. ship_key s = (oid, si_ShopID g) \<and> sh_Items s = si_Items g) \<and>
     (\<forall>g\<in>set gs. (oid, si_ShopID g) \<in> ship_key ` set (shipments d'))"

lemma creates_skip:
  assumes "creates oid gs d new d'" "(oid, si_ShopID g) \<in> ship_key ` set (shipments d)"
  shows "creates oid (g # gs) d new d'"
  using assms by (auto simp: creates_def)

lemma creates_more:
  assumes "creates oid gs (with_shipment s t d) new d'" "ship_effect d (with_shipment s t d)"
    and "ship_key s = (oid, si_ShopID g)" "sh_Items s = si_Items g"
  shows "creates oid (g # gs) d (s # new) d'"
proof -
  have "shipments d' = shipments d @ s # new" using assms(1) by (simp add: creates_def with_shipment_def)
  then show ?thesis
    using assms converse_rtranclp_into_rtranclp [of ship_effect, OF assms(2)] by (auto simp: creates_def)
qed

lemma wp_create_groups:
  "wp (create_groups oid own addr gs) (\<lambda>r d' _. \<forall>new. r = Inr new \<longrightarrow> creates oid gs d new d') d e"
proof (induction gs arbitrary: d e)
  case Nil
  show ?case by (simp add: creates_def)
next
  case (Cons g gs d e)
  let ?s = "\<lambda>sid. new_shipment oid own addr g sid (now e)"
  have key: "ship_key (?s sid) = (oid, si_ShopID g)" "sh_Items (?s sid) = si_Items g" "sh_ID (?s sid) = sid"
    "sh_OrderID (?s sid) = oid" for sid
    by (simp_all add: ship_key_def new_shipment_def)
  have skip: "wp (create_groups oid own addr gs) (\<lambda>r d' _. \<forall>new. r = Inr new \<longrightarrow> creates oid (g # gs) d new d') d e'"
    if "(oid, si_ShopID g) \<in> ship_key ` set (shipments d)" for e'
    by (rule wp_mono [OF Cons.IH]) (use that creates_skip in blast)
  have more: "wp (create_groups oid own addr gs)
      (\<lambda>r d' _. \<forall>new. r = Inr new \<longrightarrow> creates oid (g # gs) d (?s sid # new) d') (with_shipment (?s sid) (now e) d) e'"
    if "(oid, si_ShopID g) \<notin> ship_key ` set (shipments d)" "sid \<notin> sh_ID ` set (shipments d)" for e' sid
  proof -
    have "ship_effect d (with_shipment (?s sid) (now e) d)"
      by (rule ship_effect.create [OF refl]) (use that key in auto)
    from creates_more [OF _ this key(1,2)] show ?thesis by (intro wp_mono [OF Cons.IH]) blast
  qed
  have keys: "(\<lambda>s. (sh_OrderID s, sh_ShopID s)) = ship_key" by (simp add: fun_eq_iff ship_key_def)
  have step: "wp (create_groups oid own addr gs) (\<lambda>r d' e'. case r of
        Inl x \<Rightarrow> \<forall>new. Inl x = Inr new \<longrightarrow> creates oid (g # gs) d new d'
      | Inr a \<Rightarrow> wp (ret (s # a)) (\<lambda>r d' _. \<forall>new. r = Inr new \<longrightarrow> creates oid (g # gs) d new d') d' e')
      (d\<lparr>shipments := shipments d @ [?s sid], sox := outbox_add ''commerce.fulfillment.shipment_created''
         (sh_OrderID s) (created_event s (now e)) (now e) (sox d)\<rparr>) e'"
    if new: "(oid, si_ShopID g) \<notin> ship_key ` set (shipments d)" "sid \<notin> sh_ID ` set (shipments d)"
      and s: "find_shipment sid (d\<lparr>shipments := shipments d @ [?s sid]\<rparr>) = Some s" for s sid e'
  proof -
    have s': "s = ?s sid" using s find_new_shipment [OF new(2) key(3)] by simp
    show ?thesis
      unfolding s' by (rule wp_mono [OF more [OF new, of e', unfolded with_shipment_def]]) (auto split: sum.split)
  qed
  show ?case
    unfolding create_groups.simps ins_shipment_def keys
    by (auto intro!: wp_exec_chkI wp_ship_scanOneI wp_ship_emitI skip step simp: uniqueViolation_def split: if_splits)
qed

text \<open>A transaction that created shipments under an event it had not seen.\<close>

lemma wp_CreateFromOrderI:
  assumes "\<And>x d' n fs. ship_effects d d' \<Longrightarrow> Q (Inl x) d' (e\<lparr>drawn := n, faults := fs\<rparr>)"
    and "\<And>fs. seen_event s_processed ev d \<Longrightarrow> Q (Inr []) d (e\<lparr>faults := fs\<rparr>)"
    and "\<And>new d' n fs. \<not> seen_event s_processed ev d \<Longrightarrow>
      creates oid gs (note_event s_processed_update ev d) new d' \<Longrightarrow> Q (Inr new) d' (e\<lparr>drawn := n, faults := fs\<rparr>)"
  shows "wp (CreateFromOrder oid own addr gs ev) Q d e"
proof -
  have "tame (create_groups oid own addr gs)" for gs
    by (induction gs) (auto simp: ins_shipment_def ship_scanOne_def or_not_found_def by_uuid_def ship_emit_def
      intro!: tame_intros)
  moreover have "ship_effects d d'" if "\<not> seen_event s_processed ev d" "creates oid gs (note_event s_processed_update ev d) new d'" for new d'
    using that ship_effect.noted by (meson converse_rtranclp_into_rtranclp creates_def)
  ultimately show ?thesis
    unfolding CreateFromOrder_def
    by (intro wp_dedup_resultI [where R = "creates oid gs"] wp_create_groups) (use assms in auto)
qed

lemma wp_ship_eventI:
  assumes "t = now e" "\<And>x d' fs. Q (Inl x) d' (e\<lparr>faults := fs\<rparr>)"
    "\<And>fs. Q (Inr ()) (moved_shipment s t d) (e\<lparr>faults := fs\<rparr>)"
  shows "wp (case ship_eventFor s t of None \<Rightarrow> ret () | Some (topic, ev) \<Rightarrow> ship_emit topic (sh_OrderID s) (\<lambda>_. ev))
    Q (update_shipment s t d) e"
  using assms assms(3) [of "faults e"]
  by (auto simp: moved_shipment_def update_shipment_def intro!: wp_ship_emitI split: option.splits)

text \<open>What \<open>Transition\<close> can leave: nothing, or one move.\<close>

lemma wp_ship_TransitionI:
  assumes err: "\<And>x fs. Q (Inl x) d (e\<lparr>faults := fs\<rparr>)"
    and same: "\<And>s fs. find_shipment sid d = Some s \<Longrightarrow> sh_Status s = to \<Longrightarrow> Q (Inr s) d (e\<lparr>faults := fs\<rparr>)"
    and lost: "\<And>s s' x fs. find_shipment sid d = Some s \<Longrightarrow> sh_Status s \<noteq> to \<Longrightarrow>
      ship_move to carrier tracking reason s = Inr s' \<Longrightarrow> Q (Inl x) (moved_shipment s' (now e) d) (e\<lparr>faults := fs\<rparr>)"
    and move: "\<And>s s' s'' fs. find_shipment sid d = Some s \<Longrightarrow> sh_Status s \<noteq> to \<Longrightarrow>
      ship_move to carrier tracking reason s = Inr s' \<Longrightarrow>
      find_shipment sid (moved_shipment s' (now e) d) = Some s'' \<Longrightarrow>
      Q (Inr s'') (moved_shipment s' (now e) d) (e\<lparr>faults := fs\<rparr>)"
  shows "wp (ship_Transition sid to carrier tracking reason) Q d e"
  unfolding ship_Transition_def ship_Get_def
  by (auto intro!: wp_in_txI wp_ship_scanOneI wp_execI wp_ship_eventI simp: err same lost move split: sum.splits)

lemma move_effect:
  assumes "find_shipment sid d = Some s" "sh_Status s \<noteq> to" "ship_move to c tr rs s = Inr s'"
  shows "ship_effect d (moved_shipment s' t d)"
  using ship_move_Inr [OF assms(3,2)] ship_effect.move [OF assms(1)] by blast

subsection \<open>The machine\<close>

datatype ship_op =
    ShipCreate string string address "shop_items list" string
  | ShipMove string ship_status string string string
  | ShipSweep int int

fun ship_prog :: "ship_op \<Rightarrow> (ship_db, unit) prog" where
  "ship_prog (ShipCreate oid own addr gs ev) = discard (CreateFromOrder oid own addr gs ev)"
| "ship_prog (ShipMove sid to c tr rs) = discard (ship_Transition sid to c tr rs)"
| "ship_prog (ShipSweep pa sa) = carrier_sweep pa sa"

definition ship_step :: "ship_op \<Rightarrow> env \<Rightarrow> ship_db \<Rightarrow> ship_db" where
  "ship_step op = after (ship_prog op)"

lemma then_move:
  "ship_effects s d \<Longrightarrow> find_shipment sid d = Some x \<Longrightarrow> sh_Status x \<noteq> to \<Longrightarrow> ship_move to c tr rs x = Inr x' \<Longrightarrow>
   ship_effects s (moved_shipment x' t d)"
  using move_effect by (meson rtranclp.rtrancl_into_rtrancl)

lemma noted_then: "\<not> seen_event s_processed ev d \<Longrightarrow> ship_effects (note_event s_processed_update ev d) d' \<Longrightarrow> ship_effects d d'"
  using ship_effect.noted by (meson converse_rtranclp_into_rtranclp)

lemma wp_ship_move_effects: "ship_effects s d \<Longrightarrow> wp (ship_Transition sid to c tr rs) (\<lambda>_ d' _. ship_effects s d') d e"
  by (auto intro!: wp_ship_TransitionI intro: then_move)

lemma creates_effects: "creates oid gs d new d' \<Longrightarrow> ship_effects d d'"
  by (simp add: creates_def)

lemma ship_prog_effects: "wp (ship_prog op) (\<lambda>_ d' _. ship_effects d d') d e"
proof (cases op)
  case (ShipCreate oid own addr gs ev)
  then show ?thesis
    by (auto intro!: wp_CreateFromOrderI
        intro: noted_then creates_effects)
next
  case (ShipMove sid to c tr rs)
  then show ?thesis by (simp add: wp_ship_move_effects)
next
  case (ShipSweep pa sa)
  have one: "ship_effects d d1 \<Longrightarrow> wp (advance x) (\<lambda>_ d' _. ship_effects d d') d1 e1" for x d1 e1
    by (cases x) (simp add: advance_def wp_ship_move_effects)
  have "wp (foreach advance xs) (\<lambda>_ d' _. ship_effects d d') d e1" for xs e1
    by (rule wp_foreach_inv) (simp_all add: one)
  then show ?thesis
    using ShipSweep by (auto simp: carrier_sweep_def DueForAdvance_def Let_def intro!: wp_queryI)
qed

end
