(* ===== verification/FulfillmentProps.thy ===== *)
theory FulfillmentProps
  imports FulfillmentSpec Samples
begin

section \<open>Properties of shipments\<close>

text \<open>
  The invariant of the fulfillment store, what a confirmed order turns into, and how the deliveries of its
  shipments fulfil the order.
\<close>

subsection \<open>The invariant\<close>

fun ship_event_status :: "ship_event \<Rightarrow> string \<times> ship_status" where
  "ship_event_status (ShipmentCreated sid _ _ _ _) = (sid, StatusPending)"
| "ship_event_status (ShipmentShipped sid _ _ _ _ _ _) = (sid, StatusShipped)"
| "ship_event_status (ShipmentDelivered sid _ _ _ _) = (sid, StatusDelivered)"
| "ship_event_status (ShipmentCancelled sid _ _ _ _ _) = (sid, StatusCancelled)"

definition ship_log :: "ship_db \<Rightarrow> (string \<times> ship_status) list" where
  "ship_log d = map ship_event_status (events (sox d))"

definition ship_standing :: "ship_db \<Rightarrow> (string \<times> ship_status) list" where
  "ship_standing d = map (\<lambda>s. (sh_ID s, sh_Status s)) (shipments d)"

definition stamps_ok :: "shipment \<Rightarrow> bool" where
  "stamps_ok s \<longleftrightarrow> (case sh_Status s of
       StatusPending \<Rightarrow> sh_ShippedAt s = None \<and> sh_DeliveredAt s = None
     | StatusShipped \<Rightarrow> sh_ShippedAt s \<noteq> None \<and> sh_DeliveredAt s = None
     | StatusDelivered \<Rightarrow> sh_ShippedAt s \<noteq> None \<and> sh_DeliveredAt s \<noteq> None
     | StatusCancelled \<Rightarrow> sh_DeliveredAt s = None)"

text \<open>The delivered event of a shipment carries its order and its shop.\<close>

definition announced :: "ship_event list \<Rightarrow> shipment \<Rightarrow> bool" where
  "announced evs s \<longleftrightarrow> (sh_Status s = StatusDelivered \<longrightarrow>
     (\<exists>own t. ShipmentDelivered (sh_ID s) (sh_OrderID s) own (sh_ShopID s) t \<in> set evs))"

definition ship_inv :: "ship_db \<Rightarrow> bool" where
  "ship_inv d \<longleftrightarrow> outbox_wf (sox d) \<and> distinct (s_processed d) \<and> distinct (map ship_key (shipments d)) \<and>
     log_ok ship_allowed StatusPending (ship_log d) (ship_standing d) \<and>
     (\<forall>s\<in>set (shipments d). stamps_ok s \<and> announced (events (sox d)) s)"

lemma ship_standing_ids [simp]: "fst ` set (ship_standing d) = sh_ID ` set (shipments d)"
  by (force simp: ship_standing_def)

lemma moved_shipment_sel:
  assumes "sh_Status s \<noteq> StatusPending"
  shows "shipments (moved_shipment s t d) = upd_rows (\<lambda>r. sh_ID r = sh_ID s) (put_shipment s t) (shipments d)"
    "\<exists>ev topic. sox (moved_shipment s t d) = outbox_add topic (sh_OrderID s) ev t (sox d) \<and>
       ship_event_status ev = (sh_ID s, sh_Status s) \<and>
       (sh_Status s = StatusDelivered \<longrightarrow> ev = ShipmentDelivered (sh_ID s) (sh_OrderID s) (sh_OwnerID s) (sh_ShopID s) t)"
    "s_processed (moved_shipment s t d) = s_processed d"
  using assms
  by (cases "sh_Status s"; auto simp: moved_shipment_def ship_eventFor_def update_shipment_def)+

lemma put_shipment_sel [simp]:
  "sh_ID (put_shipment s t r) = sh_ID r" "sh_OrderID (put_shipment s t r) = sh_OrderID r"
  "sh_ShopID (put_shipment s t r) = sh_ShopID r" "sh_Status (put_shipment s t r) = sh_Status s"
  "ship_key (put_shipment s t r) = ship_key r" "sh_Items (put_shipment s t r) = sh_Items r"
  by (simp_all add: put_shipment_def ship_key_def)

lemma ship_inv_move:
  assumes inv: "ship_inv d" and s: "find_shipment sid d = Some s" and edge: "ship_allowed (sh_Status s) to"
    and s': "s' = s\<lparr>sh_Status := to, sh_Carrier := c, sh_TrackingNumber := tr, sh_CancelReason := rs\<rparr>"
  shows "ship_inv (moved_shipment s' t d)"
proof -
  have st: "sh_Status s' = to" "sh_ID s' = sid" "to \<noteq> StatusPending" "s \<in> set (shipments d)" "sh_ID s = sid"
    "sh_OrderID s' = sh_OrderID s" "sh_ShopID s' = sh_ShopID s"
    using edge find_shipment_id [OF s] by (auto simp: s')
  note sel = moved_shipment_sel [of s' t d, unfolded st(1), OF st(3)]
  obtain ev topic where o': "sox (moved_shipment s' t d) = outbox_add topic (sh_OrderID s') ev t (sox d)"
    and ev: "ship_event_status ev = (sid, to)"
      "to = StatusDelivered \<longrightarrow> ev = ShipmentDelivered sid (sh_OrderID s') (sh_OwnerID s') (sh_ShopID s') t"
    using sel(2) st(1,2) by auto
  have ids: "distinct (map sh_ID (shipments d))"
    using inv by (simp add: ship_inv_def log_ok_def ship_standing_def comp_def)
  have standing: "ship_standing (moved_shipment s' t d) = upd_rows (\<lambda>x. fst x = sid) (\<lambda>_. (sid, to)) (ship_standing d)"
    using st(1,2) by (simp add: sel(1) ship_standing_def upd_rows_def comp_def if_distrib cong: if_cong)
  have "log_ok ship_allowed StatusPending (ship_log d @ [(sid, to)]) (upd_rows (\<lambda>x. fst x = sid) (\<lambda>_. (sid, to)) (ship_standing d))"
    using inv st(4,5) edge by (intro log_ok_move [where s = "sh_Status s"]) (auto simp: ship_inv_def ship_standing_def image_iff)
  moreover have "stamps_ok r' \<and> announced (events (sox d) @ [ev]) r'"
    if r': "r' \<in> set (shipments (moved_shipment s' t d))" for r'
  proof -
    obtain r where r: "r \<in> set (shipments d)" "r' = (if sh_ID r = sid then put_shipment s' t r else r)"
      using r' st(2) by (auto simp: sel(1) in_upd_rows)
    have old: "stamps_ok r" "announced (events (sox d)) r" using inv r(1) by (simp_all add: ship_inv_def)
    show ?thesis
    proof (cases "sh_ID r = sid")
      case True
      then have "r = s" using distinct_map_inj [OF ids r(1) st(4)] st(5) by simp
      then have r'': "r' = put_shipment s' t s" using r(2) True by simp
      have "stamps_ok r'"
        using old(1) edge \<open>r = s\<close> st(1) unfolding r''
        by (cases "sh_Status s"; cases to) (auto simp: stamps_ok_def put_shipment_def)
      moreover have "announced (events (sox d) @ [ev]) r'"
        unfolding r'' using ev(2) st by (auto simp: announced_def)
      ultimately show ?thesis by simp
    next
      case False
      then show ?thesis using r(2) old by (auto simp: announced_def)
    qed
  qed
  ultimately show ?thesis
    using inv standing by (simp add: ship_inv_def o' sel(1,3) map_upd_rows ship_log_def ev(1))
qed

lemma ship_inv_create:
  assumes "ship_inv d" "s = new_shipment oid own addr g sid t" "ship_key s \<notin> ship_key ` set (shipments d)"
    "sid \<notin> sh_ID ` set (shipments d)"
  shows "ship_inv (with_shipment s t d)"
proof -
  have s: "sh_ID s = sid" "sh_Status s = StatusPending" "sh_ShippedAt s = None" "sh_DeliveredAt s = None"
    by (simp_all add: assms(2) new_shipment_def)
  have "log_ok ship_allowed StatusPending (ship_log d @ [(sid, StatusPending)]) (ship_standing d @ [(sid, StatusPending)])"
    using assms by (intro log_ok_insert) (auto simp: ship_inv_def)
  then show ?thesis
    using assms(1,3) s
    by (auto simp: ship_inv_def with_shipment_def ship_log_def ship_standing_def created_event_def stamps_ok_def announced_def)
qed

lemma ship_inv_noted: "\<not> seen_event s_processed ev d \<Longrightarrow> ship_inv d \<Longrightarrow> ship_inv (note_event s_processed_update ev d)"
  by (auto simp: ship_inv_def note_event_def seen_event_def ship_log_def ship_standing_def)

lemma ship_inv_effect: "ship_effect d d' \<Longrightarrow> ship_inv d \<Longrightarrow> ship_inv d'"
  by (induction rule: ship_effect.induct) (auto intro: ship_inv_noted ship_inv_create ship_inv_move)

lemma ship_inv_effects: "ship_effects d d' \<Longrightarrow> ship_inv d \<Longrightarrow> ship_inv d'"
  by (induction rule: rtranclp_induct) (auto intro: ship_inv_effect)

lemma ship_step_effects: "ship_effects d (ship_step op e d)"
  unfolding ship_step_def by (rule after_wp [OF ship_prog_effects])

lemma reach_ship_effects: "reach ship_step d d' \<Longrightarrow> ship_effects d d'"
  by (induction rule: reach.induct) (auto intro: rtranclp_trans [OF _ ship_step_effects])

interpretation ship_machine: inv_machine ship_step empty_ship_db ship_inv
proof unfold_locales
  show "ship_inv empty_ship_db"
    by (simp add: ship_inv_def empty_ship_db_def ship_log_def ship_standing_def)
  show "ship_inv d \<Longrightarrow> ship_inv (ship_step op e d)" for d op e
    by (rule ship_inv_effects [OF ship_step_effects])
qed

text \<open>C28: in every state the fulfillment store reaches, by any interleaving of its operations and under any
  faults, the outbox tells for each shipment the walk through the state machine that ends in its status, its
  timestamps agree with that status, and no other shipment has its order and shop.\<close>

theorem shipment_history:
  assumes "reach ship_step empty_ship_db d" "s \<in> set (shipments d)"
  shows "walk ship_allowed StatusPending (history_of (sh_ID s) (ship_log d)) (sh_Status s) \<and> stamps_ok s \<and>
    filter (\<lambda>x. ship_key x = ship_key s) (shipments d) = [s]"
proof -
  have inv: "ship_inv d" by (rule ship_machine.reach_inv [OF assms(1)])
  have "(sh_ID s, sh_Status s) \<in> set (ship_standing d)" using assms(2) by (auto simp: ship_standing_def)
  moreover have "filter (\<lambda>x. ship_key x = ship_key s) (shipments d) = [s]"
    using inv by (intro filter_key_unique assms(2)) (simp add: ship_inv_def)
  ultimately show ?thesis using inv assms(2) log_okD by (auto simp: ship_inv_def)
qed

definition one_shipment :: ship_db where
  "one_shipment = run_ops ship_step
     [(ShipCreate ''o'' ''u'' home [\<lparr>si_ShopID = ''s'', si_Items = []\<rparr>] ''ev'', env_at 1),
      (ShipMove ''id'' StatusShipped ''c'' ''t'' '''', env_at 2)] empty_ship_db"

lemma one_shipment_row: "map (\<lambda>s. (sh_ID s, sh_Status s, sh_ShippedAt s)) (shipments one_shipment) = [(''id'', StatusShipped, Some 2)]"
  by code_simp

theorem shipment_history_witness:
  "walk ship_allowed StatusPending (history_of ''id'' (ship_log one_shipment)) StatusShipped"
proof -
  obtain s where s: "shipments one_shipment = [s]" "sh_ID s = ''id''" "sh_Status s = StatusShipped"
    using one_shipment_row by (auto simp: map_eq_Cons_conv)
  have "reach ship_step empty_ship_db one_shipment"
    unfolding one_shipment_def by (rule reach_run_ops [OF reach.init])
  from shipment_history [OF this, of s] show ?thesis using s by simp
qed

subsection \<open>One group per shop of the order\<close>

definition items_at :: "(string \<times> ship_item list) list \<Rightarrow> string \<Rightarrow> ship_item list" where
  "items_at m i = (case map_of m i of None \<Rightarrow> [] | Some is \<Rightarrow> is)"

lemma items_at_add [simp]: "items_at (bucket_item s x m) i = items_at m i @ (if i = s then [x] else [])"
  by (induction s x m rule: bucket_item.induct) (auto simp: items_at_def)

lemma bucket_item_keys: "fst ` set (bucket_item s x m) = insert s (fst ` set m)"
  by (induction s x m rule: bucket_item.induct) auto

lemma bucket_item_distinct: "distinct (map fst m) \<Longrightarrow> distinct (map fst (bucket_item s x m))"
  by (induction s x m rule: bucket_item.induct) (use bucket_item_keys in auto)

lemma byShop_fold:
  fixes ls :: "order_line_msg list"
  defines "add \<equiv> \<lambda>l. bucket_item (m_shop_id l) (ship_item_of l)"
  shows "items_at (fold add ls m) i = items_at m i @ map ship_item_of (filter (\<lambda>l. m_shop_id l = i) ls)"
    and "fst ` set (fold add ls m) = fst ` set m \<union> m_shop_id ` set ls"
    and "distinct (map fst m) \<Longrightarrow> distinct (map fst (fold add ls m))"
  unfolding add_def by (induction ls arbitrary: m) (auto simp: bucket_item_keys bucket_item_distinct)

lemma sort_map_fst_byShop: "sort (map fst (byShop ls)) = sorted_list_of_set (m_shop_id ` set ls)"
proof -
  let ?ks = "sort (map fst (byShop ls))"
  have "set ?ks = m_shop_id ` set ls" using byShop_fold(2) [of ls "[]"] by (simp add: byShop_def)
  moreover have "distinct ?ks" using byShop_fold(3) [of "[]" ls] by (simp add: byShop_def)
  ultimately show ?thesis by (metis sorted_list_of_set.idem_if_sorted_distinct sorted_sort)
qed

lemma line_msg_sel [simp]:
  "m_shop_id (line_msg l) = l_ShopID l" "m_product_id (line_msg l) = l_ProductID l"
  "m_title (line_msg l) = l_Title l" "m_quantity (line_msg l) = l_Quantity l"
  by (simp_all add: line_msg_def)

text \<open>C29: the consumer's grouping of a confirmed order, through a Go map and a sort, is the grouping the order
  waits for: one group for each of the order's shop groups, in the same order, with the order's lines of that
  shop in their order.\<close>

theorem groups_are_shop_groups:
  "groupsFrom (linesProto (Lines ord)) =
     map (\<lambda>shop. \<lparr>si_ShopID = shop, si_Items = map (\<lambda>l. \<lparr>it_ProductID = l_ProductID l, it_Title = l_Title l,
            it_Quantity = l_Quantity l\<rparr>) (filter (\<lambda>l. l_ShopID l = shop) (Lines ord))\<rparr>) (ShopGroups ord)"
proof -
  let ?ls = "linesProto (Lines ord)"
  have "m_shop_id ` set ?ls = l_ShopID ` set (Lines ord)" by (simp add: linesProto_def image_image)
  then have "sort (map fst (byShop ?ls)) = ShopGroups ord" by (simp add: sort_map_fst_byShop ShopGroups_canonical)
  moreover have "(case map_of (byShop ?ls) i of None \<Rightarrow> [] | Some is \<Rightarrow> is) =
      map (\<lambda>l. \<lparr>it_ProductID = l_ProductID l, it_Title = l_Title l, it_Quantity = l_Quantity l\<rparr>)
        (filter (\<lambda>l. l_ShopID l = i) (Lines ord))" for i
    using byShop_fold(1) [of ?ls "[]" i]
    by (simp add: byShop_def items_at_def linesProto_def filter_map comp_def ship_item_of_def)
  ultimately show ?thesis by (simp add: groupsFrom_def)
qed

end
