(* ===== verification/Shipping.thy ===== *)
theory Shipping
  imports FulfillmentProps OrderInvariants SagaProps OrderProps
begin

section \<open>From deliveries to a fulfilled order\<close>

text \<open>
  The fulfillment service and the order service agree on when an order is done: once every shipment that the
  confirmed event created is delivered and the order service has handled their events, the order is FULFILLED.
\<close>

subsection \<open>Coordinates of Kafka records\<close>

lemma digits_no_colon: "CHR '':'' \<notin> set (FormatInt x)"
  by (rule FormatInt_no) (simp add: int_char_def)

lemma event_id_inj:
  assumes "event_id r = event_id r'" "kr_topic r = kr_topic r'"
  shows "kr_partition r = kr_partition r' \<and> kr_offset r = kr_offset r'"
proof -
  have "FormatInt (kr_partition r) @ CHR '':'' # FormatInt (kr_offset r) =
      FormatInt (kr_partition r') @ CHR '':'' # FormatInt (kr_offset r')"
    using assms by (simp add: event_id_def)
  from field_inj [OF digits_no_colon digits_no_colon this] show ?thesis by (simp add: FormatInt_inj)
qed

subsection \<open>Deliveries without faults\<close>

definition delivered_to :: "string \<Rightarrow> string \<Rightarrow> order \<Rightarrow> int \<Rightarrow> order_db \<Rightarrow> order_db" where
  "delivered_to oid shop ord t d = (let d1 = record_delivery oid shop d in
     if Status ord = CONFIRMED \<and> length (ShopGroups ord) \<le> delivered_count oid (ShopGroups ord) d1
     then moved (ord\<lparr>Status := FULFILLED\<rparr>) t d1 else d1)"

lemma quiet_ApplyShipmentDelivered:
  assumes "faults e = []" "uuid_ok e oid" "load d oid = Some ord" "new_event ev d"
    and "\<And>a. Q (Inr a) (delivered_to oid shop ord (now e) (with_event ev d)) e"
  shows "wp (ApplyShipmentDelivered oid shop ev) Q d e"
proof -
  have get: "wp (store_get oid '''') R (with_event ev d) e = R (Inr ord) (with_event ev d) e" for R
    using assms(1-3) by (subst quiet_store_get [where ord = ord]) simp_all
  have ins: "wp (ins_processed ev) R d e = R (Inr ()) (with_event ev d) e" if "ev \<noteq> ''''" for R
    using that assms(1,4) by (simp add: ins_processed_def wp_quiet new_event_def with_event_def)
  show ?thesis
    unfolding ApplyShipmentDelivered_def beginDeduped_def
    apply (rule wp_quiet_in_tx [OF assms(1)])
    using assms(1,5) get ins
    by (cases "ev = ''''") (auto simp: wp_quiet delivered_to_def Let_def Fulfill_def CanTransitionTo_def persistTransition_def
        outboxTransition_def emit_def moved_def transition_event_def transition_topic_def update_order_row_def with_event_def)
qed

subsection \<open>The order across the deliveries of its shipments\<close>

lemma delivered_count_full:
  assumes "set (ShopGroups ord) \<subseteq> {s. (oid, s) \<in> set (deliveries d)}"
  shows "length (ShopGroups ord) \<le> delivered_count oid (ShopGroups ord) d"
proof -
  have "set (ShopGroups ord) \<subseteq> set (map snd (filter (\<lambda>x. fst x = oid \<and> snd x \<in> set (ShopGroups ord)) (deliveries d)))"
    using assms by force
  then have "card (set (ShopGroups ord)) \<le> card (set (map snd (filter (\<lambda>x. fst x = oid \<and> snd x \<in> set (ShopGroups ord)) (deliveries d))))"
    by (intro card_mono) simp_all
  then show ?thesis
    using ShopGroups_distinct [of ord] by (simp add: delivered_count_def length_remdups_card_conv distinct_card)
qed

lemma load_record_delivery [simp]: "load (record_delivery oid shop d) = load d"
  by (simp add: fun_eq_iff load_def record_delivery_def select_lines_def split: option.split)

lemma load_moved_fulfilled:
  assumes "load d oid = Some ord"
  shows "\<exists>o'. load (moved (ord\<lparr>Status := FULFILLED\<rparr>) t d) oid = Some o' \<and> Status o' = FULFILLED \<and> Lines o' = Lines ord"
proof -
  obtain row where row: "List.find (\<lambda>r. or_id r = oid) (orders d) = Some row"
      "ord = add_lines (select_lines [oid] d) (scanOrder row)"
    using assms by (auto simp: load_def split: option.splits)
  have id: "ID ord = oid" using ID_load [OF assms] .
  have "List.find (\<lambda>r. or_id r = oid) (orders (moved (ord\<lparr>Status := FULFILLED\<rparr>) t d)) =
      Some (row\<lparr>or_status := FULFILLED, or_cancel_reason := CancelReason ord, or_payment_id := PaymentID ord,
        or_reservation_id := ReservationID ord, or_updated := t\<rparr>)"
    using row(1) by (simp add: moved_def update_order_row_def id find_upd_rows_same)
  moreover have "select_lines [oid] (moved (ord\<lparr>Status := FULFILLED\<rparr>) t d) = select_lines [oid] d"
    by (simp add: select_lines_def)
  ultimately show ?thesis by (simp add: load_def row(2)) (simp add: add_lines_def scanOrder_def)
qed

definition on_the_way :: "string \<Rightarrow> order \<Rightarrow> string set \<Rightarrow> order_db \<Rightarrow> bool" where
  "on_the_way oid ord arrived d \<longleftrightarrow> arrived \<subseteq> {s. (oid, s) \<in> set (deliveries d)} \<and>
     (\<exists>o'. load d oid = Some o' \<and> Lines o' = Lines ord \<and> (Status o' = CONFIRMED \<or> Status o' = FULFILLED) \<and>
        (arrived \<noteq> {} \<and> set (ShopGroups ord) \<subseteq> arrived \<longrightarrow> Status o' = FULFILLED))"

lemma ShopGroups_Lines: "Lines o' = Lines ord \<Longrightarrow> ShopGroups o' = ShopGroups ord"
  by (simp add: ShopGroups_def)

lemma on_the_way_delivered:
  assumes way: "on_the_way oid ord arrived d" and o': "load d oid = Some o'"
  shows "on_the_way oid ord (insert shop arrived) (delivered_to oid shop o' t (with_event ev d))"
proof -
  let ?d = "record_delivery oid shop (with_event ev d)"
  have lines: "Lines o' = Lines ord" "Status o' = CONFIRMED \<or> Status o' = FULFILLED"
    using way o' by (auto simp: on_the_way_def)
  have arr: "insert shop arrived \<subseteq> {s. (oid, s) \<in> set (deliveries ?d)}"
    using way by (auto simp: on_the_way_def record_delivery_def)
  have full: "set (ShopGroups ord) \<subseteq> insert shop arrived \<Longrightarrow> length (ShopGroups o') \<le> delivered_count oid (ShopGroups o') ?d"
    using delivered_count_full [of o' oid ?d] arr ShopGroups_Lines [OF lines(1)] by auto
  show ?thesis
  proof (cases "Status o' = CONFIRMED \<and> length (ShopGroups o') \<le> delivered_count oid (ShopGroups o') ?d")
    case True
    have "load ?d oid = Some o'" using o' by simp
    from load_moved_fulfilled [OF this, of t] show ?thesis
      using True arr lines(1) by (auto simp: delivered_to_def Let_def on_the_way_def)
  next
    case False
    then show ?thesis using full arr lines o' by (auto simp: delivered_to_def Let_def on_the_way_def)
  qed
qed

definition delivers :: "string \<Rightarrow> saga_event option krecord \<Rightarrow> string \<Rightarrow> bool" where
  "delivers oid r shop \<longleftrightarrow> kr_topic r = ''commerce.fulfillment.delivered'' \<and> kr_value r = Some (EvDelivered oid shop)"

lemma processed_delivered_to: "processed (delivered_to oid shop o' t d) = processed d"
  by (simp add: delivered_to_def Let_def)

text \<open>\<open>fresh_events rs s\<close>: no record of \<open>rs\<close> has been handled.\<close>

definition fresh_events :: "saga_event option krecord list \<Rightarrow> order_db \<Rightarrow> bool" where
  "fresh_events rs d \<longleftrightarrow> distinct (map event_id rs) \<and> event_id ` set rs \<inter> set (processed d) = {}"

lemma quiet_delivery:
  assumes "quiet V e" "V oid" "delivers oid r shop" "on_the_way oid ord arrived (sys_orders s)" "fresh_events (r # rs) (sys_orders s)"
    and "\<And>s'. on_the_way oid ord (insert shop arrived) (sys_orders s') \<Longrightarrow> fresh_events rs (sys_orders s') \<Longrightarrow> Q (Inr ()) s' e"
  shows "wp (order_Handler cl r) Q s e"
proof -
  obtain o' where o': "load (sys_orders s) oid = Some o'" using assms(4) by (auto simp: on_the_way_def)
  let ?d = "with_event (event_id r) (sys_orders s)"
  have new: "new_event (event_id r) (sys_orders s)" using assms(5) by (simp add: fresh_events_def new_event_def)
  have "set (processed ?d) = insert (event_id r) (set (processed (sys_orders s)))"
    by (simp add: with_event_def mark_processed_def)
  then have "fresh_events rs (delivered_to oid shop o' (now e) ?d)"
    using assms(5) by (auto simp: fresh_events_def processed_delivered_to)
  then have "Q (Inr ()) (sys_orders_update (\<lambda>_. delivered_to oid shop o' (now e) ?d) s) e"
    using on_the_way_delivered [OF assms(4) o'] by (intro assms(6)) simp_all
  then have "wp (ApplyShipmentDelivered oid shop (event_id r))
      (\<lambda>x d. Q (case x of Inl y \<Rightarrow> Inl y | Inr _ \<Rightarrow> Inr ()) (sys_orders_update (\<lambda>_. d) s)) (sys_orders s) e"
    using assms(1,2) o' new by (intro quiet_ApplyShipmentDelivered) (auto simp: quiet_def)
  then show ?thesis
    using assms(3) by (simp add: order_Handler_def delivers_def OnShipmentDelivered_def at_store_def)
qed

lemma quiet_deliveries:
  assumes "quiet V e" "V oid" "\<forall>r\<in>set rs. \<exists>shop. delivers oid r shop" "on_the_way oid ord arrived (sys_orders s)"
    "fresh_events rs (sys_orders s)"
  shows "wp (foreach (order_Handler cl) rs) (\<lambda>r s' _. r = Inr () \<and>
    on_the_way oid ord (arrived \<union> {shop. \<exists>r\<in>set rs. delivers oid r shop}) (sys_orders s')) s e"
  using assms(3-5)
proof (induction rs arbitrary: arrived s)
  case Nil
  then show ?case by simp
next
  case (Cons r rs)
  obtain shop where shop: "delivers oid r shop" using Cons.prems(1) by auto
  then have "{shop. \<exists>r\<in>set (r # rs). delivers oid r shop} = insert shop {shop. \<exists>r\<in>set rs. delivers oid r shop}"
    by (auto simp: delivers_def)
  then show ?case
    using Cons.IH [of "insert shop arrived"] Cons.prems(1)
    by (auto intro!: quiet_delivery [OF assms(1,2) shop Cons.prems(2,3)])
qed

subsection \<open>The shipments of a confirmed order\<close>

lemma ship_effect_keys: "ship_effect d d' \<Longrightarrow> ship_key ` set (shipments d) \<subseteq> ship_key ` set (shipments d')"
proof (induction rule: ship_effect.induct)
  case (noted ev d)
  then show ?case by (simp add: note_event_def)
next
  case (create s oid own addr g sid t d)
  then show ?case by (auto simp: with_shipment_def)
next
  case (move sid d s to s' c tr rs t)
  then have "sh_Status s' \<noteq> StatusPending" by auto
  from moved_shipment_sel(1) [OF this, of t d] show ?case by (simp add: image_upd_rows)
qed

lemma ship_effects_keys: "ship_effects d d' \<Longrightarrow> ship_key ` set (shipments d) \<subseteq> ship_key ` set (shipments d')"
  by (induction rule: rtranclp_induct) (use ship_effect_keys in blast)+

lemma delivered_shops_announced:
  assumes inv: "ship_inv d2" and ex: "(oid, shop) \<in> ship_key ` set (shipments d2)"
    and all: "\<forall>x\<in>set (shipments d2). sh_OrderID x = oid \<longrightarrow> sh_Status x = StatusDelivered"
  shows "\<exists>sid own t. ShipmentDelivered sid oid own shop t \<in> set (events (sox d2))"
proof -
  obtain x where x: "x \<in> set (shipments d2)" "sh_OrderID x = oid" "sh_ShopID x = shop"
    using ex by (auto simp: ship_key_def)
  then have "announced (events (sox d2)) x" "sh_Status x = StatusDelivered"
    using all inv by (auto simp: ship_inv_def)
  then show ?thesis using x(2,3) unfolding announced_def by blast
qed


text \<open>The order of the samples, shipped by the carrier in two sweeps.\<close>

definition confirmed_db :: order_db where "confirmed_db = fst (snd sale_confirmed)"

definition confirmed_order :: order where "confirmed_order = the (load confirmed_db ''o1'')"

definition created_shipments :: "shipment list res \<times> ship_db \<times> env" where
  "created_shipments = CreateFromOrder ''o1'' ''u'' home (groupsFrom (linesProto (Lines confirmed_order))) ''c:0:0''
     empty_ship_db (env_at 4)"

definition delivered_db :: ship_db where
  "delivered_db = run_ops ship_step [(ShipSweep 0 0, env_at 5), (ShipSweep 0 0, env_at 6)] (fst (snd created_shipments))"

definition delivery_records :: "saga_event option krecord list" where
  "delivery_records = map (\<lambda>(n, shop). \<lparr>kr_topic = ''commerce.fulfillment.delivered'', kr_key = ''o1'',
     kr_value = Some (EvDelivered ''o1'' shop), kr_partition = 0, kr_offset = n\<rparr>) [(7, ''s2''), (8, ''s1'')]"

lemma shipped_facts:
  "load confirmed_db ''o1'' = Some confirmed_order" "Status confirmed_order = CONFIRMED" "Lines confirmed_order \<noteq> []"
  "fst created_shipments = Inr (shipments (fst (snd created_shipments)))"
  "map (\<lambda>x. (sh_OrderID x, sh_ShopID x, sh_Status x)) (shipments delivered_db) =
     [(''o1'', ''s1'', StatusDelivered), (''o1'', ''s2'', StatusDelivered)]"
  "map kr_topic delivery_records = replicate 2 ''commerce.fulfillment.delivered''"
  "map kr_value delivery_records = [Some (EvDelivered ''o1'' ''s2''), Some (EvDelivered ''o1'' ''s1'')]"
  "distinct (map event_id delivery_records)" "filter (\<lambda>r. event_id r \<in> set (processed confirmed_db)) delivery_records = []"
  "filter (\<lambda>ev. case ev of ShipmentDelivered sid oid own shop t \<Rightarrow> shop \<noteq> ''s1'' \<and> shop \<noteq> ''s2'' | _ \<Rightarrow> False) (events (sox delivered_db)) = []"
  by code_simp+

lemma delivered_db_shops:
  "x \<in> set (shipments delivered_db) \<Longrightarrow> sh_Status x = StatusDelivered"
  "ShipmentDelivered sid oid own shop t \<in> set (events (sox delivered_db)) \<Longrightarrow> shop = ''s1'' \<or> shop = ''s2''"
proof -
  have "(sh_OrderID x, sh_ShopID x, sh_Status x) \<in> set (map (\<lambda>x. (sh_OrderID x, sh_ShopID x, sh_Status x)) (shipments delivered_db))"
    if "x \<in> set (shipments delivered_db)" using that by simp
  then show "x \<in> set (shipments delivered_db) \<Longrightarrow> sh_Status x = StatusDelivered" unfolding shipped_facts by auto
  show "ShipmentDelivered sid oid own shop t \<in> set (events (sox delivered_db)) \<Longrightarrow> shop = ''s1'' \<or> shop = ''s2''"
    using shipped_facts(10) unfolding filter_empty_conv by fastforce
qed


end
