(* ===== verification/Fga.thy ===== *)
theory Fga
  imports StoreKit Strs "HOL-Library.Sublist"
begin

section \<open>Relationship checks (pkg/fga)\<close>

text \<open>
  The interface \<open>fga.API\<close> through which the services ask OpenFGA, the object names, the two error tests, and
  the authorization model of model.json.  The server is outside the repository: the handlers take the API as
  an argument (\<open>None\<close> when no endpoint is configured), the locale \<open>fga_service\<close> names what they rely on of
  it, and \<open>openfga\<close> is an instance that keeps the tuples in a table and answers a check by the
  rewriting rules of the model.
\<close>

datatype fga_tuple = Tuple string string string

record 'd fga_api =
  f_Check :: "string \<Rightarrow> string \<Rightarrow> string \<Rightarrow> ('d, bool) prog"
  f_Write :: "string \<Rightarrow> string \<Rightarrow> string \<Rightarrow> ('d, unit) prog"
  f_Delete :: "string \<Rightarrow> string \<Rightarrow> string \<Rightarrow> ('d, unit) prog"
  f_Read :: "string \<Rightarrow> ('d, fga_tuple list) prog"

definition UserObject :: "string \<Rightarrow> string" where "UserObject subject = ''user:'' @ subject"
definition OrderObject :: "string \<Rightarrow> string" where "OrderObject i = ''order:'' @ i"
definition ShopObject :: "string \<Rightarrow> string" where "ShopObject i = ''shop:'' @ i"
definition ProductObject :: "string \<Rightarrow> string" where "ProductObject i = ''product:'' @ i"

definition RelationViewer :: string where "RelationViewer = ''viewer''"
definition RelationOwner :: string where "RelationOwner = ''owner''"
definition RelationStaff :: string where "RelationStaff = ''staff''"
definition RelationShop :: string where "RelationShop = ''shop''"
definition RelationManager :: string where "RelationManager = ''manager''"

lemmas fga_names = UserObject_def OrderObject_def ShopObject_def ProductObject_def RelationViewer_def
  RelationOwner_def RelationStaff_def RelationShop_def RelationManager_def

definition TrimPrefix :: "string \<Rightarrow> string \<Rightarrow> string" where
  "TrimPrefix s p = (if prefix p s then drop (length p) s else s)"

fun fga_contains :: "string \<Rightarrow> string \<Rightarrow> bool" where
  "fga_contains sub [] = (sub = [])"
| "fga_contains sub (c # s) = (prefix sub (c # s) \<or> fga_contains sub s)"

text \<open>\<open>errors.As\<close> finds an \<open>*fga.Error\<close> in the chain of causes.\<close>

fun fga_message :: "go_err \<Rightarrow> string option" where
  "fga_message (FgaErr st m) = Some m"
| "fga_message (DomErr k r (Some c)) = fga_message c"
| "fga_message _ = None"

definition IsAlreadyExists :: "go_err \<Rightarrow> bool" where
  "IsAlreadyExists err = (case fga_message err of None \<Rightarrow> False | Some m \<Rightarrow> fga_contains ''already exists'' m)"

definition IsNotFound :: "go_err \<Rightarrow> bool" where
  "IsNotFound err = (case fga_message err of None \<Rightarrow> False
     | Some m \<Rightarrow> fga_contains ''not found'' m \<or> fga_contains ''did not find'' m)"

subsection \<open>The authorization model (model.json)\<close>

text \<open>\<open>viewer\<close>, \<open>owner\<close> and \<open>shop\<close> are direct; \<open>staff\<close> is direct or \<open>owner\<close>; \<open>manager\<close> of a product is \<open>staff\<close> of
  a shop the product is tied to.\<close>

definition fga_direct :: "fga_tuple list \<Rightarrow> string \<Rightarrow> string \<Rightarrow> string \<Rightarrow> bool" where
  "fga_direct ts u r ob \<longleftrightarrow> Tuple u r ob \<in> set ts"

definition fga_staff :: "fga_tuple list \<Rightarrow> string \<Rightarrow> string \<Rightarrow> bool" where
  "fga_staff ts u shop \<longleftrightarrow> fga_direct ts u ''staff'' shop \<or> fga_direct ts u ''owner'' shop"

definition fga_manager :: "fga_tuple list \<Rightarrow> string \<Rightarrow> string \<Rightarrow> bool" where
  "fga_manager ts u product \<longleftrightarrow>
     (\<exists>t\<in>set ts. case t of Tuple s r ob \<Rightarrow> r = ''shop'' \<and> ob = product \<and> fga_staff ts u s)"

definition fga_allowed :: "fga_tuple list \<Rightarrow> string \<Rightarrow> string \<Rightarrow> string \<Rightarrow> bool" where
  "fga_allowed ts u r ob \<longleftrightarrow>
     (if prefix ''order:'' ob then r = ''viewer'' \<and> fga_direct ts u r ob
      else if prefix ''shop:'' ob then r = ''owner'' \<and> fga_direct ts u r ob \<or> r = ''staff'' \<and> fga_staff ts u ob
      else if prefix ''product:'' ob then r = ''shop'' \<and> fga_direct ts u r ob \<or> r = ''manager'' \<and> fga_manager ts u ob
      else False)"

subsection \<open>What the services rely on\<close>

text \<open>A check answers by the model on the tuples, a write adds one, a delete removes one, and only writes and
  deletes change the tuples; a read answers the first page of the tuples of an object.  \<open>get\<close> reads the tuples out of the state.\<close>

locale fga_service =
  fixes api :: "'d fga_api" and get :: "'d \<Rightarrow> fga_tuple list"
  assumes check_law: "wp (f_Check api u r ob) (\<lambda>x d' e'. d' = d \<and> (\<forall>b. x = Inr b \<longrightarrow> b = fga_allowed (get d) u r ob)) d e"
    and write_law: "wp (f_Write api u r ob) (\<lambda>x d' e'.
          (get d' = get d \<or> set (get d') = insert (Tuple u r ob) (set (get d))) \<and>
          (x = Inr () \<or> (\<exists>err. x = Inl err \<and> IsAlreadyExists err) \<longrightarrow> set (get d') = insert (Tuple u r ob) (set (get d)))) d e"
    and delete_law: "wp (f_Delete api u r ob) (\<lambda>x d' e'.
          (get d' = get d \<or> set (get d') = set (get d) - {Tuple u r ob}) \<and>
          (x = Inr () \<or> (\<exists>err. x = Inl err \<and> IsNotFound err) \<longrightarrow> set (get d') = set (get d) - {Tuple u r ob})) d e"
    and read_law: "wp (f_Read api ob) (\<lambda>x d' e'. d' = d \<and>
          (\<forall>ts. x = Inr ts \<longrightarrow> set ts \<subseteq> {t \<in> set (get d). \<exists>u r. t = Tuple u r ob})) d e"
begin

lemma check_allowed: "f_Check api u r ob d e = (Inr b, d', e') \<Longrightarrow> d' = d \<and> b = fga_allowed (get d) u r ob"
  using wpD [OF check_law] by blast

lemma check_frame: "f_Check api u r ob d e = (x, d', e') \<Longrightarrow> d' = d"
  using wpD [OF check_law] by blast

lemma write_done: "f_Write api u r ob d e = (Inr (), d', e') \<Longrightarrow> set (get d') = insert (Tuple u r ob) (set (get d))"
  using wpD [OF write_law] by blast

lemma write_there: "f_Write api u r ob d e = (Inl err, d', e') \<Longrightarrow> IsAlreadyExists err \<Longrightarrow> set (get d') = insert (Tuple u r ob) (set (get d))"
  using wpD [OF write_law] by blast

lemma delete_done: "f_Delete api u r ob d e = (Inr (), d', e') \<Longrightarrow> set (get d') = set (get d) - {Tuple u r ob}"
  using wpD [OF delete_law] by blast

lemma delete_gone: "f_Delete api u r ob d e = (Inl err, d', e') \<Longrightarrow> IsNotFound err \<Longrightarrow> set (get d') = set (get d) - {Tuple u r ob}"
  using wpD [OF delete_law] by blast

end

subsection \<open>A tuple store\<close>

record fga_sys =
  tuples :: "fga_tuple list"

definition fga_exists :: go_err where "fga_exists = FgaErr 400 ''cannot write a tuple which already exists''"
definition fga_missing :: go_err where "fga_missing = FgaErr 400 ''tuple to be deleted did not find''"

definition openfga :: "('x fga_sys_scheme) fga_api" where
  "openfga = \<lparr>f_Check = (\<lambda>u r ob. query (\<lambda>_ d. fga_allowed (tuples d) u r ob)),
     f_Write = (\<lambda>u r ob. exec_chk (\<lambda>_ d. if Tuple u r ob \<in> set (tuples d) then Inl fga_exists
                 else Inr ((), d\<lparr>tuples := Tuple u r ob # tuples d\<rparr>))),
     f_Delete = (\<lambda>u r ob. exec_chk (\<lambda>_ d. if Tuple u r ob \<notin> set (tuples d) then Inl fga_missing
                 else Inr ((), d\<lparr>tuples := filter (\<lambda>t. t \<noteq> Tuple u r ob) (tuples d)\<rparr>))),
     f_Read = (\<lambda>ob. query (\<lambda>_ d. take 50 (filter (\<lambda>t. case t of Tuple u r o' \<Rightarrow> o' = ob) (tuples d))))\<rparr>"

lemma fga_errors:
  "IsAlreadyExists fga_exists" "\<not> IsNotFound fga_exists" "IsNotFound fga_missing" "\<not> IsAlreadyExists fga_missing"
  "\<not> IsAlreadyExists ConnErr" "\<not> IsNotFound ConnErr"
  by (simp_all add: IsAlreadyExists_def IsNotFound_def fga_exists_def fga_missing_def)

interpretation openfga: fga_service openfga tuples
proof unfold_locales
  fix u r ob and d :: "'x fga_sys_scheme" and e
  show "wp (f_Check openfga u r ob) (\<lambda>x d' e'. d' = d \<and> (\<forall>b. x = Inr b \<longrightarrow> b = fga_allowed (tuples d) u r ob)) d e"
    by (auto simp: openfga_def intro!: wp_queryI)
  show "wp (f_Write openfga u r ob) (\<lambda>x d' e'.
          (tuples d' = tuples d \<or> set (tuples d') = insert (Tuple u r ob) (set (tuples d))) \<and>
          (x = Inr () \<or> (\<exists>err. x = Inl err \<and> IsAlreadyExists err) \<longrightarrow> set (tuples d') = insert (Tuple u r ob) (set (tuples d)))) d e"
    by (auto simp: openfga_def fga_errors intro!: wp_exec_chkI split: if_splits)
  show "wp (f_Delete openfga u r ob) (\<lambda>x d' e'.
          (tuples d' = tuples d \<or> set (tuples d') = set (tuples d) - {Tuple u r ob}) \<and>
          (x = Inr () \<or> (\<exists>err. x = Inl err \<and> IsNotFound err) \<longrightarrow> set (tuples d') = set (tuples d) - {Tuple u r ob})) d e"
    by (auto simp: openfga_def fga_errors intro!: wp_exec_chkI split: if_splits)
  show "wp (f_Read openfga ob) (\<lambda>x d' e'. d' = d \<and>
          (\<forall>ts. x = Inr ts \<longrightarrow> set ts \<subseteq> {t \<in> set (tuples d). \<exists>u r. t = Tuple u r ob})) d e"
    by (auto simp: openfga_def intro!: wp_queryI dest!: in_set_takeD split: fga_tuple.splits)
qed

text \<open>The same service seen from a larger state.\<close>

definition zoom_api :: "('d \<Rightarrow> 'c) \<Rightarrow> (('c \<Rightarrow> 'c) \<Rightarrow> 'd \<Rightarrow> 'd) \<Rightarrow> 'c fga_api \<Rightarrow> 'd fga_api" where
  "zoom_api g upd api = \<lparr>f_Check = (\<lambda>u r ob. zoom g upd (f_Check api u r ob)), f_Write = (\<lambda>u r ob. zoom g upd (f_Write api u r ob)),
     f_Delete = (\<lambda>u r ob. zoom g upd (f_Delete api u r ob)), f_Read = (\<lambda>ob. zoom g upd (f_Read api ob))\<rparr>"

lemma zoom_api_sel [simp]:
  "f_Check (zoom_api g upd api) u r ob = zoom g upd (f_Check api u r ob)"
  "f_Write (zoom_api g upd api) u r ob = zoom g upd (f_Write api u r ob)"
  "f_Delete (zoom_api g upd api) u r ob = zoom g upd (f_Delete api u r ob)"
  "f_Read (zoom_api g upd api) ob = zoom g upd (f_Read api ob)"
  by (simp_all add: zoom_api_def)

lemma fga_service_zoom:
  assumes "fga_service api get" and same: "\<And>d. upd (\<lambda>_. g d) d = d" and new: "\<And>c d. g (upd (\<lambda>_. c) d) = c"
  shows "fga_service (zoom_api g upd api) (\<lambda>d. get (g d))"
  by unfold_locales
     (auto simp: same new intro: wp_mono [OF fga_service.check_law [OF assms(1)]] wp_mono [OF fga_service.write_law [OF assms(1)]]
       wp_mono [OF fga_service.delete_law [OF assms(1)]] wp_mono [OF fga_service.read_law [OF assms(1)]])

end
