(* ===== verification/Payout.thy ===== *)
theory Payout
  imports OrderStore Auth Fga
begin

section \<open>The payout service (services/payout)\<close>

text \<open>
  Payouts: what a shop is owed for its lines of a confirmed order.  The aggregate (internal/domain), the store
  (internal/store), the consumer of confirmed orders (internal/consumer), the sandbox settlement sweep
  (internal/settlement) and the handlers (internal/grpcsvc), whose reads ask OpenFGA whether the caller is
  staff of the shop.
\<close>

subsection \<open>The aggregate\<close>

datatype payout_status = PayoutPending | PayoutPaid

definition payout_status_str :: "payout_status \<Rightarrow> string" where
  "payout_status_str s = (case s of PayoutPending \<Rightarrow> ''PENDING'' | PayoutPaid \<Rightarrow> ''PAID'')"

record payout =
  po_ID :: string
  po_OrderID :: string
  po_ShopID :: string
  po_Amount :: money
  po_Status :: payout_status
  po_CreatedAt :: int
  po_PaidAt :: "int option"

text \<open>\<open>Money.Add\<close> of the payout domain: a sum without a currency takes the other's.\<close>

definition po_Add :: "money \<Rightarrow> money \<Rightarrow> money" where
  "po_Add m x = \<lparr>currency = (if currency m = '''' then currency x else currency m), cents = i64 (cents m + cents x)\<rparr>"

definition po_CanTransitionTo :: "payout \<Rightarrow> payout_status \<Rightarrow> bool" where
  "po_CanTransitionTo p to \<longleftrightarrow> po_Status p = PayoutPending \<and> to = PayoutPaid"

definition po_MarkPaid :: "payout \<Rightarrow> payout res" where
  "po_MarkPaid p =
     (if po_Status p = PayoutPaid then Inr p
      else if \<not> po_CanTransitionTo p PayoutPaid then Inl (errs_New KindFailedPrecondition ''BAD_TRANSITION'')
      else Inr (p\<lparr>po_Status := PayoutPaid\<rparr>))"

subsection \<open>Store\<close>

datatype payout_event =
    PayoutCreated string string string wire_money int
  | PayoutPaidEvent string string string int

record payout_db =
  payouts :: "payout list"
  po_processed :: "string list"
  pyox :: "payout_event outbox"

definition empty_payout_db :: payout_db where
  "empty_payout_db = \<lparr>payouts = [], po_processed = [], pyox = empty_outbox\<rparr>"

record shop_amount =
  sa_ShopID :: string
  sa_Amount :: money

definition errNoPayout :: go_err where
  "errNoPayout = errs_New KindNotFound ''PAYOUT_NOT_FOUND''"

definition find_payout :: "string \<Rightarrow> payout_db \<Rightarrow> payout option" where
  "find_payout pid d = List.find (\<lambda>p. po_ID p = pid) (payouts d)"

definition po_scanOne :: "string \<Rightarrow> (payout_db, payout) prog" where
  "po_scanOne pid = or_not_found errNoPayout (by_uuid pid (find_payout pid))"

definition po_emit :: "string \<Rightarrow> string \<Rightarrow> (int \<Rightarrow> payout_event) \<Rightarrow> (payout_db, unit) prog" where
  "po_emit topic key ev = map_err wrap (exec (\<lambda>t d. d\<lparr>pyox := outbox_add topic key (ev t) t (pyox d)\<rparr>))"

text \<open>The currency column is \<open>CHAR(3)\<close>: a shorter code is padded, a longer one refused unless the rest is blank
  (for ASCII codes, where characters are bytes).\<close>

definition stringTooLong :: go_err where "stringTooLong = PgError ''22001''"

definition char3 :: "string \<Rightarrow> string option" where
  "char3 s = (if length s \<le> 3 then Some (s @ replicate (3 - length s) (CHR '' ''))
     else if set (drop 3 s) \<subseteq> {CHR '' ''} then Some (take 3 s) else None)"

definition new_payout :: "string \<Rightarrow> shop_amount \<Rightarrow> string \<Rightarrow> string \<Rightarrow> int \<Rightarrow> payout" where
  "new_payout orderID g cur pid t =
     \<lparr>po_ID = pid, po_OrderID = orderID, po_ShopID = sa_ShopID g,
      po_Amount = \<lparr>currency = cur, cents = cents (sa_Amount g)\<rparr>, po_Status = PayoutPending, po_CreatedAt = t, po_PaidAt = None\<rparr>"

definition ins_payout :: "string \<Rightarrow> shop_amount \<Rightarrow> (payout_db, string) prog" where
  "ins_payout orderID g =
     bnd new_uuid (\<lambda>pid.
     exec_chk (\<lambda>t d. case char3 (currency (sa_Amount g)) of
         None \<Rightarrow> Inl stringTooLong
       | Some cur \<Rightarrow>
           if (orderID, sa_ShopID g) \<in> (\<lambda>p. (po_OrderID p, po_ShopID p)) ` set (payouts d) then Inl NoRows
           else if pid \<in> po_ID ` set (payouts d) then Inl uniqueViolation
           else Inr (pid, d\<lparr>payouts := payouts d @ [new_payout orderID g cur pid t]\<rparr>)))"

fun create_payouts :: "string \<Rightarrow> shop_amount list \<Rightarrow> (payout_db, payout list) prog" where
  "create_payouts orderID [] = ret []"
| "create_payouts orderID (g # gs) =
     (if sa_ShopID g = '''' then create_payouts orderID gs
      else bnd (attempt (ins_payout orderID g)) (\<lambda>r. case r of
        Inl err \<Rightarrow> if err = NoRows then create_payouts orderID gs else fail (wrap err)
      | Inr pid \<Rightarrow>
          bnd (po_scanOne pid) (\<lambda>p.
          bnd (po_emit ''commerce.payout.created'' (po_OrderID p)
                 (PayoutCreated (po_ID p) (po_OrderID p) (po_ShopID p) (wire_of (po_Amount p)))) (\<lambda>_.
          bnd (create_payouts orderID gs) (\<lambda>ps.
          ret (p # ps))))))"

definition po_CreateFromOrder :: "string \<Rightarrow> shop_amount list \<Rightarrow> string \<Rightarrow> (payout_db, payout list) prog" where
  "po_CreateFromOrder orderID groups eventID =
     dedup_tx (ins_event po_processed po_processed_update) [] eventID
       (bnd (create_payouts orderID groups) (\<lambda>created. ret (Commit created)))"

definition po_Get :: "string \<Rightarrow> string \<Rightarrow> (payout_db, payout) prog" where
  "po_Get pid shopID =
     bnd (po_scanOne pid) (\<lambda>p.
     if shopID \<noteq> '''' \<and> po_ShopID p \<noteq> shopID then fail errNoPayout else ret p)"

definition select_payouts :: "string \<Rightarrow> string \<Rightarrow> int \<Rightarrow> payout_db \<Rightarrow> payout list" where
  "select_payouts shopID st cursor d = newest_first po_CreatedAt
     (filter (\<lambda>p. po_CreatedAt p < cursor \<and> (shopID = '''' \<or> po_ShopID p = shopID) \<and>
        (st = '''' \<or> payout_status_str (po_Status p) = st)) (payouts d))"

definition po_List :: "string \<Rightarrow> string \<Rightarrow> int \<Rightarrow> string \<Rightarrow> (payout_db, payout list \<times> string) prog" where
  "po_List shopID st limit0 before =
     (let limit = limit_or 50 limit0 in
      bnd (asks (\<lambda>e. cursor_of e before)) (\<lambda>cursor.
      bnd (map_err wrap (query (\<lambda>_ d. take (Suc limit) (select_payouts shopID st cursor d)))) (\<lambda>out.
      bnd (asks fmt_time) (\<lambda>fmt.
      ret (page_of limit po_CreatedAt fmt out)))))"

definition DuePayoutIDs :: "int \<Rightarrow> int \<Rightarrow> (payout_db, string list) prog" where
  "DuePayoutIDs pendingAfter limit0 =
     (let limit = nat (if limit0 \<le> 0 then 100 else limit0) in
      map_err wrap (query (\<lambda>t d. map po_ID (take limit (sort_key po_CreatedAt
        (filter (\<lambda>p. po_Status p = PayoutPending \<and> po_CreatedAt p < t - pendingAfter) (payouts d)))))))"

definition pay_payout :: "string \<Rightarrow> payout_status \<Rightarrow> int \<Rightarrow> payout_db \<Rightarrow> payout_db" where
  "pay_payout pid st t d = d\<lparr>payouts := upd_rows (\<lambda>p. po_ID p = pid)
     (\<lambda>p. p\<lparr>po_Status := st, po_PaidAt := Some t\<rparr>) (payouts d)\<rparr>"

text \<open>A payout already paid is answered from the transaction, a paid one is read again after it.\<close>

definition store_MarkPaid :: "string \<Rightarrow> (payout_db, payout) prog" where
  "store_MarkPaid pid =
     bnd (in_tx (
       bnd (po_scanOne pid) (\<lambda>p.
       if po_Status p = PayoutPaid then ret (Abort (Some p))
       else bnd (lift_res (po_MarkPaid p)) (\<lambda>p'.
            bnd (map_err wrap (exec (pay_payout (po_ID p') (po_Status p')))) (\<lambda>_.
            bnd (po_emit ''commerce.payout.paid'' (po_OrderID p') (PayoutPaidEvent (po_ID p') (po_OrderID p') (po_ShopID p'))) (\<lambda>_.
            ret (Commit None))))))) (\<lambda>r. case r of
       Some p \<Rightarrow> ret p
     | None \<Rightarrow> po_Get pid '''')"

subsection \<open>The consumer\<close>

text \<open>The map of the sums and the order its keys were first seen in, as one association list.\<close>

fun add_total :: "string \<Rightarrow> money \<Rightarrow> (string \<times> money) list \<Rightarrow> (string \<times> money) list" where
  "add_total shop x [] = [(shop, po_Add \<lparr>currency = '''', cents = 0\<rparr> x)]"
| "add_total shop x ((s, m) # t) = (if s = shop then (s, po_Add m x) # t else (s, m) # add_total shop x t)"

definition wire_amount :: "wire_money \<Rightarrow> money" where
  "wire_amount w = FromUnitsNanos (w_currency w) (w_units w) (w_nanos w)"

definition po_groupsFrom :: "order_line_msg list \<Rightarrow> shop_amount list" where
  "po_groupsFrom ls = map (\<lambda>(shop, m). \<lparr>sa_ShopID = shop, sa_Amount = m\<rparr>)
     (fold (\<lambda>l. add_total (m_shop_id l) (wire_amount (m_line_total l))) ls [])"

definition po_Handler :: "order_event option krecord \<Rightarrow> (payout_db, unit) prog" where
  "po_Handler r =
     (if kr_topic r \<noteq> ''commerce.order.confirmed'' then ret ()
      else case kr_value r of
        Some (OrderConfirmed oid owner pid shipTo ls t) \<Rightarrow>
          discard (po_CreateFromOrder oid (po_groupsFrom ls)
            (event_id r))
      | _ \<Rightarrow> ret ())"

subsection \<open>The settlement sweep\<close>

definition settle :: "string \<Rightarrow> (payout_db, unit) prog" where
  "settle pid = discard (attempt (store_MarkPaid pid))"

definition settlement_sweep :: "int \<Rightarrow> (payout_db, unit) prog" where
  "settlement_sweep pendingAfter =
     bnd (attempt (DuePayoutIDs pendingAfter 100)) (\<lambda>q. case q of
       Inl _ \<Rightarrow> ret ()
     | Inr due \<Rightarrow> foreach settle due)"

subsection \<open>Handlers\<close>

text \<open>The state of a handler: the database and whatever the OpenFGA client reaches.\<close>

record payout_sys = fga_sys +
  py_db :: payout_db

definition at_payouts :: "(payout_db, 'a) prog \<Rightarrow> ('x payout_sys_scheme, 'a) prog" where
  "at_payouts p = zoom py_db py_db_update p"

definition roleFinance :: string where "roleFinance = ''finance''"

definition caller_hasRole :: "caller \<Rightarrow> string \<Rightarrow> bool" where
  "caller_hasRole c r = (case c of None \<Rightarrow> False | Some p \<Rightarrow> HasRole p r)"

definition not_shop_staff :: go_err where
  "not_shop_staff = errs_New KindPermissionDenied ''NOT_SHOP_STAFF''"

definition mayReadShop :: "'d fga_api option \<Rightarrow> caller \<Rightarrow> string \<Rightarrow> ('d, unit) prog" where
  "mayReadShop fga c shopID =
     (if caller_hasRole c roleFinance then ret ()
      else case c of
        None \<Rightarrow> fail not_authenticated
      | Some p \<Rightarrow>
          if shopID = '''' then fail missing_role
          else case fga of
            None \<Rightarrow> fail not_shop_staff
          | Some api \<Rightarrow>
              bnd (attempt (f_Check api (UserObject (Subject p)) RelationStaff (ShopObject shopID))) (\<lambda>r. case r of
                Inl err \<Rightarrow> fail (errs_Wrap err KindPermissionDenied ''AUTHZ_CHECK_FAILED'')
              | Inr ok \<Rightarrow> if \<not> ok then fail not_shop_staff else ret ()))"

definition GetPayout :: "('x payout_sys_scheme) fga_api option \<Rightarrow> caller \<Rightarrow> string \<Rightarrow> ('x payout_sys_scheme, payout) prog" where
  "GetPayout fga c pid =
     bnd (at_payouts (po_Get pid '''')) (\<lambda>p.
     bnd (mayReadShop fga c (po_ShopID p)) (\<lambda>_.
     ret p))"

definition ListPayouts ::
  "('x payout_sys_scheme) fga_api option \<Rightarrow> caller \<Rightarrow> string \<Rightarrow> string \<Rightarrow> int \<Rightarrow> string \<Rightarrow>
   ('x payout_sys_scheme, payout list \<times> string) prog" where
  "ListPayouts fga c shopID st pageSize token =
     (if shopID = '''' \<and> \<not> caller_hasRole c roleFinance then fail (errs_New KindInvalidArgument ''SHOP_ID_REQUIRED'')
      else bnd (mayReadShop fga c shopID) (\<lambda>_.
           at_payouts (po_List shopID st pageSize token)))"

definition srv_MarkPaid :: "caller \<Rightarrow> string \<Rightarrow> (payout_db, payout) prog" where
  "srv_MarkPaid c pid =
     bnd (lift_res (RequireRole c roleFinance)) (\<lambda>_. store_MarkPaid pid)"

end
