(* ===== verification/PayoutProps.thy ===== *)
theory PayoutProps
  imports Payout History Quiet Samples
begin

section \<open>Properties of payouts\<close>

text \<open>
  The changes the payout store may make, that every operation is a sequence of them under any faults, and what
  follows: a shop is owed exactly its lines of a confirmed order, once, and is paid at most once.
\<close>

subsection \<open>Effects\<close>

definition po_key :: "payout \<Rightarrow> string \<times> string" where
  "po_key p = (po_OrderID p, po_ShopID p)"

definition with_payout :: "payout \<Rightarrow> int \<Rightarrow> payout_db \<Rightarrow> payout_db" where
  "with_payout p t d = d\<lparr>payouts := payouts d @ [p], pyox := outbox_add ''commerce.payout.created'' (po_OrderID p)
     (PayoutCreated (po_ID p) (po_OrderID p) (po_ShopID p) (wire_of (po_Amount p)) t) t (pyox d)\<rparr>"

definition paid_payout :: "payout \<Rightarrow> int \<Rightarrow> payout_db \<Rightarrow> payout_db" where
  "paid_payout p t d = (pay_payout (po_ID p) PayoutPaid t d)\<lparr>pyox := outbox_add ''commerce.payout.paid'' (po_OrderID p)
     (PayoutPaidEvent (po_ID p) (po_OrderID p) (po_ShopID p) t) t (pyox d)\<rparr>"

inductive payout_effect :: "payout_db \<Rightarrow> payout_db \<Rightarrow> bool" where
  noted: "\<not> seen_event po_processed ev d \<Longrightarrow> payout_effect d (note_event po_processed_update ev d)"
| create: "p = new_payout oid g cur pid t \<Longrightarrow> sa_ShopID g \<noteq> [] \<Longrightarrow> po_key p \<notin> po_key ` set (payouts d) \<Longrightarrow>
    pid \<notin> po_ID ` set (payouts d) \<Longrightarrow> payout_effect d (with_payout p t d)"
| pay: "find_payout pid d = Some p \<Longrightarrow> po_Status p = PayoutPending \<Longrightarrow> payout_effect d (paid_payout p t d)"

abbreviation payout_effects :: "payout_db \<Rightarrow> payout_db \<Rightarrow> bool" where
  "payout_effects \<equiv> payout_effect\<^sup>*\<^sup>*"

lemma find_payout_id: "find_payout pid d = Some p \<Longrightarrow> po_ID p = pid \<and> p \<in> set (payouts d)"
  by (auto simp: find_payout_def dest: find_in_set)

lemma wp_po_scanOneI:
  assumes "\<And>x fs. Q (Inl x) d (e\<lparr>faults := fs\<rparr>)" "\<And>p fs. find_payout pid d = Some p \<Longrightarrow> Q (Inr p) d (e\<lparr>faults := fs\<rparr>)"
  shows "wp (po_scanOne pid) Q d e"
  using assms unfolding po_scanOne_def by (auto intro!: wp_or_not_foundI wp_by_uuidI)

lemma wp_po_emitI:
  assumes "\<And>x d' fs. Q (Inl x) d' (e\<lparr>faults := fs\<rparr>)"
    and "\<And>fs. Q (Inr ()) (d\<lparr>pyox := outbox_add topic key (ev (now e)) (now e) (pyox d)\<rparr>) (e\<lparr>faults := fs\<rparr>)"
  shows "wp (po_emit topic key ev) Q d e"
  using assms by (auto simp: po_emit_def intro!: wp_execI)

text \<open>What the loop over the groups of one order leaves: the new payouts, one for each group with a shop that had none.\<close>

definition owes :: "string \<Rightarrow> shop_amount list \<Rightarrow> payout_db \<Rightarrow> payout list \<Rightarrow> payout_db \<Rightarrow> bool" where
  "owes oid gs d new d' \<longleftrightarrow> payout_effects d d' \<and> payouts d' = payouts d @ new \<and>
     (\<forall>p\<in>set new. \<exists>g\<in>set gs. sa_ShopID g \<noteq> '''' \<and> po_key p = (oid, sa_ShopID g) \<and>
        cents (po_Amount p) = cents (sa_Amount g) \<and> Some (currency (po_Amount p)) = char3 (currency (sa_Amount g))) \<and>
     (\<forall>g\<in>set gs. sa_ShopID g \<noteq> '''' \<longrightarrow> (oid, sa_ShopID g) \<in> po_key ` set (payouts d'))"

lemma owes_skip:
  assumes "owes oid gs d new d'" "sa_ShopID g = '''' \<or> (oid, sa_ShopID g) \<in> po_key ` set (payouts d)"
  shows "owes oid (g # gs) d new d'"
  using assms by (auto simp: owes_def)

lemma owes_more:
  assumes "owes oid gs (with_payout p t d) new d'" "payout_effect d (with_payout p t d)" "p = new_payout oid g cur pid t"
    "char3 (currency (sa_Amount g)) = Some cur" "sa_ShopID g \<noteq> ''''"
  shows "owes oid (g # gs) d (p # new) d'"
proof -
  have "payout_effects d d'" using assms(1) converse_rtranclp_into_rtranclp [of payout_effect, OF assms(2)] by (simp add: owes_def)
  moreover have "payouts d' = payouts d @ p # new" using assms(1) by (simp add: owes_def with_payout_def)
  ultimately show ?thesis
    using assms(1,4,5) by (auto simp: owes_def assms(3) new_payout_def po_key_def image_iff)
qed

lemma find_new_payout:
  "pid \<notin> po_ID ` set (payouts d) \<Longrightarrow> po_ID p = pid \<Longrightarrow> find_payout pid (d\<lparr>payouts := payouts d @ [p]\<rparr>) = Some p"
  using find_key_None [of po_ID pid "payouts d"] by (simp add: find_payout_def find_append)

lemma wp_create_payouts:
  "wp (create_payouts oid gs) (\<lambda>r d' _. \<forall>new. r = Inr new \<longrightarrow> owes oid gs d new d') d e"
proof (induction gs arbitrary: d e)
  case Nil
  show ?case by (simp add: owes_def)
next
  case (Cons g gs d e)
  let ?p = "\<lambda>cur pid. new_payout oid g cur pid (now e)"
  have key: "po_key (?p cur pid) = (oid, sa_ShopID g)" "po_ID (?p cur pid) = pid" for cur pid
    by (simp_all add: po_key_def new_payout_def)
  have skip: "wp (create_payouts oid gs) (\<lambda>r d' _. \<forall>new. r = Inr new \<longrightarrow> owes oid (g # gs) d new d') d e'"
    if "sa_ShopID g = '''' \<or> (oid, sa_ShopID g) \<in> po_key ` set (payouts d)" for e'
    by (rule wp_mono [OF Cons.IH]) (use that owes_skip in blast)
  have more: "wp (create_payouts oid gs) (\<lambda>r d' e'. case r of
        Inl x \<Rightarrow> \<forall>new. Inl x = Inr new \<longrightarrow> owes oid (g # gs) d new d'
      | Inr a \<Rightarrow> wp (ret (p # a)) (\<lambda>r d' _. \<forall>new. r = Inr new \<longrightarrow> owes oid (g # gs) d new d') d' e')
      (d\<lparr>payouts := payouts d @ [?p cur pid], pyox := outbox_add ''commerce.payout.created'' (po_OrderID p)
         (PayoutCreated (po_ID p) (po_OrderID p) (po_ShopID p) (wire_of (po_Amount p)) (now e)) (now e) (pyox d)\<rparr>) e'"
    if new: "(oid, sa_ShopID g) \<notin> po_key ` set (payouts d)" "pid \<notin> po_ID ` set (payouts d)"
      "char3 (currency (sa_Amount g)) = Some cur" "sa_ShopID g \<noteq> ''''"
      and p: "find_payout pid (d\<lparr>payouts := payouts d @ [?p cur pid]\<rparr>) = Some p" for p pid cur e'
  proof -
    have p': "p = ?p cur pid" using p find_new_payout [OF new(2) key(2)] by simp
    have eff: "payout_effect d (with_payout (?p cur pid) (now e) d)"
      by (rule payout_effect.create [OF refl new(4)]) (use new key in auto)
    show ?thesis
      unfolding p' by (rule wp_mono [OF Cons.IH]) (use owes_more [OF _ eff refl new(3,4)] in \<open>auto simp: with_payout_def split: sum.split\<close>)
  qed
  have keys: "(\<lambda>p. (po_OrderID p, po_ShopID p)) = po_key" by (simp add: fun_eq_iff po_key_def)
  show ?case
    unfolding create_payouts.simps ins_payout_def keys
    by (auto intro!: wp_exec_chkI wp_po_scanOneI wp_po_emitI skip more simp: uniqueViolation_def stringTooLong_def
        split: if_splits option.splits)
qed

lemma noted_then_owes:
  "\<not> seen_event po_processed ev d \<Longrightarrow> owes oid gs (note_event po_processed_update ev d) new d' \<Longrightarrow> payout_effects d d'"
  using payout_effect.noted by (meson converse_rtranclp_into_rtranclp owes_def)

lemma wp_po_CreateFromOrderI:
  assumes "\<And>x d' n fs. payout_effects d d' \<Longrightarrow> Q (Inl x) d' (e\<lparr>drawn := n, faults := fs\<rparr>)"
    and "\<And>fs. seen_event po_processed ev d \<Longrightarrow> Q (Inr []) d (e\<lparr>faults := fs\<rparr>)"
    and "\<And>new d' n fs. \<not> seen_event po_processed ev d \<Longrightarrow>
      owes oid gs (note_event po_processed_update ev d) new d' \<Longrightarrow> Q (Inr new) d' (e\<lparr>drawn := n, faults := fs\<rparr>)"
  shows "wp (po_CreateFromOrder oid gs ev) Q d e"
proof -
  have "tame (create_payouts oid gs)" for gs
    by (induction gs) (auto simp: ins_payout_def po_scanOne_def or_not_found_def by_uuid_def po_emit_def intro!: tame_intros)
  then show ?thesis
    unfolding po_CreateFromOrder_def
    by (intro wp_dedup_resultI [where R = "owes oid gs"] wp_create_payouts) (use assms noted_then_owes in auto)
qed

lemma wp_store_MarkPaidI:
  assumes err: "\<And>x fs. Q (Inl x) d (e\<lparr>faults := fs\<rparr>)"
    and same: "\<And>p fs. find_payout pid d = Some p \<Longrightarrow> po_Status p = PayoutPaid \<Longrightarrow> Q (Inr p) d (e\<lparr>faults := fs\<rparr>)"
    and lost: "\<And>p x fs. find_payout pid d = Some p \<Longrightarrow> po_Status p = PayoutPending \<Longrightarrow>
      Q (Inl x) (paid_payout p (now e) d) (e\<lparr>faults := fs\<rparr>)"
    and paid: "\<And>p p' fs. find_payout pid d = Some p \<Longrightarrow> po_Status p = PayoutPending \<Longrightarrow>
      find_payout pid (paid_payout p (now e) d) = Some p' \<Longrightarrow> Q (Inr p') (paid_payout p (now e) d) (e\<lparr>faults := fs\<rparr>)"
  shows "wp (store_MarkPaid pid) Q d e"
proof -
  have pend: "po_Status p \<noteq> PayoutPaid \<longleftrightarrow> po_Status p = PayoutPending" for p by (cases "po_Status p") auto
  have eq: "(pay_payout (po_ID p) PayoutPaid t d)\<lparr>pyox := outbox_add ''commerce.payout.paid'' (po_OrderID p)
     (PayoutPaidEvent (po_ID p) (po_OrderID p) (po_ShopID p) t) t (pyox (pay_payout (po_ID p) PayoutPaid t d))\<rparr> = paid_payout p t d" for p t
    by (simp add: paid_payout_def pay_payout_def)
  show ?thesis
    unfolding store_MarkPaid_def po_Get_def
    by (auto intro!: wp_in_txI wp_po_scanOneI wp_execI wp_po_emitI
        simp: err same lost paid pend eq po_MarkPaid_def po_CanTransitionTo_def split: sum.splits)
qed

subsection \<open>The machine and its invariant\<close>

datatype payout_op = PayoutCreate string "shop_amount list" string | PayoutPay string | PayoutSweep int

fun payout_prog :: "payout_op \<Rightarrow> (payout_db, unit) prog" where
  "payout_prog (PayoutCreate oid gs ev) = discard (po_CreateFromOrder oid gs ev)"
| "payout_prog (PayoutPay pid) = discard (store_MarkPaid pid)"
| "payout_prog (PayoutSweep age) = settlement_sweep age"

definition payout_step :: "payout_op \<Rightarrow> env \<Rightarrow> payout_db \<Rightarrow> payout_db" where
  "payout_step op = after (payout_prog op)"

lemma then_pay: "payout_effects s d \<Longrightarrow> find_payout pid d = Some p \<Longrightarrow> po_Status p = PayoutPending \<Longrightarrow> payout_effects s (paid_payout p t d)"
  using payout_effect.pay by (meson rtranclp.rtrancl_into_rtrancl)

lemma wp_MarkPaid_effects: "payout_effects s d \<Longrightarrow> wp (store_MarkPaid pid) (\<lambda>_ d' _. payout_effects s d') d e"
  by (auto intro!: wp_store_MarkPaidI intro: then_pay)

lemma payout_prog_effects: "wp (payout_prog op) (\<lambda>_ d' _. payout_effects d d') d e"
proof (cases op)
  case (PayoutCreate oid gs ev)
  then show ?thesis by (auto intro!: wp_po_CreateFromOrderI intro: noted_then_owes)
next
  case (PayoutPay pid)
  then show ?thesis by (simp add: wp_MarkPaid_effects)
next
  case (PayoutSweep age)
  have "wp (foreach settle xs) (\<lambda>_ d' _. payout_effects d d') d e1" for xs e1
    by (rule wp_foreach_inv) (simp_all add: settle_def wp_MarkPaid_effects)
  then show ?thesis
    using PayoutSweep by (auto simp: settlement_sweep_def DuePayoutIDs_def Let_def intro!: wp_queryI)
qed

lemma payout_step_effects: "payout_effects d (payout_step op e d)"
  unfolding payout_step_def by (rule after_wp [OF payout_prog_effects])

lemma reach_payout_effects: "reach payout_step d d' \<Longrightarrow> payout_effects d d'"
  by (induction rule: reach.induct) (auto intro: rtranclp_trans [OF _ payout_step_effects])

inductive payout_allowed :: "payout_status \<Rightarrow> payout_status \<Rightarrow> bool" where
  "payout_allowed PayoutPending PayoutPaid"

inductive_simps payout_allowed_simps [simp]: "payout_allowed s t"

fun payout_event_status :: "payout_event \<Rightarrow> string \<times> payout_status" where
  "payout_event_status (PayoutCreated pid _ _ _ _) = (pid, PayoutPending)"
| "payout_event_status (PayoutPaidEvent pid _ _ _) = (pid, PayoutPaid)"

definition payout_log :: "payout_db \<Rightarrow> (string \<times> payout_status) list" where
  "payout_log d = map payout_event_status (events (pyox d))"

definition payout_standing :: "payout_db \<Rightarrow> (string \<times> payout_status) list" where
  "payout_standing d = map (\<lambda>p. (po_ID p, po_Status p)) (payouts d)"

definition payout_ok :: "payout \<Rightarrow> bool" where
  "payout_ok p \<longleftrightarrow> (po_PaidAt p \<noteq> None) = (po_Status p = PayoutPaid) \<and> po_ShopID p \<noteq> ''''"

definition payout_inv :: "payout_db \<Rightarrow> bool" where
  "payout_inv d \<longleftrightarrow> outbox_wf (pyox d) \<and> distinct (po_processed d) \<and> distinct (map po_key (payouts d)) \<and>
     log_ok payout_allowed PayoutPending (payout_log d) (payout_standing d) \<and>
     (\<forall>p\<in>set (payouts d). payout_ok p)"

lemma payout_standing_ids [simp]: "fst ` set (payout_standing d) = po_ID ` set (payouts d)"
  by (force simp: payout_standing_def)

lemma payout_inv_pay:
  assumes inv: "payout_inv d" and p: "find_payout pid d = Some p" "po_Status p = PayoutPending"
  shows "payout_inv (paid_payout p t d)"
proof -
  have id: "po_ID p = pid" "p \<in> set (payouts d)" using find_payout_id [OF p(1)] by auto
  have "payout_standing (paid_payout p t d) = upd_rows (\<lambda>x. fst x = pid) (\<lambda>_. (pid, PayoutPaid)) (payout_standing d)"
    by (simp add: paid_payout_def pay_payout_def id payout_standing_def upd_rows_def comp_def if_distrib cong: if_cong)
  moreover have "log_ok payout_allowed PayoutPending (payout_log d @ [(pid, PayoutPaid)])
      (upd_rows (\<lambda>x. fst x = pid) (\<lambda>_. (pid, PayoutPaid)) (payout_standing d))"
  proof (rule log_ok_move [where s = PayoutPending])
    show "log_ok payout_allowed PayoutPending (payout_log d) (payout_standing d)" using inv by (simp add: payout_inv_def)
    show "(pid, PayoutPending) \<in> set (payout_standing d)" using id p(2) by (force simp: payout_standing_def)
  qed simp
  moreover have "map po_key (payouts (paid_payout p t d)) = map po_key (payouts d)"
    unfolding paid_payout_def pay_payout_def by (simp, rule map_upd_rows) (simp add: po_key_def)
  moreover have "payout_ok x \<Longrightarrow> payout_ok (x\<lparr>po_Status := PayoutPaid, po_PaidAt := Some t\<rparr>)" for x
    by (simp add: payout_ok_def)
  ultimately show ?thesis
    using inv by (auto simp: payout_inv_def paid_payout_def pay_payout_def payout_log_def id in_upd_rows)
qed

lemma payout_inv_create:
  assumes "payout_inv d" "p = new_payout oid g cur pid t" "sa_ShopID g \<noteq> ''''" "po_key p \<notin> po_key ` set (payouts d)"
    "pid \<notin> po_ID ` set (payouts d)"
  shows "payout_inv (with_payout p t d)"
proof -
  have p: "po_ID p = pid" "po_Status p = PayoutPending" "payout_ok p" using assms(3) by (simp_all add: assms(2) new_payout_def payout_ok_def)
  have "log_ok payout_allowed PayoutPending (payout_log d @ [(pid, PayoutPending)]) (payout_standing d @ [(pid, PayoutPending)])"
    using assms by (intro log_ok_insert) (auto simp: payout_inv_def)
  then show ?thesis
    using assms(1,4) p by (auto simp: payout_inv_def with_payout_def payout_log_def payout_standing_def)
qed

lemma payout_inv_noted: "\<not> seen_event po_processed ev d \<Longrightarrow> payout_inv d \<Longrightarrow> payout_inv (note_event po_processed_update ev d)"
  by (auto simp: payout_inv_def note_event_def seen_event_def payout_log_def payout_standing_def)

lemma payout_inv_effect: "payout_effect d d' \<Longrightarrow> payout_inv d \<Longrightarrow> payout_inv d'"
  by (induction rule: payout_effect.induct) (auto intro: payout_inv_noted payout_inv_create payout_inv_pay)

lemma payout_inv_effects: "payout_effects d d' \<Longrightarrow> payout_inv d \<Longrightarrow> payout_inv d'"
  by (induction rule: rtranclp_induct) (auto intro: payout_inv_effect)

interpretation payout_machine: inv_machine payout_step empty_payout_db payout_inv
proof unfold_locales
  show "payout_inv empty_payout_db"
    by (simp add: payout_inv_def empty_payout_db_def payout_log_def payout_standing_def)
  show "payout_inv d \<Longrightarrow> payout_inv (payout_step op e d)" for d op e
    by (rule payout_inv_effects [OF payout_step_effects])
qed

subsection \<open>What a payout keeps\<close>

lemma payout_effect_keeps:
  assumes "payout_effect d d'" "p \<in> set (payouts d)"
  shows "\<exists>p'\<in>set (payouts d'). po_key p' = po_key p \<and> po_Amount p' = po_Amount p"
  using assms
proof (induction rule: payout_effect.induct)
  case (noted ev d)
  then show ?case by (auto simp: note_event_def)
next
  case (create q oid g cur pid t d)
  then show ?case by (auto simp: with_payout_def)
next
  case (pay pid d q t)
  then show ?case
    by (intro bexI [of _ "if po_ID p = po_ID q then p\<lparr>po_Status := PayoutPaid, po_PaidAt := Some t\<rparr> else p"])
       (auto simp: paid_payout_def pay_payout_def in_upd_rows po_key_def)
qed

lemma payout_effects_keep:
  assumes "payout_effects d d'" "p \<in> set (payouts d)"
  shows "\<exists>p'\<in>set (payouts d'). po_key p' = po_key p \<and> po_Amount p' = po_Amount p"
  using assms
proof (induction rule: rtranclp_induct)
  case (step y z)
  then show ?case using payout_effect_keeps [OF step(2)] by metis
qed auto

subsection \<open>What a shop is owed\<close>

definition total_at :: "(string \<times> money) list \<Rightarrow> string \<Rightarrow> int" where
  "total_at m s = (case map_of m s of None \<Rightarrow> 0 | Some x \<Rightarrow> cents x)"

lemma total_at_add: "total_at (add_total s x m) i = (if i = s then i64 (total_at m i + cents x) else total_at m i)"
  by (induction s x m rule: add_total.induct) (auto simp: total_at_def po_Add_def)

lemma add_total_keys: "fst ` set (add_total s x m) = insert s (fst ` set m)"
  by (induction s x m rule: add_total.induct) auto

lemma add_total_distinct: "distinct (map fst m) \<Longrightarrow> distinct (map fst (add_total s x m))"
  by (induction s x m rule: add_total.induct) (use add_total_keys in auto)

definition line_amounts :: "order_line_msg list \<Rightarrow> string \<Rightarrow> int" where
  "line_amounts ls shop = sum_list (map (\<lambda>l. cents (wire_amount (m_line_total l))) (filter (\<lambda>l. m_shop_id l = shop) ls))"

lemma totals_fold:
  fixes ls :: "order_line_msg list"
  defines "add \<equiv> \<lambda>l. add_total (m_shop_id l) (wire_amount (m_line_total l))"
  shows "in_i64 (total_at m i) \<Longrightarrow> total_at (fold add ls m) i = i64 (total_at m i + line_amounts ls i)"
    and "fst ` set (fold add ls m) = fst ` set m \<union> m_shop_id ` set ls"
    and "distinct (map fst m) \<Longrightarrow> distinct (map fst (fold add ls m))"
  unfolding add_def
  by (induction ls arbitrary: m)
     (auto simp: line_amounts_def total_at_add add_total_keys add_total_distinct i64_add add.assoc)

lemma po_groupsFrom_amount:
  assumes "g \<in> set (po_groupsFrom ls)"
  shows "cents (sa_Amount g) = i64 (line_amounts ls (sa_ShopID g))"
proof -
  let ?m = "fold (\<lambda>l. add_total (m_shop_id l) (wire_amount (m_line_total l))) ls []"
  obtain s x where g: "(s, x) \<in> set ?m" "sa_ShopID g = s" "sa_Amount g = x" using assms by (auto simp: po_groupsFrom_def)
  have "map_of ?m s = Some x" using g(1) totals_fold(3) [of "[]" ls] by (simp add: map_of_is_SomeI)
  then show ?thesis using totals_fold(1) [of "[]" s ls] g by (simp add: total_at_def in_i64_def)
qed

lemma po_groupsFrom_shops: "sa_ShopID ` set (po_groupsFrom ls) = m_shop_id ` set ls"
proof -
  have "sa_ShopID \<circ> (\<lambda>(shop, m). \<lparr>sa_ShopID = shop, sa_Amount = m\<rparr>) = fst" by auto
  then show ?thesis using totals_fold(2) [of ls "[]"] by (simp add: po_groupsFrom_def image_comp)
qed

lemma wire_amount_line: "in_i64 (cents x) \<Longrightarrow> wire_amount (wire_of x) = x"
  using FromUnitsNanos_UnitsNanos [of x] by (cases "UnitsNanos x") (simp add: wire_amount_def wire_of_def)

lemma payout_walk:
  "walk payout_allowed PayoutPending h s \<Longrightarrow> h = (if s = PayoutPaid then [PayoutPending, PayoutPaid] else [PayoutPending])"
proof -
  assume w: "walk payout_allowed PayoutPending h s"
  then obtain t where h: "h = PayoutPending # t" by (cases h) (auto simp: walk_def)
  show ?thesis
  proof (cases t)
    case Nil
    then show ?thesis using w h by (simp add: walk_def)
  next
    case (Cons a u)
    then have a: "a = PayoutPaid" using w h by (simp add: walk_def)
    then have "u = []" using w h Cons by (cases u) (auto simp: walk_def)
    then show ?thesis using w h Cons a by (simp add: walk_def)
  qed
qed

definition owed :: "order \<Rightarrow> string \<Rightarrow> int" where
  "owed ord shop = sum_list (map (\<lambda>l. cents (l_LineTotal l)) (filter (\<lambda>l. l_ShopID l = shop) (Lines ord)))"

lemma line_amounts_order:
  assumes "\<forall>l\<in>set (Lines ord). in_i64 (cents (l_LineTotal l))"
  shows "line_amounts (linesProto (Lines ord)) shop = owed ord shop"
  using assms wire_amount_line
  by (auto simp: line_amounts_def owed_def linesProto_def filter_map comp_def line_msg_def intro!: arg_cong [of _ _ sum_list])

subsection \<open>Properties\<close>

lemma payout_row_unique: "payout_inv d \<Longrightarrow> p \<in> set (payouts d) \<Longrightarrow> filter (\<lambda>x. po_key x = po_key p) (payouts d) = [p]"
  by (intro filter_key_unique) (auto simp: payout_inv_def)

lemma payout_row_history:
  assumes "payout_inv d" "p \<in> set (payouts d)"
  shows "history_of (po_ID p) (payout_log d) =
    (if po_Status p = PayoutPaid then [PayoutPending, PayoutPaid] else [PayoutPending])"
proof -
  have "(po_ID p, po_Status p) \<in> set (payout_standing d)" using assms(2) by (auto simp: payout_standing_def)
  then show ?thesis using assms(1) log_okD payout_walk unfolding payout_inv_def by meson
qed

text \<open>C30: the payout of a confirmed order.  When the consumer has handled the confirmation of an order that had no
  payout, each shop of the order has, from then on and whatever else happens (redeliveries, other orders, sweeps and
  payments, each under any faults), exactly one payout of that order; its amount is the sum of the totals of the
  order's lines of the shop; and the service announced it once as created and, when it is paid, once as paid.\<close>

theorem shop_paid_its_lines:
  assumes "reach payout_step empty_payout_db d" "\<not> seen_event po_processed ev d" "oid \<notin> po_OrderID ` set (payouts d)"
    and "po_CreateFromOrder oid (po_groupsFrom (linesProto (Lines ord))) ev d e = (Inr new, d1, e1)"
    and "reach payout_step d1 d2"
    and "\<forall>l\<in>set (Lines ord). in_i64 (cents (l_LineTotal l))" "shop \<in> l_ShopID ` set (Lines ord)" "shop \<noteq> ''''"
  shows "\<exists>p. filter (\<lambda>x. po_key x = (oid, shop)) (payouts d2) = [p] \<and> cents (po_Amount p) = i64 (owed ord shop) \<and>
    history_of (po_ID p) (payout_log d2) = (if po_Status p = PayoutPaid then [PayoutPending, PayoutPaid] else [PayoutPending])"
proof -
  let ?gs = "po_groupsFrom (linesProto (Lines ord))"
  have owes: "owes oid ?gs (note_event po_processed_update ev d) new d1"
  proof -
    have "wp (po_CreateFromOrder oid ?gs ev) (\<lambda>r d' _. \<forall>new. r = Inr new \<longrightarrow> owes oid ?gs (note_event po_processed_update ev d) new d') d e"
      using assms(2) by (intro wp_po_CreateFromOrderI) simp_all
    from wpD [OF this assms(4)] show ?thesis by simp
  qed
  have new: "payouts d1 = payouts d @ new" using owes by (simp add: owes_def note_event_def)
  have "m_shop_id ` set (linesProto (Lines ord)) = l_ShopID ` set (Lines ord)" by (simp add: linesProto_def image_image line_msg_def)
  then obtain g where g: "g \<in> set ?gs" "sa_ShopID g = shop" using assms(7) po_groupsFrom_shops by (metis imageE)
  moreover have "(oid, sa_ShopID g) \<in> po_key ` set (payouts d1)" using owes g assms(8) unfolding owes_def by blast
  ultimately obtain p where p: "p \<in> set (payouts d1)" "po_key p = (oid, shop)" by auto
  then have "p \<in> set new" using assms(3) new by (auto simp: po_key_def)
  then obtain g' where g': "g' \<in> set ?gs" "po_key p = (oid, sa_ShopID g')" "cents (po_Amount p) = cents (sa_Amount g')"
    using owes by (auto simp: owes_def)
  have amount: "cents (po_Amount p) = i64 (owed ord shop)"
    using po_groupsFrom_amount [OF g'(1)] g'(2,3) p(2) line_amounts_order [OF assms(6)] by simp
  obtain p' where p': "p' \<in> set (payouts d2)" "po_key p' = (oid, shop)" "po_Amount p' = po_Amount p"
    using payout_effects_keep [OF reach_payout_effects [OF assms(5)] p(1)] p(2) by auto
  have "payout_effects d d1" using noted_then_owes [OF assms(2) owes] .
  then have "payout_inv d2"
    using payout_machine.reach_inv [OF assms(1)] reach_payout_effects [OF assms(5)] by (meson payout_inv_effects)
  then show ?thesis using payout_row_unique [of d2 p'] payout_row_history [of d2 p'] p' amount by metis
qed

definition paid_sale :: payout_db where
  "paid_sale = run_ops payout_step [(PayoutSweep 5, env_at 9)]
     (after (po_CreateFromOrder ''o1'' (po_groupsFrom (linesProto (Lines (sale ''o1'' ''u'')))) ''ev'') (env_at 1) empty_payout_db)"

theorem shop_paid_its_lines_witness:
  "\<exists>p. filter (\<lambda>x. po_key x = (''o1'', ''s1'')) (payouts paid_sale) = [p] \<and> cents (po_Amount p) = 1000 \<and>
     po_Status p = PayoutPaid \<and> history_of (po_ID p) (payout_log paid_sale) = [PayoutPending, PayoutPaid]"
proof -
  let ?c = "po_CreateFromOrder ''o1'' (po_groupsFrom (linesProto (Lines (sale ''o1'' ''u'')))) ''ev''"
  let ?d1 = "after ?c (env_at 1) empty_payout_db"
  have "case ?c empty_payout_db (env_at 1) of (r, x) \<Rightarrow> (case r of Inr _ \<Rightarrow> True | Inl _ \<Rightarrow> False)" by code_simp
  then obtain new e1 where run: "?c empty_payout_db (env_at 1) = (Inr new, ?d1, e1)"
    by (auto simp: after_def split: prod.splits sum.splits)
  have "reach payout_step ?d1 paid_sale" unfolding paid_sale_def by (rule reach_run_ops [OF reach.init])
  moreover have "\<not> seen_event po_processed ''ev'' empty_payout_db" "''o1'' \<notin> po_OrderID ` set (payouts empty_payout_db)"
    by code_simp+
  moreover have "\<forall>l\<in>set (Lines (sale ''o1'' ''u'')). in_i64 (cents (l_LineTotal l))" "''s1'' \<in> l_ShopID ` set (Lines (sale ''o1'' ''u''))"
    by (simp_all add: sale_def sale_line_def usd_def in_i64_def)
  ultimately obtain p where p: "filter (\<lambda>x. po_key x = (''o1'', ''s1'')) (payouts paid_sale) = [p]"
      "cents (po_Amount p) = i64 (owed (sale ''o1'' ''u'') ''s1'')"
      "history_of (po_ID p) (payout_log paid_sale) = (if po_Status p = PayoutPaid then [PayoutPending, PayoutPaid] else [PayoutPending])"
    using shop_paid_its_lines [OF reach.init _ _ run, of paid_sale "''s1''"] by auto
  have "map po_Status (filter (\<lambda>x. po_key x = (''o1'', ''s1'')) (payouts paid_sale)) = [PayoutPaid]" by code_simp
  moreover have "i64 (owed (sale ''o1'' ''u'') ''s1'') = 1000" by code_simp
  ultimately show ?thesis using p by auto
qed

subsection \<open>Who may read\<close>

lemma wp_mayReadShopI:
  assumes fga: "fga_service api get"
    and deny: "\<And>x e'. Q (Inl x) d e'"
    and allow: "\<And>e'. caller_hasRole c roleFinance \<or>
      (\<exists>p. c = Some p \<and> fga_staff (get d) (UserObject (Subject p)) (ShopObject shop)) \<Longrightarrow> Q (Inr ()) d e'"
  shows "wp (mayReadShop (Some api) c shop) Q d e"
proof -
  have staff: "fga_allowed ts u RelationStaff (ShopObject s) \<longleftrightarrow> fga_staff ts u (ShopObject s)" for ts u s
    by (simp add: fga_allowed_def fga_names)
  show ?thesis
    unfolding mayReadShop_def
    using wp_mono [OF fga_service.check_law [OF fga]] deny allow
    by (auto simp: staff split: option.splits sum.splits intro!: wp_mono [OF fga_service.check_law [OF fga]])
qed

text \<open>C31: reading payouts is authorised.  A page of payouts that \<open>ListPayouts\<close> answers was asked by a caller with the
  finance role, or, of a named shop of which every payout on the page is, by a caller whom the tuples make staff or
  owner of the shop; nothing is changed.\<close>

theorem payouts_read_by_staff:
  assumes "fga_service api get" "ListPayouts (Some api) c shop st pg tok d e = (Inr (ps, next_tok), d', e')"
  shows "d' = d \<and> (caller_hasRole c roleFinance \<or>
    (\<exists>p. c = Some p \<and> fga_staff (get d) (UserObject (Subject p)) (ShopObject shop) \<and> filter (\<lambda>x. po_ShopID x \<noteq> shop) ps = []))"
proof -
  have page: "filter (\<lambda>x. po_ShopID x \<noteq> shop) ps = []"
    if "page_of n po_CreatedAt f (take k (select_payouts shop st cur db)) = (ps, tk)" "shop \<noteq> ''''" for n f k cur db ps tk
  proof -
    have "set ps \<subseteq> set (select_payouts shop st cur db)"
      using that(1) by (auto simp: page_of_def dest!: in_set_takeD split: if_splits)
    then show ?thesis using that(2) by (auto simp: select_payouts_def newest_first_def filter_empty_conv)
  qed
  have same: "py_db_update (\<lambda>_. py_db d) d = d" by (cases d) simp
  have "wp (ListPayouts (Some api) c shop st pg tok) (\<lambda>r d' _. \<forall>ps next_tok. r = Inr (ps, next_tok) \<longrightarrow> d' = d \<and>
      (caller_hasRole c roleFinance \<or> (\<exists>p. c = Some p \<and> fga_staff (get d) (UserObject (Subject p)) (ShopObject shop) \<and>
        filter (\<lambda>x. po_ShopID x \<noteq> shop) ps = []))) d e"
    unfolding ListPayouts_def
    by (auto simp: at_payouts_def po_List_def Let_def simp: same intro!: wp_mayReadShopI [OF assms(1)] wp_queryI) (use page in blast)
  from wpD [OF this assms(2)] show ?thesis by simp
qed

definition payout_desk :: payout_sys where
  "payout_desk = \<lparr>tuples = [Tuple ''user:v'' ''staff'' ''shop:s1''], py_db = paid_sale\<rparr>"

definition shop_page :: "(go_err + payout list \<times> string) \<times> payout_sys \<times> env" where
  "shop_page = ListPayouts (Some openfga) (Some \<lparr>Subject = ''v'', Email = '''', Roles = []\<rparr>) ''s1'' '''' 10 '''' payout_desk (env_at 20)"

theorem payouts_read_by_staff_witness:
  "\<exists>ps tok d' e'. shop_page = (Inr (ps, tok), d', e') \<and> map (cents \<circ> po_Amount) ps = [1000] \<and> d' = payout_desk \<and>
     filter (\<lambda>x. po_ShopID x \<noteq> ''s1'') ps = []"
proof -
  have run: "case shop_page of (Inr (ps, tok), x) \<Rightarrow> map (cents \<circ> po_Amount) ps = [1000] | _ \<Rightarrow> False" by code_simp
  then obtain ps tok d' e' where p: "shop_page = (Inr (ps, tok), d', e')" "map (cents \<circ> po_Amount) ps = [1000]"
    by (auto split: prod.splits sum.splits)
  have "\<not> caller_hasRole (Some \<lparr>Subject = ''v'', Email = '''', Roles = []\<rparr>) roleFinance" by code_simp
  then have "d' = payout_desk \<and> filter (\<lambda>x. po_ShopID x \<noteq> ''s1'') ps = []"
    using payouts_read_by_staff [OF openfga.fga_service_axioms p(1) [unfolded shop_page_def]] by blast
  then show ?thesis by (intro exI conjI) (rule p(1), rule p(2), simp_all)
qed

end
