(* ===== verification/OrderRpc.thy ===== *)
theory OrderRpc
  imports SagaReturns Auth Fga
begin

section \<open>The order service's handlers (services/order/internal/grpcsvc)\<close>

text \<open>
  What a caller of OrderService may do: the handlers of server.go and returns.go over the saga and the store, with
  their scoping of every read to the caller unless it is an operator, and the sharing of an order by OpenFGA
  tuples (sharing.go).  The clients of the saga, the API of OpenFGA (\<open>None\<close> when it is not configured) and the
  caller's principal are arguments.  In the answers an instant stands for its RFC 3339 text.
\<close>

subsection \<open>Messages\<close>

datatype order_status_msg = ORDER_STATUS_UNSPECIFIED | ORDER_STATUS_PENDING_PAYMENT | ORDER_STATUS_CONFIRMED
  | ORDER_STATUS_CANCELLED | ORDER_STATUS_FULFILLED

definition statusToProto :: "status \<Rightarrow> order_status_msg" where
  "statusToProto s = (case s of
       PENDING_PAYMENT \<Rightarrow> ORDER_STATUS_PENDING_PAYMENT
     | CONFIRMED \<Rightarrow> ORDER_STATUS_CONFIRMED
     | CANCELLED \<Rightarrow> ORDER_STATUS_CANCELLED
     | FULFILLED \<Rightarrow> ORDER_STATUS_FULFILLED)"

record order_view =
  v_id :: string
  v_owner_id :: string
  v_status :: order_status_msg
  v_subtotal :: wire_money
  v_discount :: wire_money
  v_tax :: wire_money
  v_total :: wire_money
  v_ship_to :: address
  v_payment_id :: string
  v_reservation_id :: string
  v_cancel_reason :: string
  v_created_at :: int
  v_updated_at :: int
  v_lines :: "order_line_msg list"

definition ord_toProto :: "order \<Rightarrow> order_view" where
  "ord_toProto ord = \<lparr>v_id = ID ord, v_owner_id = OwnerID ord, v_status = statusToProto (Status ord),
     v_subtotal = wire_of (Subtotal ord), v_discount = wire_of (Discount ord), v_tax = wire_of (Tax ord),
     v_total = wire_of (Total ord), v_ship_to = ShipTo ord, v_payment_id = PaymentID ord,
     v_reservation_id = ReservationID ord, v_cancel_reason = CancelReason ord,
     v_created_at = CreatedAt ord, v_updated_at = UpdatedAt ord,
     v_lines = map (\<lambda>l. \<lparr>m_product_id = l_ProductID l, m_title = l_Title l, m_quantity = l_Quantity l,
       m_shop_id = l_ShopID l, m_unit_price = wire_of (l_UnitPrice l), m_line_total = wire_of (l_LineTotal l)\<rparr>) (Lines ord)\<rparr>"

record return_view =
  rv_id :: string
  rv_order_id :: string
  rv_owner_id :: string
  rv_status :: return_status
  rv_reason :: string
  rv_refund_total :: wire_money
  rv_decided_by :: string
  rv_decision_note :: string
  rv_created_at :: int
  rv_updated_at :: int
  rv_lines :: "(string \<times> int32 \<times> wire_money) list"

definition returnToProto :: "rma \<Rightarrow> return_view" where
  "returnToProto r = \<lparr>rv_id = r_ID r, rv_order_id = r_OrderID r, rv_owner_id = r_OwnerID r, rv_status = r_Status r,
     rv_reason = r_Reason r, rv_refund_total = wire_of (r_RefundTotal r), rv_decided_by = r_DecidedBy r,
     rv_decision_note = r_DecisionNote r, rv_created_at = r_CreatedAt r, rv_updated_at = r_UpdatedAt r,
     rv_lines = map (\<lambda>l. (rl_ProductID l, rl_Quantity l, wire_of (rl_RefundAmount l))) (r_Lines r)\<rparr>"

subsection \<open>Orders\<close>

definition ord_roleOrderManager :: string where "ord_roleOrderManager = ''order_manager''"

definition caller_principal :: "caller \<Rightarrow> principal res" where
  "caller_principal c = (case c of None \<Rightarrow> Inl not_authenticated | Some p \<Rightarrow> Inr p)"

definition is_operator :: "principal \<Rightarrow> bool" where
  "is_operator p \<longleftrightarrow> HasRole p ord_roleOrderManager"

record create_order_req =
  co_CartId :: string
  co_CurrencyCode :: string
  co_CouponCode :: string
  co_PaymentMethodToken :: string
  co_ShipTo :: address
  co_IdempotencyKey :: string

record create_order_resp =
  cr_OrderId :: string
  cr_Status :: order_status_msg
  cr_PaymentId :: string
  cr_PaymentClientSecret :: string
  cr_Total :: wire_money

text \<open>The idempotency key of the request is not read: the field of the input stays empty.\<close>

definition input_of :: "principal \<Rightarrow> create_order_req \<Rightarrow> create_input" where
  "input_of p rq = \<lparr>in_OwnerID = Subject p, in_CartID = co_CartId rq, in_Currency = co_CurrencyCode rq,
     in_CouponCode = co_CouponCode rq, in_MethodToken = co_PaymentMethodToken rq, in_ShipTo = co_ShipTo rq,
     in_IdempotencyKey = ''''\<rparr>"

definition srv_CreateOrder :: "('x sys_scheme) clients \<Rightarrow> caller \<Rightarrow> create_order_req \<Rightarrow> ('x sys_scheme, create_order_resp) prog" where
  "srv_CreateOrder cl c rq = (case c of
       None \<Rightarrow> fail not_authenticated
     | Some p \<Rightarrow>
         bnd (CreateOrder cl (input_of p rq)) (\<lambda>r.
         ret \<lparr>cr_OrderId = ID (res_Order r), cr_Status = statusToProto (Status (res_Order r)),
              cr_PaymentId = PaymentID (res_Order r), cr_PaymentClientSecret = res_PaymentSecret r,
              cr_Total = wire_of (Total (res_Order r))\<rparr>))"

definition GetOrder :: "('x sys_scheme) fga_api option \<Rightarrow> caller \<Rightarrow> string \<Rightarrow> ('x sys_scheme, order_view) prog" where
  "GetOrder fga c oid =
     bnd (lift_res (caller_principal c)) (\<lambda>p.
     let owner = (if is_operator p then '''' else Subject p) in
     bnd (attempt (at_store (store_get oid owner))) (\<lambda>r. case r of
       Inr ord \<Rightarrow> ret (ord_toProto ord)
     | Inl err \<Rightarrow>
         if owner \<noteq> '''' \<and> errs_Is err KindNotFound then
           (case fga of
              None \<Rightarrow> fail err
            | Some api \<Rightarrow>
                bnd (attempt (f_Check api (UserObject (Subject p)) RelationViewer (OrderObject oid))) (\<lambda>q.
                if q = Inr True then bnd (at_store (store_get oid '''')) (\<lambda>shared. ret (ord_toProto shared))
                else fail err))
         else fail err))"

record list_orders_req =
  lo_OwnerId :: string
  lo_Status :: string
  lo_PageSize :: int32
  lo_PageToken :: string

definition ListOrders :: "caller \<Rightarrow> list_orders_req \<Rightarrow> ('x sys_scheme, order_view list \<times> string) prog" where
  "ListOrders c rq =
     bnd (lift_res (caller_principal c)) (\<lambda>p.
     let (owner, st) = (if is_operator p then (lo_OwnerId rq, lo_Status rq) else (Subject p, '''')) in
     bnd (at_store (store_List owner st (lo_PageSize rq) (lo_PageToken rq))) (\<lambda>(os, next_token).
     ret (map ord_toProto os, next_token)))"

text \<open>Without an event id \<open>Apply\<close> never answers "already processed", so the order to compensate is there.\<close>

definition CancelOrder :: "('x sys_scheme) clients \<Rightarrow> caller \<Rightarrow> string \<Rightarrow> ('x sys_scheme, order_view option) prog" where
  "CancelOrder cl c oid =
     bnd (lift_res (caller_principal c)) (\<lambda>p.
     bnd (at_store (store_get oid (Subject p))) (\<lambda>ord.
     bnd (at_store (Apply (ID ord) '''' (Cancel ''CANCELLED_BY_CUSTOMER''))) (\<lambda>applied.
     bnd (CompensateCancelled cl applied) (\<lambda>_.
     ret (map_option ord_toProto applied)))))"

subsection \<open>Returns\<close>

definition srv_RequestReturn :: "caller \<Rightarrow> string \<Rightarrow> string \<Rightarrow> (string \<times> int32) list \<Rightarrow> ('x sys_scheme, return_view) prog" where
  "srv_RequestReturn c oid reason ls =
     bnd (lift_res (caller_principal c)) (\<lambda>p.
     bnd (RequestReturn (Subject p) oid reason ls) (\<lambda>r.
     ret (returnToProto r)))"

definition srv_GetReturn :: "caller \<Rightarrow> string \<Rightarrow> ('x sys_scheme, return_view) prog" where
  "srv_GetReturn c rid =
     bnd (lift_res (caller_principal c)) (\<lambda>p.
     bnd (at_store (getReturn rid (if is_operator p then '''' else Subject p))) (\<lambda>r.
     ret (returnToProto r)))"

definition srv_ListReturns :: "caller \<Rightarrow> string \<Rightarrow> int32 \<Rightarrow> string \<Rightarrow> ('x sys_scheme, return_view list \<times> string) prog" where
  "srv_ListReturns c st pageSize token =
     bnd (lift_res (caller_principal c)) (\<lambda>p.
     let (owner, st') = (if is_operator p then ('''', st) else (Subject p, '''')) in
     bnd (at_store (ListReturns owner st' pageSize token)) (\<lambda>(rs, next_token).
     ret (map returnToProto rs, next_token)))"

definition srv_DecideReturn ::
  "('x sys_scheme) clients \<Rightarrow> caller \<Rightarrow> string \<Rightarrow> bool \<Rightarrow> string \<Rightarrow> ('x sys_scheme, return_view) prog" where
  "srv_DecideReturn cl c rid approve msg =
     bnd (lift_res (RequireRole c ord_roleOrderManager)) (\<lambda>_.
     bnd (lift_res (caller_principal c)) (\<lambda>p.
     bnd (DecideReturn cl (Subject p) rid approve msg) (\<lambda>r.
     ret (returnToProto r))))"

subsection \<open>Sharing\<close>

definition sharing_disabled :: go_err where
  "sharing_disabled = errs_New KindUnavailable ''SHARING_DISABLED''"

definition grantee_required :: go_err where
  "grantee_required = errs_New KindInvalidArgument ''GRANTEE_REQUIRED''"

text \<open>The caller's subject, when it owns the order, with the API the sharing handlers then use.\<close>

definition ownedOrder :: "('x sys_scheme) fga_api option \<Rightarrow> caller \<Rightarrow> string \<Rightarrow> ('x sys_scheme, string \<times> ('x sys_scheme) fga_api) prog" where
  "ownedOrder fga c oid =
     bnd (lift_res (caller_principal c)) (\<lambda>p. case fga of
       None \<Rightarrow> fail sharing_disabled
     | Some api \<Rightarrow>
         bnd (at_store (store_get oid (Subject p))) (\<lambda>_.
         ret (Subject p, api)))"

definition ShareOrder :: "('x sys_scheme) fga_api option \<Rightarrow> caller \<Rightarrow> string \<Rightarrow> string \<Rightarrow> ('x sys_scheme, unit) prog" where
  "ShareOrder fga c oid granteeSubject =
     bnd (ownedOrder fga c oid) (\<lambda>(owner, api).
     let grantee = TrimSpace granteeSubject in
     if grantee = '''' then fail grantee_required
     else if grantee = owner then fail (errs_New KindInvalidArgument ''GRANTEE_IS_OWNER'')
     else bnd (attempt (f_Write api (UserObject grantee) RelationViewer (OrderObject oid))) (\<lambda>r. case r of
       Inl err \<Rightarrow> if \<not> IsAlreadyExists err then fail (errs_Wrap err KindInternal ''SHARE_FAILED'') else ret ()
     | Inr _ \<Rightarrow> ret ()))"

definition RevokeOrderShare :: "('x sys_scheme) fga_api option \<Rightarrow> caller \<Rightarrow> string \<Rightarrow> string \<Rightarrow> ('x sys_scheme, unit) prog" where
  "RevokeOrderShare fga c oid granteeSubject =
     bnd (ownedOrder fga c oid) (\<lambda>(owner, api).
     let grantee = TrimSpace granteeSubject in
     if grantee = '''' then fail grantee_required
     else bnd (attempt (f_Delete api (UserObject grantee) RelationViewer (OrderObject oid))) (\<lambda>r. case r of
       Inl err \<Rightarrow> if \<not> IsNotFound err then fail (errs_Wrap err KindInternal ''REVOKE_FAILED'') else ret ()
     | Inr _ \<Rightarrow> ret ()))"

definition viewers_of :: "fga_tuple list \<Rightarrow> string list" where
  "viewers_of ts = map (\<lambda>t. case t of Tuple u r ob \<Rightarrow> TrimPrefix u ''user:'')
     (filter (\<lambda>t. case t of Tuple u r ob \<Rightarrow> r = RelationViewer) ts)"

definition ListOrderShares :: "('x sys_scheme) fga_api option \<Rightarrow> caller \<Rightarrow> string \<Rightarrow> ('x sys_scheme, string list) prog" where
  "ListOrderShares fga c oid =
     bnd (ownedOrder fga c oid) (\<lambda>(owner, api).
     bnd (wrapped KindInternal ''LIST_SHARES_FAILED'' (f_Read api (OrderObject oid))) (\<lambda>ts.
     ret (viewers_of ts)))"

end
