(* ===== verification/OrderRpcProps.thy ===== *)
theory OrderRpcProps
  imports OrderRpc OrderStoreSpec Quiet Samples
begin

section \<open>Who may do what with an order\<close>

text \<open>
  The handlers over any tuple service that keeps away from the order tables (locale \<open>order_desk\<close>): whom they answer,
  and that a share opens an order to its grantee until it is revoked.  The tuple store of Fga.thy beside the
  order tables is the instance.
\<close>

definition viewer_tuple :: "string \<Rightarrow> string \<Rightarrow> fga_tuple" where
  "viewer_tuple g oid = Tuple (UserObject (TrimSpace g)) RelationViewer (OrderObject oid)"

definition owns_order :: "caller \<Rightarrow> string \<Rightarrow> order_db \<Rightarrow> bool" where
  "owns_order c oid d \<longleftrightarrow> (\<exists>p ord. c = Some p \<and> load d oid = Some ord \<and> (Subject p = '''' \<or> OwnerID ord = Subject p))"

subsection \<open>The interface\<close>

locale order_desk = fga_service api get
  for api :: "('x sys_scheme) fga_api" and get :: "'x sys_scheme \<Rightarrow> fga_tuple list" +
  assumes get_orders: "get (sys_orders_update f d) = get d"
    and write_orders: "wp (f_Write api u r ob) (\<lambda>_ d' _. sys_orders d' = sys_orders d) d e"
    and delete_orders: "wp (f_Delete api u r ob) (\<lambda>_ d' _. sys_orders d' = sys_orders d) d e"
    and check_live: "faults e = [] \<Longrightarrow> f_Check api u r ob d e = (Inr (fga_allowed (get d) u r ob), d, e)"
begin

lemma viewer_allowed: "fga_allowed ts u RelationViewer (OrderObject oid) \<longleftrightarrow> Tuple u RelationViewer (OrderObject oid) \<in> set ts"
  by (simp add: fga_allowed_def fga_names fga_direct_def)

lemma same_orders: "sys_orders_update (\<lambda>_. sys_orders d) d = (d :: 'x sys_scheme)"
  by (cases d) simp

lemma check_viewer:
  "wp (f_Check api u RelationViewer (OrderObject oid)) (\<lambda>x d' _. d' = d \<and>
     (x = Inr True \<longrightarrow> Tuple u RelationViewer (OrderObject oid) \<in> set (get d))) d e"
  by (rule wp_mono [OF check_law]) (auto simp: viewer_allowed)

lemma wp_GetOrderI:
  assumes no: "\<And>x e'. Q (Inl x) d e'"
    and yes: "\<And>p ord e'. c = Some p \<Longrightarrow> load (sys_orders d) oid = Some ord \<Longrightarrow>
      is_operator p \<or> Subject p = '''' \<or> OwnerID ord = Subject p \<or>
      Tuple (UserObject (Subject p)) RelationViewer (OrderObject oid) \<in> set (get d) \<Longrightarrow> Q (Inr (ord_toProto ord)) d e'"
  shows "wp (GetOrder (Some api) c oid) Q d e"
  unfolding GetOrder_def caller_principal_def at_store_def
  by (auto simp: Let_def same_orders no split: option.splits sum.splits
      intro!: store_get_spec wp_mono [OF check_viewer]) (metis yes)+

lemma wp_ownedOrderI:
  assumes no: "\<And>x e'. Q (Inl x) d e'"
    and yes: "\<And>p ord e'. c = Some p \<Longrightarrow> load (sys_orders d) oid = Some ord \<Longrightarrow>
      Subject p = '''' \<or> OwnerID ord = Subject p \<Longrightarrow> Q (Inr (Subject p, api)) d e'"
  shows "wp (ownedOrder (Some api) c oid) Q d e"
  unfolding ownedOrder_def caller_principal_def at_store_def
  by (auto simp: same_orders no split: option.splits sum.splits intro!: store_get_spec) (metis yes)+

lemma read_authorised:
  assumes "GetOrder (Some api) c oid d e = (Inr v, d', e')"
  shows "d' = d \<and> (\<exists>p ord. c = Some p \<and> load (sys_orders d) oid = Some ord \<and> v = ord_toProto ord \<and>
    (is_operator p \<or> Subject p = '''' \<or> OwnerID ord = Subject p \<or>
     Tuple (UserObject (Subject p)) RelationViewer (OrderObject oid) \<in> set (get d)))"
proof -
  have "wp (GetOrder (Some api) c oid) (\<lambda>r d' _. \<forall>v. r = Inr v \<longrightarrow> d' = d \<and>
    (\<exists>p ord. c = Some p \<and> load (sys_orders d) oid = Some ord \<and> v = ord_toProto ord \<and>
    (is_operator p \<or> Subject p = '''' \<or> OwnerID ord = Subject p \<or>
     Tuple (UserObject (Subject p)) RelationViewer (OrderObject oid) \<in> set (get d)))) d e"
    by (rule wp_GetOrderI) auto
  from wpD [OF this assms] show ?thesis by simp
qed

lemma share_writes:
  assumes "ShareOrder (Some api) c oid g d e = (Inr (), d', e')"
  shows "owns_order c oid (sys_orders d) \<and> sys_orders d' = sys_orders d \<and>
    set (get d') = insert (viewer_tuple g oid) (set (get d))"
proof -
  define G where "G d' \<longleftrightarrow> sys_orders d' = sys_orders d \<and> set (get d') = insert (viewer_tuple g oid) (set (get d))" for d'
  have w: "wp (f_Write api (UserObject (TrimSpace g)) RelationViewer (OrderObject oid))
      (\<lambda>x d' _. (x = Inr () \<longrightarrow> G d') \<and> (\<forall>err. x = Inl err \<longrightarrow> IsAlreadyExists err \<longrightarrow> G d')) d e" for e
    by (rule wp_mono [OF wp_conj [OF write_orders write_law]]) (auto simp: G_def viewer_tuple_def)
  have "wp (ShareOrder (Some api) c oid g) (\<lambda>r d' _. r = Inr () \<longrightarrow> owns_order c oid (sys_orders d) \<and> G d') d e"
    unfolding ShareOrder_def
    by (auto simp: Let_def owns_order_def split: sum.splits intro!: wp_ownedOrderI wp_mono [OF w])
  from wpD [OF this assms] show ?thesis by (simp add: G_def)
qed

lemma revoke_deletes:
  assumes "RevokeOrderShare (Some api) c oid g d e = (Inr (), d', e')"
  shows "owns_order c oid (sys_orders d) \<and> sys_orders d' = sys_orders d \<and>
    set (get d') = set (get d) - {viewer_tuple g oid}"
proof -
  define G where "G d' \<longleftrightarrow> sys_orders d' = sys_orders d \<and> set (get d') = set (get d) - {viewer_tuple g oid}" for d'
  have w: "wp (f_Delete api (UserObject (TrimSpace g)) RelationViewer (OrderObject oid))
      (\<lambda>x d' _. (x = Inr () \<longrightarrow> G d') \<and> (\<forall>err. x = Inl err \<longrightarrow> IsNotFound err \<longrightarrow> G d')) d e" for e
    by (rule wp_mono [OF wp_conj [OF delete_orders delete_law]]) (auto simp: G_def viewer_tuple_def)
  have "wp (RevokeOrderShare (Some api) c oid g) (\<lambda>r d' _. r = Inr () \<longrightarrow> owns_order c oid (sys_orders d) \<and> G d') d e"
    unfolding RevokeOrderShare_def
    by (auto simp: Let_def owns_order_def split: sum.splits intro!: wp_ownedOrderI wp_mono [OF w])
  from wpD [OF this assms] show ?thesis by (simp add: G_def)
qed

lemma shared_reply:
  assumes "faults e = []" "uuid_ok e oid" "load (sys_orders d) oid = Some ord"
    "Tuple (UserObject (Subject p)) RelationViewer (OrderObject oid) \<in> set (get d)"
  shows "GetOrder (Some api) (Some p) oid d e = (Inr (ord_toProto ord), d, e)"
proof -
  have live: "wp (f_Check api u r ob) Q d e = Q (Inr (fga_allowed (get d) u r ob)) d e" for u r ob Q
    using check_live [OF assms(1)] by (simp add: wp_def)
  have "wp (GetOrder (Some api) (Some p) oid) (\<lambda>r d' e'. (r, d', e') = (Inr (ord_toProto ord), d, e)) d e"
    unfolding GetOrder_def caller_principal_def at_store_def
    using assms(4) by (simp add: Let_def same_orders quiet_store_get [OF assms(1-3)] live viewer_allowed
      order_not_found_def errs_Is_simps split: sum.split)
  then show ?thesis by (simp add: wp_def split: prod.splits)
qed

lemma revoked_reply:
  assumes "viewer_tuple g oid \<notin> set (get d)" "TrimSpace g = Subject p" "\<not> is_operator p" "Subject p \<noteq> ''''"
    "\<And>ord. load (sys_orders d) oid = Some ord \<Longrightarrow> OwnerID ord \<noteq> Subject p"
  shows "\<exists>x. fst (GetOrder (Some api) (Some p) oid d e) = Inl x"
proof -
  have "wp (GetOrder (Some api) (Some p) oid) (\<lambda>r _ _. \<exists>x. r = Inl x) d e"
    using assms by (intro wp_GetOrderI) (auto simp: viewer_tuple_def)
  then show ?thesis by (simp add: wp_def split: prod.splits)
qed

end

subsection \<open>The instance\<close>

record order_site = sys +
  site_fga :: fga_sys

abbreviation site_api :: "order_site fga_api" where
  "site_api \<equiv> zoom_api site_fga site_fga_update openfga"

interpretation site: order_desk site_api "\<lambda>d. tuples (site_fga d)"
proof (rule order_desk.intro)
  show "fga_service site_api (\<lambda>d. tuples (site_fga d))"
    by (rule fga_service_zoom [OF openfga.fga_service_axioms]) simp_all
  show "order_desk_axioms site_api (\<lambda>d. tuples (site_fga d))"
    by unfold_locales (simp_all add: wp_True zoom_run openfga_def query_def stmt_nofault)
qed

subsection \<open>Properties\<close>

text \<open>C32: reading an order is authorised.  When \<open>GetOrder\<close> answers, nothing has changed, the caller is signed in, the
  answer is the stored order, and the caller is an operator, or owns the order, or is the viewer of a tuple of the
  order; an error of OpenFGA never opens an order.\<close>

theorem order_read_authorised:
  assumes "order_desk api get" "GetOrder (Some api) c oid d e = (Inr v, d', e')"
  shows "d' = d \<and> (\<exists>p ord. c = Some p \<and> load (sys_orders d) oid = Some ord \<and> v = ord_toProto ord \<and>
    (is_operator p \<or> Subject p = '''' \<or> OwnerID ord = Subject p \<or>
     Tuple (UserObject (Subject p)) RelationViewer (OrderObject oid) \<in> set (get d)))"
  by (rule order_desk.read_authorised [OF assms])

text \<open>C33: a share opens the order to its grantee until it is revoked.  After the owner's \<open>ShareOrder\<close> answered, a
  \<open>GetOrder\<close> of the grantee that meets no fault answers the order; after a \<open>RevokeOrderShare\<close> of the grantee answered,
  whatever happened in between, a grantee who is neither operator nor owner gets an error, under any faults; and
  both calls leave the orders as they were and were made by the owner.\<close>

theorem shared_until_revoked:
  assumes "order_desk api get"
    and "ShareOrder (Some api) c oid g d e = (Inr (), d1, e1)" "load (sys_orders d) oid = Some ord"
    and "RevokeOrderShare (Some api) c' oid g d2 e2 = (Inr (), d3, e3)" "load (sys_orders d2) oid = Some ord'"
    and "Subject p = TrimSpace g" "Subject p \<noteq> ''''" "\<not> is_operator p" "OwnerID ord' \<noteq> Subject p"
    and "faults e4 = []" "uuid_ok e4 oid"
  shows "owns_order c oid (sys_orders d) \<and> sys_orders d1 = sys_orders d \<and>
    GetOrder (Some api) (Some p) oid d1 e4 = (Inr (ord_toProto ord), d1, e4) \<and>
    owns_order c' oid (sys_orders d2) \<and> sys_orders d3 = sys_orders d2 \<and>
    (\<exists>x. fst (GetOrder (Some api) (Some p) oid d3 e5) = Inl x)"
proof -
  have w: "owns_order c oid (sys_orders d)" "sys_orders d1 = sys_orders d" "viewer_tuple g oid \<in> set (get d1)"
    using order_desk.share_writes [OF assms(1,2)] by auto
  have r: "owns_order c' oid (sys_orders d2)" "sys_orders d3 = sys_orders d2" "viewer_tuple g oid \<notin> set (get d3)"
    using order_desk.revoke_deletes [OF assms(1,4)] by auto
  have "GetOrder (Some api) (Some p) oid d1 e4 = (Inr (ord_toProto ord), d1, e4)"
    by (rule order_desk.shared_reply [OF assms(1)]) (use assms w in \<open>simp_all add: viewer_tuple_def\<close>)
  moreover have "\<exists>x. fst (GetOrder (Some api) (Some p) oid d3 e5) = Inl x"
    by (rule order_desk.revoked_reply [OF assms(1) r(3)]) (use assms r in auto)
  ultimately show ?thesis using w r by blast
qed

definition site_of_sale :: order_site where
  "site_of_sale = \<lparr>sys_orders = sale_done, site_fga = \<lparr>tuples = []\<rparr>\<rparr>"

definition shopper :: "string \<Rightarrow> principal" where
  "shopper s = \<lparr>Subject = s, Email = '''', Roles = []\<rparr>"

definition shared_site :: order_site where
  "shared_site = after (ShareOrder (Some site_api) (Some (shopper ''u'')) ''o1'' '' v '') (env_at 7) site_of_sale"

definition revoked_site :: order_site where
  "revoked_site = after (RevokeOrderShare (Some site_api) (Some (shopper ''u'')) ''o1'' '' v '') (env_at 8) shared_site"

lemma site_runs:
  "case ShareOrder (Some site_api) (Some (shopper ''u'')) ''o1'' '' v '' site_of_sale (env_at 7) of (r, x) \<Rightarrow> r = Inr ()"
  "case RevokeOrderShare (Some site_api) (Some (shopper ''u'')) ''o1'' '' v '' shared_site (env_at 8) of (r, x) \<Rightarrow> r = Inr ()"
  "case GetOrder (Some site_api) (Some (shopper ''v'')) ''o1'' shared_site (env_at 9) of (r, x) \<Rightarrow> (case r of Inr v \<Rightarrow> v_owner_id v = ''u'' | Inl _ \<Rightarrow> False)"
  "map_option OwnerID (load (sys_orders site_of_sale) ''o1'') = Some ''u''"
  "map_option OwnerID (load (sys_orders shared_site) ''o1'') = Some ''u''"
  by code_simp+

theorem order_read_authorised_witness:
  "\<exists>v e' p ord. GetOrder (Some site_api) (Some (shopper ''v'')) ''o1'' shared_site (env_at 9) = (Inr v, shared_site, e') \<and>
     shopper ''v'' = p \<and> load (sys_orders shared_site) ''o1'' = Some ord \<and> v = ord_toProto ord"
proof -
  obtain v d' e' where run: "GetOrder (Some site_api) (Some (shopper ''v'')) ''o1'' shared_site (env_at 9) = (Inr v, d', e')"
    using site_runs(3) by (auto split: prod.splits sum.splits)
  from order_read_authorised [OF site.order_desk_axioms run] show ?thesis using run by auto
qed

theorem shared_until_revoked_witness:
  "\<exists>ord x. OwnerID ord = ''u'' \<and>
     fst (GetOrder (Some site_api) (Some (shopper ''v'')) ''o1'' shared_site (env_at 9)) = Inr (ord_toProto ord) \<and>
     fst (GetOrder (Some site_api) (Some (shopper ''v'')) ''o1'' revoked_site (env_at 10)) = Inl x"
proof -
  obtain ord ord' where ord: "load (sys_orders site_of_sale) ''o1'' = Some ord" "OwnerID ord = ''u''"
      "load (sys_orders shared_site) ''o1'' = Some ord'" "OwnerID ord' = ''u''"
    using site_runs(4,5) by auto
  obtain e1 where s: "ShareOrder (Some site_api) (Some (shopper ''u'')) ''o1'' '' v '' site_of_sale (env_at 7) = (Inr (), shared_site, e1)"
    using site_runs(1) by (auto simp: shared_site_def after_def split: prod.splits)
  obtain e3 where r: "RevokeOrderShare (Some site_api) (Some (shopper ''u'')) ''o1'' '' v '' shared_site (env_at 8) = (Inr (), revoked_site, e3)"
    using site_runs(2) by (auto simp: revoked_site_def after_def split: prod.splits)
  have p: "Subject (shopper ''v'') = TrimSpace '' v ''" "Subject (shopper ''v'') \<noteq> ''''" "\<not> is_operator (shopper ''v'')"
      "Subject (shopper ''v'') \<noteq> ''u''" "faults (env_at 9) = []" "uuid_ok (env_at 9) ''o1''"
    by code_simp+
  show ?thesis
    using shared_until_revoked [OF site.order_desk_axioms s ord(1) r ord(3) p(1-3) _ p(5,6), where ?e5.0 = "env_at 10"] ord p(4)
    by auto
qed

end
