(* ===== verification/Kafka.thy ===== *)
theory Kafka
  imports StoreKit
begin

section \<open>The consumer loop (pkg/kafka/kafka.go)\<close>

text \<open>
  Topic names, the retries of a record, its parking on the dead-letter topic, and the polling loop with its
  commits.  franz-go is outside the repository: a run is given what its polls return; the code relies on
  \<open>CommitUncommittedOffsets\<close> committing every record a poll has returned so far.  Time is the clock of the
  environment, which sleeping moves; the context ends at an instant or never.  When a timer and the end of the
  context fall on the same instant, where Go's \<open>select\<close> may take either, the context is taken.
\<close>

definition Topic :: "string \<Rightarrow> string \<Rightarrow> string" where
  "Topic domain event = ''commerce.'' @ domain @ ''.'' @ event"

definition DLQ :: "string \<Rightarrow> string" where
  "DLQ topic = topic @ ''.dlq''"

text \<open>The record on the dead-letter topic, with its headers.\<close>

record 'v parked =
  pk_topic :: string
  pk_key :: string
  pk_value :: 'v
  pk_origin_topic :: string
  pk_origin_partition :: string
  pk_origin_offset :: string
  pk_error :: go_err
  pk_parked_at :: int

text \<open>The handler's part of the world, the dead-letter topics, the records polled so far and those whose offsets are committed.\<close>

record ('w, 'v) kstate =
  k_world :: 'w
  k_dlq :: "'v parked list"
  k_polled :: "'v krecord list"
  k_committed :: "'v krecord list"

record dead_letter =
  dl_Attempts :: int
  dl_Backoff :: int64
  dl_Retryable :: "(go_err \<Rightarrow> bool) option"

record ('w, 'v) consumer =
  c_handler :: "'v krecord \<Rightarrow> ('w, unit) prog"
  c_dl :: "dead_letter option"

definition second :: int where "second = 1000000000"

definition defaultBackoff :: int where "defaultBackoff = 200000000"

definition maxHoldBackoff :: int where "maxHoldBackoff = 30 * second"

definition NewConsumer :: "('v krecord \<Rightarrow> ('w, unit) prog) \<Rightarrow> ('w, 'v) consumer" where
  "NewConsumer h = \<lparr>c_handler = h, c_dl = None\<rparr>"

definition WithDeadLetter :: "dead_letter \<Rightarrow> ('w, 'v) consumer \<Rightarrow> ('w, 'v) consumer" where
  "WithDeadLetter dl c = c\<lparr>c_dl := Some (dl
     \<lparr>dl_Attempts := (if dl_Attempts dl \<le> 0 then 3 else dl_Attempts dl),
      dl_Backoff := (if dl_Backoff dl \<le> 0 then defaultBackoff else dl_Backoff dl)\<rparr>)\<rparr>"

subsection \<open>The context\<close>

type_synonym ctx = "int option"

definition ctx_done :: "ctx \<Rightarrow> env \<Rightarrow> bool" where
  "ctx_done ctx e = (case ctx of None \<Rightarrow> False | Some t \<Rightarrow> t \<le> now e)"

definition ctx_err :: go_err where "ctx_err = PlainErr ''context canceled''"

text \<open>Whether the delay passed before the context ended, and the moment it did.\<close>

definition sleep :: "ctx \<Rightarrow> int \<Rightarrow> env \<Rightarrow> bool \<times> env" where
  "sleep ctx d e = (let t = now e + max d 0 in case ctx of
       None \<Rightarrow> (True, e\<lparr>now := t\<rparr>)
     | Some n \<Rightarrow> if n \<le> t then (False, e\<lparr>now := max (now e) n\<rparr>) else (True, e\<lparr>now := t\<rparr>))"

subsection \<open>One record\<close>

definition call_handler :: "('w, 'v) consumer \<Rightarrow> 'v krecord \<Rightarrow> ('w, 'v) kstate \<Rightarrow> env \<Rightarrow> go_err option \<times> ('w, 'v) kstate \<times> env" where
  "call_handler c r s e = (case c_handler c r (k_world s) e of (x, w, e') \<Rightarrow>
     ((case x of Inl err \<Rightarrow> Some err | Inr _ \<Rightarrow> None), s\<lparr>k_world := w\<rparr>, e'))"

text \<open>The loop of \<open>handleRecord\<close>: the attempts left, whether this is the first, the delay before the next one.\<close>

fun handle_loop :: "('w, 'v) consumer \<Rightarrow> ctx \<Rightarrow> 'v krecord \<Rightarrow> nat \<Rightarrow> bool \<Rightarrow> int64 \<Rightarrow> go_err option \<Rightarrow>
    ('w, 'v) kstate \<Rightarrow> env \<Rightarrow> go_err option \<times> ('w, 'v) kstate \<times> env" where
  "handle_loop c ctx r 0 first backoff err s e = (err, s, e)"
| "handle_loop c ctx r (Suc n) first backoff err s e =
     (case (if first then (True, e) else sleep ctx backoff e) of
        (False, e1) \<Rightarrow> (Some ctx_err, s, e1)
      | (True, e1) \<Rightarrow>
          (case call_handler c r s e1 of
             (None, s2, e2) \<Rightarrow> (None, s2, e2)
           | (Some x, s2, e2) \<Rightarrow>
               if ctx_done ctx e2 then (Some x, s2, e2)
               else handle_loop c ctx r n False (if first then backoff else i64 (backoff * 2)) (Some x) s2 e2))"

definition handleRecord :: "('w, 'v) consumer \<Rightarrow> ctx \<Rightarrow> 'v krecord \<Rightarrow> ('w, 'v) kstate \<Rightarrow> env \<Rightarrow> go_err option \<times> ('w, 'v) kstate \<times> env" where
  "handleRecord c ctx r s e = (case c_dl c of
       None \<Rightarrow> handle_loop c ctx r 1 True 0 None s e
     | Some dl \<Rightarrow> handle_loop c ctx r (nat (dl_Attempts dl)) True (dl_Backoff dl) None s e)"

definition parked_of :: "'v krecord \<Rightarrow> go_err \<Rightarrow> int \<Rightarrow> 'v parked" where
  "parked_of r cause t = \<lparr>pk_topic = DLQ (kr_topic r), pk_key = kr_key r, pk_value = kr_value r, pk_origin_topic = kr_topic r,
     pk_origin_partition = FormatInt (kr_partition r), pk_origin_offset = FormatInt (kr_offset r),
     pk_error = cause, pk_parked_at = t\<rparr>"

definition park :: "'v krecord \<Rightarrow> go_err \<Rightarrow> (('w, 'v) kstate, unit) prog" where
  "park r cause = exec (\<lambda>t s. s\<lparr>k_dlq := k_dlq s @ [parked_of r cause t]\<rparr>)"

definition shouldHold :: "('w, 'v) consumer \<Rightarrow> go_err \<Rightarrow> bool" where
  "shouldHold c err = (case c_dl c of None \<Rightarrow> True
     | Some dl \<Rightarrow> (case dl_Retryable dl of None \<Rightarrow> False | Some f \<Rightarrow> f err))"

definition holdBackoff :: "('w, 'v) consumer \<Rightarrow> int64" where
  "holdBackoff c = (case c_dl c of None \<Rightarrow> defaultBackoff | Some dl \<Rightarrow> dl_Backoff dl)"

definition next_delay :: "int64 \<Rightarrow> int64" where
  "next_delay delay = min (i64 (delay * 2)) maxHoldBackoff"

partial_function (option) parkInPlace :: "ctx \<Rightarrow> 'v krecord \<Rightarrow> go_err \<Rightarrow> int64 \<Rightarrow> ('w, 'v) kstate \<Rightarrow> env \<Rightarrow>
    (bool \<times> ('w, 'v) kstate \<times> env) option" where
  "parkInPlace ctx r cause delay s e = (case park r cause s e of (x, s1, e1) \<Rightarrow>
     (case x of
        Inr _ \<Rightarrow> Some (True, s1, e1)
      | Inl _ \<Rightarrow>
          (case sleep ctx delay e1 of (go, e2) \<Rightarrow>
             if go then parkInPlace ctx r cause (next_delay delay) s1 e2 else Some (False, s1, e2))))"

text \<open>The result says whether the record is done with; \<open>False\<close> is the context's error.\<close>

partial_function (option) retryInPlace :: "('w, 'v) consumer \<Rightarrow> ctx \<Rightarrow> 'v krecord \<Rightarrow> int64 \<Rightarrow> ('w, 'v) kstate \<Rightarrow> env \<Rightarrow>
    (bool \<times> ('w, 'v) kstate \<times> env) option" where
  "retryInPlace c ctx r delay s e = (case sleep ctx delay e of (go, e1) \<Rightarrow>
     if \<not> go then Some (False, s, e1)
     else (case call_handler c r s e1 of (x, s2, e2) \<Rightarrow>
       (case x of
          None \<Rightarrow> Some (True, s2, e2)
        | Some err \<Rightarrow>
            if ctx_done ctx e2 then Some (False, s2, e2)
            else if \<not> shouldHold c err then parkInPlace ctx r err (holdBackoff c) s2 e2
            else retryInPlace c ctx r (next_delay delay) s2 e2)))"

declare parkInPlace.simps [code] retryInPlace.simps [code]

definition dispatch :: "('w, 'v) consumer \<Rightarrow> ctx \<Rightarrow> 'v krecord \<Rightarrow> ('w, 'v) kstate \<Rightarrow> env \<Rightarrow> (bool \<times> ('w, 'v) kstate \<times> env) option" where
  "dispatch c ctx r s e = (case handleRecord c ctx r s e of
       (None, s1, e1) \<Rightarrow> Some (True, s1, e1)
     | (Some err, s1, e1) \<Rightarrow>
         if ctx_done ctx e1 then Some (False, s1, e1)
         else if shouldHold c err then retryInPlace c ctx r (holdBackoff c) s1 e1
         else parkInPlace ctx r err (holdBackoff c) s1 e1)"

subsection \<open>The polling loop\<close>

fun handleFetches :: "('w, 'v) consumer \<Rightarrow> ctx \<Rightarrow> 'v krecord list \<Rightarrow> ('w, 'v) kstate \<Rightarrow> env \<Rightarrow> (bool \<times> ('w, 'v) kstate \<times> env) option" where
  "handleFetches c ctx [] s e = Some (True, s, e)"
| "handleFetches c ctx (r # rs) s e = (case dispatch c ctx r s e of
       None \<Rightarrow> None
     | Some (ok, s1, e1) \<Rightarrow> if ok then handleFetches c ctx rs s1 e1 else Some (False, s1, e1))"

text \<open>What a poll returns: the records and the errors of its partitions.  The client's position moves past the records.\<close>

record 'v fetches =
  f_records :: "'v krecord list"
  f_errors :: "go_err list"

definition CommitUncommittedOffsets :: "(('w, 'v) kstate, unit) prog" where
  "CommitUncommittedOffsets = exec (\<lambda>_ s. s\<lparr>k_committed := k_polled s\<rparr>)"

fun consume :: "('w, 'v) consumer \<Rightarrow> ctx \<Rightarrow> 'v fetches list \<Rightarrow> ('w, 'v) kstate \<Rightarrow> env \<Rightarrow> (('w, 'v) kstate \<times> env) option" where
  "consume c ctx [] s e = Some (s, e)"
| "consume c ctx (f # fs) s e =
     (if ctx_done ctx e then Some (s, e)
      else let s1 = s\<lparr>k_polled := k_polled s @ f_records f\<rparr> in
        if f_errors f \<noteq> [] then consume c ctx fs s1 e
        else case handleFetches c ctx (f_records f) s1 e of
          None \<Rightarrow> None
        | Some (ok, s2, e2) \<Rightarrow>
            if ok then (case CommitUncommittedOffsets s2 e2 of (_, s3, e3) \<Rightarrow> consume c ctx fs s3 e3)
            else consume c ctx fs s2 e2)"

end
