(* ===== verification/KafkaProps.thy ===== *)
theory KafkaProps
  imports Kafka
begin

section \<open>What the consumer loop guarantees\<close>

text \<open>
  A handler that only answers nil when it is done with the record (locale \<open>record_handler\<close>) behind the loop: when
  the context ends the loop comes back, and every record whose offset is committed was handled or lies on its
  dead-letter topic, provided no poll came with a fetch error.
\<close>

definition lies_parked :: "'v krecord \<Rightarrow> ('w, 'v) kstate \<Rightarrow> bool" where
  "lies_parked r s \<longleftrightarrow> (\<exists>p\<in>set (k_dlq s). pk_topic p = DLQ (kr_topic r) \<and> pk_key p = kr_key r \<and> pk_value p = kr_value r \<and>
     pk_origin_partition p = FormatInt (kr_partition r) \<and> pk_origin_offset p = FormatInt (kr_offset r))"

definition resolved_rec :: "('v krecord \<Rightarrow> 'w \<Rightarrow> bool) \<Rightarrow> 'v krecord \<Rightarrow> ('w, 'v) kstate \<Rightarrow> bool" where
  "resolved_rec settled r s \<longleftrightarrow> settled r (k_world s) \<or> lies_parked r s"

definition kept :: "('v krecord \<Rightarrow> 'w \<Rightarrow> bool) \<Rightarrow> ('w, 'v) kstate \<Rightarrow> ('w, 'v) kstate \<Rightarrow> bool" where
  "kept settled s s' \<longleftrightarrow> (\<forall>r. resolved_rec settled r s \<longrightarrow> resolved_rec settled r s') \<and>
     k_polled s' = k_polled s \<and> k_committed s' = k_committed s"

lemma kept_refl [simp]: "kept settled s s"
  by (simp add: kept_def)

lemma kept_trans: "kept settled s t \<Longrightarrow> kept settled t u \<Longrightarrow> kept settled s u"
  by (simp add: kept_def)

lemma keptD: "kept settled s t \<Longrightarrow> resolved_rec settled r s \<Longrightarrow> resolved_rec settled r t"
  by (simp add: kept_def)

definition consumer_ok :: "('w, 'v) consumer \<Rightarrow> bool" where
  "consumer_ok c \<longleftrightarrow> (case c_dl c of None \<Rightarrow> True | Some dl \<Rightarrow> 0 < dl_Attempts dl \<and> 0 < dl_Backoff dl \<and> dl_Backoff dl < 2 ^ 62)"

lemma consumer_ok_configured: "dl_Backoff dl < 2 ^ 62 \<Longrightarrow> consumer_ok (WithDeadLetter dl c) \<and> consumer_ok (NewConsumer h)"
  by (simp add: consumer_ok_def WithDeadLetter_def NewConsumer_def defaultBackoff_def)

definition delay_ok :: "int \<Rightarrow> bool" where
  "delay_ok d \<longleftrightarrow> 0 < d \<and> d < 2 ^ 62"

lemma next_delay_ok: "delay_ok d \<Longrightarrow> delay_ok (next_delay d)"
  using i64_id [of "d * 2"] by (auto simp: delay_ok_def next_delay_def maxHoldBackoff_def second_def in_i64_def)

lemma holdBackoff_ok: "consumer_ok c \<Longrightarrow> delay_ok (holdBackoff c)"
  by (auto simp: consumer_ok_def delay_ok_def holdBackoff_def defaultBackoff_def split: option.splits)

lemma sleep_False: "sleep ctx d e = (False, e') \<Longrightarrow> ctx_done ctx e' \<and> now e \<le> now e'"
  by (auto simp: sleep_def ctx_done_def Let_def split: option.splits if_splits)

lemma sleep_True: "sleep ctx d e = (True, e') \<Longrightarrow> now e' = now e + max d 0 \<and> \<not> ctx_done ctx e'"
  by (auto simp: sleep_def ctx_done_def Let_def split: option.splits if_splits)

lemma ctx_done_mono: "ctx_done ctx e \<Longrightarrow> now e \<le> now e' \<Longrightarrow> ctx_done ctx e'"
  by (auto simp: ctx_done_def split: option.splits)

lemma exec_now: "exec f s e = (x, s', e') \<Longrightarrow> now e' = now e"
  by (auto simp: exec_def stmt_def next_fault_def split: prod.splits fault.splits list.splits)

lemma park_run:
  "park r cause s e = (x, s', e') \<Longrightarrow> now e' = now e \<and> kept settled s s' \<and> (x = Inr () \<longrightarrow> lies_parked r s')"
proof -
  have k: "kept settled s (s\<lparr>k_dlq := k_dlq s @ [p]\<rparr>)" for p
    by (auto simp: kept_def resolved_rec_def lies_parked_def)
  have l: "lies_parked r (s\<lparr>k_dlq := k_dlq s @ [parked_of r cause t]\<rparr>)" for t
    by (simp add: lies_parked_def parked_of_def)
  assume run: "park r cause s e = (x, s', e')"
  have "wp (park r cause) (\<lambda>x s' _. kept settled s s' \<and> (x = Inr () \<longrightarrow> lies_parked r s')) s e"
    unfolding park_def by (auto intro!: wp_execI simp: k l)
  from wpD [OF this run] exec_now [OF run [unfolded park_def]] show ?thesis by simp
qed

text \<open>What holds when a record is dispatched: whether it is done with, or the context ended.\<close>

definition outcome_ok :: "('v krecord \<Rightarrow> 'w \<Rightarrow> bool) \<Rightarrow> ctx \<Rightarrow> 'v krecord \<Rightarrow> ('w, 'v) kstate \<Rightarrow> env \<Rightarrow> bool \<times> ('w, 'v) kstate \<times> env \<Rightarrow> bool" where
  "outcome_ok settled ctx r s e y = (case y of (ok, s', e') \<Rightarrow> now e \<le> now e' \<and> kept settled s s' \<and>
     (if ok then resolved_rec settled r s' else ctx_done ctx e'))"

lemma outcome_ok_later:
  "outcome_ok settled ctx r s1 e1 y \<Longrightarrow> now e \<le> now e1 \<Longrightarrow> kept settled s s1 \<Longrightarrow> outcome_ok settled ctx r s e y"
  by (auto simp: outcome_ok_def intro: kept_trans)

lemma parkInPlace_outcome:
  assumes "parkInPlace ctx r cause delay s e = Some y"
  shows "outcome_ok settled ctx r s e y"
  using assms
proof (induction rule: parkInPlace.raw_induct [rotated, consumes 1, case_names step])
  case (step f ctx r cause delay s e y)
  obtain x s1 e1 where p: "park r cause s e = (x, s1, e1)" by (cases "park r cause s e") auto
  note k = park_run [OF p, of settled]
  show ?case
  proof (cases x)
    case (Inr u)
    then show ?thesis using step(2) p k by (auto simp: outcome_ok_def resolved_rec_def)
  next
    case (Inl err)
    obtain go e2 where s: "sleep ctx delay e1 = (go, e2)" by (cases "sleep ctx delay e1") auto
    show ?thesis
    proof (cases go)
      case True
      then have "f ctx r cause (next_delay delay) s1 e2 = Some y" using step(2) p Inl s by simp
      then show ?thesis
        using k s True sleep_True [of ctx delay e1 e2] by (intro outcome_ok_later [OF step(1)]) auto
    next
      case False
      then show ?thesis using step(2) p Inl s k sleep_False [of ctx delay e1 e2] by (auto simp: outcome_ok_def)
    qed
  qed
qed

lemma parkInPlace_returns:
  "delay_ok delay \<Longrightarrow> \<exists>y. parkInPlace (Some t) r cause delay s e = Some y"
proof (induction "nat (t - now e)" arbitrary: delay s e rule: less_induct)
  case less
  obtain x s1 e1 where p: "park r cause s e = (x, s1, e1)" by (cases "park r cause s e") auto
  obtain go e2 where s: "sleep (Some t) delay e1 = (go, e2)" by (cases "sleep (Some t) delay e1") auto
  show ?case
  proof (cases "go \<and> isl x")
    case True
    then have "now e2 = now e + delay" "now e2 < t"
      using s sleep_True [of "Some t" delay e1 e2] park_run [OF p, of "\<lambda>_ _. True"] less(2) by (auto simp: ctx_done_def delay_ok_def)
    then have "nat (t - now e2) < nat (t - now e)" using less(2) by (simp add: delay_ok_def)
    from less(1) [OF this next_delay_ok [OF less(2)]] show ?thesis
      using True p s by (subst parkInPlace.simps) (auto simp: isl_def)
  next
    case False
    then show ?thesis using p s by (subst parkInPlace.simps) (auto split: sum.split)
  qed
qed

locale record_handler =
  fixes h :: "'v krecord \<Rightarrow> ('w, unit) prog" and settled :: "'v krecord \<Rightarrow> 'w \<Rightarrow> bool"
  assumes handler_law: "wp (h r) (\<lambda>x w' e'. now e \<le> now e' \<and> (x = Inr () \<longrightarrow> settled r w') \<and>
      (\<forall>r'. settled r' w \<longrightarrow> settled r' w')) w e"
begin

lemma call_handler_ok:
  assumes "c_handler c = h" "call_handler c r s e = (x, s', e')"
  shows "now e \<le> now e' \<and> kept settled s s' \<and> (x = None \<longrightarrow> settled r (k_world s'))"
proof -
  obtain y w e1 where run: "h r (k_world s) e = (y, w, e1)" by (cases "h r (k_world s) e") auto
  show ?thesis
    using wpD [OF handler_law run] assms run
    by (auto simp: call_handler_def kept_def resolved_rec_def lies_parked_def split: sum.splits)
qed

lemma handle_loop_ok:
  assumes "c_handler c = h" "0 < n \<or> err \<noteq> None" "handle_loop c ctx r n first backoff err s e = (x, s', e')"
  shows "now e \<le> now e' \<and> kept settled s s' \<and> (x = None \<longrightarrow> settled r (k_world s'))"
  using assms
proof (induction n arbitrary: first backoff err s e)
  case (Suc n)
  obtain go e1 where s: "(if first then (True, e) else sleep ctx backoff e) = (go, e1)" by (meson surj_pair)
  obtain y s2 e2 where c: "call_handler c r s e1 = (y, s2, e2)" by (metis prod_cases3)
  note k = call_handler_ok [OF Suc(2) c]
  have t: "now e \<le> now e1"
    using s sleep_True [of ctx backoff e e1] sleep_False [of ctx backoff e e1] by (cases go) (auto split: if_splits)
  show ?case
  proof (cases "go \<and> y \<noteq> None \<and> \<not> ctx_done ctx e2")
    case True
    then obtain err' b where rec: "handle_loop c ctx r n False b (Some err') s2 e2 = (x, s', e')"
      using Suc(4) s c by (auto split: option.splits)
    from Suc(1) [OF Suc(2) _ rec] show ?thesis using k t kept_trans by fastforce
  next
    case False
    then show ?thesis using Suc(4) s c k t by (cases go) (auto split: option.splits if_splits)
  qed
qed auto

lemma handleRecord_ok:
  assumes "c_handler c = h" "consumer_ok c" "handleRecord c ctx r s e = (x, s', e')"
  shows "now e \<le> now e' \<and> kept settled s s' \<and> (x = None \<longrightarrow> settled r (k_world s'))"
proof (cases "c_dl c")
  case None
  then have "handle_loop c ctx r 1 True 0 None s e = (x, s', e')" using assms(3) by (simp only: handleRecord_def option.case)
  from handle_loop_ok [OF assms(1) _ this] show ?thesis by simp
next
  case (Some dl)
  then have n: "0 < nat (dl_Attempts dl)" using assms(2) by (simp add: consumer_ok_def)
  have "handle_loop c ctx r (nat (dl_Attempts dl)) True (dl_Backoff dl) None s e = (x, s', e')"
    using Some assms(3) by (simp add: handleRecord_def)
  from handle_loop_ok [OF assms(1) _ this] show ?thesis using n by simp
qed

lemma retryInPlace_outcome:
  assumes "retryInPlace c ctx r delay s e = Some y" "c_handler c = h"
  shows "outcome_ok settled ctx r s e y"
  using assms
proof (induction rule: retryInPlace.raw_induct [rotated, consumes 1, case_names step])
  case (step f c ctx r delay s e y)
  obtain go e1 where s: "sleep ctx delay e = (go, e1)" by (meson surj_pair)
  obtain x s2 e2 where c: "call_handler c r s e1 = (x, s2, e2)" by (metis prod_cases3)
  note k = call_handler_ok [OF step(3) c]
  have t: "now e \<le> now e1" using s sleep_True [of ctx delay e e1] sleep_False [of ctx delay e e1] by (cases go) auto
  have here: "now e \<le> now e2" "kept settled s s2" using k t by auto
  show ?case
  proof (cases "go \<and> x \<noteq> None \<and> \<not> ctx_done ctx e2")
    case True
    then obtain err where x: "x = Some err" by auto
    have "outcome_ok settled ctx r s2 e2 y"
    proof (cases "shouldHold c err")
      case True
      then have "f c ctx r (next_delay delay) s2 e2 = Some y" using step(2) s c x \<open>go \<and> _\<close> by simp
      from step(1) [OF this step(3)] show ?thesis .
    next
      case False
      then have "parkInPlace ctx r err (holdBackoff c) s2 e2 = Some y" using step(2) s c x \<open>go \<and> _\<close> by simp
      then show ?thesis by (rule parkInPlace_outcome)
    qed
    then show ?thesis using here by (rule outcome_ok_later)
  next
    case False
    then show ?thesis
      using step(2) s c k here sleep_False [of ctx delay e e1]
      by (cases go) (auto simp: outcome_ok_def resolved_rec_def split: option.splits)
  qed
qed

lemma dispatch_outcome:
  assumes "c_handler c = h" "consumer_ok c" "dispatch c ctx r s e = Some y"
  shows "outcome_ok settled ctx r s e y"
proof -
  obtain x s1 e1 where x: "handleRecord c ctx r s e = (x, s1, e1)" by (metis prod_cases3)
  note k = handleRecord_ok [OF assms(1,2) x]
  consider "x = None" "y = (True, s1, e1)" | "ctx_done ctx e1" "y = (False, s1, e1)" | "outcome_ok settled ctx r s1 e1 y"
  proof (cases x)
    case (Some err)
    then show ?thesis
      using assms(3) x that(2,3) retryInPlace_outcome [OF _ assms(1), of ctx r "holdBackoff c" s1 e1 y] parkInPlace_outcome [of ctx r err "holdBackoff c" s1 e1 y]
      by (simp add: dispatch_def split: if_splits)
  qed (use assms(3) x that(1) in \<open>simp add: dispatch_def\<close>)
  then show ?thesis
  proof cases
    case 3
    then show ?thesis using k outcome_ok_later by blast
  qed (use k in \<open>simp_all add: outcome_ok_def resolved_rec_def\<close>)
qed

lemma retryInPlace_returns:
  assumes "c_handler c = h" "consumer_ok c"
  shows "delay_ok delay \<Longrightarrow> \<exists>y. retryInPlace c (Some t) r delay s e = Some y"
proof (induction "nat (t - now e)" arbitrary: delay s e rule: less_induct)
  case less
  obtain go e1 where s: "sleep (Some t) delay e = (go, e1)" by (meson surj_pair)
  obtain x s2 e2 where c: "call_handler c r s e1 = (x, s2, e2)" by (metis prod_cases3)
  have park: "\<exists>y. parkInPlace (Some t) r err (holdBackoff c) s2 e2 = Some y" for err
    by (rule parkInPlace_returns [OF holdBackoff_ok [OF assms(2)]])
  show ?case
  proof (cases "go \<and> \<not> ctx_done (Some t) e2")
    case True
    then have "now e < now e1" "now e1 \<le> now e2" "now e2 < t"
      using s c sleep_True [of "Some t" delay e e1] call_handler_ok [OF assms(1) c] less(2) by (auto simp: ctx_done_def delay_ok_def)
    then have "nat (t - now e2) < nat (t - now e)" by simp
    from less(1) [OF this next_delay_ok [OF less(2)]] show ?thesis
      using True s c park by (subst retryInPlace.simps) (auto split: option.splits)
  next
    case False
    then show ?thesis using s c by (subst retryInPlace.simps) (auto split: option.split)
  qed
qed

lemma dispatch_returns:
  assumes "c_handler c = h" "consumer_ok c"
  shows "\<exists>y. dispatch c (Some t) r s e = Some y"
  using retryInPlace_returns [OF assms holdBackoff_ok [OF assms(2)]] parkInPlace_returns [OF holdBackoff_ok [OF assms(2)]]
  by (auto simp: dispatch_def split: prod.splits option.splits)

lemma handleFetches_returns:
  assumes "c_handler c = h" "consumer_ok c"
  shows "\<exists>y. handleFetches c (Some t) rs s e = Some y"
proof (induction rs arbitrary: s e)
  case (Cons r rs)
  obtain ok s1 e1 where "dispatch c (Some t) r s e = Some (ok, s1, e1)"
    using dispatch_returns [OF assms] by (metis surj_pair)
  then show ?case using Cons by auto
qed auto

lemma handleFetches_ok:
  assumes "c_handler c = h" "consumer_ok c" "handleFetches c ctx rs s e = Some (ok, s', e')"
  shows "now e \<le> now e' \<and> kept settled s s' \<and> (if ok then \<forall>r\<in>set rs. resolved_rec settled r s' else ctx_done ctx e')"
  using assms(3)
proof (induction rs arbitrary: s e)
  case (Cons r rs)
  then obtain ok1 s1 e1 where d: "dispatch c ctx r s e = Some (ok1, s1, e1)" by (auto split: option.splits)
  note o = dispatch_outcome [OF assms(1,2) d, unfolded outcome_ok_def prod.case]
  show ?case
  proof (cases ok1)
    case True
    then have "handleFetches c ctx rs s1 e1 = Some (ok, s', e')" using Cons(2) d by simp
    from Cons(1) [OF this] o True show ?thesis
      using kept_trans [of settled s s1 s'] keptD [of settled s1 s' r] by (simp split: if_splits)
  next
    case False
    then show ?thesis using Cons(2) d o by simp
  qed
qed simp

lemma consume_returns:
  assumes "c_handler c = h" "consumer_ok c"
  shows "\<exists>y. consume c (Some t) fs s e = Some y"
proof (induction fs arbitrary: s e)
  case (Cons f fs)
  obtain ok s1 e1 where "handleFetches c (Some t) (f_records f) (s\<lparr>k_polled := k_polled s @ f_records f\<rparr>) e = Some (ok, s1, e1)"
    using handleFetches_returns [OF assms] by (metis surj_pair)
  then show ?case using Cons by (auto simp: Let_def split: prod.split)
qed auto

lemma consume_ok:
  assumes "c_handler c = h" "consumer_ok c" "\<forall>f\<in>set fs. f_errors f = []"
  shows "consume c ctx fs s e = Some (s', e') \<Longrightarrow>
    ctx_done ctx e \<or> (\<forall>r\<in>set (k_polled s). resolved_rec settled r s) \<Longrightarrow>
    \<forall>r\<in>set (k_committed s). resolved_rec settled r s \<Longrightarrow>
    \<forall>r\<in>set (k_committed s'). resolved_rec settled r s'"
  using assms(3)
proof (induction fs arbitrary: s e)
  case (Cons f fs)
  let ?s1 = "s\<lparr>k_polled := k_polled s @ f_records f\<rparr>"
  show ?case
  proof (cases "ctx_done ctx e")
    case True
    then show ?thesis using Cons(2,4) by simp
  next
    case False
    then obtain ok s2 e2 where h: "handleFetches c ctx (f_records f) ?s1 e = Some (ok, s2, e2)"
      using Cons(2,5) by (auto simp: Let_def split: option.splits)
    have same: "resolved_rec settled r ?s1 = resolved_rec settled r s" for r by (simp add: resolved_rec_def lies_parked_def)
    note k = handleFetches_ok [OF assms(1,2) h]
    have pol: "ctx_done ctx e2 \<or> (\<forall>r\<in>set (k_polled s2). resolved_rec settled r s2)"
      using k Cons(3) False same keptD [of settled ?s1 s2] by (auto simp: kept_def split: if_splits)
    have com: "\<forall>r\<in>set (k_committed s2). resolved_rec settled r s2"
      using k Cons(4) same keptD [of settled ?s1 s2] by (auto simp: kept_def)
    show ?thesis
    proof (cases ok)
      case True
      obtain x s3 e3 where c: "CommitUncommittedOffsets s2 e2 = (x, s3, e3)" by (metis prod_cases3)
      have s3: "s3 = s2 \<or> s3 = s2\<lparr>k_committed := k_polled s2\<rparr>"
        using c by (auto simp: CommitUncommittedOffsets_def exec_def stmt_def split: prod.splits fault.splits)
      have e3: "now e3 = now e2" by (rule exec_now [OF c [unfolded CommitUncommittedOffsets_def]])
      have pol2: "\<forall>r\<in>set (k_polled s2). resolved_rec settled r s2"
        using k True Cons(3) False same keptD [of settled ?s1 s2] by (auto simp: kept_def)
      have res3: "resolved_rec settled r s3 = resolved_rec settled r s2" for r
        using s3 by (auto simp: resolved_rec_def lies_parked_def)
      have "consume c ctx fs s3 e3 = Some (s', e')" using Cons(2,5) False h True c by (simp add: Let_def)
      from Cons(1) [OF this] show ?thesis using pol2 com s3 res3 Cons(5) by auto
    next
      case False
      then have "consume c ctx fs s2 e2 = Some (s', e')" using Cons(2,5) \<open>\<not> ctx_done ctx e\<close> h by (simp add: Let_def)
      from Cons(1) [OF this pol com] show ?thesis using Cons(5) by simp
    qed
  qed
qed simp

end

end
