(* ===== verification/Streams.thy ===== *)
theory Streams
  imports KafkaProps PayoutProps FulfillmentProps
begin

section \<open>The consumers of order confirmations behind the loop\<close>

text \<open>
  The handlers of the payout and fulfillment services keep the contract of the loop: one that answers nil has the
  event of a readable confirmation in \<open>processed_events\<close>, with everything its transaction wrote.  So a committed
  confirmation is in the service's tables or on its dead-letter topic; the loop comes back when its context ends;
  and the one way a record gets lost is a poll that also reports a fetch error.
\<close>

definition readable_confirmation :: "order_event option krecord \<Rightarrow> bool" where
  "readable_confirmation r \<longleftrightarrow> (kr_topic r = ''commerce.order.confirmed'' \<and>
     (case kr_value r of Some (OrderConfirmed oid owner pid shipTo ls t) \<Rightarrow> True | _ \<Rightarrow> False))"

definition noted_in :: "('d \<Rightarrow> string list) \<Rightarrow> order_event option krecord \<Rightarrow> 'd \<Rightarrow> bool" where
  "noted_in get r d \<longleftrightarrow> (if readable_confirmation r then seen_event get (event_id r) d else True)"

lemma payout_effects_processed: "payout_effects d d' \<Longrightarrow> set (po_processed d) \<subseteq> set (po_processed d')"
proof (induction rule: rtranclp_induct)
  case (step y z)
  have "set (po_processed y) \<subseteq> set (po_processed z)"
    using step(2) by (cases rule: payout_effect.cases) (auto simp: note_event_def with_payout_def paid_payout_def pay_payout_def)
  then show ?case using step(3) by simp
qed simp

lemma ship_effects_processed: "ship_effects d d' \<Longrightarrow> set (s_processed d) \<subseteq> set (s_processed d')"
proof (induction rule: rtranclp_induct)
  case (step y z)
  have "set (s_processed y) \<subseteq> set (s_processed z)"
    using step(2) by (cases rule: ship_effect.cases) (auto simp: note_event_def with_shipment_def moved_shipment_def put_shipment_def
      update_shipment_def split: option.splits)
  then show ?case using step(3) by simp
qed simp

lemma noted_in_mono: "set (get d) \<subseteq> set (get d') \<Longrightarrow> noted_in get r d \<Longrightarrow> noted_in get r d'"
  by (auto simp: noted_in_def seen_event_def)

lemma noted_now [simp]: "noted_in po_processed r (note_event po_processed_update (event_id r) d)"
    "noted_in s_processed r (note_event s_processed_update (event_id r) d')"
  by (simp_all add: noted_in_def seen_event_def note_event_def)

lemma po_Handler_cases:
  obtains (other) "po_Handler r = ret ()" "\<not> readable_confirmation r"
  | (create) oid gs where "po_Handler r = discard (po_CreateFromOrder oid gs (event_id r))" "readable_confirmation r"
  by (cases "readable_confirmation r") (auto simp: po_Handler_def readable_confirmation_def split: option.splits order_event.splits if_splits)

interpretation payouts: record_handler po_Handler "noted_in po_processed"
proof
  fix r w e
  show "wp (po_Handler r) (\<lambda>x w' e'. now e \<le> now e' \<and> (x = Inr () \<longrightarrow> noted_in po_processed r w') \<and>
      (\<forall>r'. noted_in po_processed r' w \<longrightarrow> noted_in po_processed r' w')) w e"
  proof (cases rule: po_Handler_cases [of r])
    case other
    then show ?thesis by (simp add: noted_in_def)
  next
    case (create oid gs)
    have seen: "seen_event po_processed (event_id r) w \<Longrightarrow> noted_in po_processed r w" by (simp add: noted_in_def)
    have eff: "payout_effects w d' \<Longrightarrow> noted_in po_processed r' w \<Longrightarrow> noted_in po_processed r' d'" for d' r'
      using payout_effects_processed noted_in_mono by metis
    have new: "noted_in po_processed r d' \<and> payout_effects w d'"
      if "\<not> seen_event po_processed (event_id r) w" "owes oid gs (note_event po_processed_update (event_id r) w) new d'" for new d'
    proof
      have "payout_effects (note_event po_processed_update (event_id r) w) d'" using that(2) by (simp add: owes_def)
      from noted_in_mono [OF payout_effects_processed [OF this] noted_now(1)] show "noted_in po_processed r d'" .
      show "payout_effects w d'" using that by (rule noted_then_owes)
    qed
    show ?thesis
      unfolding create(1) by (auto intro!: wp_po_CreateFromOrderI intro: seen dest: eff new)
  qed
qed

lemma ship_Handler_cases:
  obtains (other) "ship_Handler r = ret ()" "\<not> readable_confirmation r"
  | (create) oid owner addr gs where "ship_Handler r = discard (CreateFromOrder oid owner addr gs (event_id r))" "readable_confirmation r"
  by (cases "readable_confirmation r")
     (auto simp: ship_Handler_def readable_confirmation_def split: option.splits order_event.splits if_splits)

interpretation shipments: record_handler ship_Handler "noted_in s_processed"
proof
  fix r w e
  show "wp (ship_Handler r) (\<lambda>x w' e'. now e \<le> now e' \<and> (x = Inr () \<longrightarrow> noted_in s_processed r w') \<and>
      (\<forall>r'. noted_in s_processed r' w \<longrightarrow> noted_in s_processed r' w')) w e"
  proof (cases rule: ship_Handler_cases [of r])
    case other
    then show ?thesis by (simp add: noted_in_def)
  next
    case (create oid owner addr gs)
    have seen: "seen_event s_processed (event_id r) w \<Longrightarrow> noted_in s_processed r w" by (simp add: noted_in_def)
    have eff: "ship_effects w d' \<Longrightarrow> noted_in s_processed r' w \<Longrightarrow> noted_in s_processed r' d'" for d' r'
      using ship_effects_processed noted_in_mono by metis
    have new: "noted_in s_processed r d' \<and> ship_effects w d'"
      if "\<not> seen_event s_processed (event_id r) w" "creates oid gs (note_event s_processed_update (event_id r) w) new d'" for new d'
    proof
      note c = creates_effects [OF that(2)]
      from noted_in_mono [OF ship_effects_processed [OF c] noted_now(2)] show "noted_in s_processed r d'" .
      show "ship_effects w d'" using that(1) c by (rule noted_then)
    qed
    show ?thesis
      unfolding create(1) by (auto intro!: wp_CreateFromOrderI intro: seen dest: eff new)
  qed
qed

subsection \<open>Properties\<close>

text \<open>C34: at-least-once delivery.  A consumer of a handler that keeps the contract, started with nothing committed, is
  given polls without fetch errors: whatever faults the handler, the dead-letter producer and the commits meet, and
  whenever the context ends, every record whose offset the run committed was settled by the handler or lies on the
  dead-letter topic with its key, value and coordinates.\<close>

theorem committed_records_resolved:
  assumes "record_handler (c_handler c) settled" "consumer_ok c" "filter (\<lambda>f. f_errors f \<noteq> []) fs = []"
    and "k_committed s = []" "k_polled s = []" "consume c ctx fs s e = Some (s', e')" "r \<in> set (k_committed s')"
  shows "settled r (k_world s') \<or> lies_parked r s'"
proof -
  have "\<forall>f\<in>set fs. f_errors f = []" using assms(3) by (auto simp: filter_empty_conv)
  from record_handler.consume_ok [OF assms(1) refl assms(2) this assms(6)] show ?thesis
    using assms(4,5,7) by (simp add: resolved_rec_def)
qed

text \<open>C35: the loops end.  When the context ends at some instant, the consumer comes back from any polls, under any faults:
  the retries in place and the retries of the parking all stop, because every wait is at least a nanosecond long
  however often it was doubled.\<close>

theorem consumer_comes_back:
  assumes "record_handler (c_handler c) settled" "consumer_ok c"
  shows "\<exists>s' e'. consume c (Some t) fs s e = Some (s', e')"
  using record_handler.consume_returns [OF assms(1) refl assms(2)] by (metis surj_pair)


definition confirmation :: "int \<Rightarrow> string \<Rightarrow> order_line_msg list \<Rightarrow> order_event option krecord" where
  "confirmation n oid ls = \<lparr>kr_topic = ''commerce.order.confirmed'', kr_key = oid,
     kr_value = Some (OrderConfirmed oid ''u'' ''pay'' home ls 1), kr_partition = 0, kr_offset = n\<rparr>"

text \<open>A line whose currency does not fit the column: no retry helps, the record is parked.\<close>

definition bad_line :: order_line_msg where
  "bad_line = \<lparr>m_product_id = ''p'', m_title = ''t'', m_quantity = 1, m_shop_id = ''s1'',
     m_unit_price = \<lparr>w_currency = ''EURO'', w_units = 1, w_nanos = 0\<rparr>, m_line_total = \<lparr>w_currency = ''EURO'', w_units = 1, w_nanos = 0\<rparr>\<rparr>"

definition payout_consumer :: "(payout_db, order_event option) consumer" where
  "payout_consumer = WithDeadLetter \<lparr>dl_Attempts = 0, dl_Backoff = 0, dl_Retryable = None\<rparr> (NewConsumer po_Handler)"

definition payout_stream :: "(payout_db, order_event option) kstate" where
  "payout_stream = \<lparr>k_world = empty_payout_db, k_dlq = [], k_polled = [], k_committed = []\<rparr>"

definition payout_polls :: "order_event option fetches list" where
  "payout_polls = [\<lparr>f_records = [confirmation 1 ''o1'' (linesProto (Lines (sale ''o1'' ''u''))), confirmation 2 ''o2'' [bad_line]], f_errors = []\<rparr>]"

definition payout_env :: env where
  "payout_env = env_at 1"

lemma payout_consumer_ok: "consumer_ok payout_consumer" "c_handler payout_consumer = po_Handler"
  by (simp_all add: payout_consumer_def WithDeadLetter_def NewConsumer_def consumer_ok_def defaultBackoff_def)

lemma payout_consumed:
  "case consume payout_consumer (Some 1000000000000) payout_polls payout_stream payout_env of
     Some (s', e') \<Rightarrow> map kr_offset (k_committed s') = [1, 2] \<and> map pk_origin_offset (k_dlq s') = [''2'']
   | None \<Rightarrow> False"
  by code_simp

theorem committed_records_resolved_witness:
  "\<exists>s' e'. consume payout_consumer (Some 1000000000000) payout_polls payout_stream payout_env = Some (s', e') \<and>
     map kr_offset (k_committed s') = [1, 2] \<and>
     list_all (\<lambda>r. resolved_rec (noted_in po_processed) r s') (k_committed s')"
proof -
  obtain s' e' where run: "consume payout_consumer (Some 1000000000000) payout_polls payout_stream payout_env = Some (s', e')"
      "map kr_offset (k_committed s') = [1, 2]"
    using payout_consumed by (auto split: option.splits)
  have h: "record_handler (c_handler payout_consumer) (noted_in po_processed)"
    unfolding payout_consumer_ok(2) by (rule payouts.record_handler_axioms)
  have "noted_in po_processed r (k_world s') \<or> lies_parked r s'" if "r \<in> set (k_committed s')" for r
    by (rule committed_records_resolved [OF h payout_consumer_ok(1) _ _ _ run(1) that])
       (simp_all add: payout_polls_def payout_stream_def)
  then show ?thesis using run by (auto simp: list_all_iff resolved_rec_def)
qed

theorem consumer_comes_back_witness:
  "\<exists>s' e'. consume payout_consumer (Some 1000000000000) payout_polls payout_stream (payout_env\<lparr>faults := replicate 50 Lost\<rparr>) = Some (s', e')"
proof -
  have h: "record_handler (c_handler payout_consumer) (noted_in po_processed)"
    unfolding payout_consumer_ok(2) by (rule payouts.record_handler_axioms)
  from consumer_comes_back [OF h payout_consumer_ok(1)] show ?thesis by blast
qed


end
