(* ===== verification/Texts.thy ===== *)
theory Texts
  imports Errs Strs
begin

section \<open>Text rules shared by the services: runes, slugs, addresses\<close>

text \<open>
  Strings are the bytes of valid UTF-8, as in every protobuf request: a rune starts at each byte that continues no
  other.  What needs the tables of package \<open>unicode\<close> (lower casing a whole string) is an argument.
\<close>

definition is_cont :: "char \<Rightarrow> bool" where
  "is_cont c \<longleftrightarrow> (let n = of_char c :: nat in 128 \<le> n \<and> n < 192)"

definition rune_count :: "string \<Rightarrow> nat" where
  "rune_count s = length (filter (\<lambda>c. \<not> is_cont c) s)"

fun take_runes :: "nat \<Rightarrow> string \<Rightarrow> string" where
  "take_runes n [] = []"
| "take_runes n (c # s) =
     (if is_cont c then c # take_runes n s else case n of 0 \<Rightarrow> [] | Suc m \<Rightarrow> c # take_runes m s)"

definition truncate_runes :: "string \<Rightarrow> nat \<Rightarrow> string" where
  "truncate_runes s limit = (if rune_count s \<le> limit then s else take_runes limit s)"

lemma rune_count_simps [simp]:
  "rune_count [] = 0" "rune_count (c # s) = (if is_cont c then rune_count s else Suc (rune_count s))"
  by (simp_all add: rune_count_def)

lemma rune_count_take: "rune_count (take_runes n s) \<le> n"
  by (induction n s rule: take_runes.induct) (auto split: nat.split)

lemma rune_count_truncate [simp]: "rune_count (truncate_runes s n) \<le> n"
  by (simp add: truncate_runes_def rune_count_take)

lemma truncate_empty [simp]: "0 < n \<Longrightarrow> truncate_runes s n = '''' \<longleftrightarrow> s = ''''"
  by (cases s; cases n) (auto simp: truncate_runes_def split: if_splits)

text \<open>The runes of a text, each with its bytes, as \<open>range\<close> over a string yields them.\<close>

function runes :: "string \<Rightarrow> string list" where
  "runes [] = []"
| "runes (c # s) = (c # takeWhile is_cont s) # runes (dropWhile is_cont s)"
  by pat_completeness auto
termination by (relation "measure length") (auto simp: less_Suc_eq_le length_dropWhile_le)

subsection \<open>Slugs\<close>

definition slug_char :: "char \<Rightarrow> bool" where
  "slug_char c \<longleftrightarrow> (let n = of_char c :: nat in 97 \<le> n \<and> n \<le> 122 \<or> 48 \<le> n \<and> n \<le> 57)"

definition dash :: char where "dash = CHR ''-''"

text \<open>\<open>[^a-z0-9]+\<close> replaced by a dash: the flag says that the run before was replaced already.\<close>

fun squeeze :: "bool \<Rightarrow> string \<Rightarrow> string" where
  "squeeze run [] = []"
| "squeeze run (c # s) = (if slug_char c then c # squeeze False s
     else if run then squeeze True s else dash # squeeze True s)"

definition trim_dashes :: "string \<Rightarrow> string" where
  "trim_dashes s = rev (dropWhile (\<lambda>c. c = dash) (rev (dropWhile (\<lambda>c. c = dash) s)))"

definition slug_text :: "string \<Rightarrow> bool" where
  "slug_text s \<longleftrightarrow> list_all (\<lambda>c. slug_char c \<or> c = dash) s \<and> (s = '''' \<or> slug_char (hd s) \<and> slug_char (last s))"

lemma squeeze_chars: "list_all (\<lambda>c. slug_char c \<or> c = dash) (squeeze run s)"
  by (induction run s rule: squeeze.induct) auto

lemma trim_dashes_text:
  assumes "list_all (\<lambda>c. slug_char c \<or> c = dash) s"
  shows "slug_text (trim_dashes s)" "length (trim_dashes s) \<le> length s"
proof -
  let ?P = "\<lambda>c. c = dash"
  let ?t = "dropWhile ?P s"
  let ?u = "dropWhile ?P (rev ?t)"
  have sub: "set ?u \<subseteq> set s" by (auto dest!: set_dropWhileD)
  have all: "slug_char c \<or> c = dash" if "c \<in> set s" for c using that assms by (simp add: list_all_iff)
  have "slug_char (hd (rev ?u)) \<and> slug_char (last (rev ?u))" if ne: "?u \<noteq> []"
  proof
    have "hd ?u \<noteq> dash" using ne hd_dropWhile [of ?P "rev ?t"] by simp
    then show "slug_char (last (rev ?u))" using all subsetD [OF sub hd_in_set [OF ne]] by (auto simp: last_rev ne)
    obtain v where v: "rev ?t = v @ ?u" using takeWhile_dropWhile_id by metis
    then have "?t = rev ?u @ rev v" by (metis rev_append rev_rev_ident)
    then have "?t \<noteq> []" "hd ?t = hd (rev ?u)" using ne by (metis append_is_Nil_conv rev_is_Nil_conv, metis hd_append2 rev_is_Nil_conv)
    then have "hd (rev ?u) \<noteq> dash" using hd_dropWhile [of ?P s] by metis
    then show "slug_char (hd (rev ?u))" using all subsetD [OF sub, of "hd (rev ?u)"] hd_in_set [of "rev ?u"] ne by auto
  qed
  moreover have "list_all (\<lambda>c. slug_char c \<or> c = dash) (rev ?u)" using all sub by (auto simp: list_all_iff)
  ultimately show "slug_text (trim_dashes s)" by (auto simp: slug_text_def trim_dashes_def)
  show "length (trim_dashes s) \<le> length s"
    using length_dropWhile_le [of ?P "rev ?t"] length_dropWhile_le [of ?P s] by (simp add: trim_dashes_def)
qed

definition MaxSlugLen :: nat where "MaxSlugLen = 60"

definition Slugify :: "(string \<Rightarrow> string) \<Rightarrow> string \<Rightarrow> string" where
  "Slugify to_lower name =
     (let s = trim_dashes (squeeze False (to_lower name)) in
      if MaxSlugLen < length s then trim_dashes (take MaxSlugLen s) else s)"

lemma Slugify_text: "slug_text (Slugify to_lower name)" "length (Slugify to_lower name) \<le> MaxSlugLen"
proof -
  let ?s = "trim_dashes (squeeze False (to_lower name))"
  have s: "slug_text ?s" by (rule trim_dashes_text [OF squeeze_chars])
  then have t: "list_all (\<lambda>c. slug_char c \<or> c = dash) (take n ?s)" for n
    by (auto simp: slug_text_def list_all_iff dest: in_set_takeD)
  show "slug_text (Slugify to_lower name)" using s trim_dashes_text(1) [OF t] by (simp add: Slugify_def Let_def)
  show "length (Slugify to_lower name) \<le> MaxSlugLen"
    using trim_dashes_text(2) [OF t, of MaxSlugLen] by (auto simp: Slugify_def Let_def)
qed

subsection \<open>Mail addresses\<close>

text \<open>\<open>^[^@\s]+@[^@\s]+\.[^@\s]+$\<close>: one at sign, no white space, a dot inside the domain with text on both sides.\<close>

definition re_space :: "char \<Rightarrow> bool" where
  "re_space c \<longleftrightarrow> (let n = of_char c :: nat in n = 9 \<or> n = 10 \<or> n = 12 \<or> n = 13 \<or> n = 32)"

definition emailShaped :: "string \<Rightarrow> bool" where
  "emailShaped s \<longleftrightarrow> list_all (\<lambda>c. \<not> re_space c) s \<and> length (filter (\<lambda>c. c = CHR ''@'') s) = 1 \<and>
     takeWhile (\<lambda>c. c \<noteq> CHR ''@'') s \<noteq> '''' \<and>
     (let dom = tl (dropWhile (\<lambda>c. c \<noteq> CHR ''@'') s) in CHR ''.'' \<in> set (butlast (tl dom)))"

end
