(* ===== verification/Seller.thy ===== *)
theory Seller
  imports OrderStore Texts Auth Fga
begin

section \<open>The seller service (services/seller)\<close>

text \<open>
  Marketplace shops: the aggregate and its rules (internal/domain/shop.go), the store with its unique owner and slug
  (internal/store), the handlers and the management of a shop's staff by OpenFGA tuples (internal/grpcsvc).
\<close>

subsection \<open>The aggregate\<close>

datatype shop_status = ShopPendingReview | ShopActive | ShopSuspended

definition shop_status_str :: "shop_status \<Rightarrow> string" where
  "shop_status_str s = (case s of ShopPendingReview \<Rightarrow> ''PENDING_REVIEW'' | ShopActive \<Rightarrow> ''ACTIVE'' | ShopSuspended \<Rightarrow> ''SUSPENDED'')"

record shop =
  sp_ID :: string
  sp_OwnerID :: string
  sp_Name :: string
  sp_Slug :: string
  sp_Description :: string
  sp_ContactEmail :: string
  sp_Status :: shop_status
  sp_SuspensionReason :: string
  sp_CreatedAt :: int
  sp_UpdatedAt :: int

definition MinNameRunes :: nat where "MinNameRunes = 2"
definition MaxNameRunes :: nat where "MaxNameRunes = 80"
definition MaxDescRunes :: nat where "MaxDescRunes = 2000"
definition MaxEmailRunes :: nat where "MaxEmailRunes = 254"
definition MaxReasonRunes :: nat where "MaxReasonRunes = 500"
definition MinSlugLen :: nat where "MinSlugLen = 3"

lemmas shop_limits = MinNameRunes_def MaxNameRunes_def MaxDescRunes_def MaxEmailRunes_def MaxReasonRunes_def
  MinSlugLen_def MaxSlugLen_def

definition bad_name :: go_err where "bad_name = errs_New KindInvalidArgument ''BAD_NAME''"
definition bad_email :: go_err where "bad_email = errs_New KindInvalidArgument ''BAD_EMAIL''"

definition name_ok :: "string \<Rightarrow> bool" where
  "name_ok n \<longleftrightarrow> MinNameRunes \<le> rune_count n \<and> rune_count n \<le> MaxNameRunes"

definition email_ok :: "string \<Rightarrow> bool" where
  "email_ok m \<longleftrightarrow> m = '''' \<or> rune_count m \<le> MaxEmailRunes \<and> emailShaped m"

text \<open>\<open>to_lower\<close> is \<open>strings.ToLower\<close>, with the tables of package \<open>unicode\<close>.\<close>

definition NewShop :: "(string \<Rightarrow> string) \<Rightarrow> string \<Rightarrow> string \<Rightarrow> string \<Rightarrow> string \<Rightarrow> shop res" where
  "NewShop to_lower ownerID name0 description0 email0 =
     (if ownerID = '''' then Inl (errs_New KindUnauthenticated ''OWNER_REQUIRED'')
      else let name = TrimSpace name0 in
      if \<not> name_ok name then Inl bad_name
      else let slug = Slugify to_lower name in
      if length slug < MinSlugLen then Inl bad_name
      else let email = TrimSpace email0 in
      if \<not> email_ok email then Inl bad_email
      else Inr \<lparr>sp_ID = '''', sp_OwnerID = ownerID, sp_Name = name, sp_Slug = slug,
             sp_Description = truncate_runes (TrimSpace description0) MaxDescRunes, sp_ContactEmail = email,
             sp_Status = ShopPendingReview, sp_SuspensionReason = '''', sp_CreatedAt = 0, sp_UpdatedAt = 0\<rparr>)"

definition shop_ApplyUpdate :: "string \<Rightarrow> string \<Rightarrow> string \<Rightarrow> shop \<Rightarrow> shop res" where
  "shop_ApplyUpdate name0 description0 email0 s =
     (let name = TrimSpace name0; email = TrimSpace email0 in
      if \<not> name_ok name then Inl bad_name
      else if \<not> email_ok email then Inl bad_email
      else Inr (s\<lparr>sp_Name := name, sp_Description := truncate_runes (TrimSpace description0) MaxDescRunes,
                 sp_ContactEmail := email\<rparr>))"

text \<open>The changed shop, or \<open>None\<close> when there is nothing to change.  The status is one of the three the table admits.\<close>

definition Activate :: "shop \<Rightarrow> shop option res" where
  "Activate s = (case sp_Status s of
       ShopActive \<Rightarrow> Inr None
     | _ \<Rightarrow> Inr (Some (s\<lparr>sp_Status := ShopActive, sp_SuspensionReason := ''''\<rparr>)))"

definition Suspend :: "string \<Rightarrow> shop \<Rightarrow> shop option res" where
  "Suspend reason0 s =
     (let reason = truncate_runes (TrimSpace reason0) MaxReasonRunes in
      if reason = '''' then Inl (errs_New KindInvalidArgument ''REASON_REQUIRED'')
      else case sp_Status s of
        ShopSuspended \<Rightarrow> Inr None
      | _ \<Rightarrow> Inr (Some (s\<lparr>sp_Status := ShopSuspended, sp_SuspensionReason := reason\<rparr>)))"

subsection \<open>Store\<close>

datatype shop_event =
    ShopCreated string string string string int
  | ShopActivated string string string int
  | ShopSuspendedEvent string string string int

record seller_db =
  shops :: "shop list"
  slox :: "shop_event outbox"

definition empty_seller_db :: seller_db where
  "empty_seller_db = \<lparr>shops = [], slox = empty_outbox\<rparr>"

definition shop_not_found :: go_err where
  "shop_not_found = errs_New KindNotFound ''SHOP_NOT_FOUND''"

definition sl_emit :: "string \<Rightarrow> string \<Rightarrow> (int \<Rightarrow> shop_event) \<Rightarrow> (seller_db, unit) prog" where
  "sl_emit topic key ev = map_err wrap (exec (\<lambda>t d. d\<lparr>slox := outbox_add topic key (ev t) t (slox d)\<rparr>))"

definition find_shop :: "(shop \<Rightarrow> string) \<Rightarrow> string \<Rightarrow> seller_db \<Rightarrow> shop option" where
  "find_shop col v d = List.find (\<lambda>s. col s = v) (shops d)"

definition sl_scanOne :: "(seller_db \<Rightarrow> shop option) \<Rightarrow> (seller_db, shop) prog" where
  "sl_scanOne f = or_not_found shop_not_found (query_row f)"

definition insert_shop :: "shop \<Rightarrow> string \<Rightarrow> int \<Rightarrow> seller_db \<Rightarrow> go_err + (shop \<times> seller_db)" where
  "insert_shop sh i t d =
     (if sp_OwnerID sh \<in> sp_OwnerID ` set (shops d) \<or> sp_Slug sh \<in> sp_Slug ` set (shops d) \<or> i \<in> sp_ID ` set (shops d)
      then Inl uniqueViolation
      else let s = sh\<lparr>sp_ID := i, sp_SuspensionReason := '''', sp_CreatedAt := t, sp_UpdatedAt := t\<rparr>
           in Inr (s, d\<lparr>shops := shops d @ [s]\<rparr>))"

definition sl_Create :: "shop \<Rightarrow> (seller_db, shop) prog" where
  "sl_Create sh = in_tx (
     bnd new_uuid (\<lambda>i.
     bnd (map_err (\<lambda>err. if err = uniqueViolation then errs_New KindAlreadyExists ''SHOP_EXISTS'' else wrap err)
            (exec_chk (insert_shop sh i))) (\<lambda>out.
     bnd (sl_emit ''commerce.shop.created'' (sp_ID out) (ShopCreated (sp_ID out) (sp_OwnerID out) (sp_Name out) (sp_Slug out))) (\<lambda>_.
     ret (Commit out)))))"

definition GetByOwner :: "string \<Rightarrow> (seller_db, shop) prog" where
  "GetByOwner ownerID = sl_scanOne (find_shop sp_OwnerID ownerID)"

definition sl_GetByID :: "string \<Rightarrow> (seller_db, shop) prog" where
  "sl_GetByID i = bnd (notFoundID i ''SHOP_NOT_FOUND'') (\<lambda>_. sl_scanOne (find_shop sp_ID i))"

definition sl_GetBySlug :: "string \<Rightarrow> (seller_db, shop) prog" where
  "sl_GetBySlug slug = sl_scanOne (find_shop sp_Slug slug)"

text \<open>\<open>UPDATE ... WHERE id = ... RETURNING\<close>: the rows changed by the function, and the first of them.\<close>

definition update_shop :: "string \<Rightarrow> (int \<Rightarrow> shop \<Rightarrow> shop) \<Rightarrow> (seller_db, shop) prog" where
  "update_shop i f = or_not_found shop_not_found (exec_chk (\<lambda>t d.
     let d' = d\<lparr>shops := upd_rows (\<lambda>s. sp_ID s = i) (\<lambda>s. (f t s)\<lparr>sp_UpdatedAt := t\<rparr>) (shops d)\<rparr> in
     case find_shop sp_ID i d' of None \<Rightarrow> Inl NoRows | Some s \<Rightarrow> Inr (s, d')))"

definition sl_Update :: "string \<Rightarrow> string \<Rightarrow> string \<Rightarrow> string \<Rightarrow> (seller_db, shop) prog" where
  "sl_Update ownerID name description email = in_tx (
     bnd (sl_scanOne (find_shop sp_OwnerID ownerID)) (\<lambda>cur0.
     bnd (lift_res (shop_ApplyUpdate name description email cur0)) (\<lambda>cur.
     bnd (update_shop (sp_ID cur) (\<lambda>_ s. s\<lparr>sp_Name := sp_Name cur, sp_Description := sp_Description cur,
            sp_ContactEmail := sp_ContactEmail cur\<rparr>)) (\<lambda>out.
     ret (Commit out)))))"

definition select_shops :: "string \<Rightarrow> int \<Rightarrow> seller_db \<Rightarrow> shop list" where
  "select_shops st cursor d = newest_first sp_CreatedAt
     (filter (\<lambda>s. sp_CreatedAt s < cursor \<and> (st = '''' \<or> shop_status_str (sp_Status s) = st)) (shops d))"

definition sl_List :: "string \<Rightarrow> int \<Rightarrow> string \<Rightarrow> (seller_db, shop list \<times> string) prog" where
  "sl_List st limit0 before =
     (let limit = limit_or 20 limit0 in
      bnd (asks (\<lambda>e. cursor_of e before)) (\<lambda>cursor.
      bnd (map_err wrap (query (\<lambda>_ d. take (Suc limit) (select_shops st cursor d)))) (\<lambda>out.
      bnd (asks fmt_time) (\<lambda>fmt.
      ret (page_of limit sp_CreatedAt fmt out)))))"

definition shop_eventFor :: "shop \<Rightarrow> (seller_db, unit) prog" where
  "shop_eventFor out = (case sp_Status out of
       ShopActive \<Rightarrow> sl_emit ''commerce.shop.activated'' (sp_ID out) (ShopActivated (sp_ID out) (sp_OwnerID out) (sp_Slug out))
     | ShopSuspended \<Rightarrow> sl_emit ''commerce.shop.suspended'' (sp_ID out) (ShopSuspendedEvent (sp_ID out) (sp_OwnerID out) (sp_SuspensionReason out))
     | ShopPendingReview \<Rightarrow> ret ())"

definition sl_Transition :: "string \<Rightarrow> (shop \<Rightarrow> shop option res) \<Rightarrow> (seller_db, shop) prog" where
  "sl_Transition i fn =
     bnd (notFoundID i ''SHOP_NOT_FOUND'') (\<lambda>_. in_tx (
       bnd (sl_scanOne (find_shop sp_ID i)) (\<lambda>cur.
       bnd (lift_res (fn cur)) (\<lambda>changed. case changed of
         None \<Rightarrow> ret (Abort cur)
       | Some cur' \<Rightarrow>
           bnd (update_shop (sp_ID cur') (\<lambda>_ s. s\<lparr>sp_Status := sp_Status cur', sp_SuspensionReason := sp_SuspensionReason cur'\<rparr>)) (\<lambda>out.
           bnd (shop_eventFor out) (\<lambda>_.
           ret (Commit out)))))))"

subsection \<open>Handlers\<close>

record seller_sys = fga_sys +
  sl_db :: seller_db

definition at_seller :: "(seller_db, 'a) prog \<Rightarrow> ('x seller_sys_scheme, 'a) prog" where
  "at_seller p = zoom sl_db sl_db_update p"

definition roleShopAdmin :: string where "roleShopAdmin = ''shop_admin''"

definition signed_in :: "caller \<Rightarrow> principal res" where
  "signed_in c = (case c of None \<Rightarrow> Inl not_authenticated | Some p \<Rightarrow> Inr p)"

text \<open>A failed write of the owner's tuple is only logged.\<close>

definition CreateShop ::
  "(string \<Rightarrow> string) \<Rightarrow> ('x seller_sys_scheme) fga_api option \<Rightarrow> caller \<Rightarrow> string \<Rightarrow> string \<Rightarrow> string \<Rightarrow> ('x seller_sys_scheme, shop) prog" where
  "CreateShop to_lower fga c name description email =
     bnd (lift_res (signed_in c)) (\<lambda>p.
     bnd (lift_res (NewShop to_lower (Subject p) name description email)) (\<lambda>sh.
     bnd (at_seller (sl_Create sh)) (\<lambda>saved.
     bnd (case fga of
            None \<Rightarrow> ret ()
          | Some api \<Rightarrow> discard (attempt (f_Write api (UserObject (Subject p)) RelationOwner (ShopObject (sp_ID saved))))) (\<lambda>_.
     ret saved))))"

definition GetMyShop :: "caller \<Rightarrow> ('x seller_sys_scheme, shop) prog" where
  "GetMyShop c = bnd (lift_res (signed_in c)) (\<lambda>p. at_seller (GetByOwner (Subject p)))"

definition maySeePrivate :: "caller \<Rightarrow> shop \<Rightarrow> bool" where
  "maySeePrivate c sh = (case c of None \<Rightarrow> False | Some p \<Rightarrow> Subject p = sp_OwnerID sh \<or> HasRole p roleShopAdmin)"

datatype shop_selector = ById string | BySlug string | NoSelector

definition GetShop :: "caller \<Rightarrow> shop_selector \<Rightarrow> ('x seller_sys_scheme, shop) prog" where
  "GetShop c sel =
     bnd (case sel of
            ById i \<Rightarrow> at_seller (sl_GetByID i)
          | BySlug s \<Rightarrow> at_seller (sl_GetBySlug s)
          | NoSelector \<Rightarrow> fail (errs_New KindInvalidArgument ''SELECTOR_REQUIRED'')) (\<lambda>sh.
     if sp_Status sh \<noteq> ShopActive \<and> \<not> maySeePrivate c sh then fail shop_not_found else ret sh)"

definition UpdateShop :: "caller \<Rightarrow> string \<Rightarrow> string \<Rightarrow> string \<Rightarrow> ('x seller_sys_scheme, shop) prog" where
  "UpdateShop c name description email =
     bnd (lift_res (signed_in c)) (\<lambda>p. at_seller (sl_Update (Subject p) name description email))"

definition shop_statusFromProto :: "shop_status option \<Rightarrow> string" where
  "shop_statusFromProto st = (case st of None \<Rightarrow> '''' | Some s \<Rightarrow> shop_status_str s)"

definition ListShops :: "caller \<Rightarrow> shop_status option \<Rightarrow> int \<Rightarrow> string \<Rightarrow> ('x seller_sys_scheme, shop list \<times> string) prog" where
  "ListShops c st pageSize token =
     bnd (lift_res (RequireRole c roleShopAdmin)) (\<lambda>_.
     at_seller (sl_List (shop_statusFromProto st) pageSize token))"

definition ActivateShop :: "caller \<Rightarrow> string \<Rightarrow> ('x seller_sys_scheme, shop) prog" where
  "ActivateShop c i =
     bnd (lift_res (RequireRole c roleShopAdmin)) (\<lambda>_. at_seller (sl_Transition i Activate))"

definition SuspendShop :: "caller \<Rightarrow> string \<Rightarrow> string \<Rightarrow> ('x seller_sys_scheme, shop) prog" where
  "SuspendShop c i reason =
     bnd (lift_res (RequireRole c roleShopAdmin)) (\<lambda>_. at_seller (sl_Transition i (Suspend reason)))"

subsection \<open>Staff (staff.go)\<close>

definition callerShop :: "('x seller_sys_scheme) fga_api option \<Rightarrow> caller \<Rightarrow>
    ('x seller_sys_scheme, string \<times> string \<times> ('x seller_sys_scheme) fga_api) prog" where
  "callerShop fga c =
     bnd (lift_res (signed_in c)) (\<lambda>p. case fga of
       None \<Rightarrow> fail (errs_New KindUnavailable ''STAFF_DISABLED'')
     | Some api \<Rightarrow>
         bnd (at_seller (GetByOwner (Subject p))) (\<lambda>sh.
         ret (sp_ID sh, Subject p, api)))"

definition staffSubject :: "string \<Rightarrow> string res" where
  "staffSubject raw = (let sub = TrimSpace raw in
     if sub = '''' then Inl (errs_New KindInvalidArgument ''SUBJECT_REQUIRED'') else Inr sub)"

definition AddShopStaff :: "('x seller_sys_scheme) fga_api option \<Rightarrow> caller \<Rightarrow> string \<Rightarrow> ('x seller_sys_scheme, unit) prog" where
  "AddShopStaff fga c raw =
     bnd (callerShop fga c) (\<lambda>(shopID, owner, api).
     bnd (lift_res (staffSubject raw)) (\<lambda>sub.
     if sub = owner then fail (errs_New KindInvalidArgument ''SUBJECT_IS_OWNER'')
     else bnd (attempt (f_Write api (UserObject owner) RelationOwner (ShopObject shopID))) (\<lambda>_.
          bnd (attempt (f_Write api (UserObject sub) RelationStaff (ShopObject shopID))) (\<lambda>r. case r of
            Inl err \<Rightarrow> if \<not> IsAlreadyExists err then fail (errs_Wrap err KindInternal ''ADD_STAFF_FAILED'') else ret ()
          | Inr _ \<Rightarrow> ret ()))))"

definition RemoveShopStaff :: "('x seller_sys_scheme) fga_api option \<Rightarrow> caller \<Rightarrow> string \<Rightarrow> ('x seller_sys_scheme, unit) prog" where
  "RemoveShopStaff fga c raw =
     bnd (callerShop fga c) (\<lambda>(shopID, owner, api).
     bnd (lift_res (staffSubject raw)) (\<lambda>sub.
     bnd (attempt (f_Delete api (UserObject sub) RelationStaff (ShopObject shopID))) (\<lambda>r. case r of
       Inl err \<Rightarrow> if \<not> IsNotFound err then fail (errs_Wrap err KindInternal ''REMOVE_STAFF_FAILED'') else ret ()
     | Inr _ \<Rightarrow> ret ())))"

definition staff_of :: "fga_tuple list \<Rightarrow> string list" where
  "staff_of ts = map (\<lambda>t. case t of Tuple u r ob \<Rightarrow> TrimPrefix u ''user:'')
     (filter (\<lambda>t. case t of Tuple u r ob \<Rightarrow> r = RelationStaff) ts)"

definition ListShopStaff :: "('x seller_sys_scheme) fga_api option \<Rightarrow> caller \<Rightarrow> ('x seller_sys_scheme, string \<times> string list) prog" where
  "ListShopStaff fga c =
     bnd (callerShop fga c) (\<lambda>(shopID, owner, api).
     bnd (map_err (\<lambda>err. errs_Wrap err KindInternal ''LIST_STAFF_FAILED'') (f_Read api (ShopObject shopID))) (\<lambda>ts.
     ret (owner, staff_of ts)))"

end
