(* ===== verification/SellerProps.thy ===== *)
theory SellerProps
  imports Seller History Quiet Samples
begin

section \<open>Properties of shops\<close>

text \<open>
  Every row of the shop table is well formed and every shop walks its state machine, through all operations of the
  store under any faults; staff grants are the owner's and take effect until they are removed.
\<close>

subsection \<open>Well-formed shops\<close>

definition shop_ok :: "shop \<Rightarrow> bool" where
  "shop_ok s \<longleftrightarrow> sp_OwnerID s \<noteq> '''' \<and> name_ok (sp_Name s) \<and> TrimSpace (sp_Name s) = sp_Name s \<and>
     slug_text (sp_Slug s) \<and> MinSlugLen \<le> length (sp_Slug s) \<and> length (sp_Slug s) \<le> MaxSlugLen \<and>
     rune_count (sp_Description s) \<le> MaxDescRunes \<and> email_ok (sp_ContactEmail s) \<and>
     (sp_Status s = ShopSuspended) = (sp_SuspensionReason s \<noteq> '''') \<and> rune_count (sp_SuspensionReason s) \<le> MaxReasonRunes"

inductive shop_allowed :: "shop_status \<Rightarrow> shop_status \<Rightarrow> bool" where
  "shop_allowed ShopPendingReview ShopActive"
| "shop_allowed ShopPendingReview ShopSuspended"
| "shop_allowed ShopActive ShopSuspended"
| "shop_allowed ShopSuspended ShopActive"

inductive_simps shop_allowed_simps [simp]: "shop_allowed s t"

fun shop_event_status :: "shop_event \<Rightarrow> string \<times> shop_status" where
  "shop_event_status (ShopCreated i _ _ _ _) = (i, ShopPendingReview)"
| "shop_event_status (ShopActivated i _ _ _) = (i, ShopActive)"
| "shop_event_status (ShopSuspendedEvent i _ _ _) = (i, ShopSuspended)"

definition shop_log :: "seller_db \<Rightarrow> (string \<times> shop_status) list" where
  "shop_log d = map shop_event_status (events (slox d))"

definition shop_standing :: "seller_db \<Rightarrow> (string \<times> shop_status) list" where
  "shop_standing d = map (\<lambda>s. (sp_ID s, sp_Status s)) (shops d)"

definition seller_inv :: "seller_db \<Rightarrow> bool" where
  "seller_inv d \<longleftrightarrow> outbox_wf (slox d) \<and> log_ok shop_allowed ShopPendingReview (shop_log d) (shop_standing d) \<and>
     distinct (map sp_OwnerID (shops d)) \<and> distinct (map sp_Slug (shops d)) \<and> (\<forall>s\<in>set (shops d). shop_ok s)"

lemma shop_standing_ids [simp]: "fst ` set (shop_standing d) = sp_ID ` set (shops d)"
  by (force simp: shop_standing_def)

lemma NewShop_ok: "NewShop lw own n ds em = Inr sh \<Longrightarrow> shop_ok sh \<and> sp_Status sh = ShopPendingReview"
  using Slugify_text [of lw "TrimSpace n"]
  by (auto simp: NewShop_def Let_def shop_ok_def TrimSpace_idem split: if_splits)

lemma ApplyUpdate_ok:
  assumes "shop_ApplyUpdate n ds em s = Inr s'" "shop_ok s"
  shows "shop_ok s' \<and> s' = s\<lparr>sp_Name := sp_Name s', sp_Description := sp_Description s', sp_ContactEmail := sp_ContactEmail s'\<rparr>"
  using assms by (auto simp: shop_ApplyUpdate_def Let_def shop_ok_def TrimSpace_idem split: if_splits)

text \<open>A transition: to where it may go, and how the shop changes.\<close>

definition shop_move :: "(shop \<Rightarrow> shop option res) \<Rightarrow> bool" where
  "shop_move fn \<longleftrightarrow> (\<forall>s s'. fn s = Inr (Some s') \<longrightarrow> shop_allowed (sp_Status s) (sp_Status s') \<and> sp_Status s' \<noteq> ShopPendingReview \<and>
     s' = s\<lparr>sp_Status := sp_Status s', sp_SuspensionReason := sp_SuspensionReason s'\<rparr> \<and> (shop_ok s \<longrightarrow> shop_ok s'))"

lemma shop_moves: "shop_move Activate" "shop_move (Suspend reason)"
  by (auto simp: shop_move_def Activate_def Suspend_def Let_def shop_ok_def MaxReasonRunes_def split: shop_status.splits if_splits)

subsection \<open>The operations keep it\<close>

definition put_shop :: "string \<Rightarrow> (int \<Rightarrow> shop \<Rightarrow> shop) \<Rightarrow> int \<Rightarrow> seller_db \<Rightarrow> seller_db" where
  "put_shop i f t d = d\<lparr>shops := upd_rows (\<lambda>s. sp_ID s = i) (\<lambda>s. (f t s)\<lparr>sp_UpdatedAt := t\<rparr>) (shops d)\<rparr>"

lemma find_shop_in: "find_shop col v d = Some s \<Longrightarrow> col s = v \<and> s \<in> set (shops d)"
  by (auto simp: find_shop_def dest: find_in_set)

lemma wp_sl_scanOneI:
  assumes "\<And>x fs. Q (Inl x) d (e\<lparr>faults := fs\<rparr>)" "\<And>s fs. f d = Some s \<Longrightarrow> Q (Inr s) d (e\<lparr>faults := fs\<rparr>)"
  shows "wp (sl_scanOne f) Q d e"
  using assms unfolding sl_scanOne_def by (auto intro!: wp_or_not_foundI wp_query_rowI)

lemma wp_update_shopI:
  assumes "\<And>x d' fs. Q (Inl x) d' (e\<lparr>faults := fs\<rparr>)"
    and "\<And>s fs. find_shop sp_ID i (put_shop i f (now e) d) = Some s \<Longrightarrow> Q (Inr s) (put_shop i f (now e) d) (e\<lparr>faults := fs\<rparr>)"
  shows "wp (update_shop i f) Q d e"
  using assms unfolding update_shop_def put_shop_def Let_def
  by (auto intro!: wp_or_not_foundI wp_exec_chkI split: option.splits)

lemma wp_sl_emitI:
  assumes "\<And>x d' fs. Q (Inl x) d' (e\<lparr>faults := fs\<rparr>)"
    and "\<And>fs. Q (Inr ()) (d\<lparr>slox := outbox_add topic key (ev (now e)) (now e) (slox d)\<rparr>) (e\<lparr>faults := fs\<rparr>)"
  shows "wp (sl_emit topic key ev) Q d e"
  using assms by (auto simp: sl_emit_def intro!: wp_execI)

lemma seller_inv_ids: "seller_inv d \<Longrightarrow> distinct (map sp_ID (shops d))"
  by (simp add: seller_inv_def log_ok_def shop_standing_def comp_def)

lemma same_shop: "seller_inv d \<Longrightarrow> s \<in> set (shops d) \<Longrightarrow> x \<in> set (shops d) \<Longrightarrow> sp_ID x = sp_ID s \<Longrightarrow> x = s"
  using distinct_map_inj [OF seller_inv_ids] by metis

text \<open>A change of one row that keeps its keys and leaves it well formed.\<close>

lemma put_shop_rows:
  assumes inv: "seller_inv d" and s: "s \<in> set (shops d)"
    and keep: "\<And>x. sp_ID (f t x) = sp_ID x \<and> sp_OwnerID (f t x) = sp_OwnerID x \<and> sp_Slug (f t x) = sp_Slug x"
    and ok: "shop_ok (f t s)"
  shows "distinct (map sp_OwnerID (shops (put_shop (sp_ID s) f t d))) \<and> distinct (map sp_Slug (shops (put_shop (sp_ID s) f t d))) \<and>
    (\<forall>x\<in>set (shops (put_shop (sp_ID s) f t d)). shop_ok x)"
proof -
  have maps: "map c (shops (put_shop (sp_ID s) f t d)) = map c (shops d)"
    if "\<And>x. c ((f t x)\<lparr>sp_UpdatedAt := t\<rparr>) = c x" for c :: "shop \<Rightarrow> string"
    unfolding put_shop_def by (simp, rule map_upd_rows) (rule that)
  have "shop_ok ((f t s)\<lparr>sp_UpdatedAt := t\<rparr>)" using ok by (simp add: shop_ok_def)
  then have "shop_ok x" if "x \<in> set (shops (put_shop (sp_ID s) f t d))" for x
  proof -
    obtain y where y: "y \<in> set (shops d)" "x = (if sp_ID y = sp_ID s then (f t y)\<lparr>sp_UpdatedAt := t\<rparr> else y)"
      using \<open>x \<in> _\<close> by (auto simp: put_shop_def in_upd_rows)
    then show ?thesis using same_shop [OF inv s y(1)] inv \<open>shop_ok (_\<lparr>sp_UpdatedAt := t\<rparr>)\<close> by (auto simp: seller_inv_def)
  qed
  then show ?thesis using inv keep by (simp add: maps seller_inv_def)
qed

lemma seller_inv_display:
  assumes inv: "seller_inv d" and s: "s \<in> set (shops d)"
    and ok: "shop_ok (s\<lparr>sp_Name := n, sp_Description := ds, sp_ContactEmail := em\<rparr>)"
  shows "seller_inv (put_shop (sp_ID s) (\<lambda>_ x. x\<lparr>sp_Name := n, sp_Description := ds, sp_ContactEmail := em\<rparr>) t d)"
proof -
  let ?f = "\<lambda>_ x. x\<lparr>sp_Name := n, sp_Description := ds, sp_ContactEmail := em\<rparr>"
  have "shop_standing (put_shop (sp_ID s) ?f t d) = shop_standing d"
    unfolding shop_standing_def put_shop_def by (simp, rule map_upd_rows) simp
  then show ?thesis
    using put_shop_rows [OF inv s, of ?f t] ok inv by (simp add: seller_inv_def shop_log_def put_shop_def)
qed

lemma seller_inv_move:
  assumes inv: "seller_inv d" and s: "s \<in> set (shops d)" and to: "shop_allowed (sp_Status s) to"
    and ok: "shop_ok (s\<lparr>sp_Status := to, sp_SuspensionReason := rs\<rparr>)" and ev: "shop_event_status ev = (sp_ID s, to)"
  shows "seller_inv ((put_shop (sp_ID s) (\<lambda>_ x. x\<lparr>sp_Status := to, sp_SuspensionReason := rs\<rparr>) t d)
     \<lparr>slox := outbox_add topic key ev t (slox d)\<rparr>)"
proof -
  let ?f = "\<lambda>_ x. x\<lparr>sp_Status := to, sp_SuspensionReason := rs\<rparr>"
  have "shop_standing (put_shop (sp_ID s) ?f t d) = upd_rows (\<lambda>x. fst x = sp_ID s) (\<lambda>_. (sp_ID s, to)) (shop_standing d)"
    by (simp add: put_shop_def shop_standing_def upd_rows_def comp_def if_distrib cong: if_cong)
  moreover have "log_ok shop_allowed ShopPendingReview (shop_log d @ [(sp_ID s, to)])
      (upd_rows (\<lambda>x. fst x = sp_ID s) (\<lambda>_. (sp_ID s, to)) (shop_standing d))"
  proof (rule log_ok_move)
    show "log_ok shop_allowed ShopPendingReview (shop_log d) (shop_standing d)" using inv by (simp add: seller_inv_def)
    show "(sp_ID s, sp_Status s) \<in> set (shop_standing d)" using s by (force simp: shop_standing_def)
  qed (rule to)
  ultimately show ?thesis
    using put_shop_rows [OF inv s, of ?f t] ok inv ev by (simp add: seller_inv_def shop_log_def shop_standing_def put_shop_def)
qed

lemma seller_inv_insert:
  assumes inv: "seller_inv d" and new: "insert_shop sh i t d = Inr (s, d1)" and ok: "shop_ok sh" "sp_Status sh = ShopPendingReview"
  shows "seller_inv (d1\<lparr>slox := outbox_add topic key (ShopCreated (sp_ID s) own n sl t) t (slox d1)\<rparr>)"
proof -
  have s: "s = sh\<lparr>sp_ID := i, sp_SuspensionReason := '''', sp_CreatedAt := t, sp_UpdatedAt := t\<rparr>" "d1 = d\<lparr>shops := shops d @ [s]\<rparr>"
    and fresh: "sp_OwnerID sh \<notin> sp_OwnerID ` set (shops d)" "sp_Slug sh \<notin> sp_Slug ` set (shops d)" "i \<notin> sp_ID ` set (shops d)"
    using new by (auto simp: insert_shop_def Let_def split: if_splits)
  have "shop_ok s" using ok s(1) by (simp add: shop_ok_def)
  moreover have "log_ok shop_allowed ShopPendingReview (shop_log d @ [(i, ShopPendingReview)]) (shop_standing d @ [(i, ShopPendingReview)])"
    using inv fresh(3) by (intro log_ok_insert) (simp_all add: seller_inv_def)
  ultimately show ?thesis
    using inv fresh(1,2) s ok(2) by (simp add: seller_inv_def shop_log_def shop_standing_def)
qed

datatype seller_op = ShopOpen string string string string | ShopEdit string string string string | ShopApprove string | ShopReject string string

fun seller_prog :: "(string \<Rightarrow> string) \<Rightarrow> seller_op \<Rightarrow> (seller_db, unit) prog" where
  "seller_prog lw (ShopOpen own n ds em) = bnd (lift_res (NewShop lw own n ds em)) (\<lambda>sh. discard (sl_Create sh))"
| "seller_prog lw (ShopEdit own n ds em) = discard (sl_Update own n ds em)"
| "seller_prog lw (ShopApprove i) = discard (sl_Transition i Activate)"
| "seller_prog lw (ShopReject i rs) = discard (sl_Transition i (Suspend rs))"

definition seller_step :: "(string \<Rightarrow> string) \<Rightarrow> seller_op \<Rightarrow> env \<Rightarrow> seller_db \<Rightarrow> seller_db" where
  "seller_step lw op = after (seller_prog lw op)"

lemma find_put_shop:
  assumes "find_shop sp_ID i (put_shop i f t d) = Some out"
  shows "\<exists>x. out = (f t x)\<lparr>sp_UpdatedAt := t\<rparr>" "sp_ID out = i"
  using find_shop_in [OF assms] by (auto simp: put_shop_def in_upd_rows split: if_splits)

lemma wp_Transition_inv:
  assumes inv: "seller_inv d" and fn: "shop_move fn"
  shows "wp (sl_Transition i fn) (\<lambda>_ d' _. seller_inv d') d e"
proof -
  let ?f = "\<lambda>s' _ x. x\<lparr>sp_Status := sp_Status s', sp_SuspensionReason := sp_SuspensionReason s'\<rparr>"
  have mv: "seller_inv ((put_shop (sp_ID s') (?f s') t d)\<lparr>slox := outbox_add topic key ev t (slox d)\<rparr>)"
 if f: "find_shop sp_ID i d = Some s" "fn s = Inr (Some s')" and ev: "shop_event_status ev = (sp_ID s', sp_Status s')" for s s' t topic key ev
  proof -
    have m: "shop_allowed (sp_Status s) (sp_Status s')" "sp_Status s' \<noteq> ShopPendingReview"
        "s\<lparr>sp_Status := sp_Status s', sp_SuspensionReason := sp_SuspensionReason s'\<rparr> = s'" "shop_ok s \<Longrightarrow> shop_ok s'"
      using fn f(2) unfolding shop_move_def by metis+
    have s: "s \<in> set (shops d)" "shop_ok s" using find_shop_in [OF f(1)] inv by (auto simp: seller_inv_def)
    have id: "sp_ID s' = sp_ID s" using arg_cong [OF m(3), of sp_ID] by simp
    show "seller_inv ((put_shop (sp_ID s') (?f s') t d)\<lparr>slox := outbox_add topic key ev t (slox d)\<rparr>)"
      unfolding id by (rule seller_inv_move [OF inv s(1) m(1)]) (use m s ev id in simp_all)
  qed
  have np: "sp_Status s' \<noteq> ShopPendingReview" if "fn s = Inr (Some s')" for s s'
    using fn that unfolding shop_move_def by metis
  have slox: "slox (put_shop k f t d) = slox d" for k f t by (simp add: put_shop_def)
  have out: "sp_Status s = sp_Status s' \<and> sp_ID s = sp_ID s'"
    if "find_shop sp_ID (sp_ID s') (put_shop (sp_ID s') (?f s') t d) = Some s" for s s' t
    using find_put_shop [OF that] by auto
  have wpe: "wp (shop_eventFor s) (\<lambda>r d' _. \<forall>a. r = Inr a \<longrightarrow> seller_inv d') (put_shop (sp_ID s') (?f s') (now e) d) (e\<lparr>faults := fs\<rparr>)"
    if "find_shop sp_ID i d = Some s0" "fn s0 = Inr (Some s')"
      "find_shop sp_ID (sp_ID s') (put_shop (sp_ID s') (?f s') (now e) d) = Some s" for s0 s s' fs
    using mv [OF that(1,2)] np [OF that(2)] out [OF that(3)]
    by (auto simp: shop_eventFor_def slox intro!: wp_sl_emitI split: shop_status.splits)
  show ?thesis
    unfolding sl_Transition_def
    by (auto simp: inv split: option.splits sum.splits intro!: wp_in_txI wp_sl_scanOneI wp_update_shopI wp_mono [OF wpe]) auto
qed

lemma wp_sl_Create_inv:
  assumes inv: "seller_inv d" and ok: "shop_ok sh" "sp_Status sh = ShopPendingReview"
  shows "wp (sl_Create sh) (\<lambda>_ d' _. seller_inv d') d e"
  unfolding sl_Create_def
  by (auto intro!: wp_in_txI wp_exec_chkI wp_sl_emitI simp: inv split: sum.splits) (rule seller_inv_insert [OF inv _ ok])

lemma wp_sl_Update_inv:
  assumes inv: "seller_inv d"
  shows "wp (sl_Update own n ds em) (\<lambda>_ d' _. seller_inv d') d e"
proof -
  have upd: "seller_inv (put_shop (sp_ID s') (\<lambda>_ x. x\<lparr>sp_Name := sp_Name s', sp_Description := sp_Description s', sp_ContactEmail := sp_ContactEmail s'\<rparr>) t d)"
    if f: "find_shop sp_OwnerID own d = Some s" "shop_ApplyUpdate n ds em s = Inr s'" for s s' t
  proof -
    have s: "s \<in> set (shops d)" "shop_ok s" using find_shop_in [OF f(1)] inv by (auto simp: seller_inv_def)
    note u = ApplyUpdate_ok [OF f(2) s(2)]
    have id: "sp_ID s' = sp_ID s" using arg_cong [OF conjunct2 [OF u], of sp_ID] by simp
    show ?thesis unfolding id by (rule seller_inv_display [OF inv s(1)]) (use u in simp)
  qed
  show ?thesis
    unfolding sl_Update_def
    by (auto simp: inv upd split: sum.splits intro!: wp_in_txI wp_sl_scanOneI wp_update_shopI)
qed

lemma seller_prog_inv: "seller_inv d \<Longrightarrow> wp (seller_prog lw op) (\<lambda>_ d' _. seller_inv d') d e"
proof (cases op)
  case (ShopOpen own n ds em)
  assume "seller_inv d"
  then show ?thesis
    using ShopOpen NewShop_ok [of lw own n ds em] wp_sl_Create_inv by (auto split: sum.split)
qed (simp_all add: wp_sl_Update_inv wp_Transition_inv shop_moves)

interpretation seller_machine: inv_machine "seller_step lw" empty_seller_db seller_inv for lw
proof unfold_locales
  show "seller_inv empty_seller_db" by (simp add: seller_inv_def empty_seller_db_def shop_log_def shop_standing_def)
  show "seller_inv d \<Longrightarrow> seller_inv (seller_step lw op e d)" for d op e
    unfolding seller_step_def by (rule after_wp [OF seller_prog_inv])
qed

subsection \<open>The rows of the shop table\<close>

text \<open>C37: the shop table is well typed.  In every reachable state each shop has an owner, a trimmed name of 2 to 80 runes, a
  slug of 3 to 60 lower-case letters, digits and inner dashes, a description of at most 2000 runes, an address that is
  empty or shaped like one, and a reason exactly while it is suspended; its owner and its slug are no other shop's; and
  the outbox tells its walk through review, activation and suspension.\<close>

theorem shop_rows_typed:
  assumes "reach (seller_step lw) empty_seller_db d" "s \<in> set (shops d)"
  shows "shop_ok s \<and> filter (\<lambda>x. sp_OwnerID x = sp_OwnerID s) (shops d) = [s] \<and> filter (\<lambda>x. sp_Slug x = sp_Slug s) (shops d) = [s] \<and>
    walk shop_allowed ShopPendingReview (history_of (sp_ID s) (shop_log d)) (sp_Status s)"
proof -
  have inv: "seller_inv d" by (rule seller_machine.reach_inv [OF assms(1)])
  have "(sp_ID s, sp_Status s) \<in> set (shop_standing d)" using assms(2) by (auto simp: shop_standing_def)
  then have "walk shop_allowed ShopPendingReview (history_of (sp_ID s) (shop_log d)) (sp_Status s)"
    using inv log_okD by (auto simp: seller_inv_def)
  then show ?thesis
    using inv assms(2) filter_key_unique [of sp_OwnerID "shops d" s] filter_key_unique [of sp_Slug "shops d" s] by (simp add: seller_inv_def)
qed

definition opened_shop :: seller_db where
  "opened_shop = run_ops (seller_step (map lower))
     [(ShopOpen ''u'' '' Anna's  Tea '' ''fine tea'' ''a@b.c'', env_at 1), (ShopApprove ''id'', env_at 2), (ShopReject ''id'' ''late'', env_at 3)]
     empty_seller_db"

lemma opened_shop_row: "map (\<lambda>s. (sp_ID s, sp_Slug s, sp_Status s)) (shops opened_shop) = [(''id'', ''anna-s-tea'', ShopSuspended)]"
  by code_simp

theorem shop_rows_typed_witness:
  "\<exists>s. shops opened_shop = [s] \<and> shop_ok s \<and> sp_Slug s = ''anna-s-tea'' \<and>
     walk shop_allowed ShopPendingReview (history_of ''id'' (shop_log opened_shop)) ShopSuspended"
proof -
  obtain s where s: "shops opened_shop = [s]" "sp_ID s = ''id''" "sp_Slug s = ''anna-s-tea''" "sp_Status s = ShopSuspended"
    using opened_shop_row by (auto simp: map_eq_Cons_conv)
  have "reach (seller_step (map lower)) empty_seller_db opened_shop"
    unfolding opened_shop_def by (rule reach_run_ops [OF reach.init])
  from shop_rows_typed [OF this, of s] show ?thesis using s by simp
qed

end
