(* ===== verification/Base64.thy ===== *)
theory Base64
  imports Prelude
begin

section \<open>base64.RawURLEncoding\<close>

text \<open>
  The codec of encoding/base64 that the page tokens of the catalog use: unpadded, URL-safe alphabet, line breaks skipped,
  trailing bits ignored.
\<close>

definition to_bits :: "nat \<Rightarrow> nat \<Rightarrow> bool list" where
  "to_bits k n = map (\<lambda>i. odd (n div 2 ^ i)) (rev [0..<k])"

definition of_bits :: "bool list \<Rightarrow> nat" where
  "of_bits bs = foldl (\<lambda>a b. 2 * a + of_bool b) 0 bs"

fun chunks :: "nat \<Rightarrow> nat \<Rightarrow> 'a list \<Rightarrow> 'a list list" where
  "chunks 0 k xs = []"
| "chunks (Suc n) k xs = take k xs # chunks n k (drop k xs)"

definition b64_alphabet :: string where
  "b64_alphabet = ''ABCDEFGHIJKLMNOPQRSTUVWXYZabcdefghijklmnopqrstuvwxyz0123456789-_''"

definition b64_index :: "char \<Rightarrow> nat option" where
  "b64_index c = (let w = takeWhile (\<lambda>x. x \<noteq> c) b64_alphabet in if length w < 64 then Some (length w) else None)"

definition EncodeToString :: "string \<Rightarrow> string" where
  "EncodeToString s =
     (let bs = concat (map (\<lambda>c. to_bits 8 (of_char c)) s); n = (length bs + 5) div 6
      in map (\<lambda>g. b64_alphabet ! of_bits g) (chunks n 6 (bs @ replicate (n * 6 - length bs) False)))"

definition DecodeString :: "string \<Rightarrow> string option" where
  "DecodeString t0 =
     (let t = filter (\<lambda>c. c \<noteq> CHR 0x0A \<and> c \<noteq> CHR 0x0D) t0 in
      if length t mod 4 = 1 \<or> \<not> list_all (\<lambda>c. b64_index c \<noteq> None) t then None
      else let bs = concat (map (\<lambda>c. to_bits 6 (the (b64_index c))) t)
           in Some (map (\<lambda>g. char_of (of_bits g)) (chunks (length bs div 8) 8 bs)))"

subsection \<open>Decoding what was encoded\<close>

lemma length_to_bits [simp]: "length (to_bits k n) = k"
  by (simp add: to_bits_def)

lemma to_bits_Suc: "to_bits (Suc k) n = odd (n div 2 ^ k) # to_bits k n"
  by (simp add: to_bits_def)

lemma foldl_bits: "foldl (\<lambda>a b. 2 * a + of_bool b) x bs = x * 2 ^ length bs + of_bits bs" for x :: nat
proof (induction bs arbitrary: x)
  case (Cons b bs)
  show ?case
    using Cons [of "2 * x + of_bool b"] Cons [of "of_bool b"] by (simp add: of_bits_def algebra_simps)
qed (simp add: of_bits_def)

lemma of_bits_Cons: "of_bits (b # bs) = of_bool b * 2 ^ length bs + of_bits bs"
  using foldl_bits [of "of_bool b" bs] by (simp add: of_bits_def)

lemma of_bits_to_bits: "of_bits (to_bits k n) = n mod 2 ^ k"
proof (induction k)
  case (Suc k)
  have "n mod 2 ^ Suc k = of_bool (odd (n div 2 ^ k)) * 2 ^ k + n mod 2 ^ k"
    using mod_mult2_eq [of n "2 ^ k" 2] by (simp add: mod2_eq_if mult.commute)
  then show ?case by (simp add: to_bits_Suc of_bits_Cons Suc)
qed (simp add: to_bits_def of_bits_def)

lemma of_bits_less: "of_bits bs < 2 ^ length bs"
proof (induction bs)
  case (Cons b bs) then show ?case by (cases b) (simp_all add: of_bits_Cons)
qed (simp add: of_bits_def)

lemma to_bits_of_bits: "to_bits (length bs) (of_bits bs) = bs"
proof (induction bs)
  case (Cons b bs)
  have high: "of_bits (b # bs) div 2 ^ length bs = of_bool b" using of_bits_less [of bs] by (simp add: of_bits_Cons)
  have low: "to_bits (length bs) (of_bits (b # bs)) = to_bits (length bs) (of_bits bs)" for bs'
    unfolding to_bits_def
  proof (rule map_cong [OF refl])
    fix i assume "i \<in> set (rev [0..<length bs])"
    then have "length bs = Suc (length bs - Suc i) + i" by simp
    then have p: "(2::nat) ^ length bs = 2 * (2 ^ (length bs - Suc i)) * 2 ^ i" by (metis power_Suc power_add)
    show "odd (of_bits (b # bs) div 2 ^ i) = odd (of_bits bs div 2 ^ i)"
      by (cases b) (simp_all add: of_bits_Cons p div_add1_eq [of "2 * (2 ^ (length bs - Suc i)) * 2 ^ i"])
  qed
  show ?case using Cons high low by (simp add: to_bits_Suc)
qed (simp add: to_bits_def)

lemma length_chunks [simp]: "length (chunks n k xs) = n"
  by (induction n arbitrary: xs) simp_all

lemma concat_chunks: "length xs = n * k \<Longrightarrow> concat (chunks n k xs) = xs"
  by (induction n arbitrary: xs) simp_all

lemma length_chunk: "\<lbrakk>length xs = n * k; g \<in> set (chunks n k xs)\<rbrakk> \<Longrightarrow> length g = k"
proof (induction n arbitrary: xs)
  case (Suc n) then show ?case using Suc.IH [of "drop k xs"] by auto
qed simp

lemma chunks_of_concat: "\<forall>g\<in>set gs. length g = k \<Longrightarrow> chunks (length gs) k (concat gs @ rest) = gs"
  by (induction gs) auto

lemma takeWhile_distinct: "\<lbrakk>distinct xs; i < length xs\<rbrakk> \<Longrightarrow> takeWhile (\<lambda>x. x \<noteq> xs ! i) xs = take i xs"
proof (induction xs arbitrary: i)
  case (Cons x xs) then show ?case by (cases i) auto
qed simp

lemma b64_distinct: "distinct b64_alphabet"
  unfolding b64_alphabet_def
  by (simp only: distinct.simps list.set insert_iff empty_iff char.inject simp_thms)

lemma b64_length: "length b64_alphabet = 64"
  by (simp add: b64_alphabet_def)

lemma b64_breaks: "list_all (\<lambda>c. c \<noteq> CHR 0x0A \<and> c \<noteq> CHR 0x0D) b64_alphabet"
  unfolding b64_alphabet_def by simp

lemmas b64_facts = b64_distinct b64_length b64_breaks

lemma b64_index_alphabet: "i < 64 \<Longrightarrow> b64_index (b64_alphabet ! i) = Some i"
  by (simp add: b64_index_def takeWhile_distinct b64_facts)

lemma b64_no_break: "i < 64 \<Longrightarrow> b64_alphabet ! i \<noteq> CHR 0x0A \<and> b64_alphabet ! i \<noteq> CHR 0x0D"
  using b64_breaks nth_mem [of i b64_alphabet] unfolding list_all_iff b64_length by blast

lemma DecodeString_EncodeToString: "DecodeString (EncodeToString s) = Some s"
proof -
  let ?gs = "map (\<lambda>c. to_bits 8 (of_char c)) s"
  define bs n where "bs = concat ?gs" and "n = (length bs + 5) div 6"
  let ?p = "bs @ replicate (n * 6 - length bs) False"
  let ?cs = "chunks n 6 ?p"
  have len: "length bs = length s * 8" by (simp add: bs_def length_concat comp_def sum_list_triv)
  have n: "length bs \<le> n * 6" "n * 6 \<le> length bs + 5" by (simp_all add: n_def)
  have lp: "length ?p = n * 6" using n(1) by simp
  then have c: "concat ?cs = ?p" "\<And>g. g \<in> set ?cs \<Longrightarrow> length g = 6"
    by (rule concat_chunks, rule length_chunk [of ?p])
  have small: "of_bits g < 64" if "g \<in> set ?cs" for g using of_bits_less [of g] unfolding c(2) [OF that] by simp
  let ?t = "map (\<lambda>g. b64_alphabet ! of_bits g) ?cs"
  have t: "EncodeToString s = ?t" unfolding EncodeToString_def Let_def bs_def n_def ..
  have f: "filter (\<lambda>c. c \<noteq> CHR 0x0A \<and> c \<noteq> CHR 0x0D) ?t = ?t"
    using small b64_no_break by (auto simp: filter_id_conv)
  have m: "n mod 4 \<noteq> 1" using len n by presburger
  have v: "list_all (\<lambda>c. b64_index c \<noteq> None) ?t" using small b64_index_alphabet by (auto simp: list_all_iff)
  have "to_bits 6 (the (b64_index (b64_alphabet ! of_bits g))) = g" if "g \<in> set ?cs" for g
    unfolding b64_index_alphabet [OF small [OF that]] option.sel using to_bits_of_bits [of g] unfolding c(2) [OF that] .
  then have "map (\<lambda>c. to_bits 6 (the (b64_index c))) ?t = ?cs" unfolding map_map comp_def by (rule map_idI)
  then have b: "concat (map (\<lambda>c. to_bits 6 (the (b64_index c))) ?t) = ?p" using c(1) by simp
  have "length ?p div 8 = length s" using len n by simp
  then have "chunks (length ?p div 8) 8 ?p = ?gs"
    using chunks_of_concat [of ?gs 8 "replicate (n * 6 - length bs) False"] by (simp add: bs_def)
  moreover have "map (\<lambda>g. char_of (of_bits g)) ?gs = s"
    by (auto simp: of_bits_to_bits comp_def intro!: map_idI)
  ultimately show ?thesis
    using m v by (simp only: t DecodeString_def Let_def f b length_map if_False) simp
qed

end
