(* ===== verification/Catalog.thy ===== *)
theory Catalog
  imports StoreKit Texts Base64 Auth Fga Money "HOL-Library.Char_ord" "HOL-Library.List_Lexorder" "HOL-Library.Product_Lexorder"
begin

section \<open>The catalog service (services/catalog)\<close>

text \<open>
  The products of the shop: the aggregate and its rules (internal/domain/product.go), the store, which writes each change
  with its product_changed row (internal/store), and the handlers with the keyset cursors of the listings
  (internal/grpcsvc).  The tables of package \<open>unicode\<close> are an argument; attributes are the pairs of the map, an empty
  list for a missing one.
\<close>

subsection \<open>The aggregate\<close>

datatype product_status = PDraft | PActive | PArchived

record price =
  pr_currency :: string
  pr_units :: int64
  pr_nanos :: int32

record product =
  pd_ID :: string
  pd_Slug :: string
  pd_Title :: string
  pd_Description :: string
  pd_CategoryID :: string
  pd_ListPrice :: price
  pd_MediaKeys :: "string list"
  pd_Status :: product_status
  pd_Attributes :: "(string \<times> string) list"
  pd_ShopID :: string
  pd_CreatedBy :: string
  pd_CreatedAt :: int
  pd_UpdatedAt :: int

record new_product =
  np_Slug :: string
  np_Title :: string
  np_Description :: string
  np_CategoryID :: string
  np_Price :: price
  np_MediaKeys :: "string list"
  np_Attributes :: "(string \<times> string) list"
  np_ShopID :: string
  np_CreatedBy :: string

record unicode =
  u_ToLower :: "string \<Rightarrow> string"
  u_IsLower :: "string \<Rightarrow> bool"
  u_IsDigit :: "string \<Rightarrow> bool"

definition normaliseSlug :: "unicode \<Rightarrow> string \<Rightarrow> string" where
  "normaliseSlug u s = map (\<lambda>c. if c = CHR '' '' then CHR ''-'' else c) (u_ToLower u (TrimSpace s))"

definition slug_rune :: "unicode \<Rightarrow> string \<Rightarrow> bool" where
  "slug_rune u r \<longleftrightarrow> u_IsLower u r \<or> u_IsDigit u r \<or> r = ''-''"

definition validateSlug :: "unicode \<Rightarrow> string \<Rightarrow> unit res" where
  "validateSlug u s =
     (if length s < 3 \<or> length s > 120 then Inl (errs_New KindInvalidArgument ''SLUG_LENGTH'')
      else if \<not> list_all (slug_rune u) (runes s) then Inl (errs_New KindInvalidArgument ''SLUG_CHARS'')
      else Inr ())"

definition validateMoney :: "price \<Rightarrow> unit res" where
  "validateMoney m =
     (if length (pr_currency m) \<noteq> 3 then Inl (errs_New KindInvalidArgument ''BAD_CURRENCY'')
      else if pr_units m < 0 \<or> pr_nanos m < 0 then Inl (errs_New KindInvalidArgument ''NEGATIVE_PRICE'')
      else if pr_nanos m > 999999999 then Inl (errs_New KindInvalidArgument ''BAD_NANOS'')
      else Inr ())"

definition title_required :: go_err where
  "title_required = errs_New KindInvalidArgument ''TITLE_REQUIRED''"

definition NewProduct :: "unicode \<Rightarrow> new_product \<Rightarrow> product res" where
  "NewProduct u inp =
     (let slug = normaliseSlug u (np_Slug inp) in
      case validateSlug u slug of Inl err \<Rightarrow> Inl err | Inr _ \<Rightarrow>
      if TrimSpace (np_Title inp) = '''' then Inl title_required
      else case validateMoney (np_Price inp) of Inl err \<Rightarrow> Inl err | Inr _ \<Rightarrow>
      Inr \<lparr>pd_ID = '''', pd_Slug = slug, pd_Title = TrimSpace (np_Title inp), pd_Description = np_Description inp,
           pd_CategoryID = np_CategoryID inp, pd_ListPrice = np_Price inp, pd_MediaKeys = np_MediaKeys inp,
           pd_Status = PDraft, pd_Attributes = np_Attributes inp, pd_ShopID = TrimSpace (np_ShopID inp),
           pd_CreatedBy = np_CreatedBy inp, pd_CreatedAt = 0, pd_UpdatedAt = 0\<rparr>)"

definition pd_ApplyUpdate :: "string \<Rightarrow> string \<Rightarrow> string \<Rightarrow> price \<Rightarrow> string list \<Rightarrow> (string \<times> string) list \<Rightarrow> product_status \<Rightarrow>
    product \<Rightarrow> product res" where
  "pd_ApplyUpdate title description categoryID price mediaKeys attrs status p =
     (if TrimSpace title = '''' then Inl title_required
      else case validateMoney price of Inl err \<Rightarrow> Inl err | Inr _ \<Rightarrow>
      if status \<noteq> PDraft \<and> status \<noteq> PActive then Inl (errs_New KindInvalidArgument ''BAD_STATUS'')
      else if pd_Status p = PArchived then Inl (errs_New KindFailedPrecondition ''PRODUCT_ARCHIVED'')
      else Inr (p\<lparr>pd_Title := TrimSpace title, pd_Description := description, pd_CategoryID := categoryID,
                pd_ListPrice := price, pd_MediaKeys := mediaKeys,
                pd_Attributes := (if attrs \<noteq> [] then attrs else pd_Attributes p), pd_Status := status\<rparr>))"

subsection \<open>The message\<close>

record product_msg =
  pm_Id :: string
  pm_Slug :: string
  pm_Title :: string
  pm_Description :: string
  pm_CategoryId :: string
  pm_ListPrice :: price
  pm_MediaKeys :: "string list"
  pm_Status :: product_status
  pm_Attributes :: "(string \<times> string) list"
  pm_ShopId :: string

definition pd_toProto :: "product \<Rightarrow> product_msg" where
  "pd_toProto p = \<lparr>pm_Id = pd_ID p, pm_Slug = pd_Slug p, pm_Title = pd_Title p, pm_Description = pd_Description p,
     pm_CategoryId = pd_CategoryID p, pm_ListPrice = pd_ListPrice p, pm_MediaKeys = pd_MediaKeys p,
     pm_Status = pd_Status p, pm_Attributes = pd_Attributes p, pm_ShopId = pd_ShopID p\<rparr>"

text \<open>The copy of the function in the store leaves the shop out.\<close>

definition store_toProto :: "product \<Rightarrow> product_msg" where
  "store_toProto p = \<lparr>pm_Id = pd_ID p, pm_Slug = pd_Slug p, pm_Title = pd_Title p, pm_Description = pd_Description p,
     pm_CategoryId = pd_CategoryID p, pm_ListPrice = pd_ListPrice p, pm_MediaKeys = pd_MediaKeys p,
     pm_Status = pd_Status p, pm_Attributes = pd_Attributes p, pm_ShopId = ''''\<rparr>"

subsection \<open>Store\<close>

datatype change_type = ChangeCreated | ChangeUpdated | ChangeArchived

record product_changed =
  pc_ProductId :: string
  pc_Change :: change_type
  pc_Product :: product_msg
  pc_OccurredAt :: int

record catalog_db =
  products :: "product list"
  ctox :: "product_changed outbox"

definition empty_catalog_db :: catalog_db where
  "empty_catalog_db = \<lparr>products = [], ctox = empty_outbox\<rparr>"

definition product_not_found :: go_err where
  "product_not_found = errs_New KindNotFound ''PRODUCT_NOT_FOUND''"

definition ct_wrapPG :: "go_err \<Rightarrow> go_err" where
  "ct_wrapPG err = (if err = uniqueViolation then errs_Wrap err KindAlreadyExists ''SLUG_TAKEN''
     else if err = invalid_uuid then product_not_found else wrap err)"

definition scanProduct :: "(catalog_db, 'a) prog \<Rightarrow> (catalog_db, 'a) prog" where
  "scanProduct p = map_err (\<lambda>err. if err = NoRows then product_not_found else ct_wrapPG err) p"

definition insertOutbox :: "change_type \<Rightarrow> product \<Rightarrow> (catalog_db, unit) prog" where
  "insertOutbox change p = map_err ct_wrapPG (exec (\<lambda>t d. d\<lparr>ctox := outbox_add ''commerce.catalog.product_changed'' (pd_ID p)
     \<lparr>pc_ProductId = pd_ID p, pc_Change = change, pc_Product = store_toProto p, pc_OccurredAt = t\<rparr> t (ctox d)\<rparr>))"

definition writeTx :: "change_type \<Rightarrow> (catalog_db, product) prog \<Rightarrow> (catalog_db, product) prog" where
  "writeTx change fn = in_tx (bnd fn (\<lambda>p. bnd (insertOutbox change p) (\<lambda>_. ret (Commit p))))"

text \<open>\<open>CHAR(3)\<close> pads with blanks.\<close>

definition pad3 :: "string \<Rightarrow> string" where
  "pad3 s = s @ replicate (3 - rune_count s) (CHR '' '')"

definition stored_price :: "price \<Rightarrow> price" where
  "stored_price m = m\<lparr>pr_currency := pad3 (pr_currency m)\<rparr>"

definition nullUUID :: "string \<Rightarrow> string option" where
  "nullUUID s = (if s = '''' then None else Some s)"

text \<open>A value for a \<open>uuid\<close> column or a comparison with one must parse.\<close>

definition uuid_params :: "string list \<Rightarrow> (catalog_db, 'a) prog \<Rightarrow> (catalog_db, 'a) prog" where
  "uuid_params ks p = bnd (asks uuid_ok) (\<lambda>ok. if list_all ok ks then p else stmt (fail invalid_uuid))"

definition insert_product :: "product \<Rightarrow> string \<Rightarrow> int \<Rightarrow> catalog_db \<Rightarrow> go_err + (product \<times> catalog_db)" where
  "insert_product p i t d =
     (if pd_Slug p \<in> pd_Slug ` set (products d) \<or> i \<in> pd_ID ` set (products d) then Inl uniqueViolation
      else let r = p\<lparr>pd_ID := i, pd_ListPrice := stored_price (pd_ListPrice p), pd_CreatedAt := t, pd_UpdatedAt := t\<rparr>
           in Inr (r, d\<lparr>products := products d @ [r]\<rparr>))"

definition ct_Create :: "product \<Rightarrow> (catalog_db, product) prog" where
  "ct_Create p = writeTx ChangeCreated (scanProduct (
     uuid_params (case nullUUID (pd_ShopID p) of None \<Rightarrow> [] | Some s \<Rightarrow> [s])
       (bnd new_uuid (\<lambda>i. exec_chk (insert_product p i)))))"

definition find_product :: "(product \<Rightarrow> string) \<Rightarrow> string \<Rightarrow> catalog_db \<Rightarrow> product option" where
  "find_product col v d = List.find (\<lambda>p. col p = v) (products d)"

text \<open>\<open>UPDATE products SET ... WHERE id = ... RETURNING\<close>.\<close>

definition put_product :: "string \<Rightarrow> (product \<Rightarrow> product) \<Rightarrow> int \<Rightarrow> catalog_db \<Rightarrow> catalog_db" where
  "put_product i f t d = d\<lparr>products := upd_rows (\<lambda>p. pd_ID p = i) (\<lambda>p. (f p)\<lparr>pd_UpdatedAt := t\<rparr>) (products d)\<rparr>"

definition update_product :: "string \<Rightarrow> (product \<Rightarrow> product) \<Rightarrow> (catalog_db, product) prog" where
  "update_product i f = scanProduct (uuid_params [i] (exec_chk (\<lambda>t d.
     case find_product pd_ID i (put_product i f t d) of None \<Rightarrow> Inl NoRows | Some p \<Rightarrow> Inr (p, put_product i f t d))))"

definition mutable_fields :: "product \<Rightarrow> product \<Rightarrow> product" where
  "mutable_fields p r = r\<lparr>pd_Title := pd_Title p, pd_Description := pd_Description p, pd_CategoryID := pd_CategoryID p,
     pd_ListPrice := stored_price (pd_ListPrice p), pd_MediaKeys := pd_MediaKeys p, pd_Status := pd_Status p,
     pd_Attributes := pd_Attributes p\<rparr>"

definition ct_Update :: "product \<Rightarrow> (catalog_db, product) prog" where
  "ct_Update p = writeTx ChangeUpdated (update_product (pd_ID p) (mutable_fields p))"

definition ct_Archive :: "string \<Rightarrow> (catalog_db, product) prog" where
  "ct_Archive i = writeTx ChangeArchived (update_product i (\<lambda>r. r\<lparr>pd_Status := PArchived\<rparr>))"

definition ct_Get :: "string \<Rightarrow> (catalog_db, product) prog" where
  "ct_Get i = scanProduct (uuid_params [i] (query_row (find_product pd_ID i)))"

definition ct_GetBySlug :: "string \<Rightarrow> (catalog_db, product) prog" where
  "ct_GetBySlug slug = scanProduct (query_row (find_product pd_Slug slug))"

subsection \<open>Listings\<close>

text \<open>The keyset cursor: the creation time and the id of the last row of the page before.\<close>

type_synonym cursor = "int \<times> string"

definition pd_key :: "product \<Rightarrow> cursor" where
  "pd_key p = (pd_CreatedAt p, pd_ID p)"

definition newest_products :: "product list \<Rightarrow> product list" where
  "newest_products ps = rev (sort_key pd_key ps)"

definition select_products :: "(product \<Rightarrow> bool) \<Rightarrow> cursor option \<Rightarrow> catalog_db \<Rightarrow> product list" where
  "select_products whr c d = newest_products (filter (\<lambda>p. whr p \<and> (case c of None \<Rightarrow> True | Some k \<Rightarrow> pd_key p < k)) (products d))"

text \<open>\<open>ids\<close>: the values the filter compares with \<open>uuid\<close> columns.\<close>

definition listPage :: "(product \<Rightarrow> bool) \<Rightarrow> string list \<Rightarrow> int \<Rightarrow> cursor option \<Rightarrow> (catalog_db, product list \<times> cursor option) prog" where
  "listPage whr ids limit0 c =
     (let limit = limit_or 20 limit0; cids = (case c of None \<Rightarrow> [] | Some (t, i) \<Rightarrow> [i]) in
      bnd (map_err ct_wrapPG (uuid_params (ids @ cids) (query (\<lambda>_ d. take (Suc limit) (select_products whr c d))))) (\<lambda>out.
      ret (if limit < length out then (take limit out, Some (pd_key (out ! (limit - 1)))) else (out, None))))"

definition listed :: "string \<Rightarrow> string \<Rightarrow> product \<Rightarrow> bool" where
  "listed categoryID shopID p \<longleftrightarrow> pd_Status p = PActive \<and> (categoryID = '''' \<or> pd_CategoryID p = categoryID) \<and>
     (shopID = '''' \<or> pd_ShopID p = shopID)"

definition ct_List :: "string \<Rightarrow> string \<Rightarrow> int \<Rightarrow> cursor option \<Rightarrow> (catalog_db, product list \<times> cursor option) prog" where
  "ct_List categoryID shopID limit c =
     listPage (listed categoryID shopID) (if shopID = '''' then [] else [shopID]) limit c"

definition ListByShop :: "string \<Rightarrow> int \<Rightarrow> cursor option \<Rightarrow> (catalog_db, product list \<times> cursor option) prog" where
  "ListByShop shopID limit c = listPage (\<lambda>p. pd_ShopID p = shopID) [shopID] limit c"

definition ct_BatchGet :: "string list \<Rightarrow> (catalog_db, product list) prog" where
  "ct_BatchGet ids = (if ids = [] then ret []
     else map_err ct_wrapPG (uuid_params ids (query (\<lambda>_ d. filter (\<lambda>p. pd_ID p \<in> set ids) (products d)))))"

subsection \<open>Page tokens\<close>

definition encodeCursor :: "(int \<Rightarrow> string) \<Rightarrow> cursor option \<Rightarrow> string" where
  "encodeCursor fmt c = (case c of None \<Rightarrow> '''' | Some (t, i) \<Rightarrow> EncodeToString (fmt t @ ''|'' @ i))"

text \<open>\<open>strings.Cut(s, "|")\<close>.\<close>

definition Cut_bar :: "string \<Rightarrow> (string \<times> string) option" where
  "Cut_bar s = (case dropWhile (\<lambda>c. c \<noteq> CHR ''|'') s of [] \<Rightarrow> None | _ # r \<Rightarrow> Some (takeWhile (\<lambda>c. c \<noteq> CHR ''|'') s, r))"

definition bad_cursor :: go_err where
  "bad_cursor = errs_New KindInvalidArgument ''BAD_CURSOR''"

definition decodeCursor :: "(string \<Rightarrow> int option) \<Rightarrow> string \<Rightarrow> cursor option res" where
  "decodeCursor parse tok =
     (if tok = '''' then Inr None
      else case DecodeString tok of None \<Rightarrow> Inl bad_cursor | Some raw \<Rightarrow>
      case Cut_bar raw of None \<Rightarrow> Inl bad_cursor | Some (ts, i) \<Rightarrow>
      case parse ts of None \<Rightarrow> Inl bad_cursor | Some t \<Rightarrow> Inr (Some (t, i)))"

subsection \<open>Handlers\<close>

record catalog_sys = fga_sys +
  ct_db :: catalog_db

definition at_catalog :: "(catalog_db, 'a) prog \<Rightarrow> ('x catalog_sys_scheme, 'a) prog" where
  "at_catalog p = zoom ct_db ct_db_update p"

definition roleCatalogManager :: string where "roleCatalogManager = ''catalog_manager''"

definition caller_has :: "caller \<Rightarrow> string \<Rightarrow> bool" where
  "caller_has c r = (case c of None \<Rightarrow> False | Some p \<Rightarrow> HasRole p r)"

definition not_staff_of_shop :: go_err where
  "not_staff_of_shop = errs_New KindPermissionDenied ''NOT_SHOP_STAFF''"

definition mayWriteProduct :: "('x catalog_sys_scheme) fga_api option \<Rightarrow> caller \<Rightarrow> string \<Rightarrow> ('x catalog_sys_scheme, unit) prog" where
  "mayWriteProduct fga c shopID =
     (if caller_has c roleCatalogManager then ret ()
      else if shopID = '''' then lift_res (RequireRole c roleCatalogManager)
      else case c of None \<Rightarrow> fail not_authenticated | Some p \<Rightarrow>
      case fga of None \<Rightarrow> fail not_staff_of_shop | Some api \<Rightarrow>
      bnd (map_err (\<lambda>err. errs_Wrap err KindPermissionDenied ''AUTHZ_CHECK_FAILED'')
            (f_Check api (UserObject (Subject p)) RelationStaff (ShopObject shopID))) (\<lambda>ok.
      if \<not> ok then fail not_staff_of_shop else ret ()))"

definition GetProduct :: "caller \<Rightarrow> string \<Rightarrow> string \<Rightarrow> ('x catalog_sys_scheme, product_msg) prog" where
  "GetProduct c i slug =
     bnd (if i \<noteq> '''' then at_catalog (ct_Get i)
          else if slug \<noteq> '''' then at_catalog (ct_GetBySlug slug)
          else fail (errs_New KindInvalidArgument ''ID_OR_SLUG_REQUIRED'')) (\<lambda>p.
     if pd_Status p \<noteq> PActive \<and> \<not> caller_has c roleCatalogManager then fail product_not_found
     else ret (pd_toProto p))"

text \<open>A page and its answer: the products and the token of the next page.\<close>

definition answer_page :: "product list \<times> cursor option \<Rightarrow> ('x catalog_sys_scheme, product_msg list \<times> string) prog" where
  "answer_page pg = bnd (asks fmt_time) (\<lambda>fmt. ret (map pd_toProto (fst pg), encodeCursor fmt (snd pg)))"

definition ListProducts :: "string \<Rightarrow> string \<Rightarrow> int \<Rightarrow> string \<Rightarrow> ('x catalog_sys_scheme, product_msg list \<times> string) prog" where
  "ListProducts categoryID shopID limit tok =
     bnd (asks parse_time) (\<lambda>parse.
     bnd (lift_res (decodeCursor parse tok)) (\<lambda>cur.
     bnd (at_catalog (ct_List categoryID shopID limit cur)) answer_page))"

definition BatchGetProducts :: "string list \<Rightarrow> ('x catalog_sys_scheme, product_msg list) prog" where
  "BatchGetProducts ids =
     (if length ids > 200 then fail (errs_New KindInvalidArgument ''TOO_MANY_IDS'')
      else bnd (at_catalog (ct_BatchGet ids)) (\<lambda>ps. ret (map pd_toProto ps)))"

definition ListShopProducts :: "('x catalog_sys_scheme) fga_api option \<Rightarrow> caller \<Rightarrow> string \<Rightarrow> int \<Rightarrow> string \<Rightarrow>
    ('x catalog_sys_scheme, product_msg list \<times> string) prog" where
  "ListShopProducts fga c shopID limit tok =
     (if shopID = '''' then fail (errs_New KindInvalidArgument ''SHOP_ID_REQUIRED'')
      else bnd (mayWriteProduct fga c shopID) (\<lambda>_.
           bnd (asks parse_time) (\<lambda>parse.
           bnd (lift_res (decodeCursor parse tok)) (\<lambda>cur.
           bnd (at_catalog (ListByShop shopID limit cur)) answer_page))))"

definition subject_or_empty :: "caller \<Rightarrow> string" where
  "subject_or_empty c = (case c of None \<Rightarrow> '''' | Some p \<Rightarrow> Subject p)"

definition list_price_of :: "price option \<Rightarrow> price" where
  "list_price_of m = (case m of None \<Rightarrow> \<lparr>pr_currency = '''', pr_units = 0, pr_nanos = 0\<rparr> | Some p \<Rightarrow> p)"

record create_product_req =
  cq_Slug :: string
  cq_Title :: string
  cq_Description :: string
  cq_CategoryId :: string
  cq_ListPrice :: "price option"
  cq_MediaKeys :: "string list"
  cq_Attributes :: "(string \<times> string) list"
  cq_ShopId :: string

definition CreateProduct :: "unicode \<Rightarrow> ('x catalog_sys_scheme) fga_api option \<Rightarrow> caller \<Rightarrow> create_product_req \<Rightarrow>
    ('x catalog_sys_scheme, product_msg) prog" where
  "CreateProduct u fga c q =
     bnd (mayWriteProduct fga c (cq_ShopId q)) (\<lambda>_.
     bnd (lift_res (NewProduct u \<lparr>np_Slug = cq_Slug q, np_Title = cq_Title q, np_Description = cq_Description q,
            np_CategoryID = cq_CategoryId q, np_Price = list_price_of (cq_ListPrice q), np_MediaKeys = cq_MediaKeys q,
            np_Attributes = cq_Attributes q, np_ShopID = cq_ShopId q, np_CreatedBy = subject_or_empty c\<rparr>)) (\<lambda>p.
     bnd (at_catalog (ct_Create p)) (\<lambda>saved.
     bnd (if pd_ShopID saved \<noteq> '''' then
            (case fga of None \<Rightarrow> ret ()
             | Some api \<Rightarrow> discard (attempt (f_Write api (ShopObject (pd_ShopID saved)) RelationShop (ProductObject (pd_ID saved)))))
          else ret ()) (\<lambda>_.
     ret (pd_toProto saved)))))"

text \<open>The status of an update request: \<open>None\<close> is unspecified.\<close>

record update_product_req =
  uq_Id :: string
  uq_Title :: string
  uq_Description :: string
  uq_CategoryId :: string
  uq_ListPrice :: "price option"
  uq_MediaKeys :: "string list"
  uq_Attributes :: "(string \<times> string) list"
  uq_Status :: "product_status option"

definition update_of :: "update_product_req \<Rightarrow> product \<Rightarrow> product res" where
  "update_of q p = pd_ApplyUpdate (uq_Title q) (uq_Description q) (uq_CategoryId q) (list_price_of (uq_ListPrice q)) (uq_MediaKeys q)
     (uq_Attributes q) (case uq_Status q of None \<Rightarrow> pd_Status p | Some s \<Rightarrow> s) p"

definition UpdateProduct :: "('x catalog_sys_scheme) fga_api option \<Rightarrow> caller \<Rightarrow> update_product_req \<Rightarrow>
    ('x catalog_sys_scheme, product_msg) prog" where
  "UpdateProduct fga c q =
     (if uq_Id q = '''' then fail (errs_New KindInvalidArgument ''ID_REQUIRED'')
      else bnd (at_catalog (ct_Get (uq_Id q))) (\<lambda>p.
           bnd (mayWriteProduct fga c (pd_ShopID p)) (\<lambda>_.
           bnd (lift_res (update_of q p)) (\<lambda>p'.
           bnd (at_catalog (ct_Update p')) (\<lambda>saved.
           ret (pd_toProto saved))))))"

definition ArchiveProduct :: "('x catalog_sys_scheme) fga_api option \<Rightarrow> caller \<Rightarrow> string \<Rightarrow> ('x catalog_sys_scheme, product_msg) prog" where
  "ArchiveProduct fga c i =
     bnd (at_catalog (ct_Get i)) (\<lambda>p.
     bnd (mayWriteProduct fga c (pd_ShopID p)) (\<lambda>_.
     bnd (at_catalog (ct_Archive i)) (\<lambda>saved.
     ret (pd_toProto saved))))"

end
