(* ===== verification/Search.thy ===== *)
theory Search
  imports Catalog Complex_Main
begin

section \<open>The search service (services/search)\<close>

text \<open>
  The index of active products, written only from product_changed events (internal/index, internal/consumer), and the
  anonymous queries on it (internal/grpcsvc).  OpenSearch is outside the repository: the code reaches it through the
  record \<open>os_api\<close>, whose operations answer the HTTP status, and relies on the locale \<open>search_index\<close>.
\<close>

record sdoc =
  sd_ProductID :: string
  sd_Slug :: string
  sd_Title :: string
  sd_Description :: string
  sd_CategoryID :: string
  sd_PriceUnits :: int64
  sd_PriceNanos :: int32
  sd_Currency :: string
  sd_PrimaryMediaKey :: string
  sd_Attributes :: "(string \<times> string) list"
  sd_IndexedAt :: int

record hit =
  h_Score :: rat
  h_Source :: sdoc

text \<open>Of the answer to a query: the total, the hits, and the buckets of each aggregation.\<close>

record search_result =
  sr_Total :: int64
  sr_Hits :: "hit list"
  sr_Aggregations :: "(string \<times> (json \<times> int64) list) list"

record 'd os_api =
  os_HeadIndex :: "('d, int) prog"
  os_PutIndex :: "('d, int) prog"
  os_PutDoc :: "string \<Rightarrow> sdoc \<Rightarrow> ('d, int) prog"
  os_DeleteDoc :: "string \<Rightarrow> ('d, int) prog"
  os_Search :: "json \<Rightarrow> ('d, int \<times> search_result) prog"

subsection \<open>The index client\<close>

text \<open>\<open>Client.do\<close>: a request that gets no answer.\<close>

definition os_do :: "('d, 'a) prog \<Rightarrow> ('d, 'a) prog" where
  "os_do p = map_err (\<lambda>err. errs_Wrap err KindUnavailable ''OS_UNREACHABLE'') p"

definition statusErr :: "int \<Rightarrow> string \<Rightarrow> go_err" where
  "statusErr st reason = errs_New (if st = 429 \<or> 500 \<le> st then KindUnavailable else KindInternal) reason"

definition EnsureIndex :: "'d os_api \<Rightarrow> ('d, unit) prog" where
  "EnsureIndex api =
     bnd (os_do (os_HeadIndex api)) (\<lambda>st.
     if st = 200 then ret ()
     else bnd (os_do (os_PutIndex api)) (\<lambda>st2.
          if 300 \<le> st2 then fail (statusErr st2 ''OS_CREATE_FAILED'') else ret ()))"

definition ix_Delete :: "'d os_api \<Rightarrow> string \<Rightarrow> ('d, unit) prog" where
  "ix_Delete api i =
     bnd (os_do (os_DeleteDoc api i)) (\<lambda>st.
     if 300 \<le> st \<and> st \<noteq> 404 then fail (statusErr st ''OS_DELETE_ERR'') else ret ())"

definition doc_of :: "product_msg \<Rightarrow> int \<Rightarrow> sdoc" where
  "doc_of p t = \<lparr>sd_ProductID = pm_Id p, sd_Slug = pm_Slug p, sd_Title = pm_Title p, sd_Description = pm_Description p,
     sd_CategoryID = pm_CategoryId p, sd_PriceUnits = pr_units (pm_ListPrice p), sd_PriceNanos = pr_nanos (pm_ListPrice p),
     sd_Currency = pr_currency (pm_ListPrice p), sd_PrimaryMediaKey = (case pm_MediaKeys p of [] \<Rightarrow> '''' | mk # _ \<Rightarrow> mk),
     sd_Attributes = pm_Attributes p, sd_IndexedAt = t\<rparr>"

text \<open>The product of an event is set: the catalog's \<open>insertOutbox\<close> always sends one.\<close>

definition UpsertFromEvent :: "'d os_api \<Rightarrow> product_changed \<Rightarrow> ('d, unit) prog" where
  "UpsertFromEvent api ev =
     (let p = pc_Product ev in
      if pm_Status p \<noteq> PActive then ix_Delete api (pc_ProductId ev)
      else bnd (asks now) (\<lambda>t.
           bnd (os_do (os_PutDoc api (pm_Id p) (doc_of p t))) (\<lambda>st.
           if 300 \<le> st then fail (statusErr st ''OS_INDEX_ERR'') else ret ())))"

definition RawSearch :: "'d os_api \<Rightarrow> json \<Rightarrow> ('d, search_result) prog" where
  "RawSearch api q =
     bnd (os_do (os_Search api q)) (\<lambda>(st, res).
     if 300 \<le> st then fail (statusErr st ''OS_SEARCH_ERR'') else ret res)"

subsection \<open>The consumer\<close>

definition ix_Retryable :: "go_err \<Rightarrow> bool" where
  "ix_Retryable err = errs_Is err KindUnavailable"

definition ix_Handler :: "'d os_api \<Rightarrow> product_changed option \<Rightarrow> ('d, unit) prog" where
  "ix_Handler api v = (case v of None \<Rightarrow> ret () | Some ev \<Rightarrow> UpsertFromEvent api ev)"

subsection \<open>Queries\<close>

definition maxPageSize :: int where "maxPageSize = 50"
definition defaultPageSize :: int where "defaultPageSize = 20"
definition maxOffset :: int where "maxOffset = 10000"

definition j_term :: "string \<Rightarrow> string \<Rightarrow> json" where
  "j_term field v = JObj [(''term'', JObj [(field, JStr v)])]"

datatype sort_order = SortRelevance | SortNewest | SortPriceAsc | SortPriceDesc

definition sortClause :: "sort_order \<Rightarrow> json" where
  "sortClause srt = JArr (case srt of
       SortNewest \<Rightarrow> [JObj [(''indexed_at'', JStr ''desc'')], JStr ''_doc'']
     | SortPriceAsc \<Rightarrow> [JObj [(''price_units'', JStr ''asc'')], JStr ''_doc'']
     | SortPriceDesc \<Rightarrow> [JObj [(''price_units'', JStr ''desc'')], JStr ''_doc'']
     | SortRelevance \<Rightarrow> [JStr ''_score'', JStr ''_doc''])"

record search_req =
  sq_Query :: string
  sq_CategoryId :: string
  sq_Attributes :: "(string \<times> string) list"
  sq_MinPriceUnits :: int64
  sq_MaxPriceUnits :: int64
  sq_Sort :: sort_order
  sq_PageSize :: int32
  sq_PageToken :: string

definition price_range :: "search_req \<Rightarrow> json list" where
  "price_range q =
     (if 0 < sq_MinPriceUnits q \<or> 0 < sq_MaxPriceUnits q
      then [JObj [(''range'', JObj [(''price_units'',
             JObj ((if 0 < sq_MinPriceUnits q then [(''gte'', JNum (sq_MinPriceUnits q))] else []) @
                   (if 0 < sq_MaxPriceUnits q then [(''lte'', JNum (sq_MaxPriceUnits q))] else [])))])]]
      else [])"

definition buildQuery :: "search_req \<Rightarrow> int \<Rightarrow> int \<Rightarrow> json" where
  "buildQuery q frm sz =
     (let must = (if sq_Query q \<noteq> ''''
            then [JObj [(''multi_match'', JObj [(''query'', JStr (sq_Query q)),
                   (''fields'', JArr [JStr ''title^3'', JStr ''description'']), (''fuzziness'', JStr ''AUTO'')])]]
            else [JObj [(''match_all'', JObj [])]]);
          flt = (if sq_CategoryId q \<noteq> '''' then [j_term ''category_id'' (sq_CategoryId q)] else []) @
                map (\<lambda>(k, v). j_term (''attributes.'' @ k) v) (sq_Attributes q) @ price_range q
      in JObj [(''from'', JNum frm), (''size'', JNum sz),
               (''query'', JObj [(''bool'', JObj [(''must'', JArr must), (''filter'', JArr flt)])]),
               (''sort'', sortClause (sq_Sort q)),
               (''aggs'', JObj [(''category_id'', JObj [(''terms'', JObj [(''field'', JStr ''category_id''), (''size'', JNum 20)])])])])"

definition json_toString :: "json \<Rightarrow> string" where
  "json_toString v = (case v of JStr x \<Rightarrow> x | JNum n \<Rightarrow> FormatInt n | _ \<Rightarrow> '''')"

definition extractFacets :: "search_result \<Rightarrow> (string \<times> (string \<times> int64) list) list" where
  "extractFacets res = filter (\<lambda>f. snd f \<noteq> [])
     (map (\<lambda>(field, bs). (field, map (\<lambda>(k, n). (json_toString k, n)) bs)) (sr_Aggregations res))"

text \<open>\<open>strconv.Atoi\<close>.\<close>

definition Atoi :: "string \<Rightarrow> int option" where
  "Atoi s =
     (let neg = (s \<noteq> '''' \<and> hd s = CHR ''-''); signed = (s \<noteq> '''' \<and> (hd s = CHR ''-'' \<or> hd s = CHR ''+''));
          ds = (if signed then tl s else s); n = (if neg then - int (nat_val ds) else int (nat_val ds))
      in if ds = '''' \<or> \<not> list_all (\<lambda>c. 48 \<le> (of_char c :: nat) \<and> (of_char c :: nat) \<le> 57) ds \<or> \<not> in_i64 n then None else Some n)"

definition encodeOffset :: "int \<Rightarrow> string" where
  "encodeOffset n = EncodeToString (FormatInt n)"

definition decodeOffset :: "string \<Rightarrow> int res" where
  "decodeOffset tok =
     (if tok = '''' then Inr 0
      else case DecodeString tok of None \<Rightarrow> Inl bad_cursor | Some b \<Rightarrow>
      case Atoi b of None \<Rightarrow> Inl bad_cursor | Some n \<Rightarrow> if n < 0 then Inl bad_cursor else Inr n)"

record search_hit =
  hm_ProductId :: string
  hm_Slug :: string
  hm_Title :: string
  hm_CategoryId :: string
  hm_ListPrice :: price
  hm_PrimaryMediaKey :: string
  hm_Score :: rat

definition hit_msg :: "hit \<Rightarrow> search_hit" where
  "hit_msg h = (let d = h_Source h in \<lparr>hm_ProductId = sd_ProductID d, hm_Slug = sd_Slug d, hm_Title = sd_Title d,
     hm_CategoryId = sd_CategoryID d, hm_ListPrice = \<lparr>pr_currency = sd_Currency d, pr_units = sd_PriceUnits d, pr_nanos = sd_PriceNanos d\<rparr>,
     hm_PrimaryMediaKey = sd_PrimaryMediaKey d, hm_Score = h_Score h\<rparr>)"

record search_answer =
  sa_Hits :: "search_hit list"
  sa_Facets :: "(string \<times> (string \<times> int64) list) list"
  sa_NextPageToken :: string
  sa_TotalSize :: int64

definition search_Search :: "'d os_api \<Rightarrow> search_req \<Rightarrow> ('d, search_answer) prog" where
  "search_Search api q =
     (let sz = (if sq_PageSize q \<le> 0 \<or> sq_PageSize q > maxPageSize then defaultPageSize else sq_PageSize q) in
      bnd (lift_res (decodeOffset (sq_PageToken q))) (\<lambda>frm.
      let nxt = i64 (frm + sz) in
      if nxt > maxOffset then fail (errs_New KindInvalidArgument ''PAGE_TOO_DEEP'')
      else bnd (RawSearch api (buildQuery q frm sz)) (\<lambda>res.
           ret \<lparr>sa_Hits = map hit_msg (sr_Hits res), sa_Facets = extractFacets res,
             sa_NextPageToken = (if nxt < sr_Total res then encodeOffset nxt else ''''),
             sa_TotalSize = sr_Total res\<rparr>)))"

definition suggest_query :: "string \<Rightarrow> int \<Rightarrow> json" where
  "suggest_query pre limit = JObj [(''size'', JNum limit), (''_source'', JArr [JStr ''title'']),
     (''query'', JObj [(''multi_match'', JObj [(''query'', JStr pre), (''type'', JStr ''bool_prefix''),
        (''fields'', JArr [JStr ''title.suggest'', JStr ''title.suggest._2gram'', JStr ''title.suggest._3gram''])])])]"

text \<open>The loop over the hits keeps the first occurrence of each title.\<close>

fun first_titles :: "string list \<Rightarrow> string list \<Rightarrow> string list" where
  "first_titles seen [] = []"
| "first_titles seen (t # ts) =
     (if t \<noteq> '''' \<and> t \<notin> set seen then t # first_titles (t # seen) ts else first_titles seen ts)"

definition Autocomplete :: "'d os_api \<Rightarrow> string \<Rightarrow> int32 \<Rightarrow> ('d, string list) prog" where
  "Autocomplete api pre limit0 =
     (let limit = (if limit0 \<le> 0 \<or> limit0 > 10 then 5 else limit0) in
      if pre = '''' then ret []
      else bnd (RawSearch api (suggest_query pre limit)) (\<lambda>res.
           ret (first_titles [] (map (\<lambda>h. sd_Title (h_Source h)) (sr_Hits res)))))"

end
