(* ===== verification/Relay.thy ===== *)
theory Relay
  imports Outbox Quiet SampleEnv "HOL-Library.Sublist"
begin

section \<open>What the relay of the outbox guarantees\<close>

text \<open>
  One relay, any writers, any faults between a publication and its mark: the published rows are a prefix of the table,
  their records are on the broker in that order, nothing else is, and the last record under a key with nothing pending
  is the last row written under it.  Without faults a drain publishes every waiting row once.
\<close>

type_synonym 'p wire_record = "string \<times> string \<times> 'p"

definition row_record :: "'p outbox_row \<Rightarrow> 'p wire_record" where
  "row_record r = (ob_topic r, ob_key r, ob_payload r)"

definition published_rows :: "'p outbox \<Rightarrow> 'p outbox_row list" where
  "published_rows ob = filter (\<lambda>r. ob_published r \<noteq> None) (ob_rows ob)"

definition last_of :: "string \<Rightarrow> 'p wire_record list \<Rightarrow> 'p option" where
  "last_of k l = (if filter (\<lambda>x. fst (snd x) = k) l = [] then None else Some (snd (snd (last (filter (\<lambda>x. fst (snd x) = k) l)))))"

definition record_keys :: "'p wire_record list \<Rightarrow> string set" where
  "record_keys l = (\<lambda>x. fst (snd x)) ` set l"

definition relay_inv :: "'p relay \<Rightarrow> bool" where
  "relay_inv s \<longleftrightarrow> outbox_wf (rl_outbox s) \<and>
     published_rows (rl_outbox s) @ unpublished (rl_outbox s) = ob_rows (rl_outbox s) \<and>
     subseq (map row_record (published_rows (rl_outbox s))) (rl_log s) \<and>
     set (rl_log s) \<subseteq> row_record ` set (ob_rows (rl_outbox s)) \<and>
     (\<forall>k. k \<notin> ob_key ` set (unpublished (rl_outbox s)) \<longrightarrow> last_of k (rl_log s) = last_of k (map row_record (ob_rows (rl_outbox s))))"

lemma last_of_Nil [simp]: "last_of k [] = None"
  by (simp add: last_of_def)

lemma record_keys_simps [simp]: "record_keys (xs @ ys) = record_keys xs \<union> record_keys ys" "record_keys (map row_record rs) = ob_key ` set rs"
    "record_keys [] = {}" "record_keys (x # xs) = insert (fst (snd x)) (record_keys xs)"
  by (auto simp: record_keys_def row_record_def image_image)

lemma last_of_append: "last_of k (xs @ ys) = (if k \<in> record_keys ys then last_of k ys else last_of k xs)"
proof -
  have "filter (\<lambda>x. fst (snd x) = k) ys = [] \<longleftrightarrow> k \<notin> record_keys ys" by (auto simp: filter_empty_conv record_keys_def)
  then show ?thesis by (simp add: last_of_def)
qed

subsection \<open>Writers\<close>

lemma relay_inv_write:
  assumes "relay_inv s"
  shows "relay_inv (s\<lparr>rl_outbox := outbox_add topic key p t (rl_outbox s)\<rparr>)"
proof -
  let ?r = "\<lparr>ob_id = ob_next (rl_outbox s), ob_topic = topic, ob_key = key, ob_payload = p, ob_created = t, ob_published = None\<rparr>"
  have "ob_rows (outbox_add topic key p t (rl_outbox s)) = ob_rows (rl_outbox s) @ [?r]" by (simp add: outbox_add_def)
  then show ?thesis
    using assms by (auto simp: relay_inv_def published_rows_def unpublished_def last_of_append row_record_def)
qed

subsection \<open>Publishing\<close>

lemma relay_inv_publish:
  assumes inv: "relay_inv s" and xs: "set xs \<subseteq> set (unpublished (rl_outbox s))"
  shows "relay_inv (s\<lparr>rl_log := rl_log s @ map row_record xs\<rparr>)"
proof -
  have "set xs \<subseteq> set (ob_rows (rl_outbox s))" using xs by (auto simp: unpublished_def)
  moreover have "last_of k (rl_log s @ map row_record xs) = last_of k (rl_log s)" if "k \<notin> ob_key ` set (unpublished (rl_outbox s))" for k
    using that xs by (auto simp: last_of_append)
  ultimately show ?thesis
    using inv by (auto simp: relay_inv_def intro: subseq_append_iff [THEN iffD2] list_emb_append2)
qed

definition mark_rows :: "nat list \<Rightarrow> int \<Rightarrow> 'p outbox \<Rightarrow> 'p outbox" where
  "mark_rows ids t ob = ob\<lparr>ob_rows := upd_rows (\<lambda>r. ob_id r \<in> set ids) (\<lambda>r. r\<lparr>ob_published := Some t\<rparr>) (ob_rows ob)\<rparr>"

lemma marked_rows:
  assumes wf: "outbox_wf ob" and split: "published_rows ob @ unpublished ob = ob_rows ob"
  shows "published_rows (mark_rows (map ob_id (take m (unpublished ob))) t ob) =
      published_rows ob @ map (\<lambda>r. r\<lparr>ob_published := Some t\<rparr>) (take m (unpublished ob))"
    "unpublished (mark_rows (map ob_id (take m (unpublished ob))) t ob) = drop m (unpublished ob)"
    "map row_record (ob_rows (mark_rows ids t ob)) = map row_record (ob_rows ob)"
    "outbox_wf (mark_rows ids t ob)" "events (mark_rows ids t ob) = events ob"
    "published_rows (mark_rows (map ob_id (take m (unpublished ob))) t ob) @ unpublished (mark_rows (map ob_id (take m (unpublished ob))) t ob) =
      ob_rows (mark_rows (map ob_id (take m (unpublished ob))) t ob)"
proof -
  let ?P = "take m (unpublished ob)" and ?D = "drop m (unpublished ob)"
  let ?u = "upd_rows (\<lambda>r. ob_id r \<in> set (map ob_id ?P)) (\<lambda>r. r\<lparr>ob_published := Some t\<rparr>)"
  have ids: "distinct (map ob_id (published_rows ob @ ?P @ ?D))"
    using wf split by (simp add: outbox_wf_def strict_sorted_iff)
  have none: "?u xs = xs" if "ob_id ` set xs \<inter> ob_id ` set ?P = {}" for xs
    using that by (induction xs) auto
  have all: "?u xs = map (\<lambda>r. r\<lparr>ob_published := Some t\<rparr>) xs" if "set xs \<subseteq> set ?P" for xs
    using that by (induction xs) auto
  have r0: "ob_rows ob = published_rows ob @ ?P @ ?D" using split by simp
  have d: "ob_id ` set (published_rows ob) \<inter> ob_id ` set ?P = {}" "ob_id ` set ?D \<inter> ob_id ` set ?P = {}"
    using ids unfolding map_append distinct_append set_append set_map by blast+
  have "ob_rows (mark_rows (map ob_id ?P) t ob) = ?u (ob_rows ob)" by (simp add: mark_rows_def)
  also have "\<dots> = ?u (published_rows ob) @ ?u ?P @ ?u ?D" unfolding r0 by (simp only: upd_rows_def map_append)
  finally have rows: "ob_rows (mark_rows (map ob_id ?P) t ob) =
      published_rows ob @ map (\<lambda>r. r\<lparr>ob_published := Some t\<rparr>) ?P @ ?D"
    unfolding none [OF d(1)] none [OF d(2)] all [OF order_refl] .
  have pub: "ob_published r \<noteq> None" if "r \<in> set (published_rows ob)" for r using that by (simp add: published_rows_def)
  have unp: "ob_published r = None" if "r \<in> set (unpublished ob)" for r using that by (simp add: unpublished_def)
  have pu: "published_rows (mark_rows (map ob_id ?P) t ob) = published_rows ob @ map (\<lambda>r. r\<lparr>ob_published := Some t\<rparr>) ?P"
    "unpublished (mark_rows (map ob_id ?P) t ob) = ?D"
    unfolding published_rows_def [of "mark_rows _ _ _"] unpublished_def [of "mark_rows _ _ _"] rows
    using pub unp by (auto simp: filter_id_conv filter_empty_conv dest: in_set_dropD)
  then show "published_rows (mark_rows (map ob_id ?P) t ob) = published_rows ob @ map (\<lambda>r. r\<lparr>ob_published := Some t\<rparr>) ?P"
    "unpublished (mark_rows (map ob_id ?P) t ob) = ?D"
    "published_rows (mark_rows (map ob_id ?P) t ob) @ unpublished (mark_rows (map ob_id ?P) t ob) = ob_rows (mark_rows (map ob_id ?P) t ob)"
    by (simp_all add: rows)
  have maps: "map g (ob_rows (mark_rows ids t ob)) = map g (ob_rows ob)" if "\<And>r. g (r\<lparr>ob_published := Some t\<rparr>) = g r" for g :: "_ \<Rightarrow> 'b" and ids
    unfolding mark_rows_def by (simp, rule map_upd_rows) (rule that)
  show "map row_record (ob_rows (mark_rows ids t ob)) = map row_record (ob_rows ob)" by (rule maps) (simp add: row_record_def)
  show "events (mark_rows ids t ob) = events ob" unfolding events_def by (rule maps) simp
  have idm: "map ob_id (ob_rows (mark_rows ids t ob)) = map ob_id (ob_rows ob)" by (rule maps) simp
  have nx: "ob_next (mark_rows ids t ob) = ob_next ob" by (simp add: mark_rows_def)
  have wf_alt: "outbox_wf ob \<longleftrightarrow> sorted_wrt (<) (map ob_id (ob_rows ob)) \<and> (\<forall>i\<in>set (map ob_id (ob_rows ob)). i < ob_next ob)" for ob :: "'a outbox"
    by (simp add: outbox_wf_def)
  show "outbox_wf (mark_rows ids t ob)" using wf unfolding wf_alt [of "mark_rows ids t ob"] wf_alt [of ob] idm nx .
qed

lemma relay_inv_mark:
  assumes inv: "relay_inv s" and m: "m \<le> j"
  shows "relay_inv (s\<lparr>rl_log := rl_log s @ map row_record (take j (unpublished (rl_outbox s))),
     rl_outbox := mark_rows (map ob_id (take m (unpublished (rl_outbox s)))) t (rl_outbox s)\<rparr>)"
proof -
  let ?ob = "rl_outbox s" and ?U = "unpublished (rl_outbox s)"
  let ?ob' = "mark_rows (map ob_id (take m ?U)) t ?ob"
  have wf: "outbox_wf ?ob" and split: "published_rows ?ob @ ?U = ob_rows ?ob" using inv by (simp_all add: relay_inv_def)
  note mk = marked_rows [OF wf split]
  have marked: "map row_record (map (\<lambda>r. r\<lparr>ob_published := Some t\<rparr>) xs) = map row_record xs" for xs
    by (simp add: row_record_def)
  obtain Q where Q: "take j ?U = take m ?U @ Q" "set Q \<subseteq> set (drop m ?U)"
  proof
    show "take j ?U = take m ?U @ take (j - m) (drop m ?U)" using m by (metis le_add_diff_inverse take_add)
  qed (rule set_take_subset)
  have rows: "ob_rows ?ob = published_rows ?ob @ take m ?U @ drop m ?U" using split by simp
  have "last_of k (rl_log s @ map row_record (take j ?U)) = last_of k (map row_record (ob_rows ?ob))"
    if k: "k \<notin> ob_key ` set (drop m ?U)" for k
  proof (cases "k \<in> ob_key ` set (take m ?U)")
    case True
    then show ?thesis
      using k Q(2) unfolding Q(1) rows map_append by (auto simp: last_of_append)
  next
    case False
    then have "k \<notin> ob_key ` set ?U" using k by (metis (no_types, lifting) Un_iff append_take_drop_id image_Un set_append)
    moreover from this have "k \<notin> ob_key ` set (take j ?U)" by (meson image_mono set_take_subset subsetD)
    ultimately show ?thesis using inv by (simp add: relay_inv_def last_of_append)
  qed
  moreover have "subseq (map row_record (published_rows ?ob @ take m ?U)) (rl_log s @ map row_record (take j ?U))"
    using inv list_emb_append_mono [of "(=)" _ "rl_log s" "map row_record (take m ?U) @ []" "map row_record (take m ?U) @ map row_record Q"]
      list_emb_append_mono [of "(=)" "map row_record (take m ?U)" "map row_record (take m ?U)" "[]" "map row_record Q"]
    unfolding Q(1) by (simp add: relay_inv_def)
  moreover have "set (take j ?U) \<subseteq> set (ob_rows ?ob)" using set_take_subset [of j ?U] split by (metis set_append sup.coboundedI2)
  moreover have "row_record ` set (ob_rows ?ob') = row_record ` set (ob_rows ?ob)" using arg_cong [OF mk(3), of set] by simp
  moreover have "published_rows ?ob' @ unpublished ?ob' = ob_rows ?ob'" by (rule mk(6))
  ultimately show ?thesis
    using inv mk by (auto simp: relay_inv_def marked simp del: map_map)
qed

subsection \<open>A drain under any faults\<close>

lemma wp_publish_loop:
  "wp (publish_loop xs) (\<lambda>r s' _. \<exists>m j er. r = Inr (map ob_id (take m xs), er) \<and> m \<le> j \<and>
     s' = s\<lparr>rl_log := rl_log s @ map row_record (take j xs)\<rparr>) s e"
proof (induction xs arbitrary: s e)
  case Nil
  show ?case by auto
next
  case (Cons x xs s e)
  define Q where "Q r s' \<longleftrightarrow> (\<exists>m j er. r = Inr (map ob_id (take m (x # xs)), er) \<and> m \<le> j \<and>
     s' = s\<lparr>rl_log := rl_log s @ map row_record (take j (x # xs))\<rparr>)" for r :: "(nat list \<times> go_err option) res" and s'
  have q0: "Q (Inr ([], er)) s" for er
    unfolding Q_def by (rule exI [of _ 0], rule exI [of _ 0], rule exI [of _ er]) simp
  have q1: "Q (Inr ([], er)) (s\<lparr>rl_log := rl_log s @ [row_record x]\<rparr>)" for er
    unfolding Q_def by (intro exI [of _ 0] exI [of _ 1] exI [of _ er] conjI) simp_all
  have qS: "Q (Inr (ob_id x # map ob_id (take m xs), er)) (s\<lparr>rl_log := rl_log s @ row_record x # map row_record (take j xs)\<rparr>)"
    if "m \<le> j" for m j er
    unfolding Q_def by (intro exI [of _ "Suc m"] exI [of _ "Suc j"] exI [of _ er]) (simp add: that)
  have "wp (publish_loop (x # xs)) (\<lambda>r s' _. Q r s') s e"
    unfolding publish_loop.simps publish_def
    by (auto simp: row_record_def [symmetric] intro!: wp_execI q0 q1 wp_mono [OF Cons.IH] qS)
  then show ?case by (simp add: Q_def)
qed

definition relay_keeps :: "'p relay \<Rightarrow> 'p relay \<Rightarrow> bool" where
  "relay_keeps s s' \<longleftrightarrow> relay_inv s' \<and> prefix (rl_log s) (rl_log s') \<and>
     map row_record (ob_rows (rl_outbox s')) = map row_record (ob_rows (rl_outbox s))"

lemma wp_drainOnce:
  assumes inv: "relay_inv s"
  shows "wp (drainOnce b) (\<lambda>_ s' _. relay_keeps s s') s e"
proof -
  let ?U = "unpublished (rl_outbox s)"
  have wf: "outbox_wf (rl_outbox s)" "published_rows (rl_outbox s) @ ?U = ob_rows (rl_outbox s)" using inv by (simp_all add: relay_inv_def)
  have mark: "mark_published ids = exec (\<lambda>t s. s\<lparr>rl_outbox := mark_rows ids t (rl_outbox s)\<rparr>)" for ids :: "nat list"
    by (simp add: mark_published_def mark_rows_def)
  have pub: "relay_keeps s (s\<lparr>rl_log := rl_log s @ map row_record (take j ?U)\<rparr>)" for j
    using relay_inv_publish [OF inv set_take_subset] by (simp add: relay_keeps_def)
  have marked: "relay_keeps s (s\<lparr>rl_log := rl_log s @ map row_record (take j ?U),
      rl_outbox := mark_rows (map ob_id (take m ?U)) t (rl_outbox s)\<rparr>)" if "m \<le> j" for m j t
    using relay_inv_mark [OF inv that] marked_rows(3) [OF wf] by (simp add: relay_keeps_def)
  have keep: "relay_keeps s s" using inv by (simp add: relay_keeps_def)
  have m: "min m b \<le> min j b" if "m \<le> j" for m j :: nat using that by simp
  show ?thesis
    unfolding drainOnce_def mark
    by (auto simp: keep min.commute [of b] intro!: wp_queryI wp_mono [OF wp_publish_loop] wp_execI pub marked m split: prod.splits if_splits)
qed

lemma relay_keeps_trans: "relay_keeps s t \<Longrightarrow> relay_keeps t u \<Longrightarrow> relay_keeps s u"
  by (auto simp: relay_keeps_def intro: prefix_order.trans)

lemma wp_drainUntilEmpty:
  "relay_inv s \<Longrightarrow> wp (drainUntilEmpty fuel cancelled b k) (\<lambda>_ s' _. relay_keeps s s') s e"
proof (induction fuel arbitrary: k s e)
  case (Suc fuel)
  have keep: "relay_keeps s s" using Suc.prems by (simp add: relay_keeps_def)
  have rest: "wp (drainUntilEmpty fuel cancelled b (Suc k)) (\<lambda>_ s'' _. relay_keeps s s'') s' e'" if "relay_keeps s s'" for s' e'
    by (rule wp_mono [OF Suc.IH]) (use that relay_keeps_trans in \<open>auto simp: relay_keeps_def\<close>)
  show ?case
    by (auto simp: keep intro!: wp_mono [OF wp_drainOnce [OF Suc.prems]] rest split: sum.splits option.splits)
qed (simp add: relay_keeps_def)

datatype 'p outbox_op = RowWritten string string 'p | Drained nat "nat \<Rightarrow> bool" nat

fun relay_prog :: "'p outbox_op \<Rightarrow> ('p relay, unit) prog" where
  "relay_prog (RowWritten topic key p) = exec (\<lambda>t s. s\<lparr>rl_outbox := outbox_add topic key p t (rl_outbox s)\<rparr>)"
| "relay_prog (Drained fuel cancelled b) = discard (drainUntilEmpty fuel cancelled b 0)"

definition relay_step :: "'p outbox_op \<Rightarrow> env \<Rightarrow> 'p relay \<Rightarrow> 'p relay" where
  "relay_step op = after (relay_prog op)"

definition empty_relay :: "'p relay" where
  "empty_relay = \<lparr>rl_outbox = empty_outbox, rl_log = []\<rparr>"

lemma relay_inv_empty: "relay_inv empty_relay"
  by (simp add: relay_inv_def empty_relay_def empty_outbox_def published_rows_def unpublished_def outbox_wf_def)

interpretation relay_machine: inv_machine relay_step empty_relay relay_inv
proof unfold_locales
  show "relay_inv empty_relay" by (rule relay_inv_empty)
  fix s :: "'a relay" and op e assume inv: "relay_inv s"
  have "wp (relay_prog op) (\<lambda>_ s' _. relay_inv s') s e"
  proof (cases op)
    case (RowWritten topic key p)
    then show ?thesis using inv relay_inv_write [OF inv] by (auto intro!: wp_execI)
  next
    case (Drained fuel cancelled b)
    then show ?thesis
      using wp_mono [OF wp_drainUntilEmpty [OF inv], of "\<lambda>_ s' _. relay_inv s'"] by (simp add: relay_keeps_def)
  qed
  then show "relay_inv (relay_step op e s)" unfolding relay_step_def by (rule after_wp)
qed


definition two_drains :: "(nat outbox_op \<times> env) list" where
  "two_drains = [(RowWritten ''t'' ''a'' 1, env_at 1), (RowWritten ''t'' ''b'' 2, env_at 1), (RowWritten ''t'' ''a'' 3, env_at 1),
     (Drained 9 (\<lambda>_. False) 2 , (env_at 2)\<lparr>faults := [Fine, Fine, Fine, Lost]\<rparr>), (Drained 9 (\<lambda>_. False) 2, env_at 3)]"

definition twice_sent :: "nat relay" where
  "twice_sent = run_ops relay_step two_drains empty_relay"

lemma twice_sent_rows: "map (\<lambda>x. snd (snd x)) (rl_log twice_sent) = [1, 2, 1, 2, 3]" "unpublished (rl_outbox twice_sent) = []"
  "last_of ''a'' (map row_record (ob_rows (rl_outbox twice_sent))) = Some 3"
  by code_simp+


subsection \<open>A drain without faults\<close>

lemma publish_loop_run:
  "faults e = [] \<Longrightarrow> publish_loop xs s e = (Inr (map ob_id xs, None), s\<lparr>rl_log := rl_log s @ map row_record xs\<rparr>, e)"
  by (induction xs arbitrary: s) (simp_all add: publish_def exec_def stmt_nofault bnd_def attempt_def ret_def row_record_def)

lemma drainOnce_run:
  assumes "faults e = []"
  shows "drainOnce b s e = (Inr (length (take b (unpublished (rl_outbox s))), None),
    if take b (unpublished (rl_outbox s)) = [] then s
    else s\<lparr>rl_log := rl_log s @ map row_record (take b (unpublished (rl_outbox s))),
           rl_outbox := mark_rows (map ob_id (take b (unpublished (rl_outbox s)))) (now e) (rl_outbox s)\<rparr>, e)"
  using assms
  by (auto simp: drainOnce_def query_def exec_def stmt_nofault bnd_def attempt_def ret_def publish_loop_run mark_published_def mark_rows_def)

theorem drain_publishes_all_once:
  assumes "faults e = []" "0 < b"
  shows "relay_inv s \<Longrightarrow> length (unpublished (rl_outbox s)) < fuel * b \<Longrightarrow>
    \<exists>s'. drainUntilEmpty fuel (\<lambda>_. False) b k s e = (Inr True, s', e) \<and> unpublished (rl_outbox s') = [] \<and>
      rl_log s' = rl_log s @ map row_record (unpublished (rl_outbox s))"
proof (induction fuel arbitrary: k s)
  case (Suc fuel)
  let ?U = "unpublished (rl_outbox s)"
  have wf: "outbox_wf (rl_outbox s)" "published_rows (rl_outbox s) @ ?U = ob_rows (rl_outbox s)" using Suc.prems(1) by (simp_all add: relay_inv_def)
  let ?s = "s\<lparr>rl_log := rl_log s @ map row_record (take b ?U), rl_outbox := mark_rows (map ob_id (take b ?U)) (now e) (rl_outbox s)\<rparr>"
  note un = marked_rows(2) [OF wf, of b "now e"]
  show ?case
  proof (cases "length ?U < b")
    case True
    then show ?thesis
      using un by (cases "?U = []") (simp_all add: drainOnce_run [OF assms(1)] bnd_def ret_def)
  next
    case False
    have "relay_inv ?s" by (rule relay_inv_mark [OF Suc.prems(1)]) simp
    moreover have "length (unpublished (rl_outbox ?s)) < fuel * b" using Suc.prems(2) False un by simp
    ultimately obtain s' where s': "drainUntilEmpty fuel (\<lambda>_. False) b (Suc k) ?s e = (Inr True, s', e)" "unpublished (rl_outbox s') = []"
        "rl_log s' = rl_log ?s @ map row_record (unpublished (rl_outbox ?s))"
      using Suc.IH by blast
    have "take b ?U \<noteq> []" using False assms(2) by auto
    then have "drainUntilEmpty (Suc fuel) (\<lambda>_. False) b k s e = (Inr True, s', e)"
      using False s'(1) by (simp add: drainOnce_run [OF assms(1)] bnd_def min_def)
    then show ?thesis using s'(2,3) un by (auto simp flip: map_append)
  qed
qed simp

end
