(* ===== verification/Pages.thy ===== *)
theory Pages
  imports Prog
begin

section \<open>Listings read page by page\<close>

text \<open>
  A listing answers one page and the token of the next one, the empty token on the last page.  The locale says what a
  keyset listing promises about its tokens; from it, a client that follows the tokens sees every row once, in order, and
  comes to the end.
\<close>

definition token_page :: "nat \<Rightarrow> ('r \<Rightarrow> 'p) \<Rightarrow> ('r \<Rightarrow> string) \<Rightarrow> 'r list \<Rightarrow> 'p list \<times> string" where
  "token_page lim shown tok rs = (map shown (take lim rs), if lim < length rs then tok (rs ! (lim - 1)) else '''')"

text \<open>The client's loop, with the number of calls it is willing to make; \<open>None\<close> says that it stopped before the end.\<close>

fun walk_pages :: "nat \<Rightarrow> (string \<Rightarrow> ('d, 'p list \<times> string) prog) \<Rightarrow> string \<Rightarrow> ('d, 'p list option) prog" where
  "walk_pages 0 f tok = ret None"
| "walk_pages (Suc n) f tok = bnd (f tok) (\<lambda>(ps, next). if next = '''' then ret (Some ps)
     else bnd (walk_pages n f next) (\<lambda>rest. ret (map_option (\<lambda>qs. ps @ qs) rest)))"

locale token_pages =
  fixes listing :: "string \<Rightarrow> ('d, 'p list \<times> string) prog"
    and rows :: "'d \<Rightarrow> 'r list" and shown :: "'r \<Rightarrow> 'p" and tok :: "env \<Rightarrow> 'r \<Rightarrow> string" and lim :: nat
    and good :: "'d \<Rightarrow> env \<Rightarrow> bool"
  assumes lim_pos: "0 < lim"
    and first_page: "good d e \<Longrightarrow> listing '''' d e = (Inr (token_page lim shown (tok e) (rows d)), d, e)"
    and next_page: "\<lbrakk>good d e; rows d = xs @ r # ys\<rbrakk> \<Longrightarrow> listing (tok e r) d e = (Inr (token_page lim shown (tok e) ys), d, e)"
    and token_set: "\<lbrakk>good d e; r \<in> set (rows d)\<rbrakk> \<Longrightarrow> tok e r \<noteq> ''''"
begin

lemma walk_rest:
  assumes good: "good d e"
  shows "\<lbrakk>rows d = xs @ ys; listing t d e = (Inr (token_page lim shown (tok e) ys), d, e); length ys \<le> n * lim; 0 < n\<rbrakk>
    \<Longrightarrow> walk_pages n listing t d e = (Inr (Some (map shown ys)), d, e)"
proof (induction n arbitrary: xs ys t)
  case (Suc n)
  show ?case
  proof (cases "lim < length ys")
    case False
    then show ?thesis using Suc.prems(2) by (simp add: bnd_def token_page_def ret_def)
  next
    case True
    let ?r = "ys ! (lim - 1)"
    have "lim - 1 < length ys" using True by simp
    then have "ys = take (lim - 1) ys @ ?r # drop (Suc (lim - 1)) ys" by (rule id_take_nth_drop)
    then have ys: "ys = take (lim - 1) ys @ ?r # drop lim ys" using lim_pos by simp
    have rows: "rows d = (xs @ take (lim - 1) ys) @ ?r # drop lim ys" using Suc.prems(1) ys by simp
    have "?r \<in> set (rows d)" using Suc.prems(1) True by simp
    then have tk: "tok e ?r \<noteq> ''''" by (rule token_set [OF good])
    have "walk_pages n listing (tok e ?r) d e = (Inr (Some (map shown (drop lim ys))), d, e)"
    proof (rule Suc.IH)
      show "rows d = (xs @ take lim ys) @ drop lim ys" using Suc.prems(1) by simp
      show "listing (tok e ?r) d e = (Inr (token_page lim shown (tok e) (drop lim ys)), d, e)" by (rule next_page [OF good rows])
      show "length (drop lim ys) \<le> n * lim" using Suc.prems(3) by simp
      show "0 < n" using Suc.prems(3) True by (cases n) simp_all
    qed
    then show ?thesis
      using Suc.prems(2) True tk by (simp add: bnd_def token_page_def ret_def flip: map_append)
  qed
qed simp

lemma walk_all:
  assumes "good d e" "length (rows d) \<le> n * lim" "0 < n"
  shows "walk_pages n listing '''' d e = (Inr (Some (map shown (rows d))), d, e)"
  by (rule walk_rest [OF assms(1), of "[]"]) (use assms first_page in simp_all)

end

end
