(* ===== verification/CatalogProps.thy ===== *)
theory CatalogProps
  imports Catalog Pages Quiet Samples
begin

section \<open>Properties of the catalog\<close>

text \<open>
  The product_changed events replay to the table, the listings are complete when their tokens are followed, and only
  the staff of a shop or the catalog managers write its listings.
\<close>

subsection \<open>Replaying the events\<close>

text \<open>What a reader of the topic builds: the last content announced for each product.\<close>

definition index_put :: "(string \<rightharpoonup> product_msg) \<Rightarrow> product_changed \<Rightarrow> (string \<rightharpoonup> product_msg)" where
  "index_put m ev = m(pc_ProductId ev \<mapsto> pc_Product ev)"

definition replay :: "product_changed list \<Rightarrow> (string \<rightharpoonup> product_msg)" where
  "replay evs = foldl index_put Map.empty evs"

definition product_table :: "catalog_db \<Rightarrow> (string \<rightharpoonup> product_msg)" where
  "product_table d i = map_option store_toProto (find_product pd_ID i d)"

definition catalog_inv :: "catalog_db \<Rightarrow> bool" where
  "catalog_inv d \<longleftrightarrow> distinct (map pd_ID (products d)) \<and> distinct (map pd_Slug (products d)) \<and>
     replay (events (ctox d)) = product_table d"

definition announce :: "change_type \<Rightarrow> product \<Rightarrow> int \<Rightarrow> catalog_db \<Rightarrow> catalog_db" where
  "announce change p t d = d\<lparr>ctox := outbox_add ''commerce.catalog.product_changed'' (pd_ID p)
     \<lparr>pc_ProductId = pd_ID p, pc_Change = change, pc_Product = store_toProto p, pc_OccurredAt = t\<rparr> t (ctox d)\<rparr>"

lemma replay_snoc [simp]: "replay (evs @ [ev]) = (replay evs)(pc_ProductId ev \<mapsto> pc_Product ev)"
  by (simp add: replay_def index_put_def)

lemma find_product_in: "find_product col v d = Some p \<Longrightarrow> col p = v \<and> p \<in> set (products d)"
  by (auto simp: find_product_def dest: find_in_set)

lemma product_table_ctox [simp]: "product_table (ctox_update f d) = product_table d"
  by (simp add: product_table_def find_product_def fun_eq_iff)

lemma find_upd_rows:
  assumes "\<And>x. col (g x) = col x"
  shows "List.find (\<lambda>x. col x = v) (upd_rows (\<lambda>x. col x = i) g xs) =
    map_option (if v = i then g else id) (List.find (\<lambda>x. col x = v) xs)"
  by (induction xs) (auto simp: upd_rows_def assms)

lemma product_table_insert:
  assumes "insert_product p i t d = Inr (r, d')"
  shows "product_table d' = (product_table d)(i \<mapsto> store_toProto r) \<and> pd_ID r = i \<and> ctox d' = ctox d \<and>
    products d' = products d @ [r] \<and> pd_Slug r \<notin> pd_Slug ` set (products d) \<and> i \<notin> pd_ID ` set (products d)"
proof -
  have r: "pd_ID r = i" "d' = d\<lparr>products := products d @ [r]\<rparr>" "pd_Slug r \<notin> pd_Slug ` set (products d)" "i \<notin> pd_ID ` set (products d)"
    using assms by (auto simp: insert_product_def Let_def split: if_splits)
  have "List.find (\<lambda>p. pd_ID p = i) (products d) = None" using r(4) by (auto simp: find_None_iff)
  then show ?thesis
    using r by (auto simp: product_table_def find_product_def find_append fun_eq_iff split: option.splits)
qed

lemma catalog_inv_insert:
  assumes "catalog_inv d" "insert_product p i t d = Inr (r, d')"
  shows "catalog_inv (announce change r t' d')"
  using product_table_insert [OF assms(2)] assms(1)
  by (simp add: catalog_inv_def announce_def)

lemma catalog_inv_update:
  assumes inv: "catalog_inv d" and keep: "\<And>x. pd_ID (f x) = pd_ID x \<and> pd_Slug (f x) = pd_Slug x"
    and r: "find_product pd_ID i (put_product i f t d) = Some r"
  shows "catalog_inv (announce change r t' (put_product i f t d))"
proof -
  let ?g = "\<lambda>p. (f p)\<lparr>pd_UpdatedAt := t\<rparr>"
  have maps: "map c (products (put_product i f t d)) = map c (products d)" if "\<And>x. c (?g x) = c x" for c :: "product \<Rightarrow> string"
    unfolding put_product_def by (simp, rule map_upd_rows) (rule that)
  have find: "find_product pd_ID v (put_product i f t d) = map_option (if v = i then ?g else id) (find_product pd_ID v d)" for v
    unfolding find_product_def put_product_def by (simp add: find_upd_rows keep)
  have "pd_ID r = i" using find_product_in [OF r] by simp
  then have "product_table (put_product i f t d) = (product_table d)(i \<mapsto> store_toProto r)"
    using r find by (auto simp: product_table_def fun_eq_iff option.map_comp comp_def option.map_id)
  then show ?thesis
    using inv \<open>pd_ID r = i\<close> maps [of pd_ID] maps [of pd_Slug] keep
    by (simp add: catalog_inv_def announce_def put_product_def)
qed

subsection \<open>Every write keeps it\<close>

lemma wp_insertOutboxI:
  assumes "\<And>x d' fs. Q (Inl x) d' (e\<lparr>faults := fs\<rparr>)" "\<And>fs. Q (Inr ()) (announce change p (now e) d) (e\<lparr>faults := fs\<rparr>)"
  shows "wp (insertOutbox change p) Q d e"
  using assms by (auto simp: insertOutbox_def announce_def intro!: wp_execI)

lemma wp_writeTxI:
  assumes inv: "I d" and fn: "\<And>e. wp fn (\<lambda>r d' _. \<forall>p. r = Inr p \<longrightarrow> (\<forall>t. I (announce change p t d'))) d e"
  shows "wp (writeTx change fn) (\<lambda>_ d' _. I d') d e"
  unfolding writeTx_def
proof (rule wp_in_tx_invI [where I = I, OF inv])
  fix fs
  show "wp (bnd fn (\<lambda>p. bnd (insertOutbox change p) (\<lambda>_. ret (Commit p))))
     (\<lambda>r d' e'. case r of Inr (Commit a) \<Rightarrow> I d' | _ \<Rightarrow> True) d (e\<lparr>faults := fs\<rparr>)"
    by (auto intro!: wp_mono [OF fn] wp_insertOutboxI split: sum.splits)
qed

lemma wp_uuid_paramsI:
  assumes "\<And>x fs. Q (Inl x) d (e\<lparr>faults := fs\<rparr>)" "wp p Q d e"
  shows "wp (uuid_params ks p) Q d e"
  using assms by (auto simp: uuid_params_def intro!: wp_stmtI)

lemma wp_ct_Create_inv:
  assumes inv: "catalog_inv d"
  shows "wp (ct_Create p) (\<lambda>_ d' _. catalog_inv d') d e"
  unfolding ct_Create_def scanProduct_def
  by (rule wp_writeTxI [where I = catalog_inv, OF inv])
     (auto intro!: wp_uuid_paramsI wp_exec_chkI catalog_inv_insert [OF inv] split: sum.splits)

lemma wp_update_product_inv:
  assumes inv: "catalog_inv d" and keep: "\<And>x. pd_ID (f x) = pd_ID x \<and> pd_Slug (f x) = pd_Slug x"
  shows "wp (writeTx change (update_product i f)) (\<lambda>_ d' _. catalog_inv d') d e"
  unfolding update_product_def scanProduct_def
  by (rule wp_writeTxI [where I = catalog_inv, OF inv])
     (auto intro!: wp_uuid_paramsI wp_exec_chkI catalog_inv_update [OF inv keep] split: sum.splits option.splits)

datatype catalog_op = ProductAdded new_product | ProductSaved product | ProductRetired string

text \<open>The product an update saves was read before its transaction, so it is any product.\<close>

fun catalog_prog :: "unicode \<Rightarrow> catalog_op \<Rightarrow> (catalog_db, unit) prog" where
  "catalog_prog u (ProductAdded inp) = bnd (lift_res (NewProduct u inp)) (\<lambda>p. discard (ct_Create p))"
| "catalog_prog u (ProductSaved p) = discard (ct_Update p)"
| "catalog_prog u (ProductRetired i) = discard (ct_Archive i)"

definition catalog_step :: "unicode \<Rightarrow> catalog_op \<Rightarrow> env \<Rightarrow> catalog_db \<Rightarrow> catalog_db" where
  "catalog_step u op = after (catalog_prog u op)"

lemma catalog_prog_inv: "catalog_inv d \<Longrightarrow> wp (catalog_prog u op) (\<lambda>_ d' _. catalog_inv d') d e"
  by (cases op) (auto simp: ct_Update_def ct_Archive_def mutable_fields_def intro!: wp_ct_Create_inv wp_update_product_inv split: sum.splits)

interpretation catalog_machine: inv_machine "catalog_step u" empty_catalog_db catalog_inv for u
proof unfold_locales
  show "catalog_inv empty_catalog_db"
    by (simp add: catalog_inv_def empty_catalog_db_def replay_def product_table_def find_product_def fun_eq_iff)
  show "catalog_inv d \<Longrightarrow> catalog_inv (catalog_step u op e d)" for d op e
    unfolding catalog_step_def by (rule after_wp [OF catalog_prog_inv])
qed

text \<open>The event log of the catalog is a copy of its table.  After any sequence of creations, updates and archivals,
  with any faults between them, a reader that keeps the last product announced under each id has the table of
  products, as the store prints them.\<close>

theorem catalog_replayed:
  assumes "reach (catalog_step u) empty_catalog_db d"
  shows "replay (events (ctox d)) i = map_option store_toProto (find_product pd_ID i d)"
proof -
  have "catalog_inv d" by (rule catalog_machine.reach_inv [OF assms])
  then show ?thesis by (simp add: catalog_inv_def product_table_def)
qed

definition bowl :: new_product where
  "bowl = \<lparr>np_Slug = ''bowl'', np_Title = ''Bowl'', np_Description = '''', np_CategoryID = ''c'',
     np_Price = \<lparr>pr_currency = ''USD'', pr_units = 9, pr_nanos = 0\<rparr>, np_MediaKeys = [], np_Attributes = [], np_ShopID = ''s1'', np_CreatedBy = ''u''\<rparr>"

definition ascii_tables :: unicode where
  "ascii_tables = \<lparr>u_ToLower = map lower, u_IsLower = (\<lambda>r. list_all slug_char r), u_IsDigit = (\<lambda>r. False)\<rparr>"

definition one_bowl :: catalog_db where
  "one_bowl = run_ops (catalog_step ascii_tables) [(ProductAdded bowl, env_at 1), (ProductRetired ''id'', env_at 2)] empty_catalog_db"

lemma one_bowl_row: "map_option (\<lambda>p. (pd_Slug p, pd_Status p, pd_ShopID p)) (find_product pd_ID ''id'' one_bowl) = Some (''bowl'', PArchived, ''s1'')"
  by code_simp

theorem catalog_replayed_witness:
  "\<exists>m. replay (events (ctox one_bowl)) ''id'' = Some m \<and> pm_Slug m = ''bowl'' \<and> pm_Status m = PArchived"
proof -
  have "reach (catalog_step ascii_tables) empty_catalog_db one_bowl"
    unfolding one_bowl_def by (rule reach_run_ops [OF reach.init])
  from catalog_replayed [OF this, of "''id''"] show ?thesis using one_bowl_row by (auto simp: store_toProto_def)
qed

subsection \<open>An update that read its product before it was archived\<close>

text \<open>The check of \<open>ApplyUpdate\<close> is made on the product of the read, before the transaction of the update: an archival in
  between does not hold.\<close>

definition bowl_update :: update_product_req where
  "bowl_update = \<lparr>uq_Id = ''id'', uq_Title = ''Bowl'', uq_Description = '''', uq_CategoryId = ''c'',
     uq_ListPrice = Some \<lparr>pr_currency = ''USD'', pr_units = 9, pr_nanos = 0\<rparr>, uq_MediaKeys = [], uq_Attributes = [], uq_Status = Some PActive\<rparr>"

definition fresh_bowl :: catalog_db where
  "fresh_bowl = run_ops (catalog_step ascii_tables) [(ProductAdded bowl, env_at 1)] empty_catalog_db"

theorem archived_product_revived:
  "\<exists>p p' saved. fst (ct_Get ''id'' fresh_bowl (env_at 2)) = Inr p \<and> update_of bowl_update p = Inr p' \<and>
     find_product pd_ID ''id'' (after (ct_Archive ''id'') (env_at 3) fresh_bowl) = Some (p\<lparr>pd_Status := PArchived, pd_UpdatedAt := 3\<rparr>) \<and>
     fst (ct_Update p' (after (ct_Archive ''id'') (env_at 3) fresh_bowl) (env_at 4)) = Inr saved \<and> pd_Status saved = PActive"
proof -
  define p where "p = hd (products fresh_bowl)"
  define p' where "p' = projr (update_of bowl_update p)"
  define saved where "saved = projr (fst (ct_Update p' (after (ct_Archive ''id'') (env_at 3) fresh_bowl) (env_at 4)))"
  have "fst (ct_Get ''id'' fresh_bowl (env_at 2)) = Inr p" unfolding p_def by code_simp
  moreover have "update_of bowl_update p = Inr p'" unfolding p'_def p_def by code_simp
  moreover have "find_product pd_ID ''id'' (after (ct_Archive ''id'') (env_at 3) fresh_bowl) = Some (p\<lparr>pd_Status := PArchived, pd_UpdatedAt := 3\<rparr>)"
    unfolding p_def by code_simp
  moreover have "fst (ct_Update p' (after (ct_Archive ''id'') (env_at 3) fresh_bowl) (env_at 4)) = Inr saved"
    unfolding saved_def p'_def p_def by code_simp
  moreover have "pd_Status saved = PActive" unfolding saved_def p'_def p_def by code_simp
  ultimately show ?thesis by blast
qed

subsection \<open>Who writes a listing\<close>

definition may_list :: "caller \<Rightarrow> string \<Rightarrow> fga_tuple list \<Rightarrow> bool" where
  "may_list c shop ts \<longleftrightarrow> caller_has c roleCatalogManager \<or>
     (\<exists>p. c = Some p \<and> shop \<noteq> '''' \<and> fga_staff ts (UserObject (Subject p)) (ShopObject shop))"

datatype listing_op = ListingNew create_product_req | ListingEdit update_product_req | ListingEnd string

fun listing_prog :: "unicode \<Rightarrow> ('x catalog_sys_scheme) fga_api option \<Rightarrow> caller \<Rightarrow> listing_op \<Rightarrow> ('x catalog_sys_scheme, unit) prog" where
  "listing_prog u fga c (ListingNew q) = discard (CreateProduct u fga c q)"
| "listing_prog u fga c (ListingEdit q) = discard (UpdateProduct fga c q)"
| "listing_prog u fga c (ListingEnd i) = discard (ArchiveProduct fga c i)"

text \<open>The shop the request is about: that of the request, or that of the product it names.\<close>

definition shop_of_product :: "string \<Rightarrow> catalog_db \<Rightarrow> string" where
  "shop_of_product i d = (case find_product pd_ID i d of None \<Rightarrow> '''' | Some p \<Rightarrow> pd_ShopID p)"

fun listing_shop :: "listing_op \<Rightarrow> catalog_db \<Rightarrow> string" where
  "listing_shop (ListingNew q) d = cq_ShopId q"
| "listing_shop (ListingEdit q) d = shop_of_product (uq_Id q) d"
| "listing_shop (ListingEnd i) d = shop_of_product i d"

lemma wp_ct_GetI:
  assumes "\<And>x fs. Q (Inl x) d (e\<lparr>faults := fs\<rparr>)" "\<And>p fs. find_product pd_ID i d = Some p \<Longrightarrow> Q (Inr p) d (e\<lparr>faults := fs\<rparr>)"
  shows "wp (ct_Get i) Q d e"
  using assms unfolding ct_Get_def scanProduct_def by (auto intro!: wp_uuid_paramsI wp_query_rowI)

lemma same_catalog: "ct_db_update (\<lambda>_. ct_db d) d = (d :: 'x catalog_sys_scheme)"
  by (cases d) simp

locale listing_desk = fga_service api get
  for api :: "('x catalog_sys_scheme) fga_api" and get :: "'x catalog_sys_scheme \<Rightarrow> fga_tuple list"
begin

lemma wp_mayWriteI:
  assumes no: "\<And>x e'. Q (Inl x) d e'" and yes: "\<And>e'. may_list c shop (get d) \<Longrightarrow> Q (Inr ()) d e'"
  shows "wp (mayWriteProduct (Some api) c shop) Q d e"
proof -
  have allowed: "fga_allowed ts us RelationStaff (ShopObject shop) = fga_staff ts us (ShopObject shop)" for ts us
    by (simp add: fga_allowed_def fga_names)
  have ck: "wp (f_Check api us RelationStaff (ShopObject shop)) (\<lambda>x d' _. d' = d \<and> (x = Inr True \<longrightarrow> fga_staff (get d) us (ShopObject shop))) d e"
    for us e by (rule wp_mono [OF check_law]) (auto simp: allowed)
  show ?thesis
    unfolding mayWriteProduct_def RequireRole_def
    by (cases c) (auto simp: no caller_has_def intro!: yes wp_mono [OF ck] split: sum.splits, auto simp: may_list_def caller_has_def)
qed

lemma writes_allowed:
  assumes "ct_db (after (listing_prog u (Some api) c op) e d) \<noteq> ct_db d"
  shows "may_list c (listing_shop op (ct_db d)) (get d)"
proof -
  define G where "G = may_list c (listing_shop op (ct_db d)) (get d)"
  have "wp (listing_prog u (Some api) c op) (\<lambda>_ d' _. ct_db d' \<noteq> ct_db d \<longrightarrow> G) d e"
  proof (cases op)
    case (ListingNew q)
    then have g: "G = may_list c (cq_ShopId q) (get d)" by (simp add: G_def)
    show ?thesis
      unfolding ListingNew CreateProduct_def listing_prog.simps wp_discard wp_bnd
      by (rule wp_mayWriteI) (auto simp: g intro!: wp_always split: sum.splits)
  next
    case (ListingEdit q)
    then have g: "G = may_list c (pd_ShopID p) (get d)" if "find_product pd_ID (uq_Id q) (ct_db d) = Some p" for p
      using that by (simp add: G_def shop_of_product_def)
    show ?thesis
      unfolding ListingEdit UpdateProduct_def listing_prog.simps wp_discard at_catalog_def
      by (auto simp: same_catalog g intro!: wp_ct_GetI wp_mayWriteI wp_always [where m = "ct_Update p" for p] split: sum.splits)
  next
    case (ListingEnd i)
    then have g: "G = may_list c (pd_ShopID p) (get d)" if "find_product pd_ID i (ct_db d) = Some p" for p
      using that by (simp add: G_def shop_of_product_def)
    show ?thesis
      unfolding ListingEnd ArchiveProduct_def listing_prog.simps wp_discard at_catalog_def
      by (auto simp: same_catalog g intro!: wp_ct_GetI wp_mayWriteI wp_always [where m = "ct_Archive i"])
  qed
  from after_wp [OF this] show ?thesis using assms by (simp add: G_def)
qed

end

interpretation listings: listing_desk "openfga :: ('x catalog_sys_scheme) fga_api" tuples
  by unfold_locales

text \<open>C39: only those who may do so write a listing.  When a create, update or archive request changes anything in the
  catalog, its caller is a catalog manager, or OpenFGA has the caller as staff or owner of the shop concerned: the shop
  named by a create request, the shop of the stored product otherwise; the first-party products take a catalog
  manager.\<close>

theorem listings_written_by_staff:
  assumes "ct_db (after (listing_prog u (Some openfga) c op) e d) \<noteq> ct_db d"
  shows "caller_has c roleCatalogManager \<or>
    (\<exists>p. c = Some p \<and> listing_shop op (ct_db d) \<noteq> '''' \<and>
       fga_staff (tuples d) (UserObject (Subject p)) (ShopObject (listing_shop op (ct_db d))))"
  using listings.writes_allowed [OF assms] by (simp add: may_list_def)

definition clerk :: caller where
  "clerk = Some \<lparr>Subject = ''u'', Email = '''', Roles = []\<rparr>"

definition bowl_request :: create_product_req where
  "bowl_request = \<lparr>cq_Slug = ''bowl'', cq_Title = ''Bowl'', cq_Description = '''', cq_CategoryId = ''c'',
     cq_ListPrice = Some \<lparr>pr_currency = ''USD'', pr_units = 9, pr_nanos = 0\<rparr>, cq_MediaKeys = [], cq_Attributes = [], cq_ShopId = ''s1''\<rparr>"

definition open_desk :: catalog_sys where
  "open_desk = \<lparr>tuples = [Tuple ''user:u'' ''owner'' ''shop:s1''], ct_db = empty_catalog_db\<rparr>"

lemma bowl_listed: "map pd_Slug (products (ct_db (after (listing_prog ascii_tables (Some openfga) clerk (ListingNew bowl_request)) (env_at 1) open_desk))) = [''bowl'']"
  by code_simp

theorem listings_written_by_staff_witness:
  "\<exists>p. clerk = Some p \<and> fga_staff (tuples open_desk) (UserObject (Subject p)) (ShopObject ''s1'')"
proof -
  have "ct_db (after (listing_prog ascii_tables (Some openfga) clerk (ListingNew bowl_request)) (env_at 1) open_desk) \<noteq> ct_db open_desk"
    using bowl_listed by (auto simp: open_desk_def empty_catalog_db_def)
  from listings_written_by_staff [OF this] show ?thesis
    by (simp add: clerk_def caller_has_def HasRole_def bowl_request_def)
qed

subsection \<open>Following the page tokens\<close>

lemma Cut_bar_at: "CHR ''|'' \<notin> set s \<Longrightarrow> Cut_bar (s @ ''|'' @ r) = Some (s, r)"
  by (induction s) (auto simp: Cut_bar_def split: list.splits)

lemma to_bits_8_ne: "EncodeToString (c # s) \<noteq> []"
proof
  assume "EncodeToString (c # s) = []"
  then have "DecodeString (EncodeToString (c # s)) = Some []" by (simp add: DecodeString_def)
  then show False using DecodeString_EncodeToString [of "c # s"] by simp
qed

lemma decode_encode_cursor:
  assumes "parse (fmt t) = Some t" "CHR ''|'' \<notin> set (fmt t)"
  shows "decodeCursor parse (encodeCursor fmt (Some (t, i))) = Inr (Some (t, i))" "encodeCursor fmt (Some (t, i)) \<noteq> ''''"
proof -
  have "EncodeToString (fmt t @ ''|'' @ i) \<noteq> ''''" using to_bits_8_ne by (cases "fmt t") auto
  then show "decodeCursor parse (encodeCursor fmt (Some (t, i))) = Inr (Some (t, i))" "encodeCursor fmt (Some (t, i)) \<noteq> ''''"
    using assms Cut_bar_at [OF assms(2), of i] by (simp_all add: decodeCursor_def encodeCursor_def DecodeString_EncodeToString)
qed

lemma newest_filter: "newest_products (filter P ps) = filter P (newest_products ps)"
  by (simp add: newest_products_def flip: rev_filter filter_sort)

lemma newest_strict:
  assumes "distinct (map pd_ID ps)"
  shows "sorted_wrt (\<lambda>p q. pd_key q < pd_key p) (newest_products ps)"
proof -
  have "distinct (map pd_key ps)" using assms by (auto simp: distinct_map inj_on_def pd_key_def)
  then have "distinct (map pd_key (sort_key pd_key ps))" by (simp add: distinct_map)
  then have "sorted_wrt (<) (map pd_key (sort_key pd_key ps))" by (simp add: strict_sorted_iff)
  then show ?thesis by (simp add: newest_products_def sorted_wrt_rev sorted_wrt_map)
qed

lemma select_rest:
  assumes "distinct (map pd_ID (products d))" and rows: "select_products whr None d = xs @ r # ys"
  shows "select_products whr (Some (pd_key r)) d = ys"
proof -
  have sel: "select_products whr (Some k) d = filter (\<lambda>p. pd_key p < k) (select_products whr None d)" for k
    by (simp add: select_products_def flip: newest_filter)
  have "distinct (map pd_ID (filter whr (products d)))" using assms(1) by (rule distinct_map_filter)
  then have "sorted_wrt (\<lambda>p q. pd_key q < pd_key p) (xs @ r # ys)"
    using newest_strict [of "filter whr (products d)"] rows by (simp add: select_products_def)
  then have "filter (\<lambda>p. pd_key p < pd_key r) xs = []" "filter (\<lambda>p. pd_key p < pd_key r) ys = ys"
    by (auto simp: sorted_wrt_append filter_empty_conv filter_id_conv)
  then show ?thesis by (simp add: sel rows)
qed

text \<open>What the listing relies on: a quiet database, keys that are UUIDs, and a time format that reads back and has no bar.\<close>

definition codec_ok :: "env \<Rightarrow> product list \<Rightarrow> bool" where
  "codec_ok e ps \<longleftrightarrow> list_all (\<lambda>p. uuid_ok e (pd_ID p) \<and> parse_time e (fmt_time e (pd_CreatedAt p)) = Some (pd_CreatedAt p) \<and>
     CHR ''|'' \<notin> set (fmt_time e (pd_CreatedAt p))) ps"

definition browsable :: "string \<Rightarrow> 'x catalog_sys_scheme \<Rightarrow> env \<Rightarrow> bool" where
  "browsable shopID s e \<longleftrightarrow> faults e = [] \<and> distinct (map pd_ID (products (ct_db s))) \<and> codec_ok e (products (ct_db s)) \<and>
     (shopID = '''' \<or> uuid_ok e shopID)"

definition row_token :: "env \<Rightarrow> product \<Rightarrow> string" where
  "row_token e r = encodeCursor (fmt_time e) (Some (pd_key r))"

lemma listPage_run:
  assumes "faults e = []" "list_all (uuid_ok e) ids" "list_all (uuid_ok e) (case c of None \<Rightarrow> [] | Some (t, i) \<Rightarrow> [i])"
  shows "listPage whr ids n c d e = (Inr (let rs = select_products whr c d; lim = limit_or 20 n in
     (take lim rs, if lim < length rs then Some (pd_key (rs ! (lim - 1))) else None)), d, e)"
proof -
  have "0 < limit_or 20 n" by (simp add: limit_or_def)
  then show ?thesis
    using assms by (auto simp: listPage_def Let_def uuid_params_def prog_defs min_def split: option.splits prod.splits)
qed

lemma ListProducts_run:
  assumes ok: "faults e = []" "shopID = '''' \<or> uuid_ok e shopID"
    and c: "decodeCursor (parse_time e) t = Inr c" "list_all (uuid_ok e) (case c of None \<Rightarrow> [] | Some (t, i) \<Rightarrow> [i])"
  shows "ListProducts cat shopID n t s e =
     (Inr (token_page (limit_or 20 n) pd_toProto (row_token e) (select_products (listed cat shopID) c (ct_db s))), s, e)"
proof -
  have "list_all (uuid_ok e) (if shopID = '''' then [] else [shopID])" using ok(2) by auto
  from listPage_run [OF ok(1) this c(2)] show ?thesis
    using c(1) by (auto simp: ListProducts_def ct_List_def answer_page_def at_catalog_def token_page_def row_token_def Let_def
        same_catalog zoom_def bnd_def asks_def lift_res_def ret_def encodeCursor_def)
qed

interpretation products: token_pages "ListProducts cat shopID n" "\<lambda>s. select_products (listed cat shopID) None (ct_db s)"
    pd_toProto row_token "limit_or 20 n" "browsable shopID" for cat shopID n
proof unfold_locales
  show "0 < limit_or 20 n" by (simp add: limit_or_def)
next
  fix s :: "'b catalog_sys_scheme" and e assume "browsable shopID s e"
  then show "ListProducts cat shopID n '''' s e =
      (Inr (token_page (limit_or 20 n) pd_toProto (row_token e) (select_products (listed cat shopID) None (ct_db s))), s, e)"
    by (intro ListProducts_run) (auto simp: browsable_def decodeCursor_def)
next
  fix s :: "'b catalog_sys_scheme" and e r assume b: "browsable shopID s e" "r \<in> set (select_products (listed cat shopID) None (ct_db s))"
  then have "r \<in> set (products (ct_db s))" by (auto simp: select_products_def newest_products_def)
  then show "row_token e r \<noteq> ''''"
    using b(1) decode_encode_cursor(2) by (auto simp: row_token_def pd_key_def browsable_def codec_ok_def list_all_iff)
next
  fix s :: "'b catalog_sys_scheme" and e xs r ys
  assume b: "browsable shopID s e" and rows: "select_products (listed cat shopID) None (ct_db s) = xs @ r # ys"
  have "r \<in> set (select_products (listed cat shopID) None (ct_db s))" using rows by simp
  then have "r \<in> set (products (ct_db s))" by (auto simp: select_products_def newest_products_def)
  then have "decodeCursor (parse_time e) (row_token e r) = Inr (Some (pd_key r))" "uuid_ok e (pd_ID r)"
    using b decode_encode_cursor(1) by (auto simp: row_token_def pd_key_def browsable_def codec_ok_def list_all_iff)
  then show "ListProducts cat shopID n (row_token e r) s e = (Inr (token_page (limit_or 20 n) pd_toProto (row_token e) ys), s, e)"
    using ListProducts_run [of e shopID "row_token e r" "Some (pd_key r)" cat n s] select_rest [OF _ rows] b
    by (simp add: browsable_def pd_key_def)
qed

text \<open>C38: the public listing is complete.  A client that starts without a token and follows the tokens of ListProducts
  comes to the last page within a number of calls that covers the catalog, and what it has seen is every active product
  of the category and shop it asked for, once, newest first, products of the same instant included.\<close>

theorem listing_read_to_the_end:
  assumes "browsable shopID s e" "length (products (ct_db s)) \<le> calls * limit_or 20 n" "0 < calls"
  shows "walk_pages calls (ListProducts cat shopID n) '''' s e =
    (Inr (Some (map pd_toProto (newest_products (filter (listed cat shopID) (products (ct_db s)))))), s, e)"
proof -
  have "length (select_products (listed cat shopID) None (ct_db s)) \<le> calls * limit_or 20 n"
    using le_trans [OF length_filter_le assms(2), of "listed cat shopID"] by (simp add: select_products_def newest_products_def)
  from products.walk_all [OF assms(1) this assms(3)] show ?thesis by (simp add: select_products_def)
qed

definition tally_env :: "int \<Rightarrow> env" where
  "tally_env t = (env_at t)\<lparr>parse_time := (\<lambda>s. Some (int (length s))), fmt_time := (\<lambda>t. replicate (nat t) (CHR ''x''))\<rparr>"

definition plain_product :: "string \<Rightarrow> int \<Rightarrow> product_status \<Rightarrow> product" where
  "plain_product i t st = \<lparr>pd_ID = i, pd_Slug = i, pd_Title = i, pd_Description = '''', pd_CategoryID = ''c'',
     pd_ListPrice = \<lparr>pr_currency = ''USD'', pr_units = 9, pr_nanos = 0\<rparr>, pd_MediaKeys = [], pd_Status = st, pd_Attributes = [],
     pd_ShopID = '''', pd_CreatedBy = ''u'', pd_CreatedAt = t, pd_UpdatedAt = t\<rparr>"

definition shelf :: catalog_sys where
  "shelf = \<lparr>tuples = [], ct_db = \<lparr>products = [plain_product ''a'' 1 PActive, plain_product ''b'' 2 PActive, plain_product ''d'' 2 PDraft,
     plain_product ''e'' 2 PActive], ctox = empty_outbox\<rparr>\<rparr>"

lemma shelf_ids: "map pd_ID (newest_products (filter (listed ''c'' '''') (products (ct_db shelf)))) = [''e'', ''b'', ''a'']"
  by code_simp

theorem listing_read_to_the_end_witness:
  "\<exists>ms. walk_pages 4 (ListProducts ''c'' '''' 1) '''' shelf (tally_env 9) = (Inr (Some ms), shelf, tally_env 9) \<and>
     map pm_Id ms = [''e'', ''b'', ''a'']"
proof -
  have b: "browsable '''' shelf (tally_env 9)"
    by (simp add: browsable_def shelf_def codec_ok_def tally_env_def plain_product_def env_at_def)
  have n: "length (products (ct_db shelf)) \<le> 4 * limit_or 20 1" "0 < (4::nat)" by (simp_all add: shelf_def limit_or_def)
  have "pm_Id \<circ> pd_toProto = pd_ID" by (simp add: pd_toProto_def fun_eq_iff)
  with listing_read_to_the_end [OF b n, of "''c''"] shelf_ids show ?thesis by simp
qed

end
