(* ===== verification/SearchProps.thy ===== *)
theory SearchProps
  imports Search Relay CatalogProps
begin

section \<open>From the catalog to the search index\<close>

text \<open>
  The product table, its outbox, the relay, the topic and the indexer, as one machine: for a product with nothing on the
  way, the index has the product exactly when it is active, with the content of the table.  The contract of the document
  store is the locale \<open>search_index\<close>; a table of documents is the instance.
\<close>

subsection \<open>The document store\<close>

text \<open>What an event leaves under its product: the document at some time of indexing, or none.\<close>

definition indexed_as :: "product_changed \<Rightarrow> sdoc option \<Rightarrow> bool" where
  "indexed_as ev o' \<longleftrightarrow> (if pm_Status (pc_Product ev) = PActive then \<exists>t. o' = Some (doc_of (pc_Product ev) t) else o' = None)"

locale search_index =
  fixes api :: "'d os_api" and docs :: "'d \<Rightarrow> string \<rightharpoonup> sdoc"
  assumes put_law: "wp (os_PutDoc api i x) (\<lambda>r d' _. (docs d' = docs d \<or> docs d' = (docs d)(i \<mapsto> x)) \<and>
        (\<forall>st. r = Inr st \<longrightarrow> st < 300 \<longrightarrow> docs d' = (docs d)(i \<mapsto> x))) d e"
    and delete_law: "wp (os_DeleteDoc api i) (\<lambda>r d' _. (docs d' = docs d \<or> docs d' = (docs d)(i := None)) \<and>
        (\<forall>st. r = Inr st \<longrightarrow> st < 300 \<or> st = 404 \<longrightarrow> docs d' = (docs d)(i := None))) d e"
begin

lemma wp_upsert:
  assumes "pm_Id (pc_Product ev) = pc_ProductId ev"
  shows "wp (UpsertFromEvent api ev) (\<lambda>r d' _. (\<forall>i. i \<noteq> pc_ProductId ev \<longrightarrow> docs d' i = docs d i) \<and>
     (r = Inr () \<longrightarrow> indexed_as ev (docs d' (pc_ProductId ev)))) d e"
  unfolding UpsertFromEvent_def ix_Delete_def os_do_def
  by (auto simp: Let_def indexed_as_def assms intro!: wp_mono [OF put_law] wp_mono [OF delete_law] split: sum.splits) (metis fun_upd_same)+

end

record index_sys =
  ix_docs :: "(string \<times> sdoc) list"

definition opensearch :: "('x index_sys_scheme) os_api" where
  "opensearch = \<lparr>os_HeadIndex = ret 200, os_PutIndex = ret 200,
     os_PutDoc = (\<lambda>i x. exec_chk (\<lambda>_ d. Inr (200, d\<lparr>ix_docs := (i, x) # filter (\<lambda>p. fst p \<noteq> i) (ix_docs d)\<rparr>))),
     os_DeleteDoc = (\<lambda>i. exec_chk (\<lambda>_ d. Inr (if map_of (ix_docs d) i = None then 404 else 200,
        d\<lparr>ix_docs := filter (\<lambda>p. fst p \<noteq> i) (ix_docs d)\<rparr>))),
     os_Search = (\<lambda>q. query (\<lambda>_ d. (200, \<lparr>sr_Total = int (length (ix_docs d)),
        sr_Hits = map (\<lambda>p. \<lparr>h_Score = 1, h_Source = snd p\<rparr>) (take 10 (ix_docs d)), sr_Aggregations = []\<rparr>)))\<rparr>"

lemma map_of_without: "map_of (filter (\<lambda>p. fst p \<noteq> i) l) = (map_of l)(i := None)"
  by (induction l) (auto simp: fun_eq_iff)

interpretation opensearch: search_index opensearch "\<lambda>d. map_of (ix_docs d)"
proof unfold_locales
  fix i x and d :: "'x index_sys_scheme" and e
  show "wp (os_PutDoc opensearch i x) (\<lambda>r d' _. (map_of (ix_docs d') = map_of (ix_docs d) \<or> map_of (ix_docs d') = (map_of (ix_docs d))(i \<mapsto> x)) \<and>
        (\<forall>st. r = Inr st \<longrightarrow> st < 300 \<longrightarrow> map_of (ix_docs d') = (map_of (ix_docs d))(i \<mapsto> x))) d e"
    by (auto simp: opensearch_def map_of_without intro!: wp_exec_chkI)
  show "wp (os_DeleteDoc opensearch i) (\<lambda>r d' _. (map_of (ix_docs d') = map_of (ix_docs d) \<or> map_of (ix_docs d') = (map_of (ix_docs d))(i := None)) \<and>
        (\<forall>st. r = Inr st \<longrightarrow> st < 300 \<or> st = 404 \<longrightarrow> map_of (ix_docs d') = (map_of (ix_docs d))(i := None))) d e"
    by (auto simp: opensearch_def map_of_without intro!: wp_exec_chkI)
qed

subsection \<open>The pipeline\<close>

text \<open>The catalog's database, the records of the topic in the order of the broker, how far the indexer has come, and the
  documents.\<close>

record pipeline = index_sys +
  pl_catalog :: catalog_db
  pl_topic :: "product_changed wire_record list"
  pl_position :: nat

definition relay_view :: "pipeline \<Rightarrow> product_changed relay" where
  "relay_view s = \<lparr>rl_outbox = ctox (pl_catalog s), rl_log = pl_topic s\<rparr>"

definition relay_back :: "(product_changed relay \<Rightarrow> product_changed relay) \<Rightarrow> pipeline \<Rightarrow> pipeline" where
  "relay_back f s = (let r = f (relay_view s) in
     s\<lparr>pl_catalog := (pl_catalog s)\<lparr>ctox := rl_outbox r\<rparr>, pl_topic := rl_log r\<rparr>)"

datatype pipeline_op = CatalogChanged catalog_op | OutboxDrained nat "nat \<Rightarrow> bool" nat | RecordDelivered | IndexerRestarted nat

text \<open>A delivery hands the record at the position to the handler and moves on when it answers nil (an error of a document
  store that is down is held, Retryable); a restart goes back to an earlier offset.\<close>

definition deliver :: "(pipeline, unit) prog" where
  "deliver = bnd (\<lambda>s e. (Inr (pl_topic s, pl_position s), s, e)) (\<lambda>(topic, n).
     if n < length topic
     then bnd (ix_Handler opensearch (Some (snd (snd (topic ! n))))) (\<lambda>_ s e. (Inr (), s\<lparr>pl_position := Suc n\<rparr>, e))
     else ret ())"

fun pipeline_prog :: "unicode \<Rightarrow> pipeline_op \<Rightarrow> (pipeline, unit) prog" where
  "pipeline_prog u (CatalogChanged op) = zoom pl_catalog pl_catalog_update (catalog_prog u op)"
| "pipeline_prog u (OutboxDrained fuel cancelled b) = discard (zoom relay_view relay_back (drainUntilEmpty fuel cancelled b 0))"
| "pipeline_prog u RecordDelivered = deliver"
| "pipeline_prog u (IndexerRestarted n) = (\<lambda>s e. (Inr (), s\<lparr>pl_position := min n (pl_position s)\<rparr>, e))"

definition pipeline_step :: "unicode \<Rightarrow> pipeline_op \<Rightarrow> env \<Rightarrow> pipeline \<Rightarrow> pipeline" where
  "pipeline_step u op = after (pipeline_prog u op)"

definition empty_pipeline :: pipeline where
  "empty_pipeline = \<lparr>ix_docs = [], pl_catalog = empty_catalog_db, pl_topic = [], pl_position = 0\<rparr>"

subsection \<open>The invariant\<close>

text \<open>Every record is keyed by the product it carries.\<close>

definition keyed :: "product_changed wire_record \<Rightarrow> bool" where
  "keyed x \<longleftrightarrow> fst (snd x) = pc_ProductId (snd (snd x)) \<and> pm_Id (pc_Product (snd (snd x))) = pc_ProductId (snd (snd x))"

definition seen_as :: "product_changed option \<Rightarrow> sdoc option \<Rightarrow> bool" where
  "seen_as ev o' \<longleftrightarrow> (case ev of None \<Rightarrow> o' = None | Some ev \<Rightarrow> indexed_as ev o')"

definition outbox_ok :: "product_changed wire_record list \<Rightarrow> catalog_db \<Rightarrow> bool" where
  "outbox_ok l d \<longleftrightarrow> relay_inv \<lparr>rl_outbox = ctox d, rl_log = l\<rparr> \<and> (\<forall>r\<in>set (ob_rows (ctox d)). keyed (row_record r))"

definition pipeline_inv :: "pipeline \<Rightarrow> bool" where
  "pipeline_inv s \<longleftrightarrow> catalog_inv (pl_catalog s) \<and> outbox_ok (pl_topic s) (pl_catalog s) \<and> pl_position s \<le> length (pl_topic s) \<and>
     (\<forall>i. i \<notin> record_keys (drop (pl_position s) (pl_topic s)) \<longrightarrow> seen_as (last_of i (pl_topic s)) (map_of (ix_docs s) i))"

lemma replay_last:
  "\<forall>x\<in>set l. keyed x \<Longrightarrow> replay (map (\<lambda>x. snd (snd x)) l) i = map_option pc_Product (last_of i l)"
proof (induction l rule: rev_induct)
  case (snoc x l)
  then show ?case by (auto simp: last_of_append keyed_def) (simp_all add: last_of_def)
qed (simp add: replay_def)

lemma outbox_ok_announce:
  "outbox_ok l d \<Longrightarrow> ctox d' = ctox d \<Longrightarrow> outbox_ok l (announce change p t d')"
  using relay_inv_write [of "\<lparr>rl_outbox = ctox d, rl_log = l\<rparr>"]
  by (auto simp: outbox_ok_def announce_def outbox_add_def keyed_def row_record_def store_toProto_def)

lemma wp_catalog_outbox:
  assumes ok: "outbox_ok l d"
  shows "wp (catalog_prog u op) (\<lambda>_ d' _. outbox_ok l d') d e"
proof -
  have ins: "outbox_ok l (announce change r t' d')" if "insert_product p i t d = Inr (r, d')" for p i t r d' t' change
    using outbox_ok_announce [OF ok] product_table_insert [OF that] by simp
  have upd: "outbox_ok l (announce change r t' (put_product i f t d))" for change r t' i f t
    by (rule outbox_ok_announce [OF ok]) (simp add: put_product_def)
  have create: "wp (ct_Create p) (\<lambda>_ d' _. outbox_ok l d') d e" for p e
    unfolding ct_Create_def scanProduct_def
    by (rule wp_writeTxI [where I = "outbox_ok l", OF ok]) (auto intro!: wp_uuid_paramsI wp_exec_chkI ins split: sum.splits)
  have update: "wp (writeTx change (update_product i f)) (\<lambda>_ d' _. outbox_ok l d') d e" for change i f e
    unfolding update_product_def scanProduct_def
    by (rule wp_writeTxI [where I = "outbox_ok l", OF ok])
       (auto intro!: wp_uuid_paramsI wp_exec_chkI upd split: sum.splits option.splits)
  show ?thesis by (cases op) (auto simp: ct_Update_def ct_Archive_def ok intro!: create update split: sum.splits)
qed

lemma catalog_inv_records:
  assumes "catalog_inv d" "map row_record (ob_rows ob) = map row_record (ob_rows (ctox d))"
  shows "catalog_inv (d\<lparr>ctox := ob\<rparr>)"
proof -
  have "events ob = map (\<lambda>x. snd (snd x)) (map row_record (ob_rows ob))" for ob :: "product_changed outbox"
    by (simp add: events_def row_record_def)
  then have "events ob = events (ctox d)" using assms(2) by metis
  then show ?thesis using assms(1) by (simp add: catalog_inv_def)
qed

lemma drop_position:
  assumes "n < length l"
  shows "record_keys (drop n l) = insert (fst (snd (l ! n))) (record_keys (drop (Suc n) l))"
    "k \<notin> record_keys (drop (Suc n) l) \<Longrightarrow> last_of k l = (if k = fst (snd (l ! n)) then Some (snd (snd (l ! n))) else last_of k (take n l))"
proof -
  show "record_keys (drop n l) = insert (fst (snd (l ! n))) (record_keys (drop (Suc n) l))"
    by (simp add: Cons_nth_drop_Suc [OF assms, symmetric])
  assume k: "k \<notin> record_keys (drop (Suc n) l)"
  have "l = (take n l @ [l ! n]) @ drop (Suc n) l" using id_take_nth_drop [OF assms] by simp
  then have "last_of k l = last_of k ((take n l @ [l ! n]) @ drop (Suc n) l)" by simp
  also have "\<dots> = (if k = fst (snd (l ! n)) then Some (snd (snd (l ! n))) else last_of k (take n l))"
    unfolding last_of_append record_keys_simps using k by (simp add: last_of_def)
  finally show "last_of k l = (if k = fst (snd (l ! n)) then Some (snd (snd (l ! n))) else last_of k (take n l))" .
qed

lemma wp_upsert_frame:
  "wp (UpsertFromEvent opensearch ev) (\<lambda>_ s' _. pl_catalog s' = pl_catalog s \<and> pl_topic s' = pl_topic s \<and> pl_position s' = pl_position s) (s :: pipeline) e"
  unfolding UpsertFromEvent_def ix_Delete_def os_do_def opensearch_def
  by (auto simp: Let_def intro!: wp_exec_chkI split: sum.splits)

lemma wp_deliver_inv:
  assumes inv: "pipeline_inv s"
  shows "wp deliver (\<lambda>_ s' _. pipeline_inv s') s e"
proof (cases "pl_position s < length (pl_topic s)")
  case False
  then show ?thesis using inv by (simp add: deliver_def wp_def bnd_def ret_def)
next
  case True
  let ?x = "pl_topic s ! pl_position s"
  let ?ev = "snd (snd ?x)"
  have "?x \<in> set (pl_topic s)" using True by simp
  then have "keyed ?x" using inv by (auto simp: pipeline_inv_def outbox_ok_def relay_inv_def)
  then have id: "pm_Id (pc_Product ?ev) = pc_ProductId ?ev" "fst (snd ?x) = pc_ProductId ?ev" by (simp_all add: keyed_def)
  note keys = drop_position [OF True]
  have up: "wp (UpsertFromEvent opensearch ?ev) (\<lambda>r s' _. pl_catalog s' = pl_catalog s \<and> pl_topic s' = pl_topic s \<and>
      pl_position s' = pl_position s \<and> (\<forall>i. i \<noteq> pc_ProductId ?ev \<longrightarrow> map_of (ix_docs s') i = map_of (ix_docs s) i) \<and>
      (r = Inr () \<longrightarrow> indexed_as ?ev (map_of (ix_docs s') (pc_ProductId ?ev)))) s e"
    by (rule wp_mono [OF wp_conj [OF wp_upsert_frame opensearch.wp_upsert [OF id(1)]]]) simp
  have held: "pipeline_inv s'" if "pl_catalog s' = pl_catalog s" "pl_topic s' = pl_topic s" "pl_position s' = pl_position s"
      "\<And>i. i \<noteq> pc_ProductId ?ev \<Longrightarrow> map_of (ix_docs s') i = map_of (ix_docs s) i" for s'
    using that inv keys(1) id(2) by (auto simp: pipeline_inv_def)
  have moved: "pipeline_inv (s'\<lparr>pl_position := Suc (pl_position s)\<rparr>)"
    if s': "pl_catalog s' = pl_catalog s" "pl_topic s' = pl_topic s" "pl_position s' = pl_position s"
      "\<And>i. i \<noteq> pc_ProductId ?ev \<Longrightarrow> map_of (ix_docs s') i = map_of (ix_docs s) i" "indexed_as ?ev (map_of (ix_docs s') (pc_ProductId ?ev))" for s'
  proof -
    have "seen_as (last_of i (pl_topic s)) (map_of (ix_docs s') i)" if "i \<notin> record_keys (drop (Suc (pl_position s)) (pl_topic s))" for i
    proof (cases "i = pc_ProductId ?ev")
      case True then show ?thesis using keys(2) [OF that] id(2) s'(5) by (simp add: seen_as_def)
    next
      case False then show ?thesis using that keys(1) id(2) s'(4) inv by (simp add: pipeline_inv_def)
    qed
    then show ?thesis using inv True s'(1-3) by (simp add: pipeline_inv_def)
  qed
  have "wp (UpsertFromEvent opensearch ?ev) (\<lambda>r s' e'. case r of Inl x \<Rightarrow> pipeline_inv s'
      | Inr a \<Rightarrow> pipeline_inv (s'\<lparr>pl_position := Suc (pl_position s)\<rparr>)) s e"
    by (rule wp_mono [OF up]) (use held moved in \<open>auto split: sum.splits\<close>)
  then show ?thesis
    using True by (auto simp: deliver_def ix_Handler_def wp_def bnd_def split: prod.splits sum.splits)
qed

lemma wp_pipeline_inv:
  assumes inv: "pipeline_inv s"
  shows "wp (pipeline_prog u op) (\<lambda>_ s' _. pipeline_inv s') s e"
proof (cases op)
  case (CatalogChanged c)
  have "wp (catalog_prog u c) (\<lambda>_ d' _. catalog_inv d' \<and> outbox_ok (pl_topic s) d') (pl_catalog s) e"
    by (rule wp_conj [OF catalog_prog_inv wp_catalog_outbox]) (use inv in \<open>simp_all add: pipeline_inv_def\<close>)
  then show ?thesis
    unfolding CatalogChanged pipeline_prog.simps wp_zoom
    by (rule wp_mono) (use inv in \<open>auto simp: pipeline_inv_def\<close>)
next
  case (OutboxDrained fuel cancelled b)
  have r: "relay_inv (relay_view s)" using inv by (simp add: pipeline_inv_def outbox_ok_def relay_view_def)
  have rejoin: "pipeline_inv (relay_back (\<lambda>_. r) s)" if k: "relay_keeps (relay_view s) r" for r
  proof -
    obtain more where m: "rl_log r = pl_topic s @ more" using k by (auto simp: relay_keeps_def relay_view_def prefix_def)
    have rec: "map row_record (ob_rows (rl_outbox r)) = map row_record (ob_rows (ctox (pl_catalog s)))"
      using k by (simp add: relay_keeps_def relay_view_def)
    have "row_record ` set (ob_rows (rl_outbox r)) = row_record ` set (ob_rows (ctox (pl_catalog s)))" using arg_cong [OF rec, of set] by simp
    then have "\<forall>x\<in>set (ob_rows (rl_outbox r)). keyed (row_record x)"
      using inv unfolding pipeline_inv_def outbox_ok_def by (metis (no_types, lifting) image_iff)
    moreover have "catalog_inv ((pl_catalog s)\<lparr>ctox := rl_outbox r\<rparr>)"
      using inv rec by (intro catalog_inv_records) (simp_all add: pipeline_inv_def)
    moreover have "\<lparr>rl_outbox = rl_outbox r, rl_log = pl_topic s @ more\<rparr> = r" using m by (cases r) simp
    then have "relay_inv \<lparr>rl_outbox = rl_outbox r, rl_log = pl_topic s @ more\<rparr>" using k by (simp add: relay_keeps_def)
    ultimately show ?thesis
      using inv m by (auto simp: pipeline_inv_def outbox_ok_def relay_back_def Let_def last_of_append)
  qed
  have "wp (drainUntilEmpty fuel cancelled b 0) (\<lambda>_ r _. pipeline_inv (relay_back (\<lambda>_. r) s)) (relay_view s) e"
    by (rule wp_mono [OF wp_drainUntilEmpty [OF r]]) (rule rejoin)
  then show ?thesis unfolding OutboxDrained by (simp add: wp_mono)
next
  case RecordDelivered
  then show ?thesis using wp_deliver_inv [OF inv] by simp
next
  case (IndexerRestarted n)
  have "record_keys (drop (pl_position s) l) \<subseteq> record_keys (drop (min n (pl_position s)) l)" for l :: "product_changed wire_record list"
    unfolding record_keys_def by (intro image_mono set_drop_subset_set_drop) simp
  then show ?thesis
    using inv unfolding IndexerRestarted by (auto simp: wp_def pipeline_inv_def)
qed

interpretation pipeline_machine: inv_machine "pipeline_step u" empty_pipeline pipeline_inv for u
proof unfold_locales
  show "pipeline_inv empty_pipeline"
    using catalog_machine.inv_start relay_inv_empty
    by (simp add: pipeline_inv_def empty_pipeline_def outbox_ok_def empty_catalog_db_def empty_relay_def seen_as_def) (simp add: empty_outbox_def)
  show "pipeline_inv s \<Longrightarrow> pipeline_inv (pipeline_step u op e s)" for s op e
    unfolding pipeline_step_def by (rule after_wp [OF wp_pipeline_inv])
qed

lemma doc_facts: "(doc_of p t)\<lparr>sd_IndexedAt := 0\<rparr> = doc_of p 0" "pm_Status (store_toProto q) = pd_Status q"
  by (simp_all add: doc_of_def store_toProto_def)


definition never :: "nat \<Rightarrow> bool" where
  "never k \<longleftrightarrow> False"

definition bowl_indexed :: pipeline where
  "bowl_indexed = run_ops (pipeline_step ascii_tables)
     [(CatalogChanged (ProductAdded bowl), env_at 1), (CatalogChanged (ProductSaved (plain_product ''id'' 1 PActive)), env_at 2),
      (OutboxDrained 5 never 1, (env_at 3)\<lparr>faults := [Fine, Fine, Lost]\<rparr>), (OutboxDrained 5 never 1, env_at 4),
      (RecordDelivered, env_at 5), (RecordDelivered, (env_at 6)\<lparr>faults := [AckLost]\<rparr>), (RecordDelivered, env_at 7),
      (RecordDelivered, env_at 8), (IndexerRestarted 1, env_at 9), (RecordDelivered, env_at 10), (RecordDelivered, env_at 11)] empty_pipeline"

lemma bowl_indexed_facts: "unpublished (ctox (pl_catalog bowl_indexed)) = []" "pl_position bowl_indexed = 3" "length (pl_topic bowl_indexed) = 3"
    "map_option (\<lambda>p. (pd_Title p, pd_Status p)) (find_product pd_ID ''id'' (pl_catalog bowl_indexed)) = Some (''id'', PActive)"
  by code_simp+


subsection \<open>An offset past the window\<close>

text \<open>The sum of the offset and the page size is an \<open>int\<close> of 64 bits: the largest offset a token can carry makes it negative,
  and the request goes to OpenSearch.\<close>

lemma Atoi_FormatInt: "0 \<le> n \<Longrightarrow> in_i64 n \<Longrightarrow> Atoi (FormatInt n) = Some n"
proof -
  assume n: "0 \<le> n" "in_i64 n"
  have f: "FormatInt n = nat_str (nat n)" using n(1) by (simp add: FormatInt_def)
  have c: "48 \<le> (of_char c :: nat) \<and> (of_char c :: nat) \<le> 57" if "c \<in> set (nat_str (nat n))" for c using nat_str_chars [OF that] .
  have "hd (nat_str (nat n)) \<in> set (nat_str (nat n))" by simp
  from c [OF this] have "hd (nat_str (nat n)) \<noteq> CHR ''-''" "hd (nat_str (nat n)) \<noteq> CHR ''+''" by auto
  then show ?thesis using n c by (simp add: Atoi_def f nat_val_nat_str list_all_iff)
qed

lemma decode_encode_offset: "0 \<le> n \<Longrightarrow> in_i64 n \<Longrightarrow> decodeOffset (encodeOffset n) = Inr n"
proof -
  assume n: "0 \<le> n" "in_i64 n"
  have "FormatInt n \<noteq> ''''" using n(1) by (simp add: FormatInt_def)
  then have "EncodeToString (FormatInt n) \<noteq> ''''" using to_bits_8_ne by (cases "FormatInt n") auto
  then show ?thesis using n by (simp add: decodeOffset_def encodeOffset_def DecodeString_EncodeToString Atoi_FormatInt)
qed

definition far_request :: search_req where
  "far_request = \<lparr>sq_Query = '''', sq_CategoryId = '''', sq_Attributes = [], sq_MinPriceUnits = 0, sq_MaxPriceUnits = 0,
     sq_Sort = SortRelevance, sq_PageSize = 20, sq_PageToken = encodeOffset 9223372036854775807\<rparr>"

theorem far_offset_accepted:
  "decodeOffset (sq_PageToken far_request) = Inr 9223372036854775807 \<and>
   fst (search_Search opensearch far_request \<lparr>ix_docs = []\<rparr> (env_at 1)) =
     Inr \<lparr>sa_Hits = [], sa_Facets = [], sa_NextPageToken = encodeOffset (- 9223372036854775789), sa_TotalSize = 0\<rparr>"
proof -
  have d: "decodeOffset (encodeOffset 9223372036854775807) = Inr 9223372036854775807"
    by (rule decode_encode_offset) (simp_all add: in_i64_def)
  have i: "i64 (9223372036854775807 + 20) = - 9223372036854775789" by (simp add: i64_def)
  show ?thesis
    using d i by (simp add: far_request_def search_Search_def RawSearch_def os_do_def opensearch_def query_def stmt_nofault env_at_def
        maxPageSize_def defaultPageSize_def maxOffset_def extractFacets_def bnd_def lift_res_def map_err_def ret_def)
qed

end
