(* ===== verification/Review.thy ===== *)
theory Review
  imports OrderStore Texts Auth StoreKit Complex_Main
begin

section \<open>The review service (services/review)\<close>

text \<open>
  Reviews of products by those who bought them: the aggregate and its rules (internal/domain/review.go), the store with
  the index of purchases (internal/store), the handlers (internal/grpcsvc) and the consumer of order confirmations
  (internal/consumer).
\<close>

subsection \<open>The aggregate\<close>

datatype review_status = RvPublished | RvHidden

record review =
  rv_ID :: string
  rv_ProductID :: string
  rv_AuthorID :: string
  rv_AuthorName :: string
  rv_Rating :: int32
  rv_Title :: string
  rv_Body :: string
  rv_Status :: review_status
  rv_VerifiedPurchase :: bool
  rv_CreatedAt :: int
  rv_UpdatedAt :: int

definition MinRating :: int where "MinRating = 1"
definition MaxRating :: int where "MaxRating = 5"
definition MaxTitleRunes :: nat where "MaxTitleRunes = 120"
definition MaxBodyRunes :: nat where "MaxBodyRunes = 4000"

definition product_id_required :: go_err where
  "product_id_required = errs_New KindInvalidArgument ''PRODUCT_ID_REQUIRED''"

definition NewReview :: "string \<Rightarrow> string \<Rightarrow> string \<Rightarrow> int32 \<Rightarrow> string \<Rightarrow> string \<Rightarrow> review res" where
  "NewReview productID authorID authorName rating title0 body0 =
     (if productID = '''' then Inl product_id_required
      else if rating < MinRating \<or> rating > MaxRating then Inl (errs_New KindInvalidArgument ''BAD_RATING'')
      else let title = truncate_runes (TrimSpace title0) MaxTitleRunes; body = truncate_runes (TrimSpace body0) MaxBodyRunes in
      if body = '''' then Inl (errs_New KindInvalidArgument ''BODY_REQUIRED'')
      else let name = TrimSpace authorName in
      Inr \<lparr>rv_ID = '''', rv_ProductID = productID, rv_AuthorID = authorID,
           rv_AuthorName = (if name = '''' then ''Customer'' else name), rv_Rating = rating, rv_Title = title, rv_Body = body,
           rv_Status = RvPublished, rv_VerifiedPurchase = True, rv_CreatedAt = 0, rv_UpdatedAt = 0\<rparr>)"

text \<open>The average is the exact quotient that the code rounds to a \<open>float64\<close>.\<close>

record rating_summary =
  rs_ProductID :: string
  rs_Average :: rat
  rs_Count :: int32
  rs_Histogram :: "int32 list"

subsection \<open>Store\<close>

datatype review_event =
    ReviewPublished string string string int32 int
  | ReviewHidden string string int

record review_db =
  purchases :: "(string \<times> string) list"
  reviews :: "review list"
  rv_processed :: "string list"
  rvox :: "review_event outbox"

definition empty_review_db :: review_db where
  "empty_review_db = \<lparr>purchases = [], reviews = [], rv_processed = [], rvox = empty_outbox\<rparr>"

definition add_purchase :: "string \<times> string \<Rightarrow> review_db \<Rightarrow> review_db" where
  "add_purchase k d = (if k \<in> set (purchases d) then d else d\<lparr>purchases := purchases d @ [k]\<rparr>)"

definition record_purchase :: "string \<Rightarrow> string \<Rightarrow> (review_db, unit) prog" where
  "record_purchase ownerID pid =
     (if pid = '''' then ret () else map_err wrap (exec (\<lambda>_. add_purchase (ownerID, pid))))"

definition RecordPurchases :: "string \<Rightarrow> string list \<Rightarrow> string \<Rightarrow> (review_db, unit) prog" where
  "RecordPurchases ownerID productIDs eventID =
     (if ownerID = '''' \<or> productIDs = [] then ret ()
      else dedup_tx (ins_event rv_processed rv_processed_update) () eventID
             (bnd (foreach (record_purchase ownerID) productIDs) (\<lambda>_. ret (Commit ()))))"

definition HasPurchased :: "string \<Rightarrow> string \<Rightarrow> (review_db, bool) prog" where
  "HasPurchased ownerID productID = map_err wrap (query (\<lambda>_ d. (ownerID, productID) \<in> set (purchases d)))"

definition review_not_found :: go_err where
  "review_not_found = errs_New KindNotFound ''REVIEW_NOT_FOUND''"

text \<open>\<open>errors.As\<close> finds a \<open>*pgconn.PgError\<close> in the chain of causes.\<close>

fun isUniqueViolation :: "go_err \<Rightarrow> bool" where
  "isUniqueViolation (PgError c) = (c = ''23505'')"
| "isUniqueViolation (DomErr k r (Some c)) = isUniqueViolation c"
| "isUniqueViolation _ = False"

definition rv_scanOne :: "(review_db, review) prog \<Rightarrow> (review_db, review) prog" where
  "rv_scanOne p = or_not_found review_not_found p"

definition rv_emit :: "string \<Rightarrow> string \<Rightarrow> (int \<Rightarrow> review_event) \<Rightarrow> (review_db, unit) prog" where
  "rv_emit topic key ev = map_err wrap (exec (\<lambda>t d. d\<lparr>rvox := outbox_add topic key (ev t) t (rvox d)\<rparr>))"

definition emitPublished :: "review \<Rightarrow> (review_db, unit) prog" where
  "emitPublished r = rv_emit ''commerce.review.published'' (rv_ProductID r)
     (ReviewPublished (rv_ID r) (rv_ProductID r) (rv_AuthorID r) (rv_Rating r))"

definition rv_key :: "review \<Rightarrow> string \<times> string" where
  "rv_key r = (rv_ProductID r, rv_AuthorID r)"

definition insert_review :: "review \<Rightarrow> string \<Rightarrow> int \<Rightarrow> review_db \<Rightarrow> go_err + (review \<times> review_db)" where
  "insert_review r i t d =
     (if rv_key r \<in> rv_key ` set (reviews d) \<or> i \<in> rv_ID ` set (reviews d) then Inl uniqueViolation
      else let out = r\<lparr>rv_ID := i, rv_CreatedAt := t, rv_UpdatedAt := t\<rparr> in Inr (out, d\<lparr>reviews := reviews d @ [out]\<rparr>))"

definition rv_Create :: "review \<Rightarrow> (review_db, review) prog" where
  "rv_Create r = in_tx (
     bnd (map_err (\<lambda>err. if isUniqueViolation err then errs_New KindAlreadyExists ''ALREADY_REVIEWED'' else err)
            (rv_scanOne (bnd new_uuid (\<lambda>i. exec_chk (insert_review r i))))) (\<lambda>out.
     bnd (emitPublished out) (\<lambda>_.
     ret (Commit out))))"

definition select_reviews :: "string \<Rightarrow> int \<Rightarrow> review_db \<Rightarrow> review list" where
  "select_reviews productID cursor d = newest_first rv_CreatedAt
     (filter (\<lambda>r. rv_ProductID r = productID \<and> rv_Status r = RvPublished \<and> rv_CreatedAt r < cursor) (reviews d))"

definition ListPublished :: "string \<Rightarrow> int \<Rightarrow> string \<Rightarrow> (review_db, review list \<times> string) prog" where
  "ListPublished productID limit0 before =
     (let limit = limit_or 20 limit0 in
      bnd (asks (\<lambda>e. cursor_of e before)) (\<lambda>cursor.
      bnd (map_err wrap (query (\<lambda>_ d. take (Suc limit) (select_reviews productID cursor d)))) (\<lambda>out.
      bnd (asks fmt_time) (\<lambda>fmt.
      ret (page_of limit rv_CreatedAt fmt out)))))"

text \<open>\<open>SELECT rating, count(*) ... GROUP BY rating\<close>, and the loop over its rows.  A count that does not fit an
  \<open>int32\<close> makes the scan fail.\<close>

definition published_ratings :: "string \<Rightarrow> review_db \<Rightarrow> int32 list" where
  "published_ratings productID d = map rv_Rating (filter (\<lambda>r. rv_ProductID r = productID \<and> rv_Status r = RvPublished) (reviews d))"

definition rating_groups :: "int32 list \<Rightarrow> (int32 \<times> int) list" where
  "rating_groups rs = map (\<lambda>k. (k, int (length (filter (\<lambda>x. x = k) rs)))) (remdups rs)"

definition tally :: "int32 \<times> int \<Rightarrow> int32 list \<times> int64 \<times> int64 \<Rightarrow> int32 list \<times> int64 \<times> int64" where
  "tally g s = (case (g, s) of ((rating, n), (hist, cnt, weighted)) \<Rightarrow>
     (if 1 \<le> rating \<and> rating \<le> 5 then hist[nat (rating - 1) := n] else hist, i64 (cnt + n), i64 (weighted + i64 (rating * n))))"

definition Summary :: "string \<Rightarrow> (review_db, rating_summary) prog" where
  "Summary productID =
     bnd (map_err wrap (query (\<lambda>_ d. rating_groups (published_ratings productID d)))) (\<lambda>rows.
     if \<not> list_all (\<lambda>g. in_i32 (snd g)) rows then fail (wrap (PlainErr ''out of range''))
     else case fold tally rows (replicate 5 0, 0, 0) of (hist, cnt, weighted) \<Rightarrow>
       ret \<lparr>rs_ProductID = productID, rs_Average = (if cnt > 0 then of_int weighted / of_int cnt else 0),
            rs_Count = i32 cnt, rs_Histogram = hist\<rparr>)"

definition find_review :: "string \<Rightarrow> review_db \<Rightarrow> review option" where
  "find_review i d = List.find (\<lambda>r. rv_ID r = i) (reviews d)"

definition set_status :: "string \<Rightarrow> review_status \<Rightarrow> int \<Rightarrow> review_db \<Rightarrow> review_db" where
  "set_status i st t d = d\<lparr>reviews := upd_rows (\<lambda>r. rv_ID r = i) (\<lambda>r. r\<lparr>rv_Status := st, rv_UpdatedAt := t\<rparr>) (reviews d)\<rparr>"

definition Moderate :: "string \<Rightarrow> review_status \<Rightarrow> (review_db, review) prog" where
  "Moderate i st = in_tx (
     bnd (rv_scanOne (by_uuid i (find_review i))) (\<lambda>cur.
     if rv_Status cur = st then ret (Abort cur)
     else bnd (rv_scanOne (exec_chk (\<lambda>t d. case find_review i (set_status i st t d) of
                 None \<Rightarrow> Inl NoRows | Some r \<Rightarrow> Inr (r, set_status i st t d)))) (\<lambda>out.
          bnd (case st of
                 RvPublished \<Rightarrow> emitPublished out
               | RvHidden \<Rightarrow> rv_emit ''commerce.review.hidden'' (rv_ProductID out) (ReviewHidden (rv_ID out) (rv_ProductID out))) (\<lambda>_.
          ret (Commit out)))))"

subsection \<open>Handlers\<close>

text \<open>The name of a reviewer: the \<open>name\<close> claim of the token (empty when it has none), the local part of the address,
  or a default.\<close>

definition displayName :: "string \<Rightarrow> principal \<Rightarrow> string" where
  "displayName claim p =
     (if TrimSpace claim \<noteq> '''' then claim
      else if Email p \<noteq> '''' then
        (let local = takeWhile (\<lambda>c. c \<noteq> CHR ''@'') (Email p) in
         if CHR ''@'' \<in> set (Email p) \<and> local \<noteq> '''' then local else Email p)
      else ''Customer'')"

definition CreateReview :: "caller \<Rightarrow> string \<Rightarrow> string \<Rightarrow> int32 \<Rightarrow> string \<Rightarrow> string \<Rightarrow> (review_db, review) prog" where
  "CreateReview c claim productID rating title body = (case c of
       None \<Rightarrow> fail not_authenticated
     | Some p \<Rightarrow>
         bnd (HasPurchased (Subject p) productID) (\<lambda>bought.
         if \<not> bought then fail (errs_New KindFailedPrecondition ''NOT_PURCHASED'')
         else bnd (lift_res (NewReview productID (Subject p) (displayName claim p) rating title body)) (\<lambda>r.
              rv_Create r)))"

definition ListReviews :: "string \<Rightarrow> int \<Rightarrow> string \<Rightarrow> (review_db, review list \<times> string) prog" where
  "ListReviews productID pageSize token =
     (if productID = '''' then fail product_id_required else ListPublished productID pageSize token)"

definition GetRatingSummary :: "string \<Rightarrow> (review_db, rating_summary) prog" where
  "GetRatingSummary productID = (if productID = '''' then fail product_id_required else Summary productID)"

definition ModerateReview :: "caller \<Rightarrow> string \<Rightarrow> review_status option \<Rightarrow> (review_db, review) prog" where
  "ModerateReview c i st =
     bnd (lift_res (RequireRole c ''catalog_manager'')) (\<lambda>_. case st of
       None \<Rightarrow> fail (errs_New KindInvalidArgument ''BAD_STATUS'')
     | Some to \<Rightarrow> Moderate i to)"

subsection \<open>The consumer\<close>

definition rv_Handler :: "order_event option krecord \<Rightarrow> (review_db, unit) prog" where
  "rv_Handler r =
     (if kr_topic r \<noteq> ''commerce.order.confirmed'' then ret ()
      else case kr_value r of
        Some (OrderConfirmed oid owner pid shipTo ls t) \<Rightarrow> RecordPurchases owner (map m_product_id ls) (event_id r)
      | _ \<Rightarrow> ret ())"

end
