(* ===== verification/ReviewProps.thy ===== *)
theory ReviewProps
  imports Review Streams
begin

section \<open>Properties of reviews\<close>

text \<open>
  Every review is by someone whose confirmed order holds the product, there is one per product and author, and the outbox
  tells its walk between published and hidden; the consumer keeps the contract of the loop; a rating summary is that
  of the published reviews.
\<close>

subsection \<open>The invariant\<close>

inductive review_allowed :: "review_status \<Rightarrow> review_status \<Rightarrow> bool" where
  "review_allowed RvPublished RvHidden"
| "review_allowed RvHidden RvPublished"

inductive_simps review_allowed_simps [simp]: "review_allowed s t"

fun review_event_status :: "review_event \<Rightarrow> string \<times> review_status" where
  "review_event_status (ReviewPublished i _ _ _ _) = (i, RvPublished)"
| "review_event_status (ReviewHidden i _ _) = (i, RvHidden)"

definition review_log :: "review_db \<Rightarrow> (string \<times> review_status) list" where
  "review_log d = map review_event_status (events (rvox d))"

definition review_standing :: "review_db \<Rightarrow> (string \<times> review_status) list" where
  "review_standing d = map (\<lambda>r. (rv_ID r, rv_Status r)) (reviews d)"

definition review_ok :: "review_db \<Rightarrow> review \<Rightarrow> bool" where
  "review_ok d r \<longleftrightarrow> (rv_AuthorID r, rv_ProductID r) \<in> set (purchases d) \<and> MinRating \<le> rv_Rating r \<and> rv_Rating r \<le> MaxRating \<and>
     rv_Body r \<noteq> '''' \<and> rune_count (rv_Body r) \<le> MaxBodyRunes \<and> rune_count (rv_Title r) \<le> MaxTitleRunes \<and> rv_AuthorName r \<noteq> ''''"

text \<open>\<open>H\<close>: the pairs of owner and product that confirmations have named.\<close>

definition review_inv :: "(string \<times> string) set \<Rightarrow> review_db \<Rightarrow> bool" where
  "review_inv H d \<longleftrightarrow> set (purchases d) \<subseteq> H \<and> log_ok review_allowed RvPublished (review_log d) (review_standing d) \<and>
     distinct (map rv_key (reviews d)) \<and> (\<forall>r\<in>set (reviews d). review_ok d r)"

lemma review_standing_ids [simp]: "fst ` set (review_standing d) = rv_ID ` set (reviews d)"
  by (force simp: review_standing_def)

lemma NewReview_ok:
  "NewReview pid aid n rt tt b = Inr r \<Longrightarrow> (aid, pid) \<in> set (purchases d) \<Longrightarrow> review_ok d r \<and> rv_Status r = RvPublished"
  by (auto simp: NewReview_def Let_def review_ok_def MaxTitleRunes_def MaxBodyRunes_def split: if_splits)

lemma review_inv_note [simp]: "review_inv H (note_event rv_processed_update ev d) = review_inv H d"
  by (simp add: review_inv_def note_event_def review_log_def review_standing_def review_ok_def)

lemma review_inv_purchase: "review_inv H d \<Longrightarrow> k \<in> H \<Longrightarrow> review_inv H (add_purchase k d)"
  by (auto simp: review_inv_def add_purchase_def review_log_def review_standing_def review_ok_def)

lemma review_inv_insert:
  assumes inv: "review_inv H d" and new: "insert_review r i t d = Inr (out, d1)" and ok: "review_ok d r" "rv_Status r = RvPublished"
  shows "review_inv H (d1\<lparr>rvox := outbox_add topic key (ReviewPublished (rv_ID out) pid aid rt t) t (rvox d1)\<rparr>)"
proof -
  have out: "out = r\<lparr>rv_ID := i, rv_CreatedAt := t, rv_UpdatedAt := t\<rparr>" "d1 = d\<lparr>reviews := reviews d @ [out]\<rparr>"
    and fresh: "rv_key r \<notin> rv_key ` set (reviews d)" "i \<notin> rv_ID ` set (reviews d)"
    using new by (auto simp: insert_review_def Let_def split: if_splits)
  have "log_ok review_allowed RvPublished (review_log d @ [(i, RvPublished)]) (review_standing d @ [(i, RvPublished)])"
    using inv fresh(2) by (intro log_ok_insert) (simp_all add: review_inv_def)
  moreover have "rv_key out = rv_key r" "review_ok d out" using ok out(1) by (simp_all add: rv_key_def review_ok_def)
  ultimately show ?thesis
    using inv fresh(1) out ok(2) by (auto simp: review_inv_def review_log_def review_standing_def review_ok_def)
qed

lemma find_review_in: "find_review i d = Some r \<Longrightarrow> rv_ID r = i \<and> r \<in> set (reviews d)"
  by (auto simp: find_review_def dest: find_in_set)

lemma review_inv_move:
  assumes inv: "review_inv H d" and r: "find_review i d = Some r" "rv_Status r \<noteq> st" and ev: "review_event_status ev = (i, st)"
  shows "review_inv H ((set_status i st t d)\<lparr>rvox := outbox_add topic key ev t (rvox d)\<rparr>)"
proof -
  have r': "r \<in> set (reviews d)" "rv_ID r = i" using find_review_in [OF r(1)] by simp_all
  have al: "review_allowed (rv_Status r) st" using r(2) by (cases st; cases "rv_Status r") simp_all
  have "review_standing (set_status i st t d) = upd_rows (\<lambda>x. fst x = i) (\<lambda>_. (i, st)) (review_standing d)"
    by (simp add: set_status_def review_standing_def upd_rows_def comp_def if_distrib cong: if_cong)
  moreover have "log_ok review_allowed RvPublished (review_log d @ [(i, st)]) (upd_rows (\<lambda>x. fst x = i) (\<lambda>_. (i, st)) (review_standing d))"
  proof (rule log_ok_move)
    show "log_ok review_allowed RvPublished (review_log d) (review_standing d)" using inv by (simp add: review_inv_def)
    show "(i, rv_Status r) \<in> set (review_standing d)" using r' by (force simp: review_standing_def)
  qed (rule al)
  moreover have "map rv_key (reviews (set_status i st t d)) = map rv_key (reviews d)"
    unfolding set_status_def by (simp, rule map_upd_rows) (simp add: rv_key_def)
  moreover have "review_ok d x" if "x \<in> set (reviews (set_status i st t d))" for x
    using that inv by (auto simp: set_status_def in_upd_rows review_inv_def review_ok_def split: if_splits)
  ultimately show ?thesis
    using inv ev by (auto simp: review_inv_def review_log_def review_standing_def review_ok_def set_status_def)
qed

subsection \<open>The operations keep it\<close>

lemma wp_rv_emitI:
  assumes "\<And>x d' fs. Q (Inl x) d' (e\<lparr>faults := fs\<rparr>)"
    and "\<And>fs. Q (Inr ()) (d\<lparr>rvox := outbox_add topic key (ev (now e)) (now e) (rvox d)\<rparr>) (e\<lparr>faults := fs\<rparr>)"
  shows "wp (rv_emit topic key ev) Q d e"
  using assms by (auto simp: rv_emit_def intro!: wp_execI)

lemma wp_RecordPurchases_inv:
  assumes inv: "review_inv H d" and pairs: "\<And>p. p \<in> set ps \<Longrightarrow> (own, p) \<in> H"
  shows "wp (RecordPurchases own ps ev) (\<lambda>_ d' _. review_inv H d') d e"
proof -
  have one: "wp (record_purchase own p) (\<lambda>_ d' _. review_inv H d') d e" if "p \<in> set ps" "review_inv H d" for p d e
    using review_inv_purchase [OF that(2) pairs [OF that(1)]] that(2) by (auto simp: record_purchase_def intro!: wp_execI)
  have loop: "wp (foreach (record_purchase own) ps) (\<lambda>_ d' _. review_inv H d') (note_event rv_processed_update ev d) e" for e
    by (rule wp_foreach_inv) (use one inv in auto)
  then show ?thesis
    unfolding RecordPurchases_def
    by (auto simp: inv intro!: wp_dedup_txI wp_mono [OF loop] split: sum.splits)
qed

lemma wp_rv_Create_inv:
  assumes inv: "review_inv H d" and ok: "review_ok d r" "rv_Status r = RvPublished"
  shows "wp (rv_Create r) (\<lambda>_ d' _. review_inv H d') d e"
  unfolding rv_Create_def rv_scanOne_def emitPublished_def
  by (auto intro!: wp_in_txI wp_or_not_foundI wp_exec_chkI wp_rv_emitI simp: inv split: sum.splits)
     (rule review_inv_insert [OF inv _ ok])

lemma wp_Moderate_inv:
  assumes inv: "review_inv H d"
  shows "wp (Moderate i st) (\<lambda>_ d' _. review_inv H d') d e"
proof -
  have out: "rv_ID r = i" if "find_review i (set_status i s t d) = Some r" for r s t using find_review_in [OF that] by simp
  have ox: "rvox (set_status i s t d) = rvox d" for s t by (simp add: set_status_def)
  show ?thesis
    unfolding Moderate_def rv_scanOne_def emitPublished_def
    by (auto simp: inv out ox split: sum.splits option.splits review_status.splits
        intro!: wp_in_txI wp_or_not_foundI wp_by_uuidI wp_exec_chkI wp_rv_emitI)
       (rule review_inv_move [OF inv], assumption, simp, simp)+
qed

definition bought_in :: "order_event option krecord \<Rightarrow> (string \<times> string) list" where
  "bought_in r = (if kr_topic r \<noteq> ''commerce.order.confirmed'' then []
     else case kr_value r of Some (OrderConfirmed oid owner pid shipTo ls t) \<Rightarrow> map (\<lambda>l. (owner, m_product_id l)) ls | _ \<Rightarrow> [])"

datatype review_op = OrderSeen "order_event option krecord" | ReviewWritten caller string string int32 string string
  | ReviewModerated caller string "review_status option"

fun review_prog :: "review_op \<Rightarrow> (review_db, unit) prog" where
  "review_prog (OrderSeen r) = rv_Handler r"
| "review_prog (ReviewWritten c claim pid rt tt b) = discard (CreateReview c claim pid rt tt b)"
| "review_prog (ReviewModerated c i st) = discard (ModerateReview c i st)"

definition review_step :: "review_op \<Rightarrow> env \<Rightarrow> review_db \<Rightarrow> review_db" where
  "review_step op = after (review_prog op)"

fun bought_by :: "review_op \<Rightarrow> (string \<times> string) list" where
  "bought_by (OrderSeen r) = bought_in r"
| "bought_by _ = []"

lemma wp_rv_Handler_inv:
  assumes inv: "review_inv H d" and H: "set (bought_in r) \<subseteq> H"
  shows "wp (rv_Handler r) (\<lambda>_ d' _. review_inv H d') d e"
  using H unfolding rv_Handler_def bought_in_def
  by (auto simp: inv image_subset_iff split: option.splits order_event.splits if_splits intro!: wp_RecordPurchases_inv)

lemma review_prog_inv:
  assumes inv: "review_inv H d" and H: "set (bought_by op) \<subseteq> H"
  shows "wp (review_prog op) (\<lambda>_ d' _. review_inv H d') d e"
proof (cases op)
  case (OrderSeen r) then show ?thesis using wp_rv_Handler_inv [OF inv] H by simp
next
  case (ReviewWritten c claim pid rt tt b)
  then show ?thesis
    using NewReview_ok inv
    by (auto simp: CreateReview_def HasPurchased_def inv intro!: wp_queryI wp_rv_Create_inv split: option.splits sum.splits)
next
  case (ReviewModerated c i st)
  then show ?thesis by (auto simp: ModerateReview_def inv intro!: wp_Moderate_inv split: option.splits sum.splits)
qed

lemma review_run_inv:
  "review_inv H d \<Longrightarrow> (\<And>x. x \<in> set ops \<Longrightarrow> set (bought_by (fst x)) \<subseteq> H) \<Longrightarrow> review_inv H (run_ops review_step ops d)"
proof (induction ops arbitrary: d)
  case (Cons x ops)
  have "review_inv H (review_step (fst x) (snd x) d)"
    unfolding review_step_def by (rule after_wp [OF review_prog_inv [OF Cons.prems(1)]]) (simp add: Cons.prems(2))
  then show ?case using Cons by simp
qed simp

lemma review_inv_empty: "review_inv H empty_review_db"
  by (simp add: review_inv_def empty_review_db_def review_log_def review_standing_def)

text \<open>C40: a review is by a buyer.  Whatever confirmations, reviews and moderations the service has seen, in any order and
  under any faults, each review in its table is by the owner of an order whose confirmation, one of those seen, has a
  line with the product; it is the only review of that author for that product, its rating is between 1 and 5, and the
  outbox tells its walk between published and hidden up to the status it has.\<close>

theorem reviewed_by_buyers:
  assumes "r \<in> set (reviews (run_ops review_step ops empty_review_db))"
  shows "(\<exists>x\<in>set ops. (rv_AuthorID r, rv_ProductID r) \<in> set (bought_by (fst x))) \<and>
    filter (\<lambda>x. rv_key x = rv_key r) (reviews (run_ops review_step ops empty_review_db)) = [r] \<and> 1 \<le> rv_Rating r \<and> rv_Rating r \<le> 5 \<and>
    walk review_allowed RvPublished (history_of (rv_ID r) (review_log (run_ops review_step ops empty_review_db))) (rv_Status r)"
proof -
  let ?d = "run_ops review_step ops empty_review_db"
  define H where "H = (\<Union>x\<in>set ops. set (bought_by (fst x)))"
  have inv: "review_inv H ?d" by (rule review_run_inv [OF review_inv_empty]) (auto simp: H_def)
  have "(rv_ID r, rv_Status r) \<in> set (review_standing ?d)" using assms by (auto simp: review_standing_def)
  then have "walk review_allowed RvPublished (history_of (rv_ID r) (review_log ?d)) (rv_Status r)"
    using inv log_okD unfolding review_inv_def by fast
  moreover have "review_ok ?d r" "set (purchases ?d) \<subseteq> H" "distinct (map rv_key (reviews ?d))"
    using inv assms by (auto simp: review_inv_def)
  ultimately show ?thesis
    using filter_key_unique [of rv_key, OF _ assms] by (auto simp: review_ok_def H_def MinRating_def MaxRating_def)
qed

definition buyer :: caller where
  "buyer = Some \<lparr>Subject = ''u'', Email = ''ann@b.c'', Roles = [''catalog_manager'']\<rparr>"

definition review_ops :: "(review_op \<times> env) list" where
  "review_ops = [(OrderSeen (confirmation 1 ''o1'' [bad_line]), env_at 1), (ReviewWritten buyer '''' ''p'' 4 ''Good'' '' fine '', env_at 2),
     (ReviewWritten buyer '''' ''p'' 5 ''Again'' ''better'', env_at 3), (ReviewModerated buyer ''id'' (Some RvHidden), env_at 4)]"

lemma review_ops_row: "map (\<lambda>r. (rv_ID r, rv_AuthorName r, rv_Rating r, rv_Status r)) (reviews (run_ops review_step review_ops empty_review_db)) =
    [(''id'', ''ann'', 4, RvHidden)]"
  by code_simp

theorem reviewed_by_buyers_witness:
  "\<exists>r. reviews (run_ops review_step review_ops empty_review_db) = [r] \<and> rv_AuthorName r = ''ann'' \<and>
     walk review_allowed RvPublished (history_of ''id'' (review_log (run_ops review_step review_ops empty_review_db))) RvHidden"
proof -
  obtain r where r: "reviews (run_ops review_step review_ops empty_review_db) = [r]" "rv_ID r = ''id''" "rv_AuthorName r = ''ann''" "rv_Status r = RvHidden"
    using review_ops_row by (auto simp: map_eq_Cons_conv)
  from reviewed_by_buyers [of r review_ops] show ?thesis using r by simp
qed

subsection \<open>The consumer behind the loop\<close>

text \<open>A confirmation of an order with an owner and lines is noted when the handler answers.\<close>

definition purchase_noted :: "order_event option krecord \<Rightarrow> review_db \<Rightarrow> bool" where
  "purchase_noted r d \<longleftrightarrow> (if filter (\<lambda>k. fst k \<noteq> '''') (bought_in r) \<noteq> [] then seen_event rv_processed (event_id r) d else True)"

lemma tame_record: "tame (foreach (record_purchase own) ps)"
  by (induction ps) (auto simp: record_purchase_def intro!: tame_intros)

lemma add_purchase_processed [simp]: "rv_processed (add_purchase k d) = rv_processed d"
  by (simp add: add_purchase_def)

lemma wp_RecordPurchases_noted:
  assumes ev: "ev \<noteq> ''''"
  shows "wp (RecordPurchases own ps ev) (\<lambda>x d' e'. now e' = now e \<and> set (rv_processed d) \<subseteq> set (rv_processed d') \<and>
     (x = Inr () \<longrightarrow> own = '''' \<or> ps = [] \<or> seen_event rv_processed ev d')) d e"
proof -
  have run: "wp (foreach (record_purchase own) ps) (\<lambda>r d' _. \<forall>a. r = Inr a \<longrightarrow> rv_processed d' = rv_processed d) d e" for d e
    by (rule wp_mono [OF wp_foreach_inv [where I = "\<lambda>s. rv_processed s = rv_processed d"]])
       (auto simp: record_purchase_def intro!: wp_execI)
  have "wp (dedup_tx (ins_event rv_processed rv_processed_update) () ev
             (bnd (foreach (record_purchase own) ps) (\<lambda>a. ret (Commit a))))
     (\<lambda>x d' e'. now e' = now e \<and> set (rv_processed d) \<subseteq> set (rv_processed d') \<and> (x = Inr () \<longrightarrow> seen_event rv_processed ev d')) d e"
    by (rule wp_dedup_resultI [where R = "\<lambda>d a d'. rv_processed d' = rv_processed d", OF tame_record run])
       (use ev in \<open>auto simp: note_event_def seen_event_def\<close>)
  then show ?thesis unfolding RecordPurchases_def by (auto intro: wp_mono)
qed

interpretation buyers: record_handler rv_Handler purchase_noted
proof
  fix r w e
  have mono: "set (rv_processed w) \<subseteq> set (rv_processed w') \<Longrightarrow> purchase_noted r' w \<Longrightarrow> purchase_noted r' w'" for r' w'
    by (auto simp: purchase_noted_def seen_event_def)
  have rec: "wp (RecordPurchases own ps (event_id r)) (\<lambda>x w' e'. now e \<le> now e' \<and> (x = Inr () \<longrightarrow> purchase_noted r w') \<and>
      (\<forall>r'. purchase_noted r' w \<longrightarrow> purchase_noted r' w')) w e" if "bought_in r = map (Pair own) ps" for own ps
    by (rule wp_mono [OF wp_RecordPurchases_noted]) (use mono that in \<open>auto simp: purchase_noted_def\<close>)
  show "wp (rv_Handler r) (\<lambda>x w' e'. now e \<le> now e' \<and> (x = Inr () \<longrightarrow> purchase_noted r w') \<and>
      (\<forall>r'. purchase_noted r' w \<longrightarrow> purchase_noted r' w')) w e"
    unfolding rv_Handler_def
    by (auto split: option.splits order_event.splits intro!: rec simp: bought_in_def) (auto simp: purchase_noted_def bought_in_def)
qed

subsection \<open>The summary\<close>

lemma sum_counts:
  assumes "finite S" "set rs \<subseteq> S"
  shows "(\<Sum>k\<in>S. f k * int (length (filter (\<lambda>x. x = k) rs))) = sum_list (map f rs)"
  using assms(2)
proof (induction rs)
  case (Cons x rs)
  have "f k * int (length (filter (\<lambda>y. y = k) (x # rs))) = (if k = x then f k else 0) + f k * int (length (filter (\<lambda>y. y = k) rs))" for k
    by (simp add: algebra_simps)
  then show ?case using Cons assms(1) by (simp add: sum.distrib sum.delta del: filter.simps)
qed simp

lemma groups_sum: "sum_list (map (\<lambda>g. f (fst g) * snd g) (rating_groups rs)) = sum_list (map f rs)"
  using sum_counts [of "set rs" rs f] by (simp add: rating_groups_def comp_def sum_list_distinct_conv_sum_set)

lemma rating_groups_facts:
  "distinct (map fst (rating_groups rs))" "fst ` set (rating_groups rs) = set rs"
  "map_of (rating_groups rs) k = (if k \<in> set rs then Some (int (length (filter (\<lambda>x. x = k) rs))) else None)"
  by (simp_all add: rating_groups_def comp_def image_image map_of_map_restrict)

lemma fold_tally:
  assumes "\<forall>g\<in>set gs. 1 \<le> fst g \<and> fst g \<le> 5 \<and> 0 \<le> snd g" "distinct (map fst gs)" "length hist = 5" "0 \<le> t" "0 \<le> w"
    and "t + sum_list (map snd gs) \<le> 2 ^ 31" "w + 5 * sum_list (map snd gs) \<le> 2 ^ 40"
  shows "fold tally gs (hist, t, w) =
    (map (\<lambda>k. case map_of gs (int k + 1) of None \<Rightarrow> hist ! k | Some n \<Rightarrow> n) [0..<5], t + sum_list (map snd gs), w + sum_list (map (\<lambda>g. fst g * snd g) gs))"
  using assms
proof (induction gs arbitrary: hist t w)
  case Nil
  then show ?case by (auto intro!: nth_equalityI)
next
  case (Cons g gs)
  obtain r n where g: "g = (r, n)" by (cases g)
  have r: "1 \<le> r" "r \<le> 5" "0 \<le> n" and pos: "0 \<le> sum_list (map snd gs)" using Cons.prems(1) g by (auto intro!: sum_list_nonneg)
  have rn: "0 \<le> r * n" "r * n \<le> 5 * n" using r by (auto intro: mult_right_mono)
  have t: "i64 (t + n) = t + n" "i64 (r * n) = r * n" "i64 (w + r * n) = w + r * n"
    using Cons.prems(4-7) r rn pos by (auto simp: in_i64_def g)
  have "fold tally gs (hist[nat (r - 1) := n], t + n, w + r * n) =
     (map (\<lambda>k. case map_of gs (int k + 1) of None \<Rightarrow> hist[nat (r - 1) := n] ! k | Some n \<Rightarrow> n) [0..<5],
      (t + n) + sum_list (map snd gs), (w + r * n) + sum_list (map (\<lambda>g. fst g * snd g) gs))"
    by (rule Cons.IH) (use Cons.prems r rn g in auto)
  moreover have "map_of gs r = None" using Cons.prems(2) g by (auto simp: map_of_eq_None_iff)
  moreover have "tally g (hist, t, w) = (hist[nat (r - 1) := n], t + n, w + r * n)" using r t by (simp add: tally_def g)
  ultimately show ?case
    using r Cons.prems(3) by (auto simp: g nth_list_update intro!: map_cong split: option.splits)
qed

theorem summary_of_published:
  assumes "faults e = []" "list_all (\<lambda>x. 1 \<le> x \<and> x \<le> 5) (published_ratings pid d)" "length (published_ratings pid d) < 2 ^ 31"
  shows "Summary pid d e = (Inr \<lparr>rs_ProductID = pid,
      rs_Average = (if published_ratings pid d = [] then 0
        else of_int (sum_list (published_ratings pid d)) / of_nat (length (published_ratings pid d))),
      rs_Count = int (length (published_ratings pid d)),
      rs_Histogram = map (\<lambda>k. int (length (filter (\<lambda>x. x = k) (published_ratings pid d)))) [1, 2, 3, 4, 5]\<rparr>, d, e)"
proof -
  define rs where "rs = published_ratings pid d"
  define gs where "gs = rating_groups rs"
  have small: "int (length rs) \<le> 2 ^ 31 - 1" using assms(3) by (simp add: rs_def)
  have g: "1 \<le> fst g \<and> fst g \<le> 5 \<and> 0 \<le> snd g \<and> snd g \<le> int (length rs)" if "g \<in> set gs" for g
    using that assms(2) by (auto simp: gs_def rating_groups_def list_all_iff rs_def)
  have n: "sum_list (map snd gs) = int (length rs)" "sum_list (map (\<lambda>g. fst g * snd g) gs) = sum_list rs"
    using groups_sum [of "\<lambda>_. 1" rs] groups_sum [of "\<lambda>k. k" rs] by (simp_all add: gs_def sum_list_triv)
  have f: "fold tally gs (replicate 5 0, 0, 0) =
    (map (\<lambda>k. case map_of gs (int k + 1) of None \<Rightarrow> replicate 5 0 ! k | Some n \<Rightarrow> n) [0..<5], int (length rs), sum_list rs)"
    by (subst fold_tally) (use g n small rating_groups_facts(1) in \<open>auto simp: gs_def\<close>)
  have z: "(case map_of gs k of None \<Rightarrow> replicate 5 0 ! j | Some n \<Rightarrow> n) = int (length (filter (\<lambda>x. x = k) rs))"
    if "j < 5" for j k using that
    by (auto simp: gs_def rating_groups_facts(3) filter_empty_conv)
  have h: "map (\<lambda>k. case map_of gs (int k + 1) of None \<Rightarrow> replicate 5 0 ! k | Some n \<Rightarrow> n) [0..<5] =
      map (\<lambda>k. int (length (filter (\<lambda>x. x = k) rs))) [1, 2, 3, 4, 5]"
    by (simp add: upt_rec z)
  have ok: "list_all (\<lambda>g. in_i32 (snd g)) gs" "in_i32 (int (length rs))"
    using g small by (fastforce simp: list_all_iff in_i32_def)+
  show ?thesis
    using assms(1) f ok h by (auto simp: Summary_def prog_defs map_err_def simp flip: rs_def gs_def)
qed

end
