(* ===== verification/Notification.thy ===== *)
theory Notification
  imports OrderStore Fulfillment Auth "HOL-Library.Sublist"
begin

section \<open>The notification service (services/notification)\<close>

text \<open>
  One message per customer-facing event: the templates and their substitution (internal/domain), the store
  (internal/store), the consumer of order and shipment events (internal/consumer) and the handlers
  (internal/grpcsvc).  The channel is an argument; \<open>LogChannel\<close>, the only one of the repository, always succeeds.
\<close>

subsection \<open>Messages and templates\<close>

datatype channel = ChannelEmail | ChannelSMS | ChannelPush
datatype delivery_status = NoteSent | NoteFailed

record notification =
  nt_ID :: string
  nt_OwnerID :: string
  nt_Kind :: string
  nt_Channel :: channel
  nt_Status :: delivery_status
  nt_Subject :: string
  nt_Body :: string
  nt_RefID :: string
  nt_CreatedAt :: int

text \<open>Kind, subject and body.\<close>

definition templates :: "(string \<times> (string \<times> string)) list" where
  "templates =
    [(''order_created'', (''We received your order {order_id}'',
        ''Thanks! Order {order_id} for {total} is being processed. We'll email you when payment is confirmed.'')),
     (''order_confirmed'', (''Your order {order_id} is confirmed'',
        ''Payment went through and order {order_id} is confirmed. We'll let you know when it ships.'')),
     (''order_cancelled'', (''Your order {order_id} was cancelled'',
        ''Order {order_id} was cancelled ({reason}). Any hold on your payment has been released.'')),
     (''order_fulfilled'', (''Order {order_id} delivered'',
        ''All items in order {order_id} have been delivered. Thanks for shopping with us!'')),
     (''shipment_shipped'', (''Your order {order_id} has shipped'',
        ''Shipment {shipment_id} is on its way via {carrier}. Track it with {tracking_number}.'')),
     (''shipment_delivered'', (''Your order {order_id} was delivered'',
        ''Shipment {shipment_id} was delivered. Enjoy!'')),
     (''test'', (''Test notification'',
        ''This is a sample notification confirming your delivery settings work.''))]"

text \<open>\<open>strings.Replacer\<close>: at each position the first pair whose key starts there; what was put in is not looked at again.\<close>

function replace_all :: "(string \<times> string) list \<Rightarrow> string \<Rightarrow> string" where
  "replace_all ps [] = []"
| "replace_all ps (c # s) = (case List.find (\<lambda>p. prefix (fst p) (c # s)) ps of
       None \<Rightarrow> c # replace_all ps s
     | Some (k, v) \<Rightarrow> v @ replace_all ps (drop (length k - 1) s))"
  by pat_completeness auto
termination by (relation "measure (\<lambda>(ps, s). length s)") auto

definition placeholder :: "string \<Rightarrow> string" where
  "placeholder k = ''{'' @ k @ ''}''"

definition subst_text :: "string \<Rightarrow> (string \<times> string) list \<Rightarrow> string" where
  "subst_text s data = (if data = [] then s
     else replace_all (map (\<lambda>(k, v). (placeholder k, if v = '''' then ''-'' else v)) data) s)"

definition Render :: "string \<Rightarrow> (string \<times> string) list \<Rightarrow> (string \<times> string) option" where
  "Render kind data = (case map_of templates kind of None \<Rightarrow> None
     | Some (subj, body) \<Rightarrow> Some (subst_text subj data, subst_text body data))"

subsection \<open>Store\<close>

datatype notice_event = NotificationSent string string string channel string int

record note_db =
  notifications :: "notification list"
  nt_processed :: "string list"
  ntox :: "notice_event outbox"

definition empty_note_db :: note_db where
  "empty_note_db = \<lparr>notifications = [], nt_processed = [], ntox = empty_outbox\<rparr>"

definition insert_note :: "notification \<Rightarrow> string \<Rightarrow> int \<Rightarrow> note_db \<Rightarrow> go_err + (notification \<times> note_db)" where
  "insert_note n i t d = (if i \<in> nt_ID ` set (notifications d) then Inl uniqueViolation
     else let out = n\<lparr>nt_ID := i, nt_CreatedAt := t\<rparr> in Inr (out, d\<lparr>notifications := notifications d @ [out]\<rparr>))"

definition record_note :: "notification \<Rightarrow> (note_db, notification) prog" where
  "record_note n =
     bnd new_uuid (\<lambda>i.
     bnd (map_err wrap (exec_chk (insert_note n i))) (\<lambda>out.
     bnd (map_err wrap (exec (\<lambda>t d. d\<lparr>ntox := outbox_add ''commerce.notification.sent'' (nt_OwnerID out)
            (NotificationSent (nt_ID out) (nt_OwnerID out) (nt_Kind out) (nt_Channel out) (nt_RefID out) t) t (ntox d)\<rparr>))) (\<lambda>_.
     ret out)))"

definition nt_Record :: "notification \<Rightarrow> string \<Rightarrow> (note_db, notification option) prog" where
  "nt_Record n eventID = dedup_tx (ins_event nt_processed nt_processed_update) None eventID
     (bnd (bnd (record_note n) (\<lambda>out. ret (Some out))) (\<lambda>a. ret (Commit a)))"

definition select_notes :: "string \<Rightarrow> int \<Rightarrow> note_db \<Rightarrow> notification list" where
  "select_notes ownerID cursor d = newest_first nt_CreatedAt
     (filter (\<lambda>n. nt_OwnerID n = ownerID \<and> nt_CreatedAt n < cursor) (notifications d))"

definition nt_List :: "string \<Rightarrow> int \<Rightarrow> string \<Rightarrow> (note_db, notification list \<times> string) prog" where
  "nt_List ownerID limit0 before =
     (let limit = limit_or 50 limit0 in
      bnd (asks (\<lambda>e. cursor_of e before)) (\<lambda>cursor.
      bnd (map_err wrap (query (\<lambda>_ d. take (Suc limit) (select_notes ownerID cursor d)))) (\<lambda>out.
      bnd (asks fmt_time) (\<lambda>fmt.
      ret (page_of limit nt_CreatedAt fmt out)))))"

subsection \<open>The channel\<close>

text \<open>What a channel reaches beside the database: the messages that went out.\<close>

record note_sys =
  nt_db :: note_db
  dispatched :: "notification list"

type_synonym 'd sender = "notification \<Rightarrow> ('d, unit) prog"

definition LogChannel :: "('x note_sys_scheme) sender" where
  "LogChannel n = (\<lambda>s e. (Inr (), s\<lparr>dispatched := dispatched s @ [n]\<rparr>, e))"

definition at_notes :: "(note_db, 'a) prog \<Rightarrow> ('x note_sys_scheme, 'a) prog" where
  "at_notes p = zoom nt_db nt_db_update p"

text \<open>A failed send is recorded, not returned.\<close>

definition send_and_record :: "('x note_sys_scheme) sender \<Rightarrow> notification \<Rightarrow> string \<Rightarrow> ('x note_sys_scheme, notification option) prog" where
  "send_and_record send n eventID =
     bnd (attempt (send n)) (\<lambda>r.
     at_notes (nt_Record (case r of Inl _ \<Rightarrow> n\<lparr>nt_Status := NoteFailed\<rparr> | Inr _ \<Rightarrow> n) eventID))"

definition new_note :: "string \<Rightarrow> string \<Rightarrow> string \<Rightarrow> string \<Rightarrow> string \<Rightarrow> notification" where
  "new_note owner kind subj body ref = \<lparr>nt_ID = '''', nt_OwnerID = owner, nt_Kind = kind, nt_Channel = ChannelEmail,
     nt_Status = NoteSent, nt_Subject = subj, nt_Body = body, nt_RefID = ref, nt_CreatedAt = 0\<rparr>"

subsection \<open>The consumer\<close>

definition short_id :: "string \<Rightarrow> string" where
  "short_id i = (if length i > 8 then take 8 i else i)"

text \<open>\<open>%02d\<close>.\<close>

definition pad2 :: "int \<Rightarrow> string" where
  "pad2 n = (if 0 \<le> n \<and> n < 10 then ''0'' @ FormatInt n else FormatInt n)"

definition money_text :: "wire_money \<Rightarrow> string" where
  "money_text m = (let c = i64 (i64 (w_units m * 100) + w_nanos m sdiv 10000000)
     in w_currency m @ '' '' @ FormatInt (c sdiv 100) @ ''.'' @ pad2 (c smod 100))"

type_synonym life_event = "order_event + ship_event"

record notice_msg =
  mg_kind :: string
  mg_owner :: string
  mg_ref :: string
  mg_data :: "(string \<times> string) list"

text \<open>The kind follows the topic; a payload that is not the topic's message counts as undecodable.  A total is always set by the
  order service, so the nil branch of \<open>money\<close> has no counterpart.\<close>

definition extract_notice :: "life_event option krecord \<Rightarrow> notice_msg option" where
  "extract_notice r = (case (kr_topic r, kr_value r) of
       (tp, Some (Inl (OrderCreated oid owner cart tot t))) \<Rightarrow>
         if tp = ''commerce.order.created'' then Some \<lparr>mg_kind = ''order_created'', mg_owner = owner, mg_ref = oid,
           mg_data = [(''order_id'', short_id oid), (''total'', money_text tot)]\<rparr> else None
     | (tp, Some (Inl (OrderConfirmed oid owner pid addr ls t))) \<Rightarrow>
         if tp = ''commerce.order.confirmed'' then Some \<lparr>mg_kind = ''order_confirmed'', mg_owner = owner, mg_ref = oid,
           mg_data = [(''order_id'', short_id oid)]\<rparr> else None
     | (tp, Some (Inl (OrderCancelled oid owner reason t))) \<Rightarrow>
         if tp = ''commerce.order.cancelled'' then Some \<lparr>mg_kind = ''order_cancelled'', mg_owner = owner, mg_ref = oid,
           mg_data = [(''order_id'', short_id oid), (''reason'', reason)]\<rparr> else None
     | (tp, Some (Inl (OrderFulfilled oid owner t))) \<Rightarrow>
         if tp = ''commerce.order.fulfilled'' then Some \<lparr>mg_kind = ''order_fulfilled'', mg_owner = owner, mg_ref = oid,
           mg_data = [(''order_id'', short_id oid)]\<rparr> else None
     | (tp, Some (Inr (ShipmentShipped sid oid owner carrier tracking shop t))) \<Rightarrow>
         if tp = ''commerce.fulfillment.shipped'' then Some \<lparr>mg_kind = ''shipment_shipped'', mg_owner = owner, mg_ref = oid,
           mg_data = [(''order_id'', short_id oid), (''shipment_id'', short_id sid), (''carrier'', carrier), (''tracking_number'', tracking)]\<rparr> else None
     | (tp, Some (Inr (ShipmentDelivered sid oid owner shop t))) \<Rightarrow>
         if tp = ''commerce.fulfillment.delivered'' then Some \<lparr>mg_kind = ''shipment_delivered'', mg_owner = owner, mg_ref = oid,
           mg_data = [(''order_id'', short_id oid), (''shipment_id'', short_id sid)]\<rparr> else None
     | _ \<Rightarrow> None)"

definition nt_Handler :: "('x note_sys_scheme) sender \<Rightarrow> life_event option krecord \<Rightarrow> ('x note_sys_scheme, unit) prog" where
  "nt_Handler send r = (case extract_notice r of None \<Rightarrow> ret () | Some m \<Rightarrow>
     if mg_owner m = '''' then ret ()
     else case Render (mg_kind m) (mg_data m) of None \<Rightarrow> ret () | Some (subj, body) \<Rightarrow>
     discard (send_and_record send (new_note (mg_owner m) (mg_kind m) subj body (mg_ref m)) (event_id r)))"

subsection \<open>Handlers\<close>

definition ListNotifications :: "caller \<Rightarrow> int \<Rightarrow> string \<Rightarrow> ('x note_sys_scheme, notification list \<times> string) prog" where
  "ListNotifications c pageSize token = (case c of None \<Rightarrow> fail not_authenticated
     | Some p \<Rightarrow> at_notes (nt_List (Subject p) pageSize token))"

definition SendTest :: "('x note_sys_scheme) sender \<Rightarrow> caller \<Rightarrow> ('x note_sys_scheme, notification option) prog" where
  "SendTest send c = (case c of None \<Rightarrow> fail not_authenticated
     | Some p \<Rightarrow> (case Render ''test'' [] of
         None \<Rightarrow> send_and_record send (new_note (Subject p) ''test'' '''' '''' '''') ''''
       | Some (subj, body) \<Rightarrow> send_and_record send (new_note (Subject p) ''test'' subj body '''') ''''))"

end
