(* ===== verification/NotificationProps.thy ===== *)
theory NotificationProps
  imports Notification KafkaProps Samples
begin

section \<open>Properties of notifications\<close>

text \<open>
  A message does not depend on the order in which the map of its data is visited, the consumer keeps the contract of the
  loop, an owner lists only their own messages, and a redelivered event goes out again, although it is recorded once.
\<close>

subsection \<open>Rendering\<close>

lemma placeholder_prefix:
  assumes "prefix (placeholder k) s" "prefix (placeholder k') s" "CHR ''}'' \<notin> set k" "CHR ''}'' \<notin> set k'"
  shows "k = k'"
proof -
  have tw: "takeWhile (\<lambda>c. c \<noteq> CHR ''}'') (tl s) = j" if "prefix (placeholder j) s" "CHR ''}'' \<notin> set j" for j
    using that by (auto simp: prefix_def placeholder_def takeWhile_append takeWhile_eq_all_conv)
  show ?thesis using tw [OF assms(1,3)] tw [OF assms(2,4)] by simp
qed

definition plain_keys :: "(string \<times> string) list \<Rightarrow> bool" where
  "plain_keys data \<longleftrightarrow> distinct (map fst data) \<and> list_all (\<lambda>x. CHR ''}'' \<notin> set (fst x)) data"

definition replacement :: "string \<times> string \<Rightarrow> string \<times> string" where
  "replacement x = (placeholder (fst x), if snd x = '''' then ''-'' else snd x)"

abbreviation replacements :: "(string \<times> string) list \<Rightarrow> (string \<times> string) list" where
  "replacements data \<equiv> map replacement data"

lemma placeholder_inj [simp]: "placeholder k = placeholder k' \<longleftrightarrow> k = k'"
  by (simp add: placeholder_def)

lemma find_replacement:
  assumes "plain_keys data" "plain_keys data'" "set data = set data'"
  shows "List.find (\<lambda>p. prefix (fst p) s) (replacements data) = List.find (\<lambda>p. prefix (fst p) s) (replacements data')"
proof -
  have one: "p = q" if a: "p \<in> set (replacements data)" "prefix (fst p) s" and b: "q \<in> set (replacements data)" "prefix (fst q) s" for p q
  proof -
    obtain x y where x: "x \<in> set data" "p = replacement x" and y: "y \<in> set data" "q = replacement y" using a(1) b(1) by auto
    have "fst x = fst y"
      using placeholder_prefix [of "fst x" s "fst y"] a(2) b(2) x y assms(1) by (simp add: replacement_def plain_keys_def list_all_iff)
    then have "x = y" using x(1) y(1) assms(1) distinct_map_inj [of fst data x y] by (simp add: plain_keys_def)
    then show ?thesis using x y by simp
  qed
  have sets: "set (replacements data) = set (replacements data')" using assms(3) by simp
  show ?thesis
  proof (cases "List.find (\<lambda>p. prefix (fst p) s) (replacements data')")
    case None
    then have "List.find (\<lambda>p. prefix (fst p) s) (replacements data) = None" using sets by (metis find_None_iff)
    with None show ?thesis by simp
  next
    case (Some q)
    then have q: "q \<in> set (replacements data)" "prefix (fst q) s" using sets by (auto dest: find_in_set)
    then obtain p where p: "List.find (\<lambda>p. prefix (fst p) s) (replacements data) = Some p"
      by (cases "List.find (\<lambda>p. prefix (fst p) s) (replacements data)") (auto simp: find_None_iff)
    then show ?thesis using one q Some by (metis find_in_set)
  qed
qed

theorem rendering_order_irrelevant:
  assumes "plain_keys data" "plain_keys data'" "set data = set data'"
  shows "Render kind data = Render kind data'"
proof -
  have subst_eq: "(\<lambda>(k, v). (placeholder k, if v = '''' then ''-'' else v)) = replacement"
    by (simp add: replacement_def fun_eq_iff)
  have "replace_all (replacements data) s = replace_all (replacements data') s" for s
  proof (induction "length s" arbitrary: s rule: less_induct)
    case less
    then show ?case using find_replacement [OF assms] by (cases s) (auto split: option.splits)
  qed
  moreover have "data = [] \<longleftrightarrow> data' = []" using assms(3) by (metis set_empty)
  ultimately show ?thesis by (auto simp: Render_def subst_text_def subst_eq split: option.splits)
qed

lemma extract_plain: "extract_notice r = Some m \<Longrightarrow> plain_keys (mg_data m) \<and> Render (mg_kind m) (mg_data m) \<noteq> None"
  unfolding extract_notice_def
  by (auto split: option.splits sum.splits order_event.splits ship_event.splits if_splits) (simp_all add: plain_keys_def Render_def templates_def)

subsection \<open>The consumer behind the loop\<close>

definition notice_noted :: "life_event option krecord \<Rightarrow> note_sys \<Rightarrow> bool" where
  "notice_noted r s \<longleftrightarrow> (case extract_notice r of None \<Rightarrow> True | Some m \<Rightarrow> mg_owner m = '''' \<or> seen_event nt_processed (event_id r) (nt_db s))"

lemma wp_record_note: "wp (record_note n) (\<lambda>r d' _. nt_processed d' = nt_processed d) d e"
  unfolding record_note_def by (auto simp: insert_note_def Let_def intro!: wp_exec_chkI wp_execI split: sum.splits if_splits)

lemma wp_nt_Record:
  assumes ev: "ev \<noteq> ''''"
  shows "wp (nt_Record n ev) (\<lambda>r d' e'. now e' = now e \<and> set (nt_processed d) \<subseteq> set (nt_processed d') \<and>
     (\<forall>x. r = Inr x \<longrightarrow> seen_event nt_processed ev d')) d e"
proof -
  have tm: "tame (bnd (record_note n) (\<lambda>out. ret (Some out)))" by (auto simp: record_note_def intro!: tame_intros)
  have run: "wp (bnd (record_note n) (\<lambda>out. ret (Some out))) (\<lambda>r d' _. \<forall>a. r = Inr a \<longrightarrow> nt_processed d' = nt_processed d) d e" for d e
    by (auto intro!: wp_mono [OF wp_record_note] split: sum.splits)
  show ?thesis
    unfolding nt_Record_def
    by (rule wp_dedup_resultI [where R = "\<lambda>d a d'. nt_processed d' = nt_processed d", OF tm run])
       (use ev in \<open>auto simp: note_event_def seen_event_def\<close>)
qed

interpretation notices: record_handler "nt_Handler LogChannel" notice_noted
proof
  fix r and w :: note_sys and e
  have mono: "set (nt_processed (nt_db w)) \<subseteq> set (nt_processed (nt_db w')) \<Longrightarrow> notice_noted r' w \<Longrightarrow> notice_noted r' w'" for r' w'
    by (auto simp: notice_noted_def seen_event_def split: option.splits)
  show "wp (nt_Handler LogChannel r) (\<lambda>x w' e'. now e \<le> now e' \<and> (x = Inr () \<longrightarrow> notice_noted r w') \<and>
      (\<forall>r'. notice_noted r' w \<longrightarrow> notice_noted r' w')) w e"
  proof (cases "extract_notice r")
    case None
    then show ?thesis by (simp add: nt_Handler_def notice_noted_def)
  next
    case (Some m)
    have send: "wp (LogChannel n) Q w e = Q (Inr ()) (w\<lparr>dispatched := dispatched w @ [n]\<rparr>) e" for n Q
      by (simp add: wp_def LogChannel_def)
    have rec: "wp (send_and_record LogChannel n (event_id r)) (\<lambda>x w' e'. now e' = now e \<and>
        set (nt_processed (nt_db w)) \<subseteq> set (nt_processed (nt_db w')) \<and> (\<forall>a. x = Inr a \<longrightarrow> seen_event nt_processed (event_id r) (nt_db w'))) w e" for n
      by (auto simp: send_and_record_def at_notes_def send intro!: wp_mono [OF wp_nt_Record])
    have settled: "seen_event nt_processed (event_id r) (nt_db w') \<Longrightarrow> notice_noted r w'" for w'
      using Some by (simp add: notice_noted_def)
    show ?thesis
    proof (cases "mg_owner m = ''''")
      case True
      then show ?thesis using Some by (simp add: nt_Handler_def notice_noted_def)
    next
      case False
      obtain subj body where "Render (mg_kind m) (mg_data m) = Some (subj, body)" using extract_plain [OF Some] by auto
      then show ?thesis
        using Some False
        by (auto simp: nt_Handler_def intro!: wp_mono [OF rec] intro: mono settled split: sum.splits)
    qed
  qed
qed

subsection \<open>What the owner sees, and what goes out\<close>

theorem notices_are_own:
  assumes "ListNotifications c n tok s e = (Inr (ns, next), s', e')"
  shows "s' = s \<and> (\<exists>p. c = Some p \<and> filter (\<lambda>x. nt_OwnerID x = Subject p) ns = ns \<and> set ns \<subseteq> set (notifications (nt_db s)))"
proof -
  have same: "nt_db_update (\<lambda>_. nt_db s) s = s" by (cases s) simp
  have sub: "set (fst (page_of l f g rs)) \<subseteq> set rs" for l f g and rs :: "notification list"
    by (auto simp: page_of_def dest: in_set_takeD)
  have pg: "set ns \<subseteq> {x \<in> set (notifications d). nt_OwnerID x = o'}" if "page_of l f g (take k (select_notes o' cur d)) = (ns, nxt)"
    for l f g k o' cur d ns nxt
  proof -
    have "set (fst (page_of l f g (take k (select_notes o' cur d)))) \<subseteq> set (take k (select_notes o' cur d))" by (rule sub)
    also have "\<dots> \<subseteq> set (select_notes o' cur d)" by (rule set_take_subset)
    also have "\<dots> \<subseteq> {x \<in> set (notifications d). nt_OwnerID x = o'}" by (auto simp: select_notes_def newest_first_def)
    finally show ?thesis by (simp add: that)
  qed
  have "wp (ListNotifications c n tok) (\<lambda>r s' _. \<forall>ns next. r = Inr (ns, next) \<longrightarrow> s' = s \<and>
      (\<exists>p. c = Some p \<and> set ns \<subseteq> {x \<in> set (notifications (nt_db s)). nt_OwnerID x = Subject p})) s e"
    unfolding ListNotifications_def at_notes_def nt_List_def
    by (cases c) (auto simp: Let_def same intro!: wp_queryI dest!: pg [THEN subsetD, rotated])
  from wpD [OF this assms] show ?thesis by (auto simp: filter_id_conv)
qed

definition shipped_record :: "life_event option krecord" where
  "shipped_record = \<lparr>kr_topic = ''commerce.fulfillment.shipped'', kr_key = ''o1'',
     kr_value = Some (Inr (ShipmentShipped ''s1'' ''o1'' ''u'' ''DHL'' ''{carrier}'' ''shop'' 1)), kr_partition = 0, kr_offset = 7\<rparr>"

definition twice_noticed :: note_sys where
  "twice_noticed = after (nt_Handler LogChannel shipped_record) (env_at 2)
     (after (nt_Handler LogChannel shipped_record) (env_at 1) \<lparr>nt_db = empty_note_db, dispatched = []\<rparr>)"

text \<open>A record delivered twice is recorded once and goes out twice: the message is sent before the event is looked up.  The
  tracking number that looks like a placeholder stays as it is.\<close>

theorem redelivered_event_sent_twice:
  "length (notifications (nt_db twice_noticed)) = 1 \<and> length (dispatched twice_noticed) = 2 \<and>
   map nt_Body (notifications (nt_db twice_noticed)) = [''Shipment s1 is on its way via DHL. Track it with {carrier}.'']"
  by code_simp

end
