(* ===== verification/SqlFilter.thy ===== *)
theory SqlFilter
  imports Texts
begin

section \<open>WHERE clauses built from the filters that apply (pkg/sqlfilter/sqlfilter.go)\<close>

text \<open>
  The predicates and their arguments grow in step: each predicate is printed with the number of its own argument, so the
  clause and the argument list given to the driver agree whatever filters were left out.
\<close>

record 'a filters =
  fl_conds :: "string list"
  fl_args :: "'a list"

definition no_filters :: "'a filters" where
  "no_filters = \<lparr>fl_conds = [], fl_args = []\<rparr>"

text \<open>\<open>fmt.Sprintf\<close> on a text with one \<open>%d\<close> verb and one number; with no verb the number is appended as an extra operand.\<close>

fun sprintf_d :: "string \<Rightarrow> nat \<Rightarrow> string" where
  "sprintf_d (c # d # s) n =
     (if c = CHR ''%'' \<and> d = CHR ''d'' then FormatInt (int n) @ s else c # sprintf_d (d # s) n)"
| "sprintf_d s n = s @ ''%!(EXTRA int='' @ FormatInt (int n) @ '')''"

definition fl_Add :: "string \<Rightarrow> 'a \<Rightarrow> 'a filters \<Rightarrow> 'a filters" where
  "fl_Add expr arg f = (let args = fl_args f @ [arg]
     in \<lparr>fl_conds = fl_conds f @ [sprintf_d expr (length args)], fl_args = args\<rparr>)"

definition AddNonEmpty :: "string \<Rightarrow> string \<Rightarrow> string filters \<Rightarrow> string filters" where
  "AddNonEmpty expr v f = (if v \<noteq> '''' then fl_Add expr v f else f)"

definition Placeholder :: "'a \<Rightarrow> 'a filters \<Rightarrow> string \<times> 'a filters" where
  "Placeholder arg f = (let args = fl_args f @ [arg] in (''$'' @ FormatInt (int (length args)), f\<lparr>fl_args := args\<rparr>))"

fun join :: "string \<Rightarrow> string list \<Rightarrow> string" where
  "join sep [] = ''''"
| "join sep [x] = x"
| "join sep (x # xs) = x @ sep @ join sep xs"

definition Where :: "'a filters \<Rightarrow> string" where
  "Where f = (if fl_conds f = [] then '''' else '' WHERE '' @ join '' AND '' (fl_conds f))"

subsection \<open>Predicates and arguments in step\<close>

definition numbered :: "(string \<times> 'a) list \<Rightarrow> 'a filters" where
  "numbered ps = \<lparr>fl_conds = map (\<lambda>(i, expr, _). sprintf_d expr (Suc i)) (enumerate 0 ps), fl_args = map snd ps\<rparr>"

lemma numbered_Nil [simp]: "numbered [] = no_filters"
  by (simp add: numbered_def no_filters_def)

lemma fl_Add_numbered [simp]: "fl_Add expr arg (numbered ps) = numbered (ps @ [(expr, arg)])"
  by (simp add: fl_Add_def numbered_def enumerate_append_eq)

lemma AddNonEmpty_numbered [simp]: "AddNonEmpty expr v (numbered ps) = numbered (ps @ (if v = '''' then [] else [(expr, v)]))"
  by (simp add: AddNonEmpty_def)

theorem filters_that_apply:
  "fold (\<lambda>(expr, v). AddNonEmpty expr v) ps (numbered qs) = numbered (qs @ filter (\<lambda>(_, v). v \<noteq> '''') ps)"
  by (induction ps arbitrary: qs) (auto split: prod.splits)

theorem placeholder_after_filters:
  "Placeholder arg (numbered ps) =
     (''$'' @ FormatInt (int (Suc (length ps))), (numbered ps)\<lparr>fl_args := map snd ps @ [arg]\<rparr>)"
  by (simp add: Placeholder_def numbered_def)

lemma where_sample:
  "Where (AddNonEmpty ''status = $%d'' ''PAID'' (AddNonEmpty ''owner_id = $%d'' '''' (fl_Add ''created_at < $%d'' ''now'' no_filters)))
     = '' WHERE created_at < $1 AND status = $2''"
  by code_simp

end
