(* ===== verification/ExtAuthz.thy ===== *)
theory ExtAuthz
  imports Auth "HOL-Library.Sublist"
begin

section \<open>The check at the ingress (services/ext-authz)\<close>

text \<open>
  The decision Envoy asks for before a request reaches the gateway (internal/checker) and the answer it is given
  (main.go).  It never verifies a signature: what it lets through is verified again by every service (\<open>authUnary\<close>).
\<close>

record authz_config =
  PublicPrefixes :: "string list"
  AdminPrefixes :: "string list"
  AdminRoles :: "string list"

definition DefaultConfig :: authz_config where
  "DefaultConfig = \<lparr>
     PublicPrefixes = [''/healthz'', ''/readyz'', ''/metrics'', ''/api/v1/auth/login'', ''/api/v1/auth/refresh'',
       ''/api/v1/auth/register'', ''/api/v1/catalog'', ''/api/v1/search'', ''/api/v1/shops'', ''/api/v1/cart'', ''/api/v1/events''],
     AdminPrefixes = [''/api/v1/admin''],
     AdminRoles = [''admin'', ''platform_admin'']\<rparr>"

record decision =
  dc_Allow :: bool
  dc_Status :: int
  dc_Reason :: string

definition allow_for :: "string \<Rightarrow> decision" where
  "allow_for reason = \<lparr>dc_Allow = True, dc_Status = 0, dc_Reason = reason\<rparr>"

definition deny_for :: "int \<Rightarrow> string \<Rightarrow> decision" where
  "deny_for st reason = \<lparr>dc_Allow = False, dc_Status = st, dc_Reason = reason\<rparr>"

fun split_on :: "char \<Rightarrow> string \<Rightarrow> string list" where
  "split_on sep [] = ['''']"
| "split_on sep (c # s) = (if c = sep then '''' # split_on sep s
     else (case split_on sep s of [] \<Rightarrow> [[c]] | x # xs \<Rightarrow> (c # x) # xs))"

text \<open>Missing keys of a Go map read as the empty string.\<close>

definition hget :: "(string \<rightharpoonup> string) \<Rightarrow> string \<Rightarrow> string" where
  "hget h k = (case h k of None \<Rightarrow> '''' | Some v \<Rightarrow> v)"

definition access_prefix :: string where
  "access_prefix = ''access_token=''"

definition cookie_token :: "string \<Rightarrow> string" where
  "cookie_token c = (case List.find (prefix access_prefix) (map TrimSpace (split_on (CHR '';'') c)) of
       None \<Rightarrow> '''' | Some part \<Rightarrow> drop (length access_prefix) part)"

definition bearerFromHeaders :: "(string \<rightharpoonup> string) \<Rightarrow> string" where
  "bearerFromHeaders h =
     (case (if hget h ''authorization'' = '''' then None else BearerFromAuthHeader (hget h ''authorization'')) of
       Some b \<Rightarrow> b
     | None \<Rightarrow> if hget h ''cookie'' = '''' then '''' else cookie_token (hget h ''cookie''))"

definition rolesFromClaims :: "claims \<Rightarrow> string list" where
  "rolesFromClaims cl = (case map_of cl ''realm_access'' of
       Some (JObj ra) \<Rightarrow> (case map_of ra ''roles'' of Some (JArr raw) \<Rightarrow> role_strings raw | _ \<Rightarrow> [])
     | _ \<Rightarrow> [])"

definition hasPrefix :: "string \<Rightarrow> string list \<Rightarrow> bool" where
  "hasPrefix path ps \<longleftrightarrow> list_ex (\<lambda>p. prefix p path) ps"

definition anyIn :: "string list \<Rightarrow> string list \<Rightarrow> bool" where
  "anyIn have_roles want \<longleftrightarrow> list_ex (\<lambda>h. list_ex (\<lambda>w. h = w) want) have_roles"

definition Check :: "authz_config \<Rightarrow> (string \<Rightarrow> go_err + claims) \<Rightarrow> int \<Rightarrow> string \<Rightarrow> (string \<rightharpoonup> string) \<Rightarrow> decision" where
  "Check cfg decode t path headers =
     (if hasPrefix path (PublicPrefixes cfg) then allow_for ''PUBLIC_ROUTE''
      else let raw = bearerFromHeaders headers in
        if raw = '''' then deny_for 401 ''NO_TOKEN''
        else case ParseInsecure decode t raw of
          Inl _ \<Rightarrow> deny_for 401 ''TOKEN_REJECTED''
        | Inr cl \<Rightarrow>
            if hasPrefix path (AdminPrefixes cfg) \<and> \<not> anyIn (rolesFromClaims cl) (AdminRoles cfg)
            then deny_for 403 ''ADMIN_ROLE_REQUIRED''
            else allow_for ''TOKEN_PRESENT'')"

text \<open>\<open>server.Check\<close>: OK, or the HTTP code and the reason.\<close>

datatype authz_response = AuthzOk | AuthzDenied int string

definition authz_answer :: "(string \<Rightarrow> go_err + claims) \<Rightarrow> int \<Rightarrow> string \<Rightarrow> (string \<rightharpoonup> string) \<Rightarrow> authz_response" where
  "authz_answer decode t path headers =
     (let d = Check DefaultConfig decode t path headers in
      if dc_Allow d then AuthzOk else AuthzDenied (if dc_Status d = 403 then 403 else 401) (dc_Reason d))"

subsection \<open>What gets through\<close>

lemma rolesFromClaims_eq: "rolesFromClaims cl = extractRealmRoles cl"
  by (simp add: rolesFromClaims_def extractRealmRoles_def)

lemma anyIn_iff: "anyIn xs ys \<longleftrightarrow> set xs \<inter> set ys \<noteq> {}"
  by (auto simp: anyIn_def list_ex_iff)

lemma AuthzOk_iff:
  "authz_answer decode t path h = AuthzOk \<longleftrightarrow> hasPrefix path (PublicPrefixes DefaultConfig) \<or>
     (\<exists>cl. bearerFromHeaders h \<noteq> '''' \<and> ParseInsecure decode t (bearerFromHeaders h) = Inr cl \<and>
       (hasPrefix path [''/api/v1/admin''] \<longrightarrow> set (extractRealmRoles cl) \<inter> {''admin'', ''platform_admin''} \<noteq> {}))"
  by (cases "ParseInsecure decode t (bearerFromHeaders h)")
     (auto simp: authz_answer_def Check_def Let_def allow_for_def deny_for_def rolesFromClaims_eq anyIn_iff DefaultConfig_def)

lemma admin_not_public: "prefix ''/api/v1/admin'' path \<Longrightarrow> \<not> hasPrefix path (PublicPrefixes DefaultConfig)"
  by (auto simp: hasPrefix_def DefaultConfig_def prefix_def)

theorem admin_routes_need_a_role:
  assumes "authz_answer decode t (''/api/v1/admin'' @ rest) h = AuthzOk"
  shows "\<exists>cl. ParseInsecure decode t (bearerFromHeaders h) = Inr cl \<and>
     set (extractRealmRoles cl) \<inter> {''admin'', ''platform_admin''} \<noteq> {}"
proof -
  have "hasPrefix (''/api/v1/admin'' @ rest) [''/api/v1/admin'']" by (simp add: hasPrefix_def)
  moreover have "\<not> hasPrefix (''/api/v1/admin'' @ rest) (PublicPrefixes DefaultConfig)" by (rule admin_not_public) (simp add: prefix_def)
  ultimately show ?thesis using assms unfolding AuthzOk_iff by blast
qed

subsection \<open>The ingress and the services\<close>

text \<open>
  What the services rely on in the JWT library: a token it accepts has three parts, the middle one holds the claims it
  answers, and it has not expired.  Then the ingress never turns away a caller a service would accept.
\<close>

definition accepts_only :: "(string \<Rightarrow> go_err + claims) \<Rightarrow> (string \<Rightarrow> go_err + claims) \<Rightarrow> int \<Rightarrow> bool" where
  "accepts_only verify_token decode t \<longleftrightarrow> (\<forall>raw cl. verify_token raw = Inr cl \<longrightarrow>
     (\<exists>hd_part sig hcl body. split_dots raw = [hd_part, body, sig] \<and> decode hd_part = Inr hcl \<and> decode body = Inr cl \<and>
       (case map_of cl ''exp'' of Some (JNum ex) \<Rightarrow> t \<le> ex * 1000000000 | _ \<Rightarrow> True)))"

lemma verified_parses:
  assumes "accepts_only verify_token decode t" "verify_token raw = Inr cl"
  shows "ParseInsecure decode t raw = Inr cl"
proof -
  obtain hd_part sig hcl body where "split_dots raw = [hd_part, body, sig]" "decode hd_part = Inr hcl" "decode body = Inr cl"
      and "case map_of cl ''exp'' of Some (JNum ex) \<Rightarrow> t \<le> ex * 1000000000 | _ \<Rightarrow> True"
    using assms unfolding accepts_only_def by blast
  then show ?thesis by (auto simp: ParseInsecure_def split: option.splits json.splits)
qed

theorem ingress_admits_callers:
  assumes lib: "accepts_only verify_token decode t"
    and v: "Verify verify_token (bearerFromHeaders h) = Inr p" and h: "bearerFromHeaders h \<noteq> ''''"
    and adm: "hasPrefix path [''/api/v1/admin''] \<longrightarrow> HasAnyRole p [''admin'', ''platform_admin'']"
  shows "authz_answer decode t path h = AuthzOk"
proof -
  obtain cl where cl: "verify_token (bearerFromHeaders h) = Inr cl" and roles: "Roles p = extractRealmRoles cl"
    using v by (auto simp: Verify_def split: sum.splits if_splits)
  show ?thesis
    using verified_parses [OF lib cl] h adm roles unfolding AuthzOk_iff by (auto simp: HasAnyRole_def HasRole_def)
qed


text \<open>A codec in which a token spells its expiry: \<open>h.<digits>.s\<close>.\<close>

definition plain_decode :: "string \<Rightarrow> go_err + claims" where
  "plain_decode s = Inr [(''exp'', JNum (int (nat_val s))), (''sub'', JStr ''u'')]"

definition plain_parse :: "int \<Rightarrow> string \<Rightarrow> go_err + claims" where
  "plain_parse t raw = (case split_dots raw of
       [h, body, sig] \<Rightarrow> if t \<le> int (nat_val body) * 1000000000 then plain_decode body else Inl ConnErr
     | _ \<Rightarrow> Inl ConnErr)"

lemma plain_accepts_only: "accepts_only (plain_parse t) plain_decode t"
  by (auto simp: accepts_only_def plain_parse_def plain_decode_def split: list.splits if_splits)

lemma cookie_sample:
  "bearerFromHeaders [''cookie'' \<mapsto> ''cart_id=c1; access_token=h.9.s ; x=y''] = ''h.9.s'' \<and>
   authz_answer plain_decode 0 ''/api/v1/orders'' [''cookie'' \<mapsto> ''cart_id=c1; access_token=h.9.s ; x=y''] = AuthzOk \<and>
   authz_answer plain_decode 0 ''/api/v1/admin/coupons'' [''cookie'' \<mapsto> ''access_token=h.9.s''] = AuthzDenied 403 ''ADMIN_ROLE_REQUIRED'' \<and>
   authz_answer plain_decode 0 ''/api/v1/orders'' Map.empty = AuthzDenied 401 ''NO_TOKEN''"
  by code_simp

end
