(* ===== verification/Media.thy ===== *)
theory Media
  imports StoreKit Outbox Auth "HOL-Library.Sublist"
begin

section \<open>The media service (services/media)\<close>

text \<open>
  Assets and their object keys (internal/domain), the table of assets with its outbox (internal/store), the wrapper of the
  object store (internal/objstore) and the handlers (internal/grpcsvc).  MinIO is outside the repository: the code reaches
  it through the record \<open>minio_api\<close>, one operation per call of the client library.
\<close>

subsection \<open>Assets\<close>

datatype asset_status = AssetPending | AssetReady | AssetRejected

definition MaxUploadBytes :: int where "MaxUploadBytes = push_bit 20 25"

definition allowedBuckets :: "string list" where
  "allowedBuckets = [''product-media'', ''invoices'', ''exports'']"

definition allowedContentTypes :: "(string \<times> string) list" where
  "allowedContentTypes = [(''image/jpeg'', ''.jpg''), (''image/png'', ''.png''), (''image/webp'', ''.webp''), (''image/avif'', ''.avif''),
     (''application/pdf'', ''.pdf''), (''text/csv'', ''.csv''), (''application/json'', ''.json'')]"

record asset =
  as_Key :: string
  as_Bucket :: string
  as_ContentType :: string
  as_SizeBytes :: int
  as_Status :: asset_status
  as_CreatedBy :: string
  as_CreatedAt :: int
  as_UpdatedAt :: int

definition isKnownExt :: "string \<Rightarrow> bool" where
  "isKnownExt ext \<longleftrightarrow> ext \<in> snd ` set allowedContentTypes"

text \<open>\<open>path.Ext\<close>: from the last dot of the last element on.\<close>

definition path_Ext :: "string \<Rightarrow> string" where
  "path_Ext s = (let base = takeWhile (\<lambda>c. c \<noteq> CHR ''/'') (rev s); ext = takeWhile (\<lambda>c. c \<noteq> CHR ''.'') base
     in if length ext < length base then CHR ''.'' # rev ext else '''')"

definition hex_digit :: "nat \<Rightarrow> char" where
  "hex_digit n = ''0123456789abcdef'' ! (n mod 16)"

definition hex_string :: "string \<Rightarrow> string" where
  "hex_string s = concat (map (\<lambda>c. let n = of_char c :: nat in [hex_digit (n div 16), hex_digit n]) s)"

text \<open>\<open>month\<close> prints a time with the layout \<open>2006/01\<close>; \<open>rnd\<close> is what \<open>rand.Read\<close> put in the 16 bytes.\<close>

definition NewUpload :: "(int \<Rightarrow> string) \<Rightarrow> int \<Rightarrow> string \<Rightarrow> string \<Rightarrow> string \<Rightarrow> string \<Rightarrow> int \<Rightarrow> string \<Rightarrow> asset res" where
  "NewUpload month t rnd bucket filename contentType sizeBytes createdBy =
     (if bucket \<notin> set allowedBuckets then Inl (errs_New KindInvalidArgument ''BUCKET_NOT_ALLOWED'')
      else case map_of allowedContentTypes contentType of
        None \<Rightarrow> Inl (errs_New KindInvalidArgument ''CONTENT_TYPE_NOT_ALLOWED'')
      | Some ext0 \<Rightarrow>
          if sizeBytes \<le> 0 \<or> sizeBytes > MaxUploadBytes then Inl (errs_New KindInvalidArgument ''SIZE_OUT_OF_RANGE'')
          else let fe = map lower (path_Ext filename); ext = (if fe \<noteq> '''' \<and> isKnownExt fe then fe else ext0)
               in Inr \<lparr>as_Key = bucket @ ''/'' @ month t @ ''/'' @ hex_string rnd @ ext, as_Bucket = bucket,
                    as_ContentType = contentType, as_SizeBytes = sizeBytes, as_Status = AssetPending, as_CreatedBy = createdBy,
                    as_CreatedAt = 0, as_UpdatedAt = 0\<rparr>)"

definition as_MarkReady :: "asset \<Rightarrow> int \<Rightarrow> string \<Rightarrow> asset res" where
  "as_MarkReady a actualSize actualContentType =
     (if as_Status a = AssetReady then Inr a
      else if as_Status a \<noteq> AssetPending then Inl (errs_New KindFailedPrecondition ''NOT_PENDING'')
      else if actualSize \<le> 0 \<or> actualSize > MaxUploadBytes then Inl (errs_New KindFailedPrecondition ''BAD_OBJECT_SIZE'')
      else if actualContentType \<noteq> '''' \<and> actualContentType \<noteq> as_ContentType a
        then Inl (errs_New KindFailedPrecondition ''CONTENT_TYPE_MISMATCH'')
      else Inr (a\<lparr>as_SizeBytes := actualSize, as_Status := AssetReady\<rparr>))"

subsection \<open>Store\<close>

text \<open>Key, URL, content type, size and time.\<close>

datatype media_event = AssetReadyEvent string string string int int

record media_db =
  assets :: "asset list"
  mdox :: "media_event outbox"

definition empty_media_db :: media_db where
  "empty_media_db = \<lparr>assets = [], mdox = empty_outbox\<rparr>"

definition insert_asset :: "asset \<Rightarrow> int \<Rightarrow> media_db \<Rightarrow> go_err + (unit \<times> media_db)" where
  "insert_asset a t d = (if as_Key a \<in> as_Key ` set (assets d) then Inl uniqueViolation
     else Inr ((), d\<lparr>assets := assets d @ [a\<lparr>as_CreatedAt := t, as_UpdatedAt := t\<rparr>]\<rparr>))"

definition md_Insert :: "asset \<Rightarrow> (media_db, unit) prog" where
  "md_Insert a = map_err wrap (exec_chk (insert_asset a))"

definition find_asset :: "string \<Rightarrow> media_db \<Rightarrow> asset option" where
  "find_asset key d = List.find (\<lambda>a. as_Key a = key) (assets d)"

definition md_Get :: "string \<Rightarrow> (media_db, asset) prog" where
  "md_Get key = or_not_found (errs_New KindNotFound ''ASSET_NOT_FOUND'') (query_row (find_asset key))"

definition set_ready :: "string \<Rightarrow> int \<Rightarrow> int \<Rightarrow> media_db \<Rightarrow> media_db" where
  "set_ready key n t d = d\<lparr>assets := map (\<lambda>a. if as_Key a = key
     then a\<lparr>as_Status := AssetReady, as_SizeBytes := n, as_UpdatedAt := t\<rparr> else a) (assets d)\<rparr>"

definition md_MarkReady :: "asset \<Rightarrow> string \<Rightarrow> (media_db, unit) prog" where
  "md_MarkReady a servedURL = in_tx (
     bnd (map_err wrap (exec (set_ready (as_Key a) (as_SizeBytes a)))) (\<lambda>_.
     bnd (map_err wrap (exec (\<lambda>t d. d\<lparr>mdox := outbox_add ''commerce.media.asset_ready'' (as_Key a)
            (AssetReadyEvent (as_Key a) servedURL (as_ContentType a) (as_SizeBytes a) t) t (mdox d)\<rparr>))) (\<lambda>_.
     ret (Commit ()))))"

subsection \<open>The object store\<close>

text \<open>\<open>StatObject\<close> answers the size and the content type, or nothing where its error has the code \<open>NoSuchKey\<close>.\<close>

record 'd minio_api =
  PresignedPutObject :: "string \<Rightarrow> string \<Rightarrow> int \<Rightarrow> ('d, string) prog"
  StatObject :: "string \<Rightarrow> string \<Rightarrow> ('d, (int \<times> string) option) prog"

definition keyWithinBucket :: "string \<Rightarrow> string \<Rightarrow> string" where
  "keyWithinBucket bucket fullKey = (let pre = bucket @ ''/'' in
     if length fullKey > length pre \<and> take (length pre) fullKey = pre then drop (length pre) fullKey else fullKey)"

definition PresignPut :: "'d minio_api \<Rightarrow> string \<Rightarrow> string \<Rightarrow> int \<Rightarrow> ('d, string \<times> int) prog" where
  "PresignPut api bucket key ttl =
     bnd (map_err (\<lambda>err. errs_Wrap err KindInternal ''PRESIGN_FAILED'')
            (PresignedPutObject api bucket (keyWithinBucket bucket key) ttl)) (\<lambda>u.
     bnd (asks now) (\<lambda>t. ret (u, t + ttl)))"

definition Head :: "'d minio_api \<Rightarrow> string \<Rightarrow> string \<Rightarrow> ('d, int \<times> string \<times> bool) prog" where
  "Head api bucket key =
     bnd (map_err (\<lambda>err. errs_Wrap err KindInternal ''HEAD_FAILED'') (StatObject api bucket (keyWithinBucket bucket key))) (\<lambda>info.
     ret (case info of None \<Rightarrow> (0, '''', False) | Some (n, ct) \<Rightarrow> (n, ct, True)))"

definition PublicURL :: "string \<Rightarrow> string \<Rightarrow> string" where
  "PublicURL baseURL fullKey = (if baseURL = '''' then ''/'' @ fullKey else baseURL @ ''/'' @ fullKey)"

subsection \<open>Handlers\<close>

text \<open>What the handlers reach: the database and, in \<open>'x\<close>, whatever the object store is.\<close>

record media_sys =
  md_db :: media_db

definition at_media :: "(media_db, 'a) prog \<Rightarrow> ('x media_sys_scheme, 'a) prog" where
  "at_media p = zoom md_db md_db_update p"

record asset_msg =
  am_Key :: string
  am_Url :: string
  am_Status :: asset_status
  am_ContentType :: string
  am_SizeBytes :: int

definition toAsset :: "asset \<Rightarrow> string \<Rightarrow> asset_msg" where
  "toAsset a url = \<lparr>am_Key = as_Key a, am_Url = url, am_Status = as_Status a, am_ContentType = as_ContentType a,
     am_SizeBytes = as_SizeBytes a\<rparr>"

definition uploadTTL :: int where "uploadTTL = 15 * 60 * 1000000000"

definition CreateUploadURL ::
  "('x media_sys_scheme) minio_api \<Rightarrow> (int \<Rightarrow> string) \<Rightarrow> string \<Rightarrow> caller \<Rightarrow> string \<Rightarrow> string \<Rightarrow> string \<Rightarrow> int \<Rightarrow>
   ('x media_sys_scheme, string \<times> string \<times> int) prog" where
  "CreateUploadURL api month rnd c bucket filename contentType sizeBytes =
     bnd (lift_res (RequireRole c ''catalog_manager'')) (\<lambda>_.
     bnd (asks now) (\<lambda>t.
     bnd (lift_res (NewUpload month t rnd bucket filename contentType sizeBytes
            (case c of None \<Rightarrow> '''' | Some p \<Rightarrow> Subject p))) (\<lambda>a.
     bnd (at_media (md_Insert a)) (\<lambda>_.
     bnd (PresignPut api (as_Bucket a) (as_Key a) uploadTTL) (\<lambda>(url, expires).
     ret (as_Key a, url, expires))))))"

text \<open>The rest of a confirmation, once the asset has been read; another confirmation may run in between.\<close>

definition confirm_read :: "('x media_sys_scheme) minio_api \<Rightarrow> string \<Rightarrow> asset \<Rightarrow> ('x media_sys_scheme, asset_msg) prog" where
  "confirm_read api baseURL a =
     bnd (Head api (as_Bucket a) (as_Key a)) (\<lambda>(n, ctype, found).
     if \<not> found then fail (errs_New KindFailedPrecondition ''OBJECT_MISSING'')
     else bnd (lift_res (as_MarkReady a n ctype)) (\<lambda>a'.
          bnd (at_media (md_MarkReady a' (PublicURL baseURL (as_Key a')))) (\<lambda>_.
          ret (toAsset a' (PublicURL baseURL (as_Key a'))))))"

definition ConfirmUpload ::
  "('x media_sys_scheme) minio_api \<Rightarrow> string \<Rightarrow> caller \<Rightarrow> string \<Rightarrow> ('x media_sys_scheme, asset_msg) prog" where
  "ConfirmUpload api baseURL c key =
     bnd (lift_res (RequireRole c ''catalog_manager'')) (\<lambda>_.
     bnd (at_media (md_Get key)) (confirm_read api baseURL))"

definition GetAsset :: "string \<Rightarrow> string \<Rightarrow> ('x media_sys_scheme, asset_msg) prog" where
  "GetAsset baseURL key =
     bnd (at_media (md_Get key)) (\<lambda>a. ret (toAsset a (PublicURL baseURL (as_Key a))))"

end
