(* ===== verification/MediaProps.thy ===== *)
theory MediaProps
  imports Media Quiet SampleEnv
begin

section \<open>Uploads and what is announced of them\<close>

text \<open>
  The keys, the client of the object store under the contract \<open>object_store\<close>, the machine of uploads and confirmations in
  any interleaving, and what every announced asset satisfies.
\<close>

subsection \<open>Keys\<close>

lemma keyWithinBucket_strips: "rest \<noteq> [] \<Longrightarrow> keyWithinBucket b (b @ ''/'' @ rest) = rest"
  by (simp add: keyWithinBucket_def Let_def)

definition asset_ok :: "asset \<Rightarrow> bool" where
  "asset_ok a \<longleftrightarrow> as_Bucket a \<in> set allowedBuckets \<and> map_of allowedContentTypes (as_ContentType a) \<noteq> None \<and>
     0 < as_SizeBytes a \<and> as_SizeBytes a \<le> MaxUploadBytes \<and> prefix (as_Bucket a @ ''/'') (as_Key a)"

lemma NewUpload_ok: "NewUpload month t rnd b f ct n o' = Inr a \<Longrightarrow> asset_ok a \<and> as_Status a = AssetPending"
  by (auto simp: NewUpload_def asset_ok_def Let_def prefix_def split: if_splits option.splits)

lemma MarkReady_ok:
  "as_MarkReady a n ct = Inr a' \<Longrightarrow> asset_ok a \<Longrightarrow>
   asset_ok a' \<and> as_Status a' = AssetReady \<and> as_Key a' = as_Key a \<and> as_Bucket a' = as_Bucket a \<and> as_ContentType a' = as_ContentType a"
  by (auto simp: as_MarkReady_def asset_ok_def split: if_splits)

subsection \<open>The client of the object store\<close>

text \<open>What the service relies on: signing an URL and asking for an object change nothing, and the answer is the object
  that is there.\<close>

locale object_store =
  fixes api :: "('x media_sys_scheme) minio_api" and stored :: "'x media_sys_scheme \<Rightarrow> string \<Rightarrow> string \<Rightarrow> (int \<times> string) option"
  assumes presign_law: "wp (PresignedPutObject api b k ttl) (\<lambda>_ d' _. d' = d) d e"
    and stat_law: "wp (StatObject api b k) (\<lambda>r d' _. d' = d \<and> (\<forall>x. r = Inr x \<longrightarrow> x = stored d b k)) d e"
begin

lemma wp_Head:
  "wp (Head api b k) (\<lambda>r d' _. d' = d \<and> (\<forall>n ct. r = Inr (n, ct, True) \<longrightarrow> stored d b (keyWithinBucket b k) = Some (n, ct))) d e"
  unfolding Head_def by (auto intro!: wp_mono [OF stat_law] split: sum.splits option.splits)

lemma wp_PresignPut: "wp (PresignPut api b k ttl) (\<lambda>_ d' _. d' = d) d e"
  unfolding PresignPut_def by (auto intro!: wp_mono [OF presign_law] split: sum.splits)

text \<open>A confirmation that succeeds found the object under the key of the asset, and, for an asset that was awaiting it, of an
  admissible size and of the declared type or none.\<close>

lemma wp_confirm_read:
  "wp (confirm_read api base a) (\<lambda>r d' _. (\<exists>x. d' = md_db_update (\<lambda>_. x) d) \<and>
     (\<forall>m. r = Inr m \<longrightarrow> (\<exists>n ct a'. stored d (as_Bucket a) (keyWithinBucket (as_Bucket a) (as_Key a)) = Some (n, ct) \<and>
        as_MarkReady a n ct = Inr a' \<and> m = toAsset a' (PublicURL base (as_Key a'))))) d e"
proof -
  have same: "\<exists>x. d = md_db_update (\<lambda>_. x) d" by (rule exI [of _ "md_db d"]) simp
  show ?thesis
    unfolding confirm_read_def at_media_def
    by (auto simp: same intro!: wp_mono [OF wp_Head] wp_always [where m = "md_MarkReady x u" for x u] split: sum.splits)
qed

end

text \<open>The object store as a map from bucket and key to size and content type.\<close>

record media_world = media_sys +
  mw_objects :: "((string \<times> string) \<times> (int \<times> string)) list"
  mw_read :: "asset list"

definition minio :: "media_world minio_api" where
  "minio = \<lparr>PresignedPutObject = (\<lambda>b k ttl. query (\<lambda>_ _. b @ ''/'' @ k)),
     StatObject = (\<lambda>b k. query (\<lambda>_ d. map_of (mw_objects d) (b, k)))\<rparr>"

interpretation minio: object_store minio "\<lambda>d b k. map_of (mw_objects d) (b, k)"
  by unfold_locales (auto simp: minio_def intro!: wp_queryI)

subsection \<open>The machine\<close>

text \<open>An upload requested, an object put by whoever holds a signed URL (or by anyone: nothing is assumed of it), and a
  confirmation in two steps, so that others may run between its read and its write.\<close>

datatype media_op =
    UploadRequested string caller string string string int
  | ObjectPut string string int string
  | ConfirmBegan caller string
  | ConfirmEnded nat

fun media_prog :: "(int \<Rightarrow> string) \<Rightarrow> string \<Rightarrow> media_op \<Rightarrow> (media_world, unit) prog" where
  "media_prog month base (UploadRequested rnd c b f ct n) = discard (CreateUploadURL minio month rnd c b f ct n)"
| "media_prog month base (ObjectPut b k n ct) = (\<lambda>d e. (Inr (), d\<lparr>mw_objects := ((b, k), (n, ct)) # mw_objects d\<rparr>, e))"
| "media_prog month base (ConfirmBegan c key) =
     bnd (lift_res (RequireRole c ''catalog_manager'')) (\<lambda>_.
     bnd (at_media (md_Get key)) (\<lambda>a d e. (Inr (), d\<lparr>mw_read := mw_read d @ [a]\<rparr>, e)))"
| "media_prog month base (ConfirmEnded i) = (\<lambda>d.
     if i < length (mw_read d) then discard (confirm_read minio base (mw_read d ! i)) d else ret () d)"

definition media_step :: "(int \<Rightarrow> string) \<Rightarrow> string \<Rightarrow> media_op \<Rightarrow> env \<Rightarrow> media_world \<Rightarrow> media_world" where
  "media_step month base op = after (media_prog month base op)"

definition empty_media_world :: media_world where
  "empty_media_world = \<lparr>md_db = empty_media_db, mw_objects = [], mw_read = []\<rparr>"

text \<open>An asset read earlier is still there, with the same bucket and declared type.\<close>

definition known_as :: "media_db \<Rightarrow> asset \<Rightarrow> bool" where
  "known_as d a \<longleftrightarrow> asset_ok a \<and> (\<exists>x\<in>set (assets d). as_Key x = as_Key a \<and> as_Bucket x = as_Bucket a \<and> as_ContentType x = as_ContentType a)"

definition announced_ok :: "string \<Rightarrow> media_db \<Rightarrow> media_event \<Rightarrow> bool" where
  "announced_ok base d ev = (case ev of AssetReadyEvent k url ct n t \<Rightarrow>
     url = PublicURL base k \<and> 0 < n \<and> n \<le> MaxUploadBytes \<and>
     (\<exists>x\<in>set (assets d). as_Key x = k \<and> as_ContentType x = ct \<and> as_Status x = AssetReady))"

definition media_db_inv :: "string \<Rightarrow> media_db \<Rightarrow> bool" where
  "media_db_inv base d \<longleftrightarrow> distinct (map as_Key (assets d)) \<and> (\<forall>a\<in>set (assets d). asset_ok a) \<and>
     (\<forall>ev\<in>set (events (mdox d)). announced_ok base d ev)"

definition media_inv :: "string \<Rightarrow> media_world \<Rightarrow> bool" where
  "media_inv base s \<longleftrightarrow> media_db_inv base (md_db s) \<and> (\<forall>a\<in>set (mw_read s). known_as (md_db s) a)"

definition grows :: "string \<Rightarrow> media_db \<Rightarrow> media_db \<Rightarrow> bool" where
  "grows base d d' \<longleftrightarrow> media_db_inv base d' \<and> (\<forall>a. known_as d a \<longrightarrow> known_as d' a)"

lemma grows_refl: "media_db_inv base d \<Longrightarrow> grows base d d"
  by (simp add: grows_def)

text \<open>Every asset is carried over with its key, bucket and declared type, and a ready one stays ready.\<close>

definition carried :: "media_db \<Rightarrow> media_db \<Rightarrow> bool" where
  "carried d d' \<longleftrightarrow> (\<forall>x\<in>set (assets d). \<exists>y\<in>set (assets d'). as_Key y = as_Key x \<and> as_Bucket y = as_Bucket x \<and>
     as_ContentType y = as_ContentType x \<and> (as_Status x = AssetReady \<longrightarrow> as_Status y = AssetReady))"

lemma known_as_carried: "carried d d' \<Longrightarrow> known_as d a \<Longrightarrow> known_as d' a"
  unfolding carried_def known_as_def by metis

lemma announced_carried: "carried d d' \<Longrightarrow> announced_ok base d ev \<Longrightarrow> announced_ok base d' ev"
  unfolding carried_def announced_ok_def by (cases ev) (simp, metis)

lemma grows_insert:
  assumes inv: "media_db_inv base d" and a: "asset_ok a" and ins: "insert_asset a t d = Inr (u, d')"
  shows "grows base d d'"
proof -
  have rows: "assets d' = assets d @ [a\<lparr>as_CreatedAt := t, as_UpdatedAt := t\<rparr>]" "as_Key a \<notin> as_Key ` set (assets d)" "mdox d' = mdox d"
    using ins by (auto simp: insert_asset_def split: if_splits)
  have c: "carried d d'" by (auto simp: carried_def rows)
  have "asset_ok (a\<lparr>as_CreatedAt := t, as_UpdatedAt := t\<rparr>)" using a by (simp add: asset_ok_def)
  then show ?thesis
    using inv rows announced_carried [OF c] known_as_carried [OF c] by (auto simp: grows_def media_db_inv_def)
qed

definition ready_row :: "string \<Rightarrow> int \<Rightarrow> int \<Rightarrow> asset \<Rightarrow> asset" where
  "ready_row key n t a = (if as_Key a = key then a\<lparr>as_Status := AssetReady, as_SizeBytes := n, as_UpdatedAt := t\<rparr> else a)"

lemma set_ready_rows: "set_ready key n t d = d\<lparr>assets := map (ready_row key n t) (assets d)\<rparr>"
  by (simp add: set_ready_def ready_row_def [abs_def])

lemma ready_row_sel [simp]:
  "as_Key (ready_row k n t a) = as_Key a" "as_Bucket (ready_row k n t a) = as_Bucket a"
  "as_ContentType (ready_row k n t a) = as_ContentType a"
  "as_Status (ready_row k n t a) = AssetReady \<longleftrightarrow> as_Key a = k \<or> as_Status a = AssetReady"
  "as_SizeBytes (ready_row k n t a) = (if as_Key a = k then n else as_SizeBytes a)"
  by (simp_all add: ready_row_def)

lemma ready_row_ok: "asset_ok a \<Longrightarrow> 0 < n \<Longrightarrow> n \<le> MaxUploadBytes \<Longrightarrow> asset_ok (ready_row k n t a)"
  by (simp add: asset_ok_def)

lemma set_ready_mdox [simp]: "mdox (set_ready k n t d) = mdox d"
  by (simp add: set_ready_rows)

lemma grows_ready:
  assumes inv: "media_db_inv base d" and a: "known_as d a"
  shows "grows base d (set_ready (as_Key a) (as_SizeBytes a) t d
     \<lparr>mdox := outbox_add tp k (AssetReadyEvent (as_Key a) (PublicURL base (as_Key a)) (as_ContentType a) (as_SizeBytes a) t') t' (mdox d)\<rparr>)"
    (is "grows base d ?d'")
proof -
  have rows: "assets ?d' = map (ready_row (as_Key a) (as_SizeBytes a) t) (assets d)" by (simp add: set_ready_rows)
  have sz: "0 < as_SizeBytes a" "as_SizeBytes a \<le> MaxUploadBytes" using a by (simp_all add: known_as_def asset_ok_def)
  have c: "carried d ?d'" unfolding carried_def rows by fastforce
  obtain x where x: "x \<in> set (assets d)" "as_Key x = as_Key a" "as_ContentType x = as_ContentType a"
    using a by (auto simp: known_as_def)
  have "ready_row (as_Key a) (as_SizeBytes a) t x \<in> set (assets ?d')" using x(1) rows by simp
  then have new: "announced_ok base ?d' (AssetReadyEvent (as_Key a) (PublicURL base (as_Key a)) (as_ContentType a) (as_SizeBytes a) t')"
    unfolding announced_ok_def using x sz by (auto intro!: bexI [of _ "ready_row (as_Key a) (as_SizeBytes a) t x"])
  have evs: "events (mdox ?d') = events (mdox d) @ [AssetReadyEvent (as_Key a) (PublicURL base (as_Key a)) (as_ContentType a) (as_SizeBytes a) t']"
    by simp
  have oks: "\<forall>x\<in>set (assets ?d'). asset_ok x" using inv sz by (auto simp: rows media_db_inv_def ready_row_ok)
  have "media_db_inv base ?d'"
    unfolding media_db_inv_def evs using inv oks new announced_carried [OF c]
    by (auto simp: media_db_inv_def rows comp_def)
  then show ?thesis using known_as_carried [OF c] by (simp add: grows_def)
qed

lemma wp_md_Insert:
  assumes "media_db_inv base d" "asset_ok a"
  shows "wp (md_Insert a) (\<lambda>_ d' _. grows base d d') d e"
  unfolding md_Insert_def
  by (auto intro!: wp_exec_chkI grows_insert [OF assms] grows_refl [OF assms(1)] split: sum.splits)

lemma wp_md_MarkReady:
  assumes inv: "media_db_inv base d" and a: "known_as d a"
  shows "wp (md_MarkReady a (PublicURL base (as_Key a))) (\<lambda>_ d' _. grows base d d') d e"
  unfolding md_MarkReady_def
  by (rule wp_in_txI) (auto simp: inv a intro!: wp_execI grows_ready [OF inv a, simplified set_ready_mdox] grows_refl split: sum.splits)

lemma find_asset_known: "media_db_inv base d \<Longrightarrow> find_asset k d = Some a \<Longrightarrow> known_as d a"
  by (auto simp: find_asset_def known_as_def media_db_inv_def find_Some_iff)

lemma media_inv_grows:
  "media_inv base s \<Longrightarrow> grows base (md_db s) x \<Longrightarrow> media_inv base (md_db_update (\<lambda>_. x) s)"
  by (simp add: media_inv_def grows_def)


lemma wp_CreateUploadURL:
  assumes inv: "media_db_inv base (md_db s)"
  shows "wp (CreateUploadURL minio month rnd c b f ct n)
    (\<lambda>_ s' _. \<exists>x. s' = md_db_update (\<lambda>_. x) s \<and> grows base (md_db s) x) s e"
proof -
  define G where "G s' \<longleftrightarrow> (\<exists>x. s' = md_db_update (\<lambda>_. x) s \<and> grows base (md_db s) x)" for s'
  have same: "G s" unfolding G_def by (rule exI [of _ "md_db s"]) (simp add: grows_refl inv)
  have upd: "grows base (md_db s) x \<Longrightarrow> G (md_db_update (\<lambda>_. x) s)" for x by (auto simp: G_def)
  have ins: "wp (at_media (md_Insert a)) (\<lambda>_ s' _. G s') s e" if "NewUpload month t rnd b f ct n o' = Inr a" for t o' a e
    unfolding at_media_def using wp_mono [OF wp_md_Insert [OF inv]] NewUpload_ok [OF that] upd by simp
  have "wp (CreateUploadURL minio month rnd c b f ct n) (\<lambda>_ s' _. G s') s e"
    unfolding CreateUploadURL_def
    by (auto simp: same intro!: wp_mono [OF ins] wp_mono [OF minio.wp_PresignPut] split: sum.splits)
  then show ?thesis by (simp add: G_def)
qed

lemma wp_confirm_grows:
  assumes inv: "media_db_inv base (md_db s)" and a: "known_as (md_db s) a"
  shows "wp (confirm_read minio base a) (\<lambda>_ s' _. \<exists>x. s' = md_db_update (\<lambda>_. x) s \<and> grows base (md_db s) x) s e"
proof -
  have same: "\<exists>x. s = md_db_update (\<lambda>_. x) s \<and> grows base (md_db s) x"
    by (rule exI [of _ "md_db s"]) (simp add: grows_refl inv)
  have known: "as_MarkReady a n ct = Inr a' \<Longrightarrow> known_as (md_db s) a'" for n ct a'
    using a MarkReady_ok [of a n ct a'] by (auto simp: known_as_def)
  show ?thesis
    unfolding confirm_read_def at_media_def
    by (auto simp: same intro!: wp_mono [OF minio.wp_Head] wp_mono [OF wp_md_MarkReady [OF inv known]] split: sum.splits)
qed

lemma wp_media_prog:
  assumes inv: "media_inv base s"
  shows "wp (media_prog month base op) (\<lambda>_ s' _. media_inv base s') s e"
proof (cases op)
  case (UploadRequested rnd c b f ct n)
  have "media_db_inv base (md_db s)" using inv by (simp add: media_inv_def)
  then show ?thesis
    unfolding UploadRequested by (auto intro!: wp_mono [OF wp_CreateUploadURL] media_inv_grows [OF inv])
next
  case (ObjectPut b k n ct)
  then show ?thesis using inv by (simp add: wp_def media_inv_def)
next
  case (ConfirmBegan c key)
  have "media_inv base (s\<lparr>mw_read := mw_read s @ [a]\<rparr>)" if "find_asset key (md_db s) = Some a" for a
    using inv find_asset_known [OF _ that] by (auto simp: media_inv_def)
  moreover have "wp (\<lambda>d e. (Inr (), d\<lparr>mw_read := mw_read d @ [a]\<rparr>, e)) Q s e = Q (Inr ()) (s\<lparr>mw_read := mw_read s @ [a]\<rparr>) e" for a Q e
    by (simp add: wp_def)
  ultimately show ?thesis
    using inv unfolding ConfirmBegan by (auto simp: at_media_def md_Get_def intro!: wp_or_not_foundI wp_query_rowI split: sum.splits)
next
  case (ConfirmEnded i)
  show ?thesis
  proof (cases "i < length (mw_read s)")
    case True
    then have "known_as (md_db s) (mw_read s ! i)" "media_db_inv base (md_db s)" using inv by (simp_all add: media_inv_def)
    then have "wp (discard (confirm_read minio base (mw_read s ! i))) (\<lambda>_ s' _. media_inv base s') s e"
      by (auto intro!: wp_mono [OF wp_confirm_grows] media_inv_grows [OF inv])
    with True show ?thesis unfolding ConfirmEnded by (simp add: wp_def)
  next
    case False
    then show ?thesis using inv unfolding ConfirmEnded by (simp add: wp_def ret_def)
  qed
qed

interpretation media: inv_machine "media_step month base" empty_media_world "media_inv base" for month base
proof
  show "media_inv base empty_media_world" by (simp add: media_inv_def media_db_inv_def empty_media_world_def empty_media_db_def)
next
  fix d op e assume "media_inv base d"
  then show "media_inv base (media_step month base op e d)" unfolding media_step_def by (rule after_wp [OF wp_media_prog])
qed

theorem announced_assets_ready:
  assumes "reach (media_step month base) empty_media_world s" and "AssetReadyEvent k url ct n t \<in> set (events (mdox (md_db s)))"
  shows "\<exists>a\<in>set (assets (md_db s)). as_Key a = k \<and> as_Status a = AssetReady \<and> as_ContentType a = ct \<and>
     map_of allowedContentTypes ct \<noteq> None \<and> as_Bucket a \<in> set allowedBuckets \<and> url = PublicURL base k \<and> 0 < n \<and> n \<le> MaxUploadBytes"
  using media.reach_inv [OF assms(1)] assms(2)
  by (fastforce simp: media_inv_def media_db_inv_def announced_ok_def asset_ok_def)

subsection \<open>What a confirmation does not secure\<close>

definition manager :: caller where
  "manager = Some \<lparr>Subject = ''m'', Email = '''', Roles = [''catalog_manager'']\<rparr>"

definition uploaded_then_replaced :: media_world where
  "uploaded_then_replaced =
    (let k = ''2024/05/61.json'' in
     run_ops (media_step (\<lambda>_. ''2024/05'') '''')
       [(UploadRequested ''a'' manager ''product-media'' ''photo.JSON'' ''image/png'' 10, env_at 1),
        (ObjectPut ''product-media'' k 10 ''image/png'', env_at 2),
        (ConfirmBegan manager (''product-media/'' @ k), env_at 3), (ConfirmEnded 0, env_at 4),
        (ObjectPut ''product-media'' k 99999999 ''text/html'', env_at 5),
        (ConfirmBegan manager (''product-media/'' @ k), env_at 6), (ConfirmEnded 1, env_at 7)] empty_media_world)"

text \<open>The extension follows the file name and not the declared type; an object replaced after its confirmation, by one that is
  too large and of another type, is announced a second time under the size and type it no longer has.\<close>

theorem replaced_object_announced_again:
  "map as_Key (assets (md_db uploaded_then_replaced)) = [''product-media/2024/05/61.json''] \<and>
   events (mdox (md_db uploaded_then_replaced)) =
     [AssetReadyEvent ''product-media/2024/05/61.json'' ''/product-media/2024/05/61.json'' ''image/png'' 10 4,
      AssetReadyEvent ''product-media/2024/05/61.json'' ''/product-media/2024/05/61.json'' ''image/png'' 10 7] \<and>
   map_of (mw_objects uploaded_then_replaced) (''product-media'', ''2024/05/61.json'') = Some (99999999, ''text/html'')"
  by code_simp

end
