(* ===== verification/Sink.thy ===== *)
theory Sink
  imports StoreKit OrderStore Payment Kafka
begin

section \<open>The analytics service (services/analytics)\<close>

text \<open>
  Facts and clicks are buffered in memory and written to ClickHouse in batches (internal/clickhouse); two consumers feed
  them (internal/consumer, internal/clickstream).  ClickHouse is outside the repository: a batch is prepared by one request
  and sent by another, each of which may fail or lose its answer.  What runs under the mutex of \<open>Sink\<close> is one step; between
  its steps other goroutines may run, which the tasks below make explicit.
\<close>

subsection \<open>Rows and buffers (internal/clickhouse/clickhouse.go)\<close>

record fact =
  fc_Type :: string
  fc_OccurredAt :: int
  fc_OrderID :: string
  fc_OwnerID :: string
  fc_PaymentID :: string
  fc_AmountMinor :: int64
  fc_Currency :: string
  fc_Reason :: string

record click =
  ck_Type :: string
  ck_OccurredAt :: int
  ck_ClientTime :: int
  ck_AnonymousID :: string
  ck_SessionID :: string
  ck_OwnerID :: string
  ck_Path :: string
  ck_Referrer :: string
  ck_ProductID :: string
  ck_Query :: string
  ck_ValueMinor :: int64
  ck_Currency :: string
  ck_UserAgent :: string

record sink =
  sk_buf :: "fact list"
  sk_clickBuf :: "click list"
  sk_batchSize :: nat
  sk_maxBuffer :: nat
  sk_refused :: nat
  sk_flushFailures :: nat
  sk_degraded :: bool

text \<open>The tables of ClickHouse, in the order of the batches.\<close>

record sink_sys = sink +
  ch_events :: "fact list"
  ch_clicks :: "click list"

definition Open :: "nat \<Rightarrow> nat \<Rightarrow> sink_sys" where
  "Open batchSize maxBuffer = \<lparr>sk_buf = [], sk_clickBuf = [], sk_batchSize = batchSize,
     sk_maxBuffer = (if maxBuffer < batchSize then batchSize else maxBuffer), sk_refused = 0, sk_flushFailures = 0,
     sk_degraded = False, ch_events = [], ch_clicks = []\<rparr>"

definition ErrBufferFull :: go_err where
  "ErrBufferFull = PlainErr ''analytics buffer full''"

text \<open>The counters are unsigned 64-bit.\<close>

definition count_up :: "nat \<Rightarrow> nat" where
  "count_up n = (n + 1) mod 2 ^ 64"

definition refuseLocked :: "'x sink_scheme \<Rightarrow> 'x sink_scheme" where
  "refuseLocked s = s\<lparr>sk_refused := count_up (sk_refused s), sk_degraded := True\<rparr>"

text \<open>
  The code has every operation twice, for \<open>buf\<close> and for \<open>clickBuf\<close>.  Here the buffer is an argument, given by the field that
  reads it and the update that writes it.  First the section of \<open>Add\<close> under the mutex, which answers whether to flush.
\<close>

definition admit :: "(sink_sys \<Rightarrow> 'r list) \<Rightarrow> (('r list \<Rightarrow> 'r list) \<Rightarrow> sink_sys \<Rightarrow> sink_sys) \<Rightarrow> 'r \<Rightarrow> (sink_sys, bool) prog" where
  "admit get upd r = (\<lambda>s e.
     if length (get s) \<ge> sk_maxBuffer s then (Inl ErrBufferFull, refuseLocked s, e)
     else (let s' = upd (\<lambda>b. b @ [r]) s in (Inr (length (get s') \<ge> sk_batchSize s'), s', e)))"

text \<open>The rows a flush copies, and their removal by \<open>slices.Delete\<close>, which panics when there are fewer.\<close>

definition reserve :: "(sink_sys \<Rightarrow> 'r list) \<Rightarrow> (sink_sys, 'r list) prog" where
  "reserve get = (\<lambda>s e. (Inr (take (min (length (get s)) (sk_batchSize s)) (get s)), s, e))"

definition slice_panic :: go_err where
  "slice_panic = PlainErr ''slice bounds out of range''"

definition drop_rows :: "(sink_sys \<Rightarrow> 'r list) \<Rightarrow> (('r list \<Rightarrow> 'r list) \<Rightarrow> sink_sys \<Rightarrow> sink_sys) \<Rightarrow> nat \<Rightarrow> (sink_sys, unit) prog" where
  "drop_rows get upd n = (\<lambda>s e. if n \<le> length (get s) then (Inr (), upd (drop n) s, e) else (Inl slice_panic, s, e))"

text \<open>\<open>PrepareBatch\<close>, the appends, which only convert values of the columns' types, and \<open>Send\<close>.\<close>

definition send_batch :: "('r list \<Rightarrow> sink_sys \<Rightarrow> sink_sys) \<Rightarrow> 'r list \<Rightarrow> (sink_sys, unit) prog" where
  "send_batch put rows =
     bnd (map_err (\<lambda>_. PlainErr ''prepare batch'') (stmt (ret ()))) (\<lambda>_.
     map_err (\<lambda>_. PlainErr ''send batch'') (exec (\<lambda>_. put rows)))"

definition flush_buffer :: "(sink_sys \<Rightarrow> 'r list) \<Rightarrow> (('r list \<Rightarrow> 'r list) \<Rightarrow> sink_sys \<Rightarrow> sink_sys) \<Rightarrow>
    ('r list \<Rightarrow> sink_sys \<Rightarrow> sink_sys) \<Rightarrow> (sink_sys, unit) prog" where
  "flush_buffer get upd put =
     bnd (reserve get) (\<lambda>rows.
     if rows = [] then ret ()
     else bnd (send_batch put rows) (\<lambda>_. drop_rows get upd (length rows)))"

definition put_events :: "fact list \<Rightarrow> sink_sys \<Rightarrow> sink_sys" where
  "put_events rows s = s\<lparr>ch_events := ch_events s @ rows\<rparr>"

definition put_clicks :: "click list \<Rightarrow> sink_sys \<Rightarrow> sink_sys" where
  "put_clicks rows s = s\<lparr>ch_clicks := ch_clicks s @ rows\<rparr>"

definition flushEvents :: "(sink_sys, unit) prog" where
  "flushEvents = flush_buffer sk_buf sk_buf_update put_events"

definition flushClicks :: "(sink_sys, unit) prog" where
  "flushClicks = flush_buffer sk_clickBuf sk_clickBuf_update put_clicks"

definition clearDegraded :: "(sink_sys, unit) prog" where
  "clearDegraded = (\<lambda>s e. (Inr (), s\<lparr>sk_degraded := False\<rparr>, e))"

definition Flush :: "(sink_sys, unit) prog" where
  "Flush =
     bnd (attempt flushEvents) (\<lambda>evErr.
     bnd (attempt flushClicks) (\<lambda>clErr.
     case evErr of Inl x \<Rightarrow> fail x | Inr _ \<Rightarrow>
     (case clErr of Inl x \<Rightarrow> fail x | Inr _ \<Rightarrow> clearDegraded)))"

definition count_failure :: "(sink_sys, unit) prog" where
  "count_failure = (\<lambda>s e. (Inr (), s\<lparr>sk_flushFailures := count_up (sk_flushFailures s)\<rparr>, e))"

definition flushLogging :: "(sink_sys, unit) prog" where
  "flushLogging = bnd (attempt Flush) (\<lambda>r. case r of Inl _ \<Rightarrow> count_failure | Inr _ \<Rightarrow> ret ())"

definition sink_Add :: "fact \<Rightarrow> (sink_sys, unit) prog" where
  "sink_Add ev = bnd (admit sk_buf sk_buf_update ev) (\<lambda>full. if full then flushLogging else ret ())"

definition AddClick :: "click \<Rightarrow> (sink_sys, unit) prog" where
  "AddClick cl = bnd (admit sk_clickBuf sk_clickBuf_update cl) (\<lambda>full. if full then flushLogging else ret ())"

text \<open>\<open>RunFlusher\<close> for a context that ends after so many ticks.\<close>

fun RunFlusher :: "nat \<Rightarrow> (sink_sys, unit) prog" where
  "RunFlusher 0 = Flush"
| "RunFlusher (Suc n) = bnd flushLogging (\<lambda>_. RunFlusher n)"

definition sink_Close :: "(sink_sys, unit) prog" where
  "sink_Close = bnd (attempt Flush) (\<lambda>_. ret ())"

subsection \<open>Goroutines\<close>

text \<open>
  A flush in progress, by the section it has reached: what it has copied, how many rows it will remove, and the errors so
  far.  \<open>run_task\<close> is one section; a task that is over answers \<open>None\<close>.
\<close>

datatype task =
    FlushBegun
  | EventsReserved "fact list"
  | EventsSent nat
  | ClicksBegun "go_err option"
  | ClicksReserved "go_err option" "click list"
  | ClicksSent "go_err option" nat
  | FlushEnded "go_err option" "go_err option"

fun run_task :: "task \<Rightarrow> (sink_sys, task option) prog" where
  "run_task FlushBegun = bnd (reserve sk_buf) (\<lambda>rows.
     ret (Some (if rows = [] then ClicksBegun None else EventsReserved rows)))"
| "run_task (EventsReserved rows) = bnd (attempt (send_batch put_events rows)) (\<lambda>r.
     ret (Some (case r of Inl x \<Rightarrow> ClicksBegun (Some x) | Inr _ \<Rightarrow> EventsSent (length rows))))"
| "run_task (EventsSent n) = bnd (drop_rows sk_buf sk_buf_update n) (\<lambda>_. ret (Some (ClicksBegun None)))"
| "run_task (ClicksBegun ev) = bnd (reserve sk_clickBuf) (\<lambda>rows.
     ret (Some (if rows = [] then FlushEnded ev None else ClicksReserved ev rows)))"
| "run_task (ClicksReserved ev rows) = bnd (attempt (send_batch put_clicks rows)) (\<lambda>r.
     ret (Some (case r of Inl x \<Rightarrow> FlushEnded ev (Some x) | Inr _ \<Rightarrow> ClicksSent ev (length rows))))"
| "run_task (ClicksSent ev n) = bnd (drop_rows sk_clickBuf sk_clickBuf_update n) (\<lambda>_. ret (Some (FlushEnded ev None)))"
| "run_task (FlushEnded ev cl) =
     bnd (if ev = None \<and> cl = None then clearDegraded else count_failure) (\<lambda>_. ret None)"

text \<open>A task with nothing running beside it; seven sections end any flush.\<close>

fun run_alone :: "nat \<Rightarrow> task \<Rightarrow> (sink_sys, unit) prog" where
  "run_alone 0 tk = fail (PlainErr ''unfinished'')"
| "run_alone (Suc n) tk = bnd (run_task tk) (\<lambda>r. case r of None \<Rightarrow> ret () | Some tk' \<Rightarrow> run_alone n tk')"

text \<open>Any number of flushes beside the buffering of rows.  An eager flush of \<open>Add\<close> or \<open>AddClick\<close> and a tick of the flusher start
  a task; a panic ends the process.\<close>

record service = sink_sys +
  sv_tasks :: "task list"
  sv_crashed :: bool

datatype service_op = FactArrives fact | ClickArrives click | FlusherTicks | TaskRuns nat

definition on_sink :: "(sink_sys, 'a) prog \<Rightarrow> service \<Rightarrow> env \<Rightarrow> 'a res \<times> service \<times> env" where
  "on_sink p s e = (case p (sink_sys.truncate s) e of (r, k, e') \<Rightarrow> (r, sink_sys.extend k (sink_sys.more s), e'))"

definition flush_due :: "bool res \<times> service \<times> env \<Rightarrow> service" where
  "flush_due x = (case x of (Inr True, s, e) \<Rightarrow> s\<lparr>sv_tasks := sv_tasks s @ [FlushBegun]\<rparr> | (_, s, e) \<Rightarrow> s)"

fun service_run :: "service_op \<Rightarrow> env \<Rightarrow> service \<Rightarrow> service" where
  "service_run (FactArrives ev) e s = flush_due (on_sink (admit sk_buf sk_buf_update ev) s e)"
| "service_run (ClickArrives cl) e s = flush_due (on_sink (admit sk_clickBuf sk_clickBuf_update cl) s e)"
| "service_run FlusherTicks e s = s\<lparr>sv_tasks := sv_tasks s @ [FlushBegun]\<rparr>"
| "service_run (TaskRuns i) e s = (if i < length (sv_tasks s)
     then (case on_sink (run_task (sv_tasks s ! i)) s e of
         (Inr (Some tk), s', e') \<Rightarrow> s'\<lparr>sv_tasks := (sv_tasks s')[i := tk]\<rparr>
       | (Inr None, s', e') \<Rightarrow> s'\<lparr>sv_tasks := take i (sv_tasks s') @ drop (Suc i) (sv_tasks s')\<rparr>
       | (Inl x, s', e') \<Rightarrow> s'\<lparr>sv_crashed := True\<rparr>)
     else s)"

definition service_step :: "service_op \<Rightarrow> env \<Rightarrow> service \<Rightarrow> service" where
  "service_step op e s = (if sv_crashed s then s else service_run op e s)"

definition new_service :: "nat \<Rightarrow> nat \<Rightarrow> service" where
  "new_service batchSize maxBuffer = sink_sys.extend (Open batchSize maxBuffer) \<lparr>sv_tasks = [], sv_crashed = False\<rparr>"

subsection \<open>The consumer of orders and payments (internal/consumer/consumer.go)\<close>

definition fact_minor :: "wire_money \<Rightarrow> int64" where
  "fact_minor m = i64 (i64 (w_units m * 100) + w_nanos m sdiv 10000000)"

type_synonym fact_event = "order_event + pay_event"

text \<open>The time of an event is an instant here, so the fallback of \<open>ts\<close> for a text that does not parse does not arise.  A payload
  that is not the topic's message counts as undecodable.  Totals and amounts are always set by their services.\<close>

definition blank_fact :: "string \<Rightarrow> int \<Rightarrow> string \<Rightarrow> fact" where
  "blank_fact typ t oid = \<lparr>fc_Type = typ, fc_OccurredAt = t, fc_OrderID = oid, fc_OwnerID = '''', fc_PaymentID = '''',
     fc_AmountMinor = 0, fc_Currency = '''', fc_Reason = ''''\<rparr>"

definition flatten :: "fact_event option krecord \<Rightarrow> fact option" where
  "flatten r = (case (kr_topic r, kr_value r) of
       (tp, Some (Inl (OrderCreated oid owner cart tot t))) \<Rightarrow>
         if tp = Topic ''order'' ''created'' then Some ((blank_fact ''order_created'' t oid)
           \<lparr>fc_OwnerID := owner, fc_AmountMinor := fact_minor tot, fc_Currency := w_currency tot\<rparr>) else None
     | (tp, Some (Inl (OrderConfirmed oid owner pid addr ls t))) \<Rightarrow>
         if tp = Topic ''order'' ''confirmed'' then Some ((blank_fact ''order_confirmed'' t oid)
           \<lparr>fc_OwnerID := owner, fc_PaymentID := pid\<rparr>) else None
     | (tp, Some (Inl (OrderCancelled oid owner reason t))) \<Rightarrow>
         if tp = Topic ''order'' ''cancelled'' then Some ((blank_fact ''order_cancelled'' t oid)
           \<lparr>fc_OwnerID := owner, fc_Reason := reason\<rparr>) else None
     | (tp, Some (Inl (OrderFulfilled oid owner t))) \<Rightarrow>
         if tp = Topic ''order'' ''fulfilled'' then Some ((blank_fact ''order_fulfilled'' t oid)\<lparr>fc_OwnerID := owner\<rparr>) else None
     | (tp, Some (Inr (PaymentAuthorized pid oid amount t))) \<Rightarrow>
         if tp = Topic ''payment'' ''authorized'' then Some ((blank_fact ''payment_authorized'' t oid)
           \<lparr>fc_PaymentID := pid, fc_AmountMinor := fact_minor amount, fc_Currency := w_currency amount\<rparr>) else None
     | (tp, Some (Inr (PaymentFailed pid oid reason t))) \<Rightarrow>
         if tp = Topic ''payment'' ''failed'' then Some ((blank_fact ''payment_failed'' t oid)
           \<lparr>fc_PaymentID := pid, fc_Reason := reason\<rparr>) else None
     | (tp, Some (Inr (PaymentRefunded pid oid amount t))) \<Rightarrow>
         if tp = Topic ''payment'' ''refunded'' then Some ((blank_fact ''payment_refunded'' t oid)
           \<lparr>fc_PaymentID := pid, fc_AmountMinor := fact_minor amount, fc_Currency := w_currency amount\<rparr>) else None
     | _ \<Rightarrow> None)"

definition facts_Handler :: "fact_event option krecord \<Rightarrow> (sink_sys, unit) prog" where
  "facts_Handler r = (case flatten r of None \<Rightarrow> ret () | Some ev \<Rightarrow> sink_Add ev)"

text \<open>\<open>Retryable\<close> of the service (main.go): a full buffer is held, anything else is parked.\<close>

definition sink_Retryable :: "go_err \<Rightarrow> bool" where
  "sink_Retryable err \<longleftrightarrow> err = ErrBufferFull"

subsection \<open>The consumer of browser events (internal/clickstream/clickstream.go)\<close>

datatype client_event_type = TypeUnspecified | PageView | ProductView | SearchEvent | AddToCart | BeginCheckout | Purchase

record client_event =
  ce_Type :: client_event_type
  ce_SessionId :: string
  ce_Path :: string
  ce_Referrer :: string
  ce_ProductId :: string
  ce_Query :: string
  ce_AnonymousId :: string
  ce_OwnerId :: string
  ce_UserAgent :: string
  ce_ValueMinor :: int64
  ce_CurrencyCode :: string
  ce_ClientTime :: string
  ce_ReceivedAt :: string

fun typeName :: "client_event_type \<Rightarrow> string" where
  "typeName PageView = ''page_view''"
| "typeName ProductView = ''product_view''"
| "typeName SearchEvent = ''search''"
| "typeName AddToCart = ''add_to_cart''"
| "typeName BeginCheckout = ''begin_checkout''"
| "typeName Purchase = ''purchase''"
| "typeName TypeUnspecified = ''''"

definition click_ts :: "env \<Rightarrow> string \<Rightarrow> int \<Rightarrow> int" where
  "click_ts e s dflt = (case parse_time e s of Some t \<Rightarrow> t | None \<Rightarrow> dflt)"

definition click_row :: "env \<Rightarrow> client_event \<Rightarrow> click" where
  "click_row e ev = (let occurred = click_ts e (ce_ReceivedAt ev) (now e) in
     \<lparr>ck_Type = typeName (ce_Type ev), ck_OccurredAt = occurred, ck_ClientTime = click_ts e (ce_ClientTime ev) occurred,
      ck_AnonymousID = ce_AnonymousId ev, ck_SessionID = ce_SessionId ev, ck_OwnerID = ce_OwnerId ev, ck_Path = ce_Path ev,
      ck_Referrer = ce_Referrer ev, ck_ProductID = ce_ProductId ev, ck_Query = ce_Query ev, ck_ValueMinor = ce_ValueMinor ev,
      ck_Currency = ce_CurrencyCode ev, ck_UserAgent = ce_UserAgent ev\<rparr>)"

definition clicks_Handler :: "client_event option krecord \<Rightarrow> (sink_sys, unit) prog" where
  "clicks_Handler r = (case kr_value r of None \<Rightarrow> ret ()
     | Some ev \<Rightarrow> if typeName (ce_Type ev) = '''' then ret ()
                  else bnd (asks (\<lambda>e. click_row e ev)) AddClick)"

end
