(* ===== verification/SinkProps.thy ===== *)
theory SinkProps
  imports Sink KafkaProps SampleEnv "HOL-Library.Multiset"
begin

section \<open>The sink: bounds, what is kept, and what two flushes do\<close>

subsection \<open>One flush alone\<close>

lemma wp_send_batch:
  "wp (send_batch put rows) (\<lambda>r s' e'. now e' = now e \<and> (s' = s \<or> s' = put rows s) \<and> (\<forall>u. r = Inr u \<longrightarrow> s' = put rows s) \<and>
     r \<noteq> Inl slice_panic) s e"
  unfolding send_batch_def by (auto simp: slice_panic_def intro!: wp_stmtI wp_execI)

text \<open>Without another flush beside it, the sections are \<open>flushLogging\<close>: the rows to remove are still there.\<close>

lemma clicks_sections:
  "run_alone (Suc (Suc (Suc (Suc n)))) (ClicksBegun ev) =
     bnd (attempt flushClicks) (\<lambda>cl. if ev = None \<and> (\<exists>u. cl = Inr u) then clearDegraded else count_failure)"
proof (intro ext)
  fix s :: sink_sys and e
  let ?rows = "take (min (length (sk_clickBuf s)) (sk_batchSize s)) (sk_clickBuf s)"
  let ?rest = "\<lambda>cl. if ev = None \<and> (\<exists>u. cl = Inr u) then clearDegraded else count_failure"
  show "run_alone (Suc (Suc (Suc (Suc n)))) (ClicksBegun ev) s e = bnd (attempt flushClicks) ?rest s e"
  proof (cases "?rows = []")
    case True
    then show ?thesis
      by (simp add: flushClicks_def flush_buffer_def reserve_def prog_defs clearDegraded_def count_failure_def del: take_eq_Nil)
  next
    case False
    obtain r s1 e1 where send: "send_batch put_clicks ?rows s e = (r, s1, e1)" by (metis prod_cases3)
    have "sk_clickBuf s1 = sk_clickBuf s" using wpD [OF wp_send_batch send] by (auto simp: put_clicks_def)
    then show ?thesis using False send
      by (cases r) (simp_all add: flushClicks_def flush_buffer_def reserve_def prog_defs drop_rows_def
          clearDegraded_def count_failure_def del: take_eq_Nil)
  qed
qed

lemma flushLogging_eq:
  "flushLogging = bnd (attempt flushEvents) (\<lambda>ev. bnd (attempt flushClicks) (\<lambda>cl.
     if (\<exists>u. ev = Inr u) \<and> (\<exists>u. cl = Inr u) then clearDegraded else count_failure))"
  by (intro ext) (auto simp: flushLogging_def Flush_def prog_defs clearDegraded_def count_failure_def split: prod.splits sum.splits)

theorem flush_sections: "run_alone 7 FlushBegun = flushLogging"
proof (intro ext)
  fix s :: sink_sys and e
  let ?rows = "take (min (length (sk_buf s)) (sk_batchSize s)) (sk_buf s)"
  have seven: "7 = Suc (Suc (Suc (Suc (Suc (Suc (Suc 0))))))" by simp
  show "run_alone 7 FlushBegun s e = flushLogging s e"
  proof (cases "?rows = []")
    case True
    then show ?thesis
      unfolding seven flushLogging_eq run_alone.simps(2) [of _ FlushBegun]
      by (simp add: bnd_def clicks_sections flushEvents_def flush_buffer_def reserve_def attempt_def ret_def del: take_eq_Nil run_alone.simps split: prod.split)
  next
    case False
    obtain r s1 e1 where send: "send_batch put_events ?rows s e = (r, s1, e1)" by (metis prod_cases3)
    have kept: "sk_buf s1 = sk_buf s" using wpD [OF wp_send_batch send] by (auto simp: put_events_def)
    show ?thesis
      unfolding seven flushLogging_eq run_alone.simps(2) [of _ FlushBegun] run_alone.simps(2) [of _ "EventsReserved rs" for rs]
      using False send kept
      by (cases r) (simp_all add: bnd_def run_alone.simps(2) [of _ "EventsReserved rs" for rs] run_alone.simps(2) [of _ "EventsSent k" for k] clicks_sections
          flushEvents_def flush_buffer_def reserve_def attempt_def ret_def drop_rows_def del: take_eq_Nil run_alone.simps split: prod.split)
  qed
qed


subsection \<open>Bounds\<close>

text \<open>In every interleaving, whatever ClickHouse answers, neither buffer outgrows the limit.\<close>

definition bounded :: "nat \<Rightarrow> 'x sink_scheme \<Rightarrow> bool" where
  "bounded M s \<longleftrightarrow> sk_maxBuffer s = M \<and> length (sk_buf s) \<le> M \<and> length (sk_clickBuf s) \<le> M"

lemma bounded_sections:
  assumes "bounded M s"
  shows "wp (admit sk_buf sk_buf_update ev) (\<lambda>_ s' _. bounded M s') s e"
    "wp (admit sk_clickBuf sk_clickBuf_update cl) (\<lambda>_ s' _. bounded M s') s e"
    "wp (run_task tk) (\<lambda>_ s' _. bounded M s') s e"
proof -
  show "wp (admit sk_buf sk_buf_update ev) (\<lambda>_ s' _. bounded M s') s e"
    "wp (admit sk_clickBuf sk_clickBuf_update cl) (\<lambda>_ s' _. bounded M s') s e"
    using assms by (auto simp: wp_def admit_def bounded_def refuseLocked_def Let_def)
  have reserve: "wp (reserve get) (\<lambda>r s' _. s' = s) s e" for get :: "sink_sys \<Rightarrow> 'r list" by (simp add: wp_def reserve_def)
  have ev: "bounded M (put_events rows s)" "bounded M (put_clicks rs s)" for rows rs
    using assms by (simp_all add: bounded_def put_events_def put_clicks_def)
  show "wp (run_task tk) (\<lambda>_ s' _. bounded M s') s e"
  proof (cases tk)
    case FlushBegun
    then show ?thesis using assms by (auto intro!: wp_mono [OF reserve] split: sum.splits)
  next
    case (EventsReserved rows)
    then show ?thesis using assms ev by (auto intro!: wp_mono [OF wp_send_batch] split: sum.splits)
  next
    case (EventsSent n)
    then show ?thesis using assms by (auto simp: wp_def drop_rows_def bnd_def ret_def bounded_def)
  next
    case (ClicksBegun er)
    have "wp (reserve sk_clickBuf) (\<lambda>r s' _. s' = s) s e" by (simp add: wp_def reserve_def)
    then show ?thesis unfolding ClicksBegun using assms by (auto intro: wp_mono split: sum.splits)
  next
    case (ClicksReserved er rows)
    then show ?thesis using assms ev by (auto intro!: wp_mono [OF wp_send_batch] split: sum.splits)
  next
    case (ClicksSent er n)
    then show ?thesis using assms by (auto simp: wp_def drop_rows_def bnd_def ret_def bounded_def)
  next
    case (FlushEnded er cl)
    then show ?thesis using assms by (auto simp: wp_def bnd_def ret_def bounded_def clearDegraded_def count_failure_def)
  qed
qed

lemma truncate_extend: "sink_sys.truncate (sink_sys.extend k m) = k"
  by (simp add: sink_sys.defs)

lemma bounded_truncate [simp]: "bounded M (sink_sys.truncate s) = bounded M s"
  by (simp add: bounded_def sink_sys.defs)

lemma bounded_extend [simp]: "bounded M (sink_sys.extend k m) = bounded M k"
  by (simp add: bounded_def sink_sys.defs)

lemma bounded_service [simp]: "bounded M (s\<lparr>sv_tasks := tks\<rparr>) = bounded M s" "bounded M (s\<lparr>sv_crashed := b\<rparr>) = bounded M s" for s :: service
  by (simp_all add: bounded_def)

lemma on_sink_bounded:
  assumes "wp p (\<lambda>_ s' _. bounded M s') (sink_sys.truncate s) e" "on_sink p s e = (r, s', e')"
  shows "bounded M s'"
  using assms by (auto simp: on_sink_def wp_def split: prod.splits)

lemma bounded_step: "bounded M s \<Longrightarrow> bounded M (service_step op e s)"
proof (cases op)
  case (FactArrives ev)
  assume s: "bounded M s"
  obtain r s' e' where x: "on_sink (admit sk_buf sk_buf_update ev) s e = (r, s', e')" by (metis prod_cases3)
  then have "bounded M s'" by (rule on_sink_bounded [OF bounded_sections(1), rotated]) (simp add: s)
  then show ?thesis using s x FactArrives by (auto simp: service_step_def flush_due_def split: sum.splits bool.splits)
next
  case (ClickArrives cl)
  assume s: "bounded M s"
  obtain r s' e' where x: "on_sink (admit sk_clickBuf sk_clickBuf_update cl) s e = (r, s', e')" by (metis prod_cases3)
  then have "bounded M s'" by (rule on_sink_bounded [OF bounded_sections(2), rotated]) (simp add: s)
  then show ?thesis using s x ClickArrives by (auto simp: service_step_def flush_due_def split: sum.splits bool.splits)
next
  case FlusherTicks
  assume "bounded M s"
  then show ?thesis using FlusherTicks by (simp add: service_step_def)
next
  case (TaskRuns i)
  assume s: "bounded M s"
  obtain r s' e' where x: "on_sink (run_task (sv_tasks s ! i)) s e = (r, s', e')" by (metis prod_cases3)
  then have "bounded M s'" by (rule on_sink_bounded [OF bounded_sections(3), rotated]) (simp add: s)
  then show ?thesis using s x TaskRuns by (auto simp: service_step_def split: sum.splits option.splits)
qed

lemma bounded_start: "bounded (max b m) (new_service b m)"
  by (simp add: new_service_def Open_def) (simp add: bounded_def)

interpretation services: inv_machine service_step "new_service b m" "bounded (max b m)" for b m
  by unfold_locales (rule bounded_start, rule bounded_step)

theorem analytics_buffers_bounded:
  assumes "reach service_step (new_service batchSize maxBuffer) s"
  shows "length (sk_buf s) \<le> max batchSize maxBuffer \<and> length (sk_clickBuf s) \<le> max batchSize maxBuffer"
  using services.reach_inv [OF assms] by (simp add: bounded_def)

subsection \<open>What is accepted stays\<close>

text \<open>With flushes one at a time: a row that was accepted is in the buffer or in the table, from then on.\<close>

definition held_facts :: "'x sink_sys_scheme \<Rightarrow> fact multiset" where
  "held_facts s = mset (sk_buf s) + mset (ch_events s)"

definition held_clicks :: "'x sink_sys_scheme \<Rightarrow> click multiset" where
  "held_clicks s = mset (sk_clickBuf s) + mset (ch_clicks s)"

definition keeps :: "sink_sys \<Rightarrow> sink_sys \<Rightarrow> bool" where
  "keeps s s' \<longleftrightarrow> held_facts s \<subseteq># held_facts s' \<and> held_clicks s \<subseteq># held_clicks s'"

lemma keeps_refl [simp]: "keeps s s"
  by (simp add: keeps_def)

lemma keeps_trans: "keeps s t \<Longrightarrow> keeps t u \<Longrightarrow> keeps s u"
  unfolding keeps_def by (meson subset_mset.order_trans)

lemma wp_flush_buffer:
  assumes start: "P s" and sent: "\<And>rows. P (put rows s)" and same: "\<And>rows. get (put rows s) = get s"
    and dropped: "\<And>n. P (upd (drop n) (put (take n (get s)) s))"
  shows "wp (flush_buffer get upd put) (\<lambda>r s' e'. now e' = now e \<and> P s' \<and> r \<noteq> Inl slice_panic) s e"
proof -
  define n where "n = min (length (get s)) (sk_batchSize s)"
  have len: "length (take n (get s)) = n" by (simp add: n_def)
  have drop: "wp (drop_rows get upd (length (take n (get s)))) (\<lambda>r s' e'. now e' = now e \<and> P s' \<and> r \<noteq> Inl slice_panic) (put (take n (get s)) s) e'"
    if "now e' = now e" for e'
    using dropped [of n] that by (simp add: wp_def drop_rows_def same n_def)
  have "wp (bnd (send_batch put (take n (get s))) (\<lambda>_. drop_rows get upd (length (take n (get s)))))
      (\<lambda>r s' e'. now e' = now e \<and> P s' \<and> r \<noteq> Inl slice_panic) s e"
    unfolding wp_bnd by (rule wp_mono [OF wp_send_batch]) (use start sent drop in \<open>auto split: sum.splits\<close>)
  then show ?thesis
    using start by (simp add: flush_buffer_def wp_def bnd_def reserve_def ret_def flip: n_def)
qed

lemma keeps_put [simp]: "keeps s (put_events rows s)" "keeps s (put_clicks rs s)"
  by (simp_all add: keeps_def held_facts_def held_clicks_def put_events_def put_clicks_def)

lemma mset_take_drop: "mset xs = mset (take n xs) + mset (drop n xs)"
  by (metis append_take_drop_id mset_append)

lemma wp_flushEvents: "wp flushEvents (\<lambda>r s' e'. now e' = now e \<and> keeps s s' \<and> r \<noteq> Inl slice_panic) s e"
proof -
  have "keeps s (sk_buf_update (drop n) (put_events (take n (sk_buf s)) s))" for n
    using mset_take_drop [of "sk_buf s" n] by (simp add: keeps_def held_facts_def held_clicks_def put_events_def)
  then show ?thesis unfolding flushEvents_def by (intro wp_flush_buffer) (simp_all, simp add: put_events_def)
qed

lemma wp_flushClicks: "wp flushClicks (\<lambda>r s' e'. now e' = now e \<and> keeps s s' \<and> r \<noteq> Inl slice_panic) s e"
proof -
  have "keeps s (sk_clickBuf_update (drop n) (put_clicks (take n (sk_clickBuf s)) s))" for n
    using mset_take_drop [of "sk_clickBuf s" n] by (simp add: keeps_def held_facts_def held_clicks_def put_clicks_def)
  then show ?thesis unfolding flushClicks_def by (intro wp_flush_buffer) (simp_all, simp add: put_clicks_def)
qed

lemma wp_flushLogging: "wp flushLogging (\<lambda>r s' e'. now e' = now e \<and> keeps s s' \<and> r = Inr ()) s e"
proof -
  have fin: "wp (if b then clearDegraded else count_failure) (\<lambda>r s' e'. now e' = now e \<and> keeps t s' \<and> r = Inr ()) t e" for b t e
    by (simp add: wp_def clearDegraded_def count_failure_def keeps_def held_facts_def held_clicks_def)
  show ?thesis
    unfolding flushLogging_eq
    by (auto intro!: wp_mono [OF wp_flushEvents] wp_mono [OF wp_flushClicks] wp_mono [OF fin] elim: keeps_trans)
qed

text \<open>\<open>Add\<close> refuses only a full buffer; otherwise the row is held, and everything held before still is.\<close>

lemma wp_sink_Add:
  "wp (sink_Add ev) (\<lambda>r s' e'. now e' = now e \<and> keeps s s' \<and> (r = Inr () \<longrightarrow> held_facts s + {#ev#} \<subseteq># held_facts s') \<and>
     (\<forall>x. r = Inl x \<longrightarrow> x = ErrBufferFull \<and> sk_maxBuffer s \<le> length (sk_buf s))) s e"
proof (cases "sk_maxBuffer s \<le> length (sk_buf s)")
  case True
  then show ?thesis by (simp add: sink_Add_def wp_def bnd_def admit_def refuseLocked_def keeps_def held_facts_def held_clicks_def)
next
  case False
  define s1 where "s1 = sk_buf_update (\<lambda>b. b @ [ev]) s"
  have s1: "keeps s s1" "held_facts s1 = held_facts s + {#ev#}" by (simp_all add: s1_def keeps_def held_facts_def held_clicks_def)
  have "wp flushLogging (\<lambda>r s' e'. now e' = now e \<and> keeps s s' \<and> held_facts s + {#ev#} \<subseteq># held_facts s' \<and> r = Inr ()) s1 e"
    by (rule wp_mono [OF wp_flushLogging]) (use s1 keeps_trans [of s s1] in \<open>auto simp: keeps_def\<close>)
  moreover have "wp (ret ()) (\<lambda>r s' e'. now e' = now e \<and> keeps s s' \<and> held_facts s + {#ev#} \<subseteq># held_facts s' \<and> r = Inr ()) s1 e"
    using s1 by simp
  moreover have "sink_Add ev s e = (if sk_batchSize s1 \<le> length (sk_buf s1) then flushLogging else ret ()) s1 e"
    using False by (simp add: sink_Add_def bnd_def admit_def Let_def s1_def)
  ultimately show ?thesis by (auto simp: wp_def split: if_splits prod.splits)
qed

definition fact_held :: "fact_event option krecord \<Rightarrow> sink_sys \<Rightarrow> bool" where
  "fact_held r s \<longleftrightarrow> (case flatten r of None \<Rightarrow> True | Some ev \<Rightarrow> ev \<in># held_facts s)"

interpretation facts: record_handler facts_Handler fact_held
proof
  fix r and w :: sink_sys and e
  have later: "keeps w w' \<Longrightarrow> fact_held r' w \<Longrightarrow> fact_held r' w'" for r' w'
    by (auto simp: fact_held_def keeps_def split: option.splits dest: mset_subset_eqD)
  show "wp (facts_Handler r) (\<lambda>x w' e'. now e \<le> now e' \<and> (x = Inr () \<longrightarrow> fact_held r w') \<and>
      (\<forall>r'. fact_held r' w \<longrightarrow> fact_held r' w')) w e"
  proof (cases "flatten r")
    case None
    then show ?thesis by (simp add: facts_Handler_def fact_held_def)
  next
    case (Some ev)
    have "held_facts w + {#ev#} \<subseteq># held_facts w' \<Longrightarrow> fact_held r w'" for w'
      using Some mset_subset_eqD by (fastforce simp: fact_held_def)
    then show ?thesis using Some by (auto simp: facts_Handler_def intro!: wp_mono [OF wp_sink_Add] intro: later)
  qed
qed

subsection \<open>Two flushes\<close>

text \<open>
  Nothing keeps a flush of the ticker, or of the other consumer, from starting while one is sending: both have copied the
  same row, and the second removes a row that neither has sent.  Sections: the ticker and a click flush copy \<open>a\<close>; \<open>b\<close> arrives;
  both send \<open>a\<close>; both remove one row.
\<close>

definition row :: "string \<Rightarrow> fact" where
  "row i = blank_fact ''order_fulfilled'' 0 i"

definition seen_click :: click where
  "seen_click = \<lparr>ck_Type = ''page_view'', ck_OccurredAt = 0, ck_ClientTime = 0, ck_AnonymousID = '''', ck_SessionID = '''',
     ck_OwnerID = '''', ck_Path = '''', ck_Referrer = '''', ck_ProductID = '''', ck_Query = '''', ck_ValueMinor = 0,
     ck_Currency = '''', ck_UserAgent = ''''\<rparr>"

definition two_flushes :: "service_op list \<Rightarrow> service" where
  "two_flushes ops = run_ops service_step (map (\<lambda>op. (op, env_at 1)) ops) (new_service 2 10)"

theorem concurrent_flush_loses_rows:
  "let s = two_flushes [FactArrives (row ''a''), FlusherTicks, TaskRuns 0, ClickArrives seen_click, ClickArrives seen_click,
       TaskRuns 1, FactArrives (row ''b''), TaskRuns 0, TaskRuns 1, TaskRuns 0, TaskRuns 1]
   in map fc_OrderID (ch_events s) = [''a'', ''a''] \<and> sk_buf s = [] \<and> sk_flushFailures s = 0 \<and> \<not> sv_crashed s"
  by code_simp

theorem concurrent_flush_panics:
  "sv_crashed (two_flushes [FactArrives (row ''a''), FlusherTicks, TaskRuns 0, ClickArrives seen_click, ClickArrives seen_click,
       TaskRuns 1, TaskRuns 0, TaskRuns 1, TaskRuns 0, TaskRuns 1])"
  by code_simp


end
