(* ===== verification/Bff.thy ===== *)
theory Bff
  imports Search Cart Pricing Seller Base64 Sink
begin

section \<open>The gateway of the storefront (services/bff): requests, answers, cookies\<close>

text \<open>
  One handler serves one HTTP request: it reads the request, calls the services with the caller's token and writes the
  answer.  Here are the exchange a handler works on, the helpers of internal/api/api.go, the cookies of internal/auth and
  the beacon of browser events (internal/api/events.go); the routes are in BffRoutes.  Echo and the protobuf decoders are
  outside the repository: what a body decodes to is an argument, with the message as the decoder leaves it when it fails.
\<close>

subsection \<open>The exchange\<close>

record request =
  rq_Authorization :: string
  rq_IdempotencyKey :: string
  rq_UserAgent :: string
  rq_https :: bool
  rq_cookies :: "string \<rightharpoonup> string"
  rq_query :: "string \<rightharpoonup> string"
  rq_params :: "string \<rightharpoonup> string"
  rq_body :: "string option"

record cookie =
  co_Name :: string
  co_Value :: string
  co_Path :: string
  co_MaxAge :: int
  co_HttpOnly :: bool
  co_Secure :: bool

text \<open>A body: the error of a service, an error of the gateway, or an answer.\<close>

datatype 'r payload = ServiceErr http_error | GatewayErr string string | Answer 'r | NoContent

text \<open>
  The services behind the gateway, what was written and the cookies that were set.  The first write decides the status
  line; a second one only adds its body.
\<close>

record ('d, 'r) exchange =
  ex_down :: 'd
  ex_writes :: "(int \<times> 'r payload) list"
  ex_cookies :: "cookie list"

type_synonym ('d, 'r) handler = "(('d, 'r) exchange, unit) prog"

definition respond :: "int \<Rightarrow> 'r payload \<Rightarrow> ('d, 'r) handler" where
  "respond st b = (\<lambda>x e. (Inr (), x\<lparr>ex_writes := ex_writes x @ [(st, b)]\<rparr>, e))"

definition SetCookie :: "cookie \<Rightarrow> ('d, 'r) handler" where
  "SetCookie ck = (\<lambda>x e. (Inr (), x\<lparr>ex_cookies := ex_cookies x @ [ck]\<rparr>, e))"

definition client_status :: "('d, 'r) exchange \<Rightarrow> int" where
  "client_status x = (case ex_writes x of [] \<Rightarrow> 200 | w # _ \<Rightarrow> fst w)"

definition call :: "('d, 'a) prog \<Rightarrow> (('d, 'r) exchange, 'a) prog" where
  "call p = zoom ex_down ex_down_update p"

text \<open>A missing query or path parameter reads as the empty string.\<close>

definition rget :: "(string \<rightharpoonup> string) \<Rightarrow> string \<Rightarrow> string" where
  "rget h k = (case h k of None \<Rightarrow> '''' | Some v \<Rightarrow> v)"

subsection \<open>Helpers (internal/api/api.go)\<close>

definition bff_fail :: "go_err \<Rightarrow> ('d, 'r) handler" where
  "bff_fail err = (let h = FromGRPC err in respond (he_status h) (ServiceErr h))"

definition bff_bearer :: "request \<Rightarrow> string" where
  "bff_bearer rq = (let h = rq_Authorization rq in
     if length h \<ge> 7 \<and> map lower (take 7 h) = ''bearer '' then TrimSpace (drop 7 h)
     else case rq_cookies rq ''access_token'' of Some v \<Rightarrow> v | None \<Rightarrow> '''')"

definition bff_page :: "request \<Rightarrow> int32 \<times> string" where
  "bff_page rq = (case Atoi (rget (rq_query rq) ''page_size'') of
       Some n \<Rightarrow> if in_i32 n \<and> n > 0 then (n, rget (rq_query rq) ''page_token'') else (0, rget (rq_query rq) ''page_token'')
     | None \<Rightarrow> (0, rget (rq_query rq) ''page_token''))"

text \<open>The pattern of almost every handler: call a service with the token of the caller, then write its answer (\<open>writeProto\<close>) or
  its error.\<close>

definition answer :: "int \<Rightarrow> ('d, 'r) prog \<Rightarrow> ('d, 'r) handler" where
  "answer st p = bnd (attempt (call p)) (\<lambda>r. case r of Inl err \<Rightarrow> bff_fail err | Inr m \<Rightarrow> respond st (Answer m))"

definition readBody :: "request \<Rightarrow> string option" where
  "readBody rq = map_option (take (2 ^ 20)) (rq_body rq)"

text \<open>
  \<open>bindJSON\<close> and \<open>bindProto\<close>.  The decoder answers whether it succeeded and the message it leaves; \<open>zero\<close> is the message
  before.  On failure they write the error and return what \<open>c.JSON\<close> returned, which is nil: the handler goes on.
\<close>

definition bff_bind :: "(string \<Rightarrow> bool \<times> 'm) \<Rightarrow> 'm \<Rightarrow> request \<Rightarrow> (('d, 'r) exchange, 'm) prog" where
  "bff_bind decode zero rq = (case readBody rq of
       None \<Rightarrow> bnd (respond 400 (GatewayErr ''INVALID_ARGUMENT'' ''BODY_READ'')) (\<lambda>_. ret zero)
     | Some body \<Rightarrow> (case decode body of
         (True, m) \<Rightarrow> ret m
       | (False, m) \<Rightarrow> bnd (respond 400 (GatewayErr ''INVALID_ARGUMENT'' ''BAD_JSON'')) (\<lambda>_. ret m)))"

text \<open>\<open>requireAuth\<close>, and the same check written out in the handlers of checkout and sharing.\<close>

definition sign_in_required :: "('d, 'r) handler" where
  "sign_in_required = respond 401 (GatewayErr ''UNAUTHENTICATED'' ''SIGN_IN_REQUIRED'')"

definition requireAuth :: "request \<Rightarrow> ('d, 'r) handler \<Rightarrow> ('d, 'r) handler" where
  "requireAuth rq h = (if bff_bearer rq = '''' then sign_in_required else h)"

subsection \<open>The auth cookies (internal/auth/broker.go)\<close>

record token_result =
  tr_AccessToken :: string
  tr_RefreshToken :: string
  tr_ExpiresIn :: int

record broker =
  br_clientID :: string
  br_clientSecret :: string
  br_cookieSecure :: bool

text \<open>\<open>CookieSecure\<close> is safe on a nil receiver.\<close>

definition CookieSecure :: "broker option \<Rightarrow> bool" where
  "CookieSecure b = (case b of None \<Rightarrow> False | Some x \<Rightarrow> br_cookieSecure x)"

text \<open>\<open>idp\<close> posts the form to the identity provider: its status, and what its body decodes to.\<close>

definition broker_Login :: "((string \<times> string) list \<Rightarrow> ('d, int \<times> token_result option) prog) \<Rightarrow> broker \<Rightarrow> string \<Rightarrow> string \<Rightarrow>
    ('d, token_result) prog" where
  "broker_Login idp b username password =
     bnd (map_err (\<lambda>err. errs_Wrap err KindUnavailable ''IDP_UNREACHABLE'')
            (idp [(''grant_type'', ''password''), (''client_id'', br_clientID b), (''client_secret'', br_clientSecret b),
                  (''username'', username), (''password'', password), (''scope'', ''openid'')])) (\<lambda>(st, body).
     if st = 401 \<or> st = 400 then fail (errs_New KindUnauthenticated ''BAD_CREDENTIALS'')
     else if 300 \<le> st then fail (errs_New KindUnavailable ''IDP_ERROR'')
     else case body of
       None \<Rightarrow> fail (errs_Wrap (PlainErr ''decode'') KindInternal ''IDP_DECODE'')
     | Some t \<Rightarrow> ret t)"

definition accessCookie :: string where "accessCookie = ''access_token''"
definition accessPath :: string where "accessPath = ''/''"
definition refreshCookie :: string where "refreshCookie = ''refresh_token''"
definition refreshPath :: string where "refreshPath = ''/api/v1/auth''"

definition auth_cookie :: "broker \<Rightarrow> string \<Rightarrow> string \<Rightarrow> string \<Rightarrow> int \<Rightarrow> cookie" where
  "auth_cookie b name v path age = \<lparr>co_Name = name, co_Value = v, co_Path = path, co_MaxAge = age, co_HttpOnly = True,
     co_Secure = br_cookieSecure b\<rparr>"

definition SetCookies :: "broker \<Rightarrow> token_result \<Rightarrow> ('d, 'r) handler" where
  "SetCookies b t =
     (let ttl = (if tr_ExpiresIn t \<le> 0 then 300 else tr_ExpiresIn t) in
      bnd (SetCookie (auth_cookie b accessCookie (tr_AccessToken t) accessPath ttl)) (\<lambda>_.
      if tr_RefreshToken t \<noteq> '''' then SetCookie (auth_cookie b refreshCookie (tr_RefreshToken t) refreshPath 1800)
      else ret ()))"

definition ClearCookies :: "broker \<Rightarrow> ('d, 'r) handler" where
  "ClearCookies b = foreach (\<lambda>(name, path). SetCookie (auth_cookie b name '''' path (- 1)))
     [(accessCookie, accessPath), (refreshCookie, refreshPath)]"

text \<open>internal/api/auth.go.  The body of a login and of what Echo's \<open>Bind\<close> makes of a request is an argument: whether it
  succeeded, and the value.\<close>

definition login :: "((string \<times> string) list \<Rightarrow> ('d, int \<times> token_result option) prog) \<Rightarrow> broker \<Rightarrow> bool \<times> string \<times> string \<Rightarrow>
    ('d, int) handler" where
  "login idp b bound = (case bound of (ok, username, password) \<Rightarrow>
     if \<not> ok \<or> username = '''' \<or> password = '''' then respond 400 (GatewayErr ''INVALID_ARGUMENT'' ''USERNAME_PASSWORD_REQUIRED'')
     else bnd (attempt (call (broker_Login idp b username password))) (\<lambda>r. case r of
         Inl err \<Rightarrow> bff_fail (over_wire err)
       | Inr tok \<Rightarrow> bnd (SetCookies b tok) (\<lambda>_. respond 200 (Answer (tr_ExpiresIn tok)))))"

definition logout :: "broker \<Rightarrow> ('d, 'r) handler" where
  "logout b = bnd (ClearCookies b) (\<lambda>_. respond 204 NoContent)"

subsection \<open>The beacon (internal/api/events.go)\<close>

definition anonCookieName :: string where "anonCookieName = ''cid''"
definition anonCookieMaxAge :: int where "anonCookieMaxAge = 180 * 24 * 60 * 60"
definition maxBeaconEvents :: nat where "maxBeaconEvents = 20"
definition maxFieldBytes :: nat where "maxFieldBytes = 512"
definition maxUABytes :: nat where "maxUABytes = 256"

record browser_event =
  be_Type :: string
  be_SessionID :: string
  be_Path :: string
  be_Referrer :: string
  be_ProductID :: string
  be_Query :: string
  be_ValueMinor :: int64
  be_Currency :: string
  be_ClientTime :: string

definition clientEventTypes :: "(string \<times> client_event_type) list" where
  "clientEventTypes = [(''page_view'', PageView), (''product_view'', ProductView), (''search'', SearchEvent),
     (''add_to_cart'', AddToCart), (''begin_checkout'', BeginCheckout), (''purchase'', Purchase)]"

text \<open>\<open>utf8.ValidString\<close>.\<close>

definition byte_in :: "nat \<Rightarrow> nat \<Rightarrow> char \<Rightarrow> bool" where
  "byte_in a b c \<longleftrightarrow> a \<le> of_char c \<and> (of_char c :: nat) \<le> b"

fun utf8_valid :: "string \<Rightarrow> bool" where
  "utf8_valid [] = True"
| "utf8_valid (c # s) =
     (if byte_in 0 0x7F c then utf8_valid s
      else case s of [] \<Rightarrow> False | c1 # s1 \<Rightarrow>
        if byte_in 0xC2 0xDF c then byte_in 0x80 0xBF c1 \<and> utf8_valid s1
        else case s1 of [] \<Rightarrow> False | c2 # s2 \<Rightarrow>
          if byte_in 0xE0 0xEF c
          then byte_in (if c = CHR 0xE0 then 0xA0 else 0x80) (if c = CHR 0xED then 0x9F else 0xBF) c1 \<and> byte_in 0x80 0xBF c2 \<and> utf8_valid s2
          else case s2 of [] \<Rightarrow> False | c3 # s3 \<Rightarrow>
            byte_in 0xF0 0xF4 c \<and> byte_in (if c = CHR 0xF0 then 0x90 else 0x80) (if c = CHR 0xF4 then 0x8F else 0xBF) c1 \<and>
            byte_in 0x80 0xBF c2 \<and> byte_in 0x80 0xBF c3 \<and> utf8_valid s3)"

function trim_invalid :: "string \<Rightarrow> string" where
  "trim_invalid s = (if s \<noteq> [] \<and> \<not> utf8_valid s then trim_invalid (butlast s) else s)"
  by pat_completeness auto
termination by (relation "measure length") auto

declare trim_invalid.simps [simp del]

definition truncateBytes :: "string \<Rightarrow> nat \<Rightarrow> string" where
  "truncateBytes s n = (if length s \<le> n then s else trim_invalid (take n s))"

definition pathOnly :: "string \<Rightarrow> string" where
  "pathOnly s = (let p = takeWhile (\<lambda>c. c \<noteq> CHR ''?'' \<and> c \<noteq> CHR ''#'') s
     in if take 1 p = ''/'' then p else '''')"

text \<open>\<open>url_host\<close> is \<open>url.Parse\<close> and the host of its result.\<close>

definition hostOnly :: "(string \<Rightarrow> string option) \<Rightarrow> string \<Rightarrow> string" where
  "hostOnly url_host s = (if s = '''' then '''' else case url_host s of None \<Rightarrow> '''' | Some h \<Rightarrow> h)"

text \<open>\<open>claims_sub\<close> is \<open>json.Unmarshal\<close> into a struct with the one field \<open>sub\<close>.\<close>

definition subFromJWT :: "(string \<Rightarrow> string option) \<Rightarrow> string \<Rightarrow> string" where
  "subFromJWT claims_sub tok = (case split_dots tok of
       [h, body, sig] \<Rightarrow> (case DecodeString body of
           None \<Rightarrow> ''''
         | Some raw \<Rightarrow> (case claims_sub raw of None \<Rightarrow> '''' | Some s \<Rightarrow> s))
     | _ \<Rightarrow> '''')"

text \<open>\<open>parses\<close> is \<open>uuid.Parse\<close>.\<close>

definition anonID :: "(string \<Rightarrow> bool) \<Rightarrow> request \<Rightarrow> (('d, 'r) exchange, string) prog" where
  "anonID parses rq = (case rq_cookies rq anonCookieName of
       Some v \<Rightarrow> if parses v then ret v else
         bnd new_uuid (\<lambda>i. bnd (SetCookie \<lparr>co_Name = anonCookieName, co_Value = i, co_Path = ''/'', co_MaxAge = anonCookieMaxAge,
           co_HttpOnly = True, co_Secure = rq_https rq\<rparr>) (\<lambda>_. ret i))
     | None \<Rightarrow>
         bnd new_uuid (\<lambda>i. bnd (SetCookie \<lparr>co_Name = anonCookieName, co_Value = i, co_Path = ''/'', co_MaxAge = anonCookieMaxAge,
           co_HttpOnly = True, co_Secure = rq_https rq\<rparr>) (\<lambda>_. ret i)))"

definition stamped :: "(string \<Rightarrow> string option) \<Rightarrow> client_event_type \<Rightarrow> string \<Rightarrow> string \<Rightarrow> string \<Rightarrow> string \<Rightarrow> browser_event \<Rightarrow> client_event" where
  "stamped url_host kind anon owner ua t ev = \<lparr>ce_Type = kind, ce_SessionId = truncateBytes (be_SessionID ev) 64,
     ce_Path = truncateBytes (pathOnly (be_Path ev)) maxFieldBytes,
     ce_Referrer = truncateBytes (hostOnly url_host (be_Referrer ev)) maxFieldBytes,
     ce_ProductId = truncateBytes (be_ProductID ev) 64, ce_Query = truncateBytes (be_Query ev) maxFieldBytes,
     ce_AnonymousId = anon, ce_OwnerId = owner, ce_UserAgent = ua, ce_ValueMinor = be_ValueMinor ev,
     ce_CurrencyCode = truncateBytes (be_Currency ev) 3, ce_ClientTime = truncateBytes (be_ClientTime ev) 40, ce_ReceivedAt = t\<rparr>"

text \<open>The loop: unknown types are skipped, the first failed publication ends it.  \<open>mk\<close> stamps an event of a known type.\<close>

fun publish_events :: "(client_event \<Rightarrow> ('d, unit) prog) \<Rightarrow> (client_event_type \<Rightarrow> browser_event \<Rightarrow> client_event) \<Rightarrow> browser_event list \<Rightarrow>
    nat \<Rightarrow> ('d, nat) prog" where
  "publish_events pub mk [] n = ret n"
| "publish_events pub mk (ev # evs) n = (case map_of clientEventTypes (be_Type ev) of
       None \<Rightarrow> publish_events pub mk evs n
     | Some kind \<Rightarrow> bnd (attempt (pub (mk kind ev))) (\<lambda>r. case r of
           Inl _ \<Rightarrow> ret n
         | Inr _ \<Rightarrow> publish_events pub mk evs (Suc n)))"

definition ingestEvents ::
  "(string \<Rightarrow> client_event \<Rightarrow> ('d, unit) prog) option \<Rightarrow> (string \<Rightarrow> bool) \<Rightarrow> (string \<Rightarrow> string option) \<Rightarrow> (string \<Rightarrow> string option) \<Rightarrow>
   (string \<Rightarrow> browser_event list option) \<Rightarrow> request \<Rightarrow> ('d, nat) handler" where
  "ingestEvents pub parses url_host claims_sub decode rq = (case pub of
       None \<Rightarrow> respond 503 NoContent
     | Some send_event \<Rightarrow> (case readBody rq of
         None \<Rightarrow> respond 400 (GatewayErr ''INVALID_ARGUMENT'' ''BODY_READ'')
       | Some body \<Rightarrow> (case decode body of
           None \<Rightarrow> respond 400 (GatewayErr ''INVALID_ARGUMENT'' ''BAD_JSON'')
         | Some evs0 \<Rightarrow>
             bnd (anonID parses rq) (\<lambda>anon.
             bnd (asks (\<lambda>e. fmt_time e (now e))) (\<lambda>t.
             bnd (call (publish_events (send_event anon)
                 (\<lambda>kind ev. stamped url_host kind anon (subFromJWT claims_sub (bff_bearer rq)) (truncateBytes (rq_UserAgent rq) maxUABytes) t ev)
                 (take maxBeaconEvents evs0) 0)) (\<lambda>n.
             respond 202 (Answer n)))))))"

end
