(* ===== verification/BffRoutes.thy ===== *)
theory BffRoutes
  imports Bff OrderRpc
begin

section \<open>The gateway of the storefront: its routes (internal/api)\<close>

text \<open>
  Every handler of the router.  The services are arguments, one per RPC the handler calls, each given the bearer token of
  the caller first (\<open>outCtx\<close>; empty where there is none): \<open>call\<close> runs them on the services behind the gateway.
\<close>

abbreviation param :: "request \<Rightarrow> string \<Rightarrow> string" where
  "param rq k \<equiv> rget (rq_params rq) k"

abbreviation queryParam :: "request \<Rightarrow> string \<Rightarrow> string" where
  "queryParam rq k \<equiv> rget (rq_query rq) k"

subsection \<open>Browsing (api.go, seller.go)\<close>

definition sort_param :: "string \<Rightarrow> sort_order" where
  "sort_param s = (if s = ''newest'' then SortNewest else if s = ''price_asc'' then SortPriceAsc
     else if s = ''price_desc'' then SortPriceDesc else SortRelevance)"

definition listProducts :: "(string \<Rightarrow> search_req \<Rightarrow> ('d, 'r) prog) \<Rightarrow> request \<Rightarrow> ('d, 'r) handler" where
  "listProducts rpc_Search rq = answer 200 (rpc_Search (bff_bearer rq)
     \<lparr>sq_Query = queryParam rq ''q'', sq_CategoryId = queryParam rq ''category_id'', sq_Attributes = [], sq_MinPriceUnits = 0,
      sq_MaxPriceUnits = 0, sq_Sort = sort_param (queryParam rq ''sort''), sq_PageSize = fst (bff_page rq), sq_PageToken = snd (bff_page rq)\<rparr>)"

text \<open>A product page: the product, and the id, name and slug of its shop where it has one that can be read.\<close>

type_synonym product_page = "product_msg \<times> (string \<times> string \<times> string) option"

definition writeProductWithSoldBy :: "(string \<Rightarrow> shop_selector \<Rightarrow> ('d, shop) prog) \<Rightarrow> request \<Rightarrow> product_msg \<Rightarrow> ('d, product_page) handler" where
  "writeProductWithSoldBy rpc_GetShop rq p =
     (if pm_ShopId p = '''' then respond 200 (Answer (p, None))
      else bnd (attempt (call (rpc_GetShop (bff_bearer rq) (ById (pm_ShopId p))))) (\<lambda>r. case r of
          Inl _ \<Rightarrow> respond 200 (Answer (p, None))
        | Inr sh \<Rightarrow> respond 200 (Answer (p, Some (sp_ID sh, sp_Name sh, sp_Slug sh)))))"

definition getProduct :: "(string \<Rightarrow> string \<Rightarrow> ('d, product_msg) prog) \<Rightarrow> (string \<Rightarrow> shop_selector \<Rightarrow> ('d, shop) prog) \<Rightarrow> request \<Rightarrow>
    ('d, product_page) handler" where
  "getProduct rpc_GetProduct rpc_GetShop rq =
     bnd (attempt (call (rpc_GetProduct (bff_bearer rq) (param rq ''slug'')))) (\<lambda>r. case r of
       Inl err \<Rightarrow> bff_fail err
     | Inr p \<Rightarrow> writeProductWithSoldBy rpc_GetShop rq p)"

definition autocomplete :: "(string \<Rightarrow> string \<Rightarrow> ('d, 'r) prog) \<Rightarrow> request \<Rightarrow> ('d, 'r) handler" where
  "autocomplete rpc_Autocomplete rq = answer 200 (rpc_Autocomplete (bff_bearer rq) (queryParam rq ''q''))"

definition getShop :: "(string \<Rightarrow> shop_selector \<Rightarrow> ('d, 'r) prog) \<Rightarrow> request \<Rightarrow> ('d, 'r) handler" where
  "getShop rpc_GetShop rq = answer 200 (rpc_GetShop (bff_bearer rq) (BySlug (param rq ''slug'')))"

definition listShopPublicProducts :: "(string \<Rightarrow> shop_selector \<Rightarrow> ('d, shop) prog) \<Rightarrow> (string \<Rightarrow> string \<Rightarrow> int32 \<times> string \<Rightarrow> ('d, 'r) prog) \<Rightarrow>
    request \<Rightarrow> ('d, 'r) handler" where
  "listShopPublicProducts rpc_GetShop rpc_ListProducts rq =
     bnd (attempt (call (rpc_GetShop (bff_bearer rq) (BySlug (param rq ''slug''))))) (\<lambda>r. case r of
       Inl err \<Rightarrow> bff_fail err
     | Inr sh \<Rightarrow> answer 200 (rpc_ListProducts (bff_bearer rq) (sp_ID sh) (bff_page rq)))"

subsection \<open>Checkout and orders (checkout.go, sharing.go)\<close>

text \<open>What Echo's \<open>Bind\<close> made of the request: whether it succeeded, and the value.\<close>

record checkout_body =
  kb_ShipTo :: address
  kb_CouponCode :: string
  kb_CurrencyCode :: string
  kb_PaymentMethodToken :: string
  kb_IdempotencyKey :: string

definition bad_json :: "('d, 'r) handler" where
  "bad_json = respond 400 (GatewayErr ''INVALID_ARGUMENT'' ''BAD_JSON'')"

definition idempotencyKey :: "request \<Rightarrow> string \<Rightarrow> string" where
  "idempotencyKey rq fromBody = (let h = TrimSpace (rq_IdempotencyKey rq) in if h \<noteq> '''' then h else TrimSpace fromBody)"

definition cartCookie :: string where "cartCookie = ''cart_id''"

definition cartID :: "broker option \<Rightarrow> request \<Rightarrow> (('d, 'r) exchange, string) prog" where
  "cartID b rq = (let minted = bnd new_uuid (\<lambda>i. bnd (SetCookie \<lparr>co_Name = cartCookie, co_Value = ''c_'' @ i, co_Path = ''/'',
        co_MaxAge = 60 * 60 * 24 * 30, co_HttpOnly = True, co_Secure = CookieSecure b\<rparr>) (\<lambda>_. ret (''c_'' @ i)))
     in case rq_cookies rq cartCookie of Some v \<Rightarrow> if v \<noteq> '''' then ret v else minted | None \<Rightarrow> minted)"

definition checkout :: "(string \<Rightarrow> create_order_req \<Rightarrow> ('d, 'r) prog) \<Rightarrow> broker option \<Rightarrow> bool \<times> checkout_body \<Rightarrow> request \<Rightarrow> ('d, 'r) handler" where
  "checkout rpc_CreateOrder b bound rq = requireAuth rq (case bound of (ok, kb) \<Rightarrow>
     if \<not> ok then bad_json
     else bnd (cartID b rq) (\<lambda>cart.
          answer 201 (rpc_CreateOrder (bff_bearer rq)
            \<lparr>co_CartId = cart, co_CurrencyCode = (if kb_CurrencyCode kb = '''' then ''USD'' else kb_CurrencyCode kb),
             co_CouponCode = kb_CouponCode kb, co_PaymentMethodToken = kb_PaymentMethodToken kb, co_ShipTo = kb_ShipTo kb,
             co_IdempotencyKey = idempotencyKey rq (kb_IdempotencyKey kb)\<rparr>)))"

definition confirmCheckout :: "(string \<Rightarrow> string \<Rightarrow> outcome \<Rightarrow> ('d, 'r) prog) \<Rightarrow> bool \<times> string \<times> string \<Rightarrow> request \<Rightarrow> ('d, 'r) handler" where
  "confirmCheckout rpc_ConfirmPayment bound rq = requireAuth rq (case bound of (ok, payment, out) \<Rightarrow>
     if \<not> ok \<or> payment = '''' then respond 400 (GatewayErr ''INVALID_ARGUMENT'' ''PAYMENT_ID_REQUIRED'')
     else answer 200 (rpc_ConfirmPayment (bff_bearer rq) payment (if out = ''fail'' then OUTCOME_FAIL else OUTCOME_AUTHORIZE)))"

definition listOrders :: "(string \<Rightarrow> int32 \<times> string \<Rightarrow> ('d, 'r) prog) \<Rightarrow> request \<Rightarrow> ('d, 'r) handler" where
  "listOrders rpc_ListOrders rq = requireAuth rq (answer 200 (rpc_ListOrders (bff_bearer rq) (bff_page rq)))"

definition getOrder :: "(string \<Rightarrow> string \<Rightarrow> ('d, 'r) prog) \<Rightarrow> request \<Rightarrow> ('d, 'r) handler" where
  "getOrder rpc_GetOrder rq = requireAuth rq (answer 200 (rpc_GetOrder (bff_bearer rq) (param rq ''id'')))"

definition shareOrder :: "(string \<Rightarrow> string \<Rightarrow> string \<Rightarrow> ('d, 'r) prog) \<Rightarrow> (string \<Rightarrow> bool \<times> string) \<Rightarrow> request \<Rightarrow> ('d, 'r) handler" where
  "shareOrder rpc_ShareOrder decode rq = requireAuth rq (
     bnd (bff_bind decode '''' rq) (\<lambda>grantee.
     answer 200 (rpc_ShareOrder (bff_bearer rq) (param rq ''id'') grantee)))"

definition revokeOrderShare :: "(string \<Rightarrow> string \<Rightarrow> string \<Rightarrow> ('d, 'r) prog) \<Rightarrow> request \<Rightarrow> ('d, 'r) handler" where
  "revokeOrderShare rpc_RevokeOrderShare rq = requireAuth rq (
     answer 200 (rpc_RevokeOrderShare (bff_bearer rq) (param rq ''id'') (param rq ''grantee'')))"

definition listOrderShares :: "(string \<Rightarrow> string \<Rightarrow> ('d, 'r) prog) \<Rightarrow> request \<Rightarrow> ('d, 'r) handler" where
  "listOrderShares rpc_ListOrderShares rq = requireAuth rq (answer 200 (rpc_ListOrderShares (bff_bearer rq) (param rq ''id'')))"

subsection \<open>The caller's shop (seller.go)\<close>

text \<open>Name, description and contact address of a shop.\<close>

definition createShop :: "(string \<Rightarrow> string \<times> string \<times> string \<Rightarrow> ('d, 'r) prog) \<Rightarrow> (string \<Rightarrow> bool \<times> string \<times> string \<times> string) \<Rightarrow> request \<Rightarrow>
    ('d, 'r) handler" where
  "createShop rpc_CreateShop decode rq = requireAuth rq (
     bnd (bff_bind decode ('''', '''', '''') rq) (\<lambda>m. answer 201 (rpc_CreateShop (bff_bearer rq) m)))"

definition getMyShop :: "(string \<Rightarrow> ('d, 'r) prog) \<Rightarrow> request \<Rightarrow> ('d, 'r) handler" where
  "getMyShop rpc_GetMyShop rq = requireAuth rq (answer 200 (rpc_GetMyShop (bff_bearer rq)))"

definition updateShop :: "(string \<Rightarrow> string \<times> string \<times> string \<Rightarrow> ('d, 'r) prog) \<Rightarrow> (string \<Rightarrow> bool \<times> string \<times> string \<times> string) \<Rightarrow> request \<Rightarrow>
    ('d, 'r) handler" where
  "updateShop rpc_UpdateShop decode rq = requireAuth rq (
     bnd (bff_bind decode ('''', '''', '''') rq) (\<lambda>m. answer 200 (rpc_UpdateShop (bff_bearer rq) m)))"

definition addShopStaff :: "(string \<Rightarrow> string \<Rightarrow> ('d, 'r) prog) \<Rightarrow> (string \<Rightarrow> bool \<times> string) \<Rightarrow> request \<Rightarrow> ('d, 'r) handler" where
  "addShopStaff rpc_AddShopStaff decode rq = requireAuth rq (
     bnd (bff_bind decode '''' rq) (\<lambda>subject. answer 200 (rpc_AddShopStaff (bff_bearer rq) subject)))"

definition removeShopStaff :: "(string \<Rightarrow> string \<Rightarrow> ('d, 'r) prog) \<Rightarrow> request \<Rightarrow> ('d, 'r) handler" where
  "removeShopStaff rpc_RemoveShopStaff rq = requireAuth rq (answer 200 (rpc_RemoveShopStaff (bff_bearer rq) (param rq ''subject'')))"

definition listShopStaff :: "(string \<Rightarrow> ('d, 'r) prog) \<Rightarrow> request \<Rightarrow> ('d, 'r) handler" where
  "listShopStaff rpc_ListShopStaff rq = requireAuth rq (answer 200 (rpc_ListShopStaff (bff_bearer rq)))"

definition no_product :: create_product_req where
  "no_product = \<lparr>cq_Slug = '''', cq_Title = '''', cq_Description = '''', cq_CategoryId = '''', cq_ListPrice = None, cq_MediaKeys = [],
     cq_Attributes = [], cq_ShopId = ''''\<rparr>"

definition no_update :: update_product_req where
  "no_update = \<lparr>uq_Id = '''', uq_Title = '''', uq_Description = '''', uq_CategoryId = '''', uq_ListPrice = None, uq_MediaKeys = [],
     uq_Attributes = [], uq_Status = None\<rparr>"

definition createShopProduct :: "(string \<Rightarrow> ('d, shop) prog) \<Rightarrow> (string \<Rightarrow> create_product_req \<Rightarrow> ('d, 'r) prog) \<Rightarrow>
    (string \<Rightarrow> bool \<times> create_product_req) \<Rightarrow> request \<Rightarrow> ('d, 'r) handler" where
  "createShopProduct rpc_GetMyShop rpc_CreateProduct decode rq = requireAuth rq (
     bnd (bff_bind decode no_product rq) (\<lambda>m.
     bnd (attempt (call (rpc_GetMyShop (bff_bearer rq)))) (\<lambda>r. case r of
       Inl err \<Rightarrow> bff_fail err
     | Inr sh \<Rightarrow>
         if sp_Status sh \<noteq> ShopActive then respond 409 (GatewayErr ''SHOP_NOT_ACTIVE'' ''SHOP_NOT_ACTIVE'')
         else answer 201 (rpc_CreateProduct (bff_bearer rq) (m\<lparr>cq_ShopId := sp_ID sh\<rparr>)))))"

definition listShopProducts :: "(string \<Rightarrow> ('d, shop) prog) \<Rightarrow> (string \<Rightarrow> string \<Rightarrow> int32 \<times> string \<Rightarrow> ('d, 'r) prog) \<Rightarrow> request \<Rightarrow> ('d, 'r) handler" where
  "listShopProducts rpc_GetMyShop rpc_ListShopProducts rq = requireAuth rq (
     bnd (attempt (call (rpc_GetMyShop (bff_bearer rq)))) (\<lambda>r. case r of
       Inl err \<Rightarrow> bff_fail err
     | Inr sh \<Rightarrow> answer 200 (rpc_ListShopProducts (bff_bearer rq) (sp_ID sh) (bff_page rq))))"

definition listShopPayouts :: "(string \<Rightarrow> ('d, shop) prog) \<Rightarrow> (string \<Rightarrow> string \<Rightarrow> int32 \<times> string \<Rightarrow> string \<Rightarrow> ('d, 'r) prog) \<Rightarrow> request \<Rightarrow>
    ('d, 'r) handler" where
  "listShopPayouts rpc_GetMyShop rpc_ListPayouts rq = requireAuth rq (
     bnd (attempt (call (rpc_GetMyShop (bff_bearer rq)))) (\<lambda>r. case r of
       Inl err \<Rightarrow> bff_fail err
     | Inr sh \<Rightarrow> answer 200 (rpc_ListPayouts (bff_bearer rq) (sp_ID sh) (bff_page rq) (queryParam rq ''status''))))"

definition updateShopProduct :: "(string \<Rightarrow> update_product_req \<Rightarrow> ('d, 'r) prog) \<Rightarrow> (string \<Rightarrow> bool \<times> update_product_req) \<Rightarrow> request \<Rightarrow>
    ('d, 'r) handler" where
  "updateShopProduct rpc_UpdateProduct decode rq = requireAuth rq (
     bnd (bff_bind decode no_update rq) (\<lambda>m. answer 200 (rpc_UpdateProduct (bff_bearer rq) (m\<lparr>uq_Id := param rq ''id''\<rparr>))))"

definition archiveShopProduct :: "(string \<Rightarrow> string \<Rightarrow> ('d, 'r) prog) \<Rightarrow> request \<Rightarrow> ('d, 'r) handler" where
  "archiveShopProduct rpc_ArchiveProduct rq = requireAuth rq (answer 200 (rpc_ArchiveProduct (bff_bearer rq) (param rq ''id'')))"

subsection \<open>Administration (api.go, admin.go, seller.go)\<close>

definition createProduct :: "(string \<Rightarrow> create_product_req \<Rightarrow> ('d, 'r) prog) \<Rightarrow> (string \<Rightarrow> bool \<times> create_product_req) \<Rightarrow> request \<Rightarrow> ('d, 'r) handler" where
  "createProduct rpc_CreateProduct decode rq =
     bnd (bff_bind decode no_product rq) (\<lambda>m. answer 201 (rpc_CreateProduct (bff_bearer rq) m))"

definition bff_updateProduct :: "(string \<Rightarrow> update_product_req \<Rightarrow> ('d, 'r) prog) \<Rightarrow> (string \<Rightarrow> bool \<times> update_product_req) \<Rightarrow> request \<Rightarrow>
    ('d, 'r) handler" where
  "bff_updateProduct rpc_UpdateProduct decode rq =
     bnd (bff_bind decode no_update rq) (\<lambda>m. answer 200 (rpc_UpdateProduct (bff_bearer rq) (m\<lparr>uq_Id := param rq ''id''\<rparr>)))"

definition archiveProduct :: "(string \<Rightarrow> string \<Rightarrow> ('d, 'r) prog) \<Rightarrow> request \<Rightarrow> ('d, 'r) handler" where
  "archiveProduct rpc_ArchiveProduct rq = answer 200 (rpc_ArchiveProduct (bff_bearer rq) (param rq ''id''))"

text \<open>Bucket, file name, content type and size of an upload.\<close>

definition createUpload :: "(string \<Rightarrow> string \<times> string \<times> string \<times> int64 \<Rightarrow> ('d, 'r) prog) \<Rightarrow>
    (string \<Rightarrow> bool \<times> string \<times> string \<times> string \<times> int64) \<Rightarrow> request \<Rightarrow> ('d, 'r) handler" where
  "createUpload rpc_CreateUploadURL decode rq =
     bnd (bff_bind decode ('''', '''', '''', 0) rq) (\<lambda>m. answer 200 (rpc_CreateUploadURL (bff_bearer rq) m))"

definition bff_confirmUpload :: "(string \<Rightarrow> string \<Rightarrow> ('d, 'r) prog) \<Rightarrow> (string \<Rightarrow> bool \<times> string) \<Rightarrow> request \<Rightarrow> ('d, 'r) handler" where
  "bff_confirmUpload rpc_ConfirmUpload decode rq =
     bnd (bff_bind decode '''' rq) (\<lambda>key. answer 200 (rpc_ConfirmUpload (bff_bearer rq) key))"

definition adminListOrders :: "(string \<Rightarrow> int32 \<times> string \<Rightarrow> string \<Rightarrow> string \<Rightarrow> ('d, 'r) prog) \<Rightarrow> request \<Rightarrow> ('d, 'r) handler" where
  "adminListOrders rpc_ListOrders rq = requireAuth rq (
     answer 200 (rpc_ListOrders (bff_bearer rq) (bff_page rq) (queryParam rq ''owner_id'') (queryParam rq ''status'')))"

definition adminGetOrder :: "(string \<Rightarrow> string \<Rightarrow> ('d, 'r) prog) \<Rightarrow> request \<Rightarrow> ('d, 'r) handler" where
  "adminGetOrder rpc_GetOrder rq = requireAuth rq (answer 200 (rpc_GetOrder (bff_bearer rq) (param rq ''id'')))"

definition adminListReturns :: "(string \<Rightarrow> int32 \<times> string \<Rightarrow> string \<Rightarrow> ('d, 'r) prog) \<Rightarrow> request \<Rightarrow> ('d, 'r) handler" where
  "adminListReturns rpc_ListReturns rq = requireAuth rq (
     answer 200 (rpc_ListReturns (bff_bearer rq) (bff_page rq) (queryParam rq ''status'')))"

definition adminDecideReturn :: "(string \<Rightarrow> string \<Rightarrow> bool \<Rightarrow> string \<Rightarrow> ('d, 'r) prog) \<Rightarrow> bool \<times> bool \<times> string \<Rightarrow> request \<Rightarrow> ('d, 'r) handler" where
  "adminDecideReturn rpc_DecideReturn bound rq = requireAuth rq (case bound of (ok, approve, comment) \<Rightarrow>
     if \<not> ok then bad_json else answer 200 (rpc_DecideReturn (bff_bearer rq) (param rq ''id'') approve comment))"

definition adminListShipments :: "(string \<Rightarrow> int32 \<times> string \<Rightarrow> string \<Rightarrow> string \<Rightarrow> ('d, 'r) prog) \<Rightarrow> request \<Rightarrow> ('d, 'r) handler" where
  "adminListShipments rpc_ListShipments rq = requireAuth rq (
     answer 200 (rpc_ListShipments (bff_bearer rq) (bff_page rq) (queryParam rq ''order_id'') (queryParam rq ''status'')))"

text \<open>Here a body that does not parse is ignored on purpose: its fields are optional.\<close>

definition adminShipShipment :: "(string \<Rightarrow> string \<Rightarrow> string \<Rightarrow> string \<Rightarrow> ('d, 'r) prog) \<Rightarrow> bool \<times> string \<times> string \<Rightarrow> request \<Rightarrow> ('d, 'r) handler" where
  "adminShipShipment rpc_MarkShipped bound rq = requireAuth rq (case bound of (ok, carrier, tracking) \<Rightarrow>
     answer 200 (rpc_MarkShipped (bff_bearer rq) (param rq ''id'') carrier tracking))"

definition adminDeliverShipment :: "(string \<Rightarrow> string \<Rightarrow> ('d, 'r) prog) \<Rightarrow> request \<Rightarrow> ('d, 'r) handler" where
  "adminDeliverShipment rpc_MarkDelivered rq = requireAuth rq (answer 200 (rpc_MarkDelivered (bff_bearer rq) (param rq ''id'')))"

definition adminCancelShipment :: "(string \<Rightarrow> string \<Rightarrow> string \<Rightarrow> ('d, 'r) prog) \<Rightarrow> bool \<times> string \<Rightarrow> request \<Rightarrow> ('d, 'r) handler" where
  "adminCancelShipment rpc_CancelShipment bound rq = requireAuth rq (case bound of (ok, reason) \<Rightarrow>
     answer 200 (rpc_CancelShipment (bff_bearer rq) (param rq ''id'') reason))"

definition adminListPayouts :: "(string \<Rightarrow> string \<Rightarrow> int32 \<times> string \<Rightarrow> string \<Rightarrow> ('d, 'r) prog) \<Rightarrow> request \<Rightarrow> ('d, 'r) handler" where
  "adminListPayouts rpc_ListPayouts rq = requireAuth rq (
     answer 200 (rpc_ListPayouts (bff_bearer rq) (queryParam rq ''shop_id'') (bff_page rq) (queryParam rq ''status'')))"

definition adminMarkPayoutPaid :: "(string \<Rightarrow> string \<Rightarrow> ('d, 'r) prog) \<Rightarrow> request \<Rightarrow> ('d, 'r) handler" where
  "adminMarkPayoutPaid rpc_MarkPaid rq = requireAuth rq (answer 200 (rpc_MarkPaid (bff_bearer rq) (param rq ''id'')))"

definition shop_status_param :: "string \<Rightarrow> shop_status option" where
  "shop_status_param s = (if s = ''PENDING_REVIEW'' then Some ShopPendingReview else if s = ''ACTIVE'' then Some ShopActive
     else if s = ''SUSPENDED'' then Some ShopSuspended else None)"

definition adminListShops :: "(string \<Rightarrow> shop_status option \<Rightarrow> int32 \<times> string \<Rightarrow> ('d, 'r) prog) \<Rightarrow> request \<Rightarrow> ('d, 'r) handler" where
  "adminListShops rpc_ListShops rq = answer 200 (rpc_ListShops (bff_bearer rq) (shop_status_param (queryParam rq ''status'')) (bff_page rq))"

definition adminActivateShop :: "(string \<Rightarrow> string \<Rightarrow> ('d, 'r) prog) \<Rightarrow> request \<Rightarrow> ('d, 'r) handler" where
  "adminActivateShop rpc_ActivateShop rq = answer 200 (rpc_ActivateShop (bff_bearer rq) (param rq ''id''))"

definition adminSuspendShop :: "(string \<Rightarrow> string \<Rightarrow> string \<Rightarrow> ('d, 'r) prog) \<Rightarrow> (string \<Rightarrow> bool \<times> string) \<Rightarrow> request \<Rightarrow> ('d, 'r) handler" where
  "adminSuspendShop rpc_SuspendShop decode rq =
     bnd (bff_bind decode '''' rq) (\<lambda>reason. answer 200 (rpc_SuspendShop (bff_bearer rq) (param rq ''id'') reason))"

end
