(* ===== verification/BffCart.thy ===== *)
theory BffCart
  imports BffRoutes
begin

section \<open>The gateway of the storefront: the cart page (internal/api/cart.go)\<close>

text \<open>
  The raw cart is joined with the catalog's products and a live quote.  The two lookups run in two goroutines that share
  nothing; they are run one after the other here.  Either may fail without blanking the half the other fills in.
\<close>

record money_view =
  mv_CurrencyCode :: string
  mv_Units :: string
  mv_Nanos :: int32

definition moneyView :: "wire_money option \<Rightarrow> money_view option" where
  "moneyView m = map_option (\<lambda>m. \<lparr>mv_CurrencyCode = w_currency m, mv_Units = FormatInt (w_units m), mv_Nanos = w_nanos m\<rparr>) m"

record cart_line_view =
  lv_ProductID :: string
  lv_Slug :: string
  lv_Title :: string
  lv_Quantity :: int32
  lv_UnitPrice :: "money_view option"
  lv_LineTotal :: "money_view option"
  lv_PrimaryMediaKey :: string

record cart_view =
  cv_ID :: string
  cv_Items :: "cart_line_view list"
  cv_TotalQuantity :: int32
  cv_Subtotal :: "money_view option"
  cv_Discount :: "money_view option"
  cv_Tax :: "money_view option"
  cv_Total :: "money_view option"
  cv_CouponCode :: string
  cv_CouponError :: string
  cv_DetailsUnavailable :: bool

text \<open>The services a cart page calls.\<close>

record 'd cart_services =
  cs_BatchGetProducts :: "string \<Rightarrow> string list \<Rightarrow> ('d, product_msg list) prog"
  cs_QuotePrice :: "string \<Rightarrow> (string \<times> int32) list \<Rightarrow> string \<Rightarrow> string \<Rightarrow> ('d, quote_msg) prog"

text \<open>Maps built by assignment in a loop: the last entry of a key stays.\<close>

definition last_by :: "('a \<Rightarrow> string) \<Rightarrow> 'a list \<Rightarrow> string \<Rightarrow> 'a option" where
  "last_by key xs = map_of (rev (map (\<lambda>x. (key x, x)) xs))"

definition batchProductsByID :: "'d cart_services \<Rightarrow> string \<Rightarrow> cart_item list \<Rightarrow> ('d, string \<Rightarrow> product_msg option) prog" where
  "batchProductsByID cs tok items =
     bnd (cs_BatchGetProducts cs tok (map ci_ProductID items)) (\<lambda>ps. ret (last_by pm_Id ps))"

definition quoteCartItems :: "'d cart_services \<Rightarrow> string \<Rightarrow> cart_item list \<Rightarrow> string \<Rightarrow> ('d, quote_msg option \<times> string) prog" where
  "quoteCartItems cs tok items coupon =
     (let ins = map (\<lambda>it. (ci_ProductID it, ci_Quantity it)) items in
      bnd (attempt (cs_QuotePrice cs tok ins ''USD'' coupon)) (\<lambda>r. case r of
        Inr q \<Rightarrow> ret (Some q, '''')
      | Inl err \<Rightarrow> bnd (attempt (cs_QuotePrice cs tok ins ''USD'' '''')) (\<lambda>r2.
          ret ((case r2 of Inl _ \<Rightarrow> None | Inr q \<Rightarrow> Some q), he_reason (FromGRPC err)))))"

definition cart_line :: "(string \<Rightarrow> product_msg option) \<Rightarrow> (string \<Rightarrow> quote_line_msg option) \<Rightarrow> cart_item \<Rightarrow> cart_line_view" where
  "cart_line byID lineByID it = (let i = ci_ProductID it in
     \<lparr>lv_ProductID = i, lv_Slug = (case byID i of None \<Rightarrow> '''' | Some p \<Rightarrow> pm_Slug p),
      lv_Title = (case byID i of None \<Rightarrow> '''' | Some p \<Rightarrow> pm_Title p), lv_Quantity = ci_Quantity it,
      lv_UnitPrice = (case lineByID i of None \<Rightarrow> None | Some l \<Rightarrow> moneyView (ql_unit_price l)),
      lv_LineTotal = (case lineByID i of None \<Rightarrow> None | Some l \<Rightarrow> moneyView (ql_line_total l)),
      lv_PrimaryMediaKey = (case byID i of None \<Rightarrow> '''' | Some p \<Rightarrow> (case pm_MediaKeys p of [] \<Rightarrow> '''' | mk # _ \<Rightarrow> mk))\<rparr>)"

definition cartLineViews :: "cart_item list \<Rightarrow> (string \<Rightarrow> product_msg option) \<Rightarrow> quote_msg option \<Rightarrow> cart_line_view list" where
  "cartLineViews items byID q = (let lineByID = last_by ql_product_id (case q of None \<Rightarrow> [] | Some m \<Rightarrow> q_lines m)
     in map (cart_line byID lineByID) items)"

definition applyQuoteTotals :: "quote_msg option \<Rightarrow> cart_view \<Rightarrow> cart_view" where
  "applyQuoteTotals q v = (case q of None \<Rightarrow> v | Some m \<Rightarrow>
     v\<lparr>cv_Subtotal := moneyView (q_subtotal m), cv_Discount := moneyView (q_discount m), cv_Tax := moneyView (q_tax m),
       cv_Total := moneyView (q_total m), cv_CouponCode := (if q_coupon_code m \<noteq> '''' then q_coupon_code m else cv_CouponCode v)\<rparr>)"

definition empty_view :: "cart_msg \<Rightarrow> string \<Rightarrow> cart_view" where
  "empty_view raw coupon = \<lparr>cv_ID = cm_id raw, cv_Items = [], cv_TotalQuantity = cm_total_quantity raw, cv_Subtotal = None,
     cv_Discount = None, cv_Tax = None, cv_Total = None, cv_CouponCode = coupon, cv_CouponError = '''', cv_DetailsUnavailable = False\<rparr>"

definition respondCart :: "'d cart_services \<Rightarrow> request \<Rightarrow> cart_msg \<Rightarrow> string \<Rightarrow> ('d, cart_view) handler" where
  "respondCart cs rq raw coupon =
     (let v0 = empty_view raw coupon; items = cm_items raw in
      if items = [] then respond 200 (Answer v0)
      else bnd (attempt (call (batchProductsByID cs (bff_bearer rq) items))) (\<lambda>products.
           bnd (call (quoteCartItems cs (bff_bearer rq) items coupon)) (\<lambda>(q, couponErr).
           let v1 = v0\<lparr>cv_DetailsUnavailable := (case products of Inl _ \<Rightarrow> True | Inr _ \<Rightarrow> False)\<rparr>;
               v2 = (if couponErr \<noteq> '''' then v1\<lparr>cv_CouponError := couponErr, cv_CouponCode := ''''\<rparr> else v1);
               byID = (case products of Inl _ \<Rightarrow> (\<lambda>_. None) | Inr f \<Rightarrow> f)
           in respond 200 (Answer (applyQuoteTotals q (v2\<lparr>cv_Items := cartLineViews items byID q\<rparr>))))))"

text \<open>The five cart handlers call one RPC of the cart service and show its cart.\<close>

definition show_cart :: "'d cart_services \<Rightarrow> request \<Rightarrow> string \<Rightarrow> ('d, cart_msg) prog \<Rightarrow> ('d, cart_view) handler" where
  "show_cart cs rq coupon p = bnd (attempt (call p)) (\<lambda>r. case r of Inl err \<Rightarrow> bff_fail err | Inr raw \<Rightarrow> respondCart cs rq raw coupon)"

definition getCart :: "(string \<Rightarrow> string \<Rightarrow> ('d, cart_msg) prog) \<Rightarrow> 'd cart_services \<Rightarrow> broker option \<Rightarrow> request \<Rightarrow> ('d, cart_view) handler" where
  "getCart rpc_GetCart cs b rq = bnd (cartID b rq) (\<lambda>cart. show_cart cs rq (rget (rq_query rq) ''coupon'') (rpc_GetCart (bff_bearer rq) cart))"

definition addCartItem :: "(string \<Rightarrow> string \<Rightarrow> string \<Rightarrow> int32 \<Rightarrow> ('d, cart_msg) prog) \<Rightarrow> 'd cart_services \<Rightarrow> broker option \<Rightarrow>
    bool \<times> string \<times> int32 \<Rightarrow> request \<Rightarrow> ('d, cart_view) handler" where
  "addCartItem rpc_AddItem cs b bound rq = (case bound of (ok, product, n) \<Rightarrow>
     if \<not> ok then bad_json
     else bnd (cartID b rq) (\<lambda>cart. show_cart cs rq '''' (rpc_AddItem (bff_bearer rq) cart product n)))"

definition setCartItem :: "(string \<Rightarrow> string \<Rightarrow> string \<Rightarrow> int32 \<Rightarrow> ('d, cart_msg) prog) \<Rightarrow> 'd cart_services \<Rightarrow> broker option \<Rightarrow>
    bool \<times> int32 \<Rightarrow> request \<Rightarrow> ('d, cart_view) handler" where
  "setCartItem rpc_SetItemQuantity cs b bound rq = (case bound of (ok, n) \<Rightarrow>
     if \<not> ok then bad_json
     else bnd (cartID b rq) (\<lambda>cart. show_cart cs rq '''' (rpc_SetItemQuantity (bff_bearer rq) cart (rget (rq_params rq) ''productId'') n)))"

definition removeCartItem :: "(string \<Rightarrow> string \<Rightarrow> string \<Rightarrow> ('d, cart_msg) prog) \<Rightarrow> 'd cart_services \<Rightarrow> broker option \<Rightarrow> request \<Rightarrow>
    ('d, cart_view) handler" where
  "removeCartItem rpc_RemoveItem cs b rq = bnd (cartID b rq) (\<lambda>cart.
     show_cart cs rq '''' (rpc_RemoveItem (bff_bearer rq) cart (rget (rq_params rq) ''productId'')))"

definition clearCart :: "(string \<Rightarrow> string \<Rightarrow> ('d, cart_msg) prog) \<Rightarrow> 'd cart_services \<Rightarrow> broker option \<Rightarrow> request \<Rightarrow> ('d, cart_view) handler" where
  "clearCart rpc_Clear cs b rq = bnd (cartID b rq) (\<lambda>cart. show_cart cs rq '''' (rpc_Clear (bff_bearer rq) cart))"

end
