(* ===== verification/BffProps.thy ===== *)
theory BffProps
  imports BffCart CatalogProps SampleEnv
begin

section \<open>What the gateway answers\<close>

text \<open>
  Sign-in and the answers of the handlers, a body that is refused and served all the same, the cookies of a logout, the
  cart page, the beacon, and the idempotency key that the order service does not read.
\<close>

lemma wp_respond [simp]: "wp (respond st b) Q x e = Q (Inr ()) (x\<lparr>ex_writes := ex_writes x @ [(st, b)]\<rparr>) e"
  by (simp add: wp_def respond_def)

lemma wp_SetCookie [simp]: "wp (SetCookie ck) Q x e = Q (Inr ()) (x\<lparr>ex_cookies := ex_cookies x @ [ck]\<rparr>) e"
  by (simp add: wp_def SetCookie_def)

lemma wp_call [simp]: "wp (call p) Q x e = wp p (\<lambda>r d. Q r (x\<lparr>ex_down := d\<rparr>)) (ex_down x) e"
  by (simp add: call_def)

lemma wp_bff_fail [simp]:
  "wp (bff_fail err) Q x e = Q (Inr ()) (x\<lparr>ex_writes := ex_writes x @ [(he_status (FromGRPC err), ServiceErr (FromGRPC err))]\<rparr>) e"
  by (simp add: bff_fail_def Let_def)

subsection \<open>Answers\<close>

text \<open>Without a token a route that requires sign-in answers 401 and calls no service.\<close>

theorem unsigned_is_turned_away:
  assumes "bff_bearer rq = ''''"
  shows "requireAuth rq h x e = (Inr (), x\<lparr>ex_writes := ex_writes x @ [(401, GatewayErr ''UNAUTHENTICATED'' ''SIGN_IN_REQUIRED'')]\<rparr>, e)"
  using assms by (simp add: requireAuth_def sign_in_required_def respond_def)

text \<open>A service's answer is written under the given status, its error under the status of its code; never both.\<close>

lemma wp_answer:
  "wp p (\<lambda>r d' e'. Q (Inr ()) (x\<lparr>ex_down := d', ex_writes := ex_writes x @
      [case r of Inl err \<Rightarrow> (he_status (FromGRPC err), ServiceErr (FromGRPC err)) | Inr m \<Rightarrow> (st, Answer m)]\<rparr>) e') (ex_down x) e \<Longrightarrow>
   wp (answer st p) Q x e"
  unfolding answer_def by (auto elim!: wp_mono split: sum.splits)

subsection \<open>A refused body\<close>

text \<open>\<open>bindJSON\<close> and \<open>bindProto\<close> report the failure and let the handler go on: a refused body is served like the message the
  decoder left, after the 400 that the client sees.\<close>

theorem refused_body_served:
  assumes "readBody rq = Some body" "decode body = (False, m)"
  shows "createProduct f decode rq x e =
     createProduct f (\<lambda>_. (True, m)) rq (x\<lparr>ex_writes := ex_writes x @ [(400, GatewayErr ''INVALID_ARGUMENT'' ''BAD_JSON'')]\<rparr>) e"
  using assms by (simp add: createProduct_def bff_bind_def bnd_def respond_def ret_def)

definition any_request :: request where
  "any_request = \<lparr>rq_Authorization = ''Bearer t'', rq_IdempotencyKey = '''', rq_UserAgent = '''', rq_https = True, rq_cookies = Map.empty,
     rq_query = Map.empty, rq_params = Map.empty, rq_body = Some ''{...}''\<rparr>"

definition started :: "'d \<Rightarrow> ('d, 'r) exchange" where
  "started d = \<lparr>ex_down = d, ex_writes = [], ex_cookies = []\<rparr>"

text \<open>A product in a body with a field the decoder does not know: the client is told 400, and the product is there.\<close>

definition refused_exchange :: "(catalog_sys, product_msg) exchange" where
  "refused_exchange = after (createProduct (\<lambda>tok. CreateProduct ascii_tables (Some openfga) clerk) (\<lambda>_. (False, bowl_request)) any_request)
     (env_at 1) (started open_desk)"

lemma refused_exchange_runs:
  "refused_exchange = after (answer 201 (CreateProduct ascii_tables (Some openfga) clerk bowl_request)) (env_at 1)
     ((started open_desk)\<lparr>ex_writes := [(400, GatewayErr ''INVALID_ARGUMENT'' ''BAD_JSON'')]\<rparr>)"
  by (simp add: refused_exchange_def after_def createProduct_def bff_bind_def readBody_def any_request_def bnd_def respond_def ret_def started_def)

theorem refused_product_created:
  "client_status refused_exchange = 400 \<and> map fst (ex_writes refused_exchange) = [400, 201] \<and>
   map pd_Slug (products (ct_db (ex_down refused_exchange))) = [''bowl'']"
  unfolding refused_exchange_runs by code_simp

subsection \<open>Cookies\<close>

text \<open>A browser keeps a cookie per name and path.\<close>

definition store_cookie :: "cookie \<Rightarrow> (string \<times> string \<rightharpoonup> string) \<Rightarrow> (string \<times> string \<rightharpoonup> string)" where
  "store_cookie ck j = j((co_Name ck, co_Path ck) := (if co_MaxAge ck < 0 then None else Some (co_Value ck)))"

definition jar :: "('d, 'r) exchange \<Rightarrow> (string \<times> string \<rightharpoonup> string) \<Rightarrow> (string \<times> string \<rightharpoonup> string)" where
  "jar x j = fold store_cookie (ex_cookies x) j"

lemma cookie_keys [simp]: "accessCookie \<noteq> refreshCookie" "refreshCookie \<noteq> accessCookie"
  by (simp_all add: accessCookie_def refreshCookie_def)

text \<open>A logout removes whatever a login has set, and nothing else.\<close>

theorem logout_clears_login:
  assumes "SetCookies b t x e = (r, x1, e1)" "logout b x1 e1 = (r', x2, e2)"
  shows "jar x2 j = (jar x j)((accessCookie, accessPath) := None, (refreshCookie, refreshPath) := None)"
proof -
  have "wp (bnd (SetCookies b t) (\<lambda>_. logout b)) (\<lambda>_ x' _. jar x' j = (jar x j)((accessCookie, accessPath) := None, (refreshCookie, refreshPath) := None)) x e"
    by (simp add: SetCookies_def logout_def ClearCookies_def jar_def store_cookie_def auth_cookie_def Let_def fun_eq_iff)
  moreover have "r = Inr ()" using assms(1) by (auto simp: SetCookies_def SetCookie_def prog_defs Let_def split: if_splits)
  ultimately show ?thesis using assms by (simp add: wp_def bnd_def)
qed

subsection \<open>The cart page\<close>

text \<open>Whatever catalog and pricing answer, the page is written once, with status 200, and lists the lines of the cart in order with
  their quantities.\<close>

theorem cart_page_complete:
  fixes cs :: "'d cart_services"
  assumes "respondCart cs rq raw coupon x e = (r, x', e')"
  shows "\<exists>v. r = Inr () \<and> ex_writes x' = ex_writes x @ [(200, Answer v)] \<and> cv_ID v = cm_id raw \<and> cv_TotalQuantity v = cm_total_quantity raw \<and>
     map (\<lambda>l. (lv_ProductID l, lv_Quantity l)) (cv_Items v) = map (\<lambda>i. (ci_ProductID i, ci_Quantity i)) (cm_items raw)"
proof -
  define G where "G y \<longleftrightarrow> (\<exists>v. ex_writes y = ex_writes x @ [(200, Answer v)] \<and> cv_ID v = cm_id raw \<and> cv_TotalQuantity v = cm_total_quantity raw \<and>
     map (\<lambda>l. (lv_ProductID l, lv_Quantity l)) (cv_Items v) = map (\<lambda>i. (ci_ProductID i, ci_Quantity i)) (cm_items raw))" for y :: "('d, cart_view) exchange"
  have page: "G (x\<lparr>ex_down := d, ex_writes := ex_writes x @ [(200, Answer (applyQuoteTotals q v))]\<rparr>)"
    if "cv_ID v = cm_id raw" "cv_TotalQuantity v = cm_total_quantity raw" "cv_Items v = cartLineViews (cm_items raw) f q" for d q v f
    using that unfolding G_def
    by (intro exI [of _ "applyQuoteTotals q v"]) (auto simp: applyQuoteTotals_def cartLineViews_def cart_line_def Let_def comp_def split: option.splits)
  have never: "wp (quoteCartItems cs tok items c) (\<lambda>r _ _. \<exists>y. r = Inr y) d e" for tok items c d e
    by (auto simp: wp_def quoteCartItems_def prog_defs Let_def split: prod.splits sum.splits)
  have "wp (respondCart cs rq raw coupon) (\<lambda>r y _. r = Inr () \<and> G y) x e"
  proof (cases "cm_items raw = []")
    case True
    then show ?thesis by (auto simp: respondCart_def Let_def G_def empty_view_def)
  next
    case False
    have "wp (batchProductsByID cs tok items) (\<lambda>r d e'. wp (quoteCartItems cs tok items coupon) (\<lambda>r2 d2 _. \<exists>q er. r2 = Inr (q, er)) d e') d e" for tok items d e
      by (rule wp_always) (use never in \<open>auto elim!: wp_mono\<close>)
    note run = this [of "bff_bearer rq" "cm_items raw" "ex_down x" e]
    show ?thesis
      using False unfolding respondCart_def
      by (simp add: Let_def empty_view_def)
         (rule wp_mono [OF run], erule wp_mono, auto intro!: page)

  qed
  from wpD [OF this assms] show ?thesis by (auto simp: G_def)
qed

subsection \<open>The beacon\<close>

lemma trim_invalid_valid: "utf8_valid (trim_invalid s)"
  by (induction s rule: trim_invalid.induct) (subst trim_invalid.simps, simp)

lemma trim_invalid_prefix: "prefix (trim_invalid s) s"
proof (induction s rule: trim_invalid.induct)
  case (1 s)
  have "prefix (butlast s) s" by (cases s rule: rev_cases) auto
  then show ?case using 1 by (subst trim_invalid.simps) (auto intro: prefix_order.trans)
qed

lemma truncateBytes_bounds:
  "length (truncateBytes s n) \<le> n" "prefix (truncateBytes s n) s" "utf8_valid s \<Longrightarrow> utf8_valid (truncateBytes s n)"
proof -
  have p: "prefix (trim_invalid (take n s)) (take n s)" by (rule trim_invalid_prefix)
  show "length (truncateBytes s n) \<le> n" using prefix_length_le [OF p] by (auto simp: truncateBytes_def)
  show "prefix (truncateBytes s n) s" using p take_is_prefix prefix_order.trans by (fastforce simp: truncateBytes_def)
  show "utf8_valid s \<Longrightarrow> utf8_valid (truncateBytes s n)" by (simp add: truncateBytes_def trim_invalid_valid)
qed

definition beacon_ok :: "client_event \<Rightarrow> bool" where
  "beacon_ok ev \<longleftrightarrow> ce_Type ev \<noteq> TypeUnspecified \<and> length (ce_SessionId ev) \<le> 64 \<and> length (ce_Path ev) \<le> maxFieldBytes \<and>
     length (ce_Referrer ev) \<le> maxFieldBytes \<and> length (ce_ProductId ev) \<le> 64 \<and> length (ce_Query ev) \<le> maxFieldBytes \<and>
     length (ce_CurrencyCode ev) \<le> 3 \<and> length (ce_ClientTime ev) \<le> 40 \<and> length (ce_UserAgent ev) \<le> maxUABytes \<and>
     CHR ''?'' \<notin> set (ce_Path ev) \<and> CHR ''#'' \<notin> set (ce_Path ev)"

lemma pathOnly_clean: "CHR ''?'' \<notin> set (pathOnly s)" "CHR ''#'' \<notin> set (pathOnly s)"
  by (auto simp: pathOnly_def Let_def dest: set_takeWhileD)

lemma stamped_ok:
  assumes "map_of clientEventTypes typ = Some kind"
  shows "beacon_ok (stamped url_host kind anon owner (truncateBytes ua maxUABytes) t ev)"
proof -
  have "kind \<noteq> TypeUnspecified" using assms by (auto simp: clientEventTypes_def split: if_splits)
  moreover have "CHR ''?'' \<notin> set (truncateBytes (pathOnly p) n)" "CHR ''#'' \<notin> set (truncateBytes (pathOnly p) n)" for p n
    using pathOnly_clean [of p] set_mono_prefix [OF truncateBytes_bounds(2) [of "pathOnly p" n]] by auto
  ultimately show ?thesis by (simp add: beacon_ok_def stamped_def truncateBytes_bounds(1))
qed

text \<open>Whatever a browser posts, what is published keeps to the limits; an invariant of well-formed publications survives the
  beacon, and no more events are counted than the batch may hold.\<close>

lemma wp_publish_events:
  assumes pub: "\<And>ev d e. beacon_ok ev \<Longrightarrow> I d \<Longrightarrow> wp (send ev) (\<lambda>_ d' _. I d') d e"
    and mk: "\<And>typ kind ev. map_of clientEventTypes typ = Some kind \<Longrightarrow> beacon_ok (mk kind ev)"
  shows "I d \<Longrightarrow> wp (publish_events send mk evs n) (\<lambda>r d' _. I d' \<and> (\<exists>k. r = Inr k \<and> n \<le> k \<and> k \<le> n + length evs)) d e"
proof (induction evs arbitrary: n d e)
  case (Cons ev evs n d e)
  show ?case
  proof (cases "map_of clientEventTypes (be_Type ev)")
    case None
    have "wp (publish_events send mk evs n) (\<lambda>r d' _. I d' \<and> (\<exists>k. r = Inr k \<and> n \<le> k \<and> k \<le> n + length (ev # evs))) d e"
      by (rule wp_mono [OF Cons(1) [OF Cons(2)]]) auto
    with None show ?thesis by simp
  next
    case (Some kind)
    have "wp (publish_events send mk evs (Suc n)) (\<lambda>r d' _. I d' \<and> (\<exists>k. r = Inr k \<and> n \<le> k \<and> k \<le> Suc (n + length evs))) d' e'" if "I d'" for d' e'
      by (rule wp_mono [OF Cons(1) [OF that]]) auto
    then show ?thesis
      using Some Cons(2) by (auto intro!: wp_mono [OF pub [OF mk]] split: sum.splits)
  qed
qed simp

theorem beacon_within_limits:
  fixes send :: "string \<Rightarrow> client_event \<Rightarrow> ('d, unit) prog"
  assumes pub: "\<And>anon ev d e. beacon_ok ev \<Longrightarrow> I d \<Longrightarrow> wp (send anon ev) (\<lambda>_ d' _. I d') d e"
    and start: "I (ex_down x)"
    and run: "ingestEvents (Some send) parses url_host claims_sub decode rq x e = (r, x', e')"
  shows "I (ex_down x') \<and> (\<forall>n. (202, Answer n) \<in> set (ex_writes x') - set (ex_writes x) \<longrightarrow> n \<le> maxBeaconEvents)"
proof -
  define G where "G y \<longleftrightarrow> I (ex_down y) \<and> (\<forall>n. (202, Answer n) \<in> set (ex_writes y) - set (ex_writes x) \<longrightarrow> n \<le> maxBeaconEvents)" for y :: "('d, nat) exchange"
  have bad: "G (x\<lparr>ex_writes := ex_writes x @ [(400, GatewayErr a b)]\<rparr>)" for a b using start by (auto simp: G_def)
  define mk where "mk anon t = (\<lambda>kind. stamped url_host kind anon (subFromJWT claims_sub (bff_bearer rq)) (truncateBytes (rq_UserAgent rq) maxUABytes) t)" for anon t
  have loop: "wp (publish_events (send anon) (mk anon t) (take maxBeaconEvents evs) 0)
      (\<lambda>r d' _. \<exists>k. r = Inr k \<and> G (x\<lparr>ex_cookies := cs, ex_down := d', ex_writes := ex_writes x @ [(202, Answer k)]\<rparr>)) (ex_down x) e" for anon t evs cs e
    by (rule wp_mono [OF wp_publish_events [where I = I]]) (auto simp: G_def mk_def start intro: pub stamped_ok)
  have cookie: "wp (anonID parses rq) (\<lambda>r y _. \<exists>anon cs. r = Inr anon \<and> y = x\<lparr>ex_cookies := cs\<rparr>) x e" for e
  proof -
    have same: "\<exists>cs. x = x\<lparr>ex_cookies := cs\<rparr>" by (rule exI [of _ "ex_cookies x"]) simp
    show ?thesis unfolding anonID_def by (auto simp: same split: option.splits)
  qed
  have "wp (ingestEvents (Some send) parses url_host claims_sub decode rq) (\<lambda>_ y _. G y) x e"
    unfolding ingestEvents_def mk_def [symmetric]
    by (auto intro!: bad wp_mono [OF cookie] wp_mono [OF loop] split: option.splits)
  from wpD [OF this run] show ?thesis by (simp add: G_def)
qed

subsection \<open>The idempotency key of a checkout\<close>

text \<open>The gateway takes the key from the header or the body and sends it (\<open>checkout\<close>); the order service answers a request the
  same way whatever key it carries, and runs the saga with none.\<close>

theorem checkout_key_ignored:
  "srv_CreateOrder cl c (q\<lparr>co_IdempotencyKey := k\<rparr>) = srv_CreateOrder cl c q \<and> in_IdempotencyKey (input_of p q) = ''''"
  by (cases c) (simp_all add: srv_CreateOrder_def input_of_def)

theorem checkout_sends_key:
  assumes "bff_bearer rq \<noteq> ''''" "rq_cookies rq cartCookie = Some cart" "cart \<noteq> ''''" "TrimSpace (rq_IdempotencyKey rq) = k" "k \<noteq> ''''"
  shows "\<exists>q. co_IdempotencyKey q = k \<and> co_CartId q = cart \<and> checkout f b (True, kb) rq = answer 201 (f (bff_bearer rq) q)"
  using assms by (auto simp: checkout_def requireAuth_def cartID_def idempotencyKey_def Let_def bnd_def ret_def fun_eq_iff
      intro!: exI [of _ "\<lparr>co_CartId = cart, co_CurrencyCode = (if kb_CurrencyCode kb = '''' then ''USD'' else kb_CurrencyCode kb),
         co_CouponCode = kb_CouponCode kb, co_PaymentMethodToken = kb_PaymentMethodToken kb, co_ShipTo = kb_ShipTo kb,
         co_IdempotencyKey = k\<rparr>"])

end
